(* ===== verification/Prelude.thy ===== *)
theory Prelude
  imports Main
begin

text \<open>
  Shared ground of the development: the exceptions the modelled Python code can raise, a result
  type for code that may raise, the control structures the code is written with (sequences of
  checks, loops that may raise, try/except) and the rules that take such code apart.

  A Python function that returns an \<open>'a\<close> or raises is a HOL function into \<open>exn + 'a\<close>.
  A run of \<open>_require(...)\<close> statements is \<open>seqR\<close> of the list of the checks: the first one that
  raises decides the result, as in the code.
\<close>

section \<open>Exceptions and results\<close>

text \<open>
  The classes of the modules carry the code they are raised with (\<open>ProtocolError("...")\<close>); the
  built-in ones are told apart only where the code tells them apart. \<open>RemoteError\<close> also carries the
  request id, the phase and the HTTP status. \<open>ClientError\<close> is the class \<open>Error\<close> of \<open>src/cli/ott.py\<close>, whose messages only differ for
  the reader. Two are not Python exceptions: \<open>OutOfFuel\<close> marks a recursion bound of the model
  that was too small, and every model with a bound has a lemma that it never occurs; \<open>ScriptEnd\<close> marks
  the end of a finite script of what the environment does, such as the readings of a clock.
\<close>

datatype exn =
    KeyError
  | TypeError
  | AttributeError
  | ValueError
  | UnicodeError
  | OSError
  | IndexError
  | OverflowError
  | TransferError string
  | DocumentError string
  | ProtocolError string
  | TorrentError string
  | GlobalDocumentError string
  | GlobalProtocolError string
  | RemoteError string "int list option" "string option" "int option"
  | ClientError
  | KeyboardInterrupt
  | ScriptEnd
  | OutOfFuel

type_synonym 'a result = "exn + 'a"

text \<open>\<open>except ValueError\<close> also catches the subclasses of \<open>ValueError\<close>.\<close>

fun is_ValueError :: "exn \<Rightarrow> bool" where
  "is_ValueError ValueError = True"
| "is_ValueError UnicodeError = True"
| "is_ValueError (DocumentError _) = True"
| "is_ValueError (ProtocolError _) = True"
| "is_ValueError (TorrentError _) = True"
| "is_ValueError (GlobalDocumentError _) = True"
| "is_ValueError (GlobalProtocolError _) = True"
| "is_ValueError (RemoteError _ _ _ _) = True"
| "is_ValueError _ = False"

fun is_TransferError :: "exn \<Rightarrow> bool" where
  "is_TransferError (TransferError _) = True"
| "is_TransferError _ = False"

section \<open>Control structures\<close>

definition bindR :: "'a result \<Rightarrow> ('a \<Rightarrow> 'b result) \<Rightarrow> 'b result" where
  "bindR m f = (case m of Inl e \<Rightarrow> Inl e | Inr x \<Rightarrow> f x)"

definition raiseR :: "exn \<Rightarrow> 'a result" where
  "raiseR e = Inl e"

definition check :: "exn \<Rightarrow> bool \<Rightarrow> unit result" where
  "check e c = (if c then Inr () else Inl e)"

fun seqR :: "unit result list \<Rightarrow> unit result" where
  "seqR [] = Inr ()"
| "seqR (m # ms) = (case m of Inl e \<Rightarrow> Inl e | Inr _ \<Rightarrow> seqR ms)"

text \<open>\<open>for x in xs: body(x)\<close>, a body with a running state, and a comprehension.\<close>

fun forR :: "('a \<Rightarrow> unit result) \<Rightarrow> 'a list \<Rightarrow> unit result" where
  "forR f [] = Inr ()"
| "forR f (x # xs) = (case f x of Inl e \<Rightarrow> Inl e | Inr _ \<Rightarrow> forR f xs)"

fun foldR :: "('s \<Rightarrow> 'a \<Rightarrow> 's result) \<Rightarrow> 's \<Rightarrow> 'a list \<Rightarrow> 's result" where
  "foldR f s [] = Inr s"
| "foldR f s (x # xs) = (case f s x of Inl e \<Rightarrow> Inl e | Inr s' \<Rightarrow> foldR f s' xs)"

fun mapR :: "('a \<Rightarrow> 'b result) \<Rightarrow> 'a list \<Rightarrow> 'b list result" where
  "mapR f [] = Inr []"
| "mapR f (x # xs) =
     (case f x of Inl e \<Rightarrow> Inl e
      | Inr y \<Rightarrow> (case mapR f xs of Inl e \<Rightarrow> Inl e | Inr ys \<Rightarrow> Inr (y # ys)))"

text \<open>\<open>try: m except e if P(e): raise e'\<close>: every caught exception is replaced by one.\<close>

definition rethrow :: "(exn \<Rightarrow> bool) \<Rightarrow> exn \<Rightarrow> 'a result \<Rightarrow> 'a result" where
  "rethrow P e' m = (case m of Inl e \<Rightarrow> Inl (if P e then e' else e) | Inr x \<Rightarrow> Inr x)"

definition is_ok :: "'a result \<Rightarrow> bool" where
  "is_ok m = (case m of Inl _ \<Rightarrow> False | Inr _ \<Rightarrow> True)"

text \<open>The recursive equations stay out of the simplifier: the rules of the next section replace them.\<close>

declare seqR.simps(2) [simp del] forR.simps(2) [simp del] foldR.simps(2) [simp del]
  mapR.simps(2) [simp del]

lemmas loop_simps = seqR.simps(2) forR.simps(2) foldR.simps(2) mapR.simps(2)

section \<open>When code returns, and with what\<close>

named_theorems ok_iff \<open>when a construct returns normally\<close>

lemma bindR_ok [ok_iff]: "bindR m f = Inr y \<longleftrightarrow> (\<exists>x. m = Inr x \<and> f x = Inr y)"
  by (auto simp: bindR_def split: sum.splits)

lemma bindR_Inl [simp]: "bindR (Inl e) f = Inl e"
  by (simp add: bindR_def)

lemma bindR_Inr [simp]: "bindR (Inr x) f = f x"
  by (simp add: bindR_def)

lemma bindR_err: "bindR m f = Inl e \<longleftrightarrow> m = Inl e \<or> (\<exists>x. m = Inr x \<and> f x = Inl e)"
  by (auto simp: bindR_def split: sum.splits)

lemma check_ok [ok_iff]: "check e c = Inr x \<longleftrightarrow> c"
  by (simp add: check_def)

lemma check_True [simp]: "check e True = Inr ()"
  by (simp add: check_def)

lemma check_False [simp]: "check e False = Inl e"
  by (simp add: check_def)

lemma check_err: "check e c = Inl e' \<longleftrightarrow> \<not> c \<and> e' = e"
  by (auto simp: check_def)

lemma raiseR_ok [ok_iff]: "raiseR e = Inr x \<longleftrightarrow> False"
  by (simp add: raiseR_def)

lemma seqR_Nil_ok [ok_iff]: "seqR [] = Inr x \<longleftrightarrow> True"
  by simp

lemma seqR_Cons_ok [ok_iff]: "seqR (m # ms) = Inr x \<longleftrightarrow> m = Inr () \<and> seqR ms = Inr ()"
  by (cases m) (auto simp: loop_simps)

lemma seqR_append [simp]: "seqR (ms @ ns) = bindR (seqR ms) (\<lambda>_. seqR ns)"
  by (induction ms) (auto simp: loop_simps split: sum.splits)

lemma forR_ok [ok_iff]: "forR f xs = Inr y \<longleftrightarrow> (\<forall>x \<in> set xs. f x = Inr ())"
  by (induction xs) (auto simp: loop_simps split: sum.splits)

lemma rethrow_ok [ok_iff]: "rethrow P e m = Inr x \<longleftrightarrow> m = Inr x"
  by (auto simp: rethrow_def split: sum.splits)

lemma rethrow_Inr [simp]: "rethrow P e (Inr x) = Inr x"
  by (simp add: rethrow_def)

lemma mapR_ok [ok_iff]: "mapR f xs = Inr ys \<longleftrightarrow> list_all2 (\<lambda>x y. f x = Inr y) xs ys"
proof (induction xs arbitrary: ys)
  case Nil
  then show ?case by auto
next
  case (Cons x xs)
  have "mapR f (x # xs) = Inr ys \<longleftrightarrow>
      (\<exists>z zs. ys = z # zs \<and> f x = Inr z \<and> mapR f xs = Inr zs)"
    by (auto simp: loop_simps split: sum.splits)
  then show ?case
    by (simp only: Cons.IH list_all2_Cons1)
qed

lemma is_ok_iff: "is_ok m \<longleftrightarrow> (\<exists>x. m = Inr x)"
  by (auto simp: is_ok_def split: sum.splits)

lemma foldR_Nil_ok [ok_iff]: "foldR f s [] = Inr t \<longleftrightarrow> t = s"
  by auto

lemma foldR_Cons_ok [ok_iff]:
  "foldR f s (x # xs) = Inr t \<longleftrightarrow> (\<exists>s'. f s x = Inr s' \<and> foldR f s' xs = Inr t)"
  by (auto simp: loop_simps split: sum.splits)

text \<open>A loop keeps an invariant of its state that each round keeps.\<close>

lemma foldR_invariant:
  assumes "foldR f s xs = Inr t" and "I s"
    and "\<And>s x s'. I s \<Longrightarrow> x \<in> set xs \<Longrightarrow> f s x = Inr s' \<Longrightarrow> I s'"
  shows "I t"
  using assms
proof (induction xs arbitrary: s)
  case Nil
  then show ?case by simp
next
  case (Cons x xs)
  from Cons.prems(1) obtain s' where s': "f s x = Inr s'" "foldR f s' xs = Inr t"
    by (auto simp: ok_iff)
  show ?case
    by (rule Cons.IH [OF s'(2)]) (use Cons.prems s' in auto)
qed

lemma foldR_member: "foldR f s xs = Inr t \<Longrightarrow> x \<in> set xs \<Longrightarrow> \<exists>s' s''. f s' x = Inr s''"
  by (induction xs arbitrary: s) (auto simp: ok_iff)

section \<open>Which exceptions code can raise\<close>

definition raises_only :: "(exn \<Rightarrow> bool) \<Rightarrow> 'a result \<Rightarrow> bool" where
  "raises_only P m = (case m of Inl e \<Rightarrow> P e | Inr _ \<Rightarrow> True)"

named_theorems raises \<open>which exceptions a construct lets through\<close>

lemma raises_only_Inr [raises, simp]: "raises_only P (Inr x)"
  by (simp add: raises_only_def)

lemma raises_only_Inl [simp]: "raises_only P (Inl e) \<longleftrightarrow> P e"
  by (simp add: raises_only_def)

lemma raises_onlyD: "raises_only P m \<Longrightarrow> m = Inl e \<Longrightarrow> P e"
  by (simp add: raises_only_def)

lemma raises_onlyI: "(\<And>e. m = Inl e \<Longrightarrow> P e) \<Longrightarrow> raises_only P m"
  by (auto simp: raises_only_def split: sum.splits)

lemma raises_only_bindR [raises]:
  "raises_only P m \<Longrightarrow> (\<And>x. m = Inr x \<Longrightarrow> raises_only P (f x)) \<Longrightarrow> raises_only P (bindR m f)"
  by (auto simp: raises_only_def bindR_def split: sum.splits)

lemma raises_only_check [raises]: "P e \<Longrightarrow> raises_only P (check e c)"
  by (simp add: raises_only_def check_def)

lemma raises_only_raiseR [raises]: "P e \<Longrightarrow> raises_only P (raiseR e)"
  by (simp add: raises_only_def raiseR_def)

lemma raises_only_seqR_Nil [raises]: "raises_only P (seqR [])"
  by simp

lemma raises_only_seqR_Cons [raises]:
  "raises_only P m \<Longrightarrow> (m = Inr () \<Longrightarrow> raises_only P (seqR ms)) \<Longrightarrow> raises_only P (seqR (m # ms))"
  by (auto simp: raises_only_def loop_simps split: sum.splits)

lemma raises_only_forR [raises]:
  "(\<And>x. x \<in> set xs \<Longrightarrow> raises_only P (f x)) \<Longrightarrow> raises_only P (forR f xs)"
proof (induction xs)
  case (Cons x xs)
  from Cons.prems [of x] Cons.IH Cons.prems show ?case
    by (cases "f x") (auto simp: loop_simps)
qed simp

lemma raises_foldR [raises]:
  "(\<And>s x. x \<in> set xs \<Longrightarrow> raises_only P (f s x)) \<Longrightarrow> raises_only P (foldR f s xs)"
proof (induction xs arbitrary: s)
  case (Cons x xs)
  from Cons.prems [of x s] Cons.IH Cons.prems show ?case by (cases "f s x") (auto simp: loop_simps)
qed simp

lemma raises_only_if [raises]:
  "(c \<Longrightarrow> raises_only P a) \<Longrightarrow> (\<not> c \<Longrightarrow> raises_only P b) \<Longrightarrow> raises_only P (if c then a else b)"
  by simp

lemma raises_only_rethrow [raises]:
  "P e' \<Longrightarrow> raises_only (\<lambda>e. Q e \<or> P e) m \<Longrightarrow> raises_only P (rethrow Q e' m)"
  by (auto simp: raises_only_def rethrow_def split: sum.splits)

lemma raises_only_mono: "raises_only P m \<Longrightarrow> (\<And>e. P e \<Longrightarrow> Q e) \<Longrightarrow> raises_only Q m"
  by (auto simp: raises_only_def split: sum.splits)

section \<open>Association lists\<close>

lemma map_of_filter_fst: "map_of (filter (\<lambda>(k, _). k \<in> A) kv) k = (if k \<in> A then map_of kv k else None)"
  by (induction kv) auto

lemma map_of_some_mem: "map_of kv k = Some v \<Longrightarrow> k \<in> fst ` set kv"
  by (metis map_of_SomeD image_eqI fst_conv)

end
