(* ===== verification/PyText.thy ===== *)
theory PyText
  imports Prelude "HOL-Library.Word" "HOL-Library.List_Lexorder" "HOL-Library.Product_Lexorder"
begin

text \<open>
  Python text and bytes. A \<open>str\<close> is its list of code points (an \<open>int\<close> each, lone surrogates
  included, as \<open>ord\<close> reads them), \<open>bytes\<close> is a list of 8-bit words. UTF-8 encoding and strict
  decoding, the lengths the code bounds, and the regular expressions the code matches whole
  strings against, each as a predicate that evaluates. The last section proves that decoding
  inverts encoding.
\<close>

type_synonym pystr = "int list"
type_synonym byte = "8 word"
type_synonym bytes = "byte list"

text \<open>An ASCII literal of the source.\<close>

definition u :: "string \<Rightarrow> pystr" where
  "u s = map of_char s"

definition ascii :: "string \<Rightarrow> bytes" where
  "ascii s = map of_char s"

lemma u_inject [simp]: "u s = u t \<longleftrightarrow> s = t"
  unfolding u_def by (rule inj_map_eq_map) (simp add: inj_on_def)

lemma u_Nil [simp]: "u [] = []"
  by (simp add: u_def)

lemma u_eq_Nil [simp]: "u s = [] \<longleftrightarrow> s = []"
  by (simp add: u_def)

lemma length_u [simp]: "length (u s) = length s"
  by (simp add: u_def)

definition plen :: "'a list \<Rightarrow> int" where
  "plen s = int (length s)"

lemma plen_simps [simp]:
  "plen [] = 0" "plen (x # xs) = plen xs + 1" "plen (xs @ ys) = plen xs + plen ys"
  "plen (map f xs) = plen xs" "0 \<le> plen xs" "plen xs = 0 \<longleftrightarrow> xs = []" "0 < plen xs \<longleftrightarrow> xs \<noteq> []"
  by (auto simp: plen_def)

section \<open>UTF-8\<close>

definition byte_of :: "int \<Rightarrow> byte" where
  "byte_of v = word_of_int v"

lemma uint_byte_of: "0 \<le> v \<Longrightarrow> v < 256 \<Longrightarrow> uint (byte_of v) = v"
  by (simp add: byte_of_def uint_word_of_int)

definition surrogate :: "int \<Rightarrow> bool" where
  "surrogate c \<longleftrightarrow> 55296 \<le> c \<and> c \<le> 57343"

text \<open>\<open>str.encode("utf-8")\<close> of one code point; \<open>None\<close> where it raises UnicodeEncodeError.\<close>

definition utf8_char :: "int \<Rightarrow> bytes option" where
  "utf8_char c =
     (if c < 0 \<or> 1114111 < c \<or> surrogate c then None
      else if c < 128 then Some [byte_of c]
      else if c < 2048 then Some [byte_of (192 + c div 64), byte_of (128 + c mod 64)]
      else if c < 65536 then
        Some [byte_of (224 + c div 4096), byte_of (128 + c div 64 mod 64),
              byte_of (128 + c mod 64)]
      else Some [byte_of (240 + c div 262144), byte_of (128 + c div 4096 mod 64),
              byte_of (128 + c div 64 mod 64), byte_of (128 + c mod 64)])"

fun utf8_encode :: "pystr \<Rightarrow> bytes result" where
  "utf8_encode [] = Inr []"
| "utf8_encode (c # cs) =
     (case utf8_char c of None \<Rightarrow> Inl UnicodeError
      | Some b \<Rightarrow> bindR (utf8_encode cs) (\<lambda>bs. Inr (b @ bs)))"

definition cont :: "byte \<Rightarrow> bool" where
  "cont b \<longleftrightarrow> 128 \<le> uint b \<and> uint b < 192"

text \<open>\<open>bytes.decode("utf-8")\<close>: strict, so no overlong forms, surrogates or values past U+10FFFF.\<close>

fun utf8_decode :: "bytes \<Rightarrow> pystr result" where
  "utf8_decode [] = Inr []"
| "utf8_decode (a # r) =
     (if uint a < 128 then bindR (utf8_decode r) (\<lambda>s. Inr (uint a # s))
      else if uint a < 194 then Inl UnicodeError
      else if uint a < 224 then
        (case r of b # r' \<Rightarrow>
           if cont b
           then bindR (utf8_decode r') (\<lambda>s. Inr (((uint a - 192) * 64 + (uint b - 128)) # s))
           else Inl UnicodeError
         | _ \<Rightarrow> Inl UnicodeError)
      else if uint a < 240 then
        (case r of b # d # r' \<Rightarrow>
           (let v = (uint a - 224) * 4096 + (uint b - 128) * 64 + (uint d - 128)
            in if cont b \<and> cont d \<and> 2048 \<le> v \<and> \<not> surrogate v
               then bindR (utf8_decode r') (\<lambda>s. Inr (v # s)) else Inl UnicodeError)
         | _ \<Rightarrow> Inl UnicodeError)
      else if uint a < 245 then
        (case r of b # d # e # r' \<Rightarrow>
           (let v = (uint a - 240) * 262144 + (uint b - 128) * 4096 + (uint d - 128) * 64
                    + (uint e - 128)
            in if cont b \<and> cont d \<and> cont e \<and> 65536 \<le> v \<and> v \<le> 1114111
               then bindR (utf8_decode r') (\<lambda>s. Inr (v # s)) else Inl UnicodeError)
         | _ \<Rightarrow> Inl UnicodeError)
      else Inl UnicodeError)"

text \<open>\<open>len(s.encode("utf-16-le")) // 2\<close>: the UTF-16 code units of a text without surrogates.\<close>

definition utf16_units :: "pystr \<Rightarrow> int result" where
  "utf16_units s =
     (if list_ex surrogate s then Inl UnicodeError
      else Inr (sum_list (map (\<lambda>c. if 65536 \<le> c then 2 else 1) s)))"

section \<open>Character classes and whole-string patterns\<close>

definition is_digit :: "int \<Rightarrow> bool" where
  "is_digit c \<longleftrightarrow> 48 \<le> c \<and> c \<le> 57"

definition is_lower :: "int \<Rightarrow> bool" where
  "is_lower c \<longleftrightarrow> 97 \<le> c \<and> c \<le> 122"

definition is_upper :: "int \<Rightarrow> bool" where
  "is_upper c \<longleftrightarrow> 65 \<le> c \<and> c \<le> 90"

definition is_hex :: "int \<Rightarrow> bool" where
  "is_hex c \<longleftrightarrow> is_digit c \<or> 97 \<le> c \<and> c \<le> 102"

definition is_alnum :: "int \<Rightarrow> bool" where
  "is_alnum c \<longleftrightarrow> is_digit c \<or> is_lower c \<or> is_upper c"

definition one_of :: "string \<Rightarrow> int \<Rightarrow> bool" where
  "one_of s c \<longleftrightarrow> c \<in> set (u s)"

text \<open>
  \<open>seq_pat ps\<close>: one character class per position. \<open>rep_pat P lo hi\<close>: \<open>P{lo,hi}\<close>.
  \<open>head_pat H T hi\<close>: \<open>H T{0,hi}\<close>.
\<close>

definition seq_pat :: "(int \<Rightarrow> bool) list \<Rightarrow> pystr \<Rightarrow> bool" where
  "seq_pat ps s \<longleftrightarrow> list_all2 (\<lambda>p c. p c) ps s"

definition rep_pat :: "(int \<Rightarrow> bool) \<Rightarrow> int \<Rightarrow> int \<Rightarrow> pystr \<Rightarrow> bool" where
  "rep_pat P lo hi s \<longleftrightarrow> lo \<le> plen s \<and> plen s \<le> hi \<and> list_all P s"

definition head_pat :: "(int \<Rightarrow> bool) \<Rightarrow> (int \<Rightarrow> bool) \<Rightarrow> int \<Rightarrow> pystr \<Rightarrow> bool" where
  "head_pat H T hi s = (case s of [] \<Rightarrow> False | c # cs \<Rightarrow> H c \<and> plen cs \<le> hi \<and> list_all T cs)"

definition uuid4_pat :: "pystr \<Rightarrow> bool" where
  "uuid4_pat = seq_pat
     (replicate 8 is_hex @ [one_of ''-''] @ replicate 4 is_hex @ [one_of ''-'', one_of ''4'']
      @ replicate 3 is_hex @ [one_of ''-'', one_of ''89ab''] @ replicate 3 is_hex
      @ [one_of ''-''] @ replicate 12 is_hex)"

definition digest_pat :: "pystr \<Rightarrow> bool" where
  "digest_pat = rep_pat is_hex 64 64"

definition request_id_pat :: "pystr \<Rightarrow> bool" where
  "request_id_pat = rep_pat is_hex 32 32"

definition runtime_pat :: "pystr \<Rightarrow> bool" where
  "runtime_pat = rep_pat (\<lambda>c. is_lower c \<or> is_digit c \<or> one_of ''-'' c) 1 64"

text \<open>\<open>any(ord(c) < 32 or ord(c) == 127 for c in value)\<close>.\<close>

definition has_control :: "pystr \<Rightarrow> bool" where
  "has_control s \<longleftrightarrow> list_ex (\<lambda>c. c < 32 \<or> c = 127) s"

fun split_on :: "int \<Rightarrow> pystr \<Rightarrow> pystr list" where
  "split_on d [] = [[]]"
| "split_on d (c # cs) =
     (if c = d then [] # split_on d cs
      else (case split_on d cs of [] \<Rightarrow> [[c]] | w # ws \<Rightarrow> (c # w) # ws))"

fun starts_with :: "pystr \<Rightarrow> pystr \<Rightarrow> bool" where
  "starts_with [] s = True"
| "starts_with (p # ps) [] = False"
| "starts_with (p # ps) (c # cs) = (p = c \<and> starts_with ps cs)"

fun contains_sub :: "pystr \<Rightarrow> pystr \<Rightarrow> bool" where
  "contains_sub p [] = (p = [])"
| "contains_sub p (c # cs) = (starts_with p (c # cs) \<or> contains_sub p cs)"

fun replace_char :: "int \<Rightarrow> pystr \<Rightarrow> pystr \<Rightarrow> pystr" where
  "replace_char d w [] = []"
| "replace_char d w (c # cs) = (if c = d then w else [c]) @ replace_char d w cs"

lemma starts_with_append: "starts_with p s \<longleftrightarrow> (\<exists>t. s = p @ t)"
  by (induction p s rule: starts_with.induct) auto

lemma split_on_not_Nil [simp]: "split_on d s \<noteq> []"
  by (cases s) (auto split: list.splits)

text \<open>
  Python orders strings by code points, a prefix before its extensions: the order that
  \<open>List_Lexorder\<close> puts on \<open>int list\<close>, so \<open>\<le>\<close>, \<open>sort\<close> and \<open>sort_key\<close> apply to texts.
\<close>

section \<open>Decoding inverts encoding\<close>

lemma utf8_decode_1:
  "uint a < 128 \<Longrightarrow> utf8_decode (a # r) = bindR (utf8_decode r) (\<lambda>s. Inr (uint a # s))"
  by simp

lemma utf8_decode_2:
  "uint a = 192 + p \<Longrightarrow> uint b = 128 + q \<Longrightarrow> 2 \<le> p \<Longrightarrow> p < 32 \<Longrightarrow> 0 \<le> q \<Longrightarrow> q < 64 \<Longrightarrow>
   utf8_decode (a # b # r) = bindR (utf8_decode r) (\<lambda>s. Inr ((p * 64 + q) # s))"
  by (simp add: cont_def)

lemma utf8_decode_3:
  assumes "uint a = 224 + p" "uint b = 128 + q" "uint d = 128 + t"
    and "0 \<le> p" "p < 16" "0 \<le> q" "q < 64" "0 \<le> t" "t < 64"
    and "v = p * 4096 + q * 64 + t" "2048 \<le> v" "\<not> surrogate v"
  shows "utf8_decode (a # b # d # r) = bindR (utf8_decode r) (\<lambda>s. Inr (v # s))"
proof -
  have "(uint a - 224) * 4096 + (uint b - 128) * 64 + (uint d - 128) = v"
    using assms by simp
  moreover have "cont b" "cont d" "\<not> uint a < 224" "uint a < 240"
    using assms by (auto simp: cont_def)
  ultimately show ?thesis
    using assms(11,12) by (subst utf8_decode.simps) (simp del: utf8_decode.simps add: Let_def)
qed

lemma utf8_decode_4:
  assumes "uint a = 240 + p" "uint b = 128 + q" "uint d = 128 + t" "uint e = 128 + w"
    and "0 \<le> p" "p < 5" "0 \<le> q" "q < 64" "0 \<le> t" "t < 64" "0 \<le> w" "w < 64"
    and "v = p * 262144 + q * 4096 + t * 64 + w" "65536 \<le> v" "v \<le> 1114111"
  shows "utf8_decode (a # b # d # e # r) = bindR (utf8_decode r) (\<lambda>s. Inr (v # s))"
proof -
  have "(uint a - 240) * 262144 + (uint b - 128) * 4096 + (uint d - 128) * 64 + (uint e - 128) = v"
    using assms by simp
  moreover have "cont b" "cont d" "cont e" "\<not> uint a < 240" "uint a < 245"
    using assms by (auto simp: cont_def)
  ultimately show ?thesis
    using assms(14,15) by (subst utf8_decode.simps) (simp del: utf8_decode.simps add: Let_def)
qed

lemma six_bit_groups:
  fixes c :: int
  shows "c = c div 64 * 64 + c mod 64" "0 \<le> c mod 64" "c mod 64 < 64"
    "c = c div 4096 * 4096 + c div 64 mod 64 * 64 + c mod 64"
    "c = c div 262144 * 262144 + c div 4096 mod 64 * 4096 + c div 64 mod 64 * 64 + c mod 64"
proof -
  have d: "y = y div 64 * 64 + y mod 64" for y :: int
    by simp
  have e: "c div 4096 = c div 64 div 64" "c div 262144 = c div 4096 div 64"
    by (simp_all flip: zdiv_zmult2_eq)
  show "c = c div 64 * 64 + c mod 64" "0 \<le> c mod 64" "c mod 64 < 64"
    by simp_all
  show "c = c div 4096 * 4096 + c div 64 mod 64 * 64 + c mod 64"
    using d [of c] d [of "c div 64"] e by linarith
  then show "c = c div 262144 * 262144 + c div 4096 mod 64 * 4096 + c div 64 mod 64 * 64 + c mod 64"
    using d [of "c div 4096"] e by linarith
qed

lemma utf8_char_decode:
  assumes "utf8_char c = Some b"
  shows "utf8_decode (b @ r) = bindR (utf8_decode r) (\<lambda>s. Inr (c # s))"
proof -
  from assms have c: "0 \<le> c" "c \<le> 1114111" "\<not> surrogate c"
    by (auto simp: utf8_char_def split: if_splits)
  consider "c < 128" | "128 \<le> c" "c < 2048" | "2048 \<le> c" "c < 65536" | "65536 \<le> c"
    by linarith
  then show ?thesis
  proof cases
    case 1
    with assms c have "b = [byte_of c]" "uint (byte_of c) = c"
      by (auto simp: utf8_char_def uint_byte_of)
    with 1 show ?thesis
      using utf8_decode_1 [of "byte_of c" r] by simp
  next
    case 2
    define p q where "p = c div 64" and "q = c mod 64"
    from 2 have q: "2 \<le> p" "p < 32" "0 \<le> q" "q < 64" "c = p * 64 + q"
      unfolding p_def q_def by presburger+
    have b: "b = [byte_of (192 + p), byte_of (128 + q)]"
      using assms c 2 by (simp add: utf8_char_def p_def q_def)
    have "utf8_decode (byte_of (192 + p) # byte_of (128 + q) # r) =
        bindR (utf8_decode r) (\<lambda>s. Inr ((p * 64 + q) # s))"
      by (rule utf8_decode_2) (use q in \<open>simp_all add: uint_byte_of\<close>)
    then show ?thesis
      unfolding b using q(5) by simp
  next
    case 3
    define p q t where "p = c div 4096" and "q = c div 64 mod 64" and "t = c mod 64"
    from 3 have q: "0 \<le> p" "p < 16" "0 \<le> q" "q < 64" "0 \<le> t" "t < 64"
      "c = p * 4096 + q * 64 + t"
      using six_bit_groups [of c] six_bit_groups [of "c div 64"] unfolding p_def q_def t_def
      by linarith+
    have b: "b = [byte_of (224 + p), byte_of (128 + q), byte_of (128 + t)]"
      using assms c 3 by (simp add: utf8_char_def p_def q_def t_def)
    have "utf8_decode (byte_of (224 + p) # byte_of (128 + q) # byte_of (128 + t) # r) =
        bindR (utf8_decode r) (\<lambda>s. Inr (c # s))"
      by (rule utf8_decode_3) (use q c 3 in \<open>simp_all add: uint_byte_of\<close>)
    then show ?thesis
      unfolding b by simp
  next
    case 4
    define p q t w where "p = c div 262144" and "q = c div 4096 mod 64"
      and "t = c div 64 mod 64" and "w = c mod 64"
    from 4 c have q: "0 \<le> p" "p < 5" "0 \<le> q" "q < 64" "0 \<le> t" "t < 64" "0 \<le> w" "w < 64"
      "c = p * 262144 + q * 4096 + t * 64 + w"
      using six_bit_groups [of c] six_bit_groups [of "c div 64"] six_bit_groups [of "c div 4096"]
      unfolding p_def q_def t_def w_def by linarith+
    have b: "b = [byte_of (240 + p), byte_of (128 + q), byte_of (128 + t), byte_of (128 + w)]"
      using assms c 4 by (simp add: utf8_char_def p_def q_def t_def w_def)
    have "utf8_decode (byte_of (240 + p) # byte_of (128 + q) # byte_of (128 + t)
          # byte_of (128 + w) # r) = bindR (utf8_decode r) (\<lambda>s. Inr (c # s))"
      by (rule utf8_decode_4) (use q c 4 in \<open>simp_all add: uint_byte_of\<close>)
    then show ?thesis
      unfolding b by simp
  qed
qed

lemma utf8_roundtrip: "utf8_encode s = Inr b \<Longrightarrow> utf8_decode b = Inr s"
proof (induction s arbitrary: b)
  case Nil
  then show ?case by simp
next
  case (Cons c cs)
  from Cons.prems obtain x y where "utf8_char c = Some x" "utf8_encode cs = Inr y" "b = x @ y"
    by (auto simp: ok_iff split: option.splits)
  with Cons.IH [of y] show ?case
    by (simp add: utf8_char_decode)
qed

lemma utf8_encode_inject: "utf8_encode s = Inr b \<Longrightarrow> utf8_encode t = Inr b \<Longrightarrow> s = t"
  by (metis utf8_roundtrip sum.inject(2))

lemma utf8_char_length: "utf8_char c = Some b \<Longrightarrow> 1 \<le> length b"
  by (auto simp: utf8_char_def split: if_splits)

lemma utf8_length: "utf8_encode s = Inr b \<Longrightarrow> plen s \<le> plen b"
proof (induction s arbitrary: b)
  case (Cons c cs)
  then obtain x y where "utf8_char c = Some x" "utf8_encode cs = Inr y" "b = x @ y"
    by (auto simp: ok_iff split: option.splits)
  with Cons.IH [of y] utf8_char_length [of c x] show ?case
    by (simp add: plen_def)
qed simp

lemma utf8_encode_append:
  "utf8_encode (s @ t) = bindR (utf8_encode s) (\<lambda>a. bindR (utf8_encode t) (\<lambda>b. Inr (a @ b)))"
proof (induction s)
  case Nil
  then show ?case by (cases "utf8_encode t") auto
next
  case (Cons c cs)
  then show ?case
    by (cases "utf8_encode cs"; cases "utf8_encode t") (auto split: option.splits)
qed

text \<open>ASCII text encodes to its own bytes.\<close>

lemma utf8_encode_ascii: "\<forall>c \<in> set s. 0 \<le> c \<and> c < 128 \<Longrightarrow> utf8_encode s = Inr (map byte_of s)"
  by (induction s) (auto simp: utf8_char_def surrogate_def)

lemma utf8_encode_raises: "raises_only (\<lambda>e. e = UnicodeError) (utf8_encode s)"
  by (induction s) (auto simp: bindR_err raises_only_def split: option.splits sum.splits)

end
