(* ===== verification/PyFloat.thy ===== *)
theory PyFloat
  imports PyText
begin

text \<open>
  Python's \<open>float\<close>: IEEE-754 binary64. \<open>float_of_decimal\<close> is the correctly rounded conversion of
  a decimal literal (\<open>float(text)\<close>), \<open>float_repr\<close> the shortest decimal text that converts back
  (\<open>repr(x)\<close>, what \<open>json.dumps\<close> writes). The code only meets floats in JSON it is about to reject
  or re-serialise; no accepted favorites document holds one.
\<close>

text \<open>\<open>FFin s m e\<close> is \<open>(-1)^s * m * 2^e\<close>, with \<open>m < 2^53\<close> and \<open>e \<ge> -1074\<close>.\<close>

datatype pyfloat = FFin bool nat int | FInf bool | FNan

fun is_finite :: "pyfloat \<Rightarrow> bool" where
  "is_finite (FFin _ _ _) = True"
| "is_finite _ = False"

fun bit_len :: "nat \<Rightarrow> nat" where
  "bit_len n = (if n = 0 then 0 else Suc (bit_len (n div 2)))"

declare bit_len.simps [simp del]

definition round_half_even :: "nat \<Rightarrow> nat \<Rightarrow> nat" where
  "round_half_even a b =
     (let q = a div b; r = a mod b
      in if 2 * r < b then q else if b < 2 * r then q + 1 else if even q then q else q + 1)"

text \<open>\<open>scale n e\<close>: the fraction \<open>n * 2^e\<close> as numerator and denominator factors.\<close>

definition pow2 :: "int \<Rightarrow> nat \<times> nat" where
  "pow2 e = (if 0 \<le> e then (2 ^ nat e, 1) else (1, 2 ^ nat (- e)))"

definition pow10 :: "int \<Rightarrow> nat \<times> nat" where
  "pow10 e = (if 0 \<le> e then (10 ^ nat e, 1) else (1, 10 ^ nat (- e)))"

text \<open>The binary64 nearest to \<open>num / den\<close>, ties to even.\<close>

definition nearest_double :: "bool \<Rightarrow> nat \<Rightarrow> nat \<Rightarrow> pyfloat" where
  "nearest_double s num den =
     (if num = 0 then FFin s 0 (- 1074)
      else
        let k = int (bit_len num) - int (bit_len den);
            (pn, pd) = pow2 k;
            fl = (if den * pn \<le> num * pd then k else k - 1);
            e = max (fl - 52) (- 1074);
            (en, ed) = pow2 e;
            m = round_half_even (num * ed) (den * en)
        in if m = 2 ^ 53 then (if 970 < e then FInf s else FFin s (2 ^ 52) (e + 1))
           else if 971 < e then FInf s else FFin s m e)"

definition float_of_decimal :: "bool \<Rightarrow> nat \<Rightarrow> int \<Rightarrow> pyfloat" where
  "float_of_decimal s d x = (case pow10 x of (xn, xd) \<Rightarrow> nearest_double s (d * xn) xd)"

section \<open>The shortest decimal text\<close>

fun dec_digits :: "nat \<Rightarrow> pystr" where
  "dec_digits n = (if n < 10 then [48 + int n] else dec_digits (n div 10) @ [48 + int (n mod 10)])"

declare dec_digits.simps [simp del]

text \<open>The \<open>p\<close> with \<open>10^(p-1) \<le> num/den < 10^p\<close>, for a positive fraction.\<close>

definition dec_exponent :: "nat \<Rightarrow> nat \<Rightarrow> int" where
  "dec_exponent num den =
     (if den \<le> num then int (length (dec_digits (num div den)))
      else 1 - int (length (dec_digits ((den - 1) div num))))"

text \<open>The \<open>n\<close>-digit integers around the scaled value that convert back to it, the nearest first.\<close>

definition repr_candidate :: "pyfloat \<Rightarrow> nat \<Rightarrow> nat \<Rightarrow> int \<Rightarrow> nat \<Rightarrow> nat option" where
  "repr_candidate x num den p n =
     (let (sn, sd) = pow10 (int n - p);
          lo = num * sn div (den * sd);
          near = round_half_even (num * sn) (den * sd);
          far = (if near = lo then lo + 1 else lo);
          back = (\<lambda>d. float_of_decimal False d (p - int n) = x)
      in if back near then Some near else if back far then Some far else None)"

fun repr_search :: "pyfloat \<Rightarrow> nat \<Rightarrow> nat \<Rightarrow> int \<Rightarrow> nat list \<Rightarrow> nat \<times> int" where
  "repr_search x num den p [] = (num * fst (pow10 (17 - p)) div (den * snd (pow10 (17 - p))), p - 17)"
| "repr_search x num den p (n # ns) =
     (case repr_candidate x num den p n of Some d \<Rightarrow> (d, p - int n)
      | None \<Rightarrow> repr_search x num den p ns)"

definition strip_zeros :: "pystr \<Rightarrow> pystr" where
  "strip_zeros ds = (case rev (dropWhile (\<lambda>c. c = 48) (rev ds)) of [] \<Rightarrow> [48] | r \<Rightarrow> r)"

definition format_repr :: "pystr \<Rightarrow> int \<Rightarrow> pystr" where
  "format_repr ds decpt =
     (if decpt \<le> - 4 \<or> 16 < decpt then
        [hd ds] @ (if tl ds = [] then [] else 46 # tl ds) @ u ''e''
        @ (if decpt - 1 < 0 then u ''-'' else u ''+'')
        @ (let e = dec_digits (nat \<bar>decpt - 1\<bar>) in if length e < 2 then 48 # e else e)
      else if decpt \<le> 0 then u ''0.'' @ replicate (nat (- decpt)) 48 @ ds
      else if plen ds \<le> decpt then ds @ replicate (nat (decpt - plen ds)) 48 @ u ''.0''
      else take (nat decpt) ds @ u ''.'' @ drop (nat decpt) ds)"

fun float_repr :: "pyfloat \<Rightarrow> pystr" where
  "float_repr FNan = u ''nan''"
| "float_repr (FInf s) = (if s then u ''-inf'' else u ''inf'')"
| "float_repr (FFin s m e) =
     (if s then u ''-'' else []) @
     (if m = 0 then u ''0.0''
      else
        let (pn, pd) = pow2 e; num = m * pn; p = dec_exponent num pd;
            (d, x) = repr_search (FFin False m e) num pd p [1..<18]; ds = dec_digits d
        in format_repr (strip_zeros ds) (plen ds + x))"

text \<open>Python's \<open>==\<close> between numbers: by value, NaN equal to nothing.\<close>

fun float_eq :: "pyfloat \<Rightarrow> pyfloat \<Rightarrow> bool" where
  "float_eq (FFin s m e) (FFin s' m' e') =
     (m = 0 \<and> m' = 0 \<or> s = s' \<and> m * fst (pow2 e) * snd (pow2 e') = m' * fst (pow2 e') * snd (pow2 e))"
| "float_eq (FInf s) (FInf s') = (s = s')"
| "float_eq _ _ = False"

fun float_eq_int :: "pyfloat \<Rightarrow> int \<Rightarrow> bool" where
  "float_eq_int (FFin s m e) i =
     ((if s then - 1 else 1) * int (m * fst (pow2 e)) = i * int (snd (pow2 e)))"
| "float_eq_int _ _ = False"

section \<open>Decimal digits\<close>

definition dec_val :: "pystr \<Rightarrow> nat" where
  "dec_val ds = foldl (\<lambda>a c. 10 * a + nat (c - 48)) 0 ds"

lemma dec_digits_nonempty [simp]: "dec_digits n \<noteq> []"
  by (subst dec_digits.simps) simp

lemma dec_digits_are_digits: "list_all is_digit (dec_digits n)"
proof (induction n rule: dec_digits.induct)
  case (1 n)
  have "is_digit (48 + int (n mod 10))" "n < 10 \<Longrightarrow> is_digit (48 + int n)"
    by (auto simp: is_digit_def)
  with 1 show ?case
    by (subst dec_digits.simps) auto
qed

lemma dec_val_snoc: "dec_val (ds @ [c]) = 10 * dec_val ds + nat (c - 48)"
  by (simp add: dec_val_def)

lemma dec_val_digits: "dec_val (dec_digits n) = n"
proof (induction n rule: dec_digits.induct)
  case (1 n)
  show ?case
  proof (cases "n < 10")
    case True
    then show ?thesis
      by (subst dec_digits.simps) (simp add: dec_val_def)
  next
    case False
    with 1 show ?thesis
      by (subst dec_digits.simps) (simp add: dec_val_snoc nat_int_add)
  qed
qed

lemma dec_digits_head: "10 \<le> n \<Longrightarrow> hd (dec_digits n) \<noteq> 48"
proof (induction n rule: dec_digits.induct)
  case (1 n)
  have eq: "dec_digits n = dec_digits (n div 10) @ [48 + int (n mod 10)]"
    using "1.prems" by (subst dec_digits.simps) simp
  show ?case
  proof (cases "n div 10 < 10")
    case True
    then have "dec_digits (n div 10) = [48 + int (n div 10)]"
      by (subst dec_digits.simps) simp
    moreover have "int (n div 10) \<noteq> 0" using "1.prems" by linarith
    ultimately show ?thesis by (simp add: eq)
  next
    case False
    then show ?thesis
      using "1.prems" "1.IH" by (simp add: eq)
  qed
qed

section \<open>Decimal text computed with integers\<close>

text \<open>The same functions on \<open>int\<close>, for evaluation: natural numbers evaluate in unary.\<close>

function int_digits :: "int \<Rightarrow> pystr" where
  "int_digits i = (if i < 0 then [48] else if i < 10 then [48 + i] else int_digits (i div 10) @ [48 + i mod 10])"
  by pat_completeness auto
termination by (relation "measure nat") auto

declare int_digits.simps [simp del]

definition int_val :: "pystr \<Rightarrow> int" where
  "int_val ds = foldl (\<lambda>a c. 10 * a + (if c < 48 then 0 else c - 48)) 0 ds"

lemma dec_digits_int [code_unfold]: "dec_digits (nat i) = int_digits i"
proof (induction i rule: int_digits.induct)
  case (1 i)
  consider "i < 0" | "0 \<le> i" "i < 10" | "10 \<le> i" by linarith
  then show ?case
  proof cases
    case 3
    then have "nat i div 10 = nat (i div 10)" "int (nat i mod 10) = i mod 10"
      by (simp_all add: nat_div_distrib zmod_int)
    then show ?thesis
      using 3 1 by (subst dec_digits.simps, subst int_digits.simps) (simp add: nat_less_iff)
  qed (subst dec_digits.simps, subst int_digits.simps, simp add: nat_less_iff)+
qed

lemma int_dec_val [code_unfold]: "int (dec_val ds) = int_val ds"
proof (induction ds rule: rev_induct)
  case (snoc c ds)
  then show ?case by (simp add: dec_val_snoc int_val_def)
qed (simp add: dec_val_def int_val_def)

end
