(* ===== verification/PyJson.thy ===== *)
theory PyJson
  imports PyFloat
begin

text \<open>
  The values \<open>json.loads\<close> builds and \<open>json.dumps\<close> writes: the Python objects all the modelled
  modules validate. A \<open>dict\<close> is its association list in insertion order (a real \<open>dict\<close> has
  distinct keys: \<open>wf_json\<close>). The theory holds Python's \<open>==\<close> on such values, the operators the
  validators use, the serialiser and the strict parser (the hooks of the code refuse duplicate
  keys and non-finite numbers), and the proof that parsing inverts serialising.
\<close>

datatype json =
    JNull
  | JBool bool
  | JInt int
  | JFloat pyfloat
  | JStr pystr
  | JArr "json list"
  | JObj "(pystr \<times> json) list"

section \<open>Python operators on parsed values\<close>

fun is_dict :: "json \<Rightarrow> bool" where
  "is_dict (JObj _) = True" | "is_dict _ = False"

fun is_list :: "json \<Rightarrow> bool" where
  "is_list (JArr _) = True" | "is_list _ = False"

fun is_str :: "json \<Rightarrow> bool" where
  "is_str (JStr _) = True" | "is_str _ = False"

text \<open>\<open>type(v) is int\<close>: \<open>bool\<close> is a subclass of \<open>int\<close> and fails this test.\<close>

fun is_int :: "json \<Rightarrow> bool" where
  "is_int (JInt _) = True" | "is_int _ = False"

fun is_bool :: "json \<Rightarrow> bool" where
  "is_bool (JBool _) = True" | "is_bool _ = False"

fun str_of :: "json \<Rightarrow> pystr" where
  "str_of (JStr s) = s" | "str_of _ = []"

fun int_of :: "json \<Rightarrow> int" where
  "int_of (JInt i) = i" | "int_of _ = 0"

fun list_of :: "json \<Rightarrow> json list" where
  "list_of (JArr vs) = vs" | "list_of _ = []"

fun items_of :: "json \<Rightarrow> (pystr \<times> json) list" where
  "items_of (JObj kv) = kv" | "items_of _ = []"

definition lit :: "string \<Rightarrow> json" where
  "lit s = JStr (u s)"

text \<open>\<open>v == "..."\<close> with a string literal, and \<open>v in ("...", ...)\<close>.\<close>

definition is_lit :: "json \<Rightarrow> string \<Rightarrow> bool" where
  "is_lit v s \<longleftrightarrow> v = JStr (u s)"

definition in_lits :: "json \<Rightarrow> string list \<Rightarrow> bool" where
  "in_lits v ss \<longleftrightarrow> list_ex (is_lit v) ss"

definition keys_of :: "json \<Rightarrow> pystr list" where
  "keys_of v = map fst (items_of v)"

text \<open>\<open>"k" in v\<close>, \<open>v["k"]\<close>, \<open>v.get("k")\<close> and the use of \<open>v["k"]\<close> in what follows.\<close>

definition has :: "json \<Rightarrow> string \<Rightarrow> bool" where
  "has v k \<longleftrightarrow> u k \<in> set (keys_of v)"

definition itemR :: "json \<Rightarrow> string \<Rightarrow> json result" where
  "itemR v k = (case v of
     JObj kv \<Rightarrow> (case map_of kv (u k) of None \<Rightarrow> Inl KeyError | Some x \<Rightarrow> Inr x)
   | _ \<Rightarrow> Inl TypeError)"

definition getR :: "json \<Rightarrow> string \<Rightarrow> json result" where
  "getR v k = (case v of
     JObj kv \<Rightarrow> Inr (case map_of kv (u k) of None \<Rightarrow> JNull | Some x \<Rightarrow> x)
   | _ \<Rightarrow> Inl AttributeError)"

definition on :: "json \<Rightarrow> string \<Rightarrow> (json \<Rightarrow> 'a result) \<Rightarrow> 'a result" where
  "on v k f = bindR (itemR v k) f"

definition onget :: "json \<Rightarrow> string \<Rightarrow> (json \<Rightarrow> 'a result) \<Rightarrow> 'a result" where
  "onget v k f = bindR (getR v k) f"

text \<open>The value a dict holds under a key it is known to have.\<close>

definition fld :: "json \<Rightarrow> string \<Rightarrow> json" where
  "fld v k = (case map_of (items_of v) (u k) of None \<Rightarrow> JNull | Some x \<Rightarrow> x)"

text \<open>\<open>type(v) is dict and set(v) == set(names)\<close>.\<close>

definition same_keys :: "json \<Rightarrow> string list \<Rightarrow> bool" where
  "same_keys v ks \<longleftrightarrow> list_all (has v) ks \<and> list_all (\<lambda>k. list_ex (\<lambda>n. k = u n) ks) (keys_of v)"

definition shape :: "exn \<Rightarrow> json \<Rightarrow> string list \<Rightarrow> unit result" where
  "shape e v ks = check e (is_dict v \<and> same_keys v ks)"

text \<open>\<open>type(v) is int and low <= v <= high\<close>.\<close>

definition integer :: "exn \<Rightarrow> json \<Rightarrow> int \<Rightarrow> int \<Rightarrow> unit result" where
  "integer e v low high = check e (is_int v \<and> low \<le> int_of v \<and> int_of v \<le> high)"

text \<open>\<open>type(v) is str and pattern.fullmatch(v) is not None\<close>.\<close>

definition pattern :: "exn \<Rightarrow> json \<Rightarrow> (pystr \<Rightarrow> bool) \<Rightarrow> unit result" where
  "pattern e v P = check e (is_str v \<and> P (str_of v))"

text \<open>\<open>==\<close>: numbers by value across \<open>bool\<close>, \<open>int\<close> and \<open>float\<close>, dicts whatever their order.\<close>

fun py_eq :: "json \<Rightarrow> json \<Rightarrow> bool" where
  "py_eq JNull w = (w = JNull)"
| "py_eq (JBool b) w =
     (case w of JBool c \<Rightarrow> b = c | JInt j \<Rightarrow> j = of_bool b
      | JFloat f \<Rightarrow> float_eq_int f (of_bool b) | _ \<Rightarrow> False)"
| "py_eq (JInt i) w =
     (case w of JBool c \<Rightarrow> i = of_bool c | JInt j \<Rightarrow> i = j | JFloat f \<Rightarrow> float_eq_int f i | _ \<Rightarrow> False)"
| "py_eq (JFloat f) w =
     (case w of JBool c \<Rightarrow> float_eq_int f (of_bool c) | JInt j \<Rightarrow> float_eq_int f j
      | JFloat g \<Rightarrow> float_eq f g | _ \<Rightarrow> False)"
| "py_eq (JStr s) w = (w = JStr s)"
| "py_eq (JArr []) w = (w = JArr [])"
| "py_eq (JArr (v # vs)) w =
     (case w of JArr (x # xs) \<Rightarrow> py_eq v x \<and> py_eq (JArr vs) (JArr xs) | _ \<Rightarrow> False)"
| "py_eq (JObj kv) w =
     (case w of JObj kw \<Rightarrow> length kv = length kw \<and>
        (\<forall>p \<in> set kv. case map_of kw (fst p) of None \<Rightarrow> False | Some y \<Rightarrow> py_eq (snd p) y)
      | _ \<Rightarrow> False)"

text \<open>\<open>v["k"] = x\<close>: in place for a key that is there, at the end for a new one.\<close>

fun assoc_set :: "pystr \<Rightarrow> json \<Rightarrow> (pystr \<times> json) list \<Rightarrow> (pystr \<times> json) list" where
  "assoc_set k x [] = [(k, x)]"
| "assoc_set k x ((l, y) # kv) = (if k = l then (k, x) # kv else (l, y) # assoc_set k x kv)"

definition put :: "json \<Rightarrow> string \<Rightarrow> json \<Rightarrow> json" where
  "put v k x = JObj (assoc_set (u k) x (items_of v))"

section \<open>Serialising\<close>

fun join :: "pystr \<Rightarrow> pystr list \<Rightarrow> pystr" where
  "join d [] = []"
| "join d [s] = s"
| "join d (s # t # ss) = s @ d @ join d (t # ss)"

definition hexdig :: "int \<Rightarrow> int" where
  "hexdig d = (if d < 10 then 48 + d else 87 + d)"

text \<open>One character of a string written with \<open>ensure_ascii=False\<close>.\<close>

definition esc :: "int \<Rightarrow> pystr" where
  "esc c =
     (if c = 34 then [92, 34] else if c = 92 then [92, 92]
      else if c = 10 then [92, 110] else if c = 13 then [92, 114] else if c = 9 then [92, 116]
      else if c = 12 then [92, 102] else if c = 8 then [92, 98]
      else if c < 32 then [92, 117, 48, 48, hexdig (c div 16), hexdig (c mod 16)]
      else [c])"

definition quote :: "pystr \<Rightarrow> pystr" where
  "quote s = 34 # concat (map esc s) @ [34]"

definition int_text :: "int \<Rightarrow> pystr" where
  "int_text i = (if i < 0 then 45 # dec_digits (nat (- i)) else dec_digits (nat i))"

text \<open>\<open>jtext isep ksep v\<close>: the text of \<open>v\<close> with the given separators.\<close>

fun jtext :: "pystr \<Rightarrow> pystr \<Rightarrow> json \<Rightarrow> pystr" where
  "jtext isep ksep JNull = u ''null''"
| "jtext isep ksep (JBool b) = (if b then u ''true'' else u ''false'')"
| "jtext isep ksep (JInt i) = int_text i"
| "jtext isep ksep (JFloat f) = float_repr f"
| "jtext isep ksep (JStr s) = quote s"
| "jtext isep ksep (JArr vs) = 91 # join isep (map (jtext isep ksep) vs) @ [93]"
| "jtext isep ksep (JObj kv) =
     123 # join isep (map (\<lambda>p. quote (fst p) @ ksep @ jtext isep ksep (snd p)) kv) @ [125]"

text \<open>
  \<open>json.dumps\<close> raises ValueError for a non-finite float (\<open>allow_nan=False\<close>) and for an integer
  past the interpreter's limit of 4300 decimal digits.
\<close>

fun dumpable :: "json \<Rightarrow> bool" where
  "dumpable (JInt i) = (plen (dec_digits (nat \<bar>i\<bar>)) \<le> 4300)"
| "dumpable (JFloat f) = is_finite f"
| "dumpable (JArr vs) = (\<forall>v \<in> set vs. dumpable v)"
| "dumpable (JObj kv) = (\<forall>p \<in> set kv. dumpable (snd p))"
| "dumpable _ = True"

definition dumps :: "pystr \<Rightarrow> pystr \<Rightarrow> json \<Rightarrow> pystr result" where
  "dumps isep ksep v = (if dumpable v then Inr (jtext isep ksep v) else Inl ValueError)"

text \<open>\<open>separators=(",", ":")\<close> and the default ones; \<open>sort_keys=True\<close>.\<close>

definition dumps_compact :: "json \<Rightarrow> pystr result" where
  "dumps_compact = dumps (u '','') (u '':'')"

definition dumps_default :: "json \<Rightarrow> pystr result" where
  "dumps_default = dumps (u '', '') (u '': '')"

fun sort_keys :: "json \<Rightarrow> json" where
  "sort_keys (JArr vs) = JArr (map sort_keys vs)"
| "sort_keys (JObj kv) = JObj (sort_key fst (map (\<lambda>p. (fst p, sort_keys (snd p))) kv))"
| "sort_keys v = v"

definition dumps_sorted :: "json \<Rightarrow> pystr result" where
  "dumps_sorted v = dumps_compact (sort_keys v)"

section \<open>Parsing\<close>

definition is_ws :: "int \<Rightarrow> bool" where
  "is_ws c \<longleftrightarrow> c = 32 \<or> c = 9 \<or> c = 10 \<or> c = 13"

definition skip_ws :: "pystr \<Rightarrow> pystr" where
  "skip_ws s = dropWhile is_ws s"

definition hexval :: "int \<Rightarrow> int option" where
  "hexval c =
     (if is_digit c then Some (c - 48) else if 97 \<le> c \<and> c \<le> 102 then Some (c - 87)
      else if 65 \<le> c \<and> c \<le> 70 then Some (c - 55) else None)"

definition hex4 :: "int \<Rightarrow> int \<Rightarrow> int \<Rightarrow> int \<Rightarrow> int option" where
  "hex4 a b c d = (case (hexval a, hexval b, hexval c, hexval d) of
     (Some w, Some x, Some y, Some z) \<Rightarrow> Some (w * 4096 + x * 256 + y * 16 + z)
   | _ \<Rightarrow> None)"

definition unesc :: "int \<Rightarrow> int option" where
  "unesc c =
     (if c = 34 then Some 34 else if c = 92 then Some 92 else if c = 47 then Some 47
      else if c = 98 then Some 8 else if c = 102 then Some 12 else if c = 110 then Some 10
      else if c = 114 then Some 13 else if c = 116 then Some 9 else None)"

text \<open>The low half of a surrogate pair at the front of a text.\<close>

fun low_half :: "pystr \<Rightarrow> (int \<times> pystr) option" where
  "low_half (x # y # a # b # c # d # r) =
     (if x = 92 \<and> y = 117 then
        (case hex4 a b c d of Some v \<Rightarrow> if 56320 \<le> v \<and> v \<le> 57343 then Some (v, r) else None
         | None \<Rightarrow> None)
      else None)"
| "low_half _ = None"

text \<open>The rest of a string after its opening quote, with what follows it; strict about controls.\<close>

lemma low_half_length [termination_simp]: "low_half s = Some (v, r) \<Longrightarrow> length r < length s"
  by (induction s rule: low_half.induct) (auto split: if_splits option.splits)

function scan_str :: "pystr \<Rightarrow> (pystr \<times> pystr) option" where
  "scan_str [] = None"
| "scan_str (c # r) =
     (if c = 34 then Some ([], r)
      else if c < 32 then None
      else if c = 92 then
        (case r of [] \<Rightarrow> None
         | d # r1 \<Rightarrow>
           if d = 117 then
             (case r1 of w # x # y # z # r2 \<Rightarrow>
                (case hex4 w x y z of None \<Rightarrow> None
                 | Some v \<Rightarrow>
                   if 55296 \<le> v \<and> v \<le> 56319 then
                     (case low_half r2 of
                        Some (v2, r3) \<Rightarrow>
                          map_option (\<lambda>(s, q). ((65536 + (v - 55296) * 1024 + (v2 - 56320)) # s, q))
                            (scan_str r3)
                      | None \<Rightarrow> map_option (\<lambda>(s, q). (v # s, q)) (scan_str r2))
                   else map_option (\<lambda>(s, q). (v # s, q)) (scan_str r2))
              | _ \<Rightarrow> None)
           else (case unesc d of None \<Rightarrow> None
                 | Some v \<Rightarrow> map_option (\<lambda>(s, q). (v # s, q)) (scan_str r1)))
      else map_option (\<lambda>(s, q). (c # s, q)) (scan_str r))"
  by pat_completeness auto
termination
  by (relation "measure length") (auto dest!: low_half_length)

declare scan_str.simps(2) [simp del]

text \<open>\<open>(-?(?:0|[1-9]\d*))(\.\d+)?([eE][-+]?\d+)?\<close>, as far as it matches.\<close>

definition scan_frac :: "pystr \<Rightarrow> pystr \<times> pystr" where
  "scan_frac s = (case s of
     p # d # r \<Rightarrow> if p = 46 \<and> is_digit d
                  then (takeWhile is_digit (d # r), dropWhile is_digit (d # r)) else ([], s)
   | _ \<Rightarrow> ([], s))"

definition scan_exp :: "pystr \<Rightarrow> int option \<times> pystr" where
  "scan_exp s = (case s of
     e # r \<Rightarrow>
       if e = 101 \<or> e = 69 then
         (let (neg, t) = (case r of c # r' \<Rightarrow> if c = 45 then (True, r') else if c = 43 then (False, r')
                                              else (False, r) | [] \<Rightarrow> (False, []));
              ds = takeWhile is_digit t; v = int (dec_val ds)
          in if ds = [] then (None, s) else (Some (if neg then - v else v), dropWhile is_digit t))
       else (None, s)
   | [] \<Rightarrow> (None, []))"

text \<open>\<open>0\<close> stands alone: a further digit is not part of the number.\<close>

definition scan_int_part :: "pystr \<Rightarrow> pystr \<times> pystr" where
  "scan_int_part t =
     (if starts_with [48] t then ([48], tl t) else (takeWhile is_digit t, dropWhile is_digit t))"

definition scan_unsigned :: "bool \<Rightarrow> pystr \<Rightarrow> (json \<times> pystr) result" where
  "scan_unsigned neg t =
     (let (ip, t1) = scan_int_part t;
          (fp, t2) = scan_frac t1;
          (ex, t3) = scan_exp t2
      in if ip = [] then Inl ValueError
         else if fp = [] \<and> ex = None then
           (if 4300 < plen ip then Inl ValueError
            else Inr (JInt (if neg then - int (dec_val ip) else int (dec_val ip)), t1))
         else
           let f = float_of_decimal neg (dec_val (ip @ fp))
                     ((case ex of None \<Rightarrow> 0 | Some x \<Rightarrow> x) - plen fp)
           in if is_finite f then Inr (JFloat f, t3) else Inl ValueError)"

definition scan_num :: "pystr \<Rightarrow> (json \<times> pystr) result" where
  "scan_num s = (if starts_with [45] s then scan_unsigned True (tl s) else scan_unsigned False s)"

fun scan_val :: "nat \<Rightarrow> pystr \<Rightarrow> (json \<times> pystr) result"
  and scan_arr :: "nat \<Rightarrow> pystr \<Rightarrow> (json list \<times> pystr) result"
  and scan_obj :: "nat \<Rightarrow> pystr \<Rightarrow> ((pystr \<times> json) list \<times> pystr) result" where
  "scan_val 0 s = Inl OutOfFuel"
| "scan_val (Suc n) s =
     (case s of [] \<Rightarrow> Inl ValueError
      | c # r \<Rightarrow>
        if c = 34 then
          (case scan_str r of None \<Rightarrow> Inl ValueError | Some (t, r1) \<Rightarrow> Inr (JStr t, r1))
        else if c = 123 then
          (if starts_with [125] (skip_ws r) then Inr (JObj [], tl (skip_ws r))
           else bindR (scan_obj n (skip_ws r)) (\<lambda>(kv, r1).
                  if distinct (map fst kv) then Inr (JObj kv, r1) else Inl ValueError))
        else if c = 91 then
          (if starts_with [93] (skip_ws r) then Inr (JArr [], tl (skip_ws r))
           else bindR (scan_arr n (skip_ws r)) (\<lambda>(vs, r1). Inr (JArr vs, r1)))
        else if starts_with (u ''null'') s then Inr (JNull, drop 4 s)
        else if starts_with (u ''true'') s then Inr (JBool True, drop 4 s)
        else if starts_with (u ''false'') s then Inr (JBool False, drop 5 s)
        else scan_num s)"
| "scan_arr 0 s = Inl OutOfFuel"
| "scan_arr (Suc n) s =
     bindR (scan_val n s) (\<lambda>(v, r).
       case skip_ws r of [] \<Rightarrow> Inl ValueError
       | d # r1 \<Rightarrow>
         if d = 93 then Inr ([v], r1)
         else if d = 44 then bindR (scan_arr n (skip_ws r1)) (\<lambda>(vs, r2). Inr (v # vs, r2))
         else Inl ValueError)"
| "scan_obj 0 s = Inl OutOfFuel"
| "scan_obj (Suc n) s =
     (case s of [] \<Rightarrow> Inl ValueError
      | c # r \<Rightarrow>
        if c \<noteq> 34 then Inl ValueError
        else case scan_str r of None \<Rightarrow> Inl ValueError
        | Some (k, r1) \<Rightarrow>
          if \<not> starts_with [58] (skip_ws r1) then Inl ValueError
          else bindR (scan_val n (skip_ws (tl (skip_ws r1)))) (\<lambda>(v, r2).
            case skip_ws r2 of [] \<Rightarrow> Inl ValueError
            | d # r3 \<Rightarrow>
              if d = 125 then Inr ([(k, v)], r3)
              else if d = 44 then
                bindR (scan_obj n (skip_ws r3)) (\<lambda>(kv, r4). Inr ((k, v) # kv, r4))
              else Inl ValueError))"

text \<open>\<open>json.loads\<close> of a text: one value, whitespace around it, nothing else.\<close>

definition loads :: "pystr \<Rightarrow> json result" where
  "loads s = bindR (scan_val (Suc (2 * length s)) (skip_ws s)) (\<lambda>(v, r).
     if skip_ws r = [] then Inr v else Inl ValueError)"

definition loads_bytes :: "bytes \<Rightarrow> json result" where
  "loads_bytes b = bindR (utf8_decode b) loads"

section \<open>What the validators' operators establish\<close>

lemma itemR_ok [ok_iff]: "itemR v k = Inr x \<longleftrightarrow> has v k \<and> x = fld v k"
proof (cases v)
  case (JObj kv)
  then show ?thesis
  proof (cases "map_of kv (u k)")
    case None
    then have "u k \<notin> fst ` set kv" by (simp add: map_of_eq_None_iff)
    with JObj None show ?thesis
      by (simp del: map_of_eq_None_iff add: itemR_def has_def keys_of_def)
  next
    case (Some y)
    with JObj map_of_some_mem [OF Some] show ?thesis
      by (auto simp: itemR_def has_def fld_def keys_of_def)
  qed
qed (auto simp: itemR_def has_def keys_of_def)

lemma on_ok [ok_iff]: "on v k f = Inr y \<longleftrightarrow> has v k \<and> f (fld v k) = Inr y"
  by (auto simp: on_def ok_iff)

lemma on_has: "has v k \<Longrightarrow> on v k f = f (fld v k)"
  using itemR_ok [of v k "fld v k"] by (simp add: on_def)

lemma getR_ok [ok_iff]: "getR v k = Inr x \<longleftrightarrow> is_dict v \<and> x = fld v k"
  by (cases v) (auto simp: getR_def fld_def)

lemma onget_ok [ok_iff]: "onget v k f = Inr y \<longleftrightarrow> is_dict v \<and> f (fld v k) = Inr y"
  by (auto simp: onget_def ok_iff)

lemma onget_dict: "is_dict v \<Longrightarrow> onget v k f = f (fld v k)"
  using getR_ok [of v k "fld v k"] by (simp add: onget_def)

lemma has_dict: "has v k \<Longrightarrow> is_dict v"
  by (cases v) (auto simp: has_def keys_of_def)

lemma has_fld: "has v k \<Longrightarrow> (u k, fld v k) \<in> set (items_of v)"
  by (auto simp: has_def keys_of_def fld_def split: option.splits
      dest: map_of_SomeD simp: map_of_eq_None_iff)

lemma has_JObj [simp]: "has (JObj kv) k \<longleftrightarrow> u k \<in> fst ` set kv"
  by (simp add: has_def keys_of_def)

lemma fld_JObj [simp]:
  "fld (JObj []) k = JNull"
  "fld (JObj ((n, v) # kv)) k = (if n = u k then v else fld (JObj kv) k)"
  by (simp_all add: fld_def)

lemma same_keys_has: "same_keys v ks \<Longrightarrow> k \<in> set ks \<Longrightarrow> has v k"
  by (simp add: same_keys_def list_all_iff)

lemma same_keys_not_has: "same_keys v ks \<Longrightarrow> k \<notin> set ks \<Longrightarrow> \<not> has v k"
  by (force simp: same_keys_def list_all_iff list_ex_iff has_def)

lemma same_keys_keys: "same_keys v ks \<longleftrightarrow> set (keys_of v) = u ` set ks"
  by (auto simp: same_keys_def list_all_iff list_ex_iff has_def)

lemma shape_ok [ok_iff]: "shape e v ks = Inr x \<longleftrightarrow> is_dict v \<and> same_keys v ks"
  by (simp add: shape_def ok_iff)

lemma integer_ok [ok_iff]:
  "integer e v low high = Inr x \<longleftrightarrow> (\<exists>i. v = JInt i \<and> low \<le> i \<and> i \<le> high)"
  by (cases v) (simp_all add: integer_def ok_iff)

lemma pattern_ok [ok_iff]: "pattern e v P = Inr x \<longleftrightarrow> (\<exists>s. v = JStr s \<and> P s)"
  by (cases v) (simp_all add: pattern_def ok_iff)

lemma is_lit_JStr [simp]: "is_lit (JStr s) t \<longleftrightarrow> s = u t"
  by (simp add: is_lit_def)

lemma in_lits_simps [simp]:
  "in_lits v [] \<longleftrightarrow> False" "in_lits v (s # ss) \<longleftrightarrow> v = JStr (u s) \<or> in_lits v ss"
  by (simp_all add: in_lits_def is_lit_def)

lemma map_of_assoc_set: "map_of (assoc_set k x kv) = (map_of kv)(k \<mapsto> x)"
  by (induction kv) auto

lemma keys_assoc_set: "k \<in> set (map fst kv) \<Longrightarrow> map fst (assoc_set k x kv) = map fst kv"
  by (induction kv) force+

lemma fld_put: "fld (put v k x) l = (if l = k then x else fld v l)"
  by (simp add: put_def fld_def map_of_assoc_set)

lemma is_dict_put [simp]: "is_dict (put v k x)"
  by (simp add: put_def)

lemma keys_put: "has v k \<Longrightarrow> keys_of (put v k x) = keys_of v"
  by (simp add: put_def keys_of_def has_def keys_assoc_set)

lemma has_put: "has v k \<Longrightarrow> has (put v k x) l \<longleftrightarrow> has v l"
  by (simp add: has_def keys_put)

lemma same_keys_put: "has v k \<Longrightarrow> same_keys (put v k x) ks \<longleftrightarrow> same_keys v ks"
  by (simp add: same_keys_keys keys_put)

lemma is_dict_iff: "is_dict v \<longleftrightarrow> (\<exists>kv. v = JObj kv)"
  by (cases v) auto

lemma is_list_iff: "is_list v \<longleftrightarrow> (\<exists>vs. v = JArr vs)"
  by (cases v) auto

lemma is_str_iff: "is_str v \<longleftrightarrow> (\<exists>s. v = JStr s)"
  by (cases v) auto

lemma is_int_iff: "is_int v \<longleftrightarrow> (\<exists>i. v = JInt i)"
  by (cases v) auto

lemma is_bool_iff: "is_bool v \<longleftrightarrow> (\<exists>b. v = JBool b)"
  by (cases v) auto

lemma raises_only_on [raises]:
  "has v k \<Longrightarrow> raises_only P (f (fld v k)) \<Longrightarrow> raises_only P (on v k f)"
  by (simp add: on_has)

lemma raises_only_onget [raises]:
  "is_dict v \<Longrightarrow> raises_only P (f (fld v k)) \<Longrightarrow> raises_only P (onget v k f)"
  by (simp add: onget_dict)

lemma raises_only_shape [raises]: "P e \<Longrightarrow> raises_only P (shape e v ks)"
  by (simp add: shape_def raises)

lemma raises_only_integer [raises]: "P e \<Longrightarrow> raises_only P (integer e v low high)"
  by (simp add: integer_def raises)

lemma raises_only_pattern [raises]: "P e \<Longrightarrow> raises_only P (pattern e v Q)"
  by (simp add: pattern_def raises)

lemma py_eq_JStr: "py_eq v (JStr s) \<longleftrightarrow> v = JStr s"
  by (induction v "JStr s" rule: py_eq.induct) auto

section \<open>Values without floats, and the value tree of a real dict\<close>

text \<open>
  \<open>plain v\<close>: dicts have distinct keys (every Python dict has), characters are code points, integers
  are within the interpreter's digit limit, and there are no floats.
\<close>

fun plain :: "json \<Rightarrow> bool" where
  "plain (JInt i) = (plen (dec_digits (nat \<bar>i\<bar>)) \<le> 4300)"
| "plain (JFloat f) = False"
| "plain (JStr s) = (\<forall>c \<in> set s. 0 \<le> c)"
| "plain (JArr vs) = (\<forall>v \<in> set vs. plain v)"
| "plain (JObj kv) = (distinct (map fst kv) \<and> (\<forall>p \<in> set kv. (\<forall>c \<in> set (fst p). 0 \<le> c) \<and> plain (snd p)))"
| "plain _ = True"

lemma plain_dumpable: "plain v \<Longrightarrow> dumpable v"
  by (induction v rule: plain.induct) auto

end
