(* ===== verification/JsonRoundtrip.thy ===== *)
theory JsonRoundtrip
  imports PyJson
begin

text \<open>
  Parsing inverts serialising: \<open>loads\<close> of the text of a float-free value, in the compact or the
  default layout, is that value. With \<open>utf8_roundtrip\<close> this makes the byte encodings the code
  hashes, measures and sends faithful: equal bytes come from equal values.
\<close>

section \<open>Strings and integers\<close>

lemma hexval_hexdig: "0 \<le> d \<Longrightarrow> d < 16 \<Longrightarrow> hexval (hexdig d) = Some d"
  by (auto simp: hexval_def hexdig_def is_digit_def)

lemma hex4_control: "0 \<le> c \<Longrightarrow> c < 32 \<Longrightarrow> hex4 48 48 (hexdig (c div 16)) (hexdig (c mod 16)) = Some c"
  by (simp add: hex4_def hexval_hexdig) (simp add: hexval_def is_digit_def)

lemma scan_str_esc:
  assumes "0 \<le> c"
  shows "scan_str (esc c @ t) = map_option (\<lambda>(s, q). (c # s, q)) (scan_str t)"
proof -
  have low: "scan_str (92 # 117 # 48 # 48 # hexdig (c div 16) # hexdig (c mod 16) # t) =
      map_option (\<lambda>(s, q). (c # s, q)) (scan_str t)" if "c < 32"
    using assms that by (simp add: scan_str.simps(2) hex4_control)
  show ?thesis
    using assms low by (simp add: esc_def scan_str.simps(2) unesc_def)
qed

lemma scan_str_chars:
  "\<forall>c \<in> set s. 0 \<le> c \<Longrightarrow> scan_str (concat (map esc s) @ 34 # r) = Some (s, r)"
proof (induction s)
  case Nil
  then show ?case by (simp add: scan_str.simps(2))
next
  case (Cons c s)
  then show ?case by (simp add: scan_str_esc)
qed

text \<open>What may follow a number: not a character that would continue it.\<close>

definition num_stop :: "pystr \<Rightarrow> bool" where
  "num_stop r = (case r of [] \<Rightarrow> True | c # _ \<Rightarrow> \<not> is_digit c \<and> c \<noteq> 46 \<and> c \<noteq> 101 \<and> c \<noteq> 69)"

lemma takeWhile_digits:
  assumes "list_all is_digit ds" "num_stop r"
  shows "takeWhile is_digit (ds @ r) = ds" "dropWhile is_digit (ds @ r) = r"
proof -
  have "takeWhile is_digit r = []" "dropWhile is_digit r = r"
    using assms(2) by (auto simp: num_stop_def split: list.splits)
  with assms(1) show "takeWhile is_digit (ds @ r) = ds" "dropWhile is_digit (ds @ r) = r"
    by (simp_all add: list_all_iff)
qed

lemma num_stop_frac_exp: "num_stop r \<Longrightarrow> scan_frac r = ([], r) \<and> scan_exp r = (None, r)"
  by (auto simp: num_stop_def scan_frac_def scan_exp_def split: list.splits)

lemma dec_digits_cases:
  obtains d ds where "dec_digits n = d # ds" "is_digit d" "d = 48 \<longrightarrow> ds = []"
proof -
  obtain d ds where eq: "dec_digits n = d # ds"
    by (cases "dec_digits n") auto
  moreover have "is_digit d"
    using dec_digits_are_digits [of n] eq by simp
  moreover have "d = 48 \<longrightarrow> ds = []"
  proof (cases "n < 10")
    case True
    then show ?thesis using eq by (subst (asm) dec_digits.simps) simp
  next
    case False
    then show ?thesis using dec_digits_head [of n] eq by simp
  qed
  ultimately show ?thesis by (rule that)
qed

lemma scan_unsigned_digits:
  assumes "num_stop r" "plen (dec_digits n) \<le> 4300"
  shows "scan_unsigned neg (dec_digits n @ r) = Inr (JInt (if neg then - int n else int n), r)"
proof -
  obtain d ds where n: "dec_digits n = d # ds" "is_digit d" "d = 48 \<longrightarrow> ds = []"
    by (rule dec_digits_cases [of n])
  have "scan_int_part (dec_digits n @ r) = (dec_digits n, r)"
    using n takeWhile_digits [OF dec_digits_are_digits [of n] assms(1)]
    by (auto simp: scan_int_part_def)
  then show ?thesis
    using num_stop_frac_exp [OF assms(1)] assms(2)
    by (simp add: scan_unsigned_def dec_val_digits)
qed

lemma scan_num_digits:
  assumes "num_stop r" "plen (dec_digits n) \<le> 4300"
  shows "scan_num (dec_digits n @ r) = Inr (JInt (int n), r)"
    and "scan_num (45 # dec_digits n @ r) = Inr (JInt (- int n), r)"
proof -
  obtain d ds where n: "dec_digits n = d # ds" "is_digit d"
    by (rule dec_digits_cases [of n])
  then have "\<not> starts_with [45] (dec_digits n @ r)"
    by (auto simp: is_digit_def)
  then show "scan_num (dec_digits n @ r) = Inr (JInt (int n), r)"
    "scan_num (45 # dec_digits n @ r) = Inr (JInt (- int n), r)"
    using scan_unsigned_digits [OF assms] by (simp_all add: scan_num_def)
qed

lemma scan_num_int:
  "num_stop r \<Longrightarrow> plen (dec_digits (nat \<bar>i\<bar>)) \<le> 4300 \<Longrightarrow> scan_num (int_text i @ r) = Inr (JInt i, r)"
  using scan_num_digits [of r "nat \<bar>i\<bar>"] by (cases "i < 0") (auto simp: int_text_def)

section \<open>Values\<close>

text \<open>Separators: the mark, then blanks.\<close>

definition sep_ok :: "int \<Rightarrow> pystr \<Rightarrow> bool" where
  "sep_ok c d \<longleftrightarrow> (\<exists>w. d = c # w \<and> list_all is_ws w)"

lemma skip_ws_blank: "list_all is_ws w \<Longrightarrow> skip_ws (w @ s) = skip_ws s"
  by (simp add: skip_ws_def list_all_iff)

definition val_head :: "int \<Rightarrow> bool" where
  "val_head c \<longleftrightarrow> c = 34 \<or> c = 123 \<or> c = 91 \<or> c = 110 \<or> c = 116 \<or> c = 102 \<or> c = 45 \<or> is_digit c"

lemma int_text_head: "\<exists>c cs. int_text i = c # cs \<and> (c = 45 \<or> is_digit c)"
proof (cases "i < 0")
  case False
  obtain d ds where "dec_digits (nat i) = d # ds" "is_digit d"
    by (rule dec_digits_cases [of "nat i"])
  with False show ?thesis by (simp add: int_text_def)
qed (simp add: int_text_def)

lemma jtext_head:
  "plain v \<Longrightarrow> \<exists>c cs. jtext isep ksep v = c # cs \<and> val_head c"
proof (cases v)
  case (JInt i)
  then show ?thesis using int_text_head [of i] by (auto simp: val_head_def)
qed (auto simp: val_head_def u_def quote_def)

lemma skip_ws_jtext: "plain v \<Longrightarrow> skip_ws (jtext isep ksep v @ r) = jtext isep ksep v @ r"
  using jtext_head [of v isep ksep]
  by (auto simp: skip_ws_def val_head_def is_ws_def is_digit_def)

lemma scan_val_head:
  "is_digit c \<or> c = 45 \<Longrightarrow> scan_val (Suc n) (c # r) = scan_num (c # r)"
  by (auto simp: is_digit_def u_def)

definition stop_ok :: "pystr \<Rightarrow> bool" where
  "stop_ok r = (case r of [] \<Rightarrow> True | c # _ \<Rightarrow> is_ws c \<or> c = 44 \<or> c = 93 \<or> c = 125)"

lemma stop_num: "stop_ok r \<Longrightarrow> num_stop r"
  by (auto simp: stop_ok_def num_stop_def is_ws_def is_digit_def split: list.splits)

lemma stop_ok_sep: "sep_ok 44 d \<Longrightarrow> stop_ok (d @ r)"
  by (auto simp: sep_ok_def stop_ok_def)

lemma skip_ws_mark: "\<not> is_ws c \<Longrightarrow> skip_ws (c # s) = c # s"
  by (simp add: skip_ws_def)

definition scans :: "nat \<Rightarrow> pystr \<Rightarrow> pystr \<Rightarrow> json \<Rightarrow> bool" where
  "scans n isep ksep v \<longleftrightarrow>
     (\<forall>r. stop_ok r \<longrightarrow> scan_val n (jtext isep ksep v @ r) = Inr (v, r))"

lemma skip_ws_join:
  "vs \<noteq> [] \<Longrightarrow> \<forall>v \<in> set vs. plain v \<Longrightarrow>
   skip_ws (join d (map (jtext isep ksep) vs) @ r) = join d (map (jtext isep ksep) vs) @ r"
  using skip_ws_jtext [of "hd vs" isep ksep] by (cases vs; cases "tl vs") auto

lemma scan_arr_text:
  assumes "sep_ok 44 isep" "vs \<noteq> []" "\<forall>v \<in> set vs. plain v"
    and "\<And>v m. v \<in> set vs \<Longrightarrow> length (jtext isep ksep v) < m \<Longrightarrow> scans m isep ksep v"
    and "length (join isep (map (jtext isep ksep) vs)) + 1 < n"
  shows "scan_arr n (join isep (map (jtext isep ksep) vs) @ 93 # r) = Inr (vs, r)"
  using assms(2-5)
proof (induction vs arbitrary: n)
  case (Cons v vs)
  from Cons.prems(4) obtain m where n: "n = Suc m" by (cases n) auto
  have len: "length (jtext isep ksep v) < m"
    using Cons.prems(4) n by (cases vs) auto
  have sv: "scans m isep ksep v" using Cons.prems(3) len by simp
  show ?case
  proof (cases "vs = []")
    case True
    have "scan_val m (jtext isep ksep v @ 93 # r) = Inr (v, 93 # r)"
      using sv by (simp add: scans_def stop_ok_def)
    with True n show ?thesis by (simp add: skip_ws_mark is_ws_def)
  next
    case False
    let ?rest = "join isep (map (jtext isep ksep) vs) @ 93 # r"
    obtain w where w: "isep = 44 # w" "list_all is_ws w" using assms(1) by (auto simp: sep_ok_def)
    have joined: "join isep (map (jtext isep ksep) (v # vs)) @ 93 # r = jtext isep ksep v @ isep @ ?rest"
      using False by (cases vs) auto
    have "scan_val m (jtext isep ksep v @ isep @ ?rest) = Inr (v, isep @ ?rest)"
      using sv stop_ok_sep [OF assms(1)] by (simp add: scans_def)
    moreover have "skip_ws (isep @ ?rest) = isep @ ?rest"
      using w by (simp add: skip_ws_mark is_ws_def)
    moreover have "skip_ws (w @ ?rest) = ?rest"
      using skip_ws_join [OF False] Cons.prems(2) w by (simp add: skip_ws_blank)
    moreover have "scan_arr m ?rest = Inr (vs, r)"
    proof (rule Cons.IH)
      show "length (join isep (map (jtext isep ksep) vs)) + 1 < m"
        using Cons.prems(4) n False w by (cases vs) auto
    qed (use False Cons.prems in auto)
    ultimately show ?thesis
      using w n unfolding joined by simp
  qed
qed simp

abbreviation member_text :: "pystr \<Rightarrow> pystr \<Rightarrow> pystr \<times> json \<Rightarrow> pystr" where
  "member_text isep ksep p \<equiv> quote (fst p) @ ksep @ jtext isep ksep (snd p)"

lemma scan_key:
  assumes "sep_ok 58 ksep" "\<forall>c \<in> set k. 0 \<le> c" "plain v" "scans m isep ksep v" "stop_ok r"
  shows "scan_obj (Suc m) (member_text isep ksep (k, v) @ r) =
    (case skip_ws r of [] \<Rightarrow> Inl ValueError
     | d # r3 \<Rightarrow> if d = 125 then Inr ([(k, v)], r3)
       else if d = 44 then bindR (scan_obj m (skip_ws r3)) (\<lambda>(kv, r4). Inr ((k, v) # kv, r4))
       else Inl ValueError)"
proof -
  obtain w where w: "ksep = 58 # w" "list_all is_ws w" using assms(1) by (auto simp: sep_ok_def)
  have "scan_str (concat (map esc k) @ 34 # ksep @ jtext isep ksep v @ r) =
      Some (k, ksep @ jtext isep ksep v @ r)"
    by (rule scan_str_chars [OF assms(2)])
  moreover have "skip_ws (w @ jtext isep ksep v @ r) = jtext isep ksep v @ r"
    using w skip_ws_jtext [OF assms(3)] by (simp add: skip_ws_blank)
  ultimately show ?thesis
    using assms(4,5) w by (simp add: quote_def skip_ws_mark is_ws_def scans_def)
qed

lemma scan_obj_text:
  assumes "sep_ok 44 isep" "sep_ok 58 ksep" "kv \<noteq> []"
    and "\<forall>p \<in> set kv. (\<forall>c \<in> set (fst p). 0 \<le> c) \<and> plain (snd p)"
    and "\<And>p m. p \<in> set kv \<Longrightarrow> length (jtext isep ksep (snd p)) < m \<Longrightarrow> scans m isep ksep (snd p)"
    and "length (join isep (map (member_text isep ksep) kv)) + 1 < n"
  shows "scan_obj n (join isep (map (member_text isep ksep) kv) @ 125 # r) = Inr (kv, r)"
  using assms(3-6)
proof (induction kv arbitrary: n)
  case (Cons p kv)
  obtain k v where p: "p = (k, v)" by (cases p)
  from Cons.prems(4) obtain m where n: "n = Suc m" by (cases n) auto
  have "length (jtext isep ksep v) < m"
    using Cons.prems(4) n p by (cases kv) auto
  then have sv: "scans m isep ksep v" using Cons.prems(3) [of p] p by simp
  have ok: "\<forall>c \<in> set k. 0 \<le> c" "plain v" using Cons.prems(2) p by auto
  show ?case
  proof (cases "kv = []")
    case True
    with n p scan_key [OF assms(2) ok sv, of "125 # r"] show ?thesis
      by (simp add: stop_ok_def skip_ws_mark is_ws_def)
  next
    case False
    let ?rest = "join isep (map (member_text isep ksep) kv) @ 125 # r"
    obtain w where w: "isep = 44 # w" "list_all is_ws w" using assms(1) by (auto simp: sep_ok_def)
    have joined: "join isep (map (member_text isep ksep) (p # kv)) @ 125 # r =
        member_text isep ksep (k, v) @ isep @ ?rest"
      using False p by (cases kv) auto
    have "skip_ws (isep @ ?rest) = 44 # w @ ?rest"
      using w by (simp add: skip_ws_mark is_ws_def)
    moreover have "skip_ws (w @ ?rest) = ?rest"
    proof -
      obtain c where "?rest = 34 # c"
        using False by (cases kv; cases "tl kv") (auto simp: quote_def)
      with w show ?thesis by (simp add: skip_ws_blank skip_ws_mark is_ws_def)
    qed
    moreover have "scan_obj m ?rest = Inr (kv, r)"
    proof (rule Cons.IH)
      show "length (join isep (map (member_text isep ksep) kv)) + 1 < m"
        using Cons.prems(4) n False w by (cases kv) auto
    qed (use False Cons.prems in auto)
    ultimately show ?thesis
      using n p scan_key [OF assms(2) ok sv stop_ok_sep [OF assms(1)], of ?rest]
      unfolding joined by (simp del: scan_obj.simps)
  qed
qed simp

lemma scan_val_text:
  assumes seps: "sep_ok 44 isep" "sep_ok 58 ksep"
  shows "plain v \<Longrightarrow> length (jtext isep ksep v) < n \<Longrightarrow> scans n isep ksep v"
proof (induction v arbitrary: n rule: plain.induct)
  case (1 i)
  then obtain m where n: "n = Suc m" by (cases n) auto
  have "scan_val n (int_text i @ r) = Inr (JInt i, r)" if "stop_ok r" for r
  proof -
    obtain c cs where "int_text i = c # cs" "c = 45 \<or> is_digit c"
      using int_text_head [of i] by blast
    then have "scan_val n (int_text i @ r) = scan_num (int_text i @ r)"
      using scan_val_head [of c m "cs @ r"] n by auto
    with scan_num_int [OF stop_num [OF that]] 1 show ?thesis by simp
  qed
  then show ?case by (simp add: scans_def)
next
  case (3 s)
  then obtain m where "n = Suc m" by (cases n) auto
  with 3 show ?case by (simp add: scans_def quote_def scan_str_chars)
next
  case (4 vs)
  then obtain m where n: "n = Suc m" by (cases n) auto
  show ?case
  proof (cases "vs = []")
    case True
    with n show ?thesis by (simp add: scans_def skip_ws_mark is_ws_def)
  next
    case False
    have "scan_arr m (join isep (map (jtext isep ksep) vs) @ 93 # r) = Inr (vs, r)" for r
      by (rule scan_arr_text [OF seps(1) False]) (use 4 n in auto)
    moreover have "\<not> starts_with [93] (join isep (map (jtext isep ksep) vs) @ 93 # r)" for r
    proof -
      obtain c cs where "jtext isep ksep (hd vs) = c # cs" "val_head c"
        using jtext_head [of "hd vs" isep ksep] False 4 by auto
      with False show ?thesis
        by (cases vs; cases "tl vs") (auto simp: val_head_def is_digit_def)
    qed
    ultimately show ?thesis
      using n 4 skip_ws_join [OF False] by (simp add: scans_def)
  qed
next
  case (5 kv)
  then obtain m where n: "n = Suc m" by (cases n) auto
  show ?case
  proof (cases "kv = []")
    case True
    with n show ?thesis by (simp add: scans_def skip_ws_mark is_ws_def)
  next
    case False
    have "scan_obj m (join isep (map (member_text isep ksep) kv) @ 125 # r) = Inr (kv, r)" for r
      by (rule scan_obj_text [OF seps False]) (use 5 n in auto)
    moreover have "skip_ws (join isep (map (member_text isep ksep) kv) @ 125 # r) =
        join isep (map (member_text isep ksep) kv) @ 125 # r \<and>
        \<not> starts_with [125] (join isep (map (member_text isep ksep) kv) @ 125 # r)" for r
    proof -
      obtain c where "join isep (map (member_text isep ksep) kv) @ 125 # r = 34 # c"
        using False by (cases kv; cases "tl kv") (auto simp: quote_def)
      then show ?thesis by (simp add: skip_ws_mark is_ws_def)
    qed
    ultimately show ?thesis
      using n 5 by (simp add: scans_def)
  qed
next
  case "6_1"
  then obtain m where "n = Suc m" by (cases n) auto
  then show ?case by (simp add: scans_def u_def)
next
  case "6_2"
  then obtain m where "n = Suc m" by (cases n) auto
  then show ?case by (simp add: scans_def u_def)
qed simp

theorem loads_jtext:
  assumes "sep_ok 44 isep" "sep_ok 58 ksep" "plain v"
  shows "loads (jtext isep ksep v) = Inr v"
proof -
  have "length (jtext isep ksep v) < Suc (2 * length (jtext isep ksep v))" by simp
  then have "scan_val (Suc (2 * length (jtext isep ksep v))) (jtext isep ksep v @ []) = Inr (v, [])"
    using scan_val_text [OF assms, unfolded scans_def, rule_format, of _ "[]"]
    by (simp add: stop_ok_def del: scan_val.simps)
  moreover have "skip_ws (jtext isep ksep v) = jtext isep ksep v"
    using skip_ws_jtext [OF assms(3), of isep ksep "[]"] by simp
  ultimately show ?thesis
    by (simp add: loads_def skip_ws_def del: scan_val.simps)
qed

lemma loads_compact: "plain v \<Longrightarrow> dumps_compact v = Inr t \<Longrightarrow> loads t = Inr v"
  using loads_jtext [of "u '',''" "u '':''" v]
  by (auto simp: dumps_compact_def dumps_def sep_ok_def u_def split: if_splits)

lemma loads_default: "plain v \<Longrightarrow> dumps_default v = Inr t \<Longrightarrow> loads t = Inr v"
  using loads_jtext [of "u '', ''" "u '': ''" v]
  by (auto simp: dumps_default_def dumps_def sep_ok_def u_def is_ws_def split: if_splits)

section \<open>The parser never runs out of fuel\<close>

lemma skip_ws_length: "length (skip_ws s) \<le> length s"
  by (simp add: skip_ws_def length_dropWhile_le)

lemma scan_str_length: "scan_str s = Some (t, r) \<Longrightarrow> length r < length s"
proof (induction s arbitrary: t r rule: scan_str.induct)
  case (2 c s)
  then show ?case
    by (fastforce simp: scan_str.simps(2) split: if_splits list.splits option.splits
        dest: low_half_length)
qed simp

lemma scan_frac_length: "scan_frac s = (a, r) \<Longrightarrow> length r \<le> length s"
  by (auto simp: scan_frac_def split: list.splits if_splits
      intro: order_trans [OF length_dropWhile_le])

lemma scan_exp_length: "scan_exp s = (a, r) \<Longrightarrow> length r \<le> length s"
  by (auto simp: scan_exp_def Let_def split: list.splits if_splits
      intro: order_trans [OF length_dropWhile_le] le_SucI)

lemma scan_int_part_length:
  "scan_int_part s = (a, r) \<Longrightarrow> a \<noteq> [] \<Longrightarrow> length r < length s"
proof -
  assume a: "scan_int_part s = (a, r)" "a \<noteq> []"
  show "length r < length s"
  proof (cases "starts_with [48] s")
    case True
    with a show ?thesis by (cases s) (auto simp: scan_int_part_def)
  next
    case False
    with a have "length s = length a + length r"
      by (metis scan_int_part_def length_append takeWhile_dropWhile_id prod.inject)
    with a(2) show ?thesis by simp
  qed
qed

lemma scan_unsigned_length: "scan_unsigned neg s = Inr (v, r) \<Longrightarrow> length r < length s"
  using scan_int_part_length [of s] scan_frac_length scan_exp_length
  by (fastforce simp: scan_unsigned_def Let_def split: prod.splits if_splits)

lemma scan_num_length: "scan_num s = Inr (v, r) \<Longrightarrow> length r < length s"
  using scan_unsigned_length [of _ s v r] scan_unsigned_length [of True "tl s" v r]
  by (auto simp: scan_num_def split: if_splits)

lemma scan_num_fuel: "scan_num s \<noteq> Inl OutOfFuel"
  by (auto simp: scan_num_def scan_unsigned_def Let_def split: prod.splits)

lemma scan_fuel:
  shows "2 * length s < n \<Longrightarrow> scan_val n s \<noteq> Inl OutOfFuel \<and>
      (\<forall>v r. scan_val n s = Inr (v, r) \<longrightarrow> length r < length s)"
    and "2 * length s + 1 < n \<Longrightarrow> scan_arr n s \<noteq> Inl OutOfFuel \<and>
      (\<forall>v r. scan_arr n s = Inr (v, r) \<longrightarrow> length r < length s)"
    and "2 * length s + 1 < n \<Longrightarrow> scan_obj n s \<noteq> Inl OutOfFuel \<and>
      (\<forall>v r. scan_obj n s = Inr (v, r) \<longrightarrow> length r < length s)"
proof (induction n s and n s and n s rule: scan_val_scan_arr_scan_obj.induct)
  case (2 n s)
  show ?case
  proof (cases s)
    case (Cons c r)
    have sk: "length (skip_ws r) \<le> length r" "length (tl (skip_ws r)) \<le> length r"
      using skip_ws_length [of r] by simp_all
    consider "c = 34" | "c = 123" | "c = 91" | "c \<notin> {34, 123, 91}" by blast
    then show ?thesis
    proof cases
      case 1
      with Cons show ?thesis
        by (auto split: option.splits dest: scan_str_length)
    next
      case 2
      have "2 * length (skip_ws r) + 1 < n"
        using "2.prems" Cons sk by simp
      with "2.IH"(1) [OF Cons] 2 Cons sk show ?thesis
        by (auto simp: bindR_err ok_iff split: if_splits; fastforce)
    next
      case 3
      have "2 * length (skip_ws r) + 1 < n"
        using "2.prems" Cons sk by simp
      with "2.IH"(2) [OF Cons] 3 Cons sk show ?thesis
        by (auto simp: bindR_err ok_iff split: if_splits; fastforce)
    next
      case 4
      with Cons scan_num_fuel [of s] show ?thesis
        by (auto simp: u_def dest: scan_num_length split: if_splits)
    qed
  qed simp
next
  case (4 n s)
  have val: "scan_val n s \<noteq> Inl OutOfFuel" "\<And>v r. scan_val n s = Inr (v, r) \<Longrightarrow> length r < length s"
    using 4 by auto
  show ?case
  proof (cases "scan_val n s")
    case (Inr p)
    obtain v r where p: "p = (v, r)" by (cases p)
    show ?thesis
    proof (cases "skip_ws r")
      case (Cons d r1)
      have len: "length r1 < length r" "length r < length s"
        using skip_ws_length [of r] Cons val(2) Inr p by auto
      moreover have "2 * length (skip_ws r1) + 1 < n"
        using "4.prems" len skip_ws_length [of r1] by simp
      ultimately show ?thesis
        using "4.IH"(2) [of r d r1] Inr p Cons skip_ws_length [of r1]
        by (auto simp: bindR_err ok_iff split: if_splits; fastforce)
    qed (use Inr p in simp)
  qed (use val in simp)
next
  case (6 n s)
  show ?case
  proof (cases s)
    case (Cons c r)
    show ?thesis
    proof (cases "c \<noteq> 34 \<or> scan_str r = None")
      case False
      then obtain k r1 where k: "scan_str r = Some (k, r1)" "c = 34" by auto
      show ?thesis
      proof (cases "starts_with [58] (skip_ws r1)")
        case True
        let ?t = "skip_ws (tl (skip_ws r1))"
        have tlen: "length ?t < length r"
          using scan_str_length [OF k(1)] skip_ws_length [of r1] skip_ws_length [of "tl (skip_ws r1)"]
          by simp
        then have fuel: "2 * length ?t < n"
          using "6.prems" Cons by simp
        have val: "scan_val n ?t \<noteq> Inl OutOfFuel"
          "\<And>v r. scan_val n ?t = Inr (v, r) \<Longrightarrow> length r < length ?t"
          using "6.IH"(1) [OF Cons _ k(1)] k True fuel by auto
        show ?thesis
        proof (cases "scan_val n ?t")
          case (Inr p)
          obtain v r2 where p: "p = (v, r2)" by (cases p)
          show ?thesis
          proof (cases "skip_ws r2")
            case (Cons d r3)
            have len: "length r3 < length r2" "length r2 < length ?t"
              using skip_ws_length [of r2] Cons val(2) Inr p by auto
            moreover have "2 * length (skip_ws r3) + 1 < n"
              using fuel len skip_ws_length [of r3] by simp
            ultimately show ?thesis
              using "6.IH"(2) [of c r "(k, r1)" k r1 r2 d r3]
                Inr p Cons k True tlen \<open>s = c # r\<close> skip_ws_length [of r3]
              by (auto simp: bindR_err ok_iff split: if_splits; fastforce)
          qed (use \<open>s = c # r\<close> k True Inr p in simp)
        qed (use Cons k True val in simp)
      qed (use Cons k in simp)
    qed (use Cons in auto)
  qed simp
qed simp_all

lemma loads_no_fuel: "loads s \<noteq> Inl OutOfFuel"
  using scan_fuel(1) [of "skip_ws s" "Suc (2 * length s)"] skip_ws_length [of s]
  by (auto simp: loads_def bindR_err split: if_splits)

end
