(* ===== verification/JsonSize.thy ===== *)
theory JsonSize
  imports JsonRoundtrip "HOL-Library.Multiset"
begin

text \<open>
  How many bytes the compact UTF-8 serialisation of a value has, as a recursive count, and that
  sorting the keys changes neither this count nor whether the value can be serialised.
\<close>

definition char_size :: "int \<Rightarrow> int" where
  "char_size c = (if c < 128 then 1 else if c < 2048 then 2 else if c < 65536 then 3 else 4)"

definition utf8_size :: "pystr \<Rightarrow> int" where
  "utf8_size s = sum_list (map char_size s)"

definition encodable :: "pystr \<Rightarrow> bool" where
  "encodable s \<longleftrightarrow> list_all (\<lambda>c. utf8_char c \<noteq> None) s"

lemma utf8_size_simps [simp]:
  "utf8_size [] = 0" "utf8_size (c # s) = char_size c + utf8_size s"
  "utf8_size (s @ t) = utf8_size s + utf8_size t"
  by (simp_all add: utf8_size_def)

lemma char_size_pos: "1 \<le> char_size c"
  by (simp add: char_size_def)

lemma utf8_size_length: "plen s \<le> utf8_size s"
proof (induction s)
  case (Cons c s)
  then show ?case using char_size_pos [of c] by simp
qed simp

lemma encodable_simps [simp]:
  "encodable []" "encodable (c # s) \<longleftrightarrow> utf8_char c \<noteq> None \<and> encodable s"
  "encodable (s @ t) \<longleftrightarrow> encodable s \<and> encodable t"
  by (simp_all add: encodable_def)

lemma utf8_char_size: "utf8_char c = Some b \<Longrightarrow> plen b = char_size c"
  by (auto simp: utf8_char_def char_size_def split: if_splits)

lemma utf8_encode_iff: "(\<exists>b. utf8_encode s = Inr b) \<longleftrightarrow> encodable s"
  by (induction s) (auto simp: ok_iff split: option.splits)

lemma utf8_encode_size: "utf8_encode s = Inr b \<Longrightarrow> plen b = utf8_size s"
  by (induction s arbitrary: b) (auto simp: ok_iff utf8_char_size split: option.splits)

lemma utf8_encode_encodable: "utf8_encode s = Inr b \<Longrightarrow> encodable s"
  using utf8_encode_iff by blast

lemma encodable_chars: "encodable s \<Longrightarrow> \<forall>c \<in> set s. 0 \<le> c"
  by (auto simp: encodable_def list_all_iff utf8_char_def split: if_splits)

lemma ascii_char: "0 \<le> c \<Longrightarrow> c < 128 \<Longrightarrow> utf8_char c \<noteq> None"
  by (simp add: utf8_char_def surrogate_def)

section \<open>Joined texts\<close>

lemma utf8_size_join:
  "utf8_size (join d ss) = sum_list (map utf8_size ss) + max (plen ss - 1) 0 * utf8_size d"
proof (induction d ss rule: join.induct)
  case (3 d s t ss)
  have "max (plen (t # ss) - 1) 0 = plen ss" "max (plen (s # t # ss) - 1) 0 = plen ss + 1"
    using plen_simps(5) [of ss] by simp_all
  with 3 show ?case by (simp add: algebra_simps)
qed simp_all

lemma encodable_join: "encodable d \<Longrightarrow> encodable (join d ss) \<longleftrightarrow> (\<forall>s \<in> set ss. encodable s)"
  by (induction d ss rule: join.induct) auto

section \<open>The size of a value\<close>

abbreviation ctext :: "json \<Rightarrow> pystr" where
  "ctext \<equiv> jtext (u '','') (u '':'')"

definition jsize :: "json \<Rightarrow> int" where
  "jsize v = utf8_size (ctext v)"

lemma marks [simp]:
  "utf8_size (u '','') = 1" "utf8_size (u '':'') = 1" "encodable (u '','')" "encodable (u '':'')"
  by (simp_all add: u_def char_size_def utf8_char_def surrogate_def)

lemma jsize_JArr: "jsize (JArr vs) = 2 + max (plen vs - 1) 0 + sum_list (map jsize vs)"
  by (simp add: jsize_def [abs_def] utf8_size_join char_size_def o_def)

lemma jsize_JObj:
  "jsize (JObj kv) = 2 + plen kv + max (plen kv - 1) 0
     + sum_list (map (\<lambda>p. utf8_size (quote (fst p)) + jsize (snd p)) kv)"
proof -
  have "sum_list (map (\<lambda>p. utf8_size (quote (fst p)) + (1 + utf8_size (ctext (snd p)))) kv) =
      plen kv + sum_list (map (\<lambda>p. utf8_size (quote (fst p)) + utf8_size (ctext (snd p))) kv)"
    by (induction kv) auto
  then show ?thesis
    by (simp add: jsize_def utf8_size_join char_size_def o_def)
qed

lemma jsize_nonneg: "0 \<le> jsize v"
  unfolding jsize_def by (rule order_trans [OF plen_simps(5) utf8_size_length])

lemma sum_list_jsize_nonneg: "0 \<le> sum_list (map jsize vs)"
  by (rule sum_list_nonneg) (auto simp: jsize_nonneg)

text \<open>Both the size and the encodability of a text are computed value by value, never on the text itself.\<close>

lemma jsize_code [code]:
  "jsize JNull = 4" "jsize (JBool b) = (if b then 4 else 5)" "jsize (JInt i) = utf8_size (int_text i)"
  "jsize (JFloat f) = utf8_size (float_repr f)" "jsize (JStr s) = utf8_size (quote s)"
  "jsize (JArr vs) = 2 + max (plen vs - 1) 0 + sum_list (map jsize vs)"
  "jsize (JObj kv) = 2 + plen kv + max (plen kv - 1) 0 + sum_list (map (\<lambda>p. utf8_size (quote (fst p)) + jsize (snd p)) kv)"
  by (simp_all only: jsize_JArr jsize_JObj) (simp_all add: jsize_def u_def char_size_def)

definition enc_text :: "json \<Rightarrow> bool" where
  "enc_text v \<longleftrightarrow> encodable (ctext v)"

lemma enc_text_code [code]:
  "enc_text JNull = True" "enc_text (JBool b) = True" "enc_text (JInt i) = encodable (int_text i)"
  "enc_text (JFloat f) = encodable (float_repr f)" "enc_text (JStr s) = encodable (quote s)"
  "enc_text (JArr vs) = list_all enc_text vs"
  "enc_text (JObj kv) = list_all (\<lambda>p. encodable (quote (fst p)) \<and> enc_text (snd p)) kv"
  by (auto simp: enc_text_def encodable_join list_all_iff ascii_char u_def)

section \<open>Sorting keys\<close>

lemma sum_list_mset_eq: "mset xs = mset ys \<Longrightarrow> sum_list (map (f :: 'a \<Rightarrow> int) xs) = sum_list (map f ys)"
  by (metis mset_map sum_mset_sum_list)

lemma jsize_sort_keys: "jsize (sort_keys v) = jsize v"
proof (induction v rule: sort_keys.induct)
  case (1 vs)
  then show ?case
    by (simp add: jsize_JArr o_def cong: map_cong)
next
  case (2 kv)
  let ?f = "\<lambda>p. utf8_size (quote (fst p)) + jsize (snd p)"
  let ?kv = "map (\<lambda>p. (fst p, sort_keys (snd p))) kv"
  have "sum_list (map ?f (sort_key fst ?kv)) = sum_list (map ?f ?kv)"
    by (rule sum_list_mset_eq) simp
  also have "\<dots> = sum_list (map ?f kv)"
    using 2 by (simp add: o_def cong: map_cong)
  finally show ?case
    by (simp add: jsize_JObj plen_def)
qed simp_all

lemma dumpable_sort_keys [simp]: "dumpable (sort_keys v) = dumpable v"
  by (induction v rule: sort_keys.induct) auto

lemma encodable_sort_keys: "encodable (ctext (sort_keys v)) = encodable (ctext v)"
proof (induction v rule: sort_keys.induct)
  case (2 kv)
  then show ?case by (simp add: encodable_join)
qed (auto simp: encodable_join)

lemma canonical_bytes:
  "(\<exists>t b. dumps_sorted v = Inr t \<and> utf8_encode t = Inr b) \<longleftrightarrow> dumpable v \<and> encodable (ctext v)"
  by (simp add: dumps_sorted_def dumps_compact_def dumps_def utf8_encode_iff encodable_sort_keys)

lemma canonical_size:
  "dumps_sorted v = Inr t \<Longrightarrow> utf8_encode t = Inr b \<Longrightarrow> plen b = jsize v"
  using utf8_encode_size [of t b] jsize_sort_keys [of v]
  by (auto simp: dumps_sorted_def dumps_compact_def dumps_def jsize_def split: if_splits)

end
