(* ===== verification/Digest.thy ===== *)
theory Digest
  imports PyText
begin

text \<open>
  The byte encodings of the standard library that the wire format rests on: SHA-256 with its
  hexadecimal digest (\<open>hashlib.sha256(raw).hexdigest()\<close>, on 32-bit words as FIPS 180-4 defines
  it) and base64 (\<open>base64.b64encode\<close>, \<open>base64.b64decode(..., validate=True)\<close>).
\<close>

unbundle bit_operations_syntax

section \<open>SHA-256\<close>

type_synonym w32 = "32 word"

definition rotr :: "nat \<Rightarrow> w32 \<Rightarrow> w32" where
  "rotr n x = word_rotr n x"

definition sha_k :: "w32 list" where
  "sha_k =
    [1116352408, 1899447441, 3049323471, 3921009573, 961987163, 1508970993, 2453635748,
     2870763221, 3624381080, 310598401, 607225278, 1426881987, 1925078388, 2162078206,
     2614888103, 3248222580, 3835390401, 4022224774, 264347078, 604807628, 770255983,
     1249150122, 1555081692, 1996064986, 2554220882, 2821834349, 2952996808, 3210313671,
     3336571891, 3584528711, 113926993, 338241895, 666307205, 773529912, 1294757372,
     1396182291, 1695183700, 1986661051, 2177026350, 2456956037, 2730485921, 2820302411,
     3259730800, 3345764771, 3516065817, 3600352804, 4094571909, 275423344, 430227734,
     506948616, 659060556, 883997877, 958139571, 1322822218, 1537002063, 1747873779,
     1955562222, 2024104815, 2227730452, 2361852424, 2428436474, 2756734187, 3204031479,
     3329325298]"

record sha_state =
  sa :: w32  sb :: w32  sc :: w32  sd :: w32
  se :: w32  sf :: w32  sg :: w32  sh :: w32

definition sha_init :: sha_state where
  "sha_init = \<lparr>sa = 1779033703, sb = 3144134277, sc = 1013904242, sd = 2773480762,
               se = 1359893119, sf = 2600822924, sg = 528734635, sh = 1541459225\<rparr>"

text \<open>One round, with the round constant added to the schedule word.\<close>

definition sha_round :: "sha_state \<Rightarrow> w32 \<Rightarrow> sha_state" where
  "sha_round s kw =
     (let s1 = rotr 6 (se s) XOR rotr 11 (se s) XOR rotr 25 (se s);
          ch = (se s AND sf s) XOR (NOT (se s) AND sg s);
          t1 = sh s + s1 + ch + kw;
          s0 = rotr 2 (sa s) XOR rotr 13 (sa s) XOR rotr 22 (sa s);
          maj = (sa s AND sb s) XOR (sa s AND sc s) XOR (sb s AND sc s)
      in \<lparr>sa = t1 + s0 + maj, sb = sa s, sc = sb s, sd = sc s,
          se = sd s + t1, sf = se s, sg = sf s, sh = sg s\<rparr>)"

text \<open>The message schedule, the newest word first: 16 words of the block, then 48 more.\<close>

definition sha_next :: "w32 list \<Rightarrow> w32" where
  "sha_next ws =
     (let x = ws ! 14; y = ws ! 1
      in ws ! 15 + (rotr 7 x XOR rotr 18 x XOR drop_bit 3 x) + ws ! 6
         + (rotr 17 y XOR rotr 19 y XOR drop_bit 10 y))"

fun sha_schedule :: "nat \<Rightarrow> w32 list \<Rightarrow> w32 list" where
  "sha_schedule 0 ws = ws"
| "sha_schedule (Suc n) ws = sha_schedule n (sha_next ws # ws)"

definition sha_block :: "sha_state \<Rightarrow> w32 list \<Rightarrow> sha_state" where
  "sha_block s block =
     (let t = foldl sha_round s (map2 (+) sha_k (rev (sha_schedule 48 (rev block))))
      in \<lparr>sa = sa s + sa t, sb = sb s + sb t, sc = sc s + sc t, sd = sd s + sd t,
          se = se s + se t, sf = sf s + sf t, sg = sg s + sg t, sh = sh s + sh t\<rparr>)"

fun be_words :: "bytes \<Rightarrow> w32 list" where
  "be_words (a # b # c # d # r) =
     word_of_int (uint a * 16777216 + uint b * 65536 + uint c * 256 + uint d) # be_words r"
| "be_words _ = []"

definition sha_pad :: "bytes \<Rightarrow> bytes" where
  "sha_pad m =
     (let l = plen m; z = (55 - l) mod 64; n = 8 * l
      in m @ [128] @ replicate (nat z) 0
         @ map (\<lambda>i. byte_of (n div 256 ^ i mod 256)) [7, 6, 5, 4, 3, 2, 1, 0])"

fun sha_blocks :: "nat \<Rightarrow> sha_state \<Rightarrow> w32 list \<Rightarrow> sha_state" where
  "sha_blocks 0 s ws = s"
| "sha_blocks (Suc n) s ws = sha_blocks n (sha_block s (take 16 ws)) (drop 16 ws)"

definition hex_digit :: "int \<Rightarrow> int" where
  "hex_digit d = (if d < 10 then 48 + d else 87 + d)"

definition hex_word :: "w32 \<Rightarrow> pystr" where
  "hex_word w = map (\<lambda>i. hex_digit (uint w div 16 ^ i mod 16)) [7, 6, 5, 4, 3, 2, 1, 0]"

definition sha256_hex :: "bytes \<Rightarrow> pystr" where
  "sha256_hex m =
     (let ws = be_words (sha_pad m); s = sha_blocks (length ws div 16) sha_init ws
      in concat (map hex_word [sa s, sb s, sc s, sd s, se s, sf s, sg s, sh s]))"

lemma is_hex_digit: "is_hex (hex_digit (x mod 16))"
proof -
  have "0 \<le> x mod 16" "x mod 16 < 16" by simp_all
  then show ?thesis by (auto simp: hex_digit_def is_hex_def is_digit_def)
qed

lemma digest_pat_sha256 [simp]: "digest_pat (sha256_hex m)"
  by (simp add: digest_pat_def rep_pat_def sha256_hex_def hex_word_def Let_def is_hex_digit)

section \<open>Base64\<close>

definition b64_chr :: "int \<Rightarrow> int" where
  "b64_chr v =
     (if v < 26 then 65 + v else if v < 52 then 71 + v else if v < 62 then v - 4
      else if v = 62 then 43 else 47)"

definition b64_val :: "int \<Rightarrow> int option" where
  "b64_val c =
     (if is_upper c then Some (c - 65) else if is_lower c then Some (c - 71)
      else if is_digit c then Some (c + 4) else if c = 43 then Some 62
      else if c = 47 then Some 63 else None)"

fun b64encode :: "bytes \<Rightarrow> pystr" where
  "b64encode [] = []"
| "b64encode [a] = [b64_chr (uint a div 4), b64_chr (uint a mod 4 * 16), 61, 61]"
| "b64encode [a, b] =
     [b64_chr (uint a div 4), b64_chr (uint a mod 4 * 16 + uint b div 16),
      b64_chr (uint b mod 16 * 4), 61]"
| "b64encode (a # b # c # r) =
     b64_chr (uint a div 4) # b64_chr (uint a mod 4 * 16 + uint b div 16)
     # b64_chr (uint b mod 16 * 4 + uint c div 64) # b64_chr (uint c mod 64) # b64encode r"

text \<open>
  Strict decoding: groups of four alphabet characters, padding only at the end. Unused low bits
  of the last character are dropped, as the library drops them.
\<close>

fun b64decode :: "pystr \<Rightarrow> bytes result" where
  "b64decode [] = Inr []"
| "b64decode (w # x # y # z # r) =
     (case (b64_val w, b64_val x) of
       (Some p, Some q) \<Rightarrow>
         if r = [] \<and> y = 61 \<and> z = 61 then Inr [byte_of (p * 4 + q div 16)]
         else (case b64_val y of
           None \<Rightarrow> Inl ValueError
         | Some s \<Rightarrow>
             if r = [] \<and> z = 61 then
               Inr [byte_of (p * 4 + q div 16), byte_of (q mod 16 * 16 + s div 4)]
             else (case b64_val z of
               None \<Rightarrow> Inl ValueError
             | Some t \<Rightarrow>
                 bindR (b64decode r) (\<lambda>bs.
                   Inr (byte_of (p * 4 + q div 16) # byte_of (q mod 16 * 16 + s div 4)
                        # byte_of (s mod 4 * 64 + t) # bs))))
     | _ \<Rightarrow> Inl ValueError)"
| "b64decode _ = Inl ValueError"

lemma b64_val_chr: "0 \<le> v \<Longrightarrow> v < 64 \<Longrightarrow> b64_val (b64_chr v) = Some v"
  by (auto simp: b64_val_def b64_chr_def is_upper_def is_lower_def is_digit_def)

lemma b64_chr_not_pad: "0 \<le> v \<Longrightarrow> v < 64 \<Longrightarrow> b64_chr v \<noteq> 61"
  by (auto simp: b64_chr_def)

lemma uint_byte_bounds: "0 \<le> uint (a :: byte)" "uint (a :: byte) < 256"
  using uint_lt2p [of a] by simp_all

lemma byte_of_uint [simp]: "byte_of (uint a) = a"
  by (simp add: byte_of_def)

lemma byte_div_bounds:
  fixes a :: byte
  shows "0 \<le> uint a div 4" "uint a div 4 < 64" "0 \<le> uint a div 16" "uint a div 16 < 16"
    "0 \<le> uint a div 64" "uint a div 64 < 4"
  using uint_byte_bounds [of a] by (simp_all add: pos_imp_zdiv_nonneg_iff)

text \<open>Each of the three bytes of a group is put together again from its parts.\<close>

lemma group_parts:
  fixes a b c :: byte
  shows "byte_of (uint a div 4 * 4 + (uint a mod 4 * 16 + uint b div 16) div 16) = a"
    and "byte_of ((uint a mod 4 * 16 + uint b div 16) mod 16 * 16
           + (uint b mod 16 * 4 + uint c div 64) div 4) = b"
    and "byte_of ((uint b mod 16 * 4 + uint c div 64) mod 4 * 64 + uint c mod 64) = c"
proof -
  note b16 = byte_div_bounds(3,4) [of b] and c64 = byte_div_bounds(5,6) [of c]
  have 1: "(uint a mod 4 * 16 + uint b div 16) div 16 = uint a mod 4"
    "(uint a mod 4 * 16 + uint b div 16) mod 16 = uint b div 16"
    using b16 by (simp_all add: div_add1_eq mod_add_eq)
  have 2: "(uint b mod 16 * 4 + uint c div 64) div 4 = uint b mod 16"
    "(uint b mod 16 * 4 + uint c div 64) mod 4 = uint c div 64"
    using c64 by (simp_all add: div_add1_eq mod_add_eq)
  show "byte_of (uint a div 4 * 4 + (uint a mod 4 * 16 + uint b div 16) div 16) = a"
    unfolding 1 by simp
  show "byte_of ((uint a mod 4 * 16 + uint b div 16) mod 16 * 16
           + (uint b mod 16 * 4 + uint c div 64) div 4) = b"
    unfolding 1 2 by simp
  show "byte_of ((uint b mod 16 * 4 + uint c div 64) mod 4 * 64 + uint c mod 64) = c"
    unfolding 2 by simp
qed

lemma sextet_bounds:
  fixes a b c :: byte
  shows "0 \<le> uint a div 4" "uint a div 4 < 64"
    "0 \<le> uint a mod 4 * 16 + uint b div 16" "uint a mod 4 * 16 + uint b div 16 < 64"
    "0 \<le> uint b mod 16 * 4 + uint c div 64" "uint b mod 16 * 4 + uint c div 64 < 64"
    "0 \<le> uint c mod 64" "uint c mod 64 < 64"
    "0 \<le> uint a mod 4 * 16" "uint a mod 4 * 16 < 64" "0 \<le> uint b mod 16 * 4" "uint b mod 16 * 4 < 64"
proof -
  have "uint a mod 4 < 4" "0 \<le> uint a mod 4" "uint b mod 16 < 16" "0 \<le> uint b mod 16"
    "0 \<le> uint b div 16" "uint b div 16 < 16" "0 \<le> uint c div 64" "uint c div 64 < 4"
    using byte_div_bounds [of b] byte_div_bounds [of c] by simp_all
  then show "0 \<le> uint a mod 4 * 16 + uint b div 16" "uint a mod 4 * 16 + uint b div 16 < 64"
    "0 \<le> uint b mod 16 * 4 + uint c div 64" "uint b mod 16 * 4 + uint c div 64 < 64"
    "0 \<le> uint a mod 4 * 16" "uint a mod 4 * 16 < 64" "0 \<le> uint b mod 16 * 4" "uint b mod 16 * 4 < 64"
    by linarith+
  show "0 \<le> uint a div 4" "uint a div 4 < 64" "0 \<le> uint c mod 64" "uint c mod 64 < 64"
    using byte_div_bounds [of a] by simp_all
qed

lemma b64_roundtrip [simp]: "b64decode (b64encode m) = Inr m"
proof (induction m rule: b64encode.induct)
  case (2 a)
  show ?case
    using group_parts(1) [of a 0] by (simp add: b64_val_chr sextet_bounds)
next
  case (3 a b)
  show ?case
    using group_parts(1) [of a b] group_parts(2) [of a b 0]
    by (simp add: b64_val_chr b64_chr_not_pad sextet_bounds)
next
  case (4 a b c r)
  then show ?case
    using group_parts(1) [of a b] group_parts(2) [of a b c] group_parts(3) [of b c]
    by (simp add: b64_val_chr b64_chr_not_pad sextet_bounds)
qed simp

lemma b64encode_inject: "b64encode m = b64encode m' \<longleftrightarrow> m = m'"
  by (metis b64_roundtrip sum.inject(2))

lemma b64encode_length: "plen (b64encode m) = 4 * ((plen m + 2) div 3)"
proof (induction m rule: b64encode.induct)
  case (4 a b c r)
  have "(plen r + 5) div 3 = (plen r + 2) div 3 + 1" by presburger
  with 4 show ?case by (simp add: add.commute)
qed simp_all

lemma b64decode_raises: "raises_only (\<lambda>e. e = ValueError) (b64decode s)"
  by (induction s rule: b64decode.induct)
    (auto simp: raises_only_def bindR_err split: option.splits sum.splits)

end
