(* ===== verification/FavTransfer.thy ===== *)
theory FavTransfer
  imports JsonSize Digest
begin

text \<open>
  \<open>src/cli/favorites_transfer.py\<close>: the bounded byte transport of favorites documents. Original
  bytes travel as base64 with their length and SHA-256; a document is cut into chunks that each
  fit a request envelope. Parameters the callers of the module fix (limits, the envelope builder)
  have their Python type as HOL type, so a \<open>type(x) is int\<close> test on them is discharged by typing;
  what comes from the wire is \<open>json\<close> and every test on it is written out.
\<close>

section \<open>Limits and records\<close>

abbreviation MAX_DOCUMENT_BYTES :: int where "MAX_DOCUMENT_BYTES \<equiv> 1048576"
abbreviation MAX_CHUNK_BYTES :: int where "MAX_CHUNK_BYTES \<equiv> 8192"
abbreviation MAX_RPC_BYTES :: int where "MAX_RPC_BYTES \<equiv> 16384"
abbreviation MAX_CHUNKS :: int where "MAX_CHUNKS \<equiv> 256"

record encoded_bytes =
  size_bytes :: int
  sha256 :: pystr
  data_base64 :: pystr

record chunk =
  seq :: int
  offset :: int
  payload :: encoded_bytes

record envelope_bytes =
  client :: bytes
  queued_upper_bound :: bytes

record packed_chunk =
  chunk_of :: chunk
  envelopes :: envelope_bytes

record transfer_plan =
  plan_size :: int
  plan_sha256 :: pystr
  chunks :: "packed_chunk list"

section \<open>Byte and document codecs\<close>

definition limit :: "int \<Rightarrow> int \<Rightarrow> int result" where
  "limit v maximum =
     (if 1 \<le> v \<and> v \<le> maximum then Inr v else Inl (TransferError ''invalid_limits''))"

definition raw_bytes :: "bytes \<Rightarrow> int \<Rightarrow> bytes result" where
  "raw_bytes raw maximum =
     (if 1 \<le> plen raw \<and> plen raw \<le> maximum then Inr raw
      else Inl (TransferError ''invalid_bytes''))"

text \<open>\<open>except (ValueError, TypeError, UnicodeError, RecursionError)\<close>.\<close>

definition json_errors :: "exn \<Rightarrow> bool" where
  "json_errors e \<longleftrightarrow> is_ValueError e \<or> e = TypeError"

definition validate_document_bytes :: "bytes \<Rightarrow> int \<Rightarrow> json result" where
  "validate_document_bytes raw max_bytes =
     bindR (limit max_bytes MAX_DOCUMENT_BYTES) (\<lambda>maximum.
     bindR (raw_bytes raw maximum) (\<lambda>_.
       rethrow json_errors (TransferError ''invalid_json'')
         (bindR (utf8_decode raw) (\<lambda>text.
          bindR (loads text) (\<lambda>value.
          bindR (dumps_default value) (\<lambda>again.
          bindR (utf8_encode again) (\<lambda>_. Inr value)))))))"

definition encode_bytes :: "bytes \<Rightarrow> int \<Rightarrow> encoded_bytes result" where
  "encode_bytes raw max_bytes =
     bindR (limit max_bytes MAX_DOCUMENT_BYTES) (\<lambda>maximum.
     bindR (raw_bytes raw maximum) (\<lambda>_.
       Inr \<lparr>size_bytes = plen raw, sha256 = sha256_hex raw, data_base64 = b64encode raw\<rparr>))"

definition encode_document :: "bytes \<Rightarrow> int \<Rightarrow> encoded_bytes result" where
  "encode_document raw max_bytes =
     bindR (validate_document_bytes raw max_bytes) (\<lambda>_. encode_bytes raw max_bytes)"

definition decode_bytes :: "json \<Rightarrow> json \<Rightarrow> json \<Rightarrow> int \<Rightarrow> bytes result" where
  "decode_bytes data sz digest max_bytes =
     bindR (limit max_bytes MAX_DOCUMENT_BYTES) (\<lambda>maximum.
       if \<not> is_int sz \<or> \<not> (1 \<le> int_of sz \<and> int_of sz \<le> maximum)
          \<or> \<not> is_str digest \<or> \<not> digest_pat (str_of digest)
          \<or> \<not> is_str data \<or> str_of data = [] \<or> 4 * ((maximum + 2) div 3) < plen (str_of data)
       then Inl (TransferError ''invalid_encoding'')
       else
         bindR (rethrow is_ValueError (TransferError ''invalid_encoding'')
                 (bindR (b64decode (str_of data)) (\<lambda>raw.
                    if b64encode raw = str_of data then Inr raw else Inl ValueError)))
           (\<lambda>raw.
              if plen raw \<noteq> int_of sz then Inl (TransferError ''size_mismatch'')
              else if sha256_hex raw \<noteq> str_of digest then Inl (TransferError ''digest_mismatch'')
              else Inr raw))"

definition decode_document :: "json \<Rightarrow> json \<Rightarrow> json \<Rightarrow> int \<Rightarrow> bytes result" where
  "decode_document data sz digest max_bytes =
     bindR (decode_bytes data sz digest max_bytes) (\<lambda>raw.
     bindR (validate_document_bytes raw max_bytes) (\<lambda>_. Inr raw))"

section \<open>Request envelopes\<close>

definition idempotency_pat :: "pystr \<Rightarrow> bool" where
  "idempotency_pat = rep_pat (\<lambda>c. is_alnum c \<or> one_of ''_-'' c) 16 80"

text \<open>
  The controller's encoder escapes HTML and line separators: the bytes it will queue for a value.
\<close>

definition go_escape :: "pystr \<Rightarrow> pystr" where
  "go_escape s =
     replace_char 8233 (92 # u ''u2029'')
      (replace_char 8232 (92 # u ''u2028'')
       (replace_char 38 (92 # u ''u0026'')
        (replace_char 62 (92 # u ''u003e'')
         (replace_char 60 (92 # u ''u003c'') s))))"

definition go_raw :: "json \<Rightarrow> bytes result" where
  "go_raw v = bindR (dumps_compact v) (\<lambda>s. utf8_encode (go_escape s))"

definition request_payload :: "pystr \<Rightarrow> json \<Rightarrow> pystr option \<Rightarrow> json" where
  "request_payload action params key =
     JObj ([(u ''action'', JStr action), (u ''params'', params)]
           @ (case key of None \<Rightarrow> [] | Some k \<Rightarrow> [(u ''idempotency_key'', JStr k)]))"

definition queued_bytes :: "bytes \<Rightarrow> bytes \<Rightarrow> bytes" where
  "queued_bytes action params =
     ascii ''{'' @ [34] @ ascii ''action'' @ [34] @ ascii '':'' @ action
     @ ascii '','' @ [34] @ ascii ''expires_at'' @ [34] @ ascii '':-'' @ replicate 31 57
     @ ascii '','' @ [34] @ ascii ''id'' @ [34] @ ascii '':'' @ [34] @ replicate 32 102 @ [34]
     @ ascii '','' @ [34] @ ascii ''params'' @ [34] @ ascii '':'' @ params @ ascii ''}''"

definition request_envelopes :: "pystr \<Rightarrow> json \<Rightarrow> pystr option \<Rightarrow> envelope_bytes result" where
  "request_envelopes action params key =
     (if action = [] \<or> \<not> is_dict params
         \<or> (case key of None \<Rightarrow> False | Some k \<Rightarrow> \<not> idempotency_pat k)
      then Inl (TransferError ''invalid_envelope'')
      else
        rethrow (\<lambda>e. json_errors e \<or> is_TransferError e) (TransferError ''invalid_envelope'')
          (bindR (dumps_default (request_payload action params key)) (\<lambda>text.
           bindR (utf8_encode text) (\<lambda>cl.
           bindR (validate_document_bytes cl MAX_DOCUMENT_BYTES) (\<lambda>_.
           bindR (go_raw (JStr action)) (\<lambda>ga.
           bindR (go_raw params) (\<lambda>gp.
           bindR (validate_document_bytes (queued_bytes ga gp) MAX_DOCUMENT_BYTES) (\<lambda>_.
             Inr \<lparr>client = cl, queued_upper_bound = queued_bytes ga gp\<rparr>))))))))"

section \<open>Packing\<close>

definition slice :: "bytes \<Rightarrow> int \<Rightarrow> int \<Rightarrow> bytes" where
  "slice raw from to = take (nat (to - from)) (drop (nat from) raw)"

text \<open>\<open>enumerate(range(0, len(raw), chunk_bytes))\<close>.\<close>

definition chunk_offsets :: "int \<Rightarrow> int \<Rightarrow> (int \<times> int) list" where
  "chunk_offsets len chunk_bytes =
     map (\<lambda>i. (int i, int i * chunk_bytes)) [0 ..< nat ((len + chunk_bytes - 1) div chunk_bytes)]"

text \<open>
  One round of the loop. A builder that raises, or builds bytes that are not an acceptable
  document, is refused as an invalid envelope.
\<close>

definition check_envelope :: "int \<Rightarrow> bytes \<Rightarrow> unit result" where
  "check_envelope rpc_bytes envelope =
     (if rpc_bytes < plen envelope then Inl (TransferError ''envelope_too_large'')
      else rethrow is_TransferError (TransferError ''invalid_envelope'')
        (bindR (validate_document_bytes envelope rpc_bytes) (\<lambda>_. Inr ())))"

definition pack_chunk ::
  "bytes \<Rightarrow> (chunk \<Rightarrow> envelope_bytes result) \<Rightarrow> int \<Rightarrow> int \<Rightarrow> int \<times> int \<Rightarrow> packed_chunk result" where
  "pack_chunk raw build chunk_bytes rpc_bytes so =
     bindR (encode_bytes (slice raw (snd so) (snd so + chunk_bytes)) chunk_bytes) (\<lambda>p.
       let c = \<lparr>seq = fst so, offset = snd so, payload = p\<rparr>
       in bindR (rethrow (\<lambda>_. True) (TransferError ''invalid_envelope'') (build c)) (\<lambda>env.
          bindR (forR (check_envelope rpc_bytes) [client env, queued_upper_bound env]) (\<lambda>_.
            Inr \<lparr>chunk_of = c, envelopes = env\<rparr>)))"

definition pack_document ::
  "bytes \<Rightarrow> (chunk \<Rightarrow> envelope_bytes result) \<Rightarrow> int \<Rightarrow> int \<Rightarrow> int \<Rightarrow> int \<Rightarrow> transfer_plan result" where
  "pack_document raw build chunk_bytes rpc_bytes max_bytes max_chunks =
     bindR (validate_document_bytes raw max_bytes) (\<lambda>_.
     bindR (limit chunk_bytes MAX_CHUNK_BYTES) (\<lambda>cb.
     bindR (limit rpc_bytes MAX_RPC_BYTES) (\<lambda>rb.
     bindR (limit max_chunks MAX_CHUNKS) (\<lambda>mc.
       if mc < (plen raw + cb - 1) div cb then Inl (TransferError ''too_many_chunks'')
       else bindR (mapR (pack_chunk raw build cb rb) (chunk_offsets (plen raw) cb)) (\<lambda>cs.
         Inr \<lparr>plan_size = plen raw, plan_sha256 = sha256_hex raw, chunks = cs\<rparr>)))))"

section \<open>When the operations return\<close>

lemma limit_ok [ok_iff]: "limit v m = Inr x \<longleftrightarrow> x = v \<and> 1 \<le> v \<and> v \<le> m"
  by (auto simp: limit_def)

lemma raw_bytes_ok [ok_iff]: "raw_bytes raw m = Inr x \<longleftrightarrow> x = raw \<and> 1 \<le> plen raw \<and> plen raw \<le> m"
  by (auto simp: raw_bytes_def)

lemma encode_bytes_ok [ok_iff]:
  "encode_bytes raw m = Inr x \<longleftrightarrow>
     m \<le> MAX_DOCUMENT_BYTES \<and> 1 \<le> plen raw \<and> plen raw \<le> m \<and>
     x = \<lparr>size_bytes = plen raw, sha256 = sha256_hex raw, data_base64 = b64encode raw\<rparr>"
  by (auto simp: encode_bytes_def ok_iff)

lemma decode_bytes_ok [ok_iff]:
  "decode_bytes data sz digest m = Inr raw \<longleftrightarrow>
     1 \<le> m \<and> m \<le> MAX_DOCUMENT_BYTES \<and> sz = JInt (plen raw) \<and> digest = JStr (sha256_hex raw) \<and>
     data = JStr (b64encode raw) \<and> 1 \<le> plen raw \<and> plen raw \<le> m"
  (is "?l \<longleftrightarrow> ?r")
proof
  assume ?l
  then show ?r
    by (auto simp: decode_bytes_def ok_iff is_int_iff is_str_iff split: if_splits)
next
  assume r: ?r
  have "4 * ((plen raw + 2) div 3) \<le> 4 * ((m + 2) div 3)"
    using r by (simp add: zdiv_mono1)
  moreover have "b64encode raw \<noteq> []"
    using r by (cases raw rule: b64encode.cases) auto
  ultimately show ?l
    using r by (auto simp: decode_bytes_def b64encode_length limit_def)
qed

lemma validate_document_bytes_ok:
  "validate_document_bytes raw m = Inr v \<Longrightarrow>
     1 \<le> plen raw \<and> plen raw \<le> m \<and> m \<le> MAX_DOCUMENT_BYTES \<and> loads_bytes raw = Inr v"
  by (auto simp: validate_document_bytes_def loads_bytes_def ok_iff)

lemma pack_chunk_ok:
  "pack_chunk raw build cb rb (s, off) = Inr pc \<Longrightarrow>
     chunk_of pc = \<lparr>seq = s, offset = off,
        payload = \<lparr>size_bytes = plen (slice raw off (off + cb)),
          sha256 = sha256_hex (slice raw off (off + cb)),
          data_base64 = b64encode (slice raw off (off + cb))\<rparr>\<rparr> \<and>
     plen (client (envelopes pc)) \<le> rb \<and> plen (queued_upper_bound (envelopes pc)) \<le> rb"
  by (auto simp: pack_chunk_def Let_def ok_iff check_envelope_def split: if_splits)

text \<open>The slices of consecutive ranges put together are the bytes they were cut from.\<close>

lemma concat_take_drop:
  "0 < k \<Longrightarrow> length raw \<le> n * k \<Longrightarrow> concat (map (\<lambda>i. take k (drop (i * k) raw)) [0..<n]) = raw"
proof (induction n arbitrary: raw)
  case (Suc n)
  have "concat (map (\<lambda>i. take k (drop (i * k) raw)) [0..<Suc n]) =
      take k raw @ concat (map (\<lambda>i. take k (drop (Suc i * k) raw)) [0..<n])"
    by (simp add: upt_conv_Cons map_Suc_upt [symmetric] o_def del: upt_Suc)
  also have "concat (map (\<lambda>i. take k (drop (Suc i * k) raw)) [0..<n]) = drop k raw"
    using Suc.IH [of "drop k raw"] Suc.prems by (simp add: add.commute)
  finally show ?case by simp
qed simp

lemma chunk_slices:
  assumes "1 \<le> cb"
  shows "concat (map (\<lambda>so. slice raw (snd so) (snd so + cb)) (chunk_offsets (plen raw) cb)) = raw"
proof -
  let ?n = "nat ((plen raw + cb - 1) div cb)"
  have "plen raw \<le> (plen raw + cb - 1) div cb * cb"
  proof -
    have "(plen raw + cb - 1) div cb * cb + (plen raw + cb - 1) mod cb = plen raw + cb - 1"
      by simp
    moreover have "(plen raw + cb - 1) mod cb < cb" using assms by simp
    ultimately show ?thesis by linarith
  qed
  moreover have "0 \<le> (plen raw + cb - 1) div cb"
  proof -
    have "0 \<le> plen raw + cb - 1" using assms plen_simps(5) [of raw] by linarith
    then show ?thesis using assms by (simp add: pos_imp_zdiv_nonneg_iff)
  qed
  ultimately have "int (length raw) \<le> int (?n * nat cb)"
    using assms by (simp add: plen_def)
  then have len: "length raw \<le> ?n * nat cb" by (simp only: of_nat_le_iff)
  have "concat (map (\<lambda>i. take (nat cb) (drop (i * nat cb) raw)) [0..<?n]) = raw"
    by (rule concat_take_drop [OF _ len]) (use assms in simp)
  moreover have "slice raw (int i * cb) (int i * cb + cb) = take (nat cb) (drop (i * nat cb) raw)" for i
    using assms by (simp add: slice_def nat_mult_distrib)
  ultimately show ?thesis
    by (simp add: chunk_offsets_def o_def)
qed

text \<open>What the receiver of the chunks decodes, chunk by chunk.\<close>

definition receive_chunk :: "chunk \<Rightarrow> bytes result" where
  "receive_chunk c = decode_bytes (JStr (data_base64 (payload c))) (JInt (size_bytes (payload c)))
     (JStr (sha256 (payload c))) MAX_CHUNK_BYTES"

lemma mapR_chunks:
  assumes "mapR (pack_chunk raw build cb rb) xs = Inr cs" "1 \<le> cb" "cb \<le> MAX_CHUNK_BYTES"
  shows "mapR receive_chunk (map chunk_of cs) = Inr (map (\<lambda>so. slice raw (snd so) (snd so + cb)) xs)"
    and "map (\<lambda>c. (seq (chunk_of c), offset (chunk_of c))) cs = xs"
    and "\<forall>c \<in> set cs. plen (client (envelopes c)) \<le> rb \<and> plen (queued_upper_bound (envelopes c)) \<le> rb"
  using assms(1)
proof (induction xs arbitrary: cs)
  case (Cons so xs)
  obtain s off where so: "so = (s, off)" by (cases so)
  {
    case 1
    then obtain c cs' where cs: "cs = c # cs'" "pack_chunk raw build cb rb so = Inr c"
        "mapR (pack_chunk raw build cb rb) xs = Inr cs'"
      by (auto simp: loop_simps split: sum.splits)
    have "1 \<le> plen (slice raw off (off + cb)) \<and> plen (slice raw off (off + cb)) \<le> cb"
      using cs(2) so by (auto simp: pack_chunk_def Let_def ok_iff)
    then have "receive_chunk (chunk_of c) = Inr (slice raw off (off + cb))"
      using pack_chunk_ok [of raw build cb rb s off c] cs(2) so assms(3)
      by (simp add: receive_chunk_def ok_iff)
    with Cons.IH(1) [OF cs(3)] so cs(1) show ?case
      by (simp add: loop_simps)
  next
    case 2
    then obtain c cs' where cs: "cs = c # cs'" "pack_chunk raw build cb rb so = Inr c"
        "mapR (pack_chunk raw build cb rb) xs = Inr cs'"
      by (auto simp: loop_simps split: sum.splits)
    with Cons.IH(2) [OF cs(3)] pack_chunk_ok [of raw build cb rb s off c] so show ?case by simp
  next
    case 3
    then obtain c cs' where cs: "cs = c # cs'" "pack_chunk raw build cb rb so = Inr c"
        "mapR (pack_chunk raw build cb rb) xs = Inr cs'"
      by (auto simp: loop_simps split: sum.splits)
    with Cons.IH(3) [OF cs(3)] pack_chunk_ok [of raw build cb rb s off c] so show ?case by simp
  }
qed (auto simp: loop_simps)

end
