(* ===== verification/FavTransferProps.thy ===== *)
theory FavTransferProps
  imports FavTransfer
begin

text \<open>
  The properties of \<open>src/cli/favorites_transfer.py\<close>: what the receiver of an encoding or of the
  chunks of a document accepts, and what a request envelope holds.
\<close>

section \<open>Packing succeeds, and what a plan of chunks holds\<close>

lemma chunk_offsets_bounds:
  assumes "(s, off) \<in> set (chunk_offsets len cb)" "1 \<le> cb"
  shows "0 \<le> off \<and> off < len \<and> off = s * cb"
proof -
  from assms(1) obtain i where i: "s = int i" "off = int i * cb" "i < nat ((len + cb - 1) div cb)"
    by (auto simp: chunk_offsets_def)
  then have "int i + 1 \<le> (len + cb - 1) div cb" by linarith
  then have "(int i + 1) * cb \<le> (len + cb - 1) div cb * cb"
    using assms(2) by (intro mult_right_mono) simp_all
  also have "\<dots> \<le> len + cb - 1"
    using assms(2) by (metis div_mult_mod_eq le_add_same_cancel1 pos_mod_sign zero_less_one order_less_le_trans)
  finally show ?thesis using i assms(2) by (simp add: algebra_simps)
qed

lemma slice_length:
  "0 \<le> off \<Longrightarrow> off < plen raw \<Longrightarrow> 1 \<le> cb \<Longrightarrow> plen (slice raw off (off + cb)) = min cb (plen raw - off)"
  by (auto simp: slice_def plen_def min_def)

lemma pack_chunk_returns:
  assumes "(s, off) \<in> set (chunk_offsets (plen raw) cb)" "1 \<le> cb" "cb \<le> MAX_CHUNK_BYTES"
    and "\<And>c. \<exists>env. build c = Inr env \<and> check_envelope rb (client env) = Inr ()
      \<and> check_envelope rb (queued_upper_bound env) = Inr ()"
  shows "\<exists>pc. pack_chunk raw build cb rb (s, off) = Inr pc"
proof -
  from chunk_offsets_bounds [OF assms(1,2)] have off: "0 \<le> off" "off < plen raw" by simp_all
  have len: "1 \<le> plen (slice raw off (off + cb)) \<and> plen (slice raw off (off + cb)) \<le> cb"
    using slice_length [OF off assms(2)] off assms(2) by simp
  let ?p = "\<lparr>size_bytes = plen (slice raw off (off + cb)), sha256 = sha256_hex (slice raw off (off + cb)),
    data_base64 = b64encode (slice raw off (off + cb))\<rparr>"
  from assms(4) [of "\<lparr>seq = s, offset = off, payload = ?p\<rparr>"] obtain env
    where "build \<lparr>seq = s, offset = off, payload = ?p\<rparr> = Inr env"
      "check_envelope rb (client env) = Inr ()" "check_envelope rb (queued_upper_bound env) = Inr ()" by blast
  moreover have "encode_bytes (slice raw off (off + cb)) cb = Inr ?p"
    using len assms(2,3) by (simp add: encode_bytes_ok)
  ultimately show ?thesis
    by (simp add: pack_chunk_def Let_def loop_simps)
qed

lemma mapR_returns: "(\<And>x. x \<in> set xs \<Longrightarrow> \<exists>y. f x = Inr y) \<Longrightarrow> \<exists>ys. mapR f xs = Inr ys"
proof (induction xs)
  case (Cons x xs)
  then obtain y ys where "f x = Inr y" "mapR f xs = Inr ys" by (meson list.set_intros)
  then show ?case by (simp add: loop_simps)
qed simp

lemma pack_returns:
  assumes "validate_document_bytes raw mb = Inr v" "1 \<le> cb \<and> cb \<le> MAX_CHUNK_BYTES"
    "1 \<le> rb \<and> rb \<le> MAX_RPC_BYTES" "1 \<le> mc \<and> mc \<le> MAX_CHUNKS" "(plen raw + cb - 1) div cb \<le> mc"
    "\<And>c. \<exists>env. build c = Inr env \<and> check_envelope rb (client env) = Inr ()
        \<and> check_envelope rb (queued_upper_bound env) = Inr ()"
  shows "\<exists>plan. pack_document raw build cb rb mb mc = Inr plan"
proof -
  have "\<exists>pc. pack_chunk raw build cb rb so = Inr pc" if "so \<in> set (chunk_offsets (plen raw) cb)" for so
    using pack_chunk_returns [of "fst so" "snd so" raw cb build rb] that assms(2,6) by simp
  then have "\<exists>cs. mapR (pack_chunk raw build cb rb) (chunk_offsets (plen raw) cb) = Inr cs"
    by (rule mapR_returns)
  with assms(1-5) show ?thesis
    by (auto simp: pack_document_def limit_def)
qed

lemma sample_packs:
  "\<exists>plan. pack_document (ascii ''[1,2]'') (\<lambda>c. Inr \<lparr>client = ascii ''{}'', queued_upper_bound = ascii ''{}''\<rparr>)
      2 16 100 4 = Inr plan"
proof -
  have v: "validate_document_bytes (ascii ''[1,2]'') 100 = Inr (JArr [JInt 1, JInt 2])" by code_simp
  have e: "check_envelope 16 (ascii ''{}'') = Inr ()" by code_simp
  have n: "plen (ascii ''[1,2]'') = 5" by code_simp
  show ?thesis
    by (rule pack_returns [OF v]) (use e n in simp_all)
qed

text \<open>
  C16: Packing a document into chunks is lossless and bounded: decoding each chunk of a plan and
  concatenating gives the original bytes, the chunks are numbered and placed consecutively, the
  recorded size and digest are the document's, there are at most \<open>max_chunks\<close> of them and every
  envelope is within \<open>rpc_bytes\<close>.
\<close>

theorem pack_document_lossless:
  assumes "pack_document raw build cb rb mb mc = Inr plan"
  shows "(\<exists>parts. mapR receive_chunk (map chunk_of (chunks plan)) = Inr parts \<and> concat parts = raw) \<and>
      map (\<lambda>c. (seq (chunk_of c), offset (chunk_of c))) (chunks plan)
        = map (\<lambda>i. (int i, int i * cb)) [0 ..< length (chunks plan)] \<and>
      plan_size plan = plen raw \<and> plan_sha256 plan = sha256_hex raw \<and>
      plen (chunks plan) \<le> mc \<and>
      (\<forall>c \<in> set (chunks plan). plen (client (envelopes c)) \<le> rb \<and> plen (queued_upper_bound (envelopes c)) \<le> rb)"
proof -
  from assms obtain cs where cs: "mapR (pack_chunk raw build cb rb) (chunk_offsets (plen raw) cb) = Inr cs"
    and plan: "plan = \<lparr>plan_size = plen raw, plan_sha256 = sha256_hex raw, chunks = cs\<rparr>"
    and lim: "1 \<le> cb" "cb \<le> MAX_CHUNK_BYTES" "(plen raw + cb - 1) div cb \<le> mc" "1 \<le> mc"
    by (auto simp: pack_document_def bindR_ok limit_ok split: if_splits)
  note m = mapR_chunks [OF cs lim(1,2)]
  have len: "length cs = nat ((plen raw + cb - 1) div cb)"
    using arg_cong [OF m(2), of length] by (simp add: chunk_offsets_def)
  have "concat (map (\<lambda>so. slice raw (snd so) (snd so + cb)) (chunk_offsets (plen raw) cb)) = raw"
    by (rule chunk_slices [OF lim(1)])
  moreover have "plen cs \<le> mc" using len lim by (simp add: plen_def)
  ultimately show ?thesis
    using m len unfolding plan by (auto simp: chunk_offsets_def)
qed

theorem pack_document_lossless_witness:
  "\<exists>plan parts. pack_document (ascii ''[1,2]'') (\<lambda>c. Inr \<lparr>client = ascii ''{}'', queued_upper_bound = ascii ''{}''\<rparr>)
      2 16 100 4 = Inr plan \<and>
    mapR receive_chunk (map chunk_of (chunks plan)) = Inr parts \<and> concat parts = ascii ''[1,2]''"
proof -
  from sample_packs obtain plan where "pack_document (ascii ''[1,2]'')
      (\<lambda>c. Inr \<lparr>client = ascii ''{}'', queued_upper_bound = ascii ''{}''\<rparr>) 2 16 100 4 = Inr plan" ..
  with pack_document_lossless [OF this] show ?thesis by blast
qed



section \<open>Encodings\<close>

text \<open>
  A received encoding is accepted exactly when it is the encoding of its bytes: the declared length
  and digest are those of the decoded bytes, the base64 is the canonical one, and the length is
  within the limit. So what one side encodes the other side decodes to the same bytes.
\<close>

theorem decode_exact:
  "decode_bytes data sz digest m = Inr raw \<longleftrightarrow>
     1 \<le> m \<and> (\<exists>e. encode_bytes raw m = Inr e \<and> data = JStr (data_base64 e) \<and>
       sz = JInt (size_bytes e) \<and> digest = JStr (sha256 e))"
  by (auto simp: decode_bytes_ok encode_bytes_ok)

section \<open>Request envelopes\<close>

lemma plain_payload:
  "plain (JStr action) \<Longrightarrow> plain params \<Longrightarrow> (\<And>k. key = Some k \<Longrightarrow> plain (JStr k)) \<Longrightarrow>
     plain (request_payload action params key)"
  by (auto simp: request_payload_def u_def split: option.splits)

lemma envelope_payload:
  assumes "request_envelopes action params key = Inr env" and "plain params"
    and "\<forall>c \<in> set action. 0 \<le> c" and "\<And>k. key = Some k \<Longrightarrow> \<forall>c \<in> set k. 0 \<le> c"
  shows "loads_bytes (client env) = Inr (request_payload action params key) \<and>
    plen (client env) \<le> MAX_DOCUMENT_BYTES \<and> plen (queued_upper_bound env) \<le> MAX_DOCUMENT_BYTES"
proof -
  from assms(1) obtain t cl ga gp a b
    where env: "env = \<lparr>client = cl, queued_upper_bound = queued_bytes ga gp\<rparr>"
      and t: "dumps_default (request_payload action params key) = Inr t" "utf8_encode t = Inr cl"
      and val: "validate_document_bytes cl MAX_DOCUMENT_BYTES = Inr a"
        "validate_document_bytes (queued_bytes ga gp) MAX_DOCUMENT_BYTES = Inr b"
    by (auto simp: request_envelopes_def bindR_ok rethrow_ok split: if_splits)
  have "plain (request_payload action params key)"
    using assms(2-4) by (intro plain_payload) auto
  from loads_default [OF this t(1)] utf8_roundtrip [OF t(2)]
  show ?thesis
    using validate_document_bytes_ok [OF val(1)] validate_document_bytes_ok [OF val(2)] env
    by (simp add: loads_bytes_def)
qed



end
