(* ===== verification/FavDocument.thy ===== *)
theory FavDocument
  imports FavTransfer "HOL-Library.Multiset"
begin

text \<open>
  \<open>src/cli/favorites_document.py\<close>: the portable bundle of favorites. A bundle is a version and a
  list of scope documents; a scope document holds the channel lists and media favorites of one
  (provider, profile, source). The module validates bundles, plans the union of several bundles
  and empties a scope. The host's locator codec for channels is the parameter \<open>codec\<close>.
\<close>

section \<open>Primitive checks\<close>

abbreviation MAX_BYTES :: int where "MAX_BYTES \<equiv> 1048576"

abbreviation invalid_document :: exn where "invalid_document \<equiv> DocumentError ''invalid_document''"
abbreviation document_too_large :: exn where "document_too_large \<equiv> DocumentError ''document_too_large''"

definition PROVIDERS :: "string list" where
  "PROVIDERS = [''m3u'', ''vportal'', ''plex'', ''offline'']"

definition COVERAGE :: json where
  "COVERAGE = JObj [(u ''channelLists'', lit ''complete-for-scope''),
     (u ''mediaFavorites'', lit ''complete-for-scope''), (u ''remoteAliases'', lit ''excluded-preserved''),
     (u ''history'', lit ''excluded-preserved'')]"

definition d_require :: "bool \<Rightarrow> unit result" where
  "d_require c = check invalid_document c"

definition d_shape :: "json \<Rightarrow> string list \<Rightarrow> string list \<Rightarrow> unit result" where
  "d_shape v required optional =
     d_require (is_dict v \<and> list_all (has v) required
       \<and> list_all (\<lambda>k. list_ex (\<lambda>n. k = u n) (required @ optional)) (keys_of v))"

definition d_text :: "json \<Rightarrow> int \<Rightarrow> bool \<Rightarrow> unit result" where
  "d_text v lim blank =
     seqR [d_require (is_str v \<and> (blank \<or> str_of v \<noteq> []) \<and> plen (str_of v) \<le> lim
             \<and> \<not> has_control (str_of v)),
           bindR (rethrow (\<lambda>e. e = UnicodeError) invalid_document (utf8_encode (str_of v))) (\<lambda>_. Inr ())]"

definition d_uuid :: "json \<Rightarrow> unit result" where
  "d_uuid v = d_require (is_str v \<and> uuid4_pat (str_of v))"

text \<open>\<open>_json(value)\<close>, and its text where it is known not to raise.\<close>

definition d_json :: "json \<Rightarrow> pystr result" where
  "d_json v = dumps_sorted v"

definition canon :: "json \<Rightarrow> pystr" where
  "canon v = jtext (u '','') (u '':'') (sort_keys v)"

section \<open>The size bound\<close>

text \<open>
  The traversal carries the bytes that remain and the nodes seen. It charges a dict its braces,
  colons and commas, a list its brackets and commas, a scalar its text.
\<close>

definition visit_enter :: "int \<Rightarrow> int \<times> int \<Rightarrow> (int \<times> int) result" where
  "visit_enter depth st =
     (if depth \<le> 16 \<and> snd st + 1 \<le> MAX_BYTES then Inr (fst st, snd st + 1)
      else Inl document_too_large)"

definition charge :: "int \<Rightarrow> int \<times> int \<Rightarrow> (int \<times> int) result" where
  "charge n st = (if 0 \<le> fst st - n then Inr (fst st - n, snd st) else Inl document_too_large)"

definition visit_scalar :: "json \<Rightarrow> int \<times> int \<Rightarrow> (int \<times> int) result" where
  "visit_scalar v st =
     bindR (check document_too_large (is_str v \<longrightarrow> plen (str_of v) \<le> MAX_BYTES)) (\<lambda>_.
     bindR (d_require (case v of JFloat f \<Rightarrow> is_finite f | _ \<Rightarrow> True)) (\<lambda>_.
     bindR (rethrow is_ValueError invalid_document (bindR (d_json v) utf8_encode)) (\<lambda>b.
       charge (plen b) st)))"

fun visit :: "json \<Rightarrow> int \<Rightarrow> int \<times> int \<Rightarrow> (int \<times> int) result"
  and visit_list :: "json list \<Rightarrow> int \<Rightarrow> int \<times> int \<Rightarrow> (int \<times> int) result"
  and visit_items :: "(pystr \<times> json) list \<Rightarrow> int \<Rightarrow> int \<times> int \<Rightarrow> (int \<times> int) result" where
  "visit (JObj kv) depth st =
     bindR (visit_enter depth st) (\<lambda>s.
     bindR (check document_too_large (plen kv \<le> 64)) (\<lambda>_.
     bindR (charge (2 + plen kv + max (plen kv - 1) 0) s) (\<lambda>s.
     bindR (visit_items kv (depth + 1) s) (\<lambda>s. charge 0 s))))"
| "visit (JArr vs) depth st =
     bindR (visit_enter depth st) (\<lambda>s.
     bindR (check document_too_large (plen vs \<le> 65536)) (\<lambda>_.
     bindR (charge (2 + max (plen vs - 1) 0) s) (\<lambda>s.
     bindR (visit_list vs (depth + 1) s) (\<lambda>s. charge 0 s))))"
| "visit v depth st = bindR (visit_enter depth st) (visit_scalar v)"
| "visit_list [] depth st = Inr st"
| "visit_list (v # vs) depth st = bindR (visit v depth st) (visit_list vs depth)"
| "visit_items [] depth st = Inr st"
| "visit_items ((k, v) # kv) depth st =
     bindR (bindR (visit_enter depth st) (visit_scalar (JStr k))) (\<lambda>s.
     bindR (visit v depth s) (visit_items kv depth))"

definition bounded :: "json \<Rightarrow> unit result" where
  "bounded v =
     bindR (visit v 0 (MAX_BYTES, 0)) (\<lambda>_.
     bindR (d_json v) (\<lambda>t.
     bindR (utf8_encode t) (\<lambda>b. check document_too_large (plen b \<le> MAX_BYTES))))"

section \<open>Locators and references\<close>

type_synonym channel_codec = "(json \<Rightarrow> json \<Rightarrow> json result) option"

definition server_id_pat :: "pystr \<Rightarrow> bool" where
  "server_id_pat = head_pat is_alnum (\<lambda>c. is_alnum c \<or> one_of ''._-'' c) 255"

definition rating_key_pat :: "pystr \<Rightarrow> bool" where
  "rating_key_pat = head_pat (\<lambda>c. is_digit c \<and> c \<noteq> 48) is_digit 19"

text \<open>\<open>re.match(r"^[A-Za-z][A-Za-z0-9+.-]*:", path)\<close>.\<close>

definition has_scheme :: "pystr \<Rightarrow> bool" where
  "has_scheme s = (case s of [] \<Rightarrow> False
     | c # cs \<Rightarrow> (is_lower c \<or> is_upper c)
         \<and> starts_with (u '':'') (dropWhile (\<lambda>d. is_alnum d \<or> one_of ''+.-'' d) cs))"

definition safe_segments :: "pystr \<Rightarrow> bool" where
  "safe_segments path \<longleftrightarrow> list_all (\<lambda>p. p \<notin> {[], u ''.'', u ''..''}) (split_on 47 path)"

definition local_path_ok :: "pystr \<Rightarrow> bool" where
  "local_path_ok path \<longleftrightarrow>
     \<not> starts_with (u ''/'') path \<and> 92 \<notin> set path \<and> \<not> has_scheme path \<and> safe_segments path"

definition locator :: "json \<Rightarrow> json \<Rightarrow> channel_codec \<Rightarrow> unit result" where
  "locator v scope codec =
     bindR (d_require (is_dict v)) (\<lambda>_.
     onget v ''kind'' (\<lambda>kind.
       if is_lit kind ''channel'' then seqR
         [d_shape v [''kind'', ''itemId''] [],
          on v ''itemId'' (\<lambda>x. d_text x 8192 False),
          check (DocumentError ''unsupported_channel_codec'')
            (case codec of None \<Rightarrow> False | Some f \<Rightarrow> f scope v = Inr (JBool True))]
       else if is_lit kind ''plex-media'' then seqR
         [d_shape v [''kind'', ''serverId'', ''ratingKey''] [],
          on v ''serverId'' (\<lambda>x. d_text x 256 False),
          on v ''serverId'' (\<lambda>x. d_require (server_id_pat (str_of x))),
          on v ''ratingKey'' (\<lambda>x. d_require (is_str x \<and> rating_key_pat (str_of x)))]
       else if is_lit kind ''vportal'' then seqR
         [d_shape v [''kind'', ''mediaType'', ''leafId''] [],
          on v ''mediaType'' (\<lambda>x. d_require (in_lits x [''live'', ''movie'', ''episode''])),
          on v ''leafId'' (\<lambda>x. d_text x 512 False)]
       else if is_lit kind ''local'' then seqR
         [d_shape v [''kind'', ''rootBindingId'', ''relativePath''] [],
          on v ''rootBindingId'' d_uuid,
          on v ''relativePath'' (\<lambda>x. d_text x 8192 False),
          on v ''relativePath'' (\<lambda>x.
            check (DocumentError ''invalid_local_path'') (local_path_ok (str_of x)))]
       else Inl (DocumentError ''unsupported_locator'')))"

definition reference :: "json \<Rightarrow> json \<Rightarrow> channel_codec \<Rightarrow> unit result" where
  "reference v scope codec =
     bindR (d_require (is_dict v)) (\<lambda>_.
     bindR (onget v ''state'' (\<lambda>state.
       if is_lit state ''located'' then seqR
         [d_shape v [''state'', ''locator''] [''title''],
          on v ''locator'' (\<lambda>l. locator l scope codec)]
       else if is_lit state ''unresolved'' then seqR
         [d_shape v [''state'', ''reason'', ''provenance''] [''title''],
          on v ''reason'' (\<lambda>r. d_require
            (in_lits r [''missing'', ''ambiguous'', ''legacy-unportable'', ''codec-unavailable''])),
          on v ''provenance'' (\<lambda>p. seqR
            [d_shape p [''origin''] [''legacyId''],
             on p ''origin'' (\<lambda>o'. d_require (in_lits o' [''raw'', ''canonical''])),
             if has p ''legacyId''
             then on p ''legacyId'' (\<lambda>i. integer invalid_document i 0 9007199254740991)
             else Inr ()])]
       else Inl invalid_document)) (\<lambda>_.
     if has v ''title'' then on v ''title'' (\<lambda>t. d_text t 512 True) else Inr ()))"

section \<open>Scope documents and bundles\<close>

definition references :: "json \<Rightarrow> json \<Rightarrow> channel_codec \<Rightarrow> unit result" where
  "references rows scope codec =
     bindR (d_require (is_list rows)) (\<lambda>_. forR (\<lambda>r. reference r scope codec) (list_of rows))"

definition scope_shape :: "json \<Rightarrow> unit result" where
  "scope_shape scope = seqR
     [d_shape scope [''profileBindingId'', ''sourceBindingId'', ''provider''] [],
      on scope ''profileBindingId'' d_uuid,
      on scope ''sourceBindingId'' d_uuid,
      on scope ''provider'' (\<lambda>p. d_require (is_str p \<and> in_lits p PROVIDERS))]"

text \<open>One list of \<open>channelLists["lists"]\<close>; the state is the names seen so far.\<close>

definition channel_row :: "json \<Rightarrow> channel_codec \<Rightarrow> pystr list \<Rightarrow> json \<Rightarrow> pystr list result" where
  "channel_row scope codec names row =
     bindR (seqR
       [d_shape row [''name'', ''entries''] [''shuffleBefore''],
        on row ''name'' (\<lambda>n. d_text n 256 False),
        on row ''name'' (\<lambda>n. d_require
          (\<not> in_lits n [''__proto__'', ''prototype'', ''constructor''] \<and> str_of n \<notin> set names)),
        on row ''entries'' (\<lambda>rows. references rows scope codec),
        if has row ''shuffleBefore''
        then on row ''shuffleBefore'' (\<lambda>rows. references rows scope codec) else Inr ()])
     (\<lambda>_. Inr (names @ [str_of (fld row ''name'')]))"

definition name_or_none :: "json \<Rightarrow> pystr list \<Rightarrow> bool" where
  "name_or_none v names \<longleftrightarrow> v = JNull \<or> is_str v \<and> str_of v \<in> set names"

definition channel_lists :: "json \<Rightarrow> channel_codec \<Rightarrow> json \<Rightarrow> unit result" where
  "channel_lists scope codec cl =
     bindR (seqR
       [d_shape cl [''active'', ''order'', ''default'', ''lists''] [],
        on cl ''lists'' (\<lambda>l. on cl ''order'' (\<lambda>o'. d_require (is_list l \<and> is_list o')))])
     (\<lambda>_. on cl ''lists'' (\<lambda>l.
     bindR (foldR (channel_row scope codec) [] (list_of l)) (\<lambda>names. seqR
       [on cl ''order'' (\<lambda>o'. forR (\<lambda>n. d_text n 256 False) (list_of o')),
        on cl ''order'' (\<lambda>o'. d_require (plen (list_of o') = plen names
          \<and> set (map str_of (list_of o')) = set names)),
        on cl ''active'' (\<lambda>a. d_require (name_or_none a names)),
        on cl ''default'' (\<lambda>d. seqR
          [d_shape d [''present''] [''value''],
           on d ''present'' (\<lambda>p. d_require (is_bool p)),
           on d ''present'' (\<lambda>p. if p = JBool True
             then bindR (d_require (has d ''value'')) (\<lambda>_.
                    on d ''value'' (\<lambda>x. d_require (name_or_none x names)))
             else d_require (\<not> has d ''value''))])])))"

definition scope_document :: "json \<Rightarrow> channel_codec \<Rightarrow> unit result" where
  "scope_document v codec = seqR
     [d_shape v [''schema'', ''scope'', ''coverage'', ''channelLists'', ''mediaFavorites''] [],
      on v ''schema'' (\<lambda>s. d_require (s = JInt 1)),
      on v ''scope'' scope_shape,
      on v ''coverage'' (\<lambda>c. d_require (is_dict c \<and> py_eq c COVERAGE)),
      on v ''scope'' (\<lambda>scope. on v ''channelLists'' (channel_lists scope codec)),
      on v ''mediaFavorites'' (\<lambda>m. d_require (is_list m)),
      on v ''scope'' (\<lambda>scope. on v ''mediaFavorites'' (\<lambda>m.
        forR (\<lambda>r. reference r scope codec) (list_of m)))]"

definition validate_scope_document :: "json \<Rightarrow> channel_codec \<Rightarrow> json result" where
  "validate_scope_document v codec =
     bindR (bounded v) (\<lambda>_. bindR (scope_document v codec) (\<lambda>_. Inr v))"

type_synonym scope_key = "pystr \<times> pystr \<times> pystr"

definition scope_key :: "json \<Rightarrow> scope_key" where
  "scope_key document =
     (let s = fld document ''scope''
      in (str_of (fld s ''provider''), str_of (fld s ''profileBindingId''),
          str_of (fld s ''sourceBindingId'')))"

definition check_scope :: "channel_codec \<Rightarrow> scope_key list \<Rightarrow> json \<Rightarrow> scope_key list result" where
  "check_scope codec seen scope =
     bindR (scope_document scope codec) (\<lambda>_.
     bindR (check (DocumentError ''duplicate_scope'') (scope_key scope \<notin> set seen)) (\<lambda>_.
       Inr (scope_key scope # seen)))"

definition scopes_of :: "json \<Rightarrow> json list" where
  "scopes_of bundle = list_of (fld bundle ''scopes'')"

definition validate_document :: "json \<Rightarrow> channel_codec \<Rightarrow> json result" where
  "validate_document v codec =
     bindR (bounded v) (\<lambda>_.
     bindR (seqR [d_shape v [''version'', ''scopes''] [],
       on v ''version'' (\<lambda>n. on v ''scopes'' (\<lambda>s. d_require (n = JInt 1 \<and> is_list s)))]) (\<lambda>_.
     bindR (foldR (check_scope codec) [] (scopes_of v)) (\<lambda>_.
       Inr (put v ''scopes'' (JArr (sort_key scope_key (scopes_of v)))))))"

section \<open>Inventory, plans, clearing\<close>

datatype identity =
    Located pystr
  | Unresolved pystr pystr pystr
  | Opaque pystr pystr int pystr

definition identity_of :: "pystr \<Rightarrow> pystr \<Rightarrow> int \<Rightarrow> json \<Rightarrow> identity" where
  "identity_of domain name index ref =
     (if is_lit (fld ref ''state'') ''located'' then Located (canon (fld ref ''locator''))
      else if has (fld ref ''provenance'') ''legacyId'' then
        Unresolved domain (str_of (fld ref ''reason'')) (canon (fld ref ''provenance''))
      else Opaque domain name index (canon ref))"

text \<open>Identities are ordered by their parts, so that sets of them have a computable size.\<close>

fun identity_key :: "identity \<Rightarrow> (int \<times> int) \<times> pystr list" where
  "identity_key (Located l) = ((0, 0), [l])"
| "identity_key (Unresolved d r p) = ((1, 0), [d, r, p])"
| "identity_key (Opaque d n i r) = ((2, i), [d, n, r])"

lemma identity_key_inject: "identity_key x = identity_key y \<Longrightarrow> x = y"
  by (cases x; cases y) simp_all

instantiation identity :: linorder
begin

definition less_eq_identity :: "identity \<Rightarrow> identity \<Rightarrow> bool" where
  "less_eq_identity x y \<longleftrightarrow> identity_key x \<le> identity_key y"

definition less_identity :: "identity \<Rightarrow> identity \<Rightarrow> bool" where
  "less_identity x y \<longleftrightarrow> identity_key x < identity_key y"

instance
  by standard (auto simp: less_eq_identity_def less_identity_def identity_key_inject)

end

type_synonym item = "scope_key \<times> identity"
type_synonym membership = "pystr \<times> pystr \<times> item"

definition collections :: "json \<Rightarrow> (pystr \<times> pystr \<times> json list) list" where
  "collections document =
     map (\<lambda>row. (u ''channels'', str_of (fld row ''name''), list_of (fld row ''entries'')))
         (list_of (fld (fld document ''channelLists'') ''lists''))
     @ [(u ''media'', u ''favorites'', list_of (fld document ''mediaFavorites''))]"

definition document_memberships :: "json \<Rightarrow> membership list" where
  "document_memberships document =
     concat (map (\<lambda>(domain, name, rows).
       map (\<lambda>(i, ref). (domain, name, scope_key document, identity_of domain name (int i) ref))
           (enumerate 0 rows)) (collections document))"

text \<open>The set of items and the Counter of memberships of the scope documents of a bundle.\<close>

definition inventory :: "json list \<Rightarrow> item set \<times> membership multiset" where
  "inventory scopes =
     (let ms = concat (map document_memberships scopes)
      in (set (map (\<lambda>m. snd (snd m)) ms), mset ms))"

record counts =
  before :: nat
  after :: nat
  added :: nat
  removed :: nat
  retained :: nat

text \<open>\<open>before & after\<close> of two Counters is the intersection of the multisets.\<close>

definition counts_of :: "'a multiset \<Rightarrow> 'a multiset \<Rightarrow> counts" where
  "counts_of old new =
     (let kept = size (old \<inter># new)
      in \<lparr>before = size old, after = size new, added = size new - kept,
          removed = size old - kept, retained = kept\<rparr>)"

record plan_state =
  selected :: "(scope_key \<times> json) list"
  conflicts :: "scope_key list"
  duplicates :: nat

definition plan_step :: "plan_state \<Rightarrow> json \<Rightarrow> plan_state" where
  "plan_step s scope =
     (let key = scope_key scope
      in case map_of (selected s) key of
           None \<Rightarrow> s\<lparr>selected := selected s @ [(key, scope)]\<rparr>
         | Some old \<Rightarrow>
             if canon old = canon scope
             then s\<lparr>duplicates := duplicates s + card (fst (inventory [scope]))\<rparr>
             else s\<lparr>conflicts := List.insert key (conflicts s)\<rparr>)"

record plan =
  document :: json
  items :: counts
  skipped_duplicates :: nat
  memberships :: counts
  unresolved_conflicts :: nat

definition empty_bundle :: json where
  "empty_bundle = JObj [(u ''version'', JInt 1), (u ''scopes'', JArr [])]"

definition bundle_of :: "json list \<Rightarrow> json" where
  "bundle_of scopes = JObj [(u ''version'', JInt 1), (u ''scopes'', JArr scopes)]"

definition plan_start :: "pystr \<Rightarrow> json \<Rightarrow> plan_state" where
  "plan_start mode original =
     \<lparr>selected = (if mode = u ''merge'' then map (\<lambda>s. (scope_key s, s)) (scopes_of original) else []),
      conflicts = [], duplicates = 0\<rparr>"

definition plan_documents :: "json \<Rightarrow> json list \<Rightarrow> pystr \<Rightarrow> channel_codec \<Rightarrow> plan result" where
  "plan_documents current incoming mode codec =
     bindR (d_require ((mode = u ''merge'' \<or> mode = u ''replace'')
              \<and> 1 \<le> plen incoming \<and> plen incoming \<le> 64)) (\<lambda>_.
     bindR (validate_document (if current = JNull then empty_bundle else current) codec) (\<lambda>original.
     bindR (mapR (\<lambda>v. validate_document v codec) incoming) (\<lambda>documents.
       let s = foldl plan_step (plan_start mode original) (concat (map scopes_of documents))
       in bindR (validate_document (bundle_of (map snd (selected s))) codec) (\<lambda>res.
            let (old_items, old_ms) = inventory (scopes_of original);
                (new_items, new_ms) = inventory (scopes_of res)
            in Inr \<lparr>document = res,
                 items = counts_of (mset_set old_items) (mset_set new_items),
                 skipped_duplicates = duplicates s,
                 memberships = counts_of old_ms new_ms,
                 unresolved_conflicts = length (conflicts s)\<rparr>))))"

definition clear_row :: "json \<Rightarrow> json" where
  "clear_row row = put row ''entries'' (JArr [])"

definition clear_document :: "json \<Rightarrow> json" where
  "clear_document d =
     put (put d ''channelLists''
            (put (fld d ''channelLists'') ''lists''
               (JArr (map clear_row (list_of (fld (fld d ''channelLists'') ''lists''))))))
         ''mediaFavorites'' (JArr [])"

definition clear_scope :: "json \<Rightarrow> channel_codec \<Rightarrow> json result" where
  "clear_scope v codec =
     bindR (validate_document (bundle_of [v]) codec) (\<lambda>bundle.
       Inr (clear_document (hd (scopes_of bundle))))"

end
