(* ===== verification/FavDocumentLaws.thy ===== *)
theory FavDocumentLaws
  imports FavDocument
begin

text \<open>
  The lemmas on bundles of favorites: what the size traversal computes, what validation
  establishes and keeps, what a plan contains, and what clearing a scope leaves.
\<close>

section \<open>The traversal, without its running state\<close>

definition scalar_ok :: "json \<Rightarrow> bool" where
  "scalar_ok v \<longleftrightarrow> (is_str v \<longrightarrow> plen (str_of v) \<le> MAX_BYTES) \<and> dumpable v \<and> encodable (ctext v)"

fun vis_ok :: "json \<Rightarrow> int \<Rightarrow> bool" where
  "vis_ok (JObj kv) d = (d \<le> 16 \<and> plen kv \<le> 64 \<and>
     (\<forall>p \<in> set kv. d + 1 \<le> 16 \<and> scalar_ok (JStr (fst p)) \<and> vis_ok (snd p) (d + 1)))"
| "vis_ok (JArr vs) d = (d \<le> 16 \<and> plen vs \<le> 65536 \<and> (\<forall>v \<in> set vs. vis_ok v (d + 1)))"
| "vis_ok v d = (d \<le> 16 \<and> scalar_ok v)"

fun nodes :: "json \<Rightarrow> int" where
  "nodes (JObj kv) = 1 + sum_list (map (\<lambda>p. 1 + nodes (snd p)) kv)"
| "nodes (JArr vs) = 1 + sum_list (map nodes vs)"
| "nodes v = 1"

lemma nodes_pos: "1 \<le> nodes v"
proof (induction v rule: nodes.induct)
  case (1 kv)
  then have "0 \<le> sum_list (map (\<lambda>p. 1 + nodes (snd p)) kv)"
    by (intro sum_list_nonneg) fastforce
  then show ?case by simp
next
  case (2 vs)
  then have "0 \<le> sum_list (map nodes vs)"
    by (intro sum_list_nonneg) fastforce
  then show ?case by simp
qed simp_all

lemma nodes_nonneg: "0 \<le> sum_list (map nodes vs)"
  by (rule sum_list_nonneg) (auto intro: order_trans [OF _ nodes_pos])

lemma items_nonneg:
  "0 \<le> sum_list (map (\<lambda>p. utf8_size (quote (fst p)) + jsize (snd p)) kv)"
  "0 \<le> sum_list (map (\<lambda>p. 1 + nodes (snd p)) kv)"
proof -
  have "0 \<le> utf8_size s" for s
    using utf8_size_length [of s] plen_simps(5) [of s] by linarith
  then show "0 \<le> sum_list (map (\<lambda>p. utf8_size (quote (fst p)) + jsize (snd p)) kv)"
    by (intro sum_list_nonneg) (auto intro: add_nonneg_nonneg jsize_nonneg)
  show "0 \<le> sum_list (map (\<lambda>p. 1 + nodes (snd p)) kv)"
    using nodes_pos by (intro sum_list_nonneg) (force intro: add_nonneg_nonneg order_trans [OF _ nodes_pos])
qed

text \<open>Success from a state with bytes left, and the state after it, in closed form.\<close>

definition spends :: "bool \<Rightarrow> int \<Rightarrow> int \<Rightarrow> int \<times> int \<Rightarrow> (int \<times> int) result \<Rightarrow> bool" where
  "spends ok cost n st m \<longleftrightarrow> (\<forall>st'. m = Inr st' \<longleftrightarrow>
     ok \<and> cost \<le> fst st \<and> snd st + n \<le> MAX_BYTES \<and> st' = (fst st - cost, snd st + n))"

lemma spends_iff:
  "spends ok cost n st m \<Longrightarrow> m = Inr st' \<longleftrightarrow>
     ok \<and> cost \<le> fst st \<and> snd st + n \<le> MAX_BYTES \<and> st' = (fst st - cost, snd st + n)"
  unfolding spends_def by (rule spec)

lemma visit_enter_iff:
  "visit_enter d st = Inr st' \<longleftrightarrow>
     d \<le> 16 \<and> snd st + 1 \<le> MAX_BYTES \<and> st' = (fst st, snd st + 1)"
  by (auto simp: visit_enter_def)

lemma charge_iff: "charge n st = Inr st' \<longleftrightarrow> n \<le> fst st \<and> st' = (fst st - n, snd st)"
  by (auto simp: charge_def)

lemma visit_scalar_iff:
  assumes "\<not> is_dict v" "\<not> is_list v"
  shows "visit_scalar v st = Inr st' \<longleftrightarrow>
     scalar_ok v \<and> jsize v \<le> fst st \<and> st' = (fst st - jsize v, snd st)"
proof -
  have fin: "dumpable v \<longrightarrow> (case v of JFloat f \<Rightarrow> is_finite f | _ \<Rightarrow> True)"
    by (cases v) auto
  have enc: "(\<exists>b. bindR (d_json v) utf8_encode = Inr b \<and> P (plen b)) \<longleftrightarrow>
      dumpable v \<and> encodable (ctext v) \<and> P (jsize v)" for P
    using canonical_bytes [of v] canonical_size [of v] by (auto simp: d_json_def ok_iff)
  show ?thesis
    using enc [of "\<lambda>n. charge n st = Inr st'"] fin
    by (auto simp: visit_scalar_def scalar_ok_def d_require_def ok_iff charge_iff)
qed

lemma visit_spends:
  shows "0 \<le> fst st \<Longrightarrow> spends (vis_ok v d) (jsize v) (nodes v) st (visit v d st)"
    and "0 \<le> fst st \<Longrightarrow> snd st \<le> MAX_BYTES \<Longrightarrow>
      spends (\<forall>v \<in> set vs. vis_ok v d) (sum_list (map jsize vs)) (sum_list (map nodes vs)) st
        (visit_list vs d st)"
    and "0 \<le> fst st \<Longrightarrow> snd st \<le> MAX_BYTES \<Longrightarrow>
      spends (\<forall>p \<in> set kv. d \<le> 16 \<and> scalar_ok (JStr (fst p)) \<and> vis_ok (snd p) d)
        (sum_list (map (\<lambda>p. utf8_size (quote (fst p)) + jsize (snd p)) kv))
        (sum_list (map (\<lambda>p. 1 + nodes (snd p)) kv)) st (visit_items kv d st)"
proof (induction v d st and vs d st and kv d st rule: visit_visit_list_visit_items.induct)
  case (1 kv d st)
  let ?c = "2 + plen kv + max (plen kv - 1) 0"
  let ?S = "sum_list (map (\<lambda>p. utf8_size (quote (fst p)) + jsize (snd p)) kv)"
  let ?N = "sum_list (map (\<lambda>p. 1 + nodes (snd p)) kv)"
  have nn: "0 \<le> ?S" "0 \<le> ?N" by (rule items_nonneg)+
  have body: "visit_items kv (d + 1) (fst st - ?c, snd st + 1) = Inr t \<longleftrightarrow>
      (\<forall>p \<in> set kv. d + 1 \<le> 16 \<and> scalar_ok (JStr (fst p)) \<and> vis_ok (snd p) (d + 1)) \<and>
      ?S \<le> fst st - ?c \<and> snd st + 1 + ?N \<le> MAX_BYTES \<and> t = (fst st - ?c - ?S, snd st + 1 + ?N)"
    if "d \<le> 16" "plen kv \<le> 64" "?c \<le> fst st" "snd st + 1 \<le> MAX_BYTES" for t
    using spends_iff [OF "1.IH" [of "(fst st - ?c, snd st + 1)"], of t] that
    by simp
  have run: "visit (JObj kv) d st = Inr t \<longleftrightarrow>
      d \<le> 16 \<and> snd st + 1 \<le> MAX_BYTES \<and> plen kv \<le> 64 \<and> ?c \<le> fst st \<and>
      visit_items kv (d + 1) (fst st - ?c, snd st + 1) = Inr t \<and> 0 \<le> fst t" for t
    by (cases t) (auto simp: ok_iff visit_enter_iff charge_iff)
  show ?case
    unfolding spends_def
  proof
    fix t
    show "visit (JObj kv) d st = Inr t \<longleftrightarrow> vis_ok (JObj kv) d \<and> jsize (JObj kv) \<le> fst st \<and>
        snd st + nodes (JObj kv) \<le> MAX_BYTES \<and>
        t = (fst st - jsize (JObj kv), snd st + nodes (JObj kv))"
      using body [of t] nn unfolding run jsize_JObj by auto
  qed
next
  case (2 vs d st)
  let ?c = "2 + max (plen vs - 1) 0"
  have nn: "0 \<le> sum_list (map jsize vs)" "0 \<le> sum_list (map nodes vs)"
    by (rule sum_list_jsize_nonneg nodes_nonneg)+
  have body: "visit_list vs (d + 1) (fst st - ?c, snd st + 1) = Inr t \<longleftrightarrow>
      (\<forall>v \<in> set vs. vis_ok v (d + 1)) \<and> sum_list (map jsize vs) \<le> fst st - ?c \<and>
      snd st + 1 + sum_list (map nodes vs) \<le> MAX_BYTES \<and>
      t = (fst st - ?c - sum_list (map jsize vs), snd st + 1 + sum_list (map nodes vs))"
    if "d \<le> 16" "plen vs \<le> 65536" "?c \<le> fst st" "snd st + 1 \<le> MAX_BYTES" for t
    using spends_iff [OF "2.IH" [of "(fst st - ?c, snd st + 1)"], of t] that
    by simp
  have run: "visit (JArr vs) d st = Inr t \<longleftrightarrow>
      d \<le> 16 \<and> snd st + 1 \<le> MAX_BYTES \<and> plen vs \<le> 65536 \<and> ?c \<le> fst st \<and>
      visit_list vs (d + 1) (fst st - ?c, snd st + 1) = Inr t \<and> 0 \<le> fst t" for t
    by (cases t) (auto simp: ok_iff visit_enter_iff charge_iff)
  show ?case
    unfolding spends_def
  proof
    fix t
    show "visit (JArr vs) d st = Inr t \<longleftrightarrow> vis_ok (JArr vs) d \<and> jsize (JArr vs) \<le> fst st \<and>
        snd st + nodes (JArr vs) \<le> MAX_BYTES \<and>
        t = (fst st - jsize (JArr vs), snd st + nodes (JArr vs))"
      using body [of t] nn unfolding run jsize_JArr by auto
  qed
next
  case (5 v vs d st)
  have nn: "0 \<le> sum_list (map jsize vs)" "0 \<le> sum_list (map nodes vs)" "0 \<le> jsize v" "1 \<le> nodes v"
    by (rule sum_list_jsize_nonneg nodes_nonneg jsize_nonneg nodes_pos)+
  note hd = spends_iff [OF "5.IH"(1) [OF "5.prems"(1)]]
  have tl: "visit_list vs d (fst st - jsize v, snd st + nodes v) = Inr t \<longleftrightarrow>
      (\<forall>v \<in> set vs. vis_ok v d) \<and> sum_list (map jsize vs) \<le> fst st - jsize v \<and>
      snd st + nodes v + sum_list (map nodes vs) \<le> MAX_BYTES \<and>
      t = (fst st - jsize v - sum_list (map jsize vs), snd st + nodes v + sum_list (map nodes vs))"
    if "vis_ok v d" "jsize v \<le> fst st" "snd st + nodes v \<le> MAX_BYTES" for t
    using spends_iff [OF "5.IH"(2) [of "(fst st - jsize v, snd st + nodes v)"], of t] that
    by simp
  show ?case
    unfolding spends_def
  proof
    fix t
    show "visit_list (v # vs) d st = Inr t \<longleftrightarrow> (\<forall>v \<in> set (v # vs). vis_ok v d) \<and>
        sum_list (map jsize (v # vs)) \<le> fst st \<and>
        snd st + sum_list (map nodes (v # vs)) \<le> MAX_BYTES \<and>
        t = (fst st - sum_list (map jsize (v # vs)), snd st + sum_list (map nodes (v # vs)))"
      using nn tl [of t] by (auto simp: ok_iff hd)
  qed
next
  case (7 k v kv d st)
  let ?k = "utf8_size (quote k)"
  have k: "jsize (JStr k) = ?k" by (simp add: jsize_def)
  have nn: "0 \<le> ?k" "0 \<le> jsize v" "1 \<le> nodes v"
    "0 \<le> sum_list (map (\<lambda>p. utf8_size (quote (fst p)) + jsize (snd p)) kv)"
    "0 \<le> sum_list (map (\<lambda>p. 1 + nodes (snd p)) kv)"
    using jsize_nonneg [of "JStr k"] k by (auto intro: jsize_nonneg nodes_pos items_nonneg)
  have key: "bindR (visit_enter d st) (visit_scalar (JStr k)) = Inr t \<longleftrightarrow>
      d \<le> 16 \<and> scalar_ok (JStr k) \<and> ?k \<le> fst st \<and> snd st + 1 \<le> MAX_BYTES \<and>
      t = (fst st - ?k, snd st + 1)" for t
    by (auto simp: ok_iff visit_enter_iff visit_scalar_iff k)
  let ?s = "(fst st - ?k, snd st + 1)"
  have val: "visit v d ?s = Inr t \<longleftrightarrow>
      vis_ok v d \<and> jsize v \<le> fst st - ?k \<and> snd st + 1 + nodes v \<le> MAX_BYTES \<and>
      t = (fst st - ?k - jsize v, snd st + 1 + nodes v)"
    if "d \<le> 16" "scalar_ok (JStr k)" "?k \<le> fst st" "snd st + 1 \<le> MAX_BYTES" for t
    using spends_iff [OF "7.IH"(1) [of ?s], of t] that key by simp
  have rest: "visit_items kv d (fst st - ?k - jsize v, snd st + 1 + nodes v) = Inr t \<longleftrightarrow>
      (\<forall>p \<in> set kv. d \<le> 16 \<and> scalar_ok (JStr (fst p)) \<and> vis_ok (snd p) d) \<and>
      sum_list (map (\<lambda>p. utf8_size (quote (fst p)) + jsize (snd p)) kv) \<le> fst st - ?k - jsize v \<and>
      snd st + 1 + nodes v + sum_list (map (\<lambda>p. 1 + nodes (snd p)) kv) \<le> MAX_BYTES \<and>
      t = (fst st - ?k - jsize v - sum_list (map (\<lambda>p. utf8_size (quote (fst p)) + jsize (snd p)) kv),
           snd st + 1 + nodes v + sum_list (map (\<lambda>p. 1 + nodes (snd p)) kv))"
    if "d \<le> 16" "scalar_ok (JStr k)" "?k \<le> fst st" "snd st + 1 \<le> MAX_BYTES"
      "vis_ok v d" "jsize v \<le> fst st - ?k" "snd st + 1 + nodes v \<le> MAX_BYTES" for t
    using spends_iff [OF "7.IH"(2) [of "(fst st - ?k - jsize v, snd st + 1 + nodes v)"], of t] that key val
    by simp
  have run: "visit_items ((k, v) # kv) d st = Inr t \<longleftrightarrow>
      d \<le> 16 \<and> scalar_ok (JStr k) \<and> ?k \<le> fst st \<and> snd st + 1 \<le> MAX_BYTES \<and>
      vis_ok v d \<and> jsize v \<le> fst st - ?k \<and> snd st + 1 + nodes v \<le> MAX_BYTES \<and>
      visit_items kv d (fst st - ?k - jsize v, snd st + 1 + nodes v) = Inr t" for t
  proof -
    have "visit_items ((k, v) # kv) d st = Inr t \<longleftrightarrow>
        (\<exists>s. bindR (visit_enter d st) (visit_scalar (JStr k)) = Inr s \<and>
             (\<exists>s'. visit v d s = Inr s' \<and> visit_items kv d s' = Inr t))"
      by (simp only: visit_items.simps bindR_ok [where f = "visit_items kv d"]
          bindR_ok [where f = "\<lambda>s. bindR (visit v d s) (visit_items kv d)"])
    also have "\<dots> \<longleftrightarrow> (d \<le> 16 \<and> scalar_ok (JStr k) \<and> ?k \<le> fst st \<and> snd st + 1 \<le> MAX_BYTES) \<and>
        (\<exists>s'. visit v d ?s = Inr s' \<and> visit_items kv d s' = Inr t)"
      unfolding key by metis
    finally show ?thesis
      using val by (cases "d \<le> 16 \<and> scalar_ok (JStr k) \<and> ?k \<le> fst st \<and> snd st + 1 \<le> MAX_BYTES") auto
  qed
  show ?case
    unfolding spends_def
  proof
    fix t
    show "visit_items ((k, v) # kv) d st = Inr t \<longleftrightarrow>
        (\<forall>p \<in> set ((k, v) # kv). d \<le> 16 \<and> scalar_ok (JStr (fst p)) \<and> vis_ok (snd p) d) \<and>
        sum_list (map (\<lambda>p. utf8_size (quote (fst p)) + jsize (snd p)) ((k, v) # kv)) \<le> fst st \<and>
        snd st + sum_list (map (\<lambda>p. 1 + nodes (snd p)) ((k, v) # kv)) \<le> MAX_BYTES \<and>
        t = (fst st - sum_list (map (\<lambda>p. utf8_size (quote (fst p)) + jsize (snd p)) ((k, v) # kv)),
             snd st + sum_list (map (\<lambda>p. 1 + nodes (snd p)) ((k, v) # kv)))"
      using nn rest [of t] unfolding run by auto
  qed
qed (auto simp: spends_def ok_iff visit_enter_iff visit_scalar_iff)

text \<open>Passing the traversal gives a value that serialises and encodes.\<close>

lemma vis_ok_text: "vis_ok v d \<Longrightarrow> dumpable v \<and> encodable (ctext v)"
proof (induction v d rule: vis_ok.induct)
  case (1 kv d)
  then have "\<forall>p \<in> set kv. encodable (quote (fst p)) \<and> dumpable (snd p) \<and> encodable (ctext (snd p))"
    by (auto simp: scalar_ok_def)
  then show ?case by (auto simp: encodable_join ascii_char)
next
  case (2 vs d)
  then show ?case by (auto simp: encodable_join ascii_char)
qed (auto simp: scalar_ok_def)

lemma visit_root:
  "visit v 0 (MAX_BYTES, 0) = Inr st \<longleftrightarrow>
     vis_ok v 0 \<and> jsize v \<le> MAX_BYTES \<and> nodes v \<le> MAX_BYTES \<and> st = (MAX_BYTES - jsize v, nodes v)"
  using spends_iff [OF visit_spends(1), of "(MAX_BYTES, 0)" v 0 st] by simp

lemma bounded_ok [ok_iff]:
  "bounded v = Inr x \<longleftrightarrow> vis_ok v 0 \<and> jsize v \<le> MAX_BYTES \<and> nodes v \<le> MAX_BYTES"
proof -
  have "\<exists>t b. d_json v = Inr t \<and> utf8_encode t = Inr b \<and> plen b = jsize v" if "vis_ok v 0"
    using canonical_bytes [of v] canonical_size [of v] vis_ok_text [OF that] by (auto simp: d_json_def)
  then show ?thesis
    by (auto simp: bounded_def ok_iff visit_root)
qed

section \<open>When the checks pass\<close>

lemma d_require_ok [ok_iff]: "d_require c = Inr x \<longleftrightarrow> c"
  by (simp add: d_require_def ok_iff)

definition keyset :: "json \<Rightarrow> string list \<Rightarrow> string list \<Rightarrow> bool" where
  "keyset v required optional \<longleftrightarrow> is_dict v \<and> (\<forall>k \<in> set required. has v k)
     \<and> set (keys_of v) \<subseteq> u ` set (required @ optional)"

lemma d_shape_ok [ok_iff]: "d_shape v r opt = Inr x \<longleftrightarrow> keyset v r opt"
  by (auto simp: d_shape_def ok_iff keyset_def list_all_iff list_ex_iff)

lemma keyset_has: "keyset v r opt \<Longrightarrow> k \<in> set r \<Longrightarrow> has v k"
  by (simp add: keyset_def)

lemma keyset_put: "keyset v r opt \<Longrightarrow> has v k \<Longrightarrow> keyset (put v k x) r opt"
  by (auto simp: keyset_def has_put keys_put)

lemma check_scope_run:
  "foldR (check_scope codec) seen ss = Inr t \<longleftrightarrow>
     (\<forall>s \<in> set ss. scope_document s codec = Inr ()) \<and> distinct (map scope_key ss) \<and>
     set (map scope_key ss) \<inter> set seen = {} \<and> t = rev (map scope_key ss) @ seen"
proof (induction ss arbitrary: seen)
  case (Cons s ss)
  have "check_scope codec seen s = Inr t' \<longleftrightarrow>
      scope_document s codec = Inr () \<and> scope_key s \<notin> set seen \<and> t' = scope_key s # seen" for t'
    by (auto simp: check_scope_def ok_iff)
  then show ?case
    by (auto simp: foldR_Cons_ok Cons.IH)
qed (auto simp: ok_iff)

lemma validate_document_ok:
  "validate_document v codec = Inr w \<longleftrightarrow>
     bounded v = Inr () \<and> keyset v [''version'', ''scopes''] [] \<and> fld v ''version'' = JInt 1 \<and>
     is_list (fld v ''scopes'') \<and> (\<forall>s \<in> set (scopes_of v). scope_document s codec = Inr ()) \<and>
     distinct (map scope_key (scopes_of v)) \<and>
     w = put v ''scopes'' (JArr (sort_key scope_key (scopes_of v)))"
  by (auto simp: validate_document_def ok_iff check_scope_run keyset_has)

lemma scopes_of_put [simp]: "scopes_of (put v ''scopes'' (JArr ss)) = ss"
  by (simp add: scopes_of_def fld_put)

lemma validate_document_scopes:
  "validate_document v codec = Inr w \<Longrightarrow> scopes_of w = sort_key scope_key (scopes_of v)"
  by (simp add: validate_document_ok)

text \<open>Reordering the scopes of a bundle changes none of its bounds.\<close>

lemma assoc_set_self: "map_of kv k = Some x \<Longrightarrow> assoc_set k x kv = kv"
  by (induction kv) auto

lemma put_fld: "has v k \<Longrightarrow> put v k (fld v k) = v"
  by (cases v) (auto simp: put_def has_def keys_of_def fld_def assoc_set_self split: option.splits
      simp: map_of_eq_None_iff image_iff)

lemma put_put: "put (put v k x) k y = put v k y"
proof -
  have "assoc_set a y (assoc_set a x kv) = assoc_set a y kv" for a kv
    by (induction kv) auto
  then show ?thesis by (simp add: put_def)
qed

lemma assoc_set_split:
  assumes "map_of kv k = Some x"
  obtains l r where "kv = l @ (k, x) # r" "\<And>y. assoc_set k y kv = l @ (k, y) # r"
proof -
  have "\<exists>l r. kv = l @ (k, x) # r \<and> (\<forall>y. assoc_set k y kv = l @ (k, y) # r)"
    using assms
  proof (induction kv)
    case (Cons p kv)
    show ?case
    proof (cases "fst p = k")
      case True
      with Cons.prems show ?thesis by (cases p) (auto intro: exI [of _ "[]"])
    next
      case False
      with Cons obtain l r where "kv = l @ (k, x) # r" "\<forall>y. assoc_set k y kv = l @ (k, y) # r"
        by (auto split: if_splits)
      then have "p # kv = (p # l) @ (k, x) # r \<and> (\<forall>y. assoc_set k y (p # kv) = (p # l) @ (k, y) # r)"
        using False by (cases p) auto
      then show ?thesis by blast
    qed
  qed simp
  with that show ?thesis by blast
qed

lemma fld_assoc_split:
  assumes "has v k"
  obtains l r where "v = JObj (l @ (u k, fld v k) # r)" "\<And>y. put v k y = JObj (l @ (u k, y) # r)"
proof -
  from has_dict [OF assms] obtain kv where v: "v = JObj kv" by (auto simp: is_dict_iff)
  have "map_of kv (u k) = Some (fld v k)"
    using assms v by (auto simp: fld_def has_def keys_of_def map_of_eq_None_iff split: option.splits)
  from assoc_set_split [OF this] obtain l r
    where kv: "kv = l @ (u k, fld v k) # r" and a: "\<And>y. assoc_set (u k) y kv = l @ (u k, y) # r" by blast
  show ?thesis
  proof (rule that [of l r])
    show "v = JObj (l @ (u k, fld v k) # r)" using v kv by simp
    show "put v k y = JObj (l @ (u k, y) # r)" for y
      using a [of y] v by (simp only: put_def items_of.simps)
  qed
qed

lemma bounds_put:
  assumes "has v k" "\<And>d. vis_ok x d = vis_ok (fld v k) d" "jsize x = jsize (fld v k)" "nodes x = nodes (fld v k)"
  shows "bounded (put v k x) = Inr () \<longleftrightarrow> bounded v = Inr ()"
proof -
  obtain l r where v: "v = JObj (l @ (u k, fld v k) # r)" and p: "put v k x = JObj (l @ (u k, x) # r)"
    using fld_assoc_split [OF assms(1)] by metis
  have "vis_ok (put v k x) 0 = vis_ok v 0" "jsize (put v k x) = jsize v" "nodes (put v k x) = nodes v"
    by (subst v, simp add: p assms(2-4) jsize_JObj plen_def)+
  then show ?thesis by (simp add: bounded_ok)
qed

lemma bounds_perm:
  assumes "mset xs = mset ys"
  shows "vis_ok (JArr xs) d = vis_ok (JArr ys) d" "jsize (JArr xs) = jsize (JArr ys)"
    "nodes (JArr xs) = nodes (JArr ys)"
proof -
  have "length xs = length ys" "set xs = set ys"
    using assms by (metis size_mset, metis set_mset_mset)
  then show "vis_ok (JArr xs) d = vis_ok (JArr ys) d" "jsize (JArr xs) = jsize (JArr ys)"
    "nodes (JArr xs) = nodes (JArr ys)"
    using sum_list_mset_eq [OF assms, of jsize] sum_list_mset_eq [OF assms, of nodes]
    by (simp_all add: jsize_JArr plen_def)
qed

end
