(* ===== verification/FavPlanLaws.thy ===== *)
theory FavPlanLaws
  imports FavDocumentLaws
begin

text \<open>
  Validation as a canonical form, plans as the union that keeps the first document of each scope,
  and clearing.
\<close>

section \<open>Validation is a canonical form\<close>

lemma sort_key_sorted: "sorted (map f xs) \<Longrightarrow> sort_key f xs = xs"
  by (induction xs) (auto intro!: insort_is_Cons)

lemma validate_document_stable:
  assumes "validate_document v codec = Inr w"
  shows "validate_document w codec = Inr w"
proof -
  let ?ss = "sort_key scope_key (scopes_of v)"
  have v: "bounded v = Inr ()" "keyset v [''version'', ''scopes''] []" "fld v ''version'' = JInt 1"
    "is_list (fld v ''scopes'')" "\<forall>s \<in> set (scopes_of v). scope_document s codec = Inr ()"
    "distinct (map scope_key (scopes_of v))" and w: "w = put v ''scopes'' (JArr ?ss)"
    using assms by (auto simp: validate_document_ok)
  have scopes: "fld v ''scopes'' = JArr (scopes_of v)"
    using v(4) by (auto simp: scopes_of_def is_list_iff)
  have perm: "mset ?ss = mset (scopes_of v)" by simp
  have has: "has v ''scopes''" using v(2) by (simp add: keyset_has)
  have "bounded w = Inr ()"
    unfolding w using bounds_put [OF has, of "JArr ?ss"] bounds_perm [OF perm] v(1)
    by (simp only: scopes)
  moreover have "keyset w [''version'', ''scopes''] []"
    using v(2) has w by (simp add: keyset_put)
  moreover have "distinct (map scope_key ?ss)"
    using v(6) perm by (metis mset_map mset_eq_imp_distinct_iff)
  moreover have "put w ''scopes'' (JArr (sort_key scope_key ?ss)) = w"
    by (simp add: w put_put sort_key_sorted)
  ultimately show ?thesis
    using v(3,5) by (simp add: validate_document_ok w fld_put)
qed

section \<open>What a plan selects\<close>

text \<open>The documents whose scope is not in \<open>K\<close> and not among the ones before them.\<close>

fun keep_new :: "scope_key set \<Rightarrow> json list \<Rightarrow> json list" where
  "keep_new K [] = []"
| "keep_new K (s # ss) =
     (if scope_key s \<in> K then keep_new K ss else s # keep_new (insert (scope_key s) K) ss)"

abbreviation by_scope :: "json \<Rightarrow> scope_key \<times> json" where
  "by_scope s \<equiv> (scope_key s, s)"

lemma map_of_keyed: "map_of (map by_scope xs) k = None \<longleftrightarrow> k \<notin> scope_key ` set xs"
  by (force simp: map_of_eq_None_iff image_iff)

lemma plan_step_selected:
  assumes "selected st = map by_scope xs"
  shows "selected (plan_step st y) =
    map by_scope (if scope_key y \<in> scope_key ` set xs then xs else xs @ [y])"
  using assms map_of_keyed [of xs "scope_key y"]
  by (auto simp: plan_step_def Let_def split: option.splits)

lemma plan_selected:
  assumes "selected st = map by_scope xs"
  shows "selected (foldl plan_step st ys) = map by_scope (xs @ keep_new (scope_key ` set xs) ys)"
  using assms
proof (induction ys arbitrary: st xs)
  case (Cons y ys)
  show ?case
    using Cons.IH [OF plan_step_selected [OF Cons.prems, of y]]
    by (auto simp: insert_commute)
qed simp

lemma keep_new_set: "set (keep_new K ys) \<subseteq> set ys"
  by (induction K ys rule: keep_new.induct) auto

lemma keep_new_keys: "scope_key ` set (keep_new K ys) = scope_key ` set ys - K"
  by (induction K ys rule: keep_new.induct) auto

lemma keep_new_distinct: "distinct (map scope_key (keep_new K ys))"
  by (induction K ys rule: keep_new.induct) (auto simp: keep_new_keys)

lemma keep_new_old: "scope_key ` set ys \<subseteq> K \<Longrightarrow> keep_new K ys = []"
  by (induction K ys rule: keep_new.induct) auto

lemma keep_new_all: "distinct (map scope_key ys) \<Longrightarrow> scope_key ` set ys \<inter> K = {} \<Longrightarrow> keep_new K ys = ys"
  by (induction K ys rule: keep_new.induct) auto

text \<open>A selected document stays, and the conflicts are the offers that differ from it.\<close>

lemma plan_step_keeps:
  "map_of (selected st) k = Some x \<Longrightarrow> map_of (selected (plan_step st y)) k = Some x"
  by (auto simp: plan_step_def Let_def map_add_def split: option.splits)

lemma plan_keeps:
  "map_of (selected st) k = Some x \<Longrightarrow> map_of (selected (foldl plan_step st ys)) k = Some x"
  by (induction ys arbitrary: st) (auto simp: plan_step_keeps)

definition winner :: "plan_state \<Rightarrow> json \<Rightarrow> json" where
  "winner st s = the (map_of (selected st) (scope_key s))"

lemma plan_step_winner:
  "set (conflicts (plan_step st y)) = set (conflicts st) \<union>
     (if canon (winner (plan_step st y) y) = canon y then {} else {scope_key y})"
  by (auto simp: plan_step_def Let_def winner_def map_add_def split: option.splits)

lemma plan_step_has: "map_of (selected (plan_step st y)) (scope_key y) = Some (winner (plan_step st y) y)"
  by (auto simp: plan_step_def Let_def winner_def map_add_def split: option.splits)

lemma plan_conflicts:
  "set (conflicts (foldl plan_step st ys)) = set (conflicts st) \<union>
     scope_key ` {y \<in> set ys. canon (winner (foldl plan_step st ys) y) \<noteq> canon y}"
proof (induction ys arbitrary: st)
  case (Cons y ys)
  have "winner (foldl plan_step (plan_step st y) ys) y = winner (plan_step st y) y"
    using plan_keeps [OF plan_step_has [of st y], of ys] by (simp add: winner_def)
  then show ?case
    using plan_step_winner [of st y] by (auto simp: Cons.IH)
qed simp

lemma plan_conflicts_distinct:
  "distinct (conflicts st) \<Longrightarrow> distinct (conflicts (foldl plan_step st ys))"
proof (induction ys arbitrary: st)
  case (Cons y ys)
  have "distinct (conflicts (plan_step st y))"
    using Cons.prems by (auto simp: plan_step_def Let_def split: option.splits)
  then show ?case by (simp add: Cons.IH)
qed simp

section \<open>Counting\<close>

lemma counts_of_simps [simp]:
  "before (counts_of a b) = size a" "after (counts_of a b) = size b"
  "retained (counts_of a b) = size (a \<inter># b)" "added (counts_of a b) = size b - size (a \<inter># b)"
  "removed (counts_of a b) = size a - size (a \<inter># b)"
  by (simp_all add: counts_of_def Let_def)

lemma counts_sum:
  "retained (counts_of a b) + removed (counts_of a b) = before (counts_of a b)"
  "retained (counts_of a b) + added (counts_of a b) = after (counts_of a b)"
  using size_mset_mono [of "a \<inter># b" a] size_mset_mono [of "a \<inter># b" b] by simp_all

lemma counts_subset: "a \<subseteq># b \<Longrightarrow> removed (counts_of a b) = 0 \<and> added (counts_of a b) = size b - size a"
  by (simp add: subset_mset.inf_absorb1)

lemma inventory_snd: "snd (inventory ss) = sum_list (map (\<lambda>s. mset (document_memberships s)) ss)"
  by (induction ss) (auto simp: inventory_def Let_def)

lemma inventory_fst: "fst (inventory ss) = (\<Union>s \<in> set ss. (snd \<circ> snd) ` set (document_memberships s))"
  by (force simp: inventory_def Let_def)

lemma sum_list_mset_mono:
  "mset xs \<subseteq># mset ys \<Longrightarrow> sum_list (map f xs) \<subseteq># (sum_list (map f ys) :: 'a multiset)"
proof -
  assume "mset xs \<subseteq># mset ys"
  then obtain m where "mset ys = mset xs + m" by (auto simp: subset_mset.le_iff_add)
  then have "sum_mset (image_mset f (mset ys)) = sum_mset (image_mset f (mset xs)) + sum_mset (image_mset f m)"
    by simp
  then show ?thesis
    by (simp add: sum_mset_sum_list [symmetric])
qed

lemma inventory_mono:
  assumes "mset xs \<subseteq># mset ys"
  shows "snd (inventory xs) \<subseteq># snd (inventory ys)"
    "mset_set (fst (inventory xs)) \<subseteq># mset_set (fst (inventory ys))"
proof -
  show "snd (inventory xs) \<subseteq># snd (inventory ys)"
    by (simp only: inventory_snd sum_list_mset_mono [OF assms])
  have "set xs \<subseteq> set ys" using assms set_mset_mono by fastforce
  then show "mset_set (fst (inventory xs)) \<subseteq># mset_set (fst (inventory ys))"
    by (intro subset_imp_msubset_mset_set) (auto simp: inventory_fst)
qed

lemma inventory_perm: "mset xs = mset ys \<Longrightarrow> inventory xs = inventory ys"
proof -
  assume a: "mset xs = mset ys"
  then have "set xs = set ys" by (metis set_mset_mset)
  with a show ?thesis
    by (intro prod_eqI) (simp_all add: inventory_fst inventory_snd flip: sum_mset_sum_list)
qed

section \<open>The plan as a whole\<close>

lemma scopes_of_bundle [simp]: "scopes_of (bundle_of ss) = ss"
  by (simp add: scopes_of_def bundle_of_def)

definition plan_base :: "pystr \<Rightarrow> json \<Rightarrow> json list" where
  "plan_base mode original = (if mode = u ''merge'' then scopes_of original else [])"

definition planned :: "pystr \<Rightarrow> json \<Rightarrow> json list \<Rightarrow> plan_state" where
  "planned mode original documents =
     foldl plan_step (plan_start mode original) (concat (map scopes_of documents))"

lemma planned_keyed:
  "selected (planned mode original documents) = map by_scope (plan_base mode original
     @ keep_new (scope_key ` set (plan_base mode original)) (concat (map scopes_of documents)))"
  unfolding planned_def by (rule plan_selected) (simp add: plan_start_def plan_base_def)

lemma planned_selected:
  "map snd (selected (planned mode original documents)) =
     plan_base mode original
     @ keep_new (scope_key ` set (plan_base mode original)) (concat (map scopes_of documents))"
  by (simp add: planned_keyed o_def)

lemma plan_documents_ok:
  "plan_documents current incoming mode codec = Inr p \<longleftrightarrow>
     (mode = u ''merge'' \<or> mode = u ''replace'') \<and> 1 \<le> plen incoming \<and> plen incoming \<le> 64 \<and>
     (\<exists>original documents.
        validate_document (if current = JNull then empty_bundle else current) codec = Inr original \<and>
        mapR (\<lambda>v. validate_document v codec) incoming = Inr documents \<and>
        validate_document (bundle_of (map snd (selected (planned mode original documents)))) codec
          = Inr (document p) \<and>
        items p = counts_of (mset_set (fst (inventory (scopes_of original))))
                            (mset_set (fst (inventory (scopes_of (document p))))) \<and>
        memberships p = counts_of (snd (inventory (scopes_of original)))
                                  (snd (inventory (scopes_of (document p)))) \<and>
        skipped_duplicates p = duplicates (planned mode original documents) \<and>
        unresolved_conflicts p = length (conflicts (planned mode original documents)))"
proof -
  have run: "plan_documents current incoming mode codec = Inr p \<longleftrightarrow>
     ((mode = u ''merge'' \<or> mode = u ''replace'') \<and> 1 \<le> plen incoming \<and> plen incoming \<le> 64) \<and>
     (\<exists>original. validate_document (if current = JNull then empty_bundle else current) codec = Inr original \<and>
     (\<exists>documents. mapR (\<lambda>v. validate_document v codec) incoming = Inr documents \<and>
     (\<exists>res. validate_document (bundle_of (map snd (selected (planned mode original documents)))) codec = Inr res \<and>
       p = \<lparr>document = res,
         items = counts_of (mset_set (fst (inventory (scopes_of original)))) (mset_set (fst (inventory (scopes_of res)))),
         skipped_duplicates = duplicates (planned mode original documents),
         memberships = counts_of (snd (inventory (scopes_of original))) (snd (inventory (scopes_of res))),
         unresolved_conflicts = length (conflicts (planned mode original documents))\<rparr>)))"
    by (simp only: plan_documents_def bindR_ok d_require_ok Let_def split_def planned_def sum.inject
        simp_thms ex_simps) (rule iffI; clarify; metis)
  show ?thesis
    unfolding run by (cases p) (simp, blast)
qed

end
