(* ===== verification/FavClearLaws.thy ===== *)
theory FavClearLaws
  imports FavPlanLaws
begin

text \<open>
  Clearing a scope document, and planning a bundle against itself: the lemmas behind the properties
  of \<open>clear_scope\<close> and of a repeated import.
\<close>

section \<open>Values that fit where another one did\<close>

definition fits :: "json \<Rightarrow> json \<Rightarrow> bool" where
  "fits x y \<longleftrightarrow> (\<forall>d. vis_ok y d \<longrightarrow> vis_ok x d) \<and> jsize x \<le> jsize y \<and> nodes x \<le> nodes y"

lemma fits_refl [simp]: "fits x x"
  by (simp add: fits_def)

lemma fits_trans: "fits x y \<Longrightarrow> fits y z \<Longrightarrow> fits x z"
  by (auto simp: fits_def)

lemma fits_bounded: "fits x y \<Longrightarrow> bounded y = Inr () \<Longrightarrow> bounded x = Inr ()"
  by (auto simp: fits_def bounded_ok)

lemma fits_empty: "is_list y \<Longrightarrow> fits (JArr []) y"
  using sum_list_jsize_nonneg nodes_nonneg by (auto simp: fits_def is_list_iff jsize_JArr)

lemma fits_map:
  assumes "\<And>y. y \<in> set ys \<Longrightarrow> fits (f y) y"
  shows "fits (JArr (map f ys)) (JArr ys)"
proof -
  have "sum_list (map (\<lambda>y. jsize (f y)) ys) \<le> sum_list (map jsize ys)"
    "sum_list (map (\<lambda>y. nodes (f y)) ys) \<le> sum_list (map nodes ys)"
    using assms by (auto intro!: sum_list_mono simp: fits_def)
  then show ?thesis
    using assms by (auto simp: fits_def jsize_JArr o_def plen_def)
qed

lemma fits_put:
  assumes "has v k" "fits x (fld v k)"
  shows "fits (put v k x) v"
proof -
  obtain l r where v: "v = JObj (l @ (u k, fld v k) # r)" and p: "put v k x = JObj (l @ (u k, x) # r)"
    using fld_assoc_split [OF assms(1)] by metis
  show ?thesis
    by (subst (2) v) (use assms(2) in \<open>auto simp: p fits_def jsize_JObj plen_def\<close>)
qed

lemma fits_JObj_perm: "mset kv = mset kw \<Longrightarrow> fits (JObj kv) (JObj kw)"
proof -
  assume a: "mset kv = mset kw"
  then have "length kv = length kw" "set kv = set kw"
    by (metis size_mset, metis set_mset_mset)
  then show ?thesis
    using sum_list_mset_eq [OF a, of "\<lambda>p. utf8_size (quote (fst p)) + jsize (snd p)"]
      sum_list_mset_eq [OF a, of "\<lambda>p. 1 + nodes (snd p)"]
    by (simp add: fits_def jsize_JObj plen_def)
qed

section \<open>Clearing\<close>

lemma references_Nil: "references (JArr []) scope codec = Inr ()"
  by (simp add: references_def d_require_def)

lemma channel_row_clear:
  assumes "channel_row scope codec names row = Inr names'"
  shows "channel_row scope codec names (clear_row row) = Inr names'"
proof -
  have k: "keyset row [''name'', ''entries''] [''shuffleBefore'']"
    using assms by (auto simp: channel_row_def ok_iff)
  have h: "has row ''entries''" using k by (simp add: keyset_has)
  show ?thesis
    using assms h keyset_put [OF k h]
    by (auto simp: channel_row_def clear_row_def ok_iff fld_put has_put references_Nil)
qed

lemma channel_rows_clear:
  "foldR (channel_row scope codec) names rows = Inr out \<Longrightarrow>
     foldR (channel_row scope codec) names (map clear_row rows) = Inr out"
  by (induction rows arbitrary: names) (auto simp: ok_iff channel_row_clear)

definition clear_lists :: "json \<Rightarrow> json" where
  "clear_lists cl = put cl ''lists'' (JArr (map clear_row (list_of (fld cl ''lists''))))"

lemma clear_document_lists:
  "clear_document d = put (put d ''channelLists'' (clear_lists (fld d ''channelLists''))) ''mediaFavorites'' (JArr [])"
  by (simp add: clear_document_def clear_lists_def)

lemma channel_lists_clear:
  assumes "channel_lists scope codec cl = Inr ()"
  shows "channel_lists scope codec (clear_lists cl) = Inr ()"
proof -
  have k: "keyset cl [''active'', ''order'', ''default'', ''lists''] []"
    using assms by (auto simp: channel_lists_def bindR_ok seqR_Cons_ok d_shape_ok)
  have h: "has cl ''lists''" using k by (simp add: keyset_has)
  note keep = keyset_put [OF k h]
  from assms obtain names where n: "foldR (channel_row scope codec) [] (list_of (fld cl ''lists'')) = Inr names"
    by (auto simp: channel_lists_def bindR_ok on_ok)
  from channel_rows_clear [OF n] n assms h keep show ?thesis
    unfolding channel_lists_def clear_lists_def
    by (simp only: bindR_ok on_ok seqR_Cons_ok seqR_Nil_ok d_shape_ok d_require_ok fld_put has_put
        list_of.simps is_list.simps if_True if_False char.inject list.inject simp_thms) auto
qed

lemma scope_document_clear:
  assumes "scope_document v codec = Inr ()"
  shows "scope_document (clear_document v) codec = Inr ()"
proof -
  have k: "keyset v [''schema'', ''scope'', ''coverage'', ''channelLists'', ''mediaFavorites''] []"
    using assms by (auto simp: scope_document_def ok_iff)
  have h: "has v ''channelLists''" "has v ''mediaFavorites''" "has v ''scope''"
    using k by (simp_all add: keyset_has)
  have "channel_lists (fld v ''scope'') codec (fld v ''channelLists'') = Inr ()"
    using assms h by (auto simp: scope_document_def ok_iff)
  note cl = channel_lists_clear [OF this]
  have "keyset (put v ''channelLists'' x) [''schema'', ''scope'', ''coverage'', ''channelLists'', ''mediaFavorites''] []" for x
    by (rule keyset_put [OF k h(1)])
  from keyset_put [OF this] h
  have "keyset (clear_document v) [''schema'', ''scope'', ''coverage'', ''channelLists'', ''mediaFavorites''] []"
    by (simp add: clear_document_lists has_put)
  with assms h cl show ?thesis
    by (auto simp: scope_document_def ok_iff clear_document_lists fld_put has_put)
qed

lemma clear_document_fits:
  assumes "scope_document v codec = Inr ()"
  shows "fits (clear_document v) v"
proof -
  have k: "keyset v [''schema'', ''scope'', ''coverage'', ''channelLists'', ''mediaFavorites''] []"
    and m: "is_list (fld v ''mediaFavorites'')"
    and c: "channel_lists (fld v ''scope'') codec (fld v ''channelLists'') = Inr ()"
    using assms by (auto simp: scope_document_def ok_iff)
  let ?cl = "fld v ''channelLists''"
  have kc: "has ?cl ''lists''" and l: "is_list (fld ?cl ''lists'')"
    and rows: "\<exists>names. foldR (channel_row (fld v ''scope'') codec) [] (list_of (fld ?cl ''lists'')) = Inr names"
    using c by (auto simp: channel_lists_def bindR_ok seqR_Cons_ok d_shape_ok d_require_ok on_ok)
  have row_fits: "fits (clear_row row) row" if "row \<in> set (list_of (fld ?cl ''lists''))" for row
  proof -
    from rows obtain names
      where "foldR (channel_row (fld v ''scope'') codec) [] (list_of (fld ?cl ''lists'')) = Inr names" ..
    from foldR_member [OF this that]
    have "\<exists>names names'. channel_row (fld v ''scope'') codec names row = Inr names'" .
    then have "has row ''entries''" "is_list (fld row ''entries'')"
      by (auto simp: channel_row_def ok_iff references_def d_require_ok)
    then show ?thesis
      by (simp add: clear_row_def fits_put fits_empty)
  qed
  have "fits (clear_lists ?cl) ?cl"
    unfolding clear_lists_def using l fits_map [OF row_fits]
    by (intro fits_put [OF kc]) (auto simp: is_list_iff)
  then have "fits (put v ''channelLists'' (clear_lists ?cl)) v"
    using k by (intro fits_put) (simp_all add: keyset_has)
  moreover have "fits (clear_document v) (put v ''channelLists'' (clear_lists ?cl))"
    unfolding clear_document_lists using k m
    by (intro fits_put) (simp_all add: keyset_has has_put fld_put fits_empty)
  ultimately show ?thesis by (rule fits_trans [rotated])
qed

lemma validate_single_ok:
  "(\<exists>w. validate_document (bundle_of [v]) codec = Inr w) \<longleftrightarrow>
     bounded (bundle_of [v]) = Inr () \<and> scope_document v codec = Inr ()"
  by (auto simp: validate_document_ok) (auto simp: bundle_of_def keyset_def keys_of_def)

lemma clear_scope_ok:
  "clear_scope v codec = Inr d \<longleftrightarrow>
     bounded (bundle_of [v]) = Inr () \<and> scope_document v codec = Inr () \<and> d = clear_document v"
proof -
  have "scopes_of w = [v]" if "validate_document (bundle_of [v]) codec = Inr w" for w
    using validate_document_scopes [OF that] by simp
  then show ?thesis
    using validate_single_ok [of v codec] by (auto simp: clear_scope_def ok_iff)
qed

lemma bundle_of_fits: "fits x y \<Longrightarrow> fits (bundle_of [x]) (bundle_of [y])"
  by (auto simp: fits_def bundle_of_def jsize_JObj jsize_JArr)

lemma memberships_clear: "document_memberships (clear_document v) = []"
  by (auto simp: document_memberships_def collections_def clear_document_lists clear_lists_def clear_row_def
      fld_put enumerate_eq_zip)

lemma clear_document_idem: "clear_document (clear_document v) = clear_document v"
proof -
  have 1: "clear_row (clear_row r) = clear_row r" for r
    by (simp add: clear_row_def put_put)
  have 2: "clear_lists (clear_lists cl) = clear_lists cl" for cl
    by (simp add: clear_lists_def put_put fld_put 1 o_def)
  have 3: "put (put (put (put v a x) b y) a x) b y = put (put v a x) b y" if "a \<noteq> b" for v a b x y
  proof -
    have "assoc_set a x (assoc_set b y kv) = assoc_set b y kv" if "map_of kv a = Some x" "a \<noteq> b" for a b :: pystr and kv
      using that by (induction kv) (auto split: if_splits simp: assoc_set_self)
    then have "put (put (put v a x) b y) a x = put (put v a x) b y"
      using that by (simp add: put_def map_of_assoc_set)
    then show ?thesis by (simp add: put_put)
  qed
  show ?thesis
    by (simp add: clear_document_lists fld_put 2 3)
qed

section \<open>A bundle planned against itself\<close>

lemma plan_same:
  assumes "\<And>y. y \<in> set ys \<Longrightarrow> map_of (selected st) (scope_key y) = Some y"
  shows "foldl plan_step st ys =
    st\<lparr>duplicates := duplicates st + sum_list (map (\<lambda>y. card (fst (inventory [y]))) ys)\<rparr>"
  using assms
proof (induction ys arbitrary: st)
  case (Cons y ys)
  have "plan_step st y = st\<lparr>duplicates := duplicates st + card (fst (inventory [y]))\<rparr>"
    using Cons.prems by (simp add: plan_step_def)
  then show ?case
    using Cons.IH [of "st\<lparr>duplicates := duplicates st + card (fst (inventory [y]))\<rparr>"] Cons.prems
    by (simp add: add.assoc)
qed simp

lemma inventory_scope: "i \<in> fst (inventory [s]) \<Longrightarrow> fst i = scope_key s"
  by (auto simp: inventory_fst document_memberships_def)

lemma inventory_card:
  assumes "distinct (map scope_key ss)"
  shows "card (fst (inventory ss)) = sum_list (map (\<lambda>s. card (fst (inventory [s]))) ss)"
proof -
  have "fst (inventory ss) = (\<Union>s \<in> set ss. fst (inventory [s]))"
    by (simp add: inventory_fst)
  also have "card \<dots> = (\<Sum>s \<in> set ss. card (fst (inventory [s])))"
  proof (rule card_UN_disjoint)
    show "\<forall>i \<in> set ss. \<forall>j \<in> set ss. i \<noteq> j \<longrightarrow> fst (inventory [i]) \<inter> fst (inventory [j]) = {}"
    proof (intro ballI impI)
      fix i j assume "i \<in> set ss" "j \<in> set ss" "i \<noteq> j"
      with assms have "scope_key i \<noteq> scope_key j"
        by (auto simp: distinct_map dest: inj_onD)
      then show "fst (inventory [i]) \<inter> fst (inventory [j]) = {}"
        by (metis disjoint_iff inventory_scope)
    qed
  qed (simp_all add: inventory_fst)
  finally show ?thesis
    using assms by (simp add: sum_list_distinct_conv_sum_set distinct_map)
qed

lemma bundle_fits:
  assumes "keyset v [''version'', ''scopes''] []" "distinct (keys_of v)"
    "fld v ''version'' = JInt 1" "fld v ''scopes'' = JArr ss"
  shows "fits (bundle_of ss) v"
proof -
  obtain kv where v: "v = JObj kv" using assms(1) by (auto simp: keyset_def is_dict_iff)
  have keys: "set (map fst kv) = {u ''version'', u ''scopes''}"
    using assms(1) v by (auto simp: keyset_def keys_of_def)
  have same: "set kv = set [(u ''version'', JInt 1), (u ''scopes'', JArr ss)]"
  proof -
    have d: "distinct (map fst kv)" using assms(2) v by (simp add: keys_of_def)
    have "map_of kv (u ''version'') = Some (JInt 1)" "map_of kv (u ''scopes'') = Some (JArr ss)"
      using assms(3,4) v by (auto simp: fld_def split: option.splits)
    then have m: "(k, x) \<in> set kv \<longleftrightarrow>
        k = u ''version'' \<and> x = JInt 1 \<or> k = u ''scopes'' \<and> x = JArr ss" for k x
      unfolding map_of_eq_Some_iff [OF d, symmetric] using keys map_of_some_mem [of kv k x] by auto
    show ?thesis by (rule set_eqI) (auto simp: m)
  qed
  have dist: "distinct kv" "distinct [(u ''version'', JInt 1), (u ''scopes'', JArr ss)]"
    using assms(2) v by (auto simp: keys_of_def distinct_map)
  from same have "mset [(u ''version'', JInt 1), (u ''scopes'', JArr ss)] = mset kv"
    unfolding set_eq_iff_mset_eq_distinct [OF dist] by (rule sym)
  then show ?thesis
    unfolding v bundle_of_def by (rule fits_JObj_perm)
qed

lemma bundle_of_valid:
  assumes "validate_document v codec = Inr w" "distinct (keys_of v)"
  shows "validate_document (bundle_of (scopes_of w)) codec = Inr (bundle_of (scopes_of w))"
proof -
  note v = assms(1) [unfolded validate_document_ok]
  note w = validate_document_stable [OF assms(1), unfolded validate_document_ok]
  have "fld v ''scopes'' = JArr (scopes_of v)"
    using v by (auto simp: scopes_of_def is_list_iff)
  then have "fits (bundle_of (scopes_of v)) v"
    using v assms(2) by (intro bundle_fits) simp_all
  moreover have "fits (bundle_of (scopes_of w)) (bundle_of (scopes_of v))"
  proof -
    have "mset (scopes_of w) = mset (scopes_of v)"
      by (simp add: validate_document_scopes [OF assms(1)])
    from bounds_perm [OF this]
    have "fits (JArr (scopes_of w)) (fld (bundle_of (scopes_of v)) ''scopes'')"
      by (simp del: vis_ok.simps nodes.simps add: fits_def bundle_of_def)
    from fits_put [OF _ this] show ?thesis
      by (simp add: bundle_of_def put_def)
  qed
  ultimately have "bounded (bundle_of (scopes_of w)) = Inr ()"
    using v fits_bounded fits_trans by blast
  moreover have "sort_key scope_key (scopes_of w) = scopes_of w"
    by (simp add: validate_document_scopes [OF assms(1)] sort_key_sorted)
  ultimately show ?thesis
    using w by (auto simp: validate_document_ok)
      (auto simp: bundle_of_def keyset_def keys_of_def put_def)
qed

lemma counts_same [simp]: "added (counts_of a a) = 0" "removed (counts_of a a) = 0"
  by simp_all

lemma plan_itself:
  assumes "validate_document v codec = Inr w" "distinct (keys_of v)" "v \<noteq> JNull"
  obtains p where "plan_documents v [v] (u ''merge'') codec = Inr p"
    "document p = bundle_of (scopes_of w)" "unresolved_conflicts p = 0"
    "skipped_duplicates p = card (fst (inventory (scopes_of w)))"
    "added (items p) = 0" "removed (items p) = 0" "added (memberships p) = 0" "removed (memberships p) = 0"
proof -
  note w = validate_document_stable [OF assms(1), unfolded validate_document_ok]
  have d: "distinct (map scope_key (scopes_of w))" using w by blast
  let ?st = "plan_start (u ''merge'') w"
  have sel: "selected ?st = map by_scope (scopes_of w)"
    by (simp add: plan_start_def)
  have "map_of (selected ?st) (scope_key y) = Some y" if "y \<in> set (scopes_of w)" for y
    unfolding sel using that d by (intro map_of_is_SomeI) (auto simp: o_def)
  from plan_same [OF this] have run: "planned (u ''merge'') w [w] =
      ?st\<lparr>duplicates := card (fst (inventory (scopes_of w)))\<rparr>"
    by (simp add: planned_def inventory_card [OF d] plan_start_def)
  have snds: "map snd (selected (planned (u ''merge'') w [w])) = scopes_of w"
    unfolding run by (simp add: plan_start_def o_def)
  let ?p = "\<lparr>document = bundle_of (scopes_of w),
     items = counts_of (mset_set (fst (inventory (scopes_of w)))) (mset_set (fst (inventory (scopes_of w)))),
     skipped_duplicates = card (fst (inventory (scopes_of w))),
     memberships = counts_of (snd (inventory (scopes_of w))) (snd (inventory (scopes_of w))),
     unresolved_conflicts = 0\<rparr>"
  have "plan_documents v [v] (u ''merge'') codec = Inr ?p"
    unfolding plan_documents_ok
  proof (intro conjI exI [of _ w] exI [of _ "[w]"])
    show "validate_document (bundle_of (map snd (selected (planned (u ''merge'') w [w])))) codec
        = Inr (document ?p)"
      unfolding snds using bundle_of_valid [OF assms(1,2)] by simp
  qed (use assms(1,3) in \<open>simp_all add: run plan_start_def loop_simps plen_def\<close>)
  then show ?thesis by (rule that) simp_all
qed

end
