(* ===== verification/FavDocumentProps.thy ===== *)
theory FavDocumentProps
  imports FavClearLaws
begin

text \<open>
  The properties of \<open>src/cli/favorites_document.py\<close>, each with a concrete bundle on which its
  hypotheses hold.
\<close>

section \<open>Sample bundles\<close>

definition sample_media :: "string \<Rightarrow> json" where
  "sample_media k = JObj [(u ''state'', lit ''located''), (u ''locator'',
     JObj [(u ''kind'', lit ''plex-media''), (u ''serverId'', lit ''srv1''), (u ''ratingKey'', lit k)])]"

definition sample_scope :: "string \<Rightarrow> json list \<Rightarrow> json" where
  "sample_scope provider media = JObj
    [(u ''schema'', JInt 1),
     (u ''scope'', JObj [(u ''profileBindingId'', lit ''11111111-1111-4111-8111-111111111111''),
        (u ''sourceBindingId'', lit ''22222222-2222-4222-8222-222222222222''), (u ''provider'', lit provider)]),
     (u ''coverage'', COVERAGE),
     (u ''channelLists'', JObj [(u ''active'', JNull), (u ''order'', JArr [lit ''One'']),
        (u ''default'', JObj [(u ''present'', JBool False)]),
        (u ''lists'', JArr [JObj [(u ''name'', lit ''One''), (u ''entries'', JArr media)]])]),
     (u ''mediaFavorites'', JArr media)]"

definition sample_plex :: json where
  "sample_plex = sample_scope ''plex'' [sample_media ''7'']"

definition sample_m3u :: json where
  "sample_m3u = sample_scope ''m3u'' []"

lemma sample_both: "is_ok (validate_document (bundle_of [sample_plex, sample_m3u]) None)"
  by code_simp

lemma sample_each:
  "is_ok (validate_document (bundle_of [sample_plex]) None)"
  "is_ok (validate_document (bundle_of [sample_m3u]) None)"
  "is_ok (validate_document (bundle_of [sample_scope ''plex'' []]) None)"
  by code_simp+

lemma sample_keys:
  "scope_key sample_plex \<noteq> scope_key sample_m3u"
  "scope_key sample_plex = scope_key (sample_scope ''plex'' [])"
  "canon sample_plex \<noteq> canon (sample_scope ''plex'' [])"
  by code_simp+

lemma validate_single:
  assumes "is_ok (validate_document (bundle_of [s]) codec)"
  shows "validate_document (bundle_of [s]) codec = Inr (bundle_of [s])"
  using assms by (auto simp: is_ok_iff validate_document_ok) (simp add: put_def bundle_of_def)

lemma plan_returns:
  assumes "mode = u ''merge'' \<or> mode = u ''replace''" "incoming \<noteq> []" "length incoming \<le> 64"
    "validate_document (if current = JNull then empty_bundle else current) codec = Inr original"
    "mapR (\<lambda>v. validate_document v codec) incoming = Inr documents"
    "is_ok (validate_document (bundle_of (map snd (selected (planned mode original documents)))) codec)"
  obtains p where "plan_documents current incoming mode codec = Inr p"
proof -
  from assms(6) obtain res where
    res: "validate_document (bundle_of (map snd (selected (planned mode original documents)))) codec = Inr res"
    by (auto simp: is_ok_iff)
  let ?p = "\<lparr>document = res,
         items = counts_of (mset_set (fst (inventory (scopes_of original)))) (mset_set (fst (inventory (scopes_of res)))),
         skipped_duplicates = duplicates (planned mode original documents),
         memberships = counts_of (snd (inventory (scopes_of original))) (snd (inventory (scopes_of res))),
         unresolved_conflicts = length (conflicts (planned mode original documents))\<rparr>"
  have len: "1 \<le> plen incoming" "plen incoming \<le> 64"
    using assms(2,3) by (cases incoming; simp add: plen_def)+
  have "plan_documents current incoming mode codec = Inr ?p"
    unfolding plan_documents_ok
    by (intro conjI exI [of _ original] exI [of _ documents]) (use assms(1,4,5) len res in simp_all)
  then show ?thesis by (rule that)
qed

text \<open>One saved scope document, and offers of a new one and of a different one.\<close>

lemma sample_plan:
  obtains p where "plan_documents (bundle_of [sample_plex]) [bundle_of [sample_m3u]] (u ''merge'') None = Inr p"
proof -
  have cur: "validate_document (if bundle_of [sample_plex] = JNull then empty_bundle else bundle_of [sample_plex]) None
      = Inr (bundle_of [sample_plex])"
    using validate_single [OF sample_each(1)] by (simp add: bundle_of_def)
  have inc: "mapR (\<lambda>v. validate_document v None) [bundle_of [sample_m3u]] = Inr [bundle_of [sample_m3u]]"
    using validate_single [OF sample_each(2)] by (simp add: loop_simps)
  have "map snd (selected (planned (u ''merge'') (bundle_of [sample_plex]) [bundle_of [sample_m3u]]))
      = [sample_plex, sample_m3u]"
    using sample_keys by (simp add: planned_selected plan_base_def)
  with plan_returns [OF _ _ _ cur inc] sample_both that show ?thesis by fastforce
qed

lemma sample_conflict:
  obtains p where "plan_documents JNull [bundle_of [sample_plex], bundle_of [sample_scope ''plex'' []]]
    (u ''replace'') None = Inr p"
proof -
  have cur: "validate_document (if JNull = JNull then empty_bundle else JNull) None = Inr empty_bundle"
    by code_simp
  have inc: "mapR (\<lambda>v. validate_document v None) [bundle_of [sample_plex], bundle_of [sample_scope ''plex'' []]]
      = Inr [bundle_of [sample_plex], bundle_of [sample_scope ''plex'' []]]"
    using validate_single [OF sample_each(1)] validate_single [OF sample_each(3)] by (simp add: loop_simps)
  have "map snd (selected (planned (u ''replace'') empty_bundle
      [bundle_of [sample_plex], bundle_of [sample_scope ''plex'' []]])) = [sample_plex]"
    using sample_keys by (simp add: planned_selected plan_base_def)
  with plan_returns [OF _ _ _ cur inc] sample_each(1) that show ?thesis by fastforce
qed

section \<open>Validation\<close>

text \<open>
  C27: The size traversal of a bundle is exact: when it ends with \<open>left\<close> bytes to spend, the canonical
  serialisation exists, encodes to exactly \<open>MAX_BYTES - left\<close> bytes, and the code's second
  size check can no longer fail.
\<close>

theorem traversal_exact:
  assumes "visit v 0 (MAX_BYTES, 0) = Inr (left, seen)"
  shows "0 \<le> left \<and> seen \<le> MAX_BYTES \<and>
    (\<exists>t b. d_json v = Inr t \<and> utf8_encode t = Inr b \<and> plen b = MAX_BYTES - left) \<and>
    bounded v = Inr ()"
proof -
  from assms have v: "vis_ok v 0" "jsize v \<le> MAX_BYTES" "nodes v \<le> MAX_BYTES"
    "left = MAX_BYTES - jsize v" "seen = nodes v" by (simp_all add: visit_root)
  from vis_ok_text [OF v(1)] canonical_bytes [of v] obtain t b
    where "d_json v = Inr t" "utf8_encode t = Inr b" by (auto simp: d_json_def)
  with canonical_size [of v t b] v show ?thesis by (auto simp: d_json_def bounded_ok)
qed

theorem traversal_exact_witness:
  "bounded (JArr [JInt 12, JStr (u ''ab'')]) = Inr () \<and>
   visit (JArr [JInt 12, JStr (u ''ab'')]) 0 (MAX_BYTES, 0) = Inr (MAX_BYTES - 9, 3)"
proof -
  have run: "visit (JArr [JInt 12, JStr (u ''ab'')]) 0 (MAX_BYTES, 0) = Inr (MAX_BYTES - 9, 3)"
    by code_simp
  with traversal_exact [OF run] show ?thesis by simp
qed

text \<open>
  C28: Validating a bundle sorts its scope documents by (provider, profile, source): the result has the
  same documents with distinct scopes, every one of them a valid scope document, the same other
  fields, and is a fixed point of validation.
\<close>

theorem validate_canonical:
  assumes "validate_document v codec = Inr w"
  shows "validate_document w codec = Inr w \<and> mset (scopes_of w) = mset (scopes_of v) \<and>
    sorted (map scope_key (scopes_of w)) \<and> distinct (map scope_key (scopes_of w)) \<and>
    (\<forall>s \<in> set (scopes_of w). scope_document s codec = Inr ()) \<and> w = put v ''scopes'' (fld w ''scopes'')"
proof -
  from validate_document_stable [OF assms] have stable: "validate_document w codec = Inr w" .
  then have "distinct (map scope_key (scopes_of w)) \<and>
      (\<forall>s \<in> set (scopes_of w). scope_document s codec = Inr ())"
    by (simp add: validate_document_ok)
  with stable assms show ?thesis
    by (auto simp: validate_document_ok fld_put)
qed

theorem validate_canonical_witness:
  "\<exists>w. validate_document (bundle_of [sample_plex, sample_m3u]) None = Inr w \<and> sorted (map scope_key (scopes_of w))"
proof -
  from sample_both obtain w where "validate_document (bundle_of [sample_plex, sample_m3u]) None = Inr w"
    by (auto simp: is_ok_iff)
  with validate_canonical [OF this] show ?thesis by blast
qed

text \<open>
  A reference into a local library that passes the check names a file below its root: the path is
  relative, has no backslash, and none of its segments is empty, a dot or two dots.
\<close>

theorem local_path_safe:
  assumes "locator v scope codec = Inr ()" and "is_lit (fld v ''kind'') ''local''"
  shows "\<exists>p. fld v ''relativePath'' = JStr p \<and> p \<noteq> [] \<and> plen p \<le> 8192 \<and> hd p \<noteq> 47 \<and> 92 \<notin> set p \<and>
    \<not> has_control p \<and> (\<forall>s \<in> set (split_on 47 p). s \<noteq> [] \<and> s \<noteq> u ''.'' \<and> s \<noteq> u ''..'')"
proof -
  let ?p = "fld v ''relativePath''"
  have "fld v ''kind'' = JStr (u ''local'')"
    using assms(2) by (simp add: is_lit_def)
  with assms(1) have p: "d_text ?p 8192 False = Inr ()" "local_path_ok (str_of ?p)"
    by (auto simp: locator_def ok_iff)
  from p(1) obtain s where s: "?p = JStr s" "s \<noteq> []" "plen s \<le> 8192" "\<not> has_control s"
    by (auto simp: d_text_def ok_iff is_str_iff)
  have "hd s \<noteq> 47"
    using p(2) s by (cases s) (auto simp: local_path_ok_def u_def)
  with s p(2) show ?thesis
    by (auto simp: local_path_ok_def safe_segments_def list_all_iff)
qed

theorem local_path_safe_witness:
  "\<exists>p. p = u ''a/b.mkv'' \<and> (\<forall>s \<in> set (split_on 47 p). s \<noteq> u ''..'')"
proof -
  let ?v = "JObj [(u ''kind'', lit ''local''), (u ''rootBindingId'', lit ''11111111-1111-4111-8111-111111111111''),
    (u ''relativePath'', lit ''a/b.mkv'')]"
  have "locator ?v JNull None = Inr ()" by code_simp
  moreover have "is_lit (fld ?v ''kind'') ''local''" by (simp add: lit_def)
  ultimately show ?thesis
    using local_path_safe [of ?v JNull None] by (simp add: lit_def)
qed

section \<open>Plans\<close>

lemma validated_scopes:
  "mapR (\<lambda>v. validate_document v codec) incoming = Inr documents \<Longrightarrow>
     map scopes_of documents = map (\<lambda>v. sort_key scope_key (scopes_of v)) incoming"
proof (induction incoming arbitrary: documents)
  case (Cons v vs)
  then show ?case
    by (auto simp: loop_simps validate_document_scopes split: sum.splits)
qed auto

lemma original_scopes:
  "validate_document (if current = JNull then empty_bundle else current) codec = Inr original \<Longrightarrow>
     scopes_of original = sort_key scope_key (scopes_of current)"
  using validate_document_scopes [of current codec original] validate_document_scopes [of empty_bundle codec original]
  by (auto simp: scopes_of_def empty_bundle_def fld_def split: if_splits)

text \<open>
  What a plan contains: the scope documents of the result are, sorted, those of the saved bundle
  (for a merge; none for a replacement) followed by the first document offered for each scope
  that is not there yet, in the order the incoming bundles are validated.
\<close>

theorem plan_selects_first:
  assumes "plan_documents current incoming mode codec = Inr p"
  shows "scopes_of (document p) = sort_key scope_key
     (let base = (if mode = u ''merge'' then sort_key scope_key (scopes_of current) else [])
      in base @ keep_new (scope_key ` set base)
           (concat (map (\<lambda>v. sort_key scope_key (scopes_of v)) incoming)))"
proof -
  from assms obtain original documents
    where o': "validate_document (if current = JNull then empty_bundle else current) codec = Inr original"
      and d: "mapR (\<lambda>v. validate_document v codec) incoming = Inr documents"
      and r: "validate_document (bundle_of (map snd (selected (planned mode original documents)))) codec
                = Inr (document p)"
    by (auto simp: plan_documents_ok)
  show ?thesis
    using validate_document_scopes [OF r]
    by (simp add: planned_selected plan_base_def original_scopes [OF o'] validated_scopes [OF d] Let_def)
qed

theorem plan_selects_first_witness:
  "\<exists>p. plan_documents (bundle_of [sample_plex]) [bundle_of [sample_m3u]] (u ''merge'') None = Inr p \<and>
     scopes_of (document p) = sort_key scope_key [sample_plex, sample_m3u]"
proof (rule sample_plan)
  fix p
  assume p: "plan_documents (bundle_of [sample_plex]) [bundle_of [sample_m3u]] (u ''merge'') None = Inr p"
  from plan_selects_first [OF p] sample_keys have "scopes_of (document p) = sort_key scope_key [sample_plex, sample_m3u]"
    by (simp add: Let_def)
  with p show ?thesis by blast
qed

text \<open>
  C3: A merge never loses anything: every saved scope document is in the result unchanged, no item and no
  membership is counted as removed, and the counts of a plan add up.
\<close>

theorem merge_keeps_saved:
  assumes "plan_documents current incoming (u ''merge'') codec = Inr p"
  shows "set (scopes_of current) \<subseteq> set (scopes_of (document p)) \<and>
    removed (items p) = 0 \<and> removed (memberships p) = 0 \<and>
    retained (memberships p) = before (memberships p) \<and>
    after (memberships p) = before (memberships p) + added (memberships p) \<and>
    after (items p) = before (items p) + added (items p)"
proof -
  from assms obtain original documents
    where o': "validate_document (if current = JNull then empty_bundle else current) codec = Inr original"
      and r: "validate_document (bundle_of (map snd (selected (planned (u ''merge'') original documents)))) codec
                = Inr (document p)"
      and it: "items p = counts_of (mset_set (fst (inventory (scopes_of original))))
                            (mset_set (fst (inventory (scopes_of (document p)))))"
      and ms: "memberships p = counts_of (snd (inventory (scopes_of original)))
                                  (snd (inventory (scopes_of (document p))))"
    by (auto simp: plan_documents_ok)
  have sub: "mset (scopes_of original) \<subseteq># mset (scopes_of (document p))"
    using validate_document_scopes [OF r] by (simp add: planned_selected plan_base_def)
  note subs = counts_subset [OF inventory_mono(2) [OF sub]] counts_subset [OF inventory_mono(1) [OF sub]]
  have "set (scopes_of current) = set (scopes_of original)"
    by (simp add: original_scopes [OF o'])
  also have "\<dots> \<subseteq> set (scopes_of (document p))"
    using set_mset_mono [OF sub] by simp
  finally show ?thesis
    using subs counts_sum [of "mset_set (fst (inventory (scopes_of original)))"
        "mset_set (fst (inventory (scopes_of (document p))))"]
      counts_sum [of "snd (inventory (scopes_of original))" "snd (inventory (scopes_of (document p)))"]
    unfolding it ms by linarith
qed

theorem merge_keeps_saved_witness:
  "\<exists>p. plan_documents (bundle_of [sample_plex]) [bundle_of [sample_m3u]] (u ''merge'') None = Inr p \<and>
     sample_plex \<in> set (scopes_of (document p)) \<and> removed (memberships p) = 0"
proof (rule sample_plan)
  fix p
  assume p: "plan_documents (bundle_of [sample_plex]) [bundle_of [sample_m3u]] (u ''merge'') None = Inr p"
  from merge_keeps_saved [OF p] p show ?thesis by auto
qed

text \<open>
  The unresolved conflicts a plan reports are exactly the scopes for which some offered document has
  other canonical content than the document of the result; the result keeps one document for
  every saved or offered scope.
\<close>

theorem plan_conflicts_exact:
  assumes "plan_documents current incoming mode codec = Inr p"
  shows "unresolved_conflicts p = card (scope_key ` {s. \<exists>v \<in> set incoming. s \<in> set (scopes_of v) \<and>
       (\<exists>r \<in> set (scopes_of (document p)). scope_key r = scope_key s \<and> canon r \<noteq> canon s)}) \<and>
     scope_key ` set (scopes_of (document p)) =
       (if mode = u ''merge'' then scope_key ` set (scopes_of current) else {})
       \<union> (\<Union>v \<in> set incoming. scope_key ` set (scopes_of v))"
proof -
  from assms obtain original documents
    where o': "validate_document (if current = JNull then empty_bundle else current) codec = Inr original"
      and d: "mapR (\<lambda>v. validate_document v codec) incoming = Inr documents"
      and r: "validate_document (bundle_of (map snd (selected (planned mode original documents)))) codec
                = Inr (document p)"
      and n: "unresolved_conflicts p = length (conflicts (planned mode original documents))"
    by (auto simp: plan_documents_ok)
  let ?st = "planned mode original documents" and ?offers = "concat (map scopes_of documents)"
  define R where R: "R = map snd (selected ?st)"
  have offers: "set ?offers = {s. \<exists>v \<in> set incoming. s \<in> set (scopes_of v)}"
    using validated_scopes [OF d] by auto
  have sel: "selected ?st = map by_scope R"
    unfolding R planned_selected by (rule planned_keyed)
  have sel_set: "set (selected ?st) = by_scope ` set R"
    by (simp add: sel)
  have res: "set (scopes_of (document p)) = set R"
    using validate_document_scopes [OF r] by (simp add: R)
  have keys: "scope_key ` set R = scope_key ` set (plan_base mode original) \<union> scope_key ` set ?offers"
    unfolding R planned_selected set_append image_Un keep_new_keys by blast
  have dist: "distinct (map fst (selected ?st))"
    using r by (simp add: sel o_def) (simp add: validate_document_ok o_def flip: R)
  have win: "map_of (selected ?st) (scope_key s) = Some w \<longleftrightarrow> w \<in> set R \<and> scope_key w = scope_key s" for s w
    unfolding map_of_eq_Some_iff [OF dist] sel_set image_iff prod.inject by metis
  have winner: "winner ?st s \<in> set R \<and> scope_key (winner ?st s) = scope_key s" if "s \<in> set ?offers" for s
  proof -
    have "scope_key s \<in> scope_key ` set R" using keys that by auto
    then obtain w where "w \<in> set R" "scope_key w = scope_key s" by force
    then show ?thesis using win [of s w] by (simp add: winner_def)
  qed
  have "set (conflicts ?st) = scope_key ` {y \<in> set ?offers. canon (winner ?st y) \<noteq> canon y}"
    using plan_conflicts [of "plan_start mode original" ?offers] by (simp add: planned_def plan_start_def)
  also have "{y \<in> set ?offers. canon (winner ?st y) \<noteq> canon y} =
      {s. \<exists>v \<in> set incoming. s \<in> set (scopes_of v) \<and>
        (\<exists>r \<in> set (scopes_of (document p)). scope_key r = scope_key s \<and> canon r \<noteq> canon s)}" (is "?A = ?B")
  proof (rule set_eqI)
    fix s
    have "canon (winner ?st s) \<noteq> canon s \<longleftrightarrow> (\<exists>r \<in> set R. scope_key r = scope_key s \<and> canon r \<noteq> canon s)"
      if s: "s \<in> set ?offers"
      using winner [OF s] win [of s] by (metis option.inject)
    then show "s \<in> ?A \<longleftrightarrow> s \<in> ?B"
      unfolding offers res mem_Collect_eq by blast
  qed
  finally have "card (set (conflicts ?st)) = card (scope_key ` ?B)" by simp
  moreover have "distinct (conflicts ?st)"
    unfolding planned_def by (rule plan_conflicts_distinct) (simp add: plan_start_def)
  moreover have "scope_key ` set (plan_base mode original) =
      (if mode = u ''merge'' then scope_key ` set (scopes_of current) else {})"
    by (simp add: plan_base_def original_scopes [OF o'])
  ultimately show ?thesis
    using n keys res offers by (auto simp: distinct_card)
qed

theorem plan_conflicts_exact_witness:
  "\<exists>p. plan_documents JNull [bundle_of [sample_plex], bundle_of [sample_scope ''plex'' []]]
     (u ''replace'') None = Inr p \<and> scope_key ` set (scopes_of (document p)) = {scope_key sample_plex}"
proof (rule sample_conflict)
  fix p
  assume p: "plan_documents JNull [bundle_of [sample_plex], bundle_of [sample_scope ''plex'' []]]
    (u ''replace'') None = Inr p"
  from plan_conflicts_exact [OF p] sample_keys p show ?thesis by auto
qed

text \<open>
  C33: Importing a bundle a second time changes nothing: planning a valid bundle against itself succeeds,
  gives the same scope documents, reports no conflict and no added or removed item or
  membership, and skips exactly the distinct items of the bundle as duplicates.
\<close>

theorem reimport_changes_nothing:
  assumes "validate_document v codec = Inr w" and "distinct (keys_of v)" and "v \<noteq> JNull"
  shows "\<exists>p. plan_documents v [v] (u ''merge'') codec = Inr p \<and> scopes_of (document p) = scopes_of w \<and>
    unresolved_conflicts p = 0 \<and> skipped_duplicates p = card (fst (inventory (scopes_of w))) \<and>
    added (items p) = 0 \<and> removed (items p) = 0 \<and>
    added (memberships p) = 0 \<and> removed (memberships p) = 0"
  by (rule plan_itself [OF assms]) (metis scopes_of_bundle)

theorem reimport_changes_nothing_witness:
  "\<exists>w p. validate_document (bundle_of [sample_plex, sample_m3u]) None = Inr w \<and>
     plan_documents (bundle_of [sample_plex, sample_m3u]) [bundle_of [sample_plex, sample_m3u]]
       (u ''merge'') None = Inr p \<and> scopes_of (document p) = scopes_of w"
proof -
  from sample_both obtain w where w: "validate_document (bundle_of [sample_plex, sample_m3u]) None = Inr w"
    by (auto simp: is_ok_iff)
  have "distinct (keys_of (bundle_of [sample_plex, sample_m3u]))" "bundle_of [sample_plex, sample_m3u] \<noteq> JNull"
    by (simp_all add: bundle_of_def keys_of_def)
  from reimport_changes_nothing [OF w this] w show ?thesis by blast
qed

section \<open>Clearing\<close>

text \<open>
  C34: Clearing a scope document empties it and nothing else: the result has no membership and is again a
  valid scope document that clears to itself, and the scope, the coverage, the order, active
  and default lists, and each list's name and shuffle history are those of the original.
\<close>

theorem clear_scope_empties:
  assumes "clear_scope v codec = Inr d"
  shows "document_memberships d = [] \<and> scope_document d codec = Inr () \<and> clear_scope d codec = Inr d \<and>
    (\<forall>k \<in> {''schema'', ''scope'', ''coverage''}. fld d k = fld v k) \<and>
    (\<forall>k \<in> {''active'', ''order'', ''default''}.
       fld (fld d ''channelLists'') k = fld (fld v ''channelLists'') k) \<and>
    map (\<lambda>row. (fld row ''name'', fld row ''shuffleBefore'')) (list_of (fld (fld d ''channelLists'') ''lists''))
      = map (\<lambda>row. (fld row ''name'', fld row ''shuffleBefore'')) (list_of (fld (fld v ''channelLists'') ''lists''))"
proof -
  from assms have v: "bounded (bundle_of [v]) = Inr ()" "scope_document v codec = Inr ()" "d = clear_document v"
    by (simp_all add: clear_scope_ok)
  have "bounded (bundle_of [d]) = Inr ()"
    unfolding v(3) by (rule fits_bounded [OF bundle_of_fits [OF clear_document_fits [OF v(2)]] v(1)])
  moreover have "scope_document d codec = Inr ()"
    using scope_document_clear [OF v(2)] v(3) by simp
  moreover have "clear_document d = d"
    unfolding v(3) by (rule clear_document_idem)
  ultimately have "clear_scope d codec = Inr d" "scope_document d codec = Inr ()"
    by (simp_all add: clear_scope_ok)
  then show ?thesis
    unfolding v(3)
    by (simp add: memberships_clear) (simp add: clear_document_lists clear_lists_def clear_row_def fld_put)
qed

theorem clear_scope_empties_witness:
  "\<exists>d. clear_scope sample_plex None = Inr d \<and> document_memberships d = [] \<and>
     document_memberships sample_plex \<noteq> []"
proof -
  have "document_memberships sample_plex \<noteq> []" by code_simp
  moreover from validate_single [OF sample_each(1)] obtain d where d: "clear_scope sample_plex None = Inr d"
    by (auto simp: clear_scope_def)
  moreover note clear_scope_empties [OF d]
  ultimately show ?thesis by blast
qed

end
