(* ===== verification/FavEnvelopes.thy ===== *)
theory FavEnvelopes
  imports FavTransfer
begin

text \<open>
  The request envelopes of small parameters without HTML characters exist: what the controller will
  queue is then the compact text of an object, which parses back.
\<close>

definition no_html :: "pystr \<Rightarrow> bool" where
  "no_html s \<longleftrightarrow> set s \<inter> {60, 62, 38, 8232, 8233} = {}"

lemma replace_char_none: "d \<notin> set s \<Longrightarrow> replace_char d w s = s"
  by (induction s) auto

lemma go_raw_compact: "no_html (ctext v) \<Longrightarrow> dumpable v \<Longrightarrow> go_raw v = utf8_encode (ctext v)"
  by (simp add: go_raw_def go_escape_def dumps_compact_def dumps_def no_html_def replace_char_none)

lemma utf8_size_nonneg: "0 \<le> utf8_size s"
  by (rule order_trans [OF plen_simps(5) utf8_size_length])

lemma default_size: "utf8_size (jtext (u '', '') (u '': '') v) \<le> 2 * jsize v"
proof (induction "u '', ''" "u '': ''" v rule: jtext.induct)
  case (6 vs)
  have "sum_list (map (\<lambda>v. utf8_size (jtext (u '', '') (u '': '') v)) vs) \<le> sum_list (map (\<lambda>v. 2 * jsize v) vs)"
    using 6 by (intro sum_list_mono) simp
  also have "\<dots> = 2 * sum_list (map jsize vs)" by (simp add: sum_list_const_mult)
  finally have "utf8_size (join (u '', '') (map (jtext (u '', '') (u '': '')) vs))
      \<le> 2 * sum_list (map jsize vs) + max (plen vs - 1) 0 * 2"
    by (simp add: utf8_size_join o_def u_def char_size_def)
  then show ?case by (simp add: jsize_JArr char_size_def)
next
  case (7 kv)
  have "sum_list (map (\<lambda>p. utf8_size (member_text (u '', '') (u '': '') p)) kv)
      \<le> sum_list (map (\<lambda>p. 2 * (1 + utf8_size (quote (fst p)) + jsize (snd p))) kv)"
  proof (rule sum_list_mono)
    fix p assume "p \<in> set kv"
    then have "utf8_size (jtext (u '', '') (u '': '') (snd p)) \<le> 2 * jsize (snd p)" using 7 by simp
    then show "utf8_size (member_text (u '', '') (u '': '') p) \<le> 2 * (1 + utf8_size (quote (fst p)) + jsize (snd p))"
      using utf8_size_nonneg [of "quote (fst p)"]
      by (simp add: u_def char_size_def)
  qed
  also have "\<dots> = 2 * (plen kv + sum_list (map (\<lambda>p. utf8_size (quote (fst p)) + jsize (snd p)) kv))"
    by (induction kv) auto
  finally show ?case
    by (simp add: utf8_size_join o_def jsize_JObj char_size_def) (simp add: u_def char_size_def)
qed (simp_all add: jsize_def u_def char_size_def utf8_size_nonneg)

lemma default_encodable: "encodable (ctext v) \<Longrightarrow> encodable (jtext (u '', '') (u '': '') v)"
proof (induction "u '', ''" "u '': ''" v rule: jtext.induct)
  case (6 vs)
  have e: "encodable (u '', '')" "encodable (u '','')" by (simp_all add: u_def ascii_char)
  show ?case using 6 e by (auto simp: encodable_join ascii_char)
next
  case (7 kv)
  have e: "encodable (u '', '')" "encodable (u '','')" "encodable (u '': '')" by (simp_all add: u_def ascii_char)
  show ?case using 7 e by (auto simp: encodable_join ascii_char)
qed simp_all

lemma document_bytes_ok:
  assumes "utf8_encode t = Inr b" "loads t = Inr v" "encodable (ctext v)" "dumpable v" "0 < plen b" "plen b \<le> MAX_DOCUMENT_BYTES"
  shows "validate_document_bytes b MAX_DOCUMENT_BYTES = Inr v"
proof -
  obtain c where "utf8_encode (jtext (u '', '') (u '': '') v) = Inr c"
    using utf8_encode_iff default_encodable [OF assms(3)] by blast
  then show ?thesis
    using assms utf8_roundtrip [OF assms(1)] by (cases b)
    (simp_all add: validate_document_bytes_def limit_def raw_bytes_def dumps_default_def dumps_def)
qed

text \<open>The queued object, as a value.\<close>

definition queued_value :: "pystr \<Rightarrow> json \<Rightarrow> json" where
  "queued_value action params = JObj
     [(u ''action'', JStr action), (u ''expires_at'', JInt (-9999999999999999999999999999999)),
      (u ''id'', JStr (replicate 32 102)), (u ''params'', params)]"

lemma ascii_parts:
  "utf8_encode [123] = Inr (ascii ''{'')" "utf8_encode [125] = Inr (ascii ''}'')"
  "utf8_encode (u '','') = Inr (ascii '','')" "utf8_encode (u '':'') = Inr (ascii '':'')"
  "utf8_encode (quote (u ''action'')) = Inr ([34] @ ascii ''action'' @ [34])"
  "utf8_encode (quote (u ''expires_at'')) = Inr ([34] @ ascii ''expires_at'' @ [34])"
  "utf8_encode (quote (u ''id'')) = Inr ([34] @ ascii ''id'' @ [34])"
  "utf8_encode (quote (u ''params'')) = Inr ([34] @ ascii ''params'' @ [34])"
  "utf8_encode (quote (replicate 32 102)) = Inr ([34] @ replicate 32 102 @ [34])"
  "utf8_encode (int_text (-9999999999999999999999999999999)) = Inr (ascii ''-'' @ replicate 31 57)"
  "ascii '':-'' = ascii '':'' @ ascii ''-''"
  by code_simp+

lemma queued_text:
  assumes "utf8_encode (quote action) = Inr ga" "utf8_encode (ctext params) = Inr gp"
  shows "utf8_encode (ctext (queued_value action params)) = Inr (queued_bytes ga gp)"
proof -
  have "ctext (queued_value action params) =
      [123] @ quote (u ''action'') @ u '':'' @ quote action @ u '','' @ quote (u ''expires_at'') @ u '':''
      @ int_text (-9999999999999999999999999999999) @ u '','' @ quote (u ''id'') @ u '':'' @ quote (replicate 32 102)
      @ u '','' @ quote (u ''params'') @ u '':'' @ ctext params @ [125]"
    by (simp add: queued_value_def)
  then show ?thesis
    by (simp only: utf8_encode_append ascii_parts assms bindR_Inr queued_bytes_def append_assoc)
qed

lemma queued_plain: "plain params \<Longrightarrow> \<forall>c \<in> set action. 0 \<le> c \<Longrightarrow> plain (queued_value action params)"
proof -
  have "plen (dec_digits (nat \<bar>-9999999999999999999999999999999\<bar>)) \<le> 4300" by code_simp
  then show "plain params \<Longrightarrow> \<forall>c \<in> set action. 0 \<le> c \<Longrightarrow> plain (queued_value action params)"
    unfolding queued_value_def by (simp add: u_def)
qed

text \<open>The names of the actions: short, without HTML characters.\<close>

definition action_name :: "pystr \<Rightarrow> bool" where
  "action_name a \<longleftrightarrow> a \<noteq> [] \<and> no_html (ctext (JStr a)) \<and> encodable (quote a) \<and> utf8_size (quote a) \<le> 40
     \<and> list_all (\<lambda>c. 0 \<le> c) a"

lemma action_envelopes:
  assumes "action_name a"
    and "is_dict params" "plain params" "encodable (ctext params)" "no_html (ctext params)" "jsize params \<le> 8000"
  shows "case request_envelopes a params None of
     Inl _ \<Rightarrow> False | Inr env \<Rightarrow> plen (client env) \<le> MAX_RPC_BYTES \<and> plen (queued_upper_bound env) \<le> MAX_RPC_BYTES"
proof -
  let ?P = "request_payload a params None" and ?Q = "queued_value a params"
  from assms(1) have a: "a \<noteq> []" "no_html (ctext (JStr a))" "encodable (quote a)" "utf8_size (quote a) \<le> 40" "\<forall>c \<in> set a. 0 \<le> c"
    by (auto simp: action_name_def list_all_iff)
  obtain ga where ga: "utf8_encode (quote a) = Inr ga" using a(3) utf8_encode_iff by blast
  have galen: "plen ga \<le> 40" using utf8_encode_size [OF ga] a(4) by simp
  have d: "dumpable params" by (rule plain_dumpable [OF assms(3)])
  obtain gp where gp: "utf8_encode (ctext params) = Inr gp" using assms(4) utf8_encode_iff by blast
  have lits: "encodable (quote (u ''action''))" "encodable (quote (u ''params''))" "encodable (quote (u ''expires_at''))"
    "encodable (quote (u ''id''))" "encodable (quote (replicate 32 102))" "utf8_size (quote (u ''action'')) = 8"
    "utf8_size (quote (u ''params'')) = 8"
    "encodable (int_text (-9999999999999999999999999999999))"
    by code_simp+
  have size: "jsize ?P \<le> 8100"
    using assms(6) lits a(4) by (simp add: jsize_JObj request_payload_def) (simp add: jsize_def)
  have Penc: "encodable (ctext ?P)"
    using assms(4) lits a(3) by (simp add: request_payload_def ascii_char)
  have Pp: "plain ?P"
    using assms(3) a(5) by (simp add: request_payload_def) (simp add: u_def)
  obtain cl where cl: "utf8_encode (jtext (u '', '') (u '': '') ?P) = Inr cl"
    using utf8_encode_iff default_encodable [OF Penc] by blast
  have clen: "plen cl \<le> 16200" using default_size [of ?P] size utf8_encode_size [OF cl] by simp
  have cpos: "0 < plen cl" using utf8_length [OF cl] by (cases cl) (simp_all add: request_payload_def plen_def)
  have dP: "dumps_default ?P = Inr (jtext (u '', '') (u '': '') ?P)"
    using plain_dumpable [OF Pp] by (simp add: dumps_default_def dumps_def)
  have vP: "validate_document_bytes cl MAX_DOCUMENT_BYTES = Inr ?P"
    using document_bytes_ok [OF cl loads_default [OF Pp dP] Penc plain_dumpable [OF Pp] cpos] clen by simp
  have raws: "go_raw (JStr a) = Inr ga" "go_raw params = Inr gp"
    using go_raw_compact [OF a(2)] go_raw_compact [OF assms(5) d] ga gp by simp_all
  let ?q = "queued_bytes ga gp"
  have q: "utf8_encode (ctext ?Q) = Inr ?q" by (rule queued_text [OF ga gp])
  have Qp: "plain ?Q" by (rule queued_plain [OF assms(3) a(5)])
  have Qenc: "encodable (ctext ?Q)" by (rule utf8_encode_encodable [OF q])
  have dQ: "dumps_compact ?Q = Inr (ctext ?Q)"
    using plain_dumpable [OF Qp] by (simp add: dumps_compact_def dumps_def)
  have "plen gp = jsize params" using utf8_encode_size [OF gp] by (simp add: jsize_def)
  then have qlen: "plen ?q \<le> 8200" "0 < plen ?q"
    using assms(6) galen by (simp_all add: queued_bytes_def ascii_def plen_def)
  have vQ: "validate_document_bytes ?q MAX_DOCUMENT_BYTES = Inr ?Q"
    using document_bytes_ok [OF q loads_compact [OF Qp dQ] Qenc plain_dumpable [OF Qp] qlen(2)] qlen(1) by simp
  show ?thesis
    using assms(2) a(1) dP cl vP raws vQ clen qlen by (simp add: request_envelopes_def)
qed

abbreviation FT :: pystr where "FT \<equiv> u ''favorites_transfer''"

lemma small_envelopes:
  assumes "is_dict params" "plain params" "encodable (ctext params)" "no_html (ctext params)" "jsize params \<le> 8000"
  shows "case request_envelopes FT params None of
     Inl _ \<Rightarrow> False | Inr env \<Rightarrow> plen (client env) \<le> MAX_RPC_BYTES \<and> plen (queued_upper_bound env) \<le> MAX_RPC_BYTES"
proof -
  have "action_name FT" by code_simp
  from action_envelopes [OF this assms] show ?thesis .
qed

end
