(* ===== verification/PyTime.thy ===== *)
theory PyTime
  imports PyText
begin

text \<open>
  The timestamps the protocol compares: RFC 3339 texts read as \<open>datetime.fromisoformat\<close> reads them,
  as seconds of UTC since the first day of year 1, with the nanoseconds the code keeps beside them.
\<close>

definition leap_year :: "int \<Rightarrow> bool" where
  "leap_year y \<longleftrightarrow> y mod 4 = 0 \<and> (y mod 100 \<noteq> 0 \<or> y mod 400 = 0)"

definition month_days :: "int \<Rightarrow> int list" where
  "month_days y = [31, if leap_year y then 29 else 28, 31, 30, 31, 30, 31, 31, 30, 31, 30, 31]"

definition valid_date :: "int \<Rightarrow> int \<Rightarrow> int \<Rightarrow> bool" where
  "valid_date y m d \<longleftrightarrow> 1 \<le> y \<and> 1 \<le> m \<and> m \<le> 12 \<and> 1 \<le> d \<and> d \<le> month_days y ! nat (m - 1)"

definition day_number :: "int \<Rightarrow> int \<Rightarrow> int \<Rightarrow> int" where
  "day_number y m d =
     365 * (y - 1) + (y - 1) div 4 - (y - 1) div 100 + (y - 1) div 400
     + sum_list (take (nat (m - 1)) (month_days y)) + d - 1"

text \<open>The digits of a slice, as a number.\<close>

definition digits_at :: "pystr \<Rightarrow> nat \<Rightarrow> nat \<Rightarrow> int" where
  "digits_at s i n = foldl (\<lambda>a c. 10 * a + (c - 48)) 0 (take n (drop i s))"

definition zone_pat :: "pystr \<Rightarrow> bool" where
  "zone_pat z \<longleftrightarrow> z = u ''Z'' \<or> seq_pat [one_of ''+-'', is_digit, is_digit, one_of '':'', is_digit, is_digit] z"

text \<open>The text after the seconds: the digits of the fraction, and the zone.\<close>

definition fraction_of :: "pystr \<Rightarrow> pystr" where
  "fraction_of r = (if starts_with (u ''.'') r then takeWhile is_digit (tl r) else [])"

definition zone_of :: "pystr \<Rightarrow> pystr" where
  "zone_of r = (if starts_with (u ''.'') r then dropWhile is_digit (tl r) else r)"

definition timestamp_pat :: "pystr \<Rightarrow> bool" where
  "timestamp_pat s \<longleftrightarrow>
     seq_pat [is_digit, is_digit, is_digit, is_digit, one_of ''-'', is_digit, is_digit, one_of ''-'',
       is_digit, is_digit, one_of ''T'', is_digit, is_digit, one_of '':'', is_digit, is_digit,
       one_of '':'', is_digit, is_digit] (take 19 s)
     \<and> (starts_with (u ''.'') (drop 19 s) \<longrightarrow>
          1 \<le> plen (fraction_of (drop 19 s)) \<and> plen (fraction_of (drop 19 s)) \<le> 9)
     \<and> zone_pat (zone_of (drop 19 s))"

definition zone_offset :: "pystr \<Rightarrow> int" where
  "zone_offset z = (if z = u ''Z'' then 0
     else (if hd z = 45 then - 1 else 1) * (3600 * digits_at z 1 2 + 60 * digits_at z 4 2))"

text \<open>\<open>int(fraction.ljust(9, "0"))\<close>.\<close>

definition nanoseconds :: "pystr \<Rightarrow> int" where
  "nanoseconds f = digits_at (f @ replicate (9 - length f) 48) 0 9"

text \<open>The instant of a text the pattern accepts; a date, time or offset out of range raises.\<close>

definition instant :: "pystr \<Rightarrow> (int \<times> int) result" where
  "instant s =
     (let y = digits_at s 0 4; mo = digits_at s 5 2; d = digits_at s 8 2;
          h = digits_at s 11 2; mi = digits_at s 14 2; sec = digits_at s 17 2;
          z = zone_offset (zone_of (drop 19 s))
      in if valid_date y mo d \<and> h \<le> 23 \<and> mi \<le> 59 \<and> sec \<le> 59 \<and> \<bar>z\<bar> < 86400
         then Inr (86400 * day_number y mo d + 3600 * h + 60 * mi + sec - z,
                   nanoseconds (fraction_of (drop 19 s)))
         else Inl ValueError)"

lemma instant_raises: "raises_only (\<lambda>e. e = ValueError) (instant s)"
  by (simp add: instant_def Let_def)

end
