(* ===== verification/FavProtocol.thy ===== *)
theory FavProtocol
  imports FavDocument PyTime
begin

text \<open>
  \<open>src/cli/favorites_protocol.py\<close>, first part: the bounded reader of wire objects, the capability
  and binding advertisements, the recovery commitments and the validation of requests.

  The Unicode tables of the interpreter are the parameter \<open>tables\<close>: which characters have a
  category of class C, and which are white space.
\<close>

section \<open>Constants and primitive checks\<close>

abbreviation invalid_protocol :: exn where "invalid_protocol \<equiv> ProtocolError ''invalid_protocol''"

abbreviation MAX_RESPONSE_BYTES :: int where "MAX_RESPONSE_BYTES \<equiv> 2097152"
abbreviation MAX_METADATA_BYTES :: int where "MAX_METADATA_BYTES \<equiv> 131072"
abbreviation MAX_COUNT :: int where "MAX_COUNT \<equiv> 1000000"

definition OPS :: "string list" where
  "OPS = [''snapshot'', ''begin'', ''append'', ''preview'', ''commit'', ''status'', ''abort'',
     ''bindingcatalog'', ''bind'', ''provision'', ''prepare'', ''recovery'']"

definition PROVISION_MODES :: "string list" where
  "PROVISION_MODES = [''create'', ''import'', ''pair'', ''replace-current'']"

definition CAPABILITY_LIMITS :: "(string \<times> int) list" where
  "CAPABILITY_LIMITS =
    [(''max_document_bytes'', 1048576), (''max_chunk_bytes'', 8192), (''max_chunks'', 256),
     (''max_envelope_bytes'', 16384), (''max_snapshot_response_bytes'', 2097152),
     (''max_active_stages'', 1), (''idle_ttl_seconds'', 120), (''absolute_ttl_seconds'', 600),
     (''max_plan_bytes'', 65536), (''max_metadata_bytes'', 131072), (''max_json_depth'', 20),
     (''max_json_nodes'', 32768), (''max_channel_lists'', 256), (''max_entries_per_list'', 10000),
     (''max_media_favorites'', 1000), (''max_receipt_entries'', 32), (''max_receipt_ledger_bytes'', 65536),
     (''max_retained_admissions_per_adapter_instance'', 16), (''max_unstarted_drafts'', 1)]"

definition ERRORS :: "string list" where
  "ERRORS = [''invalid_request'', ''envelope_too_large'', ''runtime_changed'', ''busy'', ''expired'',
     ''operation_conflict'', ''transaction_not_found'', ''out_of_order'', ''chunk_conflict'',
     ''incomplete'', ''hash_mismatch'', ''revision_conflict'', ''binding_changed'', ''policy_denied'',
     ''unsupported_persistence'', ''codec_error'', ''not_ready'', ''reconciliation_required'',
     ''storage_unavailable'', ''limits_exceeded'']"

definition OUTCOMES :: "string list" where
  "OUTCOMES = [''verified'', ''not_applied'', ''partial'', ''unknown'']"

definition COMMON :: "string list" where
  "COMMON = [''version'', ''runtime'', ''op'']"

definition RECEIPT :: "string list" where
  "RECEIPT = [''operation_id'', ''scope'', ''new_revision'', ''document_sha256'', ''plan_digest'',
     ''counts'', ''outcome'', ''persistence'']"

definition p_require :: "bool \<Rightarrow> unit result" where
  "p_require c = check invalid_protocol c"

definition p_shape :: "json \<Rightarrow> string list \<Rightarrow> unit result" where
  "p_shape v ks = shape invalid_protocol v ks"

definition p_integer :: "json \<Rightarrow> int \<Rightarrow> int \<Rightarrow> unit result" where
  "p_integer v low high = integer invalid_protocol v low high"

definition p_pattern :: "json \<Rightarrow> (pystr \<Rightarrow> bool) \<Rightarrow> unit result" where
  "p_pattern v P = pattern invalid_protocol v P"

definition p_text :: "json \<Rightarrow> unit result" where
  "p_text v = seqR
     [p_require (is_str v \<and> str_of v \<noteq> [] \<and> plen (str_of v) \<le> 256 \<and> \<not> has_control (str_of v)),
      bindR (rethrow (\<lambda>e. e = UnicodeError) invalid_protocol (utf8_encode (str_of v)))
        (\<lambda>b. p_require (plen b \<le> 256))]"

definition p_scope :: "json \<Rightarrow> unit result" where
  "p_scope v = seqR
     [p_shape v [''profileBindingId'', ''sourceBindingId'', ''provider''],
      on v ''profileBindingId'' (\<lambda>x. p_pattern x uuid4_pat),
      on v ''sourceBindingId'' (\<lambda>x. p_pattern x uuid4_pat),
      on v ''provider'' (\<lambda>x. p_require (is_str x \<and> in_lits x PROVIDERS))]"

text \<open>\<open>_encoded(value)\<close>.\<close>

definition p_encoded :: "json \<Rightarrow> bytes result" where
  "p_encoded v = bindR (dumps_compact v) utf8_encode"

text \<open>\<open>if "k" in v: check(v["k"])\<close>.\<close>

definition opt :: "json \<Rightarrow> string \<Rightarrow> (json \<Rightarrow> unit result) \<Rightarrow> unit result" where
  "opt v k f = (if has v k then on v k f else Inr ())"

section \<open>Reading a wire object\<close>

text \<open>What arrives is bytes, or a value that was parsed before.\<close>

datatype wire = Raw bytes | Parsed json

text \<open>
  The traversal of a parsed value. \<open>pending\<close> is a stack, its top first: the code appends the
  children in order and pops the last.
\<close>

fun tree_size :: "json \<Rightarrow> nat" where
  "tree_size (JObj kv) = 1 + sum_list (map (\<lambda>p. 1 + tree_size (snd p)) kv)"
| "tree_size (JArr vs) = 1 + sum_list (map tree_size vs)"
| "tree_size v = 1"

fun children :: "json \<Rightarrow> json list" where
  "children (JObj kv) = concat (map (\<lambda>p. [JStr (fst p), snd p]) kv)"
| "children (JArr vs) = vs"
| "children v = []"

definition node_ok :: "int \<Rightarrow> json \<Rightarrow> bool" where
  "node_ok lim v = (case v of
     JObj kv \<Rightarrow> plen kv \<le> 128 \<and> list_all (\<lambda>p. plen (fst p) \<le> lim) kv
   | JArr vs \<Rightarrow> plen vs \<le> lim
   | JStr s \<Rightarrow> plen s \<le> lim
   | _ \<Rightarrow> True)"

lemma children_size: "sum_list (map tree_size (children v)) < tree_size v"
proof -
  have "sum_list (map tree_size (concat (map (\<lambda>p. [JStr (fst p), snd p]) kv))) =
      sum_list (map (\<lambda>p. 1 + tree_size (snd p)) kv)" for kv
    by (induction kv) auto
  then show ?thesis by (cases v) (simp_all del: map_concat)
qed

function walk :: "int \<Rightarrow> (json \<times> int) list \<Rightarrow> int \<Rightarrow> unit result" where
  "walk lim [] seen = Inr ()"
| "walk lim ((v, depth) # pending) seen =
     bindR (p_require (depth \<le> 24 \<and> seen + 1 \<le> lim)) (\<lambda>_.
     bindR (p_require (node_ok lim v)) (\<lambda>_.
       walk lim (map (\<lambda>x. (x, depth + 1)) (rev (children v)) @ pending) (seen + 1)))"
  by pat_completeness auto
termination
proof (relation "measure (\<lambda>(lim, pending, seen). sum_list (map (tree_size \<circ> fst) pending))")
  fix lim v depth pending seen
  show "((lim, map (\<lambda>x. (x, depth + 1)) (rev (children v)) @ pending, seen + 1),
      (lim, (v, depth) # pending, seen)) \<in> measure (\<lambda>(lim, pending, seen). sum_list (map (tree_size \<circ> fst) pending))"
    using children_size [of v] by (simp add: o_def rev_map [symmetric])
qed simp

declare walk.simps(2) [simp del]

definition wire_bytes :: "wire \<Rightarrow> int \<Rightarrow> bytes result" where
  "wire_bytes w lim = (case w of
     Raw b \<Rightarrow> Inr b
   | Parsed v \<Rightarrow> bindR (p_require (is_dict v)) (\<lambda>_. bindR (walk lim [(v, 0)] 0) (\<lambda>_. p_encoded v)))"

fun is_ProtocolError :: "exn \<Rightarrow> bool" where
  "is_ProtocolError (ProtocolError _) = True"
| "is_ProtocolError _ = False"

definition p_object :: "wire \<Rightarrow> int \<Rightarrow> (json \<times> bytes) result" where
  "p_object w lim =
     rethrow (\<lambda>e. json_errors e \<and> \<not> is_ProtocolError e) invalid_protocol
       (bindR (wire_bytes w lim) (\<lambda>raw.
        bindR (check (ProtocolError ''envelope_too_large'') (0 < plen raw \<and> plen raw \<le> lim)) (\<lambda>_.
        bindR (bindR (utf8_decode raw) loads) (\<lambda>v.
        bindR (p_require (is_dict v)) (\<lambda>_.
        bindR (p_encoded v) (\<lambda>_. Inr (v, raw)))))))"

section \<open>Capability\<close>

definition validate_capability :: "wire \<Rightarrow> json result" where
  "validate_capability w =
     bindR (p_object w MAX_METADATA_BYTES) (\<lambda>(v, _).
     bindR (seqR
       [p_shape v [''version'', ''persistence'', ''codecs'', ''limits'', ''admission'',
          ''receipt_retention_seconds'', ''receipt_retention_origin'', ''receipt_retention_policy''],
        on v ''version'' (\<lambda>x. p_integer x 1 1),
        on v ''persistence'' (\<lambda>x. on v ''receipt_retention_origin'' (\<lambda>y. on v ''receipt_retention_policy'' (\<lambda>z.
          p_require (py_eq x (JArr [lit ''persistent'']) \<and> is_lit y ''logical-reservation-plan''
            \<and> is_lit z ''up-to-count-and-byte-bounded'')))),
        on v ''receipt_retention_seconds'' (\<lambda>x. p_integer x 1 86400),
        on v ''codecs'' (\<lambda>c. bindR (p_require (is_list c \<and> plen (list_of c) = 1)) (\<lambda>_.
          let codec = hd (list_of c) in seqR
            [p_shape codec [''provider'', ''codecVersion'', ''locatorKinds'', ''targetScope'', ''coverage''],
             on codec ''codecVersion'' (\<lambda>x. p_integer x 1 1),
             on codec ''provider'' (\<lambda>x. on codec ''locatorKinds'' (\<lambda>y. on codec ''targetScope'' (\<lambda>z.
               on codec ''coverage'' (\<lambda>w.
                 p_require (is_lit x ''plex'' \<and> py_eq y (JArr [lit ''plex-media''])
                   \<and> is_lit z ''current-verified-source''
                   \<and> py_eq w (JArr [lit ''channelLists'', lit ''mediaFavorites''])))))) ])),
        on v ''limits'' (\<lambda>l. seqR
          [p_shape l (map fst CAPABILITY_LIMITS),
           forR (\<lambda>(name, ceiling). on l name (\<lambda>x. p_integer x 1 ceiling)) CAPABILITY_LIMITS,
           on l ''idle_ttl_seconds'' (\<lambda>a. on l ''absolute_ttl_seconds'' (\<lambda>b.
             p_require (int_of a \<le> int_of b)))]),
        on v ''admission'' (\<lambda>a. seqR
          [p_shape a [''op'', ''max_unconsumed_grants'', ''admission_ttl_ms'', ''max_budget_ms'', ''operation_id''],
           on a ''op'' (\<lambda>x. on a ''operation_id'' (\<lambda>y.
             p_require (is_lit x ''prepare'' \<and> is_lit y ''player-generated-uuidv4''))),
           on a ''max_unconsumed_grants'' (\<lambda>x. p_integer x 1 1),
           on a ''admission_ttl_ms'' (\<lambda>x. p_integer x 1 10000),
           on a ''max_budget_ms'' (\<lambda>x. p_integer x 1 300000)])])
     (\<lambda>_. Inr v))"

section \<open>Bindings\<close>

record unicode_tables =
  category_C :: "int \<Rightarrow> bool"
  white_space :: "int \<Rightarrow> bool"

definition binding_text :: "unicode_tables \<Rightarrow> json \<Rightarrow> bool \<Rightarrow> unit result" where
  "binding_text tables v target = seqR
     [p_text v,
      p_require (\<not> list_ex (\<lambda>c. category_C tables c \<or> target \<and> white_space tables c) (str_of v))]"

definition plex_scope :: "json \<Rightarrow> unit result" where
  "plex_scope v = seqR
     [p_scope v,
      on v ''provider'' (\<lambda>p. on v ''profileBindingId'' (\<lambda>x. on v ''sourceBindingId'' (\<lambda>y.
        p_require (is_lit p ''plex'' \<and> \<not> py_eq x y))))]"

definition PROVISION_TARGET :: "pystr \<Rightarrow> bool" where
  "PROVISION_TARGET = head_pat is_alnum (\<lambda>c. is_alnum c \<or> one_of ''._:-'' c) 127"

definition PROVISION_REVISION :: "pystr \<Rightarrow> bool" where
  "PROVISION_REVISION s \<longleftrightarrow> s = u ''0'' \<or> head_pat (\<lambda>c. is_digit c \<and> c \<noteq> 48) is_digit 15 s"

definition provision_revision :: "json \<Rightarrow> unit result" where
  "provision_revision v = seqR
     [p_pattern v PROVISION_REVISION, p_require (int (dec_val (str_of v)) \<le> 9007199254740991)]"

text \<open>The state of the loop: the identities, the profiles and the sources seen so far.\<close>

type_synonym seen = "scope_key list \<times> pystr list \<times> pystr list"

definition scope_identity :: "json \<Rightarrow> scope_key" where
  "scope_identity s =
     (str_of (fld s ''provider''), str_of (fld s ''profileBindingId''), str_of (fld s ''sourceBindingId''))"

definition catalog_binding :: "unicode_tables \<Rightarrow> json \<Rightarrow> seen \<Rightarrow> json \<Rightarrow> seen result" where
  "catalog_binding tables target st binding =
     (case st of (identities, profiles, sources) \<Rightarrow>
     bindR (seqR
       [p_shape binding [''scope'', ''target_id'', ''codecVersion''],
        on binding ''scope'' plex_scope,
        on binding ''target_id'' (\<lambda>x. binding_text tables x True),
        on binding ''codecVersion'' (\<lambda>x. p_integer x 1 1),
        p_require (py_eq (fld binding ''target_id'') (fld target ''target_id'')
          \<and> py_eq (fld (fld binding ''scope'') ''provider'') (fld target ''provider'')
          \<and> py_eq (fld binding ''codecVersion'') (fld target ''codecVersion'')),
        p_require (scope_identity (fld binding ''scope'') \<notin> set identities),
        p_require (str_of (fld (fld binding ''scope'') ''sourceBindingId'') \<notin> set sources)])
     (\<lambda>_. Inr (scope_identity (fld binding ''scope'') # identities,
               str_of (fld (fld binding ''scope'') ''profileBindingId'') # profiles,
               str_of (fld (fld binding ''scope'') ''sourceBindingId'') # sources)))"

definition binding_catalog :: "unicode_tables \<Rightarrow> json \<Rightarrow> unit result" where
  "binding_catalog tables data = seqR
     [p_shape data (COMMON @ [''binding_revision'', ''targets'', ''bindings'']),
      on data ''binding_revision'' p_text,
      on data ''targets'' (\<lambda>ts. bindR (p_require (is_list ts \<and> plen (list_of ts) = 1)) (\<lambda>_.
        let target = hd (list_of ts) in seqR
          [p_shape target [''target_id'', ''display'', ''provider'', ''codecVersion'', ''serverId''],
           on target ''target_id'' (\<lambda>x. binding_text tables x True),
           on target ''display'' (\<lambda>x. binding_text tables x False),
           on target ''provider'' (\<lambda>x. p_require (is_lit x ''plex'')),
           on target ''codecVersion'' (\<lambda>x. p_integer x 1 1),
           on target ''serverId'' (\<lambda>x. p_pattern x server_id_pat),
           on data ''bindings'' (\<lambda>bs. bindR (p_require (is_list bs \<and> plen (list_of bs) \<le> 256)) (\<lambda>_.
             bindR (foldR (catalog_binding tables target) ([], [], []) (list_of bs)) (\<lambda>(_, profiles, sources).
               p_require (set profiles \<inter> set sources = {}))))]))]"

section \<open>Recovery\<close>

definition RECOVERY_REASON :: string where
  "RECOVERY_REASON = ''accept-unknown-no-replay''"

definition RECOVERY_ERRORS :: "string list" where
  "RECOVERY_ERRORS = [''invalid_request'', ''envelope_too_large'', ''runtime_changed'', ''expired'', ''busy'',
     ''unsupported_persistence'', ''revision_conflict'', ''policy_denied'', ''storage_unavailable'',
     ''limits_exceeded'']"

definition RECOVERY_PROVIDER :: "pystr \<Rightarrow> bool" where
  "RECOVERY_PROVIDER = head_pat (\<lambda>c. is_lower c \<or> is_digit c)
     (\<lambda>c. is_lower c \<or> is_digit c \<or> one_of ''_./-'' c) 63"

definition EMPTY_LEDGER_SHA256 :: pystr where
  "EMPTY_LEDGER_SHA256 = sha256_hex (ascii ''null'')"

definition validate_recovery_capability :: "wire \<Rightarrow> json result" where
  "validate_recovery_capability w =
     bindR (p_object w MAX_METADATA_BYTES) (\<lambda>(v, _).
     bindR (seqR [p_shape v [''version''], on v ''version'' (\<lambda>x. p_integer x 1 1)]) (\<lambda>_. Inr v))"

definition recovery_scope :: "json \<Rightarrow> unit result" where
  "recovery_scope scope = seqR
     [p_shape scope [''provider'', ''profileBindingId'', ''sourceBindingId''],
      on scope ''provider'' (\<lambda>x. p_pattern x RECOVERY_PROVIDER),
      on scope ''profileBindingId'' (\<lambda>x. p_pattern x uuid4_pat),
      on scope ''sourceBindingId'' (\<lambda>x. p_pattern x uuid4_pat)]"

definition recovery_values :: "json \<Rightarrow> json \<Rightarrow> json \<Rightarrow> json \<Rightarrow> json \<Rightarrow> json \<Rightarrow> json list" where
  "recovery_values runtime operation scope entry ledger backend =
     [runtime, operation, JArr [fld scope ''profileBindingId'', fld scope ''sourceBindingId'', fld scope ''provider''],
      entry, ledger, backend, lit RECOVERY_REASON]"

definition digest_of :: "json \<Rightarrow> pystr result" where
  "digest_of v = bindR (p_encoded v) (\<lambda>b. Inr (sha256_hex b))"

definition recovery_digests ::
  "json \<Rightarrow> json \<Rightarrow> json \<Rightarrow> json \<Rightarrow> json \<Rightarrow> json \<Rightarrow> json option \<Rightarrow> (pystr \<times> pystr option) result" where
  "recovery_digests runtime operation scope entry ledger backend next =
     bindR (seqR
       [p_pattern runtime runtime_pat, p_pattern operation uuid4_pat, recovery_scope scope,
        forR (\<lambda>v. p_pattern v digest_pat) [entry, ledger, backend],
        p_require (ledger \<noteq> JStr EMPTY_LEDGER_SHA256)]) (\<lambda>_.
     let vs = recovery_values runtime operation scope entry ledger backend in
     bindR (digest_of (JArr (lit ''ottplay-favorites-recovery-ack-v1'' # vs))) (\<lambda>ack.
       case next of None \<Rightarrow> Inr (ack, None)
       | Some x \<Rightarrow>
         bindR (seqR [p_pattern x digest_pat, p_require (x \<noteq> JStr EMPTY_LEDGER_SHA256 \<and> x \<noteq> ledger)]) (\<lambda>_.
         bindR (digest_of (JArr (lit ''ottplay-favorites-recovery-plan-v1'' # vs @ [JStr ack, x]))) (\<lambda>p.
           Inr (ack, Some p)))))"

definition recovery_record :: "json \<Rightarrow> unit result" where
  "recovery_record v = seqR
     [p_shape v [''operation_id'', ''scope'', ''original_state'', ''original_outcome'',
        ''original_entry_sha256'', ''acknowledgement''],
      on v ''operation_id'' (\<lambda>x. p_pattern x uuid4_pat),
      on v ''scope'' recovery_scope,
      on v ''original_entry_sha256'' (\<lambda>x. p_pattern x digest_pat),
      on v ''original_state'' (\<lambda>x. p_require (is_str x \<and> in_lits x [''pending'', ''partial'', ''unknown''])),
      on v ''original_outcome'' (\<lambda>x. p_require
        (is_lit x (if is_lit (fld v ''original_state'') ''partial'' then ''partial'' else ''unknown''))),
      on v ''acknowledgement'' (\<lambda>audit. if audit = JNull then Inr () else seqR
        [p_shape audit [''acknowledgement_id'', ''runtime'', ''ledger_revision_before'', ''backend_proof'', ''reason''],
         on audit ''reason'' (\<lambda>x. p_require (is_lit x RECOVERY_REASON)),
         bindR (recovery_digests (fld audit ''runtime'') (fld v ''operation_id'') (fld v ''scope'')
                  (fld v ''original_entry_sha256'') (fld audit ''ledger_revision_before'')
                  (fld audit ''backend_proof'') None)
           (\<lambda>(ack, _). on audit ''acknowledgement_id'' (\<lambda>x. p_require (x = JStr ack)))])]"

definition recovery_fields :: "json \<Rightarrow> string list" where
  "recovery_fields mode =
     [''op'', ''runtime'', ''mode''] @ (if is_lit mode ''list'' then [] else [''operation_id''])
     @ (if is_lit mode ''acknowledge''
        then [''scope'', ''original_entry_sha256'', ''expected_ledger_revision'', ''backend_proof'',
              ''plan_sha256'', ''acknowledgement_id'', ''accept_unknown'', ''after_ledger_sha256'', ''reason'']
        else [])"

definition recovery_params :: "json \<Rightarrow> string list result" where
  "recovery_params params =
     onget params ''mode'' (\<lambda>mode.
     bindR (seqR
       [p_require (is_str mode \<and> in_lits mode [''list'', ''inspect'', ''acknowledge'']),
        if is_lit mode ''list'' then Inr () else onget params ''operation_id'' (\<lambda>x. p_pattern x uuid4_pat),
        p_shape params (recovery_fields mode),
        if is_lit mode ''acknowledge'' then seqR
          [on params ''accept_unknown'' (\<lambda>x. on params ''reason'' (\<lambda>y.
             p_require (x = JBool True \<and> is_lit y RECOVERY_REASON))),
           on params ''after_ledger_sha256'' (\<lambda>x. p_pattern x digest_pat),
           bindR (recovery_digests (fld params ''runtime'') (fld params ''operation_id'') (fld params ''scope'')
               (fld params ''original_entry_sha256'') (fld params ''expected_ledger_revision'')
               (fld params ''backend_proof'') (Some (fld params ''after_ledger_sha256''))) (\<lambda>(ack, p).
             on params ''acknowledgement_id'' (\<lambda>x. on params ''plan_sha256'' (\<lambda>y.
               p_require (x = JStr ack \<and> Some y = map_option JStr p))))]
        else Inr ()])
     (\<lambda>_. Inr (recovery_fields mode)))"

definition recovery_audit :: "json \<Rightarrow> json" where
  "recovery_audit params = JObj
     [(u ''acknowledgement_id'', fld params ''acknowledgement_id''), (u ''runtime'', fld params ''runtime''),
      (u ''ledger_revision_before'', fld params ''expected_ledger_revision''),
      (u ''backend_proof'', fld params ''backend_proof''), (u ''reason'', lit RECOVERY_REASON)]"

text \<open>The three answers: an acknowledgement, a list of records, the inspection of one record.\<close>

definition recovery_acknowledged :: "json \<Rightarrow> json \<Rightarrow> unit result" where
  "recovery_acknowledged params data = seqR
     [p_shape data (COMMON @ [''mode'', ''ledger_revision'', ''operation_id'', ''acknowledgement_id'',
        ''plan_sha256'', ''acknowledged'', ''persistence'', ''record'']),
      p_require (fld data ''acknowledged'' = JBool True \<and> is_lit (fld data ''persistence'') ''persistent''
        \<and> py_eq (fld data ''acknowledgement_id'') (fld params ''acknowledgement_id'')
        \<and> py_eq (fld data ''plan_sha256'') (fld params ''plan_sha256'')
        \<and> py_eq (fld data ''ledger_revision'') (fld params ''after_ledger_sha256'')),
      on data ''record'' recovery_record,
      on data ''record'' (\<lambda>r. p_require
        (py_eq (fld r ''operation_id'') (fld params ''operation_id'')
         \<and> py_eq (fld r ''scope'') (fld params ''scope'')
         \<and> py_eq (fld r ''original_entry_sha256'') (fld params ''original_entry_sha256'')
         \<and> py_eq (fld r ''acknowledgement'') (recovery_audit params)))]"

definition recovery_base :: "string list" where
  "recovery_base = COMMON @ [''mode'', ''ledger_revision'', ''ledger_format'', ''backend_proof'']"

definition recovery_listed :: "json \<Rightarrow> json list result" where
  "recovery_listed data =
     bindR (p_shape data (recovery_base @ [''records''])) (\<lambda>_.
     on data ''records'' (\<lambda>rows.
     bindR (seqR
       [p_require (is_list rows \<and> plen (list_of rows) \<le> 32),
        forR recovery_record (list_of rows),
        let ids = map (\<lambda>r. str_of (fld r ''operation_id'')) (list_of rows)
        in p_require (ids = sort (remdups ids))])
     (\<lambda>_. Inr (list_of rows))))"

definition recovery_inspected :: "json \<Rightarrow> json \<Rightarrow> json list result" where
  "recovery_inspected params data =
     bindR (seqR
       [p_shape data (recovery_base @ [''operation_id'', ''record'', ''acknowledge_allowed'', ''plan_sha256'',
          ''acknowledgement_id'', ''after_ledger_sha256'']),
        on data ''acknowledge_allowed'' (\<lambda>x. p_require (is_bool x)),
        on data ''record'' (\<lambda>r. if r = JNull then Inr ()
          else seqR [recovery_record r,
                     p_require (py_eq (fld r ''operation_id'') (fld params ''operation_id''))]),
        if fld data ''acknowledge_allowed'' = JBool True then seqR
          [p_require (py_eq (fld data ''ledger_format'') (JInt 2) \<and> fld data ''backend_proof'' \<noteq> JNull
             \<and> fld data ''record'' \<noteq> JNull \<and> fld (fld data ''record'') ''acknowledgement'' = JNull),
           on data ''after_ledger_sha256'' (\<lambda>x. p_pattern x digest_pat),
           bindR (recovery_digests (fld params ''runtime'') (fld params ''operation_id'')
               (fld (fld data ''record'') ''scope'') (fld (fld data ''record'') ''original_entry_sha256'')
               (fld data ''ledger_revision'') (fld data ''backend_proof'')
               (Some (fld data ''after_ledger_sha256''))) (\<lambda>(ack, p).
             p_require (fld data ''acknowledgement_id'' = JStr ack
               \<and> Some (fld data ''plan_sha256'') = map_option JStr p))]
        else p_require (list_all (\<lambda>k. fld data k = JNull)
               [''acknowledgement_id'', ''after_ledger_sha256'', ''plan_sha256''])])
     (\<lambda>_. Inr (if fld data ''record'' = JNull then [] else [fld data ''record'']))"

definition recovery_data :: "json \<Rightarrow> json \<Rightarrow> unit result" where
  "recovery_data params data =
     on params ''mode'' (\<lambda>mode.
     bindR (onget data ''mode'' (\<lambda>m. p_require (py_eq m mode))) (\<lambda>_.
     bindR (onget data ''ledger_revision'' (\<lambda>x. p_pattern x digest_pat)) (\<lambda>_.
     if is_lit mode ''acknowledge'' then recovery_acknowledged params data
     else
       bindR (onget data ''ledger_format'' (\<lambda>x. p_integer x 1 2)) (\<lambda>_.
       bindR (onget data ''backend_proof'' (\<lambda>x. if x = JNull then Inr () else p_pattern x digest_pat)) (\<lambda>_.
       bindR (if is_lit mode ''list'' then recovery_listed data else recovery_inspected params data) (\<lambda>rows.
         seqR
           [if py_eq (fld data ''ledger_format'') (JInt 1)
            then p_require (list_all (\<lambda>r. fld r ''acknowledgement'' = JNull) rows) else Inr (),
            if fld data ''ledger_revision'' = JStr EMPTY_LEDGER_SHA256
            then p_require (py_eq (fld data ''ledger_format'') (JInt 2) \<and> rows = []) else Inr ()]))))))"

section \<open>Requests\<close>

definition p_chunk :: "json \<Rightarrow> bytes result" where
  "p_chunk params =
     on params ''data_base64'' (\<lambda>encoded.
     bindR (p_require (is_str encoded \<and> 0 < plen (str_of encoded)
              \<and> plen (str_of encoded) \<le> 4 * ((MAX_CHUNK_BYTES + 2) div 3))) (\<lambda>_.
       rethrow (\<lambda>e. is_ValueError e \<or> is_TransferError e) invalid_protocol
         (bindR (b64decode (str_of encoded)) (\<lambda>raw.
            on params ''chunk_sha256'' (\<lambda>digest.
              decode_bytes encoded (JInt (plen raw)) digest MAX_CHUNK_BYTES)))))"

definition request_fields :: "json \<Rightarrow> json \<Rightarrow> string list result" where
  "request_fields params op =
     (let base = [''op'', ''runtime''] in
      if is_lit op ''recovery'' then recovery_params params
      else if is_lit op ''bindingcatalog'' then Inr base
      else if is_lit op ''bind'' then
        Inr (base @ [''scope'', ''target_id'', ''expected_binding_revision'', ''codecVersion''])
      else if is_lit op ''provision'' then
        onget params ''mode'' (\<lambda>mode.
        bindR (p_require (is_str mode \<and> in_lits mode PROVISION_MODES)) (\<lambda>_.
          Inr (base @ [''mode'', ''target_id'', ''expected_binding_revision'', ''codecVersion'']
            @ (if is_lit mode ''create'' then [] else [''scope''])
            @ (if is_lit mode ''replace-current'' then [''prior_scope''] else []))))
      else if is_lit op ''snapshot'' then Inr (base @ [''scope''])
      else if is_lit op ''prepare'' then
        Inr (base @ [''scope'', ''expected_revision'', ''binding_revision'', ''document_sha256'', ''size_bytes'', ''budget_ms''])
      else if is_lit op ''begin'' then
        Inr (base @ [''operation_id'', ''scope'', ''expected_revision'', ''binding_revision'',
               ''document_sha256'', ''size_bytes'', ''chunk_count'', ''persistence''])
      else if is_lit op ''append'' then
        Inr (base @ [''transaction_id'', ''seq'', ''offset'', ''chunk_sha256'', ''data_base64''])
      else if in_lits op [''preview'', ''abort''] then Inr (base @ [''transaction_id''])
      else if is_lit op ''commit'' then
        Inr (base @ [''transaction_id'', ''operation_id'', ''expected_revision'', ''plan_digest''])
      else Inr (base @ [''operation_id'']))"

definition request_details :: "unicode_tables \<Rightarrow> json \<Rightarrow> json \<Rightarrow> unit result" where
  "request_details tables params op =
     (if in_lits op [''bind'', ''provision''] then seqR
        [opt params ''scope'' plex_scope,
         opt params ''prior_scope'' plex_scope,
         if has params ''prior_scope''
         then on params ''scope'' (\<lambda>s. on params ''prior_scope'' (\<lambda>p. p_require (distinct
                [str_of (fld s ''profileBindingId''), str_of (fld s ''sourceBindingId''),
                 str_of (fld p ''profileBindingId''), str_of (fld p ''sourceBindingId'')])))
         else Inr (),
         if is_lit op ''provision'' then seqR
           [on params ''target_id'' (\<lambda>x. p_pattern x PROVISION_TARGET),
            on params ''expected_binding_revision'' provision_revision]
         else on params ''target_id'' (\<lambda>x. binding_text tables x True),
         on params ''codecVersion'' (\<lambda>x. p_integer x 1 1)]
      else if is_lit op ''prepare'' then seqR
        [on params ''scope'' plex_scope,
         on params ''size_bytes'' (\<lambda>x. p_integer x 1 MAX_DOCUMENT_BYTES),
         on params ''budget_ms'' (\<lambda>x. p_integer x 1 300000)]
      else if is_lit op ''begin'' then seqR
        [on params ''persistence'' (\<lambda>x. p_require (is_lit x ''persistent'')),
         on params ''size_bytes'' (\<lambda>x. p_integer x 1 MAX_DOCUMENT_BYTES),
         on params ''chunk_count'' (\<lambda>x. p_integer x 1 MAX_CHUNKS),
         on params ''size_bytes'' (\<lambda>s. on params ''chunk_count'' (\<lambda>n.
           p_require (int_of n \<le> int_of s \<and> int_of s \<le> int_of n * MAX_CHUNK_BYTES)))]
      else if is_lit op ''append'' then seqR
        [on params ''seq'' (\<lambda>x. p_integer x 0 (MAX_CHUNKS - 1)),
         on params ''offset'' (\<lambda>x. p_integer x 0 MAX_DOCUMENT_BYTES),
         bindR (p_chunk params) (\<lambda>raw.
           on params ''offset'' (\<lambda>o'. p_require (int_of o' + plen raw \<le> MAX_DOCUMENT_BYTES)))]
      else Inr ())"

definition check_request :: "unicode_tables \<Rightarrow> json \<Rightarrow> unit result" where
  "check_request tables params =
     onget params ''op'' (\<lambda>op.
     bindR (p_require (is_str op \<and> in_lits op OPS)) (\<lambda>_.
     bindR (onget params ''runtime'' (\<lambda>x. p_pattern x runtime_pat)) (\<lambda>_.
     bindR (request_fields params op) (\<lambda>fields. seqR
       [p_shape params fields,
        forR (\<lambda>k. opt params k (\<lambda>x. p_pattern x uuid4_pat)) [''operation_id'', ''transaction_id''],
        if \<not> is_lit op ''recovery'' then opt params ''scope'' p_scope else Inr (),
        forR (\<lambda>k. opt params k p_text) [''expected_revision'', ''binding_revision'', ''expected_binding_revision''],
        forR (\<lambda>k. opt params k (\<lambda>x. p_pattern x digest_pat)) [''document_sha256'', ''chunk_sha256'', ''plan_digest''],
        request_details tables params op]))))"

definition validate_request :: "unicode_tables \<Rightarrow> wire \<Rightarrow> pystr option \<Rightarrow> json result" where
  "validate_request tables w key =
     bindR (p_object w MAX_RPC_BYTES) (\<lambda>(params, _).
     bindR (check_request tables params) (\<lambda>_.
     bindR (rethrow is_TransferError invalid_protocol
        (bindR (request_envelopes (u ''favorites_transfer'') params key) (\<lambda>env.
           check (ProtocolError ''envelope_too_large'')
             (max (plen (client env)) (plen (queued_upper_bound env)) \<le> MAX_RPC_BYTES)))) (\<lambda>_.
       Inr params)))"

end
