(* ===== verification/FavProtocolResult.thy ===== *)
theory FavProtocolResult
  imports FavProtocol
begin

text \<open>
  \<open>src/cli/favorites_protocol.py\<close>, second part: the validation of responses, and the retained
  begin and preview evidence a commit receipt is checked against. The recursion of the code
  (validating a response binds it to a context, whose parts are validated as responses without a
  context) is two layers here: \<open>check_data\<close> never looks at a context.
\<close>

section \<open>Counts, diagnostics, stores\<close>

definition p_counts :: "json \<Rightarrow> unit result" where
  "p_counts v = seqR
     [p_shape v [''channelLists'', ''channelMemberships'', ''mediaFavorites'', ''unresolved''],
      forR (\<lambda>p. p_integer (snd p) 0 MAX_COUNT) (items_of v),
      on v ''unresolved'' (\<lambda>x. on v ''channelMemberships'' (\<lambda>y. on v ''mediaFavorites'' (\<lambda>z.
        p_require (int_of x \<le> int_of y + int_of z))))]"

definition diagnostic :: "json \<Rightarrow> unit result" where
  "diagnostic row =
     bindR (p_require (is_dict row)) (\<lambda>_. seqR
       [onget row ''collection'' (\<lambda>c. p_require (in_lits c [''channelLists'', ''mediaFavorites''])),
        p_shape row ([''collection'', ''entry_index'', ''reason'']
          @ (if is_lit (fld row ''collection'') ''channelLists'' then [''list_index''] else [])),
        on row ''entry_index'' (\<lambda>x. p_integer x 0 MAX_COUNT),
        opt row ''list_index'' (\<lambda>x. p_integer x 0 MAX_COUNT),
        on row ''reason'' (\<lambda>r. p_require
          (in_lits r [''missing'', ''ambiguous'', ''legacy-unportable'', ''codec-unavailable'']))])"

definition diagnostics :: "json \<Rightarrow> json \<Rightarrow> unit result" where
  "diagnostics rows cs =
     bindR (p_require (is_list rows)) (\<lambda>_.
     on cs ''unresolved'' (\<lambda>n.
     bindR (p_require (plen (list_of rows) \<le> min 128 (int_of n))) (\<lambda>_.
       forR diagnostic (list_of rows))))"

text \<open>The loop's state: the ids and the outcomes so far.\<close>

definition store_row :: "bool \<Rightarrow> pystr list \<times> json list \<Rightarrow> json \<Rightarrow> (pystr list \<times> json list) result" where
  "store_row preview st row =
     (case st of (ids, outcomes) \<Rightarrow>
     bindR (seqR
       [p_shape row (if preview then [''id'', ''expected_revision''] else [''id'', ''outcome'']),
        on row ''id'' p_text,
        on row ''id'' (\<lambda>x. p_require (str_of x \<notin> set ids)),
        if preview then on row ''expected_revision'' p_text
        else on row ''outcome'' (\<lambda>x. p_require (is_str x \<and> in_lits x OUTCOMES))])
     (\<lambda>_. Inr (ids @ [str_of (fld row ''id'')],
               if preview then outcomes else outcomes @ [fld row ''outcome''])))"

definition outcome_agrees :: "json \<Rightarrow> json list \<Rightarrow> bool" where
  "outcome_agrees outcome outcomes \<longleftrightarrow>
     (if is_lit outcome ''verified'' then outcomes \<noteq> [] \<and> list_all (\<lambda>x. is_lit x ''verified'') outcomes
      else if is_lit outcome ''not_applied'' then list_all (\<lambda>x. is_lit x ''not_applied'') outcomes
      else if is_lit outcome ''partial'' then
        \<not> list_ex (\<lambda>x. is_lit x ''unknown'') outcomes
        \<and> (list_ex (\<lambda>x. is_lit x ''partial'') outcomes
           \<or> list_ex (\<lambda>x. is_lit x ''verified'') outcomes \<and> list_ex (\<lambda>x. is_lit x ''not_applied'') outcomes)
      else True)"

definition stores :: "json \<Rightarrow> bool \<Rightarrow> json \<Rightarrow> pystr list result" where
  "stores v preview outcome =
     bindR (p_require (is_list v \<and> (if preview then 1 else 0) \<le> plen (list_of v) \<and> plen (list_of v) \<le> 64)) (\<lambda>_.
     bindR (foldR (store_row preview) ([], []) (list_of v)) (\<lambda>(ids, outcomes).
     bindR (p_require (outcome_agrees outcome outcomes)) (\<lambda>_. Inr ids)))"

definition p_time :: "json \<Rightarrow> (int \<times> int) result" where
  "p_time v = bindR (p_pattern v timestamp_pat) (\<lambda>_.
     rethrow is_ValueError invalid_protocol (instant (str_of v)))"

definition progress :: "json \<Rightarrow> int \<Rightarrow> int \<Rightarrow> bool \<Rightarrow> unit result" where
  "progress data max_seq max_bytes ready = seqR
     [on data ''next_seq'' (\<lambda>x. p_integer x (if ready then 1 else 0) max_seq),
      on data ''received_bytes'' (\<lambda>x. p_integer x (if ready then 1 else 0) max_bytes),
      on data ''next_seq'' (\<lambda>n. on data ''received_bytes'' (\<lambda>r.
        p_require (int_of n \<le> int_of r \<and> int_of r \<le> int_of n * MAX_CHUNK_BYTES))),
      on data ''idle_expires_at'' (\<lambda>a. bindR (p_time a) (\<lambda>s. on data ''absolute_expires_at'' (\<lambda>b.
        bindR (p_time b) (\<lambda>t. p_require (s \<le> t)))))]"

definition receipt_ok :: "json \<Rightarrow> unit result" where
  "receipt_ok v = seqR
     [p_shape v RECEIPT,
      on v ''operation_id'' (\<lambda>x. p_pattern x uuid4_pat),
      on v ''scope'' p_scope,
      on v ''new_revision'' p_text,
      on v ''document_sha256'' (\<lambda>x. p_pattern x digest_pat),
      on v ''plan_digest'' (\<lambda>x. p_pattern x digest_pat),
      on v ''counts'' p_counts,
      on v ''outcome'' (\<lambda>x. on v ''persistence'' (\<lambda>y.
        p_require (is_lit x ''verified'' \<and> is_lit y ''persistent'')))]"

section \<open>Data of a response, without its context\<close>

record evidence =
  receipt :: "json option"
  raw_document :: "bytes option"
  binds :: bool

abbreviation plain_evidence :: evidence where
  "plain_evidence \<equiv> \<lparr>receipt = None, raw_document = None, binds = False\<rparr>"

type_synonym scope_validator = "(json \<Rightarrow> json result) option"

text \<open>\<open>type(v) is type(w)\<close>.\<close>

fun same_type :: "json \<Rightarrow> json \<Rightarrow> bool" where
  "same_type JNull w = (w = JNull)"
| "same_type (JBool _) w = is_bool w"
| "same_type (JInt _) w = is_int w"
| "same_type (JFloat _) w = (case w of JFloat _ \<Rightarrow> True | _ \<Rightarrow> False)"
| "same_type (JStr _) w = is_str w"
| "same_type (JArr _) w = is_list w"
| "same_type (JObj _) w = is_dict w"

definition error_data :: "json \<Rightarrow> json \<Rightarrow> pystr \<Rightarrow> unit result" where
  "error_data params data status = seqR
     [p_shape data (COMMON @ [''error'']),
      on data ''error'' (\<lambda>e. on params ''op'' (\<lambda>op.
        p_require ((status = u ''rejected'' \<or> status = u ''unsupported'') \<and> is_str e
          \<and> (in_lits e ERRORS \<or> is_lit op ''provision'' \<and> is_lit e ''outcome_unknown'')))),
      on params ''op'' (\<lambda>op. if is_lit op ''recovery''
        then on data ''error'' (\<lambda>e. p_require (in_lits e RECOVERY_ERRORS)) else Inr ())]"

text \<open>The keys of a validated prepare request, and three more: \<open>set(params) | {...}\<close>.\<close>

definition prepare_data :: "json \<Rightarrow> json \<Rightarrow> unit result" where
  "prepare_data params data = seqR
     [p_shape data (COMMON @ [''scope'', ''expected_revision'', ''binding_revision'', ''document_sha256'',
        ''size_bytes'', ''budget_ms'', ''operation_id'', ''admission_ttl_ms'']),
      p_require (list_all (\<lambda>(k, v). case map_of (items_of data) k of None \<Rightarrow> False
        | Some x \<Rightarrow> same_type x v \<and> py_eq x v) (items_of params)),
      on data ''operation_id'' (\<lambda>x. p_pattern x uuid4_pat),
      on data ''admission_ttl_ms'' (\<lambda>x. on params ''budget_ms'' (\<lambda>b.
        p_integer x 1 (min 10000 (int_of b))))]"

definition bind_data :: "unicode_tables \<Rightarrow> json \<Rightarrow> json \<Rightarrow> unit result" where
  "bind_data tables params data = seqR
     [p_shape data (COMMON @ [''binding_revision'', ''scope'', ''target_id'', ''paired'']),
      on data ''binding_revision'' p_text,
      on data ''scope'' plex_scope,
      on data ''target_id'' (\<lambda>x. binding_text tables x True),
      p_require (fld data ''paired'' = JBool True \<and> py_eq (fld data ''scope'') (fld params ''scope'')
        \<and> py_eq (fld data ''target_id'') (fld params ''target_id'')
        \<and> py_eq (fld data ''binding_revision'') (fld params ''expected_binding_revision''))]"

definition provision_data :: "json \<Rightarrow> json \<Rightarrow> unit result" where
  "provision_data params data = seqR
     [p_shape data (COMMON @ [''mode'', ''paired'', ''changed'', ''binding_revision'', ''target_id'',
        ''scope'', ''persistence'', ''outcome'']),
      on data ''binding_revision'' provision_revision,
      on data ''target_id'' (\<lambda>x. p_pattern x PROVISION_TARGET),
      on data ''scope'' plex_scope,
      p_require (py_eq (fld data ''mode'') (fld params ''mode'')
        \<and> py_eq (fld data ''target_id'') (fld params ''target_id'')
        \<and> fld data ''paired'' = JBool True \<and> is_bool (fld data ''changed'')
        \<and> is_lit (fld data ''persistence'') ''persistent'' \<and> is_lit (fld data ''outcome'') ''verified''
        \<and> fld data ''changed'' = JBool (\<not> py_eq (fld data ''binding_revision'') (fld params ''expected_binding_revision''))),
      if \<not> is_lit (fld params ''mode'') ''create''
      then p_require (py_eq (fld data ''scope'') (fld params ''scope'')) else Inr ()]"

definition snapshot_data :: "json \<Rightarrow> json \<Rightarrow> scope_validator \<Rightarrow> bytes result" where
  "snapshot_data params data scope_validator =
     bindR (seqR
       [p_shape data (COMMON @ [''scope'', ''revision'', ''binding_revision'', ''document_sha256'',
          ''size_bytes'', ''document_base64'']),
        p_require (py_eq (fld data ''scope'') (fld params ''scope'')),
        on data ''revision'' p_text,
        on data ''binding_revision'' p_text]) (\<lambda>_.
     rethrow (\<lambda>e. is_TransferError e \<or> (case e of DocumentError _ \<Rightarrow> True | _ \<Rightarrow> False)) invalid_protocol
       (bindR (decode_document (fld data ''document_base64'') (fld data ''size_bytes'')
                 (fld data ''document_sha256'') MAX_DOCUMENT_BYTES) (\<lambda>raw.
        bindR (validate_document_bytes raw MAX_DOCUMENT_BYTES) (\<lambda>document.
        bindR (p_require (is_dict document \<and> py_eq (fld document ''scope'') (fld params ''scope''))) (\<lambda>_.
        case scope_validator of None \<Rightarrow> Inl (ProtocolError ''unresolved_variant'')
        | Some validator \<Rightarrow>
          bindR (rethrow (\<lambda>_. True) invalid_protocol (bindR (loads_bytes raw) validator)) (\<lambda>validated.
          bindR (p_require (is_dict validated \<and> py_eq validated document)) (\<lambda>_.
          bindR (p_require (py_eq (fld document ''scope'') (fld params ''scope''))) (\<lambda>_.
            Inr raw))))))))"

definition begin_data :: "json \<Rightarrow> json \<Rightarrow> unit result" where
  "begin_data params data = seqR
     [p_shape data (COMMON @ [''operation_id'', ''transaction_id'', ''next_seq'', ''received_bytes'',
        ''idle_expires_at'', ''absolute_expires_at'']),
      on data ''transaction_id'' (\<lambda>x. p_pattern x uuid4_pat),
      on params ''chunk_count'' (\<lambda>n. on params ''size_bytes'' (\<lambda>s.
        progress data (int_of n) (int_of s) False))]"

definition append_data :: "json \<Rightarrow> json \<Rightarrow> unit result" where
  "append_data params data = seqR
     [p_shape data (COMMON @ [''transaction_id'', ''next_seq'', ''received_bytes'']),
      on data ''next_seq'' (\<lambda>x. p_integer x 1 MAX_CHUNKS),
      on data ''received_bytes'' (\<lambda>x. p_integer x 1 MAX_DOCUMENT_BYTES),
      bindR (p_chunk params) (\<lambda>raw. p_require
        (int_of (fld data ''next_seq'') = int_of (fld params ''seq'') + 1
         \<and> int_of (fld data ''received_bytes'') = int_of (fld params ''offset'') + plen raw))]"

definition preview_data :: "json \<Rightarrow> unit result" where
  "preview_data data = seqR
     [p_shape data (COMMON @ [''transaction_id'', ''plan_digest'', ''base_revision'', ''binding_revision'',
        ''coverage'', ''counts'', ''unresolved'', ''ready'', ''persistence'', ''stores'']),
      on data ''plan_digest'' (\<lambda>x. p_pattern x digest_pat),
      on data ''base_revision'' p_text,
      on data ''binding_revision'' p_text,
      on data ''coverage'' (\<lambda>c. p_require (py_eq c COVERAGE \<and> is_dict c)),
      on data ''counts'' p_counts,
      on data ''unresolved'' (\<lambda>rows. on data ''counts'' (diagnostics rows)),
      on data ''ready'' (\<lambda>x. on data ''persistence'' (\<lambda>y.
        p_require (is_bool x \<and> is_lit y ''persistent''))),
      on data ''stores'' (\<lambda>x. bindR (stores x True JNull) (\<lambda>_. Inr ()))]"

definition stage_status :: "json \<Rightarrow> unit result" where
  "stage_status data =
     (let base = COMMON @ [''operation_id'', ''transaction_id'', ''persistence'', ''state''];
          ready = is_lit (fld data ''state'') ''ready''
      in seqR
       [onget data ''transaction_id'' (\<lambda>x. p_pattern x uuid4_pat),
        onget data ''persistence'' (\<lambda>x. p_require (is_lit x ''persistent'')),
        if in_lits (fld data ''state'') [''receiving'', ''ready''] then seqR
          [p_shape data (base @ [''next_seq'', ''received_bytes'', ''idle_expires_at'', ''absolute_expires_at'']
             @ (if ready then [''ready'', ''plan_digest'', ''base_revision'', ''binding_revision''] else [])),
           progress data MAX_CHUNKS MAX_DOCUMENT_BYTES ready,
           if ready then seqR
             [on data ''ready'' (\<lambda>x. p_require (x = JBool True)),
              on data ''plan_digest'' (\<lambda>x. p_pattern x digest_pat),
              on data ''base_revision'' p_text,
              on data ''binding_revision'' p_text]
           else Inr ()]
        else seqR
          [p_shape data (base @ [''scope'', ''outcome'', ''per_store'']),
           on data ''scope'' p_scope,
           p_require (is_lit (fld data ''outcome'') ''not_applied'' \<and> py_eq (fld data ''per_store'') (JArr []))]])"

definition commit_data :: "json \<Rightarrow> json \<Rightarrow> json option result" where
  "commit_data params data =
     (let base = COMMON @ [''transaction_id'', ''operation_id'', ''scope'', ''outcome'', ''persistence'', ''per_store''];
          verified = is_lit (fld data ''outcome'') ''verified''
      in bindR (seqR
          [p_shape data (base @ (if verified then RECEIPT @ [''receipt''] else [])),
           on data ''scope'' p_scope]) (\<lambda>_.
         if verified then
           let r = JObj (map (\<lambda>k. (u k, fld data k)) RECEIPT)
           in bindR (seqR
                [receipt_ok r, on data ''receipt'' receipt_ok,
                 p_require (py_eq (fld data ''receipt'') r),
                 p_require (py_eq (fld r ''plan_digest'') (fld params ''plan_digest''))]) (\<lambda>_. Inr (Some r))
         else Inr None))"

definition status_data :: "json \<Rightarrow> json \<Rightarrow> json option result" where
  "status_data params data =
     (let verified = is_lit (fld data ''outcome'') ''verified''
      in bindR (seqR
          [check (ProtocolError ''unresolved_variant'') (is_lit (fld data ''state'') ''committed''),
           p_shape data (COMMON @ [''operation_id'', ''state'', ''outcome'', ''persistence'', ''per_store'']
             @ (if verified then [''receipt''] else []))]) (\<lambda>_.
         if verified then
           on data ''receipt'' (\<lambda>r. bindR (seqR
             [receipt_ok r,
              p_require (py_eq (fld r ''operation_id'') (fld params ''operation_id''))]) (\<lambda>_. Inr (Some r)))
         else Inr None))"

definition outcome_data :: "json \<Rightarrow> json \<Rightarrow> evidence result" where
  "outcome_data params data =
     bindR (seqR
       [onget data ''outcome'' (\<lambda>x. p_require (is_str x \<and> in_lits x OUTCOMES)),
        onget data ''persistence'' (\<lambda>x. p_require (is_lit x ''persistent''))]) (\<lambda>_.
     bindR (if is_lit (fld params ''op'') ''commit'' then commit_data params data else status_data params data) (\<lambda>r.
     bindR (on data ''per_store'' (\<lambda>x. stores x False (fld data ''outcome''))) (\<lambda>_.
       Inr \<lparr>receipt = r, raw_document = None, binds = True\<rparr>)))"

definition abort_data :: "json \<Rightarrow> unit result" where
  "abort_data data = seqR
     [p_shape data (COMMON @ [''transaction_id'', ''operation_id'', ''state'', ''outcome'', ''persistence'', ''per_store'']),
      on data ''operation_id'' (\<lambda>x. p_pattern x uuid4_pat),
      p_require (is_lit (fld data ''state'') ''aborted'' \<and> is_lit (fld data ''outcome'') ''not_applied''
        \<and> is_lit (fld data ''persistence'') ''persistent'' \<and> py_eq (fld data ''per_store'') (JArr []))]"

definition op_data :: "unicode_tables \<Rightarrow> json \<Rightarrow> json \<Rightarrow> scope_validator \<Rightarrow> evidence result" where
  "op_data tables params data scope_validator =
     (let op = fld params ''op''; plainly = (\<lambda>m. bindR m (\<lambda>_ :: unit. Inr plain_evidence))
      in if is_lit op ''recovery'' then plainly (recovery_data params data)
         else if is_lit op ''bindingcatalog'' then plainly (binding_catalog tables data)
         else if is_lit op ''prepare'' then plainly (prepare_data params data)
         else if is_lit op ''bind'' then plainly (bind_data tables params data)
         else if is_lit op ''provision'' then plainly (provision_data params data)
         else if is_lit op ''snapshot'' then
           bindR (snapshot_data params data scope_validator) (\<lambda>raw.
             Inr \<lparr>receipt = None, raw_document = Some raw, binds = False\<rparr>)
         else if is_lit op ''begin'' then plainly (begin_data params data)
         else if is_lit op ''append'' then plainly (append_data params data)
         else if is_lit op ''preview'' then plainly (preview_data data)
         else if is_lit op ''status'' \<and> in_lits (fld data ''state'') [''receiving'', ''ready'', ''expired'', ''aborted''] then
           bindR (stage_status data) (\<lambda>_. Inr \<lparr>receipt = None, raw_document = None, binds = True\<rparr>)
         else if in_lits op [''commit'', ''status''] then outcome_data params data
         else plainly (abort_data data))"

definition check_data ::
  "unicode_tables \<Rightarrow> json \<Rightarrow> json \<Rightarrow> pystr \<Rightarrow> scope_validator \<Rightarrow> evidence result" where
  "check_data tables params data status scope_validator =
     bindR (onget data ''version'' (\<lambda>x. p_require (x = JInt 1))) (\<lambda>_.
     bindR (onget data ''runtime'' (\<lambda>x. on params ''runtime'' (\<lambda>y. p_require (py_eq x y)))) (\<lambda>_.
     bindR (onget data ''op'' (\<lambda>x. on params ''op'' (\<lambda>y. p_require (py_eq x y)))) (\<lambda>_.
     if has data ''error'' then bindR (error_data params data status) (\<lambda>_. Inr plain_evidence)
     else
       bindR (p_require (status = u ''ok'')) (\<lambda>_.
       bindR (forR (\<lambda>k. if has params k
                 then onget data k (\<lambda>x. on params k (\<lambda>y. p_require (py_eq x y))) else Inr ())
               [''transaction_id'', ''operation_id'']) (\<lambda>_.
         op_data tables params data scope_validator)))))"

section \<open>Retained contexts\<close>

record validated_result =
  vr_request :: bytes
  vr_data :: bytes
  vr_status :: pystr
  vr_request_id :: json
  vr_verified :: bool
  vr_document :: "bytes option"

record receipt_context =
  rc_begin :: bytes
  rc_begin_result :: bytes
  rc_preview :: bytes
  rc_status_runtime :: "pystr option"

abbreviation context_mismatch :: exn where "context_mismatch \<equiv> ProtocolError ''context_mismatch''"

definition c_require :: "bool \<Rightarrow> unit result" where
  "c_require c = check context_mismatch c"

definition preview_request :: "json \<Rightarrow> json \<Rightarrow> json" where
  "preview_request begin accepted = JObj [(u ''op'', lit ''preview''), (u ''runtime'', fld begin ''runtime''),
     (u ''transaction_id'', fld accepted ''transaction_id'')]"

definition context_parts :: "unicode_tables \<Rightarrow> receipt_context \<Rightarrow> (json \<times> json \<times> json) result" where
  "context_parts tables c =
     bindR (case rc_status_runtime c of None \<Rightarrow> Inr () | Some r \<Rightarrow> p_pattern (JStr r) runtime_pat) (\<lambda>_.
     bindR (validate_request tables (Raw (rc_begin c)) None) (\<lambda>begin.
     bindR (p_object (Raw (rc_begin_result c)) MAX_RESPONSE_BYTES) (\<lambda>(accepted, _).
     bindR (p_object (Raw (rc_preview c)) MAX_RESPONSE_BYTES) (\<lambda>(preview, _).
     bindR (on begin ''op'' (\<lambda>op. c_require (is_lit op ''begin''))) (\<lambda>_.
     bindR (check_data tables begin accepted (u ''ok'') None) (\<lambda>_.
     bindR (check_data tables (preview_request begin accepted) preview (u ''ok'') None) (\<lambda>_.
     bindR (c_require (fld preview ''ready'' = JBool True
         \<and> py_eq (fld preview ''base_revision'') (fld begin ''expected_revision'')
         \<and> py_eq (fld preview ''binding_revision'') (fld begin ''binding_revision''))) (\<lambda>_.
       Inr (begin, accepted, preview)))))))))"

text \<open>\<open>result.request\<close> and \<open>result.data\<close> parse the retained bytes on each access.\<close>

definition request_of :: "validated_result \<Rightarrow> json result" where
  "request_of r = loads_bytes (vr_request r)"

definition data_of :: "validated_result \<Rightarrow> json result" where
  "data_of r = loads_bytes (vr_data r)"

definition retain_context ::
  "unicode_tables \<Rightarrow> validated_result \<Rightarrow> validated_result \<Rightarrow> receipt_context result" where
  "retain_context tables begin preview =
     bindR (c_require (vr_status begin = u ''ok'' \<and> vr_status preview = u ''ok'')) (\<lambda>_.
     bindR (request_of begin) (\<lambda>br. bindR (request_of preview) (\<lambda>pr. bindR (data_of begin) (\<lambda>bd.
     bindR (on br ''op'' (\<lambda>x. c_require (is_lit x ''begin''))) (\<lambda>_.
     bindR (on pr ''op'' (\<lambda>x. c_require (is_lit x ''preview''))) (\<lambda>_.
     bindR (on pr ''runtime'' (\<lambda>x. on br ''runtime'' (\<lambda>y. c_require (py_eq x y)))) (\<lambda>_.
     bindR (on pr ''transaction_id'' (\<lambda>x. onget bd ''transaction_id'' (\<lambda>y. c_require (py_eq x y)))) (\<lambda>_.
       let c = \<lparr>rc_begin = vr_request begin, rc_begin_result = vr_data begin, rc_preview = vr_data preview,
                 rc_status_runtime = None\<rparr>
       in bindR (context_parts tables c) (\<lambda>_. Inr c)))))))))"

definition status_context ::
  "unicode_tables \<Rightarrow> receipt_context \<Rightarrow> validated_result \<Rightarrow> receipt_context result" where
  "status_context tables c snapshot =
     bindR (context_parts tables c) (\<lambda>(begin, _, _).
     bindR (c_require (vr_status snapshot = u ''ok'')) (\<lambda>_.
     bindR (request_of snapshot) (\<lambda>sr. bindR (data_of snapshot) (\<lambda>sd.
     bindR (on sr ''op'' (\<lambda>x. c_require (is_lit x ''snapshot''))) (\<lambda>_.
     bindR (on sr ''scope'' (\<lambda>x. c_require (py_eq x (fld begin ''scope'')))) (\<lambda>_.
     bindR (on sd ''scope'' (\<lambda>x. c_require (py_eq x (fld begin ''scope'')))) (\<lambda>_.
     bindR (on sd ''binding_revision'' (\<lambda>x. c_require (py_eq x (fld begin ''binding_revision'')))) (\<lambda>_.
     bindR (c_require (vr_document snapshot \<noteq> None)) (\<lambda>_.
     on sr ''runtime'' (\<lambda>runtime.
     bindR (p_pattern runtime runtime_pat) (\<lambda>_.
       Inr (c\<lparr>rc_status_runtime := Some (str_of runtime)\<rparr>))))))))))))"

definition store_ids :: "json \<Rightarrow> pystr list" where
  "store_ids v = map (\<lambda>x. str_of (fld x ''id'')) (list_of v)"

definition bind_context ::
  "unicode_tables \<Rightarrow> json \<Rightarrow> json \<Rightarrow> json option \<Rightarrow> receipt_context \<Rightarrow> unit result" where
  "bind_context tables params data rec c =
     bindR (context_parts tables c) (\<lambda>(begin, accepted, preview). seqR
       [case rc_status_runtime c of None \<Rightarrow> Inr ()
        | Some r \<Rightarrow> bindR (c_require (is_lit (fld params ''op'') ''status'')) (\<lambda>_.
            if JStr r \<noteq> fld begin ''runtime'' then c_require (is_lit (fld data ''state'') ''committed'') else Inr ()),
        c_require (py_eq (fld params ''runtime'')
          (case rc_status_runtime c of None \<Rightarrow> fld begin ''runtime'' | Some r \<Rightarrow> JStr r)),
        c_require (py_eq (fld params ''operation_id'') (fld begin ''operation_id'')),
        opt params ''transaction_id'' (\<lambda>x. c_require (py_eq x (fld accepted ''transaction_id''))),
        opt data ''transaction_id'' (\<lambda>x. c_require (py_eq x (fld accepted ''transaction_id''))),
        if is_lit (fld params ''op'') ''commit''
        then c_require (py_eq (fld params ''expected_revision'') (fld begin ''expected_revision'')
               \<and> py_eq (fld params ''plan_digest'') (fld preview ''plan_digest'')) else Inr (),
        opt data ''scope'' (\<lambda>x. c_require (py_eq x (fld begin ''scope''))),
        opt data ''per_store'' (\<lambda>x. c_require (set (store_ids x) \<subseteq> set (store_ids (fld preview ''stores'')))),
        opt data ''next_seq'' (\<lambda>x. c_require (int_of x \<le> int_of (fld begin ''chunk_count'')
          \<and> int_of (fld data ''received_bytes'') \<le> int_of (fld begin ''size_bytes''))),
        if is_lit (fld data ''state'') ''ready''
        then c_require (py_eq (fld data ''next_seq'') (fld begin ''chunk_count'')
               \<and> py_eq (fld data ''received_bytes'') (fld begin ''size_bytes'')
               \<and> py_eq (fld data ''plan_digest'') (fld preview ''plan_digest'')
               \<and> py_eq (fld data ''base_revision'') (fld begin ''expected_revision'')
               \<and> py_eq (fld data ''binding_revision'') (fld begin ''binding_revision'')) else Inr (),
        case rec of None \<Rightarrow> Inr ()
        | Some r \<Rightarrow> c_require (py_eq (fld r ''operation_id'') (fld begin ''operation_id'')
            \<and> py_eq (fld r ''scope'') (fld begin ''scope'')
            \<and> py_eq (fld r ''document_sha256'') (fld begin ''document_sha256'')
            \<and> py_eq (fld r ''plan_digest'') (fld preview ''plan_digest'')
            \<and> py_eq (fld r ''counts'') (fld preview ''counts'')
            \<and> set (store_ids (fld data ''per_store'')) = set (store_ids (fld preview ''stores'')))])"

section \<open>Results\<close>

definition validate_data ::
  "unicode_tables \<Rightarrow> json \<Rightarrow> json \<Rightarrow> pystr \<Rightarrow> receipt_context option \<Rightarrow> scope_validator
   \<Rightarrow> (bool \<times> bytes option) result" where
  "validate_data tables params data status ctx scope_validator =
     bindR (check_data tables params data status scope_validator) (\<lambda>e.
     bindR (case ctx of Some c \<Rightarrow> if binds e then bind_context tables params data (receipt e) c else Inr ()
            | None \<Rightarrow> Inr ()) (\<lambda>_.
       Inr (receipt e \<noteq> None \<and> ctx \<noteq> None, raw_document e)))"

definition validate_result ::
  "unicode_tables \<Rightarrow> wire \<Rightarrow> wire \<Rightarrow> json \<Rightarrow> json \<Rightarrow> json \<Rightarrow> receipt_context option \<Rightarrow> scope_validator
   \<Rightarrow> int \<Rightarrow> validated_result result" where
  "validate_result tables params data request_id response_id status ctx scope_validator max_metadata =
     bindR (p_integer (JInt max_metadata) 1 MAX_METADATA_BYTES) (\<lambda>_.
     bindR (validate_request tables params None) (\<lambda>ps.
     bindR (p_pattern request_id request_id_pat) (\<lambda>_.
     bindR (p_require (py_eq response_id request_id \<and> is_str status
              \<and> in_lits status [''ok'', ''rejected'', ''unsupported''])) (\<lambda>_.
     bindR (p_object data MAX_RESPONSE_BYTES) (\<lambda>(d, raw).
     bindR (if \<not> is_lit (fld ps ''op'') ''snapshot'' \<or> \<not> is_lit status ''ok''
            then check (ProtocolError ''envelope_too_large'') (plen raw \<le> max_metadata) else Inr ()) (\<lambda>_.
     bindR (p_encoded (JObj [(u ''id'', response_id), (u ''status'', status), (u ''data'', JNull)])) (\<lambda>outer.
     bindR (check (ProtocolError ''envelope_too_large'') (plen raw + (plen outer - 4) \<le> MAX_RESPONSE_BYTES)) (\<lambda>_.
     bindR (validate_data tables ps d (str_of status) ctx scope_validator) (\<lambda>(ok, raw_doc).
     bindR (p_encoded ps) (\<lambda>rb. bindR (p_encoded d) (\<lambda>db.
       Inr \<lparr>vr_request = rb, vr_data = db, vr_status = str_of status, vr_request_id = request_id,
            vr_verified = ok, vr_document = raw_doc\<rparr>)))))))))))"

text \<open>
  The original token of the value of \<open>data\<close> in the text of a response: the members before it are
  skipped one by one. The text was parsed before, so its members are well formed and it has the
  key; a text that ends first raises.
\<close>

fun data_token :: "unicode_tables \<Rightarrow> nat \<Rightarrow> pystr \<Rightarrow> pystr result" where
  "data_token tables 0 t = Inl OutOfFuel"
| "data_token tables (Suc n) t =
     bindR (scan_val (Suc (2 * length t)) (dropWhile (\<lambda>c. white_space tables c \<or> c = 44) t)) (\<lambda>(key, t1).
     (let start = dropWhile (white_space tables) (drop 1 (dropWhile (white_space tables) t1))
      in bindR (scan_val (Suc (2 * length t)) start) (\<lambda>(_, t2).
           if is_lit key ''data'' then Inr (take (length start - length t2) start)
           else data_token tables n t2)))"

definition validate_response ::
  "unicode_tables \<Rightarrow> wire \<Rightarrow> wire \<Rightarrow> json \<Rightarrow> receipt_context option \<Rightarrow> scope_validator \<Rightarrow> int
   \<Rightarrow> validated_result result" where
  "validate_response tables params response request_id ctx scope_validator max_metadata =
     bindR (p_integer (JInt max_metadata) 1 MAX_METADATA_BYTES) (\<lambda>_.
     bindR (p_object response MAX_RESPONSE_BYTES) (\<lambda>(r, raw).
     bindR (p_shape r [''id'', ''status'', ''data'']) (\<lambda>_.
     bindR (utf8_decode raw) (\<lambda>text.
     bindR (data_token tables (length text) (drop 1 (dropWhile (\<lambda>c. c \<noteq> 123) text))) (\<lambda>token.
     bindR (utf8_encode token) (\<lambda>data.
     on r ''id'' (\<lambda>i. on r ''status'' (\<lambda>status.
       validate_result tables params (Raw data) request_id i status ctx scope_validator max_metadata))))))))"

section \<open>Acknowledging an inspected recovery record\<close>

definition recovery_ack_request :: "unicode_tables \<Rightarrow> validated_result \<Rightarrow> json result" where
  "recovery_ack_request tables inspect =
     bindR (p_require (vr_status inspect = u ''ok'')) (\<lambda>_.
     bindR (data_of inspect) (\<lambda>data. bindR (request_of inspect) (\<lambda>req.
     bindR (on req ''op'' (\<lambda>x. p_require (is_lit x ''recovery''))) (\<lambda>_.
     bindR (on req ''mode'' (\<lambda>x. p_require (is_lit x ''inspect''))) (\<lambda>_.
     bindR (validate_result tables (Parsed req) (Parsed data) (vr_request_id inspect) (vr_request_id inspect)
              (lit ''ok'') None None MAX_METADATA_BYTES) (\<lambda>_.
     bindR (on data ''acknowledge_allowed'' (\<lambda>x. p_require (x = JBool True))) (\<lambda>_.
     on data ''record'' (\<lambda>r.
       validate_request tables (Parsed (JObj
         [(u ''op'', lit ''recovery''), (u ''mode'', lit ''acknowledge''), (u ''runtime'', fld data ''runtime''),
          (u ''operation_id'', fld data ''operation_id''), (u ''scope'', fld r ''scope''),
          (u ''original_entry_sha256'', fld r ''original_entry_sha256''),
          (u ''expected_ledger_revision'', fld data ''ledger_revision''),
          (u ''backend_proof'', fld data ''backend_proof''), (u ''plan_sha256'', fld data ''plan_sha256''),
          (u ''acknowledgement_id'', fld data ''acknowledgement_id''),
          (u ''after_ledger_sha256'', fld data ''after_ledger_sha256''), (u ''reason'', lit RECOVERY_REASON),
          (u ''accept_unknown'', JBool True)])) None))))))))"

end
