(* ===== verification/FavProtocolLaws.thy ===== *)
theory FavProtocolLaws
  imports FavProtocolResult
begin

text \<open>
  When the checks of the protocol module pass, which exceptions they raise, and what an accepted
  response says about its retained context.
\<close>

section \<open>When the checks pass\<close>

lemma p_require_ok [ok_iff]: "p_require c = Inr x \<longleftrightarrow> c"
  by (simp add: p_require_def ok_iff)

lemma c_require_ok [ok_iff]: "c_require c = Inr x \<longleftrightarrow> c"
  by (simp add: c_require_def ok_iff)

lemma p_shape_ok [ok_iff]: "p_shape v ks = Inr x \<longleftrightarrow> is_dict v \<and> same_keys v ks"
  by (simp add: p_shape_def ok_iff)

lemma p_integer_ok [ok_iff]: "p_integer v lo hi = Inr x \<longleftrightarrow> (\<exists>i. v = JInt i \<and> lo \<le> i \<and> i \<le> hi)"
  by (simp add: p_integer_def ok_iff)

lemma p_pattern_ok [ok_iff]: "p_pattern v P = Inr x \<longleftrightarrow> (\<exists>s. v = JStr s \<and> P s)"
  by (simp add: p_pattern_def ok_iff)

lemma opt_ok [ok_iff]: "opt v k f = Inr x \<longleftrightarrow> (has v k \<longrightarrow> f (fld v k) = Inr ())"
  by (simp add: opt_def ok_iff)

lemma p_text_str: "p_text v = Inr x \<Longrightarrow> \<exists>s. v = JStr s \<and> s \<noteq> [] \<and> plen s \<le> 256 \<and> \<not> has_control s"
  by (auto simp: p_text_def ok_iff is_str_iff)

lemma p_object_ok [ok_iff]:
  "p_object w lim = Inr (v, raw) \<longleftrightarrow>
     wire_bytes w lim = Inr raw \<and> 0 < plen raw \<and> plen raw \<le> lim \<and> loads_bytes raw = Inr v \<and>
     is_dict v \<and> (\<exists>b. p_encoded v = Inr b)"
  by (auto simp: p_object_def ok_iff loads_bytes_def)

lemma encoded_loads: "plain v \<Longrightarrow> p_encoded v = Inr b \<Longrightarrow> loads_bytes b = Inr v"
  by (auto simp: p_encoded_def ok_iff loads_bytes_def dest!: utf8_roundtrip intro: loads_compact)

lemma p_object_parsed:
  assumes "p_object (Parsed v) lim = Inr (w, raw)" "plain v"
  shows "w = v \<and> p_encoded v = Inr raw \<and> plen raw \<le> lim"
  using assms encoded_loads [OF assms(2)] by (auto simp: ok_iff wire_bytes_def)

lemma check_version: "check_data tables params data status sv = Inr e \<Longrightarrow>
    is_dict data \<and> fld data ''version'' = JInt 1 \<and> py_eq (fld data ''runtime'') (fld params ''runtime'') \<and>
    py_eq (fld data ''op'') (fld params ''op'')"
  by (auto simp: check_data_def ok_iff)

section \<open>Outcomes per store\<close>

lemma store_row_ok:
  "store_row False (ids, outs) r = Inr st \<longleftrightarrow>
     same_keys r [''id'', ''outcome''] \<and> is_dict r \<and> p_text (fld r ''id'') = Inr () \<and> is_str (fld r ''outcome'') \<and>
     in_lits (fld r ''outcome'') OUTCOMES \<and> str_of (fld r ''id'') \<notin> set ids \<and>
     st = (ids @ [str_of (fld r ''id'')], outs @ [fld r ''outcome''])"
  by (auto simp: store_row_def ok_iff same_keys_has)

lemma store_rows:
  assumes "foldR (store_row False) (ids, outs) rows = Inr (ids', outs')"
  shows "ids' = ids @ map (\<lambda>r. str_of (fld r ''id'')) rows \<and> outs' = outs @ map (\<lambda>r. fld r ''outcome'') rows
    \<and> (distinct ids \<longrightarrow> distinct ids')"
  using assms
proof (induction rows arbitrary: ids outs)
  case (Cons r rows)
  from Cons.prems have r: "str_of (fld r ''id'') \<notin> set ids"
    and run: "foldR (store_row False) (ids @ [str_of (fld r ''id'')], outs @ [fld r ''outcome'']) rows = Inr (ids', outs')"
    by (auto simp: foldR_Cons_ok store_row_ok)
  from Cons.IH [OF run] r show ?case by (auto simp: disjoint_iff image_iff) metis
qed (auto simp: ok_iff)

lemma stores_ok:
  assumes "stores v False outcome = Inr ids"
  shows "ids = store_ids v \<and> distinct ids \<and> plen ids \<le> 64 \<and>
    outcome_agrees outcome (map (\<lambda>r. fld r ''outcome'') (list_of v))"
proof -
  from assms obtain outs where run: "foldR (store_row False) ([], []) (list_of v) = Inr (ids, outs)"
    and "plen (list_of v) \<le> 64" "outcome_agrees outcome outs"
    by (auto simp: stores_def ok_iff)
  with store_rows [OF run] show ?thesis by (auto simp: store_ids_def plen_def)
qed

section \<open>Receipts\<close>

lemma receipt_ok_strs:
  assumes "receipt_ok r = Inr ()"
  shows "\<exists>oid dg pd. fld r ''operation_id'' = JStr oid \<and> fld r ''document_sha256'' = JStr dg \<and>
    fld r ''plan_digest'' = JStr pd \<and> uuid4_pat oid \<and> digest_pat dg \<and> digest_pat pd \<and>
    fld r ''outcome'' = lit ''verified'' \<and> fld r ''persistence'' = lit ''persistent''"
  using assms by (auto simp: receipt_ok_def ok_iff is_lit_def lit_def)

text \<open>What is known of a response that carries a receipt, before its context is looked at.\<close>

lemma outcome_receipt:
  assumes "outcome_data params data = Inr e" "receipt e = Some r"
  shows "r = (if is_lit (fld params ''op'') ''commit''
              then JObj (map (\<lambda>k. (u k, fld data k)) RECEIPT) else fld data ''receipt'')
    \<and> receipt_ok r = Inr () \<and> binds e \<and> fld data ''outcome'' = lit ''verified'' \<and>
    (\<exists>ids. stores (fld data ''per_store'') False (lit ''verified'') = Inr ids)"
  using assms
  by (auto simp: outcome_data_def commit_data_def status_data_def ok_iff Let_def is_lit_def lit_def
      split: if_splits)

lemma check_data_receipt:
  assumes "check_data tables params data status sv = Inr e" "receipt e = Some r"
  shows "in_lits (fld params ''op'') [''commit'', ''status''] \<and> outcome_data params data = Inr e"
  using assms
  by (auto simp: check_data_def op_data_def ok_iff Let_def split: if_splits)

end
