(* ===== verification/TransferErrors.thy ===== *)
theory TransferErrors
  imports FavTransfer
begin

text \<open>
  Which exceptions the text, JSON and transport layers can raise: the decoders and the parser only
  the ones their callers catch, the transport module only its own.
\<close>

lemma dumps_compact_raises: "raises_only (\<lambda>e. e = ValueError) (dumps_compact v)"
  by (simp add: dumps_compact_def dumps_def)

lemma utf8_decode_raises: "raises_only (\<lambda>e. e = UnicodeError) (utf8_decode b)"
  by (induction b rule: utf8_decode.induct) (auto simp: raises Let_def split: list.splits)

lemma scan_unsigned_raises: "raises_only (\<lambda>e. e = ValueError) (scan_unsigned neg s)"
  by (auto simp: scan_unsigned_def Let_def split: prod.splits)

lemma scan_raises:
  "raises_only (\<lambda>e. e = ValueError \<or> e = OutOfFuel) (scan_val n s)"
  "raises_only (\<lambda>e. e = ValueError \<or> e = OutOfFuel) (scan_arr n s)"
  "raises_only (\<lambda>e. e = ValueError \<or> e = OutOfFuel) (scan_obj n s)"
proof (induction n s and n s and n s rule: scan_val_scan_arr_scan_obj.induct)
  case (2 n s)
  have num: "raises_only (\<lambda>e. e = ValueError \<or> e = OutOfFuel) (scan_num s)"
    unfolding scan_num_def by (auto intro: raises_only_mono [OF scan_unsigned_raises])
  show ?case
    using 2 num by (auto simp: split: list.splits option.splits intro!: raises_only_bindR)
next
  case (4 n s)
  then show ?case by (auto split: list.splits intro!: raises_only_bindR)
next
  case (6 n s)
  then show ?case by (auto split: list.splits option.splits intro!: raises_only_bindR)
qed simp_all

lemma loads_raises: "raises_only (\<lambda>e. e = ValueError) (loads s)"
proof (rule raises_onlyI)
  fix e assume e: "loads s = Inl e"
  have "raises_only (\<lambda>e. e = ValueError \<or> e = OutOfFuel) (loads s)"
    unfolding loads_def by (intro raises_only_bindR scan_raises) (auto split: prod.splits)
  from raises_onlyD [OF this e] show "e = ValueError"
    using e loads_no_fuel [of s] by auto
qed

lemma decode_bytes_raises: "raises_only is_TransferError (decode_bytes data sz digest m)"
proof -
  have "raises_only (\<lambda>e. is_ValueError e \<or> is_TransferError e)
      (bindR (b64decode (str_of data)) (\<lambda>raw. if b64encode raw = str_of data then Inr raw else Inl ValueError))"
    by (intro raises raises_only_mono [OF b64decode_raises]) auto
  then show ?thesis
    unfolding decode_bytes_def limit_def by (auto intro!: raises)
qed

lemma validate_document_bytes_raises: "raises_only is_TransferError (validate_document_bytes raw m)"
proof -
  have "raises_only (\<lambda>e. json_errors e \<or> is_TransferError e)
      (bindR (utf8_decode raw) (\<lambda>text. bindR (loads text) (\<lambda>v. bindR (dumps_default v) (\<lambda>again.
         bindR (utf8_encode again) (\<lambda>_. Inr v)))))"
    by (intro raises raises_only_mono [OF utf8_decode_raises] raises_only_mono [OF loads_raises]
        raises_only_mono [OF utf8_encode_raises])
      (auto simp: json_errors_def dumps_default_def dumps_def)
  then show ?thesis
    unfolding validate_document_bytes_def limit_def raw_bytes_def by (auto intro!: raises)
qed

lemma request_envelopes_raises: "raises_only is_TransferError (request_envelopes action params key)"
proof -
  let ?P = "\<lambda>e. (json_errors e \<or> is_TransferError e) \<or> is_TransferError e"
  have "raises_only ?P (go_raw v)" for v
    unfolding go_raw_def
    by (intro raises raises_only_mono [OF dumps_compact_raises] raises_only_mono [OF utf8_encode_raises])
      (auto simp: json_errors_def)
  moreover have "raises_only ?P (dumps_default v)" for v
    by (auto simp: dumps_default_def dumps_def json_errors_def)
  moreover have "raises_only ?P (validate_document_bytes b m)" for b m
    by (rule raises_only_mono [OF validate_document_bytes_raises]) auto
  moreover have "raises_only ?P (utf8_encode t)" for t
    by (rule raises_only_mono [OF utf8_encode_raises]) (auto simp: json_errors_def)
  ultimately show ?thesis
    unfolding request_envelopes_def by (auto intro!: raises_only_rethrow raises_only_bindR)
qed

end
