(* ===== verification/FavProtocolErrors.thy ===== *)
theory FavProtocolErrors
  imports FavProtocolLaws TransferErrors
begin

text \<open>
  The only exceptions of the protocol module are its own: whatever the wire holds, no lookup, no
  conversion and no decoder error escapes.
\<close>

section \<open>The primitives\<close>

abbreviation protocol_only :: "'a result \<Rightarrow> bool" where
  "protocol_only \<equiv> raises_only is_ProtocolError"

lemma protocol_primitives [raises]:
  "protocol_only (p_require c)" "protocol_only (c_require c)" "protocol_only (p_shape v ks)"
  "protocol_only (p_integer v lo hi)" "protocol_only (p_pattern v P)"
  by (simp_all add: p_require_def c_require_def p_shape_def p_integer_def p_pattern_def raises)

lemma raises_opt [raises]: "(has v k \<Longrightarrow> raises_only P (f (fld v k))) \<Longrightarrow> raises_only P (opt v k f)"
  by (simp add: opt_def on_has)

lemma protocol_p_text [raises]: "protocol_only (p_text v)"
  unfolding p_text_def
  by (intro raises) (auto intro: raises_only_mono [OF utf8_encode_raises])

lemma protocol_p_scope [raises]: "protocol_only (p_scope v)"
  unfolding p_scope_def by (intro raises; auto simp: ok_iff intro: same_keys_has)

lemma p_encoded_raises: "raises_only (\<lambda>e. e = ValueError \<or> e = UnicodeError) (p_encoded v)"
  unfolding p_encoded_def
  by (intro raises raises_only_mono [OF dumps_compact_raises] raises_only_mono [OF utf8_encode_raises]) auto

lemma walk_protocol: "protocol_only (walk lim pending seen)"
proof (induction lim pending seen rule: walk.induct)
  case (2 lim v depth pending seen)
  then show ?case
    by (subst walk.simps) (intro raises; simp add: ok_iff)
qed simp

lemma wire_bytes_raises: "raises_only (\<lambda>e. is_ProtocolError e \<or> e = ValueError \<or> e = UnicodeError) (wire_bytes w lim)"
proof (cases w)
  case (Parsed v)
  show ?thesis
    unfolding wire_bytes_def Parsed wire.case
    by (intro raises_only_bindR raises_only_mono [OF walk_protocol] raises_only_mono [OF p_encoded_raises]
        raises_only_mono [OF protocol_primitives(1)]) auto
qed (simp add: wire_bytes_def)

lemma protocol_p_object [raises]: "protocol_only (p_object w lim)"
proof -
  let ?P = "\<lambda>e. is_ProtocolError e \<or> e = ValueError \<or> e = UnicodeError"
  have "raises_only ?P (p_encoded v)" for v
    by (rule raises_only_mono [OF p_encoded_raises]) auto
  moreover have "raises_only ?P (utf8_decode raw)" "raises_only ?P (loads t)" for raw t
    by (auto intro: raises_only_mono [OF utf8_decode_raises] raises_only_mono [OF loads_raises])
  moreover have "raises_only ?P (p_require c)" for c
    by (rule raises_only_mono [OF protocol_primitives(1)]) auto
  ultimately show ?thesis
    unfolding p_object_def
    by (intro raises_only_rethrow raises_only_mono [OF raises_only_bindR [where P = ?P]] raises_only_bindR
        wire_bytes_raises raises_only_check raises_only_Inr) (auto simp: json_errors_def)
qed

section \<open>Requests\<close>

text \<open>The commitments are over texts the patterns restrict to ASCII, so they can be encoded.\<close>

definition ascii_chars :: "pystr \<Rightarrow> bool" where
  "ascii_chars s \<longleftrightarrow> set s \<subseteq> {0..<128}"

lemma ascii_chars_simps [simp]:
  "ascii_chars []" "ascii_chars (c # s) \<longleftrightarrow> 0 \<le> c \<and> c < 128 \<and> ascii_chars s"
  "ascii_chars (s @ t) \<longleftrightarrow> ascii_chars s \<and> ascii_chars t"
  by (auto simp: ascii_chars_def)

fun ascii_json :: "json \<Rightarrow> bool" where
  "ascii_json (JStr s) = ascii_chars s"
| "ascii_json (JArr vs) = (\<forall>v \<in> set vs. ascii_json v)"
| "ascii_json _ = False"

lemma quote_ascii: "ascii_chars s \<Longrightarrow> ascii_chars (quote s)"
proof -
  have "ascii_chars (esc c)" if "0 \<le> c" "c < 128" for c
    using that by (auto simp: esc_def hexdig_def)
  then have "ascii_chars s \<Longrightarrow> ascii_chars (concat (map esc s))"
    by (induction s) auto
  then show "ascii_chars s \<Longrightarrow> ascii_chars (quote s)"
    by (simp add: quote_def)
qed

lemma join_ascii: "ascii_chars d \<Longrightarrow> \<forall>s \<in> set ss. ascii_chars s \<Longrightarrow> ascii_chars (join d ss)"
  by (induction d ss rule: join.induct) auto

lemma ascii_json_text: "ascii_json v \<Longrightarrow> dumpable v \<and> ascii_chars (ctext v)"
proof (induction v rule: ascii_json.induct)
  case (1 s)
  then show ?case using quote_ascii [of s] by simp
next
  case (2 vs)
  then have "ascii_chars (join (u '','') (map ctext vs))"
    by (intro join_ascii) (auto simp: u_def)
  with 2 show ?case by simp
qed simp_all

lemma p_encoded_ascii: "ascii_json v \<Longrightarrow> \<exists>b. p_encoded v = Inr b"
  using ascii_json_text [of v]
  by (auto simp: p_encoded_def dumps_compact_def dumps_def utf8_encode_ascii ascii_chars_def subset_iff)

lemma hex_ascii: "is_hex c \<Longrightarrow> 0 \<le> c \<and> c < 128" "is_digit c \<Longrightarrow> 0 \<le> c \<and> c < 128"
  "is_lower c \<Longrightarrow> 0 \<le> c \<and> c < 128" "is_alnum c \<Longrightarrow> 0 \<le> c \<and> c < 128"
  by (auto simp: is_hex_def is_digit_def is_lower_def is_upper_def is_alnum_def)

lemma rep_pat_ascii: "rep_pat P lo hi s \<Longrightarrow> (\<And>c. P c \<Longrightarrow> 0 \<le> c \<and> c < 128) \<Longrightarrow> ascii_chars s"
  by (auto simp: rep_pat_def list_all_iff ascii_chars_def)

lemma head_pat_ascii:
  "head_pat H T hi s \<Longrightarrow> (\<And>c. H c \<Longrightarrow> 0 \<le> c \<and> c < 128) \<Longrightarrow> (\<And>c. T c \<Longrightarrow> 0 \<le> c \<and> c < 128) \<Longrightarrow> ascii_chars s"
  by (cases s) (auto simp: head_pat_def list_all_iff ascii_chars_def)

lemma of_char_bounds: "0 \<le> (of_char x :: int)"
  by (metis of_nat_0_le_iff of_nat_of_char)

lemma one_of_ascii: "one_of t c \<Longrightarrow> list_all (\<lambda>d. of_char d < (128 :: int)) t \<Longrightarrow> 0 \<le> c \<and> c < 128"
  by (auto simp: one_of_def u_def list_all_iff of_char_bounds)

lemma seq_pat_ascii:
  "seq_pat ps s \<Longrightarrow> list_all (\<lambda>p. \<forall>c. p c \<longrightarrow> 0 \<le> c \<and> c < 128) ps \<Longrightarrow> ascii_chars s"
proof (induction s arbitrary: ps)
  case (Cons c s)
  then show ?case by (cases ps) (auto simp: seq_pat_def)
qed simp

lemma classes_ascii:
  "\<forall>c. is_hex c \<longrightarrow> 0 \<le> c \<and> c < 128"
  "list_all (\<lambda>d. of_char d < (128 :: int)) t \<Longrightarrow> \<forall>c. one_of t c \<longrightarrow> 0 \<le> c \<and> c < 128"
  using hex_ascii one_of_ascii by blast+

lemma digest_ascii: "digest_pat s \<Longrightarrow> ascii_chars s"
  unfolding digest_pat_def by (erule rep_pat_ascii) (auto dest: hex_ascii)

lemma list_all_replicateI: "P x \<Longrightarrow> list_all P (replicate n x)"
  by (simp add: list_all_iff)

lemma uuid4_ascii: "uuid4_pat s \<Longrightarrow> ascii_chars s"
  unfolding uuid4_pat_def
  by (erule seq_pat_ascii) (simp only: list_all_append list.pred_inject,
      intro conjI list_all_replicateI classes_ascii TrueI; simp)

lemma runtime_ascii: "runtime_pat s \<Longrightarrow> ascii_chars s"
  unfolding runtime_pat_def by (erule rep_pat_ascii) (auto dest: hex_ascii one_of_ascii)

lemma provider_ascii: "RECOVERY_PROVIDER s \<Longrightarrow> ascii_chars s"
  unfolding RECOVERY_PROVIDER_def by (erule head_pat_ascii) (auto dest: hex_ascii one_of_ascii)

lemma same_keys_mem: "same_keys v ks \<Longrightarrow> has v k \<Longrightarrow> k \<in> set ks"
  using same_keys_not_has by blast

lemma protocol_recovery_scope [raises]: "protocol_only (recovery_scope v)"
  unfolding recovery_scope_def by (intro raises; auto simp: ok_iff intro: same_keys_has)

lemma recovery_values_ascii:
  assumes "p_pattern runtime runtime_pat = Inr ()" "p_pattern operation uuid4_pat = Inr ()"
    "recovery_scope scope = Inr ()"
    "forR (\<lambda>v. p_pattern v digest_pat) [entry, ledger, backend] = Inr ()"
  shows "\<forall>v \<in> set (recovery_values runtime operation scope entry ledger backend). ascii_json v"
proof -
  have "ascii_chars (u RECOVERY_REASON)" by (simp add: RECOVERY_REASON_def u_def)
  with assms show ?thesis
    by (auto simp: recovery_values_def recovery_scope_def ok_iff lit_def
        dest: digest_ascii uuid4_ascii runtime_ascii provider_ascii)
qed

lemma digest_of_ascii: "ascii_json v \<Longrightarrow> \<exists>b. p_encoded v = Inr b \<and> digest_of v = Inr (sha256_hex b)"
  using p_encoded_ascii [of v] by (auto simp: digest_of_def)

lemma protocol_digest_of: "ascii_json v \<Longrightarrow> protocol_only (digest_of v)"
  using digest_of_ascii [of v] by auto

lemma sha256_ascii: "ascii_chars (sha256_hex m)"
  by (rule digest_ascii [OF digest_pat_sha256])

lemma protocol_recovery_digests [raises]:
  "protocol_only (recovery_digests runtime operation scope entry ledger backend next)"
proof -
  have tags: "ascii_json (lit ''ottplay-favorites-recovery-ack-v1'')"
      "ascii_json (lit ''ottplay-favorites-recovery-plan-v1'')"
    by (simp_all add: lit_def u_def)
  have ack: "ascii_json (JArr (lit ''ottplay-favorites-recovery-ack-v1'' # vs))"
    if "\<forall>v \<in> set vs. ascii_json v" for vs
    using that tags by simp
  have plan: "ascii_json (JArr (lit ''ottplay-favorites-recovery-plan-v1'' # vs @ [JStr k, x]))"
    if "\<forall>v \<in> set vs. ascii_json v" "p_pattern x digest_pat = Inr ()" "digest_of w = Inr k" for vs k x w
    using that tags by (auto simp: ok_iff digest_of_def digest_ascii sha256_ascii)
  show ?thesis
    unfolding recovery_digests_def Let_def
    by (intro raises) (auto simp: seqR_Cons_ok seqR_Nil_ok intro!: raises protocol_digest_of ack plan
        recovery_values_ascii [THEN bspec] split: option.splits)
qed

lemma protocol_recovery_record [raises]: "protocol_only (recovery_record v)"
  unfolding recovery_record_def
  by (intro raises; (auto simp: ok_iff intro: same_keys_has split: prod.splits intro!: raises)?)

lemma protocol_recovery_params [raises]: "is_dict params \<Longrightarrow> protocol_only (recovery_params params)"
  unfolding recovery_params_def
  by (intro raises; (auto simp: ok_iff recovery_fields_def is_lit_def split: prod.splits if_splits
      intro!: raises intro: same_keys_has)?)

lemma protocol_p_chunk [raises]:
  "has params ''data_base64'' \<Longrightarrow> has params ''chunk_sha256'' \<Longrightarrow> protocol_only (p_chunk params)"
  unfolding p_chunk_def
  by (intro raises raises_only_mono [OF decode_bytes_raises] raises_only_mono [OF b64decode_raises]
      raises_only_mono [OF protocol_primitives(1)]) auto

lemma protocol_request_fields [raises]: "is_dict params \<Longrightarrow> protocol_only (request_fields params op)"
  unfolding request_fields_def Let_def by (intro raises) auto

lemma protocol_plex_scope [raises]: "protocol_only (plex_scope v)"
  unfolding plex_scope_def by (intro raises; auto simp: p_scope_def ok_iff intro: same_keys_has)

lemma protocol_binding_text [raises]: "protocol_only (binding_text tables v target)"
  unfolding binding_text_def by (intro raises)

lemma protocol_provision_revision [raises]: "protocol_only (provision_revision v)"
  unfolding provision_revision_def by (intro raises)

lemma protocol_request_details [raises]:
  assumes "request_fields params op = Inr ks" "p_shape params ks = Inr ()"
  shows "protocol_only (request_details tables params op)"
proof -
  have has: "has params k \<longleftrightarrow> k \<in> set ks" for k
    using assms(2) same_keys_has same_keys_mem by (auto simp: ok_iff)
  show ?thesis
    using assms(1) unfolding request_details_def
    by (intro raises; (auto simp: has request_fields_def Let_def ok_iff is_lit_def split: if_splits)?)
qed

lemma protocol_check_request [raises]: "is_dict params \<Longrightarrow> protocol_only (check_request tables params)"
  unfolding check_request_def by (intro raises; (simp add: ok_iff)?)

lemma protocol_validate_request [raises]: "protocol_only (validate_request tables w key)"
proof -
  have "protocol_only (rethrow is_TransferError invalid_protocol
      (bindR (request_envelopes (u ''favorites_transfer'') params key) (\<lambda>env.
         check (ProtocolError ''envelope_too_large'')
           (max (plen (client env)) (plen (queued_upper_bound env)) \<le> MAX_RPC_BYTES))))" for params
    by (intro raises raises_only_mono [OF request_envelopes_raises]) auto
  then show ?thesis
    unfolding validate_request_def
    by (intro raises_only_bindR protocol_p_object) (auto simp: p_object_ok intro!: raises_only_bindR protocol_check_request)
qed

section \<open>Responses\<close>

lemma protocol_p_counts [raises]: "protocol_only (p_counts v)"
  unfolding p_counts_def by (intro raises; auto simp: ok_iff intro: same_keys_has)

lemma protocol_diagnostics [raises]: "is_dict cs \<Longrightarrow> has cs ''unresolved'' \<Longrightarrow> protocol_only (diagnostics rows cs)"
proof -
  have "protocol_only (diagnostic row)" for row
    unfolding diagnostic_def by (intro raises; auto simp: ok_iff intro: same_keys_has)
  then show "has cs ''unresolved'' \<Longrightarrow> protocol_only (diagnostics rows cs)"
    unfolding diagnostics_def by (intro raises)
qed

lemma protocol_stores [raises]: "protocol_only (stores v preview outcome)"
proof -
  have "protocol_only (store_row preview st row)" for st row
    unfolding store_row_def
    by (cases st) (auto simp: ok_iff intro!: raises intro: same_keys_has)
  then show ?thesis
    unfolding stores_def by (intro raises; (auto intro!: raises split: prod.splits)?)
qed

lemma protocol_p_time [raises]: "protocol_only (p_time v)"
  unfolding p_time_def by (intro raises raises_only_mono [OF instant_raises]) auto

lemma protocol_progress [raises]:
  "has data ''next_seq'' \<Longrightarrow> has data ''received_bytes'' \<Longrightarrow> has data ''idle_expires_at'' \<Longrightarrow>
   has data ''absolute_expires_at'' \<Longrightarrow> protocol_only (progress data ms mb ready)"
  unfolding progress_def by (intro raises)

lemma protocol_receipt_ok [raises]: "protocol_only (receipt_ok v)"
  unfolding receipt_ok_def by (intro raises; auto simp: ok_iff RECEIPT_def intro: same_keys_has)

lemma protocol_binding_catalog [raises]: "protocol_only (binding_catalog tables data)"
proof -
  have "protocol_only (catalog_binding tables target st binding)" for target st binding
    unfolding catalog_binding_def
    by (cases st) (auto simp: ok_iff intro!: raises intro: same_keys_has)
  then show ?thesis
    unfolding binding_catalog_def Let_def
    by (intro raises; (auto simp: ok_iff COMMON_def intro: same_keys_has intro!: raises split: prod.splits)?)
qed

lemma protocol_recovery_data [raises]:
  assumes "is_dict data" "has params ''mode''"
  shows "protocol_only (recovery_data params data)"
proof -
  have "protocol_only (recovery_acknowledged params data)"
    unfolding recovery_acknowledged_def by (intro raises; auto simp: ok_iff intro: same_keys_has)
  moreover have "protocol_only (recovery_listed data)"
    unfolding recovery_listed_def Let_def by (intro raises; auto simp: ok_iff intro: same_keys_has)
  moreover have "protocol_only (recovery_inspected params data)"
    unfolding recovery_inspected_def
    by (intro raises; (auto simp: ok_iff intro: same_keys_has intro!: raises split: prod.splits)?)
  ultimately show ?thesis
    using assms unfolding recovery_data_def Let_def by (intro raises; auto)
qed

lemma protocol_snapshot_head:
  "protocol_only (seqR
     [p_shape data (COMMON @ [''scope'', ''revision'', ''binding_revision'', ''document_sha256'',
        ''size_bytes'', ''document_base64'']),
      p_require c, on data ''revision'' p_text, on data ''binding_revision'' p_text])"
  by (intro raises; auto simp: ok_iff intro: same_keys_has)

lemma protocol_snapshot_data [raises]: "protocol_only (snapshot_data params data sv)"
proof -
  let ?P = "\<lambda>e. (is_TransferError e \<or> (case e of DocumentError _ \<Rightarrow> True | _ \<Rightarrow> False)) \<or> is_ProtocolError e"
  have "raises_only ?P (decode_document a b c m)" for a b c m
    unfolding decode_document_def
    by (intro raises raises_only_mono [OF decode_bytes_raises] raises_only_mono [OF validate_document_bytes_raises]) auto
  moreover have "raises_only ?P (validate_document_bytes raw m)" for raw m
    by (rule raises_only_mono [OF validate_document_bytes_raises]) auto
  moreover have "raises_only ?P (p_require c)" for c
    by (rule raises_only_mono [OF protocol_primitives(1)]) auto
  moreover have any: "raises_only (\<lambda>e. True) m" for m :: "json result"
    by (auto intro: raises_onlyI)
  ultimately show ?thesis
    unfolding snapshot_data_def
    by (cases sv) (simp_all only: option.case,
        (intro raises_only_bindR raises_only_rethrow protocol_snapshot_head; auto simp: any)+)
qed

lemma check_request_fields:
  "check_request tables params = Inr () \<Longrightarrow>
     \<exists>ks. request_fields params (fld params ''op'') = Inr ks \<and> is_dict params \<and> same_keys params ks \<and>
       is_str (fld params ''op'') \<and> in_lits (fld params ''op'') OPS \<and>
       request_details tables params (fld params ''op'') = Inr ()"
  by (auto simp: check_request_def ok_iff)

lemma request_has:
  assumes "check_request tables params = Inr ()"
  shows "has params ''op''" "has params ''runtime''"
    "is_lit (fld params ''op'') ''recovery'' \<Longrightarrow> has params ''mode''"
    "is_lit (fld params ''op'') ''prepare'' \<Longrightarrow> has params ''budget_ms''"
    "is_lit (fld params ''op'') ''begin'' \<Longrightarrow> has params ''chunk_count'' \<and> has params ''size_bytes''"
    "is_lit (fld params ''op'') ''append'' \<Longrightarrow> has params ''data_base64'' \<and> has params ''chunk_sha256''"
proof -
  from check_request_fields [OF assms] obtain ks
    where f: "request_fields params (fld params ''op'') = Inr ks" and k: "same_keys params ks" by blast
  have ks: "{''op'', ''runtime''} \<subseteq> set ks"
    using f by (auto simp: request_fields_def recovery_params_def recovery_fields_def Let_def ok_iff split: if_splits)
  note h = same_keys_has [OF k]
  show "has params ''op''" "has params ''runtime''" using ks by (auto intro: h)
  show "is_lit (fld params ''op'') ''recovery'' \<Longrightarrow> has params ''mode''"
    using f by (intro h) (auto simp: request_fields_def recovery_params_def recovery_fields_def Let_def ok_iff)
  show "is_lit (fld params ''op'') ''prepare'' \<Longrightarrow> has params ''budget_ms''"
    using f by (intro h) (auto simp: request_fields_def is_lit_def Let_def ok_iff)
  show "is_lit (fld params ''op'') ''begin'' \<Longrightarrow> has params ''chunk_count'' \<and> has params ''size_bytes''"
    using f by (intro conjI h) (auto simp: request_fields_def is_lit_def Let_def ok_iff)
  show "is_lit (fld params ''op'') ''append'' \<Longrightarrow> has params ''data_base64'' \<and> has params ''chunk_sha256''"
    using f by (intro conjI h) (auto simp: request_fields_def is_lit_def Let_def ok_iff)
qed

lemma protocol_error_data [raises]:
  "has params ''op'' \<Longrightarrow> protocol_only (error_data params data status)"
  unfolding error_data_def by (intro raises; auto simp: ok_iff intro: same_keys_has)

lemma protocol_data_parts [raises]:
  "has params ''budget_ms'' \<Longrightarrow> protocol_only (prepare_data params data)"
  "protocol_only (bind_data tables params data)" "protocol_only (provision_data params data)"
  "has params ''chunk_count'' \<Longrightarrow> has params ''size_bytes'' \<Longrightarrow> protocol_only (begin_data params data)"
  "has params ''data_base64'' \<Longrightarrow> has params ''chunk_sha256'' \<Longrightarrow> protocol_only (append_data params data)"
  "protocol_only (abort_data data)"
  unfolding prepare_data_def bind_data_def provision_data_def begin_data_def append_data_def abort_data_def
  by (intro raises; auto simp: ok_iff COMMON_def intro: same_keys_has)+

lemma protocol_preview_data [raises]: "protocol_only (preview_data data)"
  unfolding preview_data_def
  by (intro raises; (auto simp: ok_iff COMMON_def p_counts_def intro: same_keys_has)?)

lemma protocol_stage_status [raises]: "is_dict data \<Longrightarrow> protocol_only (stage_status data)"
  unfolding stage_status_def Let_def
  by (intro raises; auto simp: ok_iff COMMON_def intro: same_keys_has)

lemma protocol_outcome_data [raises]: "is_dict data \<Longrightarrow> protocol_only (outcome_data params data)"
  unfolding outcome_data_def commit_data_def status_data_def Let_def
  by (intro raises; auto simp: ok_iff COMMON_def intro: same_keys_has split: if_splits)

lemma protocol_check_data [raises]:
  assumes "check_request tables params = Inr ()" "is_dict data"
  shows "protocol_only (check_data tables params data status sv)"
proof -
  note h = request_has [OF assms(1)]
  have "protocol_only (op_data tables params data sv)"
    unfolding op_data_def Let_def using h assms(2) by (intro raises; auto)
  then show ?thesis
    unfolding check_data_def using h(1,2) assms(2)
    by (intro raises; auto simp: on_has raises)
qed

lemma validate_request_ok:
  "validate_request tables w key = Inr ps \<Longrightarrow>
     check_request tables ps = Inr () \<and> is_dict ps \<and> (\<exists>raw. p_object w MAX_RPC_BYTES = Inr (ps, raw)) \<and>
     (\<exists>env. request_envelopes (u ''favorites_transfer'') ps key = Inr env \<and>
        plen (client env) \<le> MAX_RPC_BYTES \<and> plen (queued_upper_bound env) \<le> MAX_RPC_BYTES)"
  by (auto simp: validate_request_def bindR_ok rethrow_ok check_ok p_object_ok split: prod.splits)

lemma validate_request_check: "validate_request tables w key = Inr ps \<Longrightarrow> check_request tables ps = Inr ()"
  using validate_request_ok by blast

lemma validate_request_op: "validate_request tables w key = Inr ps \<Longrightarrow> has ps ''op''"
  using validate_request_check request_has(1) by blast

lemma p_object_dict: "p_object w lim = Inr (v, raw) \<Longrightarrow> is_dict v"
  by (simp add: p_object_ok)

lemma preview_request_has [simp]:
  "has (preview_request begin accepted) ''op''" "has (preview_request begin accepted) ''runtime''"
  by (simp_all add: preview_request_def)

lemma protocol_check_preview:
  "is_dict data \<Longrightarrow> protocol_only (check_data tables (preview_request begin accepted) data status sv)"
  unfolding check_data_def op_data_def Let_def
  by (intro raises; auto simp: on_has raises preview_request_def is_lit_def lit_def)

lemma protocol_context_parts [raises]: "protocol_only (context_parts tables c)"
proof -
  have "protocol_only (case rc_status_runtime c of None \<Rightarrow> Inr () | Some r \<Rightarrow> p_pattern (JStr r) runtime_pat)"
    by (simp add: raises split: option.splits)
  then show ?thesis
    unfolding context_parts_def
    by (intro raises_only_bindR)
      (auto intro!: raises raises_only_bindR protocol_check_preview
        intro: validate_request_op validate_request_check dest: p_object_dict split: prod.splits)
qed

lemma protocol_bind_context [raises]: "protocol_only (bind_context tables params data r c)"
  unfolding bind_context_def
  by (intro raises_only_bindR protocol_context_parts)
    (auto intro!: raises split: prod.splits option.splits)

lemma protocol_validate_data [raises]:
  assumes "check_request tables params = Inr ()" "is_dict data"
  shows "protocol_only (validate_data tables params data status ctx sv)"
  unfolding validate_data_def
  by (intro raises_only_bindR protocol_check_data [OF assms]) (auto intro!: raises split: option.splits)

end
