(* ===== verification/FavProtocolSamples.thy ===== *)
theory FavProtocolSamples
  imports FavEnvelopes FavProtocolErrors
begin

text \<open>
  A transfer, packet by packet, on which the properties of the protocol are instantiated: the begin
  request and its answer, a ready preview, a commit and its verified answer.
\<close>

definition ascii_tables :: unicode_tables where
  "ascii_tables = \<lparr>category_C = (\<lambda>c. c < 32 \<or> c = 127), white_space = (\<lambda>c. c = 32 \<or> 9 \<le> c \<and> c \<le> 13)\<rparr>"

abbreviation sample_uuid :: "string \<Rightarrow> json" where
  "sample_uuid s \<equiv> lit (s @ ''1111111-1111-4111-8111-111111111111'')"

definition sample_digest :: "string \<Rightarrow> json" where
  "sample_digest s = JStr (concat (replicate 64 (u s)))"

definition sample_plex_scope :: json where
  "sample_plex_scope = JObj [(u ''profileBindingId'', sample_uuid ''1''), (u ''sourceBindingId'', sample_uuid ''2''),
     (u ''provider'', lit ''plex'')]"

definition sample_begin :: json where
  "sample_begin = JObj
    [(u ''op'', lit ''begin''), (u ''runtime'', lit ''rt''), (u ''operation_id'', sample_uuid ''a''),
     (u ''scope'', sample_plex_scope), (u ''expected_revision'', lit ''r1''), (u ''binding_revision'', lit ''b1''),
     (u ''document_sha256'', sample_digest ''d''), (u ''size_bytes'', JInt 20), (u ''chunk_count'', JInt 1),
     (u ''persistence'', lit ''persistent'')]"

definition sample_accepted :: json where
  "sample_accepted = JObj
    [(u ''version'', JInt 1), (u ''runtime'', lit ''rt''), (u ''op'', lit ''begin''),
     (u ''operation_id'', sample_uuid ''a''), (u ''transaction_id'', sample_uuid ''b''),
     (u ''next_seq'', JInt 0), (u ''received_bytes'', JInt 0),
     (u ''idle_expires_at'', lit ''2026-01-01T00:00:00Z''), (u ''absolute_expires_at'', lit ''2026-01-01T00:05:00Z'')]"

definition sample_counts :: json where
  "sample_counts = JObj [(u ''channelLists'', JInt 1), (u ''channelMemberships'', JInt 2),
     (u ''mediaFavorites'', JInt 0), (u ''unresolved'', JInt 0)]"

definition sample_preview :: json where
  "sample_preview = JObj
    [(u ''version'', JInt 1), (u ''runtime'', lit ''rt''), (u ''op'', lit ''preview''),
     (u ''transaction_id'', sample_uuid ''b''), (u ''plan_digest'', sample_digest ''e''),
     (u ''base_revision'', lit ''r1''), (u ''binding_revision'', lit ''b1''), (u ''coverage'', COVERAGE),
     (u ''counts'', sample_counts), (u ''unresolved'', JArr []), (u ''ready'', JBool True),
     (u ''persistence'', lit ''persistent''),
     (u ''stores'', JArr [JObj [(u ''id'', lit ''s1''), (u ''expected_revision'', lit ''x1'')]])]"

definition sample_status :: json where
  "sample_status = JObj [(u ''op'', lit ''status''), (u ''runtime'', lit ''rt''), (u ''operation_id'', sample_uuid ''a'')]"

definition sample_receipt :: json where
  "sample_receipt = JObj
    [(u ''operation_id'', sample_uuid ''a''), (u ''scope'', sample_plex_scope), (u ''new_revision'', lit ''r2''),
     (u ''document_sha256'', sample_digest ''d''), (u ''plan_digest'', sample_digest ''e''),
     (u ''counts'', sample_counts), (u ''outcome'', lit ''verified''), (u ''persistence'', lit ''persistent'')]"

definition sample_committed :: json where
  "sample_committed = JObj
    [(u ''version'', JInt 1), (u ''runtime'', lit ''rt''), (u ''op'', lit ''status''),
     (u ''operation_id'', sample_uuid ''a''), (u ''state'', lit ''committed''), (u ''outcome'', lit ''verified''),
     (u ''persistence'', lit ''persistent''),
     (u ''per_store'', JArr [JObj [(u ''id'', lit ''s1''), (u ''outcome'', lit ''verified'')]]),
     (u ''receipt'', sample_receipt)]"

definition bytes_of :: "json \<Rightarrow> bytes" where
  "bytes_of v = (case p_encoded v of Inl _ \<Rightarrow> [] | Inr b \<Rightarrow> b)"

definition sample_context :: receipt_context where
  "sample_context = \<lparr>rc_begin = bytes_of sample_begin, rc_begin_result = bytes_of sample_accepted,
     rc_preview = bytes_of sample_preview, rc_status_runtime = None\<rparr>"

lemma sample_begin_ok: "check_request ascii_tables sample_begin = Inr ()"
  by code_simp

lemma sample_status_ok: "check_request ascii_tables sample_status = Inr ()"
  by code_simp

lemma sample_accepted_ok: "is_ok (check_data ascii_tables sample_begin sample_accepted (u ''ok'') None)"
  by code_simp

lemma sample_preview_ok:
  "is_ok (check_data ascii_tables (preview_request sample_begin sample_accepted) sample_preview (u ''ok'') None)"
  by code_simp

lemma sample_committed_ok:
  "is_ok (check_data ascii_tables sample_status sample_committed (u ''ok'') None)"
  by code_simp

lemma sample_envelope:
  "case request_envelopes (u ''favorites_transfer'') sample_begin None of
     Inl _ \<Rightarrow> False | Inr env \<Rightarrow> plen (client env) \<le> MAX_RPC_BYTES \<and> plen (queued_upper_bound env) \<le> MAX_RPC_BYTES"
  by (rule small_envelopes; code_simp)

lemma sample_status_envelope:
  "case request_envelopes (u ''favorites_transfer'') sample_status None of
     Inl _ \<Rightarrow> False | Inr env \<Rightarrow> plen (client env) \<le> MAX_RPC_BYTES \<and> plen (queued_upper_bound env) \<le> MAX_RPC_BYTES"
  by (rule small_envelopes; code_simp)

section \<open>From a value to its bytes and back\<close>

definition small :: "json \<Rightarrow> bool" where
  "small v \<longleftrightarrow> is_dict v \<and> plain v \<and> enc_text v \<and> jsize v \<le> MAX_RPC_BYTES \<and> walk MAX_RPC_BYTES [(v, 0)] 0 = Inr ()"

lemma small_bytes:
  assumes "small v"
  shows "p_encoded v = Inr (bytes_of v)" "plen (bytes_of v) = jsize v" "0 < jsize v"
proof -
  have d: "dumpable v" using assms plain_dumpable by (simp add: small_def enc_text_def)
  obtain b where b: "utf8_encode (ctext v) = Inr b"
    using assms utf8_encode_iff [of "ctext v"] by (auto simp: small_def enc_text_def)
  then have e: "p_encoded v = Inr b"
    using d by (simp add: p_encoded_def dumps_compact_def dumps_def)
  then show "p_encoded v = Inr (bytes_of v)" by (simp add: bytes_of_def)
  show "plen (bytes_of v) = jsize v"
    using e utf8_encode_size [OF b] by (simp add: bytes_of_def jsize_def)
  show "0 < jsize v"
  proof -
    have "0 < plen (ctext v)" using assms by (auto simp: small_def enc_text_def is_dict_iff plen_def)
    then show ?thesis using utf8_size_length [of "ctext v"] unfolding jsize_def by linarith
  qed
qed

lemma small_object:
  assumes "small v" "jsize v \<le> lim"
  shows "p_object (Raw (bytes_of v)) lim = Inr (v, bytes_of v)"
  using small_bytes [OF assms(1)] assms encoded_loads [of v "bytes_of v"]
  by (simp add: p_object_ok wire_bytes_def small_def enc_text_def)

lemma small_parsed:
  assumes "small v"
  shows "p_object (Parsed v) MAX_RPC_BYTES = Inr (v, bytes_of v)"
  using small_bytes [OF assms(1)] assms encoded_loads [of v "bytes_of v"]
  by (simp add: p_object_ok wire_bytes_def small_def enc_text_def p_require_def)

lemma request_returns:
  assumes "p_object w MAX_RPC_BYTES = Inr (v, raw)" "check_request tables v = Inr ()"
    "case request_envelopes (u ''favorites_transfer'') v key of
     Inl _ \<Rightarrow> False | Inr env \<Rightarrow> plen (client env) \<le> MAX_RPC_BYTES \<and> plen (queued_upper_bound env) \<le> MAX_RPC_BYTES"
  shows "validate_request tables w key = Inr v"
  using assms by (auto simp: validate_request_def split: sum.splits)

lemma sample_small:
  "small sample_begin" "small sample_accepted" "small sample_preview" "small sample_status" "small sample_committed"
  by code_simp+

lemma sample_context_parts:
  "context_parts ascii_tables sample_context = Inr (sample_begin, sample_accepted, sample_preview)"
proof -
  have lim: "small v \<Longrightarrow> jsize v \<le> MAX_RESPONSE_BYTES" for v by (simp add: small_def enc_text_def)
  have req: "validate_request ascii_tables (Raw (bytes_of sample_begin)) None = Inr sample_begin"
    by (rule request_returns [OF small_object sample_begin_ok sample_envelope])
      (use sample_small in \<open>simp_all add: small_def enc_text_def\<close>)
  have op: "on sample_begin ''op'' (\<lambda>op. c_require (is_lit op ''begin'')) = Inr ()"
    by code_simp
  have agree: "fld sample_preview ''ready'' = JBool True"
    "py_eq (fld sample_preview ''base_revision'') (fld sample_begin ''expected_revision'')"
    "py_eq (fld sample_preview ''binding_revision'') (fld sample_begin ''binding_revision'')"
    by code_simp+
  obtain e f where "check_data ascii_tables sample_begin sample_accepted (u ''ok'') None = Inr e"
    "check_data ascii_tables (preview_request sample_begin sample_accepted) sample_preview (u ''ok'') None = Inr f"
    using sample_accepted_ok sample_preview_ok by (auto simp: is_ok_iff)
  with req op agree show ?thesis
    using small_object [OF sample_small(2) lim [OF sample_small(2)]]
      small_object [OF sample_small(3) lim [OF sample_small(3)]]
    by (simp add: context_parts_def sample_context_def c_require_def)
qed

lemma sample_binds: "\<exists>e r. check_data ascii_tables sample_status sample_committed (u ''ok'') None = Inr e \<and>
    receipt e = Some r \<and> bind_context ascii_tables sample_status sample_committed (Some r) sample_context = Inr ()"
proof -
  obtain e where e: "check_data ascii_tables sample_status sample_committed (u ''ok'') None = Inr e"
    using sample_committed_ok by (auto simp: is_ok_iff)
  have "map_option (\<lambda>e. receipt e) (case check_data ascii_tables sample_status sample_committed (u ''ok'') None of
      Inl _ \<Rightarrow> None | Inr e \<Rightarrow> Some e) = Some (Some sample_receipt)"
    by code_simp
  then have r: "receipt e = Some sample_receipt" using e by simp
  have "bind_context ascii_tables sample_status sample_committed (Some sample_receipt) sample_context = Inr ()"
    unfolding bind_context_def sample_context_parts bindR_Inr prod.case
    by (simp add: sample_context_def) code_simp
  with e r show ?thesis by blast
qed

end
