(* ===== verification/TransferBudget.thy ===== *)
theory TransferBudget
  imports Complex_Main FavTransfer
begin

text \<open>
  The request budget and the dispatch window of \<open>src/cli/favorites_transfer.py\<close>. Python's floats are exact
  rationals here: a number that is a float in the code is the rational it stands for, and what is computed
  with it is not rounded.
\<close>

section \<open>Numbers\<close>

text \<open>The value of a finite Python number.\<close>

fun num_value :: "json \<Rightarrow> rat option" where
  "num_value (JInt i) = Some (of_int i)"
| "num_value (JFloat (FFin neg m e)) =
     Some ((if neg then -1 else 1) * of_nat m * (if 0 \<le> e then 2 ^ nat e else 1 / 2 ^ nat (- e)))"
| "num_value _ = None"

text \<open>\<open>float(i)\<close> overflows from half a unit above the largest float on.\<close>

definition float_overflows :: "json \<Rightarrow> bool" where
  "float_overflows v \<longleftrightarrow> (case v of JInt i \<Rightarrow> 2 ^ 1024 - 2 ^ 970 \<le> \<bar>i\<bar> | _ \<Rightarrow> False)"

text \<open>\<open>not math.isfinite(x)\<close> for the float nearest to \<open>x\<close>.\<close>

definition beyond_floats :: "rat \<Rightarrow> bool" where
  "beyond_floats r \<longleftrightarrow> 2 ^ 1024 - 2 ^ 970 \<le> \<bar>r\<bar>"

section \<open>Budgets\<close>

abbreviation invalid_budget :: exn where "invalid_budget \<equiv> TransferError ''invalid_budget''"

abbreviation MIN_COMMAND_INTERVAL :: rat where "MIN_COMMAND_INTERVAL \<equiv> 3 / 2"
abbreviation CONTROLLER_REQUESTS :: int where "CONTROLLER_REQUESTS \<equiv> 240"
abbreviation DEVICE_REQUESTS :: int where "DEVICE_REQUESTS \<equiv> 120"

record budget =
  bg_commands :: int
  bg_controller :: int
  bg_device :: int
  bg_paced :: rat
  bg_http :: rat
  bg_reserve :: rat
  bg_minimum :: rat

record dispatch =
  dw_start :: rat
  dw_wait :: rat
  dw_timeout :: rat

definition t_count :: "json \<Rightarrow> int \<Rightarrow> int \<Rightarrow> int result" where
  "t_count v low high =
     (if is_int v \<and> low \<le> int_of v \<and> int_of v \<le> high then Inr (int_of v) else Inl invalid_budget)"

definition t_seconds :: "json \<Rightarrow> rat \<Rightarrow> rat result" where
  "t_seconds v low = (if float_overflows v then Inl invalid_budget else
     (case num_value v of None \<Rightarrow> Inl invalid_budget
      | Some r \<Rightarrow> if r < low then Inl invalid_budget else Inr r))"

definition estimate_budget :: "json \<Rightarrow> json \<Rightarrow> json \<Rightarrow> json \<Rightarrow> json \<Rightarrow> json \<Rightarrow> int \<Rightarrow> int \<Rightarrow> budget result" where
  "estimate_budget chunk_count control controller_requests device_requests reserve interval controller_limit device_limit =
     bindR (t_count chunk_count 1 MAX_CHUNKS) (\<lambda>n.
     bindR (t_count control 1 MAX_CHUNKS) (\<lambda>k.
     let commands = n + k in
     bindR (t_count controller_requests commands 1000000) (\<lambda>cr.
     bindR (t_count device_requests commands 1000000) (\<lambda>dr.
     bindR (t_seconds interval MIN_COMMAND_INTERVAL) (\<lambda>i.
     bindR (t_seconds reserve 0) (\<lambda>res.
     bindR (check invalid_budget (0 < res)) (\<lambda>_.
     bindR (limit controller_limit CONTROLLER_REQUESTS) (\<lambda>cl.
     bindR (limit device_limit DEVICE_REQUESTS) (\<lambda>dl.
     let paced = of_int commands * i;
         http = max (of_int (cr * 60) / of_int cl) (of_int (dr * 60) / of_int dl)
     in bindR (check invalid_budget (\<not> beyond_floats (max paced http + res))) (\<lambda>_.
        Inr \<lparr>bg_commands = commands, bg_controller = cr, bg_device = dr, bg_paced = paced, bg_http = http,
          bg_reserve = res, bg_minimum = max paced http + res\<rparr>))))))))))"

definition budget_left :: "budget \<Rightarrow> rat \<Rightarrow> rat \<Rightarrow> rat result" where
  "budget_left b d t =
     bindR (check invalid_budget (0 < bg_minimum b)) (\<lambda>_.
     bindR (check (TransferError ''deadline_insufficient'') (bg_minimum b \<le> d - t)) (\<lambda>_. Inr (d - t)))"

definition require_budget :: "budget \<Rightarrow> json \<Rightarrow> json \<Rightarrow> rat result" where
  "require_budget b deadline now =
     bindR (t_seconds deadline 0) (\<lambda>d. bindR (t_seconds now 0) (\<lambda>t. budget_left b d t))"

text \<open>
  The timeout is at most the deadline, so it is finite or, where a start or a sum is beyond the floats, not
  positive; the check that it is finite decides nothing more.
\<close>

definition dispatch_window ::
  "json \<Rightarrow> json \<Rightarrow> json \<Rightarrow> json \<Rightarrow> json option \<Rightarrow> json option \<Rightarrow> json \<Rightarrow> dispatch result" where
  "dispatch_window deadline now reserve remaining_commands previous not_before interval =
     bindR (t_seconds deadline 0) (\<lambda>d.
     bindR (t_seconds now 0) (\<lambda>t.
     bindR (t_seconds reserve 0) (\<lambda>res.
     bindR (t_seconds interval MIN_COMMAND_INTERVAL) (\<lambda>i.
     bindR (t_count remaining_commands 1 (2 * MAX_CHUNKS)) (\<lambda>k.
     bindR (check invalid_budget (0 < res)) (\<lambda>_.
     bindR (case previous of None \<Rightarrow> Inr t
       | Some p \<Rightarrow> bindR (t_seconds p 0) (\<lambda>q. bindR (check invalid_budget (q \<le> t)) (\<lambda>_. Inr (max t (q + i))))) (\<lambda>s1.
     bindR (case not_before of None \<Rightarrow> Inr s1 | Some v \<Rightarrow> bindR (t_seconds v 0) (\<lambda>q. Inr (max s1 q))) (\<lambda>start.
     let timeout = d - start - res - of_int (k - 1) * i in
     bindR (check (TransferError ''deadline_exhausted'') (0 < timeout)) (\<lambda>_.
       Inr \<lparr>dw_start = start, dw_wait = start - t, dw_timeout = timeout\<rparr>)))))))))"

section \<open>A budget that is met\<close>

lemma t_seconds_ok [ok_iff]:
  "t_seconds v low = Inr r \<longleftrightarrow> \<not> float_overflows v \<and> num_value v = Some r \<and> low \<le> r"
  by (auto simp: t_seconds_def split: option.splits)

lemma t_count_ok [ok_iff]: "t_count v low high = Inr n \<longleftrightarrow> v = JInt n \<and> low \<le> n \<and> n \<le> high"
  by (cases v) (auto simp: t_count_def)

lemma estimate_ok:
  assumes "estimate_budget n k cr dr reserve interval cl dl = Inr b"
  shows "\<exists>i res. t_seconds interval MIN_COMMAND_INTERVAL = Inr i \<and> t_seconds reserve 0 = Inr res \<and> 0 < res \<and>
    bg_reserve b = res \<and> 2 \<le> bg_commands b \<and> bg_commands b \<le> 2 * MAX_CHUNKS \<and>
    of_int (bg_commands b) * i + res \<le> bg_minimum b"
  using assms by (auto simp: estimate_budget_def Let_def ok_iff)



end
