(* ===== verification/Effects.thy ===== *)
theory Effects
  imports Prelude
begin

text \<open>
  Code with a state: a run takes the state and gives the result and the state it left, also when it
  raises, since an exception in Python keeps the effects made before it. The rules take such code
  apart the way \<open>ok_iff\<close> does for pure code, and \<open>keeps\<close> carries an invariant through it.
\<close>

type_synonym ('s, 'a) io = "'s \<Rightarrow> 'a result \<times> 's"

definition returnS :: "'a \<Rightarrow> ('s, 'a) io" where
  "returnS x s = (Inr x, s)"

definition raiseS :: "exn \<Rightarrow> ('s, 'a) io" where
  "raiseS e s = (Inl e, s)"

definition liftS :: "'a result \<Rightarrow> ('s, 'a) io" where
  "liftS r s = (r, s)"

definition bindS :: "('s, 'a) io \<Rightarrow> ('a \<Rightarrow> ('s, 'b) io) \<Rightarrow> ('s, 'b) io" where
  "bindS m f s = (case m s of (Inl e, s') \<Rightarrow> (Inl e, s') | (Inr x, s') \<Rightarrow> f x s')"

definition getS :: "('s \<Rightarrow> 'a) \<Rightarrow> ('s, 'a) io" where
  "getS f s = (Inr (f s), s)"

definition modS :: "('s \<Rightarrow> 's) \<Rightarrow> ('s, unit) io" where
  "modS f s = (Inr (), f s)"

definition checkS :: "exn \<Rightarrow> bool \<Rightarrow> ('s, unit) io" where
  "checkS e c = liftS (check e c)"

text \<open>\<open>try: m except ... as e: h(e)\<close>; a handler that does not catch \<open>e\<close> raises it again.\<close>

definition catchS :: "('s, 'a) io \<Rightarrow> (exn \<Rightarrow> ('s, 'a) io) \<Rightarrow> ('s, 'a) io" where
  "catchS m h s = (case m s of (Inl e, s') \<Rightarrow> h e s' | (Inr x, s') \<Rightarrow> (Inr x, s'))"

definition rethrowS :: "(exn \<Rightarrow> bool) \<Rightarrow> exn \<Rightarrow> ('s, 'a) io \<Rightarrow> ('s, 'a) io" where
  "rethrowS P e' m = catchS m (\<lambda>e. raiseS (if P e then e' else e))"

text \<open>\<open>try: m finally: c\<close> for a \<open>c\<close> that does not raise.\<close>

definition finallyS :: "('s, 'a) io \<Rightarrow> ('s \<Rightarrow> 's) \<Rightarrow> ('s, 'a) io" where
  "finallyS m c s = (case m s of (r, s') \<Rightarrow> (r, c s'))"

fun forS :: "('a \<Rightarrow> ('s, unit) io) \<Rightarrow> 'a list \<Rightarrow> ('s, unit) io" where
  "forS f [] = returnS ()"
| "forS f (x # xs) = bindS (f x) (\<lambda>_. forS f xs)"

fun foldS :: "('b \<Rightarrow> 'a \<Rightarrow> ('s, 'b) io) \<Rightarrow> 'b \<Rightarrow> 'a list \<Rightarrow> ('s, 'b) io" where
  "foldS f b [] = returnS b"
| "foldS f b (x # xs) = bindS (f b x) (\<lambda>b'. foldS f b' xs)"

section \<open>When a run returns\<close>

named_theorems run_iff \<open>when a stateful construct returns normally\<close>

lemma returnS_run [run_iff]: "returnS x s = (Inr y, t) \<longleftrightarrow> y = x \<and> t = s"
  by (auto simp: returnS_def)

lemma raiseS_run [run_iff]: "raiseS e s = (Inr y, t) \<longleftrightarrow> False"
  by (simp add: raiseS_def)

lemma liftS_run [run_iff]: "liftS r s = (Inr y, t) \<longleftrightarrow> r = Inr y \<and> t = s"
  by (auto simp: liftS_def)

lemma bindS_run [run_iff]: "bindS m f s = (Inr y, t) \<longleftrightarrow> (\<exists>x s'. m s = (Inr x, s') \<and> f x s' = (Inr y, t))"
  by (auto simp: bindS_def split: prod.splits sum.splits)

lemma getS_run [run_iff]: "getS f s = (Inr y, t) \<longleftrightarrow> y = f s \<and> t = s"
  by (auto simp: getS_def)

lemma modS_run [run_iff]: "modS f s = (Inr y, t) \<longleftrightarrow> t = f s"
  by (auto simp: modS_def)

lemma checkS_run [run_iff]: "checkS e c s = (Inr y, t) \<longleftrightarrow> c \<and> t = s"
  by (auto simp: checkS_def liftS_def check_ok)

lemma rethrowS_run [run_iff]: "rethrowS P e m s = (Inr y, t) \<longleftrightarrow> m s = (Inr y, t)"
  by (auto simp: rethrowS_def catchS_def raiseS_def split: prod.splits sum.splits)

lemma finallyS_run [run_iff]: "finallyS m c s = (Inr y, t) \<longleftrightarrow> (\<exists>s'. m s = (Inr y, s') \<and> t = c s')"
  by (auto simp: finallyS_def split: prod.splits)

lemma bindS_simps [simp]:
  "m s = (Inr x, s') \<Longrightarrow> bindS m f s = f x s'"
  "m s = (Inl e, s') \<Longrightarrow> bindS m f s = (Inl e, s')"
  by (simp_all add: bindS_def)

lemmas run_simps = returnS_def raiseS_def liftS_def getS_def modS_def checkS_def

section \<open>What a run keeps\<close>

definition keeps :: "('s \<Rightarrow> bool) \<Rightarrow> ('s, 'a) io \<Rightarrow> bool" where
  "keeps I m \<longleftrightarrow> (\<forall>s. I s \<longrightarrow> I (snd (m s)))"

named_theorems keeps_intro \<open>an invariant goes through a construct\<close>

lemma keepsD: "keeps I m \<Longrightarrow> m s = (r, s') \<Longrightarrow> I s \<Longrightarrow> I s'"
  by (metis keeps_def snd_conv)

lemma keeps_const [keeps_intro]:
  "keeps I (returnS x)" "keeps I (raiseS e)" "keeps I (liftS r)" "keeps I (getS f)" "keeps I (checkS e c)"
  by (simp_all add: keeps_def run_simps)

lemma keeps_modS: "(\<And>s. I s \<Longrightarrow> I (f s)) \<Longrightarrow> keeps I (modS f)"
  by (simp add: keeps_def modS_def)

lemma keeps_bindS [keeps_intro]: "keeps I m \<Longrightarrow> (\<And>x. keeps I (f x)) \<Longrightarrow> keeps I (bindS m f)"
  by (auto simp: keeps_def bindS_def split: prod.splits sum.splits)

lemma keeps_catchS [keeps_intro]: "keeps I m \<Longrightarrow> (\<And>e. keeps I (h e)) \<Longrightarrow> keeps I (catchS m h)"
  by (auto simp: keeps_def catchS_def split: prod.splits sum.splits)

lemma keeps_rethrowS [keeps_intro]: "keeps I m \<Longrightarrow> keeps I (rethrowS P e m)"
  by (auto simp: rethrowS_def intro: keeps_intro)

lemma keeps_finallyS [keeps_intro]: "keeps I m \<Longrightarrow> (\<And>s. I s \<Longrightarrow> I (c s)) \<Longrightarrow> keeps I (finallyS m c)"
  by (auto simp: keeps_def finallyS_def split: prod.splits)

lemma keeps_if [keeps_intro]: "(c \<Longrightarrow> keeps I m) \<Longrightarrow> (\<not> c \<Longrightarrow> keeps I n) \<Longrightarrow> keeps I (if c then m else n)"
  by simp

lemma keeps_forS [keeps_intro]: "(\<And>x. keeps I (f x)) \<Longrightarrow> keeps I (forS f xs)"
  by (induction xs) (auto intro: keeps_intro)

lemma keeps_foldS [keeps_intro]: "(\<And>b x. keeps I (f b x)) \<Longrightarrow> keeps I (foldS f b xs)"
  by (induction xs arbitrary: b) (auto intro: keeps_intro)

section \<open>What a run establishes\<close>

text \<open>From a state with \<open>P\<close>, a run that returns \<open>x\<close> ends with \<open>Q x\<close>, and one that raises \<open>e\<close> with \<open>E e\<close>.\<close>

definition triple :: "('s \<Rightarrow> bool) \<Rightarrow> ('s, 'a) io \<Rightarrow> ('a \<Rightarrow> 's \<Rightarrow> bool) \<Rightarrow> (exn \<Rightarrow> 's \<Rightarrow> bool) \<Rightarrow> bool" where
  "triple P m Q E \<longleftrightarrow>
     (\<forall>s s'. P s \<longrightarrow> (\<forall>x. m s = (Inr x, s') \<longrightarrow> Q x s') \<and> (\<forall>e. m s = (Inl e, s') \<longrightarrow> E e s'))"

lemma tripleI:
  assumes "\<And>s x s'. P s \<Longrightarrow> m s = (Inr x, s') \<Longrightarrow> Q x s'" "\<And>s e s'. P s \<Longrightarrow> m s = (Inl e, s') \<Longrightarrow> E e s'"
  shows "triple P m Q E"
  using assms by (simp add: triple_def)

lemma triple_returns: "triple P m Q E \<Longrightarrow> P s \<Longrightarrow> m s = (Inr x, s') \<Longrightarrow> Q x s'"
  by (auto simp: triple_def)

lemma triple_raises: "triple P m Q E \<Longrightarrow> P s \<Longrightarrow> m s = (Inl e, s') \<Longrightarrow> E e s'"
  by (auto simp: triple_def)

lemma bindS_raises: "bindS m f s = (Inl e, t) \<longleftrightarrow> m s = (Inl e, t) \<or> (\<exists>x s'. m s = (Inr x, s') \<and> f x s' = (Inl e, t))"
  by (auto simp: bindS_def split: prod.splits sum.splits)

lemma triple_bindS:
  assumes "triple P m R E" "\<And>x. triple (R x) (f x) Q E"
  shows "triple P (bindS m f) Q E"
  using assms by (intro tripleI) (auto simp: bindS_run bindS_raises triple_def)

lemma triple_pre: "triple P m Q E \<Longrightarrow> (\<And>s. P' s \<Longrightarrow> P s) \<Longrightarrow> triple P' m Q E"
  by (auto simp: triple_def)

lemma triple_post:
  "triple P m Q E \<Longrightarrow> (\<And>x s. Q x s \<Longrightarrow> Q' x s) \<Longrightarrow> (\<And>e s. E e s \<Longrightarrow> E' e s) \<Longrightarrow> triple P m Q' E'"
  by (auto simp: triple_def)

lemma keeps_triple: "triple I m (\<lambda>_. I) (\<lambda>_. I) \<Longrightarrow> keeps I m"
  unfolding keeps_def triple_def by (metis snd_conv sum.exhaust surj_pair)

lemma triple_keeps: "keeps I m \<Longrightarrow> triple I m (\<lambda>_. I) (\<lambda>_. I)"
  by (auto intro!: tripleI dest: keepsD)

lemma triple_simple:
  "triple P (returnS x) Q E \<longleftrightarrow> (\<forall>s. P s \<longrightarrow> Q x s)" "triple P (raiseS e) Q E \<longleftrightarrow> (\<forall>s. P s \<longrightarrow> E e s)"
  "triple P (getS f) Q E \<longleftrightarrow> (\<forall>s. P s \<longrightarrow> Q (f s) s)" "triple P (modS g) U E \<longleftrightarrow> (\<forall>s. P s \<longrightarrow> U () (g s))"
  "triple P (checkS e c) U E \<longleftrightarrow> (\<forall>s. P s \<longrightarrow> (if c then U () s else E e s))"
  "triple P (liftS r) Q E \<longleftrightarrow> (\<forall>s. P s \<longrightarrow> (case r of Inl e \<Rightarrow> E e s | Inr x \<Rightarrow> Q x s))"
  by (auto simp: triple_def run_simps check_def split: sum.splits)

end
