(* ===== verification/RemoteTransport.thy ===== *)
theory RemoteTransport
  imports TransferBudget Effects FavProtocolResult
begin

text \<open>
  \<open>_RequestTransport\<close> of \<open>src/cli/favorites_remote.py\<close>: one deadline, paced HTTP calls, one POST for each
  request and no replay of it. The clock, the answers of the controller and the cancellation of a group
  are the environment: finite scripts in the state, consumed reading by reading and call by call; a run
  that needs more than its script ends with \<open>ScriptEnd\<close>. Times are exact rationals, so the rounding of
  Python's floats is not part of the model. The calls made are kept in the state, newest first.
\<close>

section \<open>Errors\<close>

definition ERROR_CODES :: "string list" where
  "ERROR_CODES = [''invalid_configuration'', ''invalid_snapshot'', ''invalid_document'', ''invalid_context'',
     ''deadline_insufficient'', ''deadline'', ''clock_invalid'', ''already_started'', ''invalid_response'',
     ''transport'', ''http_error'', ''pending_timeout'', ''player_rejected'', ''player_unsupported'',
     ''not_ready'', ''context_not_saved'']"

definition remote_error :: "string \<Rightarrow> pystr option \<Rightarrow> string option \<Rightarrow> int option \<Rightarrow> exn" where
  "remote_error code rid phase http = RemoteError (if code \<in> set ERROR_CODES then code else ''invalid_response'') rid phase http"

abbreviation remote :: "string \<Rightarrow> exn" where
  "remote code \<equiv> remote_error code None None None"

text \<open>\<open>valid_queue_ack\<close>: the acknowledgement of an enqueued request, with an optional wait hint.\<close>

datatype body = Json json | Octets bytes

definition wait_hint_ok :: "json \<Rightarrow> bool" where
  "wait_hint_ok w = (case w of
     JInt i \<Rightarrow> 1 \<le> i \<and> i \<le> 1000
   | JStr s \<Rightarrow> head_pat (\<lambda>c. is_digit c \<and> c \<noteq> 48) is_digit 3 s \<and> int (dec_val s) \<le> 1000
   | _ \<Rightarrow> False)"

definition valid_queue_ack :: "int \<Rightarrow> body \<Rightarrow> bool" where
  "valid_queue_ack status queued = (case queued of Octets _ \<Rightarrow> False | Json v \<Rightarrow>
     status = 202 \<and> is_dict v \<and> (same_keys v [''id'', ''status''] \<or> same_keys v [''id'', ''status'', ''receipt_wait_ms''])
     \<and> is_lit (fld v ''status'') ''queued'' \<and> is_str (fld v ''id'') \<and> request_id_pat (str_of (fld v ''id''))
     \<and> (if has v ''receipt_wait_ms'' then wait_hint_ok (fld v ''receipt_wait_ms'') else True))"

section \<open>The peer and the state of its calls\<close>

text \<open>What the environment gives: a reading of the clock with whether the group is cancelled by then, and
  the outcome of an HTTP call. \<open>Failed code transport\<close>: the call raised; \<open>code\<close> is the exception's HTTP
  status, \<open>transport\<close> whether it is an \<open>OSError\<close> or of a transport category.\<close>

record reading =
  rd_value :: json
  rd_cancelled :: bool

datatype answer = Replied int body | Odd_reply | Failed "int option" bool

record call_entry =
  ce_post :: bool
  ce_path :: pystr
  ce_payload :: "json option"
  ce_time :: rat
  ce_timeout :: rat

record receipt_note =
  rn_action :: pystr
  rn_request :: "pystr option"
  rn_status :: pystr

record wire_state =
  ws_clock :: "reading list"
  ws_answers :: "answer list"
  ws_server :: json
  ws_last :: "rat option"
  ws_last_post :: "rat option"
  ws_last_http :: "rat option"
  ws_times :: "rat list"
  ws_deadline :: rat
  ws_calls :: "call_entry list"
  ws_notes :: "receipt_note list"

record peer =
  pr_device :: pystr
  pr_runtime :: pystr
  pr_envelope_limit :: int
  pr_response_limit :: int
  pr_metadata :: int
  pr_allowed :: "string list option"
  pr_target :: "pystr \<times> pystr \<times> pystr"
  pr_query :: pystr

text \<open>The protocol module and the action of a class: \<open>_protocol\<close> and \<open>_action\<close>.\<close>

record ('r, 'c) protocol =
  pt_action :: pystr
  pt_request :: "json \<Rightarrow> json result"
  pt_response :: "json \<Rightarrow> bytes \<Rightarrow> json \<Rightarrow> 'c option \<Rightarrow> int \<Rightarrow> 'r result"
  pt_status :: "'r \<Rightarrow> pystr"
  pt_error :: "exn \<Rightarrow> bool"

definition RECEIPT_ACTIONS :: "string list" where
  "RECEIPT_ACTIONS = [''favorites_transfer'', ''favorites_global'', ''favorites_global_items'',
     ''favorites_global_recovery'', ''capabilities'']"

definition emit_receipt :: "pystr \<Rightarrow> pystr option \<Rightarrow> pystr \<Rightarrow> wire_state \<Rightarrow> wire_state" where
  "emit_receipt action rid status s = s\<lparr>ws_notes :=
     \<lparr>rn_action = (if in_lits (JStr action) RECEIPT_ACTIONS then action else u ''unknown''),
      rn_request = (case rid of None \<Rightarrow> None | Some r \<Rightarrow> if request_id_pat r then Some r else None),
      rn_status = (if in_lits (JStr status) [''ok'', ''rejected'', ''unsupported''] then status else u ''unknown'')\<rparr> # ws_notes s\<rparr>"

section \<open>Clock\<close>

definition now :: "(wire_state, rat) io" where
  "now s = (case ws_clock s of [] \<Rightarrow> (Inl ScriptEnd, s) | r # rs \<Rightarrow>
     let s' = s\<lparr>ws_clock := rs\<rparr> in
       case num_value (rd_value r) of None \<Rightarrow> (Inl (remote ''clock_invalid''), s')
       | Some t \<Rightarrow>
           if t < 0 \<or> (case ws_last s of None \<Rightarrow> False | Some l \<Rightarrow> t < l) then (Inl (remote ''clock_invalid''), s')
           else (Inr t, s'\<lparr>ws_last := Some t\<rparr>))"

definition cancelled :: "wire_state \<Rightarrow> bool" where
  "cancelled s = (case ws_clock s of [] \<Rightarrow> False | r # _ \<Rightarrow> rd_cancelled r)"

lemma now_run:
  "now s = (Inr t, s1) \<longleftrightarrow> (\<exists>r rs. ws_clock s = r # rs \<and> num_value (rd_value r) = Some t \<and> 0 \<le> t \<and>
     (case ws_last s of None \<Rightarrow> True | Some l \<Rightarrow> l \<le> t) \<and> s1 = s\<lparr>ws_clock := rs, ws_last := Some t\<rparr>)"
  by (auto simp: now_def Let_def split: list.splits option.splits if_splits)

lemma now_shorter: "now s = (Inr t, s1) \<Longrightarrow> length (ws_clock s1) < length (ws_clock s)"
  by (auto simp: now_run)

function wait_until :: "rat \<Rightarrow> rat \<Rightarrow> wire_state \<Rightarrow> unit result \<times> wire_state" where
  "wait_until target deadline s =
     (if cancelled s then (Inl KeyboardInterrupt, s)
      else case now s of (Inl e, s1) \<Rightarrow> (Inl e, s1)
      | (Inr t, s1) \<Rightarrow>
          if deadline \<le> t \<or> deadline \<le> target then (Inl (remote ''deadline''), s1)
          else if target \<le> t then (Inr (), s1)
          else if cancelled s1 then (Inl KeyboardInterrupt, s1)
          else (case now s1 of (Inl e, s2) \<Rightarrow> (Inl e, s2)
            | (Inr t2, s2) \<Rightarrow>
                if t2 \<le> t then (Inl (remote ''clock_invalid''), s2) else wait_until target deadline s2))"
  by pat_completeness auto
termination
  by (relation "measure (\<lambda>(_, _, s). length (ws_clock s))") (auto dest!: now_shorter [OF sym])

declare wait_until.simps [simp del]

section \<open>Pacing and one HTTP call\<close>

abbreviation POST_INTERVAL :: rat where "POST_INTERVAL \<equiv> 3 / 2"
abbreviation HTTP_INTERVAL :: rat where "HTTP_INTERVAL \<equiv> 1 / 2"
abbreviation POLL_INTERVAL :: rat where "POLL_INTERVAL \<equiv> 3 / 2"

definition slot_start :: "bool \<Rightarrow> rat \<Rightarrow> rat \<Rightarrow> wire_state \<Rightarrow> rat" where
  "slot_start post t not_before s =
     (let a = max t not_before;
          b = (case ws_last_http s of None \<Rightarrow> a | Some l \<Rightarrow> max a (l + HTTP_INTERVAL));
          c = (case ws_last_post s of None \<Rightarrow> b | Some l \<Rightarrow> if post then max b (l + POST_INTERVAL) else b)
      in if 120 \<le> length (ws_times s) then max c (hd (ws_times s) + 60) else c)"

definition slot :: "bool \<Rightarrow> rat \<Rightarrow> rat \<Rightarrow> (wire_state, unit) io" where
  "slot post deadline not_before =
     bindS now (\<lambda>t.
     bindS (modS (\<lambda>s. s\<lparr>ws_times := dropWhile (\<lambda>x. x \<le> t - 60) (ws_times s)\<rparr>)) (\<lambda>_.
     bindS (getS (slot_start post t not_before)) (\<lambda>start. wait_until start deadline)))"

text \<open>The call itself: it is recorded, and the environment answers it.\<close>

definition http_call :: "call_entry \<Rightarrow> (wire_state, answer) io" where
  "http_call entry s =
     (let s' = s\<lparr>ws_calls := entry # ws_calls s\<rparr> in
      case ws_answers s of [] \<Rightarrow> (Inl ScriptEnd, s') | a # rest \<Rightarrow> (Inr a, s'\<lparr>ws_answers := rest\<rparr>))"

definition started_call :: "bool \<Rightarrow> rat \<Rightarrow> wire_state \<Rightarrow> wire_state" where
  "started_call post t s = s\<lparr>ws_last_http := Some t, ws_last_post := (if post then Some t else ws_last_post s),
     ws_times := ws_times s @ [t]\<rparr>"

definition same_server :: "peer \<Rightarrow> (wire_state, unit) io" where
  "same_server pr = bindS (getS ws_server) (\<lambda>server.
     if is_str server then
       bindS (liftS (utf8_encode (str_of server))) (\<lambda>raw.
         checkS (remote ''invalid_configuration'') (sha256_hex raw = fst (pr_target pr)))
     else raiseS (remote ''invalid_configuration''))"

definition api :: "peer \<Rightarrow> pystr \<Rightarrow> json option \<Rightarrow> rat \<Rightarrow> rat \<Rightarrow> (wire_state, int \<times> body) io" where
  "api pr path posted deadline not_before =
     bindS (same_server pr) (\<lambda>_.
     bindS (slot (posted \<noteq> None) deadline not_before) (\<lambda>_.
     bindS now (\<lambda>started.
     bindS (modS (started_call (posted \<noteq> None) started)) (\<lambda>_.
     bindS (http_call \<lparr>ce_post = (posted \<noteq> None), ce_path = path, ce_payload = posted, ce_time = started,
              ce_timeout = min 10 (deadline - started)\<rparr>) (\<lambda>a.
       case a of
         Failed code category \<Rightarrow> raiseS
           (case code of Some c \<Rightarrow> if 100 \<le> c \<and> c \<le> 599 then remote_error ''http_error'' None None (Some c)
               else remote (if category then ''transport'' else ''invalid_response'')
            | None \<Rightarrow> remote (if category then ''transport'' else ''invalid_response''))
       | Odd_reply \<Rightarrow> bindS now (\<lambda>t. raiseS (remote (if deadline \<le> t then ''deadline'' else ''invalid_response'')))
       | Replied status b \<Rightarrow> bindS now (\<lambda>t.
           if deadline \<le> t then raiseS (remote ''deadline'') else returnS (status, b)))))))"

section \<open>One request\<close>

definition request_params :: "('r, 'c) protocol \<Rightarrow> peer \<Rightarrow> json \<Rightarrow> json result" where
  "request_params pt pr params =
     rethrow (\<lambda>e. pt_error pt e \<or> is_TransferError e) (remote ''invalid_response'')
       (bindR (pt_request pt params) (\<lambda>ps.
        bindR (case pr_allowed pr of None \<Rightarrow> Inr ()
          | Some ops \<Rightarrow> on ps ''op'' (\<lambda>op. check (remote ''invalid_configuration'') (in_lits op ops))) (\<lambda>_.
        bindR (request_envelopes (pt_action pt) ps None) (\<lambda>env.
        bindR (check (remote ''invalid_configuration'')
                 (max (plen (client env)) (plen (queued_upper_bound env)) \<le> pr_envelope_limit pr)) (\<lambda>_. Inr ps)))))"

definition pending_ok :: "peer \<Rightarrow> bytes \<Rightarrow> unit result" where
  "pending_ok pr b =
     bindR (rethrow is_TransferError (remote ''invalid_response'')
       (validate_document_bytes b (min (pr_metadata pr) (pr_response_limit pr)))) (\<lambda>v.
       check (remote ''invalid_response'') (py_eq v (JObj [(u ''status'', lit ''pending'')])))"

definition retry_code :: "exn \<Rightarrow> string option" where
  "retry_code e = (case e of RemoteError code _ _ http \<Rightarrow>
       if code = ''transport'' \<or> code = ''http_error'' \<and> http \<in> Some ` {429, 502, 503, 504} then Some code else None
     | _ \<Rightarrow> None)"

text \<open>No run gives back a reading of the clock.\<close>

abbreviation bounded_clock :: "nat \<Rightarrow> wire_state \<Rightarrow> bool" where
  "bounded_clock n s \<equiv> length (ws_clock s) \<le> n"

lemma keeps_same_server [keeps_intro]: "keeps I (same_server pr)"
  unfolding same_server_def by (intro keeps_intro)

lemma now_bounded: "keeps (bounded_clock n) now"
  by (auto simp: keeps_def now_def Let_def split: list.splits option.splits)

lemma wait_until_bounded: "bounded_clock n s \<Longrightarrow> bounded_clock n (snd (wait_until target deadline s))"
proof (induction target deadline s rule: wait_until.induct)
  case (1 target deadline s)
  have now_n: "now s' = (r, s'') \<Longrightarrow> bounded_clock n s' \<Longrightarrow> bounded_clock n s''" for s' r s''
    using keepsD [OF now_bounded] .
  obtain r1 s1 where n1: "now s = (r1, s1)" by fastforce
  obtain r2 s2 where n2: "now s1 = (r2, s2)" by fastforce
  have b: "bounded_clock n s1" "bounded_clock n s2" using now_n n1 n2 1 by blast+
  show ?case
    using 1 n1 n2 b by (subst wait_until.simps) (auto split: sum.splits)
qed

lemma slot_bounded: "keeps (bounded_clock n) (slot post deadline not_before)"
  unfolding slot_def
  by (intro keeps_intro now_bounded keeps_modS) (auto simp: keeps_def intro: wait_until_bounded)

lemma api_bounded: "keeps (bounded_clock n) (api pr path posted deadline not_before)"
  unfolding api_def
  by (intro keeps_intro now_bounded slot_bounded keeps_modS)
    (auto simp: keeps_def started_call_def http_call_def Let_def run_simps bindS_def
      split: answer.splits list.splits prod.splits sum.splits dest: keepsD [OF now_bounded])

lemma api_length: "api pr path posted deadline not_before s = (r, s') \<Longrightarrow> length (ws_clock s') \<le> length (ws_clock s)"
  using keepsD [OF api_bounded, of pr path posted deadline not_before s r s' "length (ws_clock s)"] by simp

function poll :: "('r, 'c) protocol \<Rightarrow> peer \<Rightarrow> json \<Rightarrow> pystr \<Rightarrow> 'c option \<Rightarrow> rat \<Rightarrow> rat \<Rightarrow> rat \<Rightarrow> string option
    \<Rightarrow> wire_state \<Rightarrow> 'r result \<times> wire_state" where
  "poll pt pr ps rid ctx deadline not_before delay failed s =
     (case now s of (Inl e, s1) \<Rightarrow> (Inl e, s1)
      | (Inr t, s1) \<Rightarrow>
          if deadline \<le> t
          then (Inl (remote (case failed of None \<Rightarrow> ''pending_timeout'' | Some code \<Rightarrow> code)), s1)
          else (case api pr (pr_query pr @ u ''&id='' @ rid) None deadline not_before s1 of
              (Inl e, s2) \<Rightarrow> (case retry_code e of None \<Rightarrow> (Inl e, s2)
                | Some code \<Rightarrow> (case now s2 of (Inl e', s3) \<Rightarrow> (Inl e', s3)
                    | (Inr t', s3) \<Rightarrow>
                        let delay' = min 8 (max 2 (delay * 2))
                        in poll pt pr ps rid ctx deadline (t' + delay') delay' (Some code) s3))
            | (Inr (status, Json _), s2) \<Rightarrow> (Inl (remote ''invalid_response''), s2)
            | (Inr (status, Octets b), s2) \<Rightarrow>
                if pr_response_limit pr < plen b then (Inl (remote ''invalid_response''), s2)
                else if status = 202 then
                  (case pending_ok pr b of Inl e \<Rightarrow> (Inl e, s2)
                   | Inr _ \<Rightarrow> (case now s2 of (Inl e', s3) \<Rightarrow> (Inl e', s3)
                       | (Inr t', s3) \<Rightarrow>
                           poll pt pr ps rid ctx deadline (t' + POLL_INTERVAL) POLL_INTERVAL None s3))
                else if status \<noteq> 200 then (Inl (remote ''invalid_response''), s2)
                else (rethrow (\<lambda>e. pt_error pt e \<or> e = TypeError \<or> is_ValueError e) (remote ''invalid_response'')
                        (pt_response pt ps b (JStr rid) ctx (pr_metadata pr)), s2)))"
  by pat_completeness auto
termination
  by (relation "measure (\<lambda>(_, _, _, _, _, _, _, _, _, s). length (ws_clock s))")
    (auto dest!: now_shorter [OF sym] api_length [OF sym])

declare poll.simps [simp del]

text \<open>\<open>_rpc\<close>: the POST, then reads of the receipt until the deadline; what is published of it at the end.\<close>

definition enqueue :: "('r, 'c) protocol \<Rightarrow> peer \<Rightarrow> json \<Rightarrow> rat \<Rightarrow> (wire_state, pystr) io" where
  "enqueue pt pr ps deadline =
     bindS (api pr (pr_query pr) (Some (JObj [(u ''action'', JStr (pt_action pt)), (u ''params'', ps)])) deadline 0) (\<lambda>(status, queued).
       if valid_queue_ack status queued then
         (case queued of Json v \<Rightarrow> returnS (str_of (fld v ''id'')) | Octets _ \<Rightarrow> raiseS (remote ''invalid_response''))
       else raiseS (remote ''invalid_response''))"

definition with_request :: "pystr option \<Rightarrow> string \<Rightarrow> exn \<Rightarrow> exn" where
  "with_request rid phase e = (case e of RemoteError code _ _ http \<Rightarrow> remote_error code rid (Some phase) http | _ \<Rightarrow> e)"

definition receive :: "('r, 'c) protocol \<Rightarrow> peer \<Rightarrow> json \<Rightarrow> pystr \<Rightarrow> 'c option \<Rightarrow> rat \<Rightarrow> (wire_state, 'r) io" where
  "receive pt pr ps rid ctx deadline s =
     (case poll pt pr ps rid ctx deadline 0 POLL_INTERVAL None s of
        (Inl e, s') \<Rightarrow> (Inl (with_request (Some rid) ''receipt'' e), emit_receipt (pt_action pt) (Some rid) (u ''unknown'') s')
      | (Inr res, s') \<Rightarrow>
          (let s'' = emit_receipt (pt_action pt) (Some rid) (pt_status pt res) s' in
           if pt_status pt res = u ''ok'' then (Inr res, s'')
           else (Inl (remote_error (if pt_status pt res = u ''rejected'' then ''player_rejected'' else ''player_unsupported'')
                        (Some rid) (Some ''receipt'') None), s'')))"

definition rpc :: "('r, 'c) protocol \<Rightarrow> peer \<Rightarrow> json \<Rightarrow> 'c option \<Rightarrow> rat \<Rightarrow> (wire_state, 'r) io" where
  "rpc pt pr params ctx deadline =
     bindS (liftS (request_params pt pr params)) (\<lambda>ps s.
       case enqueue pt pr ps deadline s of
         (Inl e, s') \<Rightarrow> (Inl (with_request None ''enqueue'' e), emit_receipt (pt_action pt) None (u ''unknown'') s')
       | (Inr rid, s') \<Rightarrow> receive pt pr ps rid ctx deadline s')"

section \<open>Opening a transport\<close>

definition device_pat :: "pystr \<Rightarrow> bool" where
  "device_pat = rep_pat (\<lambda>c. is_alnum c \<or> one_of ''_.:-'' c) 1 256"

text \<open>\<open>urlencode\<close> of a device id: only the colon is escaped.\<close>

definition device_query :: "pystr \<Rightarrow> pystr" where
  "device_query device = u ''/api/requests?device_id='' @ concat (map (\<lambda>c. if c = 58 then u ''%3A'' else [c]) device)"

definition finite_number :: "json \<Rightarrow> bool" where
  "finite_number v \<longleftrightarrow> num_value v \<noteq> None"

text \<open>\<open>__init__\<close>; what is callable in the code (the client, the clock, sleep) is part of the model's environment.\<close>

definition open_transport ::
  "json \<Rightarrow> json \<Rightarrow> json \<Rightarrow> json \<Rightarrow> json \<Rightarrow> json \<Rightarrow> json \<Rightarrow> string list option \<Rightarrow> (wire_state, peer) io" where
  "open_transport device runtime envelope_limit response_limit timeout metadata deadline allowed =
     bindS (checkS (remote ''invalid_configuration'')
       (is_str device \<and> device_pat (str_of device) \<and> is_str runtime \<and> runtime_pat (str_of runtime)
        \<and> finite_number timeout \<and> 0 < the (num_value timeout) \<and> the (num_value timeout) \<le> 300
        \<and> is_int metadata \<and> 1 \<le> int_of metadata \<and> int_of metadata \<le> MAX_METADATA_BYTES
        \<and> is_int envelope_limit \<and> 1 \<le> int_of envelope_limit \<and> int_of envelope_limit \<le> 16384
        \<and> is_int response_limit \<and> 1 \<le> int_of response_limit \<and> int_of response_limit \<le> MAX_RESPONSE_BYTES
        \<and> (deadline = JNull \<or> finite_number deadline))) (\<lambda>_.
     bindS (getS ws_server) (\<lambda>server.
     bindS (checkS (remote ''invalid_configuration'') (is_str server \<and> str_of server \<noteq> [] \<and> plen (str_of server) \<le> 2048)) (\<lambda>_.
     bindS (modS (\<lambda>s. s\<lparr>ws_last := None\<rparr>)) (\<lambda>_.
     bindS now (\<lambda>started.
     let limit = started + the (num_value timeout);
         until = (if deadline = JNull then limit else min limit (the (num_value deadline)))
     in bindS (modS (\<lambda>s. s\<lparr>ws_deadline := until\<rparr>)) (\<lambda>_.
        bindS (checkS (remote ''deadline'') (started < until)) (\<lambda>_.
        bindS (liftS (utf8_encode (str_of server))) (\<lambda>raw.
        bindS (modS (\<lambda>s. s\<lparr>ws_last_post := None, ws_last_http := None, ws_times := []\<rparr>)) (\<lambda>_.
          returnS \<lparr>pr_device = str_of device, pr_runtime = str_of runtime, pr_envelope_limit = int_of envelope_limit,
            pr_response_limit = int_of response_limit, pr_metadata = int_of metadata, pr_allowed = allowed,
            pr_target = (sha256_hex raw, str_of device, str_of runtime), pr_query = device_query (str_of device)\<rparr>)))))))))"

end
