(* ===== verification/FavProtocolClosed.thy ===== *)
theory FavProtocolClosed
  imports FavProtocolErrors FavTransferProps RemoteTransport
begin

text \<open>
  The last steps to the closed error behaviour of \<open>favorites_protocol.py\<close>, its whole responses, and the
  module as the transport of \<open>favorites_remote.py\<close> sees it.
\<close>

lemma encoded_ascii_text: "dumpable v \<Longrightarrow> ascii_chars (ctext v) \<Longrightarrow> \<exists>b. p_encoded v = Inr b"
  using utf8_encode_ascii [of "ctext v"]
  by (auto simp: p_encoded_def dumps_compact_def dumps_def ascii_chars_def subset_iff)

lemma outer_encoded:
  assumes "request_id_pat i" "in_lits (JStr st) [''ok'', ''rejected'', ''unsupported'']"
  shows "protocol_only (p_encoded (JObj [(u ''id'', JStr i), (u ''status'', JStr st), (u ''data'', JNull)]))"
proof -
  have i: "ascii_chars i"
    using assms(1) unfolding request_id_pat_def by (rule rep_pat_ascii) (auto dest: hex_ascii)
  have st: "ascii_chars st" using assms(2) by (auto simp: u_def)
  have "ascii_chars (ctext (JObj [(u ''id'', JStr i), (u ''status'', JStr st), (u ''data'', JNull)]))"
    using quote_ascii [OF i] quote_ascii [OF st] quote_ascii [of "u ''id''"] quote_ascii [of "u ''status''"]
      quote_ascii [of "u ''data''"]
    by (simp add: u_def)
  from encoded_ascii_text [OF _ this] show ?thesis by auto
qed

lemma validate_request_encoded: "validate_request tables w key = Inr ps \<Longrightarrow> protocol_only (p_encoded ps)"
  by (auto dest!: validate_request_ok simp: p_object_ok)

lemma protocol_validate_result [raises]:
  "protocol_only (validate_result tables params data rid rsp status ctx sv mm)"
proof -
  have outer: "protocol_only (p_encoded (JObj [(u ''id'', rsp), (u ''status'', status), (u ''data'', JNull)]))"
    if "p_pattern rid request_id_pat = Inr ()" "p_require (py_eq rsp rid \<and> is_str status \<and>
        in_lits status [''ok'', ''rejected'', ''unsupported'']) = Inr ()"
    using that outer_encoded by (auto simp: ok_iff is_str_iff py_eq_JStr)
  show ?thesis
    unfolding validate_result_def
    by (intro raises_only_bindR raises)
      (auto simp: p_object_ok intro!: raises raises_only_bindR protocol_validate_data outer
        intro: validate_request_encoded validate_request_check split: prod.splits)
qed

section \<open>Whole responses\<close>

lemma data_token_ends: "length t < n \<Longrightarrow> raises_only (\<lambda>e. e = ValueError) (data_token tables n t)"
proof (induction n arbitrary: t)
  case (Suc n)
  have scan: "raises_only (\<lambda>e. e = ValueError) (scan_val (Suc (2 * length t)) s)"
    "scan_val (Suc (2 * length t)) s = Inr (v, r) \<Longrightarrow> length r < length s" if "length s \<le> length t" for s v r
    using scan_raises(1) [of "Suc (2 * length t)" s] scan_fuel(1) [of s "Suc (2 * length t)"] that
    by (auto simp: raises_only_def simp del: scan_val.simps split: sum.splits)
  have "length t2 < n"
    if "scan_val (Suc (2 * length t)) (dropWhile p t) = Inr (key, t1)"
      "scan_val (Suc (2 * length t)) (dropWhile q (drop 1 (dropWhile r t1))) = Inr (v, t2)" for p q r key t1 v t2
  proof -
    have "length t1 < length (dropWhile p t)" using scan(2) [OF _ that(1)] length_dropWhile_le by blast
    moreover have "length (dropWhile p t) \<le> length t" by (rule length_dropWhile_le)
    moreover have le: "length (dropWhile q (drop 1 (dropWhile r t1))) \<le> length t1"
      using length_dropWhile_le [of q "drop 1 (dropWhile r t1)"] length_dropWhile_le [of r t1] by simp
    ultimately have "length t2 < length (dropWhile q (drop 1 (dropWhile r t1)))" using scan(2) [OF _ that(2)] by simp
    then show ?thesis using le \<open>length t1 < length (dropWhile p t)\<close> \<open>length (dropWhile p t) \<le> length t\<close> Suc.prems by simp
  qed
  note rest = this
  have s1: "raises_only (\<lambda>e. e = ValueError) (scan_val (Suc (2 * length t)) (dropWhile p t))" for p
    by (rule scan(1) [OF length_dropWhile_le])
  have s2: "raises_only (\<lambda>e. e = ValueError) (scan_val (Suc (2 * length t)) (dropWhile q (drop 1 (dropWhile r t1))))"
    if "scan_val (Suc (2 * length t)) (dropWhile p t) = Inr (key, t1)" for p q r key t1
    using scan(2) [OF length_dropWhile_le that] length_dropWhile_le [of q "drop 1 (dropWhile r t1)"]
      length_dropWhile_le [of r t1] length_dropWhile_le [of p t] by (intro scan(1)) simp
  show ?case
    using rest s1 s2 Suc.IH
    by (simp add: Let_def del: scan_val.simps) (auto simp del: scan_val.simps intro!: raises_only_bindR split: prod.splits)
qed simp

lemma loads_text: "loads s = Inr v \<Longrightarrow> s \<noteq> []"
  by (cases s) (auto simp: loads_def skip_ws_def)

text \<open>No result of the environment or of the fuel: the search for the token was given a text that parsed.\<close>

abbreviation never_ends :: "'a result \<Rightarrow> bool" where
  "never_ends \<equiv> raises_only (\<lambda>e. e \<noteq> ScriptEnd \<and> e \<noteq> OutOfFuel)"

lemma protocol_never_ends: "protocol_only m \<Longrightarrow> never_ends m"
  by (rule raises_only_mono [where P = is_ProtocolError]) auto

lemma text_never_ends: "never_ends (utf8_decode raw)" "never_ends (utf8_encode t)"
  by (rule raises_only_mono [OF utf8_decode_raises] raises_only_mono [OF utf8_encode_raises]; auto)+

lemma token_never_ends:
  assumes "p_object response n = Inr (r, raw)" and "utf8_decode raw = Inr cs"
  shows "never_ends (data_token tables (length cs) (drop (Suc 0) (dropWhile q cs)))"
proof -
  have "cs \<noteq> []" using assms loads_text by (auto simp: p_object_ok loads_bytes_def)
  then have "length (drop (Suc 0) (dropWhile q cs)) < length cs"
    using length_dropWhile_le [of q cs] by (cases cs) auto
  from raises_only_mono [OF data_token_ends [OF this]] show ?thesis by auto
qed

lemma item_never_ends: "never_ends (itemR v k)"
  by (auto simp: itemR_def split: json.splits option.splits)

lemma validate_response_raises: "never_ends (validate_response tables params response rid ctx sv mm)"
  unfolding validate_response_def on_def
  by (intro raises_only_bindR)
    (auto intro!: raises_only_bindR text_never_ends item_never_ends
      protocol_never_ends [OF protocol_validate_result]
      protocol_never_ends [OF protocol_primitives(3)] protocol_never_ends [OF protocol_primitives(4)]
      protocol_never_ends [OF protocol_p_object] intro: token_never_ends split: prod.splits)

definition favorites_protocol :: "unicode_tables \<Rightarrow> scope_validator \<Rightarrow> (validated_result, receipt_context) protocol" where
  "favorites_protocol tables sv = \<lparr>pt_action = u ''favorites_transfer'', pt_request = (\<lambda>v. validate_request tables (Parsed v) None),
     pt_response = (\<lambda>ps b rid ctx m. validate_response tables (Parsed ps) (Raw b) rid ctx sv m),
     pt_status = vr_status, pt_error = is_ProtocolError\<rparr>"

lemma favorites_protocol_closed:
  "raises_only (\<lambda>e. e \<noteq> ScriptEnd) (pt_request (favorites_protocol tables sv) p)"
  "raises_only (\<lambda>e. e \<noteq> ScriptEnd) (pt_response (favorites_protocol tables sv) ps b rid ctx m)"
  using validate_response_raises
  by (auto simp: favorites_protocol_def intro: raises_only_mono [OF protocol_validate_request]
      raises_only_mono [OF validate_response_raises])

end
