(* ===== verification/FavProtocolProps.thy ===== *)
theory FavProtocolProps
  imports FavProtocolSamples FavProtocolClosed
begin

text \<open>The properties of \<open>src/cli/favorites_protocol.py\<close>.\<close>

section \<open>Results\<close>

lemma validate_result_ok:
  assumes "validate_result tables params data rid rsp status ctx sv mm = Inr res"
  shows "\<exists>ps d e raw.
    validate_request tables params None = Inr ps \<and> p_object data MAX_RESPONSE_BYTES = Inr (d, raw) \<and>
    check_data tables ps d (str_of status) sv = Inr e \<and>
    (\<forall>c. ctx = Some c \<and> binds e \<longrightarrow> bind_context tables ps d (receipt e) c = Inr ()) \<and>
    vr_verified res = (receipt e \<noteq> None \<and> ctx \<noteq> None) \<and> vr_document res = raw_document e \<and>
    py_eq rsp rid \<and> vr_request_id res = rid \<and> JStr (vr_status res) = status \<and>
    p_encoded ps = Inr (vr_request res) \<and> p_encoded d = Inr (vr_data res)"
proof -
  from assms obtain ps d raw ok doc
    where ps: "validate_request tables params None = Inr ps"
      and d: "p_object data MAX_RESPONSE_BYTES = Inr (d, raw)"
      and v: "validate_data tables ps d (str_of status) ctx sv = Inr (ok, doc)"
      and st: "py_eq rsp rid" "is_str status"
      and res: "vr_verified res = ok" "vr_document res = doc" "vr_request_id res = rid" "vr_status res = str_of status"
        "p_encoded ps = Inr (vr_request res)" "p_encoded d = Inr (vr_data res)"
    by (auto simp: validate_result_def bindR_ok p_require_ok split: prod.splits)
  from v obtain e where e: "check_data tables ps d (str_of status) sv = Inr e"
    and b: "\<forall>c. ctx = Some c \<and> binds e \<longrightarrow> bind_context tables ps d (receipt e) c = Inr ()"
    and okdoc: "ok = (receipt e \<noteq> None \<and> ctx \<noteq> None)" "doc = raw_document e"
    by (auto simp: validate_data_def bindR_ok split: option.splits if_splits)
  from st(2) have "JStr (str_of status) = status" by (auto simp: is_str_iff)
  with ps d e b okdoc st(1) res show ?thesis by metis
qed

lemma bind_context_receipt:
  assumes "bind_context tables ps d (Some r) c = Inr ()"
  shows "\<exists>begin accepted preview. context_parts tables c = Inr (begin, accepted, preview) \<and>
    py_eq (fld r ''operation_id'') (fld begin ''operation_id'') \<and>
    py_eq (fld r ''scope'') (fld begin ''scope'') \<and>
    py_eq (fld r ''document_sha256'') (fld begin ''document_sha256'') \<and>
    py_eq (fld r ''plan_digest'') (fld preview ''plan_digest'') \<and>
    py_eq (fld r ''counts'') (fld preview ''counts'') \<and>
    set (store_ids (fld d ''per_store'')) = set (store_ids (fld preview ''stores'')) \<and>
    py_eq (fld ps ''runtime'') (case rc_status_runtime c of None \<Rightarrow> fld begin ''runtime'' | Some rt \<Rightarrow> JStr rt)"
proof -
  from assms obtain b a p where "context_parts tables c = Inr (b, a, p)"
    by (auto simp: bind_context_def bindR_ok)
  with assms show ?thesis
    by (simp add: bind_context_def seqR_Cons_ok c_require_ok)
qed

lemma py_eq_str: "py_eq (JStr s) w \<Longrightarrow> w = JStr s"
  by simp


lemma sample_request_ok: "validate_request ascii_tables (Parsed sample_status) None = Inr sample_status"
  by (rule request_returns [OF small_parsed [OF sample_small(4)] sample_status_ok sample_status_envelope])

lemma sample_outer: "\<exists>b. p_encoded (JObj [(u ''id'', JStr (replicate 32 97)), (u ''status'', lit ''ok''), (u ''data'', JNull)]) = Inr b
    \<and> plen b \<le> 1000"
proof -
  have "case p_encoded (JObj [(u ''id'', JStr (replicate 32 97)), (u ''status'', lit ''ok''), (u ''data'', JNull)]) of
      Inl _ \<Rightarrow> False | Inr b \<Rightarrow> plen b \<le> 1000"
    by code_simp
  then show ?thesis by (auto split: sum.splits)
qed

lemma sample_validates_with:
  assumes "bind_context ascii_tables sample_status sample_committed (Some r) c = Inr ()"
    and "check_data ascii_tables sample_status sample_committed (u ''ok'') None = Inr e" "receipt e = Some r"
  obtains res where "validate_result ascii_tables (Parsed sample_status) (Raw (bytes_of sample_committed))
      (JStr (replicate 32 97)) (JStr (replicate 32 97)) (lit ''ok'') (Some c) None MAX_METADATA_BYTES = Inr res"
    "vr_verified res"
proof -
  have size: "jsize sample_committed \<le> MAX_RPC_BYTES" using sample_small(5) by (simp add: small_def enc_text_def)
  have d: "p_object (Raw (bytes_of sample_committed)) MAX_RESPONSE_BYTES = Inr (sample_committed, bytes_of sample_committed)"
    by (rule small_object [OF sample_small(5)]) (use size in simp)
  obtain doc where v: "validate_data ascii_tables sample_status sample_committed (u ''ok'') (Some c) None = Inr (True, doc)"
    using assms by (simp add: validate_data_def)
  from sample_outer obtain outer where out: "p_encoded (JObj [(u ''id'', JStr (replicate 32 97)), (u ''status'', lit ''ok''),
      (u ''data'', JNull)]) = Inr outer" "plen outer \<le> 1000" by blast
  have rid: "request_id_pat (replicate 32 97)" by code_simp
  let ?res = "\<lparr>vr_request = bytes_of sample_status, vr_data = bytes_of sample_committed, vr_status = u ''ok'',
    vr_request_id = JStr (replicate 32 97), vr_verified = True, vr_document = doc\<rparr>"
  have "validate_result ascii_tables (Parsed sample_status) (Raw (bytes_of sample_committed))
      (JStr (replicate 32 97)) (JStr (replicate 32 97)) (lit ''ok'') (Some c) None MAX_METADATA_BYTES = Inr ?res"
    using v rid out size small_bytes [OF sample_small(5)] small_bytes [OF sample_small(4)]
    by (auto simp: validate_result_def sample_request_ok d p_integer_ok p_pattern_ok p_require_ok bindR_ok check_ok lit_def)
  then show ?thesis by (rule that) simp
qed

lemma sample_result:
  obtains res where "validate_result ascii_tables (Parsed sample_status) (Raw (bytes_of sample_committed))
      (JStr (replicate 32 97)) (JStr (replicate 32 97)) (lit ''ok'') (Some sample_context) None MAX_METADATA_BYTES = Inr res"
    "vr_verified res"
  using sample_binds sample_validates_with by blast

lemma sample_restart:
  obtains res where "validate_result ascii_tables (Parsed sample_status) (Raw (bytes_of sample_committed))
      (JStr (replicate 32 97)) (JStr (replicate 32 97)) (lit ''ok'')
      (Some (sample_context\<lparr>rc_status_runtime := Some (u ''rt'')\<rparr>)) None MAX_METADATA_BYTES = Inr res"
proof -
  let ?c = "sample_context\<lparr>rc_status_runtime := Some (u ''rt'')\<rparr>"
  have "p_pattern (JStr (u ''rt'')) runtime_pat = Inr ()" by code_simp
  then have parts: "context_parts ascii_tables ?c = context_parts ascii_tables sample_context"
    by (simp add: context_parts_def sample_context_def)
  have same: "is_lit (fld sample_status ''op'') ''status''" "fld sample_begin ''runtime'' = JStr (u ''rt'')"
    by code_simp+
  obtain e r where er: "check_data ascii_tables sample_status sample_committed (u ''ok'') None = Inr e"
      "receipt e = Some r" "bind_context ascii_tables sample_status sample_committed (Some r) sample_context = Inr ()"
    using sample_binds by blast
  have "bind_context ascii_tables sample_status sample_committed (Some r) ?c = Inr ()"
    using er(3) same
    by (auto simp: bind_context_def parts sample_context_parts seqR_Cons_ok c_require_def) (simp add: sample_context_def)
  from sample_validates_with [OF this er(1,2)] that show ?thesis by blast
qed





text \<open>
  A parsed request that passes is the request itself: validation returns it unchanged, and both of its
  envelopes exist within the queue's limit, the client's parsing back to the action and exactly
  these parameters.
\<close>

theorem request_unchanged:
  assumes "validate_request tables (Parsed v) key = Inr ps" and "plain v"
    and "\<And>k. key = Some k \<Longrightarrow> \<forall>c \<in> set k. 0 \<le> c"
  shows "ps = v \<and> (\<exists>env. request_envelopes (u ''favorites_transfer'') v key = Inr env \<and>
    plen (client env) \<le> MAX_RPC_BYTES \<and> plen (queued_upper_bound env) \<le> MAX_RPC_BYTES \<and>
    loads_bytes (client env) = Inr (request_payload (u ''favorites_transfer'') v key))"
proof -
  from validate_request_ok [OF assms(1)] obtain raw env
    where o': "p_object (Parsed v) MAX_RPC_BYTES = Inr (ps, raw)"
      and env: "request_envelopes (u ''favorites_transfer'') ps key = Inr env"
      "plen (client env) \<le> MAX_RPC_BYTES" "plen (queued_upper_bound env) \<le> MAX_RPC_BYTES" by blast
  from p_object_parsed [OF o' assms(2)] have "ps = v" by simp
  with env envelope_payload [of "u ''favorites_transfer''" v key env] assms(2,3) show ?thesis
    by (auto simp: u_def of_char_bounds)
qed

theorem request_unchanged_witness:
  "validate_request ascii_tables (Parsed sample_status) None = Inr sample_status \<and>
   (\<exists>env. request_envelopes (u ''favorites_transfer'') sample_status None = Inr env)"
proof -
  have "plain sample_status" using sample_small(4) by (simp add: small_def enc_text_def)
  from request_unchanged [OF sample_request_ok this] sample_request_ok show ?thesis by auto
qed

end
