(* ===== verification/FavRecoveryProps.thy ===== *)
theory FavRecoveryProps
  imports FavProtocolSamples
begin

text \<open>
  The properties of the recovery commitments, the binding catalog and snapshots of
  \<open>src/cli/favorites_protocol.py\<close>.
\<close>

section \<open>Commitments\<close>


section \<open>The binding catalog\<close>

text \<open>What a binding says, and what the loop over the bindings establishes.\<close>

definition profile_id :: "json \<Rightarrow> pystr" where
  "profile_id b = str_of (fld (fld b ''scope'') ''profileBindingId'')"

definition source_id :: "json \<Rightarrow> pystr" where
  "source_id b = str_of (fld (fld b ''scope'') ''sourceBindingId'')"

lemma catalog_binding_ok:
  "catalog_binding tables target (ids, profiles, sources) b = Inr st \<Longrightarrow>
     plex_scope (fld b ''scope'') = Inr () \<and> py_eq (fld b ''target_id'') (fld target ''target_id'') \<and>
     py_eq (fld b ''codecVersion'') (fld target ''codecVersion'') \<and> source_id b \<notin> set sources \<and>
     st = (scope_identity (fld b ''scope'') # ids, profile_id b # profiles, source_id b # sources)"
  by (auto simp: catalog_binding_def bindR_ok seqR_Cons_ok p_require_ok on_ok source_id_def profile_id_def)

lemma catalog_bindings_ok:
  assumes "foldR (catalog_binding tables target) (ids, profiles, sources) bs = Inr (ids', profiles', sources')"
    and "distinct sources"
  shows "set profiles' = set profiles \<union> profile_id ` set bs \<and> set sources' = set sources \<union> source_id ` set bs \<and>
    distinct (map source_id bs) \<and> source_id ` set bs \<inter> set sources = {} \<and>
    (\<forall>b \<in> set bs. plex_scope (fld b ''scope'') = Inr () \<and> py_eq (fld b ''target_id'') (fld target ''target_id''))"
  using assms
proof (induction bs arbitrary: ids profiles sources)
  case (Cons b bs)
  then obtain st where "catalog_binding tables target (ids, profiles, sources) b = Inr st"
    and run: "foldR (catalog_binding tables target) st bs = Inr (ids', profiles', sources')"
    by (auto simp: foldR_Cons_ok)
  from catalog_binding_ok [OF this(1)] have b: "plex_scope (fld b ''scope'') = Inr ()"
      "py_eq (fld b ''target_id'') (fld target ''target_id'')" "source_id b \<notin> set sources"
    and st: "st = (scope_identity (fld b ''scope'') # ids, profile_id b # profiles, source_id b # sources)"
    by auto
  from Cons.IH [OF run [unfolded st]] Cons.prems(2) b show ?case by auto
qed auto

text \<open>
  C32: In an accepted binding catalog every binding is for the one advertised target, every source has exactly
  one binding and so one parent profile, and no identifier is at once a source and the profile of
  another binding.
\<close>

theorem catalog_is_forest:
  assumes "binding_catalog tables data = Inr ()"
  shows "\<exists>target bs. fld data ''targets'' = JArr [target] \<and> fld data ''bindings'' = JArr bs \<and> plen bs \<le> 256 \<and>
    (\<forall>b \<in> set bs. py_eq (fld b ''target_id'') (fld target ''target_id'') \<and> plex_scope (fld b ''scope'') = Inr ()) \<and>
    distinct (map source_id bs) \<and> (\<forall>b \<in> set bs. \<forall>b' \<in> set bs. profile_id b \<noteq> source_id b')"
proof -
  from assms obtain ts bs ids profiles sources
    where ts: "fld data ''targets'' = JArr ts" "plen ts = 1" and bs: "fld data ''bindings'' = JArr bs" "plen bs \<le> 256"
      and run: "foldR (catalog_binding tables (hd ts)) ([], [], []) bs = Inr (ids, profiles, sources)"
      and disj: "set profiles \<inter> set sources = {}"
    by (auto simp: binding_catalog_def Let_def seqR_Cons_ok on_ok bindR_ok p_require_ok is_list_iff split: prod.splits)
  obtain target where target: "ts = [target]"
    using ts(2) by (cases ts; cases "tl ts") (auto simp: plen_def)
  from catalog_bindings_ok [OF run] disj target have
    "\<forall>b \<in> set bs. py_eq (fld b ''target_id'') (fld target ''target_id'') \<and> plex_scope (fld b ''scope'') = Inr ()"
    "distinct (map source_id bs)" "\<forall>b \<in> set bs. \<forall>b' \<in> set bs. profile_id b \<noteq> source_id b'"
    by auto
  with ts(1) bs target show ?thesis by blast
qed

theorem catalog_is_forest_witness:
  "\<exists>tables data bs. binding_catalog tables data = Inr () \<and> fld data ''bindings'' = JArr bs \<and> length bs = 2 \<and> distinct (map source_id bs)"
proof -
  let ?tables = "\<lparr>category_C = (\<lambda>c. c < 32), white_space = (\<lambda>c. c = 32)\<rparr>"
  let ?b = "\<lambda>s. JObj [(u ''scope'', JObj [(u ''profileBindingId'', lit ''11111111-1111-4111-8111-111111111111''),
        (u ''sourceBindingId'', lit s), (u ''provider'', lit ''plex'')]), (u ''target_id'', lit ''t1''),
      (u ''codecVersion'', JInt 1)]"
  let ?bs = "[?b ''21111111-1111-4111-8111-111111111111'', ?b ''31111111-1111-4111-8111-111111111111'']"
  let ?data = "JObj [(u ''version'', JInt 1), (u ''runtime'', lit ''rt''), (u ''op'', lit ''bindingcatalog''),
      (u ''binding_revision'', lit ''b1''),
      (u ''targets'', JArr [JObj [(u ''target_id'', lit ''t1''), (u ''display'', lit ''TV''), (u ''provider'', lit ''plex''),
         (u ''codecVersion'', JInt 1), (u ''serverId'', lit ''srv'')]]), (u ''bindings'', JArr ?bs)]"
  have accepted: "binding_catalog ?tables ?data = Inr ()" by code_simp
  from catalog_is_forest [OF this] have "distinct (map source_id ?bs)" by auto
  moreover have "fld ?data ''bindings'' = JArr ?bs" by simp
  moreover have "length ?bs = 2" by simp
  ultimately show ?thesis using accepted by blast
qed

section \<open>Snapshots\<close>

text \<open>
  C24: An accepted snapshot carries the exact bytes of a document: their length and SHA-256 are the declared
  ones, they are the JSON text of a document for the requested scope, and the scope's validator
  accepted that document unchanged.
\<close>

theorem snapshot_exact:
  assumes "snapshot_data params data sv = Inr raw"
  shows "\<exists>validator doc out. sv = Some validator \<and> fld data ''size_bytes'' = JInt (plen raw) \<and>
    fld data ''document_sha256'' = JStr (sha256_hex raw) \<and> fld data ''document_base64'' = JStr (b64encode raw) \<and>
    loads_bytes raw = Inr doc \<and> is_dict doc \<and> validator doc = Inr out \<and> py_eq out doc \<and>
    py_eq (fld doc ''scope'') (fld params ''scope'') \<and> plen raw \<le> MAX_DOCUMENT_BYTES"
proof -
  from assms obtain validator doc out
    where "sv = Some validator"
      and dec: "decode_document (fld data ''document_base64'') (fld data ''size_bytes'') (fld data ''document_sha256'')
        MAX_DOCUMENT_BYTES = Inr raw"
      and doc: "validate_document_bytes raw MAX_DOCUMENT_BYTES = Inr doc" "is_dict doc"
        "py_eq (fld doc ''scope'') (fld params ''scope'')"
      and out: "bindR (loads_bytes raw) validator = Inr out" "py_eq out doc"
    by (auto simp: snapshot_data_def bindR_ok rethrow_ok p_require_ok split: option.splits)
  moreover from validate_document_bytes_ok [OF doc(1)] have "loads_bytes raw = Inr doc" "plen raw \<le> MAX_DOCUMENT_BYTES"
    by auto
  moreover from dec have "decode_bytes (fld data ''document_base64'') (fld data ''size_bytes'') (fld data ''document_sha256'')
        MAX_DOCUMENT_BYTES = Inr raw"
    by (auto simp: decode_document_def bindR_ok)
  ultimately show ?thesis by (auto simp: decode_bytes_ok)
qed

theorem snapshot_exact_witness:
  "\<exists>params data raw out. snapshot_data params data (Some (\<lambda>v. Inr v)) = Inr raw \<and> fld data ''document_sha256'' = JStr (sha256_hex raw)
     \<and> loads_bytes raw = Inr out \<and> fld out ''scope'' = sample_plex_scope"
proof -
  let ?doc = "JObj [(u ''scope'', sample_plex_scope)]"
  let ?params = "JObj [(u ''op'', lit ''snapshot''), (u ''scope'', sample_plex_scope)]"
  let ?raw = "bytes_of ?doc"
  let ?data = "JObj [(u ''version'', JInt 1), (u ''runtime'', lit ''rt''), (u ''op'', lit ''snapshot''),
     (u ''scope'', sample_plex_scope), (u ''revision'', lit ''r1''), (u ''binding_revision'', lit ''b1''),
     (u ''document_sha256'', JStr (sha256_hex ?raw)), (u ''size_bytes'', JInt (plen ?raw)),
     (u ''document_base64'', JStr (b64encode ?raw))]"
  have small: "small ?doc" by code_simp
  have size: "1 \<le> plen ?raw" "plen ?raw \<le> 16384"
    using small_bytes [OF small] small by (simp_all add: small_def enc_text_def)
  have loads: "loads_bytes ?raw = Inr ?doc"
    using encoded_loads [of ?doc ?raw] small_bytes [OF small] small by (simp add: small_def enc_text_def)
  have default: "is_ok (bindR (dumps_default ?doc) utf8_encode)"
    by code_simp
  have valid: "validate_document_bytes ?raw MAX_DOCUMENT_BYTES = Inr ?doc"
    using size loads default
    by (auto simp: validate_document_bytes_def loads_bytes_def ok_iff is_ok_iff limit_def raw_bytes_def)
  have dec: "decode_document (JStr (b64encode ?raw)) (JInt (plen ?raw)) (JStr (sha256_hex ?raw)) MAX_DOCUMENT_BYTES = Inr ?raw"
    using valid size by (auto simp: decode_document_def ok_iff decode_bytes_ok)
  have "p_shape ?data (COMMON @ [''scope'', ''revision'', ''binding_revision'', ''document_sha256'',
          ''size_bytes'', ''document_base64'']) = Inr ()"
    by (simp add: p_shape_def COMMON_def ok_iff same_keys_def keys_of_def u_def)
  moreover have "p_text (lit ''r1'') = Inr ()" "p_text (lit ''b1'') = Inr ()" "py_eq sample_plex_scope sample_plex_scope"
    by code_simp+
  ultimately have "snapshot_data ?params ?data (Some (\<lambda>v. Inr v)) = Inr ?raw"
    using dec valid loads
    by (simp add: snapshot_data_def ok_iff)
  from snapshot_exact [OF this] loads this show ?thesis by fastforce
qed

end
