(* ===== verification/JsonDepth.thy ===== *)
theory JsonDepth
  imports JsonSize
begin

text \<open>
  The nesting bound the global modules check before parsing: a scan of the raw bytes that counts
  brackets outside strings. The theory proves that on the compact text of a value the scan counts
  exactly the nesting of the value, so texts the program writes itself always pass it.
\<close>

text \<open>The state of the scan: depth, inside a string, after a backslash.\<close>

type_synonym scan_state = "int \<times> bool \<times> bool"

definition depth_char :: "exn \<Rightarrow> int \<Rightarrow> scan_state \<Rightarrow> int \<Rightarrow> scan_state result" where
  "depth_char e lim s c = (case s of (depth, quoted, escaped) \<Rightarrow>
     if quoted then
       if escaped then Inr (depth, quoted, False)
       else if c = 92 then Inr (depth, quoted, True)
       else if c = 34 then Inr (depth, False, escaped)
       else Inr s
     else if c = 34 then Inr (depth, True, escaped)
     else if c = 91 \<or> c = 123 then
       (if depth + 1 \<le> lim then Inr (depth + 1, quoted, escaped) else Inl e)
     else if c = 93 \<or> c = 125 then Inr (depth - 1, quoted, escaped)
     else Inr s)"

definition depth_step :: "exn \<Rightarrow> int \<Rightarrow> scan_state \<Rightarrow> byte \<Rightarrow> scan_state result" where
  "depth_step e lim s b = depth_char e lim s (uint b)"

definition depth_scan :: "exn \<Rightarrow> int \<Rightarrow> bytes \<Rightarrow> unit result" where
  "depth_scan e lim raw = bindR (foldR (depth_step e lim) (0, False, False) raw) (\<lambda>_. Inr ())"

section \<open>The scan of a text\<close>

lemma foldR_append: "foldR f s (xs @ ys) = bindR (foldR f s xs) (\<lambda>t. foldR f t ys)"
  by (induction xs arbitrary: s) (auto simp: loop_simps split: sum.splits)

lemma foldR_Cons: "foldR f s (x # xs) = bindR (f s x) (\<lambda>t. foldR f t xs)"
  by (simp add: loop_simps bindR_def)

lemma depth_char_high: "128 \<le> c \<Longrightarrow> 128 \<le> c' \<Longrightarrow> depth_char e lim s c = depth_char e lim s c'"
  by (simp add: depth_char_def split: prod.splits)

lemma depth_char_twice:
  "128 \<le> c \<Longrightarrow> 128 \<le> c' \<Longrightarrow> bindR (depth_char e lim s c) (\<lambda>t. depth_char e lim t c') = depth_char e lim s c"
  by (cases s) (auto simp: depth_char_def)

lemma depth_char_high_ok: "128 \<le> c \<Longrightarrow> \<exists>t. depth_char e lim s c = Inr t \<and> (\<forall>c' \<ge> 128. depth_char e lim t c' = Inr t)"
  by (cases s) (auto simp: depth_char_def)

lemma depth_high_bytes:
  assumes "bs \<noteq> []" "\<forall>b \<in> set bs. 128 \<le> uint b" "128 \<le> c"
  shows "foldR (depth_step e lim) s bs = depth_char e lim s c"
proof -
  obtain t where t: "depth_char e lim s c = Inr t" "\<forall>c' \<ge> 128. depth_char e lim t c' = Inr t"
    using depth_char_high_ok [OF assms(3)] by blast
  have stay: "\<forall>b \<in> set bs. 128 \<le> uint b \<Longrightarrow> foldR (depth_step e lim) t bs = Inr t" for bs
    using t(2) by (induction bs) (auto simp: foldR_Cons depth_step_def)
  obtain b bs' where "bs = b # bs'" using assms(1) by (cases bs) auto
  with assms t(1) stay [of bs'] depth_char_high [of "uint b" c] show ?thesis
    by (simp add: foldR_Cons depth_step_def)
qed

lemma utf8_char_bytes:
  "utf8_char c = Some b \<Longrightarrow> (if c < 128 then b = [byte_of c] \<and> 0 \<le> c else b \<noteq> [] \<and> (\<forall>x \<in> set b. 128 \<le> uint x))"
  by (auto simp: utf8_char_def uint_byte_of split: if_splits)

lemma depth_utf8:
  "utf8_encode s = Inr b \<Longrightarrow> foldR (depth_step e lim) st b = foldR (depth_char e lim) st s"
proof (induction s arbitrary: b st)
  case (Cons c s)
  then obtain x y where xy: "utf8_char c = Some x" "utf8_encode s = Inr y" "b = x @ y"
    by (auto simp: ok_iff split: option.splits)
  have "foldR (depth_step e lim) st x = depth_char e lim st c"
  proof (cases "c < 128")
    case True
    then show ?thesis using utf8_char_bytes [OF xy(1)]
      by (auto simp: foldR_Cons depth_step_def uint_byte_of bindR_def split: sum.splits)
  next
    case False
    then show ?thesis using utf8_char_bytes [OF xy(1)] by (auto intro: depth_high_bytes)
  qed
  then show ?case using Cons.IH [OF xy(2)] xy(3) by (simp add: foldR_append foldR_Cons)
qed simp

text \<open>A text is level at a depth when the scan passes it and comes back to where it was.\<close>

definition level :: "int \<Rightarrow> int \<Rightarrow> pystr \<Rightarrow> bool" where
  "level lim d s \<longleftrightarrow> (\<forall>e. foldR (depth_char e lim) (d, False, False) s = Inr (d, False, False))"

lemma level_Nil: "level lim d []"
  by (simp add: level_def)

lemma level_append: "level lim d s \<Longrightarrow> level lim d t \<Longrightarrow> level lim d (s @ t)"
  by (simp add: level_def foldR_append)

lemma level_plain: "\<forall>c \<in> set s. c \<notin> {34, 91, 93, 123, 125} \<Longrightarrow> level lim d s"
  by (induction s) (auto simp: level_def foldR_Cons depth_char_def)

lemma level_join: "level lim d sep \<Longrightarrow> \<forall>s \<in> set ss. level lim d s \<Longrightarrow> level lim d (join sep ss)"
  by (induction sep ss rule: join.induct) (auto simp: level_Nil level_append)

lemma hexdig_range: "0 \<le> d \<Longrightarrow> d < 16 \<Longrightarrow> hexdig d \<noteq> 34 \<and> hexdig d \<noteq> 92"
  by (simp add: hexdig_def)

lemma esc_scan: "0 \<le> c \<Longrightarrow> foldR (depth_char e lim) (d, True, False) (esc c) = Inr (d, True, False)"
  using hexdig_range [of "c div 16"] hexdig_range [of "c mod 16"]
  by (auto simp: esc_def foldR_Cons depth_char_def)

lemma level_quote: "\<forall>c \<in> set s. 0 \<le> c \<Longrightarrow> level lim d (quote s)"
proof -
  have "\<forall>c \<in> set s. 0 \<le> c \<Longrightarrow> foldR (depth_char e lim) (d, True, False) (concat (map esc s)) = Inr (d, True, False)" for e
    by (induction s) (auto simp: foldR_append esc_scan)
  then show "\<forall>c \<in> set s. 0 \<le> c \<Longrightarrow> level lim d (quote s)"
    by (simp add: level_def quote_def foldR_append foldR_Cons depth_char_def)
qed

lemma level_bracket:
  assumes "level lim (d + 1) s" "d + 1 \<le> lim" "(a, b) \<in> {(91, 93), (123, 125)}"
  shows "level lim d (a # s @ [b])"
  using assms by (auto simp: level_def foldR_append foldR_Cons depth_char_def)

section \<open>The nesting of a value\<close>

fun jdepth :: "json \<Rightarrow> int" where
  "jdepth (JArr vs) = 1 + foldr (\<lambda>v m. max (jdepth v) m) vs 0"
| "jdepth (JObj kv) = 1 + foldr (\<lambda>p m. max (jdepth (snd p)) m) kv 0"
| "jdepth _ = 0"

lemma foldr_max:
  "0 \<le> foldr (\<lambda>v m. max (f v :: int) m) vs 0"
  "x \<in> set vs \<Longrightarrow> f x \<le> foldr (\<lambda>v m. max (f v :: int) m) vs 0"
  by (induction vs) auto

lemma int_text_chars: "c \<in> set (int_text i) \<Longrightarrow> c = 45 \<or> is_digit c"
proof -
  have "c \<in> set (dec_digits n) \<Longrightarrow> is_digit c" for n
    using dec_digits_are_digits [of n] by (simp add: list_all_iff)
  then show "c \<in> set (int_text i) \<Longrightarrow> c = 45 \<or> is_digit c"
    by (auto simp: int_text_def split: if_splits)
qed

lemma level_ctext: "plain v \<Longrightarrow> d + jdepth v \<le> lim \<Longrightarrow> level lim d (ctext v)"
proof (induction "u '',''" "u '':''" v arbitrary: d rule: jtext.induct)
  case (3 i)
  then show ?case by (auto intro!: level_plain simp: is_digit_def dest: int_text_chars)
next
  case (5 s)
  then show ?case by (simp add: level_quote)
next
  case (6 vs)
  have "level lim (d + 1) (ctext v)" if "v \<in> set vs" for v
    using 6 that foldr_max(2) [OF that, of jdepth] by auto
  moreover have "level lim (d + 1) (u '','')" by (rule level_plain) (simp add: u_def)
  ultimately have "level lim (d + 1) (join (u '','') (map ctext vs))" by (intro level_join) auto
  moreover have "d + 1 \<le> lim" using "6.prems"(2) foldr_max(1) [of jdepth vs] by simp
  ultimately show ?case using level_bracket [of lim d _ 91 93] by simp
next
  case (7 kv)
  have "level lim (d + 1) (u '':'')" by (rule level_plain) (simp add: u_def)
  moreover have "level lim (d + 1) (ctext (snd p))" "level lim (d + 1) (quote (fst p))" if "p \<in> set kv" for p
    using 7 that foldr_max(2) [OF that, of "\<lambda>p. jdepth (snd p)"] by (auto intro: level_quote)
  ultimately have "level lim (d + 1) (quote (fst p) @ u '':'' @ ctext (snd p))" if "p \<in> set kv" for p
    using that by (simp add: level_append)
  moreover have "level lim (d + 1) (u '','')" by (rule level_plain) (simp add: u_def)
  ultimately have "level lim (d + 1) (join (u '','') (map (\<lambda>p. quote (fst p) @ u '':'' @ ctext (snd p)) kv))"
    by (intro level_join) auto
  moreover have "d + 1 \<le> lim" using "7.prems"(2) foldr_max(1) [of "\<lambda>p. jdepth (snd p)" kv] by simp
  ultimately show ?case using level_bracket [of lim d _ 123 125] by simp
qed (auto intro!: level_plain simp: u_def)

text \<open>What the program writes within the bound passes the scan.\<close>

lemma depth_scan_ctext:
  "plain v \<Longrightarrow> jdepth v \<le> lim \<Longrightarrow> utf8_encode (ctext v) = Inr b \<Longrightarrow> depth_scan e lim b = Inr ()"
  using level_ctext [of v 0 lim] by (simp add: depth_scan_def depth_utf8 level_def)

end
