(* ===== verification/GlobalDocument.thy ===== *)
theory GlobalDocument
  imports FavTransfer JsonDepth "HOL-Library.AList"
begin

text \<open>
  \<open>src/cli/global_favorites_document.py\<close>: the portable list of global favorites. An entry is a
  title, a public origin and a locator; a document is a version and at most 1000 entries with
  distinct (origin, locator) identities and at most one MiB of canonical text. The module validates
  documents into a normal form, reads and writes their canonical bytes, checks a host's advertised
  locator kinds and previews the union of several documents.
\<close>

section \<open>Primitive checks\<close>

abbreviation G_MAX_BYTES :: int where "G_MAX_BYTES \<equiv> 1048576"
abbreviation MAX_ENTRIES :: int where "MAX_ENTRIES \<equiv> 1000"
abbreviation MAX_DOCUMENTS :: int where "MAX_DOCUMENTS \<equiv> 64"
abbreviation MAX_JSON_DEPTH :: int where "MAX_JSON_DEPTH \<equiv> 8"

abbreviation g_invalid :: exn where "g_invalid \<equiv> GlobalDocumentError ''invalid_document''"
abbreviation g_too_large :: exn where "g_too_large \<equiv> GlobalDocumentError ''document_too_large''"

fun is_GlobalDocumentError :: "exn \<Rightarrow> bool" where
  "is_GlobalDocumentError (GlobalDocumentError _) = True"
| "is_GlobalDocumentError _ = False"

text \<open>The characters \<open>String.prototype.trim\<close> of JavaScript removes.\<close>

definition JS_TRIM :: "int list" where
  "JS_TRIM = [9, 10, 11, 12, 13, 32, 160, 5760, 8192, 8193, 8194, 8195, 8196, 8197, 8198, 8199, 8200,
     8201, 8202, 8232, 8233, 8239, 8287, 12288, 65279]"

definition strip_chars :: "int list \<Rightarrow> pystr \<Rightarrow> pystr" where
  "strip_chars cs s = rev (dropWhile (\<lambda>c. c \<in> set cs) (rev (dropWhile (\<lambda>c. c \<in> set cs) s)))"

definition provider_segment :: "pystr \<Rightarrow> bool" where
  "provider_segment s = (case s of [] \<Rightarrow> False
     | c # cs \<Rightarrow> (is_lower c \<or> is_digit c) \<and> list_all (\<lambda>d. is_lower d \<or> is_digit d \<or> one_of ''_.-'' d) cs)"

definition provider_pat :: "pystr \<Rightarrow> bool" where
  "provider_pat s \<longleftrightarrow> list_all provider_segment (split_on 47 s)"

definition identifier_pat :: "pystr \<Rightarrow> bool" where
  "identifier_pat = head_pat is_alnum (\<lambda>c. is_alnum c \<or> one_of ''._:-'' c) 255"

definition pms_pat :: "pystr \<Rightarrow> bool" where
  "pms_pat = head_pat is_alnum (\<lambda>c. is_alnum c \<or> one_of ''._-'' c) 255"

definition g_rating_key_pat :: "pystr \<Rightarrow> bool" where
  "g_rating_key_pat = head_pat (\<lambda>c. is_digit c \<and> c \<noteq> 48) is_digit 19"

definition VPORTAL_ID_FIELDS :: "string list" where
  "VPORTAL_ID_FIELDS = [''id'', ''fid'', ''stream_id'', ''itemId'', ''media_id'', ''episode_id'']"

definition g_require :: "bool \<Rightarrow> unit result" where
  "g_require c = check g_invalid c"

definition g_shape :: "json \<Rightarrow> string list \<Rightarrow> unit result" where
  "g_shape v ks = shape g_invalid v ks"

definition g_text :: "json \<Rightarrow> int \<Rightarrow> json result" where
  "g_text v maximum =
     bindR (g_require (is_str v \<and> 0 < plen (str_of v) \<and> plen (str_of v) \<le> maximum)) (\<lambda>_.
     bindR (rethrow (\<lambda>e. e = UnicodeError) g_invalid (utf16_units (str_of v))) (\<lambda>units.
     bindR (g_require (units \<le> maximum \<and> strip_chars JS_TRIM (str_of v) = str_of v
       \<and> \<not> has_control (str_of v) \<and> \<not> contains_sub (u ''://'') (str_of v))) (\<lambda>_. Inr v)))"

definition g_pattern :: "json \<Rightarrow> (pystr \<Rightarrow> bool) \<Rightarrow> json result" where
  "g_pattern v P = bindR (pattern g_invalid v P) (\<lambda>_. Inr v)"

definition text_or_none :: "json \<Rightarrow> int \<Rightarrow> json result" where
  "text_or_none v maximum = (if v = JNull then Inr JNull else g_text v maximum)"

section \<open>Entries\<close>

definition g_origin :: "json \<Rightarrow> json result" where
  "g_origin v =
     bindR (g_shape v [''provider'', ''profile'', ''subprofile'', ''sourceAlias'']) (\<lambda>_.
     bindR (on v ''provider'' (\<lambda>p. g_require (is_str p \<and> 1 \<le> plen (str_of p) \<and> plen (str_of p) \<le> 64))) (\<lambda>_.
     bindR (on v ''profile'' (\<lambda>x. g_text x 256)) (\<lambda>profile.
     bindR (on v ''provider'' (\<lambda>x. g_pattern x provider_pat)) (\<lambda>provider.
     bindR (on v ''sourceAlias'' (\<lambda>x. g_text x 256)) (\<lambda>alias.
     bindR (on v ''subprofile'' (\<lambda>x. text_or_none x 256)) (\<lambda>sub.
       Inr (JObj [(u ''profile'', profile), (u ''provider'', provider), (u ''sourceAlias'', alias),
         (u ''subprofile'', sub)])))))))"

text \<open>\<open>re.match(r"[A-Za-z]:", path)\<close>.\<close>

definition drive_path :: "pystr \<Rightarrow> bool" where
  "drive_path s = (case s of c # d # _ \<Rightarrow> (is_lower c \<or> is_upper c) \<and> d = 58 | _ \<Rightarrow> False)"

definition relative_path_ok :: "pystr \<Rightarrow> bool" where
  "relative_path_ok path \<longleftrightarrow> \<not> starts_with (u ''/'') path \<and> \<not> drive_path path \<and> 92 \<notin> set path
     \<and> list_all (\<lambda>p. p \<notin> {[], u ''.'', u ''..''}) (split_on 47 path)"

text \<open>\<open>re.fullmatch(r"channel:[0-9]+", identifier)\<close>.\<close>

definition positional_channel :: "pystr \<Rightarrow> bool" where
  "positional_channel s \<longleftrightarrow> starts_with (u ''channel:'') s \<and> drop 8 s \<noteq> [] \<and> list_all is_digit (drop 8 s)"

definition plex_locator :: "json \<Rightarrow> json result" where
  "plex_locator v =
     bindR (g_shape v [''kind'', ''serverId'', ''ratingKey'']) (\<lambda>_.
     bindR (on v ''kind'' (\<lambda>k. g_require (is_lit k ''plex-media''))) (\<lambda>_.
     bindR (on v ''ratingKey'' (\<lambda>x. g_pattern x g_rating_key_pat)) (\<lambda>key.
     bindR (on v ''serverId'' (\<lambda>x. g_pattern x pms_pat)) (\<lambda>server.
       Inr (JObj [(u ''kind'', lit ''plex-media''), (u ''ratingKey'', key), (u ''serverId'', server)])))))"

definition local_locator :: "json \<Rightarrow> json result" where
  "local_locator v =
     bindR (g_shape v [''kind'', ''rootAlias'', ''relativePath'']) (\<lambda>_.
     bindR (on v ''kind'' (\<lambda>k. g_require (is_lit k ''local-media''))) (\<lambda>_.
     bindR (on v ''relativePath'' (\<lambda>x. g_text x 8192)) (\<lambda>path.
     bindR (g_require (relative_path_ok (str_of path))) (\<lambda>_.
     bindR (on v ''rootAlias'' (\<lambda>x. g_text x 256)) (\<lambda>root.
       Inr (JObj [(u ''kind'', lit ''local-media''), (u ''relativePath'', path), (u ''rootAlias'', root)]))))))"

definition vportal_locator :: "json \<Rightarrow> json result" where
  "vportal_locator v =
     bindR (g_shape v [''kind'', ''idField'', ''id'']) (\<lambda>_.
     bindR (on v ''kind'' (\<lambda>k. on v ''idField'' (\<lambda>f.
       g_require (is_lit k ''vportal-media'' \<and> is_str f \<and> in_lits f VPORTAL_ID_FIELDS)))) (\<lambda>_.
     bindR (on v ''id'' (\<lambda>x. g_pattern x identifier_pat)) (\<lambda>i.
     bindR (itemR v ''idField'') (\<lambda>f.
       Inr (JObj [(u ''id'', i), (u ''idField'', f), (u ''kind'', lit ''vportal-media'')])))))"

definition named_locator :: "json \<Rightarrow> json result" where
  "named_locator v =
     bindR (g_shape v [''kind'', ''name'', ''group'']) (\<lambda>_.
     bindR (on v ''group'' (\<lambda>x. text_or_none x 256)) (\<lambda>group.
     bindR (on v ''name'' (\<lambda>x. g_text x 1024)) (\<lambda>name.
       Inr (JObj [(u ''group'', group), (u ''kind'', lit ''channel-name''), (u ''name'', name)]))))"

definition channel_locator :: "json \<Rightarrow> json result" where
  "channel_locator v =
     bindR (g_shape v [''kind'', ''channelId'']) (\<lambda>_.
     bindR (on v ''kind'' (\<lambda>k. g_require (is_lit k ''channel''))) (\<lambda>_.
     bindR (on v ''channelId'' (\<lambda>x. g_pattern x identifier_pat)) (\<lambda>i.
     bindR (g_require (\<not> positional_channel (str_of i))) (\<lambda>_.
       Inr (JObj [(u ''channelId'', i), (u ''kind'', lit ''channel'')])))))"

definition g_locator :: "pystr \<Rightarrow> json \<Rightarrow> json result" where
  "g_locator provider v =
     (if provider = u ''plex'' then plex_locator v
      else if provider = u ''local'' then local_locator v
      else if provider = u ''vportal''
        \<or> provider = u ''m3u'' \<and> is_dict v \<and> same_keys v [''kind'', ''idField'', ''id'']
          \<and> is_lit (fld v ''kind'') ''vportal-media'' then vportal_locator v
      else if is_dict v \<and> is_lit (fld v ''kind'') ''channel-name'' then named_locator v
      else channel_locator v)"

definition g_entry :: "json \<Rightarrow> json result" where
  "g_entry v =
     bindR (g_shape v [''title'', ''origin'', ''locator'']) (\<lambda>_.
     bindR (on v ''origin'' g_origin) (\<lambda>origin.
     bindR (on v ''locator'' (g_locator (str_of (fld origin ''provider'')))) (\<lambda>locator.
     bindR (on v ''title'' (\<lambda>x. g_text x 1024)) (\<lambda>title.
       Inr (JObj [(u ''locator'', locator), (u ''origin'', origin), (u ''title'', title)])))))"

text \<open>\<open>_json(value)\<close> as text and as bytes, and the identity of a normalized entry.\<close>

definition g_json :: "json \<Rightarrow> pystr result" where
  "g_json v = dumps_sorted v"

definition g_json_bytes :: "json \<Rightarrow> bytes result" where
  "g_json_bytes v = bindR (g_json v) utf8_encode"

definition entry_identity :: "json \<Rightarrow> pystr result" where
  "entry_identity e =
     g_json (JObj [(u ''locator'', fld e ''locator''), (u ''origin'', fld e ''origin'')])"

definition g_identity :: "json \<Rightarrow> pystr result" where
  "g_identity v = bindR (g_entry v) entry_identity"

section \<open>Documents\<close>

fun is_float :: "json \<Rightarrow> bool" where
  "is_float (JFloat _) = True" | "is_float _ = False"

text \<open>One round of the loop over the entries: the entries, the identities and the bytes so far.\<close>

definition add_entry :: "json list \<times> pystr list \<times> int \<Rightarrow> json \<Rightarrow> (json list \<times> pystr list \<times> int) result" where
  "add_entry s v = (case s of (entries, seen, used) \<Rightarrow>
     bindR (g_entry v) (\<lambda>entry.
     bindR (g_json_bytes entry) (\<lambda>b.
     let used' = used + plen b + (if entries = [] then 0 else 1)
     in bindR (check g_too_large (used' \<le> G_MAX_BYTES)) (\<lambda>_.
        bindR (entry_identity entry) (\<lambda>key.
        bindR (check (GlobalDocumentError ''duplicate_entry'') (key \<notin> set seen)) (\<lambda>_.
          Inr (entries @ [entry], key # seen, used')))))))"

definition g_document :: "json list \<Rightarrow> json" where
  "g_document entries = JObj [(u ''entries'', JArr entries), (u ''version'', JInt 1)]"

definition g_empty_bytes :: bytes where
  "g_empty_bytes = ascii ''{'' @ [34] @ ascii ''entries'' @ [34] @ ascii '':[],'' @ [34] @ ascii ''version''
     @ [34] @ ascii '':1}''"

definition g_validate :: "json \<Rightarrow> json result" where
  "g_validate v =
     bindR (g_shape v [''version'', ''entries'']) (\<lambda>_.
     bindR (on v ''version'' (\<lambda>n. on v ''entries'' (\<lambda>es.
       g_require ((is_int n \<or> is_float n) \<and> py_eq n (JInt 1) \<and> is_list es)))) (\<lambda>_.
     bindR (on v ''entries'' (\<lambda>es. check g_too_large (plen (list_of es) \<le> MAX_ENTRIES))) (\<lambda>_.
     bindR (foldR add_entry ([], [], plen g_empty_bytes) (list_of (fld v ''entries'')))
       (\<lambda>(entries, _). Inr (g_document entries)))))"

definition g_entries :: "json \<Rightarrow> json list" where
  "g_entries d = list_of (fld d ''entries'')"

definition g_canonical :: "json \<Rightarrow> bytes result" where
  "g_canonical v = bindR (g_validate v) g_json_bytes"

text \<open>\<open>sorted({...})\<close> over texts.\<close>

definition sorted_set :: "pystr list \<Rightarrow> pystr list" where
  "sorted_set xs = sort (remdups xs)"

definition entry_kind :: "json \<Rightarrow> pystr" where
  "entry_kind e = str_of (fld (fld e ''locator'') ''kind'')"

definition required_kinds :: "json \<Rightarrow> pystr list result" where
  "required_kinds v = bindR (g_validate v) (\<lambda>d. Inr (sorted_set (map entry_kind (g_entries d))))"

text \<open>The loop over the advertisement: \<open>None\<close> where the code returns False.\<close>

fun advertised :: "json list \<Rightarrow> pystr list \<Rightarrow> pystr list option" where
  "advertised [] seen = Some seen"
| "advertised (k # ks) seen =
     (if \<not> is_str k \<or> 64 < plen (str_of k)
         \<or> 64 < sum_list (map (\<lambda>c. if 65536 \<le> c then 2 else (1 :: int)) (str_of k))
         \<or> str_of k \<in> set seen then None
      else advertised ks (str_of k # seen))"

definition supports :: "json \<Rightarrow> json \<Rightarrow> bool result" where
  "supports v kinds =
     (case required_kinds v of
        Inl e \<Rightarrow> if is_GlobalDocumentError e then Inr False else Inl e
      | Inr required \<Rightarrow>
          if \<not> is_list kinds \<or> 32 < plen (list_of kinds) then Inr False
          else Inr (case advertised (list_of kinds) [] of None \<Rightarrow> False
                    | Some seen \<Rightarrow> list_all (\<lambda>k. k \<in> set seen) required))"

definition load_document :: "bytes \<Rightarrow> json result" where
  "load_document raw =
     bindR (check g_too_large (0 < plen raw \<and> plen raw \<le> G_MAX_BYTES)) (\<lambda>_.
     bindR (depth_scan (GlobalDocumentError ''invalid_json'') MAX_JSON_DEPTH raw) (\<lambda>_.
     bindR (rethrow is_TransferError (GlobalDocumentError ''invalid_json'')
       (validate_document_bytes raw G_MAX_BYTES)) g_validate))"

section \<open>Merge previews\<close>

record title_conflict =
  existing_index :: nat
  incoming_document :: nat
  incoming_index :: nat

record merge_state =
  chosen :: "json list"
  positions :: "(pystr \<times> nat) list"
  clashes :: "(pystr \<times> title_conflict) list"
  repeats :: nat

text \<open>The incoming documents, their entries counted and their canonical bytes added up.\<close>

definition take_document :: "json list \<times> int \<times> int \<Rightarrow> json \<Rightarrow> (json list \<times> int \<times> int) result" where
  "take_document s v = (case s of (documents, n, used) \<Rightarrow>
     bindR (g_shape v [''version'', ''entries'']) (\<lambda>_.
     bindR (on v ''entries'' (\<lambda>es. g_require (is_list es))) (\<lambda>_.
     let n' = n + plen (g_entries v)
     in bindR (check g_too_large (n' \<le> MAX_ENTRIES)) (\<lambda>_.
        bindR (g_validate v) (\<lambda>document.
        bindR (g_json_bytes document) (\<lambda>b.
        bindR (check g_too_large (used + plen b \<le> G_MAX_BYTES)) (\<lambda>_.
          Inr (documents @ [document], n', used + plen b))))))))"

definition same_title :: "json \<Rightarrow> json \<Rightarrow> bool" where
  "same_title a b \<longleftrightarrow> py_eq (fld a ''title'') (fld b ''title'')"

definition merge_row :: "merge_state \<Rightarrow> (nat \<times> nat) \<times> json \<Rightarrow> merge_state result" where
  "merge_row s x = (case x of ((document_index, entry_index), row) \<Rightarrow>
     bindR (entry_identity row) (\<lambda>key.
       case map_of (positions s) key of
         None \<Rightarrow>
           bindR (check g_too_large (plen (chosen s) < MAX_ENTRIES)) (\<lambda>_.
             Inr (s\<lparr>positions := positions s @ [(key, length (chosen s))], chosen := chosen s @ [row]\<rparr>))
       | Some i \<Rightarrow>
           Inr (if same_title (chosen s ! i) row then s\<lparr>repeats := repeats s + 1\<rparr>
                else if key \<notin> fst ` set (clashes s)
                then s\<lparr>clashes := clashes s @ [(key, \<lparr>existing_index = i,
                       incoming_document = document_index, incoming_index = entry_index\<rparr>)]\<rparr>
                else s)))"

definition incoming_rows :: "json list \<Rightarrow> ((nat \<times> nat) \<times> json) list" where
  "incoming_rows documents =
     concat (map (\<lambda>(d, document). map (\<lambda>(e, row). ((d, e), row)) (enumerate 0 (g_entries document)))
       (enumerate 0 documents))"

record merge_summary =
  n_before :: nat
  n_after :: nat
  n_added :: nat
  n_removed :: nat
  n_retained :: nat
  n_moved :: nat
  n_skipped :: nat
  n_title_changes :: nat
  n_conflicts :: nat

record merge_plan =
  merged :: json
  summary :: merge_summary
  title_conflicts :: "title_conflict list"
  can_commit :: bool

text \<open>\<open>{_identity(row): x for ...}\<close>: a dict, the last value under a key winning.\<close>

definition dict_of :: "('k \<times> 'v) list \<Rightarrow> ('k \<times> 'v) list" where
  "dict_of kvs = foldl (\<lambda>d (k, v). AList.update k v d) [] kvs"

definition keyed :: "json list \<Rightarrow> (pystr \<times> nat \<times> json) list result" where
  "keyed entries =
     bindR (mapR (\<lambda>(i, row). bindR (entry_identity row) (\<lambda>k. Inr (k, i, row))) (enumerate 0 entries))
       (\<lambda>kvs. Inr (dict_of kvs))"

definition summarize ::
  "(pystr \<times> nat \<times> json) list \<Rightarrow> (pystr \<times> nat \<times> json) list \<Rightarrow> merge_state \<Rightarrow> merge_summary" where
  "summarize old new s =
     (let kept = filter (\<lambda>(k, _). k \<in> fst ` set new) old
      in \<lparr>n_before = length old, n_after = length new,
          n_added = length (filter (\<lambda>(k, _). k \<notin> fst ` set old) new),
          n_removed = length (filter (\<lambda>(k, _). k \<notin> fst ` set new) old),
          n_retained = length kept,
          n_moved = length (filter (\<lambda>(k, i, _). map_option fst (map_of new k) \<noteq> Some i) kept),
          n_skipped = repeats s,
          n_title_changes = length (filter (\<lambda>(k, _, row).
            case map_of new k of None \<Rightarrow> False | Some (_, row') \<Rightarrow> \<not> same_title row row') kept),
          n_conflicts = length (clashes s)\<rparr>)"

definition g_plan :: "json \<Rightarrow> json list \<Rightarrow> pystr \<Rightarrow> merge_plan result" where
  "g_plan current incoming mode =
     bindR (check (GlobalDocumentError ''invalid_mode'') (mode = u ''merge'' \<or> mode = u ''replace'')) (\<lambda>_.
     bindR (check (GlobalDocumentError ''invalid_documents'')
       (1 \<le> plen incoming \<and> plen incoming \<le> MAX_DOCUMENTS)) (\<lambda>_.
     bindR (g_validate (if current = JNull then g_document [] else current)) (\<lambda>original.
     bindR (foldR take_document ([], 0, 0) incoming) (\<lambda>(documents, _).
     let start = (if mode = u ''merge'' then g_entries original else [])
     in bindR (keyed start) (\<lambda>old_rows.
        bindR (foldR merge_row \<lparr>chosen = start, positions = map (\<lambda>(k, i, _). (k, i)) old_rows,
                 clashes = [], repeats = 0\<rparr> (incoming_rows documents)) (\<lambda>s.
        bindR (g_validate (g_document (chosen s))) (\<lambda>res.
        bindR (keyed (g_entries original)) (\<lambda>old.
        bindR (keyed (g_entries res)) (\<lambda>new.
          Inr \<lparr>merged = res, summary = summarize old new s, title_conflicts = map snd (clashes s),
               can_commit = (clashes s = [])\<rparr>)))))))))"

end
