(* ===== verification/JsonReal.thy ===== *)
theory JsonReal
  imports JsonSize
begin

text \<open>
  Values as the interpreter has them: strings of code points, dicts with distinct keys, integers
  within the digit limit of \<open>json.loads\<close>. The parser builds such values from such texts, escapes and
  surrogate pairs included; the ones without floats survive writing and parsing.
\<close>

definition code_points :: "pystr \<Rightarrow> bool" where
  "code_points s \<longleftrightarrow> list_all (\<lambda>c. 0 \<le> c \<and> c \<le> 1114111) s"

fun real_value :: "json \<Rightarrow> bool" where
  "real_value (JInt i) = (plen (dec_digits (nat \<bar>i\<bar>)) \<le> 4300)"
| "real_value (JStr s) = code_points s"
| "real_value (JArr vs) = (\<forall>v \<in> set vs. real_value v)"
| "real_value (JObj kv) = (distinct (map fst kv) \<and> (\<forall>p \<in> set kv. code_points (fst p) \<and> real_value (snd p)))"
| "real_value _ = True"

lemma real_value_fld: "real_value v \<Longrightarrow> real_value (fld v k)"
  by (cases v) (auto simp: fld_def split: option.splits dest!: map_of_SomeD)

lemma code_points_Cons [simp]: "code_points (c # s) \<longleftrightarrow> 0 \<le> c \<and> c \<le> 1114111 \<and> code_points s"
  by (simp add: code_points_def)

lemma code_points_Nil [simp]: "code_points []"
  by (simp add: code_points_def)

lemma code_points_append [simp]: "code_points (s @ t) \<longleftrightarrow> code_points s \<and> code_points t"
  by (simp add: code_points_def)

lemma code_points_part:
  "code_points s \<Longrightarrow> code_points (dropWhile P s)" "code_points s \<Longrightarrow> code_points (takeWhile P s)"
  "code_points s \<Longrightarrow> code_points (drop n s)" "code_points s \<Longrightarrow> code_points (tl s)"
  "code_points s \<Longrightarrow> code_points (skip_ws s)"
  by (auto simp: code_points_def list_all_iff skip_ws_def dest: set_dropWhileD set_takeWhileD in_set_dropD list.set_sel(2))
    (metis list.set_sel(2) tl_Nil)+

lemma encodable_code_points: "encodable s \<Longrightarrow> code_points s"
  by (auto simp: encodable_def code_points_def list_all_iff utf8_char_def split: if_splits)

lemma utf8_decode_code_points: "utf8_decode b = Inr s \<Longrightarrow> code_points s"
proof (induction b arbitrary: s rule: utf8_decode.induct)
  case (2 a r)
  then show ?case
    by (auto simp: ok_iff Let_def cont_def split: if_splits list.splits)
qed simp

section \<open>The parser\<close>

lemma hexval_range: "hexval c = Some v \<Longrightarrow> 0 \<le> v \<and> v < 16"
  by (auto simp: hexval_def is_digit_def split: if_splits)

lemma hex4_range: "hex4 a b c d = Some v \<Longrightarrow> 0 \<le> v \<and> v < 65536"
  by (auto simp: hex4_def split: option.splits dest!: hexval_range)

lemma low_half_points: "low_half s = Some (v, r) \<Longrightarrow> code_points s \<Longrightarrow> 56320 \<le> v \<and> v \<le> 57343 \<and> code_points r"
  by (induction s rule: low_half.induct) (auto split: if_splits option.splits)

lemma unesc_range: "unesc c = Some v \<Longrightarrow> 0 \<le> v \<and> v \<le> 92"
  by (auto simp: unesc_def split: if_splits)

lemma map_head: "map_option (\<lambda>(s, q). (v # s, q)) m = Some (t, r) \<longleftrightarrow> (\<exists>t'. m = Some (t', r) \<and> t = v # t')"
  by (cases m) auto

lemma scan_str_points: "scan_str s = Some (t, r) \<Longrightarrow> code_points s \<Longrightarrow> code_points t \<and> code_points r"
proof (induction "length s" arbitrary: s t r rule: less_induct)
  case less
  note run = less.prems(1) and IH = less.hyps
  obtain c s1 where s: "s = c # s1" using run by (cases s) auto
  have c: "0 \<le> c" "c \<le> 1114111" "code_points s1" using less.prems(2) s by auto
  consider "c = 34" | "c \<noteq> 34" "c \<noteq> 92" | "c = 92" by blast
  then show ?case
  proof cases
    case 1
    with run s c show ?thesis by (simp add: scan_str.simps(2))
  next
    case 2
    with run s obtain t' where "scan_str s1 = Some (t', r)" "t = c # t'"
      by (auto simp: scan_str.simps(2) map_head split: if_splits)
    with IH [of s1] s c show ?thesis by auto
  next
    case 3
    with run s obtain d r1 where d: "s1 = d # r1" by (auto simp: scan_str.simps(2) split: list.splits)
    show ?thesis
    proof (cases "d = 117")
      case False
      with run s d 3 obtain v t' where "unesc d = Some v" "scan_str r1 = Some (t', r)" "t = v # t'"
        by (auto simp: scan_str.simps(2) map_head split: option.splits)
      with IH [of r1] s c d unesc_range show ?thesis by fastforce
    next
      case True
      obtain w x y z r2 where r1: "r1 = w # x # y # z # r2"
        using run s d 3 True by (auto simp: scan_str.simps(2) split: list.splits)
      obtain v where v: "hex4 w x y z = Some v"
        using run s d 3 True r1 by (auto simp: scan_str.simps(2) split: option.splits)
      have r2: "code_points r2" using c d r1 by simp
      show ?thesis
      proof (cases "if 55296 \<le> v \<and> v \<le> 56319 then low_half r2 else None")
        case None
        have "map_option (\<lambda>(s, q). (v # s, q)) (scan_str r2) = Some (t, r)"
          using run s d 3 True r1 v None by (auto simp: scan_str.simps(2) split: if_splits option.splits)
        then obtain t' where "scan_str r2 = Some (t', r)" "t = v # t'" by (auto simp: map_head)
        with IH [of r2 t' r] s d r1 r2 hex4_range [OF v] show ?thesis by auto
      next
        case (Some p)
        obtain v2 r3 where p: "p = (v2, r3)" by (cases p)
        have h: "55296 \<le> v" "v \<le> 56319" "low_half r2 = Some (v2, r3)" using Some p by (auto split: if_splits)
        have "map_option (\<lambda>(s, q). ((65536 + (v - 55296) * 1024 + (v2 - 56320)) # s, q)) (scan_str r3) = Some (t, r)"
          using run s d 3 True r1 v h by (auto simp: scan_str.simps(2))
        then obtain t' where "scan_str r3 = Some (t', r)" "t = (65536 + (v - 55296) * 1024 + (v2 - 56320)) # t'"
          by (auto simp: map_head)
        moreover have "length r3 < length s" using low_half_length [OF h(3)] s d r1 by simp
        ultimately show ?thesis using IH [of r3 t' r] low_half_points [OF h(3) r2] h by auto
      qed
    qed
  qed
qed

lemma dec_val_bound: "list_all is_digit s \<Longrightarrow> dec_val s < 10 ^ length s"
proof (induction s rule: rev_induct)
  case (snoc c s)
  then have "dec_val s < 10 ^ length s" "nat (c - 48) \<le> 9" by (auto simp: is_digit_def)
  then have "10 * dec_val s + nat (c - 48) < 10 * 10 ^ length s" by linarith
  then show ?case by (simp add: dec_val_snoc)
qed (simp add: dec_val_def)

lemma dec_digits_bound: "n < 10 ^ k \<Longrightarrow> 1 \<le> k \<Longrightarrow> length (dec_digits n) \<le> k"
proof (induction k arbitrary: n)
  case (Suc k)
  show ?case
  proof (cases "n < 10")
    case True
    then show ?thesis by (subst dec_digits.simps) simp
  next
    case False
    then have "1 \<le> k" using Suc.prems(1) by (cases k) auto
    moreover have "n div 10 < 10 ^ k" using Suc.prems(1) by (simp add: less_mult_imp_div_less mult.commute)
    ultimately have "length (dec_digits (n div 10)) \<le> k" by (rule Suc.IH [rotated])
    with False show ?thesis by (subst dec_digits.simps) simp
  qed
qed simp

lemma digits_small: "n < 1000000000000000000 \<Longrightarrow> plen (dec_digits n) \<le> 4300"
  using dec_digits_bound [of n 18] by (simp add: plen_def)

lemma digits_one [simp]: "plen (dec_digits (Suc 0)) \<le> 4300"
  by (rule digits_small) simp

lemma scan_num_points: "scan_num s = Inr (v, r) \<Longrightarrow> code_points s \<Longrightarrow> real_value v \<and> code_points r"
proof -
  have frac: "scan_frac s = (a, r) \<Longrightarrow> code_points s \<Longrightarrow> code_points r" for s a r
    by (auto simp: scan_frac_def split: list.splits if_splits intro: code_points_part)
  have expo: "scan_exp s = (a, r) \<Longrightarrow> code_points s \<Longrightarrow> code_points r" for s a r
    by (auto simp: scan_exp_def Let_def split: list.splits if_splits intro: code_points_part)
  have ip: "scan_int_part s = (a, r) \<Longrightarrow> code_points s \<Longrightarrow> code_points r" for s a r
    by (auto simp: scan_int_part_def split: if_splits intro: code_points_part)
  have uns: "scan_unsigned neg s = Inr (v, r) \<Longrightarrow> code_points s \<Longrightarrow> real_value v \<and> code_points r" for neg s
  proof -
    assume run: "scan_unsigned neg s = Inr (v, r)" and s: "code_points s"
    obtain a t1 where 1: "scan_int_part s = (a, t1)" by fastforce
    obtain b t2 where 2: "scan_frac t1 = (b, t2)" by fastforce
    obtain c t3 where 3: "scan_exp t2 = (c, t3)" by fastforce
    have "code_points t1" "code_points t3" using ip [OF 1 s] frac [OF 2] expo [OF 3] by auto
    moreover have "plen (dec_digits (dec_val a)) \<le> 4300" if "a \<noteq> []" "plen a \<le> 4300"
    proof -
      have "list_all is_digit a" using 1 by (auto simp: scan_int_part_def is_digit_def list_all_iff
            dest: set_takeWhileD split: if_splits)
      from dec_digits_bound [OF dec_val_bound [OF this]] that show ?thesis by (cases a) (auto simp: plen_def)
    qed
    ultimately show "real_value v \<and> code_points r" using run
      by (auto simp: scan_unsigned_def 1 2 3 Let_def split: if_splits)
  qed
  show "scan_num s = Inr (v, r) \<Longrightarrow> code_points s \<Longrightarrow> real_value v \<and> code_points r"
    using uns [of False s] uns [of True "tl s"] by (auto simp: scan_num_def split: if_splits intro: code_points_part)
qed

lemma scan_points:
  shows "scan_val n s = Inr (v, r) \<Longrightarrow> code_points s \<Longrightarrow> real_value v \<and> code_points r"
    and "scan_arr n s = Inr (vs, r) \<Longrightarrow> code_points s \<Longrightarrow> (\<forall>v \<in> set vs. real_value v) \<and> code_points r"
    and "scan_obj n s = Inr (kv, r) \<Longrightarrow> code_points s \<Longrightarrow> (\<forall>p \<in> set kv. code_points (fst p) \<and> real_value (snd p)) \<and> code_points r"
proof (induction n s and n s and n s arbitrary: v r and vs r and kv r rule: scan_val_scan_arr_scan_obj.induct)
  case (2 n s)
  show ?case
  proof (cases s)
    case (Cons c t)
    have sk: "code_points (skip_ws t)" "code_points (tl (skip_ws t))"
      using "2.prems"(2) Cons by (auto intro: code_points_part)
    consider "c = 34" | "c = 123" | "c = 91" | "c \<notin> {34, 123, 91}" by blast
    then show ?thesis
    proof cases
      case 1
      with Cons 2 show ?thesis by (auto split: option.splits dest: scan_str_points)
    next
      case 2
      with Cons "2.prems" "2.IH"(1) [OF Cons] sk show ?thesis
        by (auto simp: ok_iff split: if_splits)
    next
      case 3
      with Cons "2.prems" "2.IH"(2) [OF Cons] sk show ?thesis
        by (auto simp: ok_iff split: if_splits)
    next
      case 4
      with Cons "2.prems" scan_num_points [of s v r] show ?thesis
        by (auto simp: u_def split: if_splits intro: code_points_part)
    qed
  qed (use 2 in simp)
next
  case (4 n s)
  then obtain w r1 where w: "scan_val n s = Inr (w, r1)" by (auto simp: ok_iff)
  from "4.IH"(1) [OF w "4.prems"(2)] have w': "real_value w" "code_points r1" by auto
  show ?case
  proof (cases "skip_ws r1")
    case (Cons d r2)
    then have "code_points r2" using code_points_part(5) [OF w'(2)] by simp
    then have r2: "code_points (skip_ws r2)" by (rule code_points_part)
    show ?thesis
    proof (cases "d = 44")
      case True
      with "4.prems"(1) w Cons obtain vs' where "scan_arr n (skip_ws r2) = Inr (vs', r)" "vs = w # vs'"
        by (auto simp: ok_iff)
      with "4.IH"(2) [OF Cons _ True this(1) r2] w' True show ?thesis by auto
    next
      case False
      with "4.prems"(1) w w' Cons show ?thesis
        using code_points_part(5) [OF w'(2)] by (auto simp: ok_iff split: if_splits)
    qed
  qed (use 4 w in simp)
next
  case (6 n s)
  obtain c t where s: "s = c # t" using "6.prems"(1) by (cases s) auto
  have c: "c = 34" using "6.prems"(1) s by (auto split: if_splits)
  obtain k r1 where k: "scan_str t = Some (k, r1)" using "6.prems"(1) s c by (auto split: option.splits)
  have colon: "starts_with [58] (skip_ws r1)" using "6.prems"(1) s c k by (auto split: if_splits)
  obtain w r2 where w: "scan_val n (skip_ws (tl (skip_ws r1))) = Inr (w, r2)"
    using "6.prems"(1) s c k colon by (auto simp: ok_iff)
  have k': "code_points k" "code_points r1" using scan_str_points [OF k] "6.prems"(2) s by auto
  have "code_points (skip_ws (tl (skip_ws r1)))" using k'(2) by (intro code_points_part)
  with "6.IH"(1) [OF s _ k refl _ w] c colon have w': "real_value w" "code_points r2" by auto
  show ?case
  proof (cases "skip_ws r2")
    case (Cons d r3)
    then have "code_points r3" using code_points_part(5) [OF w'(2)] by simp
    then have r3: "code_points (skip_ws r3)" by (rule code_points_part)
    show ?thesis
    proof (cases "d = 44")
      case True
      with "6.prems"(1) s c k colon w Cons obtain kv' where kv: "scan_obj n (skip_ws r3) = Inr (kv', r)" "kv = (k, w) # kv'"
        by (auto simp: ok_iff)
      from "6.IH"(2) [OF s _ k refl _ Cons _ True kv(1) r3] c colon True kv(2) w' k' show ?thesis by auto
    next
      case False
      with "6.prems"(1) s c k colon w w' k' Cons show ?thesis
        using code_points_part(5) [OF w'(2)] by (auto simp: ok_iff split: if_splits)
    qed
  qed (use "6.prems" s c k colon w in simp)
qed simp_all

lemma loads_real_value: "loads s = Inr v \<Longrightarrow> code_points s \<Longrightarrow> real_value v"
proof -
  assume l: "loads s = Inr v" "code_points s"
  then obtain r where "scan_val (Suc (2 * length s)) (skip_ws s) = Inr (v, r)"
    unfolding loads_def by (auto simp del: scan_val.simps simp: ok_iff split: if_splits)
  from scan_points(1) [OF this] l(2) show "real_value v" by (auto intro: code_points_part)
qed

lemma loads_bytes_real_value: "loads_bytes b = Inr v \<Longrightarrow> real_value v"
  by (auto simp: loads_bytes_def ok_iff dest!: utf8_decode_code_points intro: loads_real_value)

section \<open>Values without floats\<close>

fun float_free :: "json \<Rightarrow> bool" where
  "float_free (JFloat f) = False"
| "float_free (JArr vs) = (\<forall>v \<in> set vs. float_free v)"
| "float_free (JObj kv) = (\<forall>p \<in> set kv. float_free (snd p))"
| "float_free _ = True"

lemma real_float_free_plain: "real_value v \<Longrightarrow> float_free v \<Longrightarrow> plain v"
  by (induction v rule: float_free.induct) (auto simp: code_points_def list_all_iff)

lemma float_free_shape:
  assumes "is_dict v" "same_keys v ks" "real_value v" "\<forall>k \<in> set ks. float_free (fld v k)"
  shows "float_free v"
proof -
  obtain kv where v: "v = JObj kv" using assms(1) by (cases v) auto
  have "float_free (snd p)" if p: "p \<in> set kv" for p
  proof -
    have "fst p \<in> u ` set ks" using assms(2) p v by (auto simp: same_keys_keys keys_of_def)
    then obtain k where k: "k \<in> set ks" "fst p = u k" by auto
    have "(u k, snd p) = p" using k(2) by (cases p) auto
    then have "map_of kv (u k) = Some (snd p)" using p assms(3) v by (intro map_of_is_SomeI) auto
    then have "fld v k = snd p" by (simp add: v fld_def)
    with assms(4) k(1) show ?thesis by metis
  qed
  with v show ?thesis by simp
qed

end
