(* ===== verification/GlobalDocumentLaws.thy ===== *)
theory GlobalDocumentLaws
  imports GlobalDocument FavEnvelopes JsonReal TransferErrors
begin

text \<open>
  What the validators of \<open>global_favorites_document.py\<close> establish: a normalized entry is a fixed
  point of normalization, its keys are in canonical order, and its identity and its bytes exist.
\<close>

section \<open>Normal entries\<close>

lemma g_require_ok [ok_iff]: "g_require c = Inr x \<longleftrightarrow> c"
  by (simp add: g_require_def ok_iff)

lemma g_shape_ok [ok_iff]: "g_shape v ks = Inr x \<longleftrightarrow> is_dict v \<and> same_keys v ks"
  by (simp add: g_shape_def ok_iff)

lemma g_pattern_ok [ok_iff]: "g_pattern v P = Inr w \<longleftrightarrow> w = v \<and> (\<exists>s. v = JStr s \<and> P s)"
  by (auto simp: g_pattern_def ok_iff)

definition text_ok :: "pystr \<Rightarrow> int \<Rightarrow> bool" where
  "text_ok s m \<longleftrightarrow> (\<exists>n. utf16_units s = Inr n \<and> n \<le> m) \<and> 0 < plen s \<and> plen s \<le> m \<and> strip_chars JS_TRIM s = s
     \<and> \<not> has_control s \<and> \<not> contains_sub (u ''://'') s"

lemma g_text_ok [ok_iff]: "g_text v m = Inr w \<longleftrightarrow> w = v \<and> (\<exists>s. v = JStr s \<and> text_ok s m)"
  by (cases v) (auto simp: g_text_def text_ok_def ok_iff)

lemma text_or_none_ok [ok_iff]:
  "text_or_none v m = Inr w \<longleftrightarrow> w = v \<and> (v = JNull \<or> (\<exists>s. v = JStr s \<and> text_ok s m))"
  by (auto simp: text_or_none_def ok_iff)

lemma same_keys_list: "same_keys (JObj kv) ks \<longleftrightarrow> fst ` set kv = u ` set ks"
  by (simp add: same_keys_keys keys_of_def)

lemma g_origin_ok:
  "g_origin v = Inr w \<Longrightarrow> \<exists>a p s b. w = JObj [(u ''profile'', JStr a), (u ''provider'', JStr p), (u ''sourceAlias'', JStr s), (u ''subprofile'', b)]
     \<and> text_ok a 256 \<and> 1 \<le> plen p \<and> plen p \<le> 64 \<and> provider_pat p \<and> text_ok s 256
     \<and> (b = JNull \<or> (\<exists>t. b = JStr t \<and> text_ok t 256))"
  by (auto simp: g_origin_def ok_iff)

lemma g_origin_normal: "g_origin v = Inr w \<Longrightarrow> g_origin w = Inr w"
  by (drule g_origin_ok) (auto simp: g_origin_def ok_iff same_keys_list)

lemma locator_normal:
  "plex_locator v = Inr w \<Longrightarrow> plex_locator w = Inr w"
  "local_locator v = Inr w \<Longrightarrow> local_locator w = Inr w"
  "vportal_locator v = Inr w \<Longrightarrow> vportal_locator w = Inr w"
  "named_locator v = Inr w \<Longrightarrow> named_locator w = Inr w"
  "channel_locator v = Inr w \<Longrightarrow> channel_locator w = Inr w"
  by (auto simp: plex_locator_def local_locator_def vportal_locator_def named_locator_def channel_locator_def
      ok_iff same_keys_list lit_def is_str_iff)

lemma locator_kind:
  "vportal_locator v = Inr w \<Longrightarrow> is_dict w \<and> same_keys w [''kind'', ''idField'', ''id''] \<and> is_lit (fld w ''kind'') ''vportal-media''"
  "named_locator v = Inr w \<Longrightarrow> is_dict w \<and> is_lit (fld w ''kind'') ''channel-name''"
  "channel_locator v = Inr w \<Longrightarrow> is_dict w \<and> is_lit (fld w ''kind'') ''channel''"
  by (auto simp: vportal_locator_def named_locator_def channel_locator_def ok_iff same_keys_list lit_def is_lit_def)

lemma g_locator_normal: "g_locator p v = Inr w \<Longrightarrow> g_locator p w = Inr w"
  by (auto simp: g_locator_def is_lit_def split: if_splits intro: locator_normal dest: locator_kind)

lemma g_entry_ok:
  "g_entry v = Inr w \<longleftrightarrow> is_dict v \<and> same_keys v [''title'', ''origin'', ''locator''] \<and> (\<exists>or lo t.
     g_origin (fld v ''origin'') = Inr or \<and> g_locator (str_of (fld or ''provider'')) (fld v ''locator'') = Inr lo \<and>
     fld v ''title'' = JStr t \<and> text_ok t 1024 \<and>
     w = JObj [(u ''locator'', lo), (u ''origin'', or), (u ''title'', JStr t)])"
  by (auto simp: g_entry_def ok_iff same_keys_has)

lemma g_entry_normal: "g_entry v = Inr w \<Longrightarrow> g_entry w = Inr w"
  by (auto simp: g_entry_ok same_keys_list dest: g_origin_normal g_locator_normal)

section \<open>Canonical key order\<close>

definition key_sorted :: "json \<Rightarrow> bool" where
  "key_sorted v \<longleftrightarrow> sort_keys v = v"

lemma key_sorted_simps [simp]:
  "key_sorted JNull" "key_sorted (JStr s)" "key_sorted (JInt i)" "key_sorted (lit t)"
  by (simp_all add: key_sorted_def lit_def)

lemma key_sorted_JArr: "\<forall>v \<in> set vs. key_sorted v \<Longrightarrow> key_sorted (JArr vs)"
  by (simp add: key_sorted_def map_idI)

lemma key_sorted_JObj:
  assumes "sorted (map fst kv)" "\<forall>p \<in> set kv. key_sorted (snd p)"
  shows "key_sorted (JObj kv)"
proof -
  have "map (\<lambda>p. (fst p, sort_keys (snd p))) kv = kv"
    using assms(2) by (intro map_idI) (auto simp: key_sorted_def)
  with assms(1) show ?thesis by (simp add: key_sorted_def sorted_sort_id sort_key_id_if_sorted)
qed

lemma key_orders:
  "sorted (map fst [(u ''profile'', a), (u ''provider'', b), (u ''sourceAlias'', c), (u ''subprofile'', d)])"
  "sorted (map fst [(u ''kind'', a), (u ''ratingKey'', b), (u ''serverId'', c)])"
  "sorted (map fst [(u ''kind'', a), (u ''relativePath'', b), (u ''rootAlias'', c)])"
  "sorted (map fst [(u ''id'', a), (u ''idField'', b), (u ''kind'', c)])"
  "sorted (map fst [(u ''group'', a), (u ''kind'', b), (u ''name'', c)])"
  "sorted (map fst [(u ''channelId'', a), (u ''kind'', b)])"
  "sorted (map fst [(u ''locator'', a), (u ''origin'', b), (u ''title'', c)])"
  "sorted (map fst [(u ''locator'', a), (u ''origin'', b)])"
  "sorted (map fst [(u ''entries'', a), (u ''version'', b)])"
  for a b c d :: json
  by (simp_all add: u_def)

lemma key_sorted_origin: "g_origin v = Inr w \<Longrightarrow> key_sorted w"
  by (drule g_origin_ok) (auto intro!: key_sorted_JObj simp del: list.map simp: key_orders)

lemma key_sorted_locator: "g_locator p v = Inr w \<Longrightarrow> key_sorted w"
  by (auto simp: g_locator_def plex_locator_def local_locator_def vportal_locator_def named_locator_def
      channel_locator_def ok_iff is_str_iff split: if_splits intro!: key_sorted_JObj simp del: list.map simp: key_orders)

lemma key_sorted_entry: "g_entry v = Inr w \<Longrightarrow> key_sorted w"
  by (auto simp: g_entry_ok simp del: list.map simp: key_orders
      intro!: key_sorted_JObj dest: key_sorted_origin key_sorted_locator)

section \<open>Values that can be written\<close>

text \<open>A value without floats whose text has UTF-8 bytes, and the same of its parts.\<close>

definition writable :: "json \<Rightarrow> bool" where
  "writable v \<longleftrightarrow> plain v \<and> encodable (ctext v)"

lemma encodable_esc: "utf8_char c \<noteq> None \<Longrightarrow> encodable (esc c)"
proof -
  assume c: "utf8_char c \<noteq> None"
  then have "0 \<le> c" by (auto simp: utf8_char_def split: if_splits)
  then have "\<forall>x \<in> set (esc c). x = c \<or> 0 \<le> x \<and> x < 128"
    using pos_mod_bound [of 16 c] by (auto simp: esc_def hexdig_def)
  with c show "encodable (esc c)"
    using ascii_char by (auto simp: encodable_def list_all_iff)
qed

lemma encodable_quote: "encodable s \<Longrightarrow> encodable (quote s)"
proof -
  assume "encodable s"
  then have "encodable (concat (map esc s))"
    by (induction s) (auto simp: encodable_esc)
  then show "encodable (quote s)" by (simp add: quote_def ascii_char)
qed

lemma writable_JNull: "writable JNull"
  by (simp add: writable_def u_def ascii_char)

lemma writable_JStr: "encodable s \<Longrightarrow> writable (JStr s)"
  by (auto simp: writable_def encodable_quote dest: encodable_chars)

lemma writable_small_int: "0 \<le> i \<Longrightarrow> i < 10 \<Longrightarrow> writable (JInt i)"
  by (subst writable_def) (simp add: int_text_def dec_digits.simps ascii_char)

lemma writable_JArr: "\<forall>v \<in> set vs. writable v \<Longrightarrow> writable (JArr vs)"
  by (auto simp: writable_def encodable_join ascii_char)

lemma writable_JObj:
  "distinct (map fst kv) \<Longrightarrow> \<forall>p \<in> set kv. encodable (fst p) \<and> writable (snd p) \<Longrightarrow> writable (JObj kv)"
  by (auto simp: writable_def encodable_join ascii_char encodable_quote dest: encodable_chars)

lemma writable_json_bytes:
  assumes "writable v" "key_sorted v"
  shows "\<exists>b. g_json_bytes v = Inr b \<and> utf8_encode (ctext v) = Inr b \<and> plen b = jsize v"
proof -
  obtain b where b: "utf8_encode (ctext v) = Inr b"
    using assms(1) utf8_encode_iff by (auto simp: writable_def)
  with assms plain_dumpable [of v] utf8_encode_size [OF b] show ?thesis
    by (auto simp: g_json_bytes_def g_json_def dumps_sorted_def dumps_compact_def dumps_def key_sorted_def
        writable_def jsize_def)
qed

lemma code_points_encodable: "code_points s \<Longrightarrow> \<not> list_ex surrogate s \<Longrightarrow> encodable s"
  by (induction s) (auto simp: code_points_def utf8_char_def)

lemma text_ok_encodable: "text_ok s m \<Longrightarrow> code_points s \<Longrightarrow> encodable s"
  by (auto simp: text_ok_def utf16_units_def split: if_splits intro: code_points_encodable)

lemma ascii_encodable: "\<forall>c \<in> set s. 0 \<le> c \<and> c < 128 \<Longrightarrow> encodable s"
  by (induction s) (auto simp: ascii_char)

lemma encodable_u [simp]: "encodable (u s)"
proof -
  have "utf8_char (of_char c) \<noteq> None" for c :: char
  proof -
    have "(of_char c :: int) = of_char c mod 256" by simp
    then have "0 \<le> (of_char c :: int)" "(of_char c :: int) < 256" by presburger+
    then show ?thesis by (simp add: utf8_char_def surrogate_def)
  qed
  then show ?thesis by (simp add: encodable_def u_def list_all_iff)
qed

section \<open>Normal entries can be written\<close>

definition is_ascii :: "int \<Rightarrow> bool" where
  "is_ascii c \<longleftrightarrow> 0 \<le> c \<and> c < 128"

lemma class_ascii:
  "is_digit c \<Longrightarrow> is_ascii c" "is_lower c \<Longrightarrow> is_ascii c" "is_alnum c \<Longrightarrow> is_ascii c"
  by (auto simp: is_alnum_def is_digit_def is_lower_def is_upper_def is_ascii_def)

lemma marks_ascii: "one_of ''_.-'' c \<Longrightarrow> is_ascii c" "one_of ''._-'' c \<Longrightarrow> is_ascii c" "one_of ''._:-'' c \<Longrightarrow> is_ascii c"
  by (auto simp: one_of_def u_def is_ascii_def)

lemma head_class_ascii:
  assumes "head_pat H T n s" "\<And>c. H c \<Longrightarrow> is_ascii c" "\<And>c. T c \<Longrightarrow> is_ascii c"
  shows "encodable s"
  using assms by (intro ascii_encodable) (auto simp: head_pat_def is_ascii_def list_all_iff split: list.splits)

lemma split_on_set: "set s \<subseteq> insert d (\<Union> (set ` set (split_on d s)))"
proof (induction s)
  case (Cons c s)
  show ?case
  proof (cases "split_on d s")
    case Nil
    then show ?thesis by simp
  next
    case (Cons w ws)
    with Cons.IH show ?thesis by auto
  qed
qed simp

lemma segment_ascii: "provider_segment w \<Longrightarrow> c \<in> set w \<Longrightarrow> is_ascii c"
  by (auto simp: provider_segment_def list_all_iff class_ascii marks_ascii split: list.splits)

lemma provider_pat_ascii: "provider_pat s \<Longrightarrow> encodable s"
proof (rule ascii_encodable)
  assume "provider_pat s"
  then have "\<forall>w \<in> set (split_on 47 s). \<forall>c \<in> set w. is_ascii c"
    using segment_ascii by (auto simp: provider_pat_def list_all_iff)
  with split_on_set [of s 47] show "\<forall>c \<in> set s. 0 \<le> c \<and> c < 128"
    by (force simp: is_ascii_def)
qed

lemma pattern_encodable:
  "identifier_pat s \<Longrightarrow> encodable s" "pms_pat s \<Longrightarrow> encodable s" "g_rating_key_pat s \<Longrightarrow> encodable s"
  unfolding identifier_pat_def pms_pat_def g_rating_key_pat_def
  by (erule head_class_ascii; auto simp: class_ascii marks_ascii)+

lemma writable_text: "text_ok s m \<Longrightarrow> real_value (JStr s) \<Longrightarrow> writable (JStr s)"
  by (simp add: writable_JStr text_ok_encodable)

lemma writable_lit [simp]: "writable (lit s)" "writable (JStr (u s))"
  by (simp_all add: lit_def writable_JStr)

lemma fld_text: "fld v k = JStr s \<Longrightarrow> real_value v \<Longrightarrow> real_value (JStr s)"
  using real_value_fld [of v k] by simp

lemma writable_fld: "fld v k = JStr s \<Longrightarrow> real_value v \<Longrightarrow> text_ok s m \<Longrightarrow> writable (JStr s)"
  by (rule writable_text) (auto dest: fld_text)

lemma writable_patterns:
  "provider_pat s \<Longrightarrow> writable (JStr s)" "identifier_pat s \<Longrightarrow> writable (JStr s)"
  "pms_pat s \<Longrightarrow> writable (JStr s)" "g_rating_key_pat s \<Longrightarrow> writable (JStr s)"
  by (simp_all add: writable_JStr provider_pat_ascii pattern_encodable)

lemma writable_origin: "g_origin v = Inr w \<Longrightarrow> real_value v \<Longrightarrow> writable w"
  by (auto simp: g_origin_def ok_iff writable_JNull intro!: writable_JObj
      intro: writable_fld writable_patterns)

lemma writable_locator: "g_locator p v = Inr w \<Longrightarrow> real_value v \<Longrightarrow> writable w"
  by (auto simp: g_locator_def plex_locator_def local_locator_def vportal_locator_def named_locator_def
      channel_locator_def ok_iff is_str_iff writable_JNull VPORTAL_ID_FIELDS_def split: if_splits intro!: writable_JObj
      intro: writable_fld writable_patterns)

lemma writable_entry:
  assumes "g_entry v = Inr w" "real_value v"
  shows "writable w"
proof -
  from assms(1) obtain or lo t where w: "g_origin (fld v ''origin'') = Inr or"
      "g_locator (str_of (fld or ''provider'')) (fld v ''locator'') = Inr lo"
      "fld v ''title'' = JStr t" "text_ok t 1024" "w = JObj [(u ''locator'', lo), (u ''origin'', or), (u ''title'', JStr t)]"
    by (auto simp: g_entry_ok)
  have "writable or" "writable lo" "writable (JStr t)"
    using writable_origin [OF w(1)] writable_locator [OF w(2)] writable_text [OF w(4)] assms(2)
      real_value_fld fld_text [OF w(3)] by blast+
  with w(5) show ?thesis by (auto intro!: writable_JObj)
qed

lemma jdepth_entry: "g_entry v = Inr w \<Longrightarrow> jdepth w \<le> 2"
proof -
  have o': "g_origin x = Inr y \<Longrightarrow> jdepth y \<le> 1" for x y
    by (drule g_origin_ok) auto
  have l: "g_locator p x = Inr y \<Longrightarrow> jdepth y \<le> 1" for p x y
    by (auto simp: g_locator_def plex_locator_def local_locator_def vportal_locator_def named_locator_def
        channel_locator_def ok_iff is_str_iff lit_def split: if_splits)
  show "g_entry v = Inr w \<Longrightarrow> jdepth w \<le> 2"
    by (auto simp: g_entry_ok dest!: o' l)
qed

text \<open>The identity of a normal entry, as a total function, and what it determines.\<close>

definition ident :: "json \<Rightarrow> pystr" where
  "ident e = ctext (JObj [(u ''locator'', fld e ''locator''), (u ''origin'', fld e ''origin'')])"

lemma entry_parts:
  assumes "g_entry v = Inr w"
  shows "key_sorted (fld w ''locator'')" "key_sorted (fld w ''origin'')"
  using assms by (auto simp: g_entry_ok dest: key_sorted_origin key_sorted_locator)

lemma ident_key_sorted:
  "g_entry v = Inr w \<Longrightarrow> key_sorted (JObj [(u ''locator'', fld w ''locator''), (u ''origin'', fld w ''origin'')])"
  by (rule key_sorted_JObj) (auto simp del: list.map simp: key_orders entry_parts)

lemma ident_writable:
  assumes "g_entry v = Inr w" "writable w"
  shows "writable (JObj [(u ''locator'', fld w ''locator''), (u ''origin'', fld w ''origin'')])"
  using assms by (auto simp: g_entry_ok writable_def ascii_char encodable_join)

lemma entry_identity_normal:
  assumes "g_entry v = Inr w" "writable w"
  shows "entry_identity w = Inr (ident w)"
  using ident_writable [OF assms] ident_key_sorted [OF assms(1)] plain_dumpable
  by (simp add: entry_identity_def g_json_def dumps_sorted_def dumps_compact_def dumps_def key_sorted_def
      writable_def ident_def del: dumpable.simps plain.simps jtext.simps)

section \<open>The loop over the entries\<close>

lemma add_entry_ok:
  assumes "real_value v"
  shows "add_entry (es, seen, n) v = Inr s \<longleftrightarrow> (\<exists>w. g_entry v = Inr w \<and> ident w \<notin> set seen \<and>
     n + jsize w + (if es = [] then 0 else 1) \<le> G_MAX_BYTES \<and>
     s = (es @ [w], ident w # seen, n + jsize w + (if es = [] then 0 else 1)))"
proof (cases "g_entry v")
  case (Inr w)
  have w: "writable w" "key_sorted w" using writable_entry [OF Inr assms] key_sorted_entry [OF Inr] by auto
  obtain b where "g_json_bytes w = Inr b" "plen b = jsize w" using writable_json_bytes [OF w] by blast
  with entry_identity_normal [OF Inr w(1)] Inr show ?thesis
    by (auto simp: add_entry_def ok_iff Let_def)
qed (simp add: add_entry_def)

definition commas :: "json list \<Rightarrow> json list \<Rightarrow> int" where
  "commas es ws = plen ws - (if es = [] \<and> ws \<noteq> [] then 1 else 0)"

lemma commas_nonneg: "0 \<le> commas es ws"
  by (cases ws) (auto simp: commas_def)

lemma add_entries_ok:
  assumes "\<forall>v \<in> set vs. real_value v"
  shows "foldR add_entry (es, seen, n) vs = Inr s \<longleftrightarrow>
    (\<exists>ws. list_all2 (\<lambda>v w. g_entry v = Inr w) vs ws \<and> distinct (map ident ws) \<and> ident ` set ws \<inter> set seen = {} \<and>
       (ws = [] \<or> n + sum_list (map jsize ws) + commas es ws \<le> G_MAX_BYTES) \<and>
       s = (es @ ws, rev (map ident ws) @ seen, n + sum_list (map jsize ws) + commas es ws))"
  using assms
proof (induction vs arbitrary: es seen n)
  case Nil
  then show ?case by (auto simp: ok_iff commas_def)
next
  case (Cons v vs)
  let ?c = "if es = [] then 0 else 1 :: int"
  have step: "commas es (w # ws) = ?c + commas (es @ [w]) ws" for w ws
    by (simp add: commas_def)
  have grow: "n + jsize w + ?c \<le> n + (jsize w + sum_list (map jsize ws)) + commas es (w # ws)" for w ws
    unfolding step using sum_list_jsize_nonneg [of ws] commas_nonneg [of "es @ [w]" ws] by simp
  have IH: "foldR add_entry (es @ [w], ident w # seen, n + jsize w + ?c) vs = Inr s \<longleftrightarrow>
    (\<exists>ws. list_all2 (\<lambda>v w. g_entry v = Inr w) vs ws \<and> distinct (map ident ws) \<and> ident ` set ws \<inter> set (ident w # seen) = {} \<and>
       (ws = [] \<or> n + jsize w + ?c + sum_list (map jsize ws) + commas (es @ [w]) ws \<le> G_MAX_BYTES) \<and>
       s = (es @ [w] @ ws, rev (map ident ws) @ ident w # seen,
            n + jsize w + ?c + sum_list (map jsize ws) + commas (es @ [w]) ws))" for w
    using Cons.IH [of "es @ [w]" "ident w # seen" "n + jsize w + ?c"] Cons.prems by simp
  show ?case (is "?l \<longleftrightarrow> ?r")
  proof
    assume ?l
    then obtain w where w: "g_entry v = Inr w" "ident w \<notin> set seen" "n + jsize w + ?c \<le> G_MAX_BYTES"
      and run: "foldR add_entry (es @ [w], ident w # seen, n + jsize w + ?c) vs = Inr s"
      using Cons.prems by (auto simp: foldR_Cons_ok add_entry_ok)
    from run [unfolded IH] obtain ws where "list_all2 (\<lambda>v w. g_entry v = Inr w) vs ws" "distinct (map ident ws)"
        "ident ` set ws \<inter> set (ident w # seen) = {}"
        "ws = [] \<or> n + jsize w + ?c + sum_list (map jsize ws) + commas (es @ [w]) ws \<le> G_MAX_BYTES"
        "s = (es @ [w] @ ws, rev (map ident ws) @ ident w # seen,
            n + jsize w + ?c + sum_list (map jsize ws) + commas (es @ [w]) ws)" by blast
    with w show ?r
      by (intro exI [of _ "w # ws"]) (auto simp: step commas_def)
  next
    assume ?r
    then obtain ws0 where ws0: "list_all2 (\<lambda>v w. g_entry v = Inr w) (v # vs) ws0" "distinct (map ident ws0)"
        "ident ` set ws0 \<inter> set seen = {}"
        "ws0 = [] \<or> n + sum_list (map jsize ws0) + commas es ws0 \<le> G_MAX_BYTES"
        "s = (es @ ws0, rev (map ident ws0) @ seen, n + sum_list (map jsize ws0) + commas es ws0)" by blast
    then obtain w ws where ws: "ws0 = w # ws" by (cases ws0) auto
    have "foldR add_entry (es @ [w], ident w # seen, n + jsize w + ?c) vs = Inr s"
      unfolding IH using ws0 ws by (intro exI [of _ ws]) (auto simp: step algebra_simps)
    moreover have "add_entry (es, seen, n) v = Inr (es @ [w], ident w # seen, n + jsize w + ?c)"
      using ws0 ws grow [of w ws] Cons.prems by (auto simp: add_entry_ok)
    ultimately show ?l by (simp add: foldR_Cons_ok)
  qed
qed

lemma plen_le_0 [simp]: "plen xs \<le> 0 \<longleftrightarrow> xs = []"
  by (cases xs) (simp_all add: plen_def)

lemma jsize_g_document: "jsize (g_document ws) = 26 + sum_list (map jsize ws) + commas [] ws"
proof -
  have "utf8_size (quote (u ''entries'')) = 9" "utf8_size (quote (u ''version'')) = 9" "jsize (JInt 1) = 1"
    by code_simp+
  then show ?thesis
    by (cases ws) (simp_all add: g_document_def jsize_JObj jsize_JArr commas_def max_def)
qed

definition version_one :: "json \<Rightarrow> bool" where
  "version_one n \<longleftrightarrow> (is_int n \<or> is_float n) \<and> py_eq n (JInt 1)"

text \<open>When a document is accepted, and what its normal form is.\<close>

lemma g_validate_ok:
  assumes "real_value v"
  shows "g_validate v = Inr d \<longleftrightarrow> is_dict v \<and> same_keys v [''version'', ''entries''] \<and>
     version_one (fld v ''version'') \<and> is_list (fld v ''entries'') \<and> plen (g_entries v) \<le> MAX_ENTRIES \<and>
     (\<exists>ws. list_all2 (\<lambda>v w. g_entry v = Inr w) (g_entries v) ws \<and> distinct (map ident ws) \<and>
        jsize (g_document ws) \<le> G_MAX_BYTES \<and> d = g_document ws)"
proof -
  have real: "\<forall>v' \<in> set (g_entries v). real_value v'"
    using real_value_fld [OF assms, of "''entries''"] by (cases "fld v ''entries''") (auto simp: g_entries_def)
  have empty: "plen g_empty_bytes = 26" by code_simp
  have fold: "(\<exists>x. foldR add_entry ([], [], 26) (g_entries v) = Inr x \<and> d = g_document (fst x)) \<longleftrightarrow>
     (\<exists>ws. list_all2 (\<lambda>v w. g_entry v = Inr w) (g_entries v) ws \<and> distinct (map ident ws) \<and>
        jsize (g_document ws) \<le> G_MAX_BYTES \<and> d = g_document ws)"
    unfolding add_entries_ok [OF real] jsize_g_document
    by (auto simp: commas_def)
  have "g_validate v = Inr d \<longleftrightarrow> is_dict v \<and> same_keys v [''version'', ''entries''] \<and>
     version_one (fld v ''version'') \<and> is_list (fld v ''entries'') \<and> plen (g_entries v) \<le> MAX_ENTRIES \<and>
     (\<exists>x. foldR add_entry ([], [], 26) (g_entries v) = Inr x \<and> d = g_document (fst x))"
    by (auto simp: g_validate_def ok_iff empty version_one_def g_entries_def same_keys_has split: prod.splits)
  then show ?thesis unfolding fold .
qed

section \<open>The normal form\<close>

text \<open>What a validated document is made of.\<close>

definition normal_document :: "json \<Rightarrow> json list \<Rightarrow> bool" where
  "normal_document d ws \<longleftrightarrow> d = g_document ws \<and> plen ws \<le> MAX_ENTRIES \<and> distinct (map ident ws) \<and>
     jsize d \<le> G_MAX_BYTES \<and> (\<forall>w \<in> set ws. g_entry w = Inr w \<and> writable w \<and> real_value w)"

lemma real_value_entry:
  assumes "writable w"
  shows "real_value w"
proof -
  have chars: "encodable s \<Longrightarrow> code_points s" for s
    by (auto simp: encodable_def code_points_def list_all_iff utf8_char_def split: if_splits)
  have esc: "encodable (esc c) \<Longrightarrow> 0 \<le> c \<Longrightarrow> 0 \<le> c \<and> c \<le> 1114111" for c
    by (cases "c < 32") (auto simp: esc_def utf8_char_def split: if_splits)
  have quote: "encodable (quote s) \<Longrightarrow> \<forall>c \<in> set s. 0 \<le> c \<Longrightarrow> code_points s" for s
    by (induction s) (auto simp: quote_def code_points_def dest: esc)
  have "plain v \<Longrightarrow> encodable (ctext v) \<Longrightarrow> real_value v" for v
  proof (induction v rule: real_value.induct)
    case (3 kv)
    then show ?case by (auto simp: encodable_join intro!: quote)
  qed (auto simp: encodable_join quote)
  with assms show ?thesis by (simp add: writable_def)
qed

lemma g_validate_normal:
  assumes "g_validate v = Inr d" "real_value v"
  obtains ws where "normal_document d ws" "list_all2 (\<lambda>v w. g_entry v = Inr w) (g_entries v) ws" "g_entries d = ws"
proof -
  from assms obtain ws where ws: "list_all2 (\<lambda>v w. g_entry v = Inr w) (g_entries v) ws" "distinct (map ident ws)"
      "jsize (g_document ws) \<le> G_MAX_BYTES" "d = g_document ws" "plen (g_entries v) \<le> MAX_ENTRIES"
    by (auto simp: g_validate_ok)
  have real: "real_value v'" if "v' \<in> set (g_entries v)" for v'
    using real_value_fld [OF assms(2), of "''entries''"] that by (cases "fld v ''entries''") (auto simp: g_entries_def)
  have "g_entry w = Inr w \<and> writable w \<and> real_value w" if "w \<in> set ws" for w
  proof -
    from ws(1) that obtain v' where v': "v' \<in> set (g_entries v)" "g_entry v' = Inr w"
      by (auto simp: list_all2_conv_all_nth in_set_conv_nth) (metis nth_mem)
    then show ?thesis using g_entry_normal writable_entry [OF v'(2) real [OF v'(1)]] real_value_entry by blast
  qed
  moreover have "plen ws \<le> MAX_ENTRIES" using ws(1,5) by (simp add: plen_def list_all2_lengthD)
  ultimately have "normal_document d ws" using ws by (simp add: normal_document_def)
  moreover have "g_entries d = ws" using ws(4) by (simp add: g_entries_def g_document_def)
  ultimately show ?thesis using that ws(1) by blast
qed

lemma normal_document_real: "normal_document d ws \<Longrightarrow> real_value d"
  by (auto simp: normal_document_def g_document_def code_points_def u_def)

lemma g_entries_document [simp]: "g_entries (g_document ws) = ws"
  by (simp add: g_entries_def g_document_def)

lemma normal_document_validates:
  assumes "normal_document d ws"
  shows "g_validate d = Inr d"
proof -
  have "list_all2 (\<lambda>v w. g_entry v = Inr w) ws ws"
    using assms by (auto simp: normal_document_def list_all2_conv_all_nth)
  moreover have "is_dict d" "same_keys d [''version'', ''entries'']" "version_one (fld d ''version'')"
      "is_list (fld d ''entries'')" "g_entries d = ws"
    using assms by (auto simp: normal_document_def g_document_def same_keys_list version_one_def g_entries_def)
  ultimately show ?thesis
    using assms unfolding g_validate_ok [OF normal_document_real [OF assms]] by (auto simp: normal_document_def)
qed

lemma normal_document_bytes:
  assumes "normal_document d ws"
  obtains b where "g_json_bytes d = Inr b" "utf8_encode (ctext d) = Inr b" "plen b = jsize d" "writable d" "key_sorted d"
proof -
  have d: "d = g_document ws" and ws: "\<forall>w \<in> set ws. g_entry w = Inr w \<and> writable w"
    using assms by (auto simp: normal_document_def)
  have "key_sorted d" unfolding d g_document_def
    using ws key_sorted_entry by (intro key_sorted_JObj) (auto simp del: list.map simp: key_orders intro!: key_sorted_JArr)
  moreover have "writable d" unfolding d g_document_def
    using ws writable_small_int [of 1] by (intro writable_JObj) (auto intro!: writable_JArr)
  ultimately show ?thesis using that writable_json_bytes [of d] by blast
qed

lemma normal_document_depth: "normal_document d ws \<Longrightarrow> jdepth d \<le> 4"
proof -
  have "(\<forall>w \<in> set ws. jdepth w \<le> 2) \<Longrightarrow> foldr (\<lambda>v m. max (jdepth v) m) ws 0 \<le> 2"
    by (induction ws) auto
  then show "normal_document d ws \<Longrightarrow> jdepth d \<le> 4"
    by (auto simp: normal_document_def g_document_def dest: jdepth_entry)
qed

text \<open>The bytes of a normal document load back to it.\<close>

lemma load_normal_document:
  assumes "normal_document d ws" "utf8_encode (ctext d) = Inr b"
  shows "load_document b = Inr d"
proof -
  from normal_document_bytes [OF assms(1)] assms(2) have b: "plen b = jsize d" "writable d" by auto
  have "0 < jsize d" using sum_list_jsize_nonneg [of ws] commas_nonneg [of "[]" ws] assms(1) jsize_g_document [of ws]
    by (simp add: normal_document_def)
  then have len: "0 < plen b" "plen b \<le> G_MAX_BYTES" using assms(1) b(1) by (auto simp: normal_document_def)
  have d: "plain d" "encodable (ctext d)" "dumpable d" using b(2) plain_dumpable by (auto simp: writable_def)
  have "dumps_compact d = Inr (ctext d)" using d by (simp add: dumps_compact_def dumps_def)
  from loads_compact [OF d(1) this] have "validate_document_bytes b G_MAX_BYTES = Inr d"
    by (rule document_bytes_ok [OF assms(2)]) (use d len in auto)
  moreover have "depth_scan e MAX_JSON_DEPTH b = Inr ()" for e
    using depth_scan_ctext [OF d(1) _ assms(2)] normal_document_depth [OF assms(1)] by simp
  ultimately show ?thesis
    using len normal_document_validates [OF assms(1)] by (simp add: load_document_def)
qed

end
