(* ===== verification/GlobalMergeLaws.thy ===== *)
theory GlobalMergeLaws
  imports GlobalDocumentLaws
begin

text \<open>
  The merge loop of \<open>global_favorites_document.py\<close> refines a plain specification: the first row of
  each identity wins, and a conflict is two rows of one identity with different titles.
\<close>

section \<open>Dicts and positions\<close>

lemma update_new: "k \<notin> fst ` set kvs \<Longrightarrow> AList.update k v kvs = kvs @ [(k, v)]"
  by (induction kvs) auto

lemma dict_of_distinct: "distinct (map fst kvs) \<Longrightarrow> dict_of kvs = kvs"
proof (induction kvs rule: rev_induct)
  case (snoc x kvs)
  then show ?case by (cases x) (auto simp: dict_of_def update_new)
qed (simp add: dict_of_def)

definition normal_entries :: "json list \<Rightarrow> bool" where
  "normal_entries ws \<longleftrightarrow> (\<forall>w \<in> set ws. g_entry w = Inr w \<and> writable w \<and> real_value w)"

lemma normal_ident: "normal_entries ws \<Longrightarrow> w \<in> set ws \<Longrightarrow> entry_identity w = Inr (ident w)"
  by (auto simp: normal_entries_def intro: entry_identity_normal)

definition rows_of :: "nat \<Rightarrow> json list \<Rightarrow> (pystr \<times> nat \<times> json) list" where
  "rows_of n ws = map (\<lambda>(i, w). (ident w, i, w)) (enumerate n ws)"

lemma rows_of_fst: "map fst (rows_of n ws) = map ident ws"
  unfolding rows_of_def by (induction ws arbitrary: n) auto

lemma positions_fst: "map fst (map (\<lambda>(i, w). (ident w, i)) (enumerate n ws)) = map ident ws"
  by (induction ws arbitrary: n) auto

lemma rows_positions: "map (\<lambda>(k, i, _). (k, i)) (rows_of n ws) = map (\<lambda>(i, w). (ident w, i)) (enumerate n ws)"
  by (simp add: rows_of_def split_def)

lemma keyed_rows:
  assumes "normal_entries ws" "distinct (map ident ws)"
  shows "keyed ws = Inr (rows_of 0 ws)"
proof -
  have "list_all2 (\<lambda>x y. (case x of (i, row) \<Rightarrow> bindR (entry_identity row) (\<lambda>k. Inr (k, i, row))) = Inr y)
      (enumerate 0 ws) (rows_of 0 ws)"
    using normal_ident [OF assms(1)]
    by (auto simp: list_all2_conv_all_nth rows_of_def nth_enumerate_eq)
  then have "mapR (\<lambda>(i, row). bindR (entry_identity row) (\<lambda>k. Inr (k, i, row))) (enumerate 0 ws) = Inr (rows_of 0 ws)"
    by (simp add: mapR_ok)
  moreover have "dict_of (rows_of 0 ws) = rows_of 0 ws"
    by (rule dict_of_distinct) (simp add: rows_of_fst assms(2))
  ultimately show ?thesis by (simp add: keyed_def)
qed

section \<open>The first row of an identity wins\<close>

fun first_wins :: "json list \<Rightarrow> json list \<Rightarrow> json list" where
  "first_wins acc [] = acc"
| "first_wins acc (r # rs) = first_wins (if ident r \<in> ident ` set acc then acc else acc @ [r]) rs"

definition title :: "json \<Rightarrow> json" where
  "title w = fld w ''title''"

lemma first_wins_prefix: "\<exists>more. first_wins acc rs = acc @ more \<and> set more \<subseteq> set rs"
proof (induction rs arbitrary: acc)
  case (Cons r rs)
  show ?case
  proof (cases "ident r \<in> ident ` set acc")
    case True
    then show ?thesis using Cons.IH [of acc] by auto
  next
    case False
    obtain more where "first_wins (acc @ [r]) rs = acc @ [r] @ more" "set more \<subseteq> set rs" using Cons.IH [of "acc @ [r]"] by auto
    with False show ?thesis by (intro exI [of _ "r # more"]) auto
  qed
qed simp

lemma first_wins_normal: "normal_entries acc \<Longrightarrow> normal_entries rs \<Longrightarrow> normal_entries (first_wins acc rs)"
  using first_wins_prefix [of acc rs] by (auto simp: normal_entries_def subset_iff)

lemma first_wins_idents: "ident ` set (first_wins acc rs) = ident ` set acc \<union> ident ` set rs"
  by (induction rs arbitrary: acc) auto

lemma first_wins_distinct: "distinct (map ident acc) \<Longrightarrow> distinct (map ident (first_wins acc rs))"
  by (induction rs arbitrary: acc) auto

section \<open>The loop\<close>

text \<open>Every position is the one of the row in the selection.\<close>

definition tracked :: "merge_state \<Rightarrow> bool" where
  "tracked s \<longleftrightarrow> positions s = map (\<lambda>(i, w). (ident w, i)) (enumerate 0 (chosen s)) \<and> distinct (map ident (chosen s))"

lemma tracked_lookup:
  assumes "tracked s"
  shows "map_of (positions s) k = Some i \<longleftrightarrow> i < length (chosen s) \<and> ident (chosen s ! i) = k"
proof -
  have "distinct (map fst (positions s))"
    using assms positions_fst [of 0 "chosen s"] by (simp add: tracked_def)
  then show ?thesis
    using assms by (auto simp: tracked_def in_set_enumerate_eq)
qed

lemma tracked_none: "tracked s \<Longrightarrow> map_of (positions s) k = None \<longleftrightarrow> k \<notin> ident ` set (chosen s)"
proof -
  assume t: "tracked s"
  have "fst ` set (positions s) = set (map fst (map (\<lambda>(i, w). (ident w, i)) (enumerate 0 (chosen s))))"
    using t by (simp add: tracked_def image_image)
  also have "\<dots> = ident ` set (chosen s)" unfolding positions_fst by simp
  finally show ?thesis by (simp add: map_of_eq_None_iff)
qed

definition clash_free :: "json list \<Rightarrow> json list \<Rightarrow> bool" where
  "clash_free sel rs \<longleftrightarrow> (\<forall>a \<in> set sel. \<forall>r \<in> set rs. ident a = ident r \<longrightarrow> title a = title r)"

lemma same_title_iff: "g_entry a = Inr a \<Longrightarrow> g_entry b = Inr b \<Longrightarrow> same_title a b \<longleftrightarrow> title a = title b"
  by (auto simp: same_title_def title_def g_entry_ok)

lemma merge_row_step:
  assumes "merge_row s ((d, e), r) = Inr s'" "tracked s" "normal_entries (chosen s)" "normal_entries [r]"
  shows "tracked s'" "chosen s' = (if ident r \<in> ident ` set (chosen s) then chosen s else chosen s @ [r])"
    "clashes s' = [] \<longleftrightarrow> clashes s = [] \<and> clash_free (chosen s) [r]"
proof -
  have key: "entry_identity r = Inr (ident r)" using normal_ident [OF assms(4)] by simp
  show "tracked s'" "chosen s' = (if ident r \<in> ident ` set (chosen s) then chosen s else chosen s @ [r])"
    "clashes s' = [] \<longleftrightarrow> clashes s = [] \<and> clash_free (chosen s) [r]"
  proof (atomize (full), cases "map_of (positions s) (ident r)")
    case None
    then have new: "ident r \<notin> ident ` set (chosen s)" using tracked_none [OF assms(2)] by blast
    with None assms(1) key have s': "s' = s\<lparr>positions := positions s @ [(ident r, length (chosen s))], chosen := chosen s @ [r]\<rparr>"
      by (auto simp: merge_row_def ok_iff)
    show "tracked s' \<and> chosen s' = (if ident r \<in> ident ` set (chosen s) then chosen s else chosen s @ [r]) \<and>
      (clashes s' = []) = (clashes s = [] \<and> clash_free (chosen s) [r])"
      using new assms(2) by (auto simp: s' tracked_def enumerate_append_eq clash_free_def) (metis image_eqI)
  next
    case (Some i)
    then have i: "i < length (chosen s)" "ident (chosen s ! i) = ident r" using tracked_lookup [OF assms(2)] by auto
    have s': "s' = (if same_title (chosen s ! i) r then s\<lparr>repeats := repeats s + 1\<rparr>
                else if ident r \<notin> fst ` set (clashes s)
                then s\<lparr>clashes := clashes s @ [(ident r, \<lparr>existing_index = i, incoming_document = d, incoming_index = e\<rparr>)]\<rparr>
                else s)"
      using Some assms(1) key by (auto simp: merge_row_def)
    have mem: "ident r \<in> ident ` set (chosen s)" using i by (metis image_eqI nth_mem)
    have only: "a = chosen s ! i" if "a \<in> set (chosen s)" "ident a = ident r" for a
      using that i assms(2) by (auto simp: tracked_def in_set_conv_nth distinct_conv_nth) metis
    have "same_title (chosen s ! i) r \<longleftrightarrow> title (chosen s ! i) = title r"
      using assms(3,4) i by (intro same_title_iff) (auto simp: normal_entries_def)
    then have "same_title (chosen s ! i) r \<longleftrightarrow> clash_free (chosen s) [r]"
      using i only by (auto simp: clash_free_def)
    then show "tracked s' \<and> chosen s' = (if ident r \<in> ident ` set (chosen s) then chosen s else chosen s @ [r]) \<and>
      (clashes s' = []) = (clashes s = [] \<and> clash_free (chosen s) [r])"
      using mem assms(2) by (auto simp: s' tracked_def)
  qed
qed

lemma merge_rows:
  assumes "foldR merge_row s xs = Inr s'" "tracked s" "normal_entries (chosen s)" "normal_entries (map snd xs)"
  shows "tracked s' \<and> chosen s' = first_wins (chosen s) (map snd xs) \<and>
    (clashes s' = [] \<longleftrightarrow> clashes s = [] \<and> clash_free (chosen s') (map snd xs))"
  using assms
proof (induction xs arbitrary: s)
  case (Cons x xs)
  obtain d e r where x: "x = ((d, e), r)" by (cases x) auto
  from Cons.prems(1) obtain t where t: "merge_row s ((d, e), r) = Inr t" and run: "foldR merge_row t xs = Inr s'"
    by (auto simp: foldR_Cons_ok x)
  have one: "normal_entries [r]" and rest: "normal_entries (map snd xs)"
    using Cons.prems(4) x by (auto simp: normal_entries_def)
  note step = merge_row_step [OF t Cons.prems(2,3) one]
  have norm: "normal_entries (chosen t)" using step(2) Cons.prems(3) one by (auto simp: normal_entries_def)
  note IH = Cons.IH [OF run step(1) norm rest]
  obtain more where more: "chosen s' = chosen t @ more" using IH first_wins_prefix by metis
  have d: "distinct (map ident (chosen s'))" using IH unfolding tracked_def by blast
  have "clash_free (chosen s') [r] \<longleftrightarrow> clash_free (chosen s) [r]"
  proof (cases "ident r \<in> ident ` set (chosen s)")
    case True
    then have "ident r \<notin> ident ` set more" using d more step(2) by auto
    with True more step(2) show ?thesis by (auto simp: clash_free_def) (metis image_eqI)+
  next
    case False
    then have "ident r \<notin> ident ` set more" using d more step(2) by auto
    with False more step(2) show ?thesis by (auto simp: clash_free_def) (metis image_eqI)+
  qed
  then have "clash_free (chosen s') (r # map snd xs) \<longleftrightarrow> clash_free (chosen s) [r] \<and> clash_free (chosen s') (map snd xs)"
    by (auto simp: clash_free_def)
  with IH step x show ?case by auto
qed (auto simp: ok_iff clash_free_def)

section \<open>Plans\<close>

definition consistent :: "json list \<Rightarrow> bool" where
  "consistent rs \<longleftrightarrow> (\<forall>a \<in> set rs. \<forall>b \<in> set rs. ident a = ident b \<longrightarrow> title a = title b)"

lemma clash_free_consistent:
  assumes "distinct (map ident acc)"
  shows "clash_free (first_wins acc rs) rs \<longleftrightarrow> consistent (acc @ rs)"
proof
  obtain more where more: "first_wins acc rs = acc @ more" "set more \<subseteq> set rs" using first_wins_prefix by blast
  {
    assume c: "clash_free (first_wins acc rs) rs"
    have rep: "\<exists>x \<in> set (first_wins acc rs). ident x = ident a \<and> title x = title a" if "a \<in> set (acc @ rs)" for a
    proof (cases "a \<in> set acc")
      case True
      then show ?thesis using more by auto
    next
      case False
      then have a: "a \<in> set rs" using that by simp
      then obtain x where "x \<in> set (first_wins acc rs)" "ident x = ident a"
        using first_wins_idents [of acc rs] by (metis UnI2 image_eqI imageE)
      with c a show ?thesis by (auto simp: clash_free_def)
    qed
    have one: "x = y" if "x \<in> set (first_wins acc rs)" "y \<in> set (first_wins acc rs)" "ident x = ident y" for x y
      using first_wins_distinct [OF assms, of rs] that by (auto simp: distinct_map inj_on_def)
    show "consistent (acc @ rs)" unfolding consistent_def using rep one by metis
  }
  assume "consistent (acc @ rs)"
  with more show "clash_free (first_wins acc rs) rs" by (auto simp: clash_free_def consistent_def)
qed

lemma take_document_ok:
  "take_document (docs, n, used) v = Inr s \<Longrightarrow> \<exists>d n' used'. g_validate v = Inr d \<and> s = (docs @ [d], n', used')"
  by (auto simp: take_document_def Let_def ok_iff)

lemma take_documents_ok:
  "foldR take_document (docs, n, used) vs = Inr (docs', n', used') \<Longrightarrow>
     \<exists>ds. docs' = docs @ ds \<and> list_all2 (\<lambda>v d. g_validate v = Inr d) vs ds"
proof (induction vs arbitrary: docs n used)
  case (Cons v vs)
  then obtain d n1 u1 where d: "g_validate v = Inr d" and run: "foldR take_document (docs @ [d], n1, u1) vs = Inr (docs', n', used')"
    by (auto simp: foldR_Cons_ok dest!: take_document_ok)
  from Cons.IH [OF run] obtain ds where "docs' = docs @ [d] @ ds" "list_all2 (\<lambda>v d. g_validate v = Inr d) vs ds"
    by auto
  with d show ?case by (intro exI [of _ "d # ds"]) auto
qed (auto simp: ok_iff)

lemma incoming_rows_snd: "map snd (incoming_rows docs) = concat (map g_entries docs)"
proof -
  have rows: "map snd (map (\<lambda>(e, row). ((d, e), row)) (enumerate n es)) = es" for d n and es :: "json list"
    by (induction es arbitrary: n) auto
  have "map snd (concat (map (\<lambda>(d, document). map (\<lambda>(e, row). ((d, e), row)) (enumerate 0 (g_entries document)))
       (enumerate n docs))) = concat (map g_entries docs)" for n
    by (induction docs arbitrary: n) (simp_all add: rows del: map_map)
  then show ?thesis by (simp add: incoming_rows_def)
qed

lemma normal_document_entries: "normal_document d ws \<Longrightarrow> normal_entries ws \<and> distinct (map ident ws)"
  by (auto simp: normal_document_def normal_entries_def)

text \<open>The destination of a plan: an absent one is empty.\<close>

definition destination :: "json \<Rightarrow> json" where
  "destination current = (if current = JNull then g_document [] else current)"

lemma destination_real: "real_value current \<Longrightarrow> real_value (destination current)"
  by (simp add: destination_def g_document_def code_points_def u_def)

lemma g_plan_ok:
  assumes "g_plan current incoming mode = Inr p" "real_value current" "\<forall>v \<in> set incoming. real_value v"
  obtains original docs start s where "g_validate (destination current) = Inr original"
    "list_all2 (\<lambda>v d. g_validate v = Inr d) incoming docs"
    "start = (if mode = u ''merge'' then g_entries original else [])"
    "normal_document (merged p) (first_wins start (concat (map g_entries docs)))"
    "can_commit p \<longleftrightarrow> consistent (start @ concat (map g_entries docs))"
    "normal_entries (start @ concat (map g_entries docs))"
    "distinct (map ident start)"
    "summary p = summarize (rows_of 0 (g_entries original)) (rows_of 0 (g_entries (merged p))) s"
    "title_conflicts p = map snd (clashes s)" "can_commit p \<longleftrightarrow> clashes s = []"
    "normal_document original (g_entries original)" "mode = u ''merge'' \<or> mode = u ''replace''"
proof -
  from assms(1) obtain original docs n used old_rows s res old new where
    mode: "mode = u ''merge'' \<or> mode = u ''replace''"
    and original: "g_validate (destination current) = Inr original"
    and docs: "foldR take_document ([], 0, 0) incoming = Inr (docs, n, used)"
    and old_rows: "keyed (if mode = u ''merge'' then g_entries original else []) = Inr old_rows"
    and s: "foldR merge_row \<lparr>chosen = (if mode = u ''merge'' then g_entries original else []),
        positions = map (\<lambda>(k, i, _). (k, i)) old_rows, clashes = [], repeats = 0\<rparr> (incoming_rows docs) = Inr s"
    and res: "g_validate (g_document (chosen s)) = Inr res"
    and old: "keyed (g_entries original) = Inr old" and new: "keyed (g_entries res) = Inr new"
    and p: "p = \<lparr>merged = res, summary = summarize old new s, title_conflicts = map snd (clashes s),
        can_commit = (clashes s = [])\<rparr>"
    unfolding g_plan_def Let_def destination_def by (auto simp: ok_iff split: prod.splits)
  let ?start = "if mode = u ''merge'' then g_entries original else []" and ?rows = "concat (map g_entries docs)"
  obtain ws where ws: "normal_document original ws" "g_entries original = ws"
    using g_validate_normal [OF original destination_real [OF assms(2)]] by blast
  have all2: "list_all2 (\<lambda>v d. g_validate v = Inr d) incoming docs"
    using take_documents_ok [OF docs] by auto
  have docs_normal: "normal_entries (g_entries d)" if "d \<in> set docs" for d
  proof -
    from all2 that obtain v where v: "v \<in> set incoming" "g_validate v = Inr d"
      by (auto simp: list_all2_conv_all_nth in_set_conv_nth) (metis nth_mem)
    with assms(3) obtain ds where "normal_document d ds" "g_entries d = ds" using g_validate_normal [OF v(2)] by blast
    then show ?thesis using normal_document_entries by blast
  qed
  then have rows_normal: "normal_entries ?rows" by (force simp: normal_entries_def)
  have start: "normal_entries ?start" "distinct (map ident ?start)"
    using normal_document_entries [OF ws(1)] ws(2) by (auto simp: normal_entries_def)
  have tracked: "tracked \<lparr>chosen = ?start, positions = map (\<lambda>(k, i, _). (k, i)) old_rows, clashes = [], repeats = 0\<rparr>"
  proof -
    have "old_rows = rows_of 0 ?start" using old_rows keyed_rows [OF start] by simp
    then show ?thesis using start(2) by (simp only: tracked_def rows_positions merge_state.simps simp_thms)
  qed
  from merge_rows [OF s tracked] start(1) rows_normal have chosen: "chosen s = first_wins ?start ?rows"
    and clash: "clashes s = [] \<longleftrightarrow> clash_free (chosen s) ?rows"
    by (simp_all add: incoming_rows_snd)
  have chosen_normal: "normal_entries (chosen s)"
    unfolding chosen by (rule first_wins_normal [OF start(1) rows_normal])
  then have real: "real_value (g_document (chosen s))"
    by (auto simp: g_document_def code_points_def u_def normal_entries_def)
  obtain es where es: "normal_document res es" "list_all2 (\<lambda>v w. g_entry v = Inr w) (chosen s) es" "g_entries res = es"
    using g_validate_normal [OF res real] by auto
  have "es = chosen s"
    using es(2) chosen_normal by (auto simp: list_all2_conv_all_nth normal_entries_def intro!: nth_equalityI)
  with es have norm: "normal_document res (first_wins ?start ?rows)" using chosen by simp
  have "old = rows_of 0 (g_entries original)" "new = rows_of 0 (g_entries res)"
    using old new keyed_rows normal_document_entries [OF ws(1)] normal_document_entries [OF es(1)] ws(2) es(3) by auto
  moreover have "clashes s = [] \<longleftrightarrow> consistent (?start @ ?rows)"
    using clash clash_free_consistent [OF start(2)] chosen by simp
  moreover have "normal_entries (?start @ ?rows)" using start(1) rows_normal by (auto simp: normal_entries_def)
  ultimately show ?thesis
    using that [OF original all2 refl, of s] norm start ws mode p by simp
qed

end
