(* ===== verification/GlobalDocumentProps.thy ===== *)
theory GlobalDocumentProps
  imports GlobalMergeLaws
begin

text \<open>The properties of \<open>src/cli/global_favorites_document.py\<close>.\<close>

section \<open>A sample document\<close>

definition sample_entry :: "string \<Rightarrow> string \<Rightarrow> json" where
  "sample_entry t channel = JObj
     [(u ''title'', lit t),
      (u ''origin'', JObj [(u ''provider'', lit ''m3u''), (u ''profile'', lit ''main''),
         (u ''subprofile'', JNull), (u ''sourceAlias'', lit ''home'')]),
      (u ''locator'', JObj [(u ''kind'', lit ''channel''), (u ''channelId'', lit channel)])]"

definition sample_document :: "json list \<Rightarrow> json" where
  "sample_document es = JObj [(u ''version'', JInt 1), (u ''entries'', JArr es)]"

abbreviation sample_one :: json where
  "sample_one \<equiv> sample_document [sample_entry ''News'' ''n1'', sample_entry ''Sport'' ''s1'']"

section \<open>Canonical bytes\<close>

text \<open>
  C37: The canonical bytes of a document load back to the document's normal form, stay within one MiB and are
  the canonical bytes of that normal form; so writing, loading and writing again changes nothing.
\<close>

theorem global_bytes_roundtrip:
  assumes "g_canonical v = Inr b" "real_value v"
  shows "\<exists>d. g_validate v = Inr d \<and> load_document b = Inr d \<and> g_canonical d = Inr b \<and> plen b \<le> G_MAX_BYTES"
proof -
  from assms(1) obtain d where d: "g_validate v = Inr d" "g_json_bytes d = Inr b"
    by (auto simp: g_canonical_def ok_iff)
  obtain ws where ws: "normal_document d ws"
    using g_validate_normal [OF d(1) assms(2)] by blast
  from normal_document_bytes [OF ws] d(2) have b: "utf8_encode (ctext d) = Inr b" "plen b = jsize d"
    by auto
  have "plen b \<le> G_MAX_BYTES" using ws b(2) unfolding normal_document_def by auto
  then show ?thesis
    using d load_normal_document [OF ws b(1)] normal_document_validates [OF ws] by (auto simp: g_canonical_def)
qed

theorem global_bytes_roundtrip_witness:
  "\<exists>b d. g_canonical sample_one = Inr b \<and> load_document b = Inr d \<and> length (g_entries d) = 2"
proof -
  have ok: "is_ok (g_canonical sample_one)" "real_value sample_one"
    "map_option (\<lambda>d. length (g_entries d)) (case g_validate sample_one of Inl _ \<Rightarrow> None | Inr d \<Rightarrow> Some d) = Some 2"
    by code_simp+
  then obtain b where b: "g_canonical sample_one = Inr b" by (auto simp: is_ok_iff)
  from global_bytes_roundtrip [OF b ok(2)] ok(3) b show ?thesis by auto
qed



section \<open>Merging\<close>

text \<open>
  C18: A merge preview is the union in which the first row of each identity wins: it starts with the
  destination's entries, in their order and with their titles (with nothing for a replacement), and takes
  each incoming row whose identity is not there yet.
\<close>

theorem global_plan_first_wins:
  assumes "g_plan current incoming mode = Inr p" "real_value current" "\<forall>v \<in> set incoming. real_value v"
  shows "\<exists>original docs. g_validate (destination current) = Inr original \<and>
    list_all2 (\<lambda>v d. g_validate v = Inr d) incoming docs \<and>
    merged p = g_document (first_wins (if mode = u ''merge'' then g_entries original else [])
      (concat (map g_entries docs))) \<and>
    g_validate (merged p) = Inr (merged p)"
proof (rule g_plan_ok [OF assms])
  fix original docs start s
  assume "g_validate (destination current) = Inr original" "list_all2 (\<lambda>v d. g_validate v = Inr d) incoming docs"
    "start = (if mode = u ''merge'' then g_entries original else [])"
    and norm: "normal_document (merged p) (first_wins start (concat (map g_entries docs)))"
  then show ?thesis
    using normal_document_validates [OF norm] unfolding normal_document_def by blast
qed

abbreviation sample_two :: json where
  "sample_two \<equiv> sample_document [sample_entry ''Other'' ''n1'', sample_entry ''Film'' ''f1'']"

lemma sample_merge:
  "is_ok (g_plan sample_one [sample_two] (u ''merge''))" "real_value sample_one" "\<forall>v \<in> set [sample_two]. real_value v"
  "is_ok (g_validate sample_one)"
  by code_simp+

theorem global_plan_first_wins_witness:
  "\<exists>p original. g_plan sample_one [sample_two] (u ''merge'') = Inr p \<and> g_validate sample_one = Inr original \<and>
     take (length (g_entries original)) (g_entries (merged p)) = g_entries original"
proof -
  obtain p where p: "g_plan sample_one [sample_two] (u ''merge'') = Inr p"
    using sample_merge(1) by (auto simp: is_ok_iff)
  have d: "destination sample_one = sample_one" by (simp add: destination_def sample_document_def)
  from global_plan_first_wins [OF p sample_merge(2,3)] obtain original docs
    where "g_validate sample_one = Inr original"
      "merged p = g_document (first_wins (g_entries original) (concat (map g_entries docs)))"
    unfolding d by auto
  moreover obtain more where "first_wins (g_entries original) (concat (map g_entries docs)) = g_entries original @ more"
    using first_wins_prefix by blast
  ultimately show ?thesis using p by auto
qed

text \<open>
  C39: A plan may be committed exactly when no two rows of the selected inputs that have one identity have
  different titles, and then and only then it reports no conflict.
\<close>

theorem global_commit_iff_consistent:
  assumes "g_plan current incoming mode = Inr p" "real_value current" "\<forall>v \<in> set incoming. real_value v"
    and "g_validate (destination current) = Inr original" "list_all2 (\<lambda>v d. g_validate v = Inr d) incoming docs"
  shows "(can_commit p \<longleftrightarrow> consistent ((if mode = u ''merge'' then g_entries original else []) @ concat (map g_entries docs)))
    \<and> (can_commit p \<longleftrightarrow> title_conflicts p = [])"
proof -
  have same: "list_all2 (\<lambda>v d. g_validate v = Inr d) incoming docs' \<Longrightarrow> docs' = docs" for docs'
    using assms(5) by (auto simp: list_all2_conv_all_nth intro!: nth_equalityI)
  show ?thesis
  proof (rule g_plan_ok [OF assms(1-3)])
    fix original' docs' start s
    assume "g_validate (destination current) = Inr original'" "list_all2 (\<lambda>v d. g_validate v = Inr d) incoming docs'"
      "start = (if mode = u ''merge'' then g_entries original' else [])"
      "can_commit p \<longleftrightarrow> consistent (start @ concat (map g_entries docs'))"
      "title_conflicts p = map snd (clashes s)" "can_commit p \<longleftrightarrow> clashes s = []"
    with assms(4) same show ?thesis by auto
  qed
qed

theorem global_commit_iff_consistent_witness:
  "\<exists>p. g_plan sample_one [sample_two] (u ''merge'') = Inr p \<and> \<not> can_commit p \<and> title_conflicts p \<noteq> []"
proof -
  obtain p where p: "g_plan sample_one [sample_two] (u ''merge'') = Inr p"
    using sample_merge(1) by (auto simp: is_ok_iff)
  have d: "destination sample_one = sample_one" by (simp add: destination_def sample_document_def)
  obtain original where o': "g_validate sample_one = Inr original" using sample_merge(4) by (auto simp: is_ok_iff)
  have "is_ok (g_validate sample_two)" by code_simp
  then obtain doc where doc: "g_validate sample_two = Inr doc" by (auto simp: is_ok_iff)
  have "(case (g_validate sample_one, g_validate sample_two) of
      (Inr a, Inr b) \<Rightarrow> (case (hd (g_entries a), hd (g_entries b)) of
         (x, y) \<Rightarrow> g_entries a \<noteq> [] \<and> g_entries b \<noteq> [] \<and> ident x = ident y \<and> title x \<noteq> title y) | _ \<Rightarrow> False)"
    by code_simp
  then have "\<not> consistent (g_entries original @ g_entries doc)"
    using o' doc by (cases "g_entries original"; cases "g_entries doc") (auto simp: consistent_def)
  then show ?thesis
    using global_commit_iff_consistent [OF p sample_merge(2,3), of original "[doc]"] p o' doc d by auto
qed

section \<open>Counting what a plan does\<close>

lemma kept_keys:
  assumes "distinct (map fst old)" "distinct (map fst new)"
  shows "length (filter (\<lambda>(k, _). k \<in> fst ` set new) old) = card (fst ` set old \<inter> fst ` set new)"
    and "length (filter (\<lambda>(k, _). k \<notin> fst ` set new) old) = card (fst ` set old - fst ` set new)"
proof -
  have len: "length (filter (\<lambda>(k, _). P k) old) = card {k \<in> fst ` set old. P k}" for P
  proof -
    have "length (filter (\<lambda>(k, _). P k) old) = length (filter P (map fst old))"
      by (induction old) auto
    also have "\<dots> = card (set (filter P (map fst old)))"
      using assms(1) by (intro distinct_card [symmetric]) simp
    also have "set (filter P (map fst old)) = {k \<in> fst ` set old. P k}" by auto
    finally show ?thesis .
  qed
  show "length (filter (\<lambda>(k, _). k \<in> fst ` set new) old) = card (fst ` set old \<inter> fst ` set new)"
    "length (filter (\<lambda>(k, _). k \<notin> fst ` set new) old) = card (fst ` set old - fst ` set new)"
    unfolding len by (rule arg_cong [where f = card]; auto)+
qed

lemma summarize_balance:
  assumes "distinct (map fst old)" "distinct (map fst new)"
  shows "n_before (summarize old new s) = n_retained (summarize old new s) + n_removed (summarize old new s)"
    and "n_after (summarize old new s) = n_retained (summarize old new s) + n_added (summarize old new s)"
    and "n_moved (summarize old new s) \<le> n_retained (summarize old new s)"
    and "n_title_changes (summarize old new s) \<le> n_retained (summarize old new s)"
proof -
  have len: "length (filter P xs) + length (filter (\<lambda>x. \<not> P x) xs) = length xs" for P and xs :: "'z list"
    by (rule sum_length_filter_compl)
  show "n_before (summarize old new s) = n_retained (summarize old new s) + n_removed (summarize old new s)"
    using len [of "\<lambda>(k, _). k \<in> fst ` set new" old] by (simp add: summarize_def Let_def split_def)
  have "length (filter (\<lambda>(k, _). k \<in> fst ` set new) old) = length (filter (\<lambda>(k, _). k \<in> fst ` set old) new)"
    unfolding kept_keys(1) [OF assms] kept_keys(1) [OF assms(2,1)] by (simp add: Int_commute)
  then show "n_after (summarize old new s) = n_retained (summarize old new s) + n_added (summarize old new s)"
    using len [of "\<lambda>(k, _). k \<in> fst ` set old" new] by (simp add: summarize_def Let_def split_def)
qed (simp_all add: summarize_def Let_def length_filter_le del: filter_filter)

text \<open>
  The counts of a plan balance: the entries before are those retained and those removed, the entries after
  are those retained and those added, and no more rows move or change title than are retained; for a merge
  nothing is removed, moved or retitled.
\<close>

theorem global_summary_balances:
  assumes "g_plan current incoming mode = Inr p" "real_value current" "\<forall>v \<in> set incoming. real_value v"
  shows "n_before (summary p) = n_retained (summary p) + n_removed (summary p) \<and>
    n_after (summary p) = n_retained (summary p) + n_added (summary p) \<and>
    n_after (summary p) = length (g_entries (merged p)) \<and>
    n_moved (summary p) \<le> n_retained (summary p) \<and> n_title_changes (summary p) \<le> n_retained (summary p) \<and>
    (mode = u ''merge'' \<longrightarrow> n_removed (summary p) = 0 \<and> n_moved (summary p) = 0)"
proof (rule g_plan_ok [OF assms])
  fix original docs start s
  assume start: "start = (if mode = u ''merge'' then g_entries original else [])"
    and norm: "normal_document (merged p) (first_wins start (concat (map g_entries docs)))"
    and orig: "normal_document original (g_entries original)"
    and sum: "summary p = summarize (rows_of 0 (g_entries original)) (rows_of 0 (g_entries (merged p))) s"
  let ?old = "rows_of 0 (g_entries original)" and ?new = "rows_of 0 (g_entries (merged p))"
  have es: "g_entries (merged p) = first_wins start (concat (map g_entries docs))"
    using norm by (auto simp: normal_document_def)
  have d: "distinct (map fst ?old)" "distinct (map fst ?new)"
    using normal_document_entries [OF orig] normal_document_entries [OF norm] unfolding rows_of_fst es by auto
  have "n_removed (summary p) = 0 \<and> n_moved (summary p) = 0" if "mode = u ''merge''"
  proof -
    obtain more where "first_wins start (concat (map g_entries docs)) = start @ more" using first_wins_prefix by blast
    then have "g_entries (merged p) = g_entries original @ more" using start that es by simp
    then have "?new = ?old @ rows_of (length (g_entries original)) more"
      by (simp add: rows_of_def enumerate_append_eq)
    moreover have "map_of ?old k = Some x" if "(k, x) \<in> set ?old" for k x
      using d(1) that by simp
    ultimately show ?thesis
      by (auto simp: sum summarize_def Let_def filter_empty_conv map_add_def image_Un) (force split: option.splits)+
  qed
  moreover have "n_after (summary p) = length (g_entries (merged p))"
    by (simp add: sum summarize_def Let_def rows_of_def)
  ultimately show ?thesis using summarize_balance [OF d] unfolding sum by blast
qed

theorem global_summary_balances_witness:
  "\<exists>p. g_plan sample_one [sample_two] (u ''merge'') = Inr p \<and>
     n_after (summary p) = n_retained (summary p) + n_added (summary p) \<and> n_removed (summary p) = 0"
proof -
  obtain p where p: "g_plan sample_one [sample_two] (u ''merge'') = Inr p"
    using sample_merge(1) by (auto simp: is_ok_iff)
  from global_summary_balances [OF p sample_merge(2,3)] p show ?thesis by auto
qed

section \<open>Errors\<close>

abbreviation global_only :: "'a result \<Rightarrow> bool" where
  "global_only \<equiv> raises_only is_GlobalDocumentError"

lemma global_primitives [raises]:
  "global_only (g_require c)" "global_only (g_shape v ks)" "global_only (g_pattern v P)"
  "global_only (check g_too_large c)"
  by (auto simp: g_require_def g_shape_def g_pattern_def intro!: raises raises_only_bindR)

lemma global_g_text [raises]: "global_only (g_text v m)"
proof -
  have "raises_only (\<lambda>e. e = UnicodeError) (utf16_units s)" for s by (simp add: utf16_units_def)
  then have "raises_only (\<lambda>e. e = UnicodeError \<or> is_GlobalDocumentError e) (utf16_units s)" for s
    by (rule raises_only_mono) auto
  then show ?thesis unfolding g_text_def by (intro raises_only_bindR raises_only_rethrow raises) auto
qed

lemma global_text_or_none [raises]: "global_only (text_or_none v m)"
  by (simp add: text_or_none_def raises)

lemma global_g_origin [raises]: "global_only (g_origin v)"
  unfolding g_origin_def by (intro raises_only_bindR raises) (auto simp: ok_iff intro: same_keys_has)

lemma raises_itemR: "has v k \<Longrightarrow> raises_only P (itemR v k)"
  using itemR_ok [of v k "fld v k"] by simp

lemma global_locators [raises]:
  "global_only (plex_locator v)" "global_only (local_locator v)" "global_only (vportal_locator v)"
  "global_only (named_locator v)" "global_only (channel_locator v)"
  unfolding plex_locator_def local_locator_def vportal_locator_def named_locator_def channel_locator_def
  by (intro raises_only_bindR raises raises_itemR; auto simp: ok_iff intro: same_keys_has)+

lemma global_g_locator [raises]: "global_only (g_locator p v)"
  unfolding g_locator_def by (intro raises_only_if raises)

lemma global_g_entry [raises]: "global_only (g_entry v)"
  unfolding g_entry_def by (intro raises_only_bindR raises) (auto simp: ok_iff intro: same_keys_has)

lemma global_add_entry: "real_value v \<Longrightarrow> global_only (add_entry s v)"
proof -
  assume v: "real_value v"
  obtain es seen n where s: "s = (es, seen, n)" by (cases s) auto
  show ?thesis
  proof (cases "g_entry v")
    case (Inl e)
    with global_g_entry [of v] show ?thesis by (simp add: add_entry_def s)
  next
    case (Inr w)
    have w: "writable w" "key_sorted w" using writable_entry [OF Inr v] key_sorted_entry [OF Inr] by auto
    obtain b where "g_json_bytes w = Inr b" using writable_json_bytes [OF w] by blast
    with Inr entry_identity_normal [OF Inr w(1)] show ?thesis
      by (simp add: add_entry_def s Let_def raises raises_only_bindR)
  qed
qed

lemma global_g_validate: "real_value v \<Longrightarrow> global_only (g_validate v)"
proof -
  assume v: "real_value v"
  have "real_value v'" if "v' \<in> set (list_of (fld v ''entries''))" for v'
    using real_value_fld [OF v, of "''entries''"] that by (cases "fld v ''entries''") auto
  then show ?thesis
    unfolding g_validate_def
    by (intro raises_only_bindR raises global_add_entry) (auto simp: ok_iff intro: same_keys_has split: prod.splits)
qed

text \<open>
  Loading raw bytes, whatever they are, either returns a document or raises the module's own error: no
  decoding, parsing, nesting or lookup error escapes.
\<close>

theorem global_load_errors: "global_only (load_document raw)"
proof -
  have "raises_only (\<lambda>e. is_TransferError e \<or> is_GlobalDocumentError e) (validate_document_bytes raw G_MAX_BYTES)"
    by (rule raises_only_mono [OF validate_document_bytes_raises]) auto
  moreover have "global_only (depth_scan (GlobalDocumentError c) lim raw)" for c lim
    unfolding depth_scan_def by (intro raises_only_bindR raises)
      (auto simp: depth_step_def depth_char_def split: prod.splits)
  moreover have "global_only (g_validate v)" if "validate_document_bytes raw G_MAX_BYTES = Inr v" for v
    using validate_document_bytes_ok [OF that] by (intro global_g_validate) (auto intro: loads_bytes_real_value)
  ultimately show ?thesis
    unfolding load_document_def by (intro raises_only_bindR raises_only_rethrow raises) (auto simp: ok_iff)
qed

section \<open>Advertised kinds\<close>

lemma advertised_ok:
  "advertised ks seen = Some r \<longleftrightarrow> (\<forall>k \<in> set ks. is_str k \<and> plen (str_of k) \<le> 64
       \<and> sum_list (map (\<lambda>c. if 65536 \<le> c then 2 else (1 :: int)) (str_of k)) \<le> 64)
     \<and> distinct (map str_of ks) \<and> set (map str_of ks) \<inter> set seen = {} \<and> r = rev (map str_of ks) @ seen"
  by (induction ks arbitrary: seen) auto

text \<open>
  A host supports a document exactly when the document is valid and the host's advertisement is a list of
  at most 32 distinct texts of at most 64 UTF-16 units that contains the kind of every entry's locator.
\<close>

theorem global_supports_iff:
  assumes "real_value v"
  shows "supports v kinds = Inr True \<longleftrightarrow> (\<exists>d. g_validate v = Inr d \<and> is_list kinds \<and> plen (list_of kinds) \<le> 32 \<and>
    (\<forall>k \<in> set (list_of kinds). is_str k \<and> plen (str_of k) \<le> 64
       \<and> sum_list (map (\<lambda>c. if 65536 \<le> c then 2 else (1 :: int)) (str_of k)) \<le> 64) \<and>
    distinct (map str_of (list_of kinds)) \<and>
    (\<forall>e \<in> set (g_entries d). entry_kind e \<in> str_of ` set (list_of kinds)))"
proof (cases "g_validate v")
  case (Inl e)
  then have "is_GlobalDocumentError e" using global_g_validate [OF assms] by simp
  with Inl show ?thesis by (simp add: supports_def required_kinds_def)
next
  case (Inr d)
  let ?P = "(\<forall>k \<in> set (list_of kinds). is_str k \<and> plen (str_of k) \<le> 64
       \<and> sum_list (map (\<lambda>c. if 65536 \<le> c then 2 else (1 :: int)) (str_of k)) \<le> 64) \<and> distinct (map str_of (list_of kinds))"
  have adv: "advertised (list_of kinds) [] = (if ?P then Some (rev (map str_of (list_of kinds))) else None)"
    using advertised_ok [of "list_of kinds" "[]"] by (cases "advertised (list_of kinds) []") auto
  show ?thesis
    unfolding supports_def required_kinds_def Inr bindR_Inr adv
    by (simp add: sorted_set_def list_all_iff) auto
qed

theorem global_supports_iff_witness:
  "supports sample_one (JArr [lit ''channel'']) = Inr True \<and> (\<exists>d. g_validate sample_one = Inr d)"
proof -
  have ok: "real_value sample_one" "supports sample_one (JArr [lit ''channel'']) = Inr True" by code_simp+
  from global_supports_iff [OF ok(1)] ok(2) show ?thesis by blast
qed

end
