(* ===== verification/GlobalProtocol.thy ===== *)
theory GlobalProtocol
  imports FavProtocolResult GlobalDocument
begin

text \<open>
  \<open>src/cli/global_favorites_protocol.py\<close>, first part: the wire of the \<open>favorites_global\<close> action. The
  bounded reader of wire objects, the validation of requests, and the validation of the data of a
  response against its request, operation by operation.
\<close>

section \<open>Constants and primitive checks\<close>

abbreviation gp_invalid :: exn where "gp_invalid \<equiv> GlobalProtocolError ''invalid_protocol''"
abbreviation gp_mismatch :: exn where "gp_mismatch \<equiv> GlobalProtocolError ''context_mismatch''"
abbreviation gp_incomplete :: exn where "gp_incomplete \<equiv> GlobalProtocolError ''incomplete_export''"
abbreviation gp_oversized :: exn where "gp_oversized \<equiv> GlobalProtocolError ''envelope_too_large''"

abbreviation GP_METADATA_BYTES :: int where "GP_METADATA_BYTES \<equiv> 131072"
abbreviation GP_RESPONSE_BYTES :: int where "GP_RESPONSE_BYTES \<equiv> 2097152"
abbreviation GP_DOCUMENT_BYTES :: int where "GP_DOCUMENT_BYTES \<equiv> 1048576"
abbreviation ADMISSION_TTL_MS :: int where "ADMISSION_TTL_MS \<equiv> 10000"
abbreviation GP_ENVELOPE_BYTES :: int where "GP_ENVELOPE_BYTES \<equiv> 16384"

definition GP_ACTION :: pystr where
  "GP_ACTION = u ''favorites_global''"

definition GP_OPS :: "string list" where
  "GP_OPS = [''describe'', ''export'', ''begin'', ''append'', ''preview'', ''commit'', ''status'', ''abort'']"

definition KINDS :: "string list" where
  "KINDS = [''channel'', ''channel-name'', ''local-media'', ''plex-media'', ''vportal-media'']"

definition LIMITS :: "(string \<times> int) list" where
  "LIMITS =
    [(''max_document_bytes'', 1048576), (''max_entries'', 1000), (''max_append_bytes'', 8192), (''max_chunks'', 256),
     (''max_export_bytes'', 65536), (''max_preview_rows'', 64), (''max_envelope_bytes'', 16384),
     (''max_metadata_bytes'', 131072), (''max_active_transactions'', 1), (''idle_ttl_seconds'', 120),
     (''absolute_ttl_seconds'', 600), (''max_receipts'', 32), (''max_receipt_ledger_bytes'', 65536)]"

definition GP_ERRORS :: "string list" where
  "GP_ERRORS = [''invalid_request'', ''envelope_too_large'', ''unsupported'', ''runtime_changed'', ''busy'',
     ''expired'', ''operation_conflict'', ''transaction_not_found'', ''snapshot_not_found'',
     ''out_of_order'', ''chunk_conflict'', ''incomplete'', ''hash_mismatch'', ''revision_conflict'',
     ''context_changed'', ''invalid_document'', ''unportable_export'', ''not_ready'', ''policy_denied'',
     ''unsupported_persistence'', ''storage_unavailable'', ''limits_exceeded'', ''reconciliation_required'']"

definition WRITE_BLOCKERS :: "string list" where
  "WRITE_BLOCKERS = [''busy'', ''policy_denied'', ''unsupported_persistence'', ''storage_unavailable'',
     ''limits_exceeded'', ''reconciliation_required'']"

definition PREVIEW_BLOCKERS :: "string list" where
  "PREVIEW_BLOCKERS = filter (\<lambda>s. s \<noteq> ''busy'') WRITE_BLOCKERS
     @ [''revision_conflict'', ''context_changed'', ''invalid_document'', ''metadata_conflict'']"

definition RESOLUTION :: "string list" where
  "RESOLUTION = [''resolved'', ''missing'', ''ambiguous'', ''unsupported'']"

definition COUNT_FIELDS :: "string list" where
  "COUNT_FIELDS = [''before'', ''after'', ''added'', ''removed'', ''retained'', ''updated'', ''moved'', ''duplicates_skipped'']"

definition GP_COMMON :: "string list" where
  "GP_COMMON = [''version'', ''runtime'', ''op'', ''subject'']"

definition PREVIEW_FIELDS :: "string list" where
  "PREVIEW_FIELDS = [''operation_id'', ''transaction_id'', ''expected_revision'', ''context_revision'',
     ''input_document_sha256'', ''result_document_sha256'', ''plan_digest'', ''counts'',
     ''resolution_counts'', ''legacy_effects'', ''ready'', ''blocker'', ''page_offset'', ''rows'', ''next_offset'',
     ''required_kinds'']"

definition RECEIPT_FIELDS :: "string list" where
  "RECEIPT_FIELDS = [''version'', ''subject'', ''operation_id'', ''operation_runtime'', ''transaction_id'',
     ''input_document_sha256'', ''result_document_sha256'', ''expected_revision'', ''new_revision'',
     ''context_revision'', ''plan_digest'', ''counts'', ''changed'', ''outcome'', ''persistence'', ''required_kinds'']"

definition gp_require :: "bool \<Rightarrow> unit result" where
  "gp_require c = check gp_invalid c"

text \<open>\<open>_require(condition, "context_mismatch")\<close>.\<close>

definition gp_match :: "bool \<Rightarrow> unit result" where
  "gp_match c = check gp_mismatch c"

definition gp_shape :: "json \<Rightarrow> string list \<Rightarrow> unit result" where
  "gp_shape v ks = shape gp_invalid v ks"

definition gp_integer :: "json \<Rightarrow> int \<Rightarrow> int \<Rightarrow> unit result" where
  "gp_integer v low high = integer gp_invalid v low high"

definition gp_pattern :: "json \<Rightarrow> (pystr \<Rightarrow> bool) \<Rightarrow> unit result" where
  "gp_pattern v P = pattern gp_invalid v P"

definition gp_encoded :: "json \<Rightarrow> bytes result" where
  "gp_encoded v = bindR (dumps_compact v) utf8_encode"

section \<open>Reading a wire object\<close>

definition gp_node_ok :: "int \<Rightarrow> json \<Rightarrow> bool" where
  "gp_node_ok lim v = (case v of
     JObj kv \<Rightarrow> plen kv \<le> 128 \<and> list_all (\<lambda>p. plen (fst p) \<le> lim) kv
   | JArr vs \<Rightarrow> plen vs \<le> 1000
   | JStr s \<Rightarrow> plen s \<le> lim
   | _ \<Rightarrow> True)"

function gp_walk :: "int \<Rightarrow> (json \<times> int) list \<Rightarrow> int \<Rightarrow> unit result" where
  "gp_walk lim [] nodes = Inr ()"
| "gp_walk lim ((v, depth) # pending) nodes =
     bindR (gp_require (nodes + 1 \<le> lim \<and> depth \<le> 16)) (\<lambda>_.
     bindR (gp_require (gp_node_ok lim v)) (\<lambda>_.
       gp_walk lim (map (\<lambda>x. (x, depth + 1)) (rev (children v)) @ pending) (nodes + 1)))"
  by pat_completeness auto
termination
proof (relation "measure (\<lambda>(lim, pending, nodes). sum_list (map (tree_size \<circ> fst) pending))")
  fix lim v depth pending nodes
  show "((lim, map (\<lambda>x. (x, depth + 1)) (rev (children v)) @ pending, nodes + 1),
      (lim, (v, depth) # pending, nodes)) \<in> measure (\<lambda>(lim, pending, nodes). sum_list (map (tree_size \<circ> fst) pending))"
    using children_size [of v] by (simp add: o_def rev_map [symmetric])
qed simp

declare gp_walk.simps(2) [simp del]

definition gp_wire_bytes :: "wire \<Rightarrow> int \<Rightarrow> bytes result" where
  "gp_wire_bytes w lim = (case w of
     Raw b \<Rightarrow> Inr b
   | Parsed v \<Rightarrow> bindR (gp_require (is_dict v)) (\<lambda>_. bindR (gp_walk lim [(v, 0)] 0) (\<lambda>_. gp_encoded v)))"

fun is_GlobalProtocolError :: "exn \<Rightarrow> bool" where
  "is_GlobalProtocolError (GlobalProtocolError _) = True"
| "is_GlobalProtocolError _ = False"

definition gp_object :: "wire \<Rightarrow> int \<Rightarrow> (json \<times> bytes) result" where
  "gp_object w lim =
     rethrow (\<lambda>e. json_errors e \<and> \<not> is_GlobalProtocolError e) gp_invalid
       (bindR (gp_wire_bytes w lim) (\<lambda>raw.
        bindR (check gp_oversized (0 < plen raw \<and> plen raw \<le> lim)) (\<lambda>_.
        bindR (depth_scan gp_invalid 16 raw) (\<lambda>_.
        bindR (bindR (utf8_decode raw) loads) (\<lambda>v.
        bindR (gp_require (is_dict v)) (\<lambda>_.
        bindR (gp_encoded v) (\<lambda>_. Inr (v, raw))))))))"

section \<open>Kinds, times, counts, chunks\<close>

definition gp_kinds :: "json \<Rightarrow> unit result" where
  "gp_kinds v = seqR
     [gp_require (is_list v \<and> plen (list_of v) \<le> plen KINDS \<and> list_all (\<lambda>k. is_str k \<and> in_lits k KINDS) (list_of v)),
      gp_require (map str_of (list_of v) = sorted_set (map str_of (list_of v)))]"

text \<open>
  \<open>astimezone(utc)\<close> raises OverflowError for an instant outside the years 1 to 9999 of UTC, and the code
  catches only ValueError.
\<close>

definition gp_time :: "json \<Rightarrow> (int \<times> int) result" where
  "gp_time v = bindR (gp_pattern v timestamp_pat) (\<lambda>_.
     rethrow is_ValueError gp_invalid (bindR (instant (str_of v)) (\<lambda>(t, n).
       if 0 \<le> t \<and> t < 86400 * 3652059 then Inr (t, n) else Inl OverflowError)))"

definition gp_counts :: "json \<Rightarrow> unit result" where
  "gp_counts v =
     bindR (gp_shape v COUNT_FIELDS) (\<lambda>_.
     bindR (forR (\<lambda>p. gp_integer (snd p) 0 1000) (items_of v)) (\<lambda>_.
     let n = (\<lambda>k. int_of (fld v k))
     in gp_require (n ''before'' = n ''removed'' + n ''retained'' \<and> n ''after'' = n ''added'' + n ''retained''
          \<and> n ''updated'' \<le> n ''retained'' \<and> n ''moved'' \<le> n ''retained'')))"

definition gp_chunk :: "json \<Rightarrow> json \<Rightarrow> int \<Rightarrow> bytes result" where
  "gp_chunk encoded digest maximum =
     bindR (gp_pattern digest digest_pat) (\<lambda>_.
     bindR (gp_require (is_str encoded \<and> 4 \<le> plen (str_of encoded)
       \<and> plen (str_of encoded) \<le> 4 * ((maximum + 2) div 3))) (\<lambda>_.
     bindR (rethrow is_ValueError gp_invalid (b64decode (str_of encoded))) (\<lambda>value.
     bindR (gp_require (0 < plen value \<and> plen value \<le> maximum \<and> b64encode value = str_of encoded
       \<and> sha256_hex value = str_of digest)) (\<lambda>_. Inr value))))"

definition gp_validate_capability :: "wire \<Rightarrow> json result" where
  "gp_validate_capability w =
     bindR (gp_object w GP_METADATA_BYTES) (\<lambda>(v, _).
     bindR (gp_shape v [''version'']) (\<lambda>_.
     bindR (on v ''version'' (\<lambda>x. gp_integer x 1 1)) (\<lambda>_. Inr v)))"

section \<open>Requests\<close>

definition gp_request_fields :: "json \<Rightarrow> string list" where
  "gp_request_fields op =
     (if is_lit op ''export'' then [''snapshot_id'', ''offset'', ''max_bytes'']
      else if is_lit op ''begin'' then
        [''operation_id'', ''mode'', ''expected_revision'', ''expected_context_revision'', ''document_sha256'',
         ''size_bytes'', ''chunk_count'', ''budget_ms'', ''required_kinds'']
      else if is_lit op ''append'' then [''transaction_id'', ''seq'', ''offset'', ''chunk_sha256'', ''data_base64'']
      else if is_lit op ''preview'' then [''transaction_id'', ''page_offset'', ''max_entries'']
      else if is_lit op ''commit'' then [''transaction_id'', ''operation_id'', ''plan_digest'']
      else if is_lit op ''status'' then [''operation_id'']
      else if is_lit op ''abort'' then [''transaction_id'', ''operation_id'']
      else [])"

definition gp_request_details :: "json \<Rightarrow> json \<Rightarrow> unit result" where
  "gp_request_details op v =
     (if is_lit op ''begin'' then seqR
        [on v ''mode'' (\<lambda>m. gp_require (in_lits m [''merge'', ''replace''])),
         on v ''size_bytes'' (\<lambda>x. gp_integer x 1 GP_DOCUMENT_BYTES),
         on v ''chunk_count'' (\<lambda>x. gp_integer x 1 256),
         on v ''budget_ms'' (\<lambda>x. gp_integer x 1 600000),
         on v ''required_kinds'' gp_kinds,
         on v ''chunk_count'' (\<lambda>c. on v ''size_bytes'' (\<lambda>s.
           gp_require (int_of c \<le> int_of s \<and> int_of s \<le> int_of c * 8192)))]
      else if is_lit op ''append'' then seqR
        [on v ''seq'' (\<lambda>x. gp_integer x 0 255),
         on v ''offset'' (\<lambda>x. gp_integer x 0 (GP_DOCUMENT_BYTES - 1)),
         on v ''data_base64'' (\<lambda>d. on v ''chunk_sha256'' (\<lambda>h. on v ''offset'' (\<lambda>o'.
           bindR (gp_chunk d h 8192) (\<lambda>c. gp_require (int_of o' + plen c \<le> GP_DOCUMENT_BYTES)))))]
      else if is_lit op ''export'' then seqR
        [on v ''offset'' (\<lambda>x. gp_integer x 0 (GP_DOCUMENT_BYTES - 1)),
         on v ''max_bytes'' (\<lambda>x. gp_integer x 1 65536)]
      else if is_lit op ''preview'' then seqR
        [on v ''page_offset'' (\<lambda>x. gp_integer x 0 1000),
         on v ''max_entries'' (\<lambda>x. gp_integer x 1 64)]
      else Inr ())"

definition gp_check_request :: "json \<Rightarrow> unit result" where
  "gp_check_request v = seqR
     [onget v ''op'' (\<lambda>op. gp_require (is_str op \<and> in_lits op GP_OPS)),
      on v ''op'' (\<lambda>op. gp_shape v ([''op'', ''runtime''] @ gp_request_fields op)),
      on v ''runtime'' (\<lambda>x. gp_pattern x runtime_pat),
      forR (\<lambda>k. opt v k (\<lambda>x. gp_pattern x uuid4_pat)) [''snapshot_id'', ''operation_id'', ''transaction_id''],
      forR (\<lambda>k. opt v k (\<lambda>x. gp_pattern x digest_pat))
        [''expected_revision'', ''expected_context_revision'', ''document_sha256'', ''plan_digest''],
      on v ''op'' (\<lambda>op. gp_request_details op v)]"

definition gp_envelope_bytes :: "envelope_bytes \<Rightarrow> int" where
  "gp_envelope_bytes env = max (plen (client env)) (plen (queued_upper_bound env))"

text \<open>\<open>validate_request(params)\<close> without a \<open>describe\<close> to bind to.\<close>

definition gp_plain_request :: "wire \<Rightarrow> json result" where
  "gp_plain_request w =
     bindR (gp_object w GP_ENVELOPE_BYTES) (\<lambda>(v, _).
     bindR (gp_check_request v) (\<lambda>_.
     bindR (rethrow is_TransferError gp_invalid (request_envelopes GP_ACTION v None)) (\<lambda>env.
     bindR (check gp_oversized (gp_envelope_bytes env \<le> GP_ENVELOPE_BYTES)) (\<lambda>_. Inr v))))"

section \<open>The data of a response\<close>

definition gp_limits :: "json \<Rightarrow> unit result" where
  "gp_limits v = seqR
     [gp_shape v (map fst LIMITS),
      forR (\<lambda>(k, maximum). on v k (\<lambda>x. gp_integer x 1 maximum)) LIMITS,
      on v ''idle_ttl_seconds'' (\<lambda>a. on v ''absolute_ttl_seconds'' (\<lambda>b. gp_require (int_of a \<le> int_of b)))]"

text \<open>A flag and the reason it is down: \<open>(flag and reason is None) or (not flag and reason in blockers)\<close>.\<close>

definition flag_agrees :: "json \<Rightarrow> json \<Rightarrow> string list \<Rightarrow> bool" where
  "flag_agrees flag reason blockers \<longleftrightarrow> is_bool flag \<and>
     (flag = JBool True \<and> reason = JNull \<or> flag = JBool False \<and> is_str reason \<and> in_lits reason blockers)"

definition gp_describe :: "json \<Rightarrow> unit result" where
  "gp_describe data = seqR
     [gp_shape data (GP_COMMON @ [''revision'', ''context_revision'', ''write_ready'', ''write_blocker'', ''admission'',
        ''export'', ''export_error'', ''limits'', ''locator_kinds'']),
      on data ''revision'' (\<lambda>x. gp_pattern x digest_pat),
      on data ''context_revision'' (\<lambda>x. gp_pattern x digest_pat),
      on data ''write_ready'' (\<lambda>r. on data ''write_blocker'' (\<lambda>b. gp_require (flag_agrees r b WRITE_BLOCKERS))),
      on data ''write_ready'' (\<lambda>r. on data ''admission'' (\<lambda>a.
        if r = JBool True then seqR
          [gp_shape a [''operation_id'', ''ttl_ms''],
           on a ''operation_id'' (\<lambda>x. gp_pattern x uuid4_pat),
           on a ''ttl_ms'' (\<lambda>x. gp_integer x ADMISSION_TTL_MS ADMISSION_TTL_MS)]
        else gp_require (a = JNull))),
      on data ''limits'' gp_limits,
      on data ''locator_kinds'' gp_kinds,
      on data ''export'' (\<lambda>d.
        if d = JNull then on data ''export_error'' (\<lambda>e.
          gp_require (in_lits e [''unportable_export'', ''limits_exceeded'', ''storage_unavailable'']))
        else seqR
          [on data ''export_error'' (\<lambda>e. gp_require (e = JNull)),
           gp_shape d [''snapshot_id'', ''document_sha256'', ''size_bytes'', ''entries'', ''expires_at''],
           on d ''snapshot_id'' (\<lambda>x. gp_pattern x uuid4_pat),
           on d ''document_sha256'' (\<lambda>x. gp_pattern x digest_pat),
           on d ''size_bytes'' (\<lambda>x. gp_integer x 1 (int_of (fld (fld data ''limits'') ''max_document_bytes''))),
           on d ''entries'' (\<lambda>x. gp_integer x 0 (int_of (fld (fld data ''limits'') ''max_entries''))),
           on d ''expires_at'' (\<lambda>x. bindR (gp_time x) (\<lambda>_. Inr ()))])]"

text \<open>\<open>Counter\<close> over the states: the counts of one page, and the indices of its conflicts.\<close>

type_synonym page_state = "(pystr \<times> int) list \<times> int list"

definition bump :: "pystr \<Rightarrow> (pystr \<times> int) list \<Rightarrow> (pystr \<times> int) list" where
  "bump k cs = map (\<lambda>(l, n). if l = k then (l, n + 1) else (l, n)) cs"

definition no_counts :: "(pystr \<times> int) list" where
  "no_counts = map (\<lambda>s. (u s, 0)) RESOLUTION"

definition preview_row :: "json \<Rightarrow> page_state \<Rightarrow> nat \<times> json \<Rightarrow> page_state result" where
  "preview_row data st x = (case (st, x) of ((page_counts, conflict_indices), (index, row)) \<Rightarrow>
     bindR (gp_require (is_dict row)) (\<lambda>_.
     bindR (seqR
       [gp_shape row (if has row ''metadata_conflict'' then [''entry_index'', ''state'', ''metadata_conflict'']
          else [''entry_index'', ''state'']),
        on row ''entry_index'' (\<lambda>i. gp_integer i 0 999),
        on row ''entry_index'' (\<lambda>i. on row ''state'' (\<lambda>s.
          gp_require (int_of i = int index \<and> is_str s \<and> in_lits s RESOLUTION)))]) (\<lambda>_.
     let counts' = bump (str_of (fld row ''state'')) page_counts
     in if has row ''metadata_conflict'' then
          bindR (gp_require (fld data ''ready'' = JBool False \<and> is_lit (fld data ''blocker'') ''metadata_conflict'')) (\<lambda>_.
          on row ''metadata_conflict'' (\<lambda>detail.
          bindR (seqR
            [gp_shape detail [''reason'', ''incoming_entry_index''],
             on detail ''reason'' (\<lambda>r. gp_require (is_lit r ''title_mismatch'')),
             on detail ''incoming_entry_index'' (\<lambda>i. gp_integer i 0 999),
             on detail ''incoming_entry_index'' (\<lambda>i. gp_require (int_of i \<notin> set conflict_indices))]) (\<lambda>_.
            Inr (counts', int_of (fld detail ''incoming_entry_index'') # conflict_indices))))
        else Inr (counts', conflict_indices))))"

definition gp_preview_page :: "json \<Rightarrow> json \<Rightarrow> unit result" where
  "gp_preview_page params data =
     (let offset = int_of (fld data ''page_offset''); rows = list_of (fld data ''rows'');
          end' = offset + plen rows; all = int_of (fld (fld data ''counts'') ''after'')
      in bindR (gp_integer (fld data ''page_offset'') 0 all) (\<lambda>_.
         bindR (gp_require (py_eq (fld data ''page_offset'') (fld params ''page_offset'') \<and> is_list (fld data ''rows'')
           \<and> plen rows \<le> int_of (fld params ''max_entries''))) (\<lambda>_.
         bindR (gp_require (end' \<le> all \<and> (rows \<noteq> [] \<or> end' = all))) (\<lambda>_.
         bindR (foldR (preview_row data) (no_counts, []) (enumerate (nat offset) rows)) (\<lambda>(page_counts, _).
         bindR (gp_require (list_all (\<lambda>s. the (map_of page_counts (u s)) \<le> int_of (fld (fld data ''resolution_counts'') s)) RESOLUTION)) (\<lambda>_.
           on data ''next_offset'' (\<lambda>n.
             if end' = all then gp_require (n = JNull)
             else bindR (gp_integer n 1 1000) (\<lambda>_. gp_require (int_of n = end')))))))))"

definition gp_preview :: "json \<Rightarrow> json \<Rightarrow> unit result" where
  "gp_preview params data = seqR
     [gp_shape data (GP_COMMON @ PREVIEW_FIELDS),
      on data ''operation_id'' (\<lambda>x. gp_pattern x uuid4_pat),
      on data ''transaction_id'' (\<lambda>x. on params ''transaction_id'' (\<lambda>y. gp_require (py_eq x y))),
      forR (\<lambda>k. on data k (\<lambda>x. gp_pattern x digest_pat))
        [''expected_revision'', ''context_revision'', ''input_document_sha256'', ''result_document_sha256'', ''plan_digest''],
      on data ''required_kinds'' gp_kinds,
      on data ''counts'' gp_counts,
      on data ''legacy_effects'' (\<lambda>l. bindR (gp_shape l [''linked_removed'', ''unmapped_retained'']) (\<lambda>_.
        forR (\<lambda>p. gp_integer (snd p) 0 100) (items_of l))),
      on data ''resolution_counts'' (\<lambda>c. bindR (gp_shape c RESOLUTION) (\<lambda>_.
        forR (\<lambda>p. gp_integer (snd p) 0 1000) (items_of c))),
      on data ''resolution_counts'' (\<lambda>c. on data ''counts'' (\<lambda>n.
        gp_require (sum_list (map (\<lambda>p. int_of (snd p)) (items_of c)) = int_of (fld n ''after'')))),
      on data ''ready'' (\<lambda>r. on data ''blocker'' (\<lambda>b. gp_require (flag_agrees r b PREVIEW_BLOCKERS))),
      gp_preview_page params data]"

definition gp_receipt :: "json \<Rightarrow> unit result" where
  "gp_receipt v = seqR
     [gp_shape v RECEIPT_FIELDS,
      on v ''version'' (\<lambda>x. gp_integer x 1 1),
      on v ''subject'' (\<lambda>s. on v ''outcome'' (\<lambda>o'. on v ''persistence'' (\<lambda>p.
        gp_require (is_lit s ''global'' \<and> is_lit o' ''verified'' \<and> is_lit p ''persistent'')))),
      on v ''operation_runtime'' (\<lambda>x. gp_pattern x runtime_pat),
      forR (\<lambda>k. on v k (\<lambda>x. gp_pattern x uuid4_pat)) [''operation_id'', ''transaction_id''],
      forR (\<lambda>k. on v k (\<lambda>x. gp_pattern x digest_pat)) [''input_document_sha256'', ''result_document_sha256'',
        ''expected_revision'', ''new_revision'', ''context_revision'', ''plan_digest''],
      on v ''counts'' gp_counts,
      on v ''required_kinds'' gp_kinds,
      on v ''changed'' (\<lambda>c. on v ''expected_revision'' (\<lambda>a. on v ''new_revision'' (\<lambda>b.
        gp_require (is_bool c \<and> c = JBool (\<not> py_eq a b))))),
      on v ''changed'' (\<lambda>c. on v ''counts'' (\<lambda>n. if c = JBool False
        then gp_require (list_all (\<lambda>k. int_of (fld n k) = 0) [''added'', ''removed'', ''updated'', ''moved'']) else Inr ()))]"

record gp_evidence =
  ge_receipt :: "json option"
  ge_chunk :: "bytes option"

abbreviation no_evidence :: gp_evidence where
  "no_evidence \<equiv> \<lparr>ge_receipt = None, ge_chunk = None\<rparr>"

definition gp_plainly :: "unit result \<Rightarrow> gp_evidence result" where
  "gp_plainly m = bindR m (\<lambda>_. Inr no_evidence)"

text \<open>\<open>data[key] == params[key]\<close>, and the same with \<open>type(...) is type(...)\<close>.\<close>

definition gp_equal :: "json \<Rightarrow> json \<Rightarrow> string \<Rightarrow> string \<Rightarrow> unit result" where
  "gp_equal data params k l = on data k (\<lambda>x. on params l (\<lambda>y. gp_require (py_eq x y)))"

definition gp_same :: "json \<Rightarrow> json \<Rightarrow> string \<Rightarrow> unit result" where
  "gp_same data params k = on data k (\<lambda>x. on params k (\<lambda>y. gp_require (py_eq x y \<and> same_type x y)))"

definition gp_export_data :: "json \<Rightarrow> json \<Rightarrow> gp_evidence result" where
  "gp_export_data params data =
     bindR (seqR
       [gp_shape data (GP_COMMON @ [''snapshot_id'', ''revision'', ''document_sha256'', ''size_bytes'', ''offset'',
          ''chunk_sha256'', ''data_base64'', ''next_offset'', ''eof'']),
        gp_equal data params ''snapshot_id'' ''snapshot_id'',
        on data ''revision'' (\<lambda>x. gp_pattern x digest_pat),
        on data ''document_sha256'' (\<lambda>x. gp_pattern x digest_pat),
        on data ''size_bytes'' (\<lambda>x. gp_integer x 1 GP_DOCUMENT_BYTES),
        on data ''offset'' (\<lambda>x. gp_integer x 0 (int_of (fld data ''size_bytes'') - 1)),
        gp_equal data params ''offset'' ''offset'']) (\<lambda>_.
     bindR (gp_chunk (fld data ''data_base64'') (fld data ''chunk_sha256'') (int_of (fld params ''max_bytes''))) (\<lambda>c.
     bindR (seqR
       [on data ''next_offset'' (\<lambda>x. gp_integer x 1 (int_of (fld data ''size_bytes''))),
        on data ''next_offset'' (\<lambda>n. on data ''eof'' (\<lambda>e.
          gp_require (int_of n = int_of (fld data ''offset'') + plen c \<and> is_bool e
            \<and> e = JBool (int_of n = int_of (fld data ''size_bytes'')))))]) (\<lambda>_.
       Inr \<lparr>ge_receipt = None, ge_chunk = Some c\<rparr>)))"

definition gp_begin_data :: "json \<Rightarrow> json \<Rightarrow> unit result" where
  "gp_begin_data params data = seqR
     [gp_shape data (GP_COMMON @ [''operation_id'', ''transaction_id'', ''expected_revision'', ''context_revision'',
        ''document_sha256'', ''size_bytes'', ''chunk_count'', ''next_seq'', ''received_bytes'', ''idle_expires_at'',
        ''absolute_expires_at'', ''required_kinds'']),
      on data ''transaction_id'' (\<lambda>x. gp_pattern x uuid4_pat),
      forR (gp_same data params) [''operation_id'', ''expected_revision'', ''document_sha256'', ''size_bytes'',
        ''chunk_count'', ''required_kinds''],
      gp_equal data params ''context_revision'' ''expected_context_revision'',
      on data ''next_seq'' (\<lambda>x. gp_integer x 0 0),
      on data ''received_bytes'' (\<lambda>x. gp_integer x 0 0),
      on data ''idle_expires_at'' (\<lambda>a. bindR (gp_time a) (\<lambda>s. on data ''absolute_expires_at'' (\<lambda>b.
        bindR (gp_time b) (\<lambda>t. gp_require (s \<le> t)))))]"

definition gp_append_data :: "json \<Rightarrow> json \<Rightarrow> gp_evidence result" where
  "gp_append_data params data =
     bindR (seqR
       [gp_shape data (GP_COMMON @ [''operation_id'', ''transaction_id'', ''seq'', ''offset'', ''chunk_sha256'', ''next_seq'',
          ''received_bytes'', ''duplicate'']),
        on data ''operation_id'' (\<lambda>x. gp_pattern x uuid4_pat),
        forR (gp_same data params) [''transaction_id'', ''seq'', ''offset'', ''chunk_sha256'']]) (\<lambda>_.
     bindR (gp_chunk (fld params ''data_base64'') (fld params ''chunk_sha256'') 8192) (\<lambda>c.
     bindR (seqR
       [on data ''next_seq'' (\<lambda>x. gp_integer x 1 256),
        on data ''received_bytes'' (\<lambda>x. gp_integer x 1 GP_DOCUMENT_BYTES),
        on data ''duplicate'' (\<lambda>d.
          gp_require (int_of (fld data ''next_seq'') = int_of (fld params ''seq'') + 1
            \<and> int_of (fld data ''received_bytes'') = int_of (fld params ''offset'') + plen c \<and> is_bool d))]) (\<lambda>_.
       Inr \<lparr>ge_receipt = None, ge_chunk = Some c\<rparr>)))"

definition gp_commit_data :: "json \<Rightarrow> json \<Rightarrow> gp_evidence result" where
  "gp_commit_data params data =
     bindR (seqR
       [gp_shape data (GP_COMMON @ [''operation_id'', ''transaction_id'', ''receipt'']),
        gp_equal data params ''operation_id'' ''operation_id'',
        gp_equal data params ''transaction_id'' ''transaction_id'',
        on data ''receipt'' gp_receipt,
        on data ''receipt'' (\<lambda>r. seqR
          [gp_equal r params ''operation_id'' ''operation_id'', gp_equal r params ''transaction_id'' ''transaction_id'',
           gp_equal r params ''operation_runtime'' ''runtime'', gp_equal r params ''plan_digest'' ''plan_digest''])]) (\<lambda>_.
       Inr \<lparr>ge_receipt = Some (fld data ''receipt''), ge_chunk = None\<rparr>)"

definition gp_status_data :: "json \<Rightarrow> json \<Rightarrow> gp_evidence result" where
  "gp_status_data params data =
     bindR (seqR
       [gp_shape data (GP_COMMON @ [''operation_id'', ''operation_runtime'', ''transaction_id'', ''state'', ''outcome'', ''receipt'']),
        gp_equal data params ''operation_id'' ''operation_id'',
        on data ''state'' (\<lambda>s. gp_require (is_str s))]) (\<lambda>_.
     let state = fld data ''state''; outcome = fld data ''outcome''; rec = fld data ''receipt'';
         origin = fld data ''operation_runtime''
     in if is_lit state ''not_found'' then gp_plainly
          (gp_require (origin = JNull \<and> fld data ''transaction_id'' = JNull \<and> rec = JNull \<and> is_lit outcome ''unknown''))
        else
          bindR (gp_pattern origin runtime_pat) (\<lambda>_.
          bindR (gp_pattern (fld data ''transaction_id'') uuid4_pat) (\<lambda>_.
            if is_lit state ''committed'' then
              bindR (gp_receipt rec) (\<lambda>_.
              bindR (gp_require (is_lit outcome ''verified'' \<and> py_eq (fld rec ''operation_id'') (fld params ''operation_id'')
                \<and> py_eq (fld rec ''transaction_id'') (fld data ''transaction_id'')
                \<and> py_eq (fld rec ''operation_runtime'') origin)) (\<lambda>_.
                Inr \<lparr>ge_receipt = Some rec, ge_chunk = None\<rparr>))
            else if in_lits state [''receiving'', ''ready'', ''expired'', ''aborted''] then gp_plainly
              (gp_require (rec = JNull \<and> is_lit outcome ''not_applied'' \<and> py_eq origin (fld params ''runtime'')))
            else gp_plainly
              (gp_require (in_lits state [''applying'', ''unknown''] \<and> rec = JNull \<and> is_lit outcome ''unknown'')))))"

definition gp_abort_data :: "json \<Rightarrow> json \<Rightarrow> unit result" where
  "gp_abort_data params data = seqR
     [gp_shape data (GP_COMMON @ [''operation_id'', ''transaction_id'', ''state'', ''outcome'']),
      gp_equal data params ''operation_id'' ''operation_id'',
      gp_equal data params ''transaction_id'' ''transaction_id'',
      on data ''state'' (\<lambda>s. on data ''outcome'' (\<lambda>o'. gp_require (is_lit s ''aborted'' \<and> is_lit o' ''not_applied'')))]"

definition gp_error_data :: "json \<Rightarrow> pystr \<Rightarrow> unit result" where
  "gp_error_data data status = seqR
     [gp_shape data (GP_COMMON @ [''error'']),
      on data ''error'' (\<lambda>e. gp_require ((status = u ''rejected'' \<or> status = u ''unsupported'')
        \<and> is_str e \<and> in_lits e GP_ERRORS))]"

definition gp_op_data :: "json \<Rightarrow> json \<Rightarrow> gp_evidence result" where
  "gp_op_data params data = on params ''op'' (\<lambda>op.
     if is_lit op ''describe'' then gp_plainly (gp_describe data)
     else if is_lit op ''export'' then gp_export_data params data
     else if is_lit op ''begin'' then gp_plainly (gp_begin_data params data)
     else if is_lit op ''append'' then gp_append_data params data
     else if is_lit op ''preview'' then gp_plainly (gp_preview params data)
     else if is_lit op ''commit'' then gp_commit_data params data
     else if is_lit op ''status'' then gp_status_data params data
     else gp_plainly (gp_abort_data params data))"

definition gp_data :: "json \<Rightarrow> json \<Rightarrow> pystr \<Rightarrow> gp_evidence result" where
  "gp_data params data status =
     bindR (onget data ''version'' (\<lambda>x. gp_integer x 1 1)) (\<lambda>_.
     bindR (onget data ''runtime'' (\<lambda>x. on params ''runtime'' (\<lambda>y. gp_require (py_eq x y)))) (\<lambda>_.
     bindR (onget data ''op'' (\<lambda>x. on params ''op'' (\<lambda>y. gp_require (py_eq x y)))) (\<lambda>_.
     bindR (onget data ''subject'' (\<lambda>x. gp_require (is_lit x ''global''))) (\<lambda>_.
     if has data ''error'' then gp_plainly (gp_error_data data status)
     else bindR (gp_require (status = u ''ok'')) (\<lambda>_. gp_op_data params data)))))"

end
