(* ===== verification/GlobalProtocolResult.thy ===== *)
theory GlobalProtocolResult
  imports GlobalProtocol
begin

text \<open>
  \<open>src/cli/global_favorites_protocol.py\<close>, second part: results, retained contexts, and what binds a
  response to the evidence before it; the assembly of an export and of the pages of a preview.

  In the code \<open>validate_result\<close> and the binding functions call each other: a retained result is
  validated again without any context. Here that inner validation is \<open>gp_core\<close> with a binder that
  does nothing, so the recursion is two layers.
\<close>

section \<open>Results and retained evidence\<close>

record gp_result =
  gr_request :: bytes
  gr_data :: bytes
  gr_status :: pystr
  gr_request_id :: json
  gr_verified :: bool
  gr_chunk :: "bytes option"

definition gr_request_of :: "gp_result \<Rightarrow> json result" where
  "gr_request_of r = loads_bytes (gr_request r)"

definition gr_data_of :: "gp_result \<Rightarrow> json result" where
  "gr_data_of r = loads_bytes (gr_data r)"

text \<open>A \<open>ReceiptContext\<close> is the bytes of its record.\<close>

type_synonym gp_context = bytes

record exported_document =
  raw_export :: bytes
  export_revision :: json
  export_sha256 :: json

text \<open>The body of \<open>validate_result\<close>, over what binds the data.\<close>

definition gp_core ::
  "wire \<Rightarrow> wire \<Rightarrow> json \<Rightarrow> json \<Rightarrow> json \<Rightarrow> int \<Rightarrow> bool \<Rightarrow> (json \<Rightarrow> json \<Rightarrow> json option \<Rightarrow> unit result) \<Rightarrow> gp_result result" where
  "gp_core params data request_id response_id status max_metadata with_context binder =
     bindR (gp_integer (JInt max_metadata) 1 GP_METADATA_BYTES) (\<lambda>_.
     bindR (gp_plain_request params) (\<lambda>ps.
     bindR (gp_pattern request_id request_id_pat) (\<lambda>_.
     bindR (gp_require (py_eq response_id request_id \<and> is_str status
              \<and> in_lits status [''ok'', ''rejected'', ''unsupported''])) (\<lambda>_.
     bindR (gp_object data max_metadata) (\<lambda>(d, _).
     bindR (gp_data ps d (str_of status)) (\<lambda>e.
     bindR (if is_lit status ''ok'' then binder ps d (ge_receipt e) else Inr ()) (\<lambda>_.
     bindR (gp_encoded ps) (\<lambda>rb. bindR (gp_encoded d) (\<lambda>db.
       Inr \<lparr>gr_request = rb, gr_data = db, gr_status = str_of status, gr_request_id = request_id,
            gr_verified = (ge_receipt e \<noteq> None \<and> with_context), gr_chunk = ge_chunk e\<rparr>)))))))))"

abbreviation no_binder :: "json \<Rightarrow> json \<Rightarrow> json option \<Rightarrow> unit result" where
  "no_binder \<equiv> \<lambda>_ _ _. Inr ()"

text \<open>\<open>_saved\<close> and \<open>_restore_saved\<close>.\<close>

definition gp_saved :: "gp_result \<Rightarrow> json result" where
  "gp_saved r = bindR (gr_request_of r) (\<lambda>req. bindR (gr_data_of r) (\<lambda>data.
     Inr (JObj [(u ''request'', req), (u ''request_id'', gr_request_id r), (u ''data'', data)])))"

text \<open>A saved value that is not a dict is refused as one: \<open>_object\<close> requires it of a parsed value.\<close>

definition gp_restore_saved :: "json \<Rightarrow> gp_result result" where
  "gp_restore_saved v =
     bindR (gp_shape v [''request'', ''request_id'', ''data'']) (\<lambda>_.
     on v ''request'' (\<lambda>req. on v ''data'' (\<lambda>data. on v ''request_id'' (\<lambda>i.
       gp_core (Parsed req) (Parsed data) i i (lit ''ok'') GP_METADATA_BYTES False no_binder))))"

definition gp_checked :: "gp_result \<Rightarrow> string option \<Rightarrow> gp_result result" where
  "gp_checked r op =
     bindR (gp_match (gr_status r = u ''ok'')) (\<lambda>_.
     bindR (bindR (gp_saved r) gp_restore_saved) (\<lambda>checked.
     bindR (case op of None \<Rightarrow> Inr ()
       | Some s \<Rightarrow> bindR (gr_request_of checked) (\<lambda>req. on req ''op'' (\<lambda>x. gp_match (is_lit x s)))) (\<lambda>_.
       Inr checked)))"

section \<open>Contexts\<close>

definition gp_agree :: "json \<Rightarrow> string \<Rightarrow> json \<Rightarrow> string \<Rightarrow> unit result" where
  "gp_agree v k w l = on v k (\<lambda>x. on w l (\<lambda>y. gp_match (py_eq x y)))"

definition gp_bind_begin :: "json \<Rightarrow> json \<Rightarrow> json \<Rightarrow> json \<Rightarrow> unit result" where
  "gp_bind_begin begin accepted params data = seqR
     [gp_agree params ''runtime'' begin ''runtime'',
      forR (\<lambda>item. seqR
        [if has item ''operation_id'' then gp_agree item ''operation_id'' begin ''operation_id'' else Inr (),
         if has item ''transaction_id'' then gp_agree item ''transaction_id'' accepted ''transaction_id'' else Inr ()])
        [params, data],
      if is_lit (fld params ''op'') ''preview'' then seqR
        [on data ''blocker'' (\<lambda>b. if is_lit b ''metadata_conflict''
           then on begin ''mode'' (\<lambda>m. gp_match (is_lit m ''merge'')) else Inr ()),
         gp_agree data ''expected_revision'' begin ''expected_revision'',
         gp_agree data ''context_revision'' begin ''expected_context_revision'',
         gp_agree data ''input_document_sha256'' begin ''document_sha256'',
         gp_agree data ''required_kinds'' begin ''required_kinds'']
      else Inr (),
      if is_lit (fld params ''op'') ''append'' then
        on data ''next_seq'' (\<lambda>n. on data ''received_bytes'' (\<lambda>r. on begin ''chunk_count'' (\<lambda>c. on begin ''size_bytes'' (\<lambda>s.
          gp_match (int_of n \<le> int_of c \<and> int_of r \<le> int_of s)))))
      else Inr ()]"

definition gp_context_parts :: "gp_context \<Rightarrow> (gp_result \<times> gp_result option) result" where
  "gp_context_parts c =
     bindR (gp_object (Raw c) GP_METADATA_BYTES) (\<lambda>(record', _).
     bindR (gp_shape record' [''version'', ''begin'', ''preview'']) (\<lambda>_.
     bindR (on record' ''version'' (\<lambda>x. gp_integer x 1 1)) (\<lambda>_.
     bindR (on record' ''begin'' gp_restore_saved) (\<lambda>begin.
     bindR (gr_request_of begin) (\<lambda>begin_request.
     bindR (on begin_request ''op'' (\<lambda>op. gp_match (is_lit op ''begin''))) (\<lambda>_.
     on record' ''preview'' (\<lambda>p.
       if p = JNull then Inr (begin, None)
       else
         bindR (gp_restore_saved p) (\<lambda>preview.
         bindR (gr_request_of preview) (\<lambda>preview_request.
         bindR (on preview_request ''op'' (\<lambda>op. gp_match (is_lit op ''preview''))) (\<lambda>_.
         bindR (on preview_request ''page_offset'' (\<lambda>x. gp_match (py_eq x (JInt 0)))) (\<lambda>_.
         bindR (gr_data_of begin) (\<lambda>begin_data. bindR (gr_data_of preview) (\<lambda>preview_data.
         bindR (gp_bind_begin begin_request begin_data preview_request preview_data) (\<lambda>_.
           Inr (begin, Some preview)))))))))))))))"

definition gp_retain_context :: "gp_result \<Rightarrow> gp_result option \<Rightarrow> gp_context result" where
  "gp_retain_context begin first_preview =
     bindR (gp_checked begin (Some ''begin'')) (\<lambda>b.
     bindR (case first_preview of None \<Rightarrow> Inr None
       | Some p \<Rightarrow> bindR (gp_checked p (Some ''preview'')) (\<lambda>x. Inr (Some x))) (\<lambda>preview.
     bindR (gp_saved b) (\<lambda>sb.
     bindR (case preview of None \<Rightarrow> Inr JNull | Some p \<Rightarrow> gp_saved p) (\<lambda>sp.
     bindR (gp_encoded (JObj [(u ''version'', JInt 1), (u ''begin'', sb), (u ''preview'', sp)])) (\<lambda>c.
     bindR (gp_context_parts c) (\<lambda>_. Inr c))))))"

definition gp_export_context :: "gp_context \<Rightarrow> json result" where
  "gp_export_context c = bindR (gp_context_parts c) (\<lambda>_. loads_bytes c)"

definition gp_restore_context :: "wire \<Rightarrow> gp_context result" where
  "gp_restore_context record' =
     bindR (gp_object record' GP_METADATA_BYTES) (\<lambda>(v, _).
     bindR (gp_encoded v) (\<lambda>c. bindR (gp_context_parts c) (\<lambda>_. Inr c)))"

text \<open>\<open>{k: v for k, v in data.items() if k not in mutable}\<close>.\<close>

definition immutable_part :: "json \<Rightarrow> json" where
  "immutable_part v = JObj (filter (\<lambda>(k, _). \<not> list_ex (\<lambda>s. k = u s) [''page_offset'', ''rows'', ''next_offset'']) (items_of v))"

definition gp_immutable_preview :: "json \<Rightarrow> json \<Rightarrow> unit result" where
  "gp_immutable_preview first data = gp_match (py_eq (immutable_part first) (immutable_part data))"

definition receipt_expectations :: "json \<Rightarrow> json \<Rightarrow> json \<Rightarrow> (string \<times> json) list" where
  "receipt_expectations begin accepted preview =
     [(''operation_id'', fld begin ''operation_id''), (''operation_runtime'', fld begin ''runtime''),
      (''transaction_id'', fld accepted ''transaction_id''), (''input_document_sha256'', fld begin ''document_sha256''),
      (''expected_revision'', fld begin ''expected_revision''),
      (''context_revision'', fld begin ''expected_context_revision''),
      (''required_kinds'', fld begin ''required_kinds''), (''plan_digest'', fld preview ''plan_digest''),
      (''result_document_sha256'', fld preview ''result_document_sha256''), (''counts'', fld preview ''counts'')]"

definition gp_bind_context :: "gp_context \<Rightarrow> json \<Rightarrow> json \<Rightarrow> json option \<Rightarrow> unit result" where
  "gp_bind_context c params data rec =
     bindR (gp_context_parts c) (\<lambda>(begin_result, preview_result).
     bindR (gr_request_of begin_result) (\<lambda>begin. bindR (gr_data_of begin_result) (\<lambda>accepted.
     bindR (case preview_result of None \<Rightarrow> Inr JNull | Some p \<Rightarrow> gr_data_of p) (\<lambda>preview.
     let op = fld params ''op''; ready = (preview_result \<noteq> None \<and> fld preview ''ready'' = JBool True)
     in seqR
       [gp_match (in_lits op [''append'', ''preview'', ''commit'', ''status'', ''abort'']),
        if \<not> is_lit op ''status'' then gp_bind_begin begin accepted params data
        else seqR
          [gp_agree params ''operation_id'' begin ''operation_id'',
           on data ''state'' (\<lambda>s. if is_lit s ''not_found'' then Inr ()
             else seqR [gp_agree data ''transaction_id'' accepted ''transaction_id'',
                        gp_agree data ''operation_runtime'' begin ''runtime'']),
           on params ''runtime'' (\<lambda>x. on begin ''runtime'' (\<lambda>y. on data ''state'' (\<lambda>s.
             if \<not> py_eq x y then gp_match (in_lits s [''committed'', ''unknown'', ''not_found'']) else Inr ())))],
        if is_lit op ''preview'' \<and> preview_result \<noteq> None then gp_immutable_preview preview data else Inr (),
        if is_lit op ''commit''
        then gp_match (ready \<and> py_eq (fld params ''plan_digest'') (fld preview ''plan_digest'')) else Inr (),
        case rec of None \<Rightarrow> Inr ()
        | Some r \<Rightarrow> seqR
            [gp_match ready,
             gp_match (list_all (\<lambda>(k, v). py_eq (fld r k) v) (receipt_expectations begin accepted preview))]]))))"

section \<open>Binding to a description and to the previous page\<close>

definition kind_set :: "json \<Rightarrow> pystr set" where
  "kind_set v = set (map str_of (list_of v))"

definition gp_bind_describe :: "gp_result \<Rightarrow> json \<Rightarrow> json \<Rightarrow> unit result" where
  "gp_bind_describe describe params data =
     bindR (gp_checked describe (Some ''describe'')) (\<lambda>described.
     bindR (gr_data_of described) (\<lambda>baseline. bindR (gr_request_of described) (\<lambda>req.
     bindR (gp_agree params ''runtime'' req ''runtime'') (\<lambda>_.
     on baseline ''limits'' (\<lambda>limits.
     bindR (request_envelopes GP_ACTION params None) (\<lambda>env.
     bindR (check gp_oversized (gp_envelope_bytes env \<le> int_of (fld limits ''max_envelope_bytes''))) (\<lambda>_.
     let op = fld params ''op'' in
       if is_lit op ''export'' then
         on baseline ''export'' (\<lambda>descriptor. seqR
           [gp_match (descriptor \<noteq> JNull \<and> int_of (fld params ''max_bytes'') \<le> int_of (fld limits ''max_export_bytes'')),
            gp_match (py_eq (fld data ''revision'') (fld baseline ''revision'')
              \<and> list_all (\<lambda>k. py_eq (fld data k) (fld descriptor k)) [''snapshot_id'', ''document_sha256'', ''size_bytes''])])
       else if is_lit op ''begin'' then
         gp_match (fld baseline ''write_ready'' = JBool True
           \<and> py_eq (fld params ''operation_id'') (fld (fld baseline ''admission'') ''operation_id'')
           \<and> py_eq (fld params ''expected_revision'') (fld baseline ''revision'')
           \<and> py_eq (fld params ''expected_context_revision'') (fld baseline ''context_revision'')
           \<and> kind_set (fld params ''required_kinds'') \<subseteq> kind_set (fld baseline ''locator_kinds'')
           \<and> int_of (fld params ''size_bytes'') \<le> int_of (fld limits ''max_document_bytes'')
           \<and> int_of (fld params ''chunk_count'') \<le> int_of (fld limits ''max_chunks'')
           \<and> int_of (fld params ''size_bytes'') \<le> int_of (fld params ''chunk_count'') * int_of (fld limits ''max_append_bytes'')
           \<and> int_of (fld params ''budget_ms'') \<le> int_of (fld limits ''absolute_ttl_seconds'') * 1000)
       else if is_lit op ''append'' then
         bindR (gp_chunk (fld params ''data_base64'') (fld params ''chunk_sha256'') (int_of (fld limits ''max_append_bytes'')))
           (\<lambda>_. Inr ())
       else if is_lit op ''preview'' then
         gp_match (int_of (fld params ''max_entries'') \<le> int_of (fld limits ''max_preview_rows'')
           \<and> int_of (fld (fld data ''counts'') ''after'') \<le> int_of (fld limits ''max_entries''))
       else Inr ())))))))"

definition gp_bind_previous :: "gp_result \<Rightarrow> json \<Rightarrow> json \<Rightarrow> unit result" where
  "gp_bind_previous previous params data =
     bindR (bindR (gp_match (gr_status previous = u ''ok'')) (\<lambda>_. bindR (bindR (gp_saved previous) gp_restore_saved) (\<lambda>c.
       bindR (gr_request_of c) (\<lambda>req. bindR (gp_agree req ''op'' params ''op'') (\<lambda>_. Inr c))))) (\<lambda>checked.
     bindR (gr_data_of checked) (\<lambda>old. bindR (gr_request_of checked) (\<lambda>req.
     bindR (gp_agree params ''runtime'' req ''runtime'') (\<lambda>_.
     let op = fld params ''op'' in
       if is_lit op ''preview'' then seqR
         [gp_immutable_preview old data,
          gp_match (fld old ''next_offset'' \<noteq> JNull \<and> py_eq (fld params ''page_offset'') (fld old ''next_offset''))]
       else if is_lit op ''export'' then
         gp_match (fld old ''eof'' = JBool False \<and> py_eq (fld params ''offset'') (fld old ''next_offset'')
           \<and> list_all (\<lambda>k. py_eq (fld data k) (fld old k)) [''snapshot_id'', ''revision'', ''document_sha256'', ''size_bytes''])
       else Inl gp_mismatch))))"

definition gp_validate_request :: "wire \<Rightarrow> gp_result option \<Rightarrow> json result" where
  "gp_validate_request w describe =
     bindR (gp_plain_request w) (\<lambda>v.
     case describe of None \<Rightarrow> Inr v
     | Some d \<Rightarrow>
         bindR (gp_match (is_lit (fld v ''op'') ''begin'')) (\<lambda>_.
         bindR (gp_bind_describe d v JNull) (\<lambda>_. Inr v)))"

definition gp_begin_negotiation :: "wire \<Rightarrow> gp_result option \<Rightarrow> json result" where
  "gp_begin_negotiation params describe =
     bindR (gp_match (describe \<noteq> None)) (\<lambda>_. gp_validate_request params describe)"

definition gp_binder ::
  "gp_context option \<Rightarrow> gp_result option \<Rightarrow> gp_result option \<Rightarrow> json \<Rightarrow> json \<Rightarrow> json option \<Rightarrow> unit result" where
  "gp_binder ctx describe previous params data rec = seqR
     [case describe of None \<Rightarrow> Inr () | Some d \<Rightarrow> gp_bind_describe d params data,
      case ctx of None \<Rightarrow> Inr () | Some c \<Rightarrow> gp_bind_context c params data rec,
      case previous of None \<Rightarrow> Inr () | Some p \<Rightarrow> gp_bind_previous p params data]"

definition gp_validate_result ::
  "wire \<Rightarrow> wire \<Rightarrow> json \<Rightarrow> json \<Rightarrow> json \<Rightarrow> gp_context option \<Rightarrow> int \<Rightarrow> gp_result option \<Rightarrow> gp_result option
   \<Rightarrow> gp_result result" where
  "gp_validate_result params data request_id response_id status ctx max_metadata describe previous =
     gp_core params data request_id response_id status max_metadata (ctx \<noteq> None) (gp_binder ctx describe previous)"

definition gp_validate_response ::
  "unicode_tables \<Rightarrow> wire \<Rightarrow> wire \<Rightarrow> json \<Rightarrow> gp_context option \<Rightarrow> int \<Rightarrow> gp_result option \<Rightarrow> gp_result option
   \<Rightarrow> gp_result result" where
  "gp_validate_response tables params response request_id ctx max_metadata describe previous =
     bindR (gp_object response GP_RESPONSE_BYTES) (\<lambda>(r, raw).
     bindR (gp_shape r [''id'', ''status'', ''data'']) (\<lambda>_.
     bindR (utf8_decode raw) (\<lambda>text.
     bindR (data_token tables (length text) (drop 1 (dropWhile (\<lambda>c. c \<noteq> 123) text))) (\<lambda>token.
     bindR (utf8_encode token) (\<lambda>data.
     on r ''id'' (\<lambda>i. on r ''status'' (\<lambda>status.
       gp_validate_result params (Raw data) request_id i status ctx max_metadata describe previous)))))))"

section \<open>Exports\<close>

text \<open>The loop's state: the chunks, the next offset, the previous page.\<close>

type_synonym export_state = "bytes list \<times> json \<times> gp_result option"

definition export_page :: "gp_result \<Rightarrow> export_state \<Rightarrow> gp_result \<Rightarrow> export_state result" where
  "export_page described st p = (case st of (parts, at_offset, previous) \<Rightarrow>
     bindR (gp_checked p (Some ''export'')) (\<lambda>page.
     bindR (gr_request_of page) (\<lambda>req.
     bindR (on req ''offset'' (\<lambda>x. check gp_incomplete (py_eq x at_offset))) (\<lambda>_.
     bindR (gp_validate_result (Parsed req) (Raw (gr_data page)) (gr_request_id page) (gr_request_id page) (lit ''ok'')
              None GP_METADATA_BYTES (Some described) previous) (\<lambda>checked.
     bindR (case gr_chunk checked of None \<Rightarrow> Inl TypeError | Some c \<Rightarrow> Inr c) (\<lambda>c.
     bindR (gr_data_of checked) (\<lambda>data.
     on data ''next_offset'' (\<lambda>n. Inr (parts @ [c], n, Some checked)))))))))"

definition assemble_export :: "gp_result \<Rightarrow> gp_result list \<Rightarrow> exported_document result" where
  "assemble_export describe pages =
     bindR (gp_checked describe (Some ''describe'')) (\<lambda>described.
     bindR (gr_data_of described) (\<lambda>data.
     on data ''export'' (\<lambda>descriptor.
     bindR (check gp_incomplete (descriptor \<noteq> JNull \<and> 1 \<le> plen pages
              \<and> plen pages \<le> int_of (fld descriptor ''size_bytes''))) (\<lambda>_.
     bindR (foldR (export_page described) ([], JInt 0, None) pages) (\<lambda>(parts, at_offset, previous).
     bindR (case previous of None \<Rightarrow> Inl AttributeError | Some p \<Rightarrow> gr_data_of p) (\<lambda>last_data.
     bindR (check gp_incomplete (py_eq at_offset (fld descriptor ''size_bytes'') \<and> fld last_data ''eof'' = JBool True)) (\<lambda>_.
     let raw = concat parts
     in bindR (check gp_incomplete (JStr (sha256_hex raw) = fld descriptor ''document_sha256'')) (\<lambda>_.
        bindR (rethrow is_GlobalDocumentError gp_incomplete
          (bindR (load_document raw) (\<lambda>d. bindR (g_canonical d) (\<lambda>b. Inr (d, b))))) (\<lambda>(document', canonical).
        bindR (check gp_incomplete (raw = canonical \<and> plen (g_entries document') = int_of (fld descriptor ''entries''))) (\<lambda>_.
        bindR (required_kinds document') (\<lambda>kinds.
        bindR (check gp_incomplete (set kinds \<subseteq> kind_set (fld data ''locator_kinds''))) (\<lambda>_.
          Inr \<lparr>raw_export = raw, export_revision = fld data ''revision'',
               export_sha256 = fld descriptor ''document_sha256''\<rparr>))))))))))))"

section \<open>Complete previews\<close>

text \<open>The loop's state: the offset, the previous page, the totals, the rows, the conflict indices.\<close>

type_synonym preview_state = "int \<times> gp_result option \<times> (pystr \<times> int) list \<times> json list \<times> int list"

definition collect_row :: "(pystr \<times> int) list \<times> json list \<times> int list \<Rightarrow> json \<Rightarrow> ((pystr \<times> int) list \<times> json list \<times> int list) result" where
  "collect_row st row = (case st of (totals, rows, indices) \<Rightarrow>
     let totals' = bump (str_of (fld row ''state'')) totals; rows' = rows @ [row]
     in if has row ''metadata_conflict'' then
          let i = int_of (fld (fld row ''metadata_conflict'') ''incoming_entry_index'')
          in bindR (gp_match (i \<notin> set indices)) (\<lambda>_. Inr (totals', rows', i # indices))
        else Inr (totals', rows', indices))"

definition preview_page :: "gp_context \<Rightarrow> preview_state \<Rightarrow> gp_result \<Rightarrow> preview_state result" where
  "preview_page c st p = (case st of (at_offset, previous, totals, rows, indices) \<Rightarrow>
     bindR (gp_checked p (Some ''preview'')) (\<lambda>page.
     bindR (gr_request_of page) (\<lambda>req.
     bindR (on req ''page_offset'' (\<lambda>x. gp_match (py_eq x (JInt at_offset)))) (\<lambda>_.
     bindR (gp_validate_result (Parsed req) (Raw (gr_data page)) (gr_request_id page) (gr_request_id page) (lit ''ok'')
              (Some c) GP_METADATA_BYTES None previous) (\<lambda>checked.
     bindR (gr_data_of checked) (\<lambda>data.
     on data ''rows'' (\<lambda>rs.
     bindR (foldR collect_row (totals, rows, indices) (list_of rs)) (\<lambda>(totals', rows', indices').
       Inr (at_offset + plen (list_of rs), Some checked, totals', rows', indices')))))))))"

definition validate_preview_pages :: "gp_context \<Rightarrow> gp_result list \<Rightarrow> json list result" where
  "validate_preview_pages c pages =
     bindR (gp_context_parts c) (\<lambda>(_, first).
     bindR (case first of None \<Rightarrow> Inl gp_mismatch | Some f \<Rightarrow> gr_data_of f) (\<lambda>data.
     let all = int_of (fld (fld data ''counts'') ''after'')
     in bindR (gp_match (1 \<le> plen pages \<and> plen pages \<le> max 1 all)) (\<lambda>_.
        bindR (foldR (preview_page c) (0, None, no_counts, [], []) pages) (\<lambda>(at_offset, previous, totals, rows, indices).
        bindR (case previous of None \<Rightarrow> Inl AttributeError | Some p \<Rightarrow> gr_data_of p) (\<lambda>last_data.
        bindR (gp_match (at_offset = all \<and> fld last_data ''next_offset'' = JNull
                 \<and> py_eq (JObj (map (\<lambda>(k, n). (k, JInt n)) totals)) (fld data ''resolution_counts''))) (\<lambda>_.
        bindR (gp_match ((indices \<noteq> []) = is_lit (fld data ''blocker'') ''metadata_conflict'')) (\<lambda>_.
          Inr rows)))))))"

text \<open>\<open>xs[i]\<close>: negative indices count from the end, \<open>True\<close> is 1, anything else raises TypeError.\<close>

definition py_index :: "json list \<Rightarrow> json \<Rightarrow> json result" where
  "py_index xs v =
     (let n = plen xs;
          at = (\<lambda>i. let j = if i < 0 then i + n else i
                    in if 0 \<le> j \<and> j < n then Inr (xs ! nat j) else Inl IndexError)
      in case v of JInt i \<Rightarrow> at i | JBool b \<Rightarrow> at (of_bool b) | _ \<Rightarrow> Inl TypeError)"

definition conflict_row :: "json list \<Rightarrow> json list \<Rightarrow> json \<Rightarrow> unit result" where
  "conflict_row source res row =
     (if \<not> has row ''metadata_conflict'' then Inr ()
      else
        bindR (on row ''entry_index'' (py_index res)) (\<lambda>old.
        bindR (on row ''metadata_conflict'' (\<lambda>d. on d ''incoming_entry_index'' (py_index source))) (\<lambda>new.
        bindR (g_identity old) (\<lambda>a. bindR (g_identity new) (\<lambda>b.
          gp_match (a = b \<and> \<not> same_title old new))))))"

definition validate_metadata_conflicts :: "json list \<Rightarrow> json \<Rightarrow> json \<Rightarrow> unit result" where
  "validate_metadata_conflicts rows incoming result_document =
     rethrow (\<lambda>e. is_GlobalDocumentError e \<or> e = IndexError \<or> e = KeyError \<or> e = TypeError) gp_mismatch
       (bindR (g_validate incoming) (\<lambda>s. bindR (g_validate result_document) (\<lambda>r.
         forR (conflict_row (g_entries s) (g_entries r)) rows)))"

end
