(* ===== verification/GlobalProtocolLaws.thy ===== *)
theory GlobalProtocolLaws
  imports GlobalProtocolResult GlobalDocumentLaws
begin

text \<open>
  What the validators of \<open>global_favorites_protocol.py\<close> establish, and that everything they accept is
  made of strings, integers and flags only, so the retained bytes parse back to the validated values.
\<close>

section \<open>Primitive checks\<close>

lemma gp_require_ok [ok_iff]: "gp_require c = Inr x \<longleftrightarrow> c"
  by (simp add: gp_require_def ok_iff)

lemma gp_match_ok [ok_iff]: "gp_match c = Inr x \<longleftrightarrow> c"
  by (simp add: gp_match_def ok_iff)

lemma gp_shape_ok [ok_iff]: "gp_shape v ks = Inr x \<longleftrightarrow> is_dict v \<and> same_keys v ks"
  by (simp add: gp_shape_def ok_iff)

lemma gp_integer_ok [ok_iff]: "gp_integer v lo hi = Inr x \<longleftrightarrow> (\<exists>i. v = JInt i \<and> lo \<le> i \<and> i \<le> hi)"
  by (simp add: gp_integer_def ok_iff)

lemma gp_pattern_ok [ok_iff]: "gp_pattern v P = Inr x \<longleftrightarrow> (\<exists>s. v = JStr s \<and> P s)"
  by (simp add: gp_pattern_def ok_iff)

lemma gp_equal_ok [ok_iff]:
  "gp_equal data params k l = Inr x \<longleftrightarrow> has data k \<and> has params l \<and> py_eq (fld data k) (fld params l)"
  by (auto simp: gp_equal_def ok_iff)

lemma gp_same_ok [ok_iff]:
  "gp_same data params k = Inr x \<longleftrightarrow> has data k \<and> has params k \<and> py_eq (fld data k) (fld params k)
     \<and> same_type (fld data k) (fld params k)"
  by (auto simp: gp_same_def ok_iff)

lemma gp_agree_ok [ok_iff]: "gp_agree v k w l = Inr x \<longleftrightarrow> has v k \<and> has w l \<and> py_eq (fld v k) (fld w l)"
  by (auto simp: gp_agree_def ok_iff)

lemma gp_kinds_ok:
  "gp_kinds v = Inr x \<longleftrightarrow> (\<exists>ks. v = JArr (map JStr ks) \<and> sorted_set ks = ks \<and> set ks \<subseteq> u ` set KINDS \<and> length ks \<le> 5)"
proof
  assume "gp_kinds v = Inr x"
  then obtain vs where v: "v = JArr vs" "\<forall>k \<in> set vs. is_str k \<and> in_lits k KINDS"
      "sorted_set (map str_of vs) = map str_of vs" "plen vs \<le> 5"
    by (auto simp: gp_kinds_def ok_iff is_list_iff list_all_iff KINDS_def)
  then have "vs = map JStr (map str_of vs)" by (auto simp: is_str_iff intro!: map_idI [symmetric])
  moreover have "set (map str_of vs) \<subseteq> u ` set KINDS" using v(2) by (auto simp: in_lits_def is_lit_def list_ex_iff)
  ultimately show "\<exists>ks. v = JArr (map JStr ks) \<and> sorted_set ks = ks \<and> set ks \<subseteq> u ` set KINDS \<and> length ks \<le> 5"
    using v by (intro exI [of _ "map str_of vs"]) (auto simp: plen_def)
next
  assume "\<exists>ks. v = JArr (map JStr ks) \<and> sorted_set ks = ks \<and> set ks \<subseteq> u ` set KINDS \<and> length ks \<le> 5"
  then show "gp_kinds v = Inr x"
    by (auto simp: gp_kinds_def ok_iff list_all_iff in_lits_def is_lit_def list_ex_iff o_def plen_def KINDS_def)
qed

lemma gp_time_ok: "gp_time v = Inr t \<Longrightarrow> \<exists>s. v = JStr s"
  by (auto simp: gp_time_def ok_iff)

lemma gp_chunk_ok [ok_iff]:
  "gp_chunk e d m = Inr c \<longleftrightarrow> d = JStr (sha256_hex c) \<and> e = JStr (b64encode c) \<and> 0 < plen c \<and> plen c \<le> m"
proof
  assume "gp_chunk e d m = Inr c"
  then show "d = JStr (sha256_hex c) \<and> e = JStr (b64encode c) \<and> 0 < plen c \<and> plen c \<le> m"
    by (auto simp: gp_chunk_def ok_iff is_str_iff)
next
  assume r: "d = JStr (sha256_hex c) \<and> e = JStr (b64encode c) \<and> 0 < plen c \<and> plen c \<le> m"
  then have "(plen c + 2) div 3 \<le> (m + 2) div 3" "1 \<le> (plen c + 2) div 3"
    by (auto intro: zdiv_mono1) (cases c; simp add: plen_def)
  with r show "gp_chunk e d m = Inr c"
    by (auto simp: gp_chunk_def ok_iff b64encode_length)
qed

lemma gp_object_ok:
  assumes "gp_object w lim = Inr (v, raw)"
  shows "is_dict v" "real_value v" "loads_bytes raw = Inr v" "0 < plen raw" "plen raw \<le> lim" "\<exists>b. gp_encoded v = Inr b"
proof -
  have "is_dict v \<and> loads_bytes raw = Inr v \<and> 0 < plen raw \<and> plen raw \<le> lim \<and> (\<exists>b. gp_encoded v = Inr b)"
    using assms by (auto simp: gp_object_def ok_iff loads_bytes_def)
  then show "is_dict v" "real_value v" "loads_bytes raw = Inr v" "0 < plen raw" "plen raw \<le> lim" "\<exists>b. gp_encoded v = Inr b"
    by (auto intro: loads_bytes_real_value)
qed

lemma gp_encoded_loads: "plain v \<Longrightarrow> gp_encoded v = Inr b \<Longrightarrow> loads_bytes b = Inr v"
  by (auto simp: gp_encoded_def ok_iff loads_bytes_def dest!: utf8_roundtrip intro: loads_compact)

section \<open>Requests are float-free\<close>

lemma float_free_kinds: "gp_kinds v = Inr x \<Longrightarrow> float_free v"
  by (auto simp: gp_kinds_ok)

lemma opt_has: "opt v k f = Inr () \<Longrightarrow> has v k \<Longrightarrow> f (fld v k) = Inr ()"
  by (simp add: opt_def ok_iff)

lemma float_free_lits: "in_lits v ss \<Longrightarrow> float_free v"
  by (auto simp: in_lits_def is_lit_def list_ex_iff)

lemma float_free_str: "is_str v \<Longrightarrow> float_free v"
  by (auto simp: is_str_iff)

lemma gp_check_request_parts:
  "gp_check_request v = Inr () \<longleftrightarrow>
     onget v ''op'' (\<lambda>op. gp_require (is_str op \<and> in_lits op GP_OPS)) = Inr () \<and>
     on v ''op'' (\<lambda>op. gp_shape v ([''op'', ''runtime''] @ gp_request_fields op)) = Inr () \<and>
     on v ''runtime'' (\<lambda>x. gp_pattern x runtime_pat) = Inr () \<and>
     forR (\<lambda>k. opt v k (\<lambda>x. gp_pattern x uuid4_pat)) [''snapshot_id'', ''operation_id'', ''transaction_id''] = Inr () \<and>
     forR (\<lambda>k. opt v k (\<lambda>x. gp_pattern x digest_pat))
        [''expected_revision'', ''expected_context_revision'', ''document_sha256'', ''plan_digest''] = Inr () \<and>
     on v ''op'' (\<lambda>op. gp_request_details op v) = Inr ()"
  by (simp only: gp_check_request_def seqR_Cons_ok seqR_Nil_ok simp_thms)

definition text_fields :: "string list" where
  "text_fields = [''snapshot_id'', ''operation_id'', ''transaction_id'', ''expected_revision'',
     ''expected_context_revision'', ''document_sha256'', ''plan_digest'']"

lemma request_field_float_free:
  assumes "gp_request_details op v = Inr ()" "k \<in> set (gp_request_fields op)" "k \<notin> set text_fields"
  shows "float_free (fld v k)"
proof -
  note defs = gp_request_details_def gp_request_fields_def text_fields_def
  note parts = seqR_Cons_ok seqR_Nil_ok on_ok gp_integer_ok gp_require_ok bindR_ok gp_chunk_ok simp_thms
  consider "op = JStr (u ''begin'')" | "op = JStr (u ''append'')" | "op = JStr (u ''export'')" | "op = JStr (u ''preview'')"
    | "\<not> is_lit op ''begin''" "\<not> is_lit op ''append''" "\<not> is_lit op ''export''" "\<not> is_lit op ''preview''"
    unfolding is_lit_def by blast
  then show ?thesis
  proof cases
    case 5
    then have "set (gp_request_fields op) \<subseteq> set text_fields"
      by (auto simp: gp_request_fields_def text_fields_def)
    then show ?thesis using assms by blast
  qed (use assms in \<open>simp add: defs del: in_lits_simps; simp only: parts; elim conjE exE disjE;
      simp only: float_free_lits float_free_kinds float_free.simps\<close>)+
qed

lemma request_op:
  assumes "gp_check_request v = Inr ()"
  obtains s where "fld v ''op'' = JStr (u s)" "s \<in> set GP_OPS" "same_keys v ([''op'', ''runtime''] @ gp_request_fields (JStr (u s)))"
    "gp_request_details (JStr (u s)) v = Inr ()" "\<exists>r. fld v ''runtime'' = JStr r"
proof -
  note parts = assms [unfolded gp_check_request_parts]
  have "in_lits (fld v ''op'') GP_OPS" using parts unfolding onget_ok gp_require_ok by blast
  then obtain s where s: "fld v ''op'' = JStr (u s)" "s \<in> set GP_OPS"
    by (auto simp: in_lits_def is_lit_def list_ex_iff)
  have "same_keys v ([''op'', ''runtime''] @ gp_request_fields (fld v ''op''))" "\<exists>r. fld v ''runtime'' = JStr r"
    "gp_request_details (fld v ''op'') v = Inr ()"
    using parts unfolding on_ok gp_shape_ok gp_pattern_ok by blast+
  then show ?thesis using s that by simp
qed

lemma request_text:
  assumes "gp_check_request v = Inr ()" "k \<in> set text_fields" "k \<in> set (gp_request_fields (fld v ''op''))"
  shows "\<exists>s. fld v k = JStr s"
proof -
  note parts = assms(1) [unfolded gp_check_request_parts]
  have "has v k" using request_op [OF assms(1)] assms(3) same_keys_has by (metis Un_iff set_append)
  moreover have ids: "\<forall>k \<in> set [''snapshot_id'', ''operation_id'', ''transaction_id'']. opt v k (\<lambda>x. gp_pattern x uuid4_pat) = Inr ()"
    "\<forall>k \<in> set [''expected_revision'', ''expected_context_revision'', ''document_sha256'', ''plan_digest''].
        opt v k (\<lambda>x. gp_pattern x digest_pat) = Inr ()"
    using parts unfolding forR_ok by blast+
  have "k \<in> set [''snapshot_id'', ''operation_id'', ''transaction_id'']
      \<or> k \<in> set [''expected_revision'', ''expected_context_revision'', ''document_sha256'', ''plan_digest'']"
    using assms(2) by (simp add: text_fields_def)
  then obtain P where "opt v k (\<lambda>x. gp_pattern x P) = Inr ()" using ids by blast
  from opt_has [OF this \<open>has v k\<close>] show ?thesis unfolding gp_pattern_ok by blast
qed

lemma gp_request_plain:
  assumes "gp_check_request v = Inr ()" "is_dict v" "real_value v"
  shows "plain v"
proof (rule request_op [OF assms(1)])
  fix s
  assume s: "fld v ''op'' = JStr (u s)" "same_keys v ([''op'', ''runtime''] @ gp_request_fields (JStr (u s)))"
    "gp_request_details (JStr (u s)) v = Inr ()" "\<exists>r. fld v ''runtime'' = JStr r"
  have "float_free (fld v k)" if "k \<in> set (gp_request_fields (JStr (u s)))" for k
    using request_text [OF assms(1), of k] request_field_float_free [OF s(3) that] that s(1) by fastforce
  then have "\<forall>k \<in> set ([''op'', ''runtime''] @ gp_request_fields (JStr (u s))). float_free (fld v k)"
    using s(1,4) by auto
  from float_free_shape [OF assms(2) s(2) assms(3) this] show ?thesis
    using assms(3) by (rule real_float_free_plain [rotated])
qed

lemma gp_plain_request_ok:
  assumes "gp_plain_request w = Inr v"
  shows "is_dict v" "plain v" "real_value v" "gp_check_request v = Inr ()" "\<exists>b. gp_encoded v = Inr b \<and> loads_bytes b = Inr v"
proof -
  from assms obtain raw where o': "gp_object w GP_ENVELOPE_BYTES = Inr (v, raw)" and c: "gp_check_request v = Inr ()"
    by (auto simp: gp_plain_request_def ok_iff)
  note facts = gp_object_ok [OF o']
  show "is_dict v" "real_value v" "gp_check_request v = Inr ()" by (rule facts c)+
  show "plain v" by (rule gp_request_plain [OF c facts(1,2)])
  with facts(6) gp_encoded_loads show "\<exists>b. gp_encoded v = Inr b \<and> loads_bytes b = Inr v" by blast
qed

section \<open>Accepted answers are float-free\<close>

lemmas check_parts = seqR_Cons_ok seqR_Nil_ok on_ok onget_ok gp_integer_ok gp_pattern_ok gp_require_ok gp_shape_ok gp_equal_ok
  gp_same_ok bindR_ok gp_chunk_ok forR_ok rethrow_ok simp_thms

definition common_free :: "json \<Rightarrow> bool" where
  "common_free d \<longleftrightarrow> real_value d \<and> (\<forall>k \<in> set GP_COMMON. float_free (fld d k))"

lemma float_free_fields:
  assumes "common_free d" "is_dict d" "same_keys d (GP_COMMON @ ks)" "\<forall>k \<in> set ks. float_free (fld d k)"
  shows "float_free d"
  using assms by (intro float_free_shape [OF assms(2,3)]) (auto simp: common_free_def)

lemma float_free_items: "is_dict v \<Longrightarrow> \<forall>p \<in> set (items_of v). \<exists>i. snd p = JInt i \<Longrightarrow> float_free v"
  by (cases v) fastforce+

lemma float_free_counts: "gp_counts v = Inr x \<Longrightarrow> float_free v"
  unfolding gp_counts_def Let_def check_parts by (elim conjE exE) (rule float_free_items; fastforce)

lemma float_free_time: "gp_time v = Inr t \<Longrightarrow> float_free v"
  by (auto dest: gp_time_ok)

lemma float_free_limits:
  assumes "gp_limits v = Inr ()" "real_value v"
  shows "float_free v"
proof -
  from assms(1) have "is_dict v" "same_keys v (map fst LIMITS)"
    and ints: "\<forall>x \<in> set LIMITS. (case x of (k, maximum) \<Rightarrow> on v k (\<lambda>x. gp_integer x 1 maximum)) = Inr ()"
    unfolding gp_limits_def check_parts by blast+
  moreover have "\<forall>k \<in> set (map fst LIMITS). float_free (fld v k)"
  proof
    fix k assume "k \<in> set (map fst LIMITS)"
    then obtain m where "(k, m) \<in> set LIMITS" by auto
    with ints have "on v k (\<lambda>x. gp_integer x 1 m) = Inr ()" by fastforce
    then show "float_free (fld v k)" by (auto simp: on_ok gp_integer_ok)
  qed
  ultimately show ?thesis using assms(2) float_free_shape by blast
qed

lemma float_free_flag: "flag_agrees a b ks \<Longrightarrow> float_free a \<and> float_free b"
  by (auto simp: flag_agrees_def is_str_iff is_bool_iff)

lemma float_free_eq_str: "py_eq v w \<Longrightarrow> is_str w \<Longrightarrow> float_free v"
  by (auto simp: is_str_iff py_eq_JStr)

lemma float_free_same:
  "py_eq v w \<Longrightarrow> same_type v w \<Longrightarrow> (\<exists>s. w = JStr s) \<or> (\<exists>i. w = JInt i) \<or> (\<exists>ks. w = JArr (map JStr ks)) \<Longrightarrow> float_free v"
proof (elim disjE exE)
  fix ks assume w: "py_eq v w" "w = JArr (map JStr ks)"
  have "py_eq (JArr vs) (JArr (map JStr ks)) \<Longrightarrow> \<forall>x \<in> set vs. float_free x" for vs ks
  proof (induction vs arbitrary: ks)
    case (Cons x vs)
    then show ?case by (cases ks) (auto simp: py_eq_JStr)
  qed simp
  with w show "float_free v" by (cases v) (auto simp: is_list_iff split: json.splits)
qed (cases v; auto)+

lemma gp_receipt_free:
  assumes "gp_receipt v = Inr ()" "real_value v"
  shows "float_free v"
proof -
  from assms(1) have v: "is_dict v" "same_keys v RECEIPT_FIELDS" and fields:
    "\<exists>i. fld v ''version'' = JInt i" "is_lit (fld v ''subject'') ''global''" "is_lit (fld v ''outcome'') ''verified''"
    "is_lit (fld v ''persistence'') ''persistent''" "\<exists>s. fld v ''operation_runtime'' = JStr s"
    "\<forall>k \<in> set [''operation_id'', ''transaction_id'']. \<exists>s. fld v k = JStr s"
    "\<forall>k \<in> set [''input_document_sha256'', ''result_document_sha256'', ''expected_revision'', ''new_revision'',
        ''context_revision'', ''plan_digest'']. \<exists>s. fld v k = JStr s"
    "gp_counts (fld v ''counts'') = Inr ()" "gp_kinds (fld v ''required_kinds'') = Inr ()" "is_bool (fld v ''changed'')"
    unfolding gp_receipt_def check_parts by blast+
  then show ?thesis
    by (intro float_free_shape [OF v assms(2)])
      (auto simp: RECEIPT_FIELDS_def is_lit_def float_free_counts float_free_kinds is_bool_iff)
qed

text \<open>The operations one by one.\<close>

lemma float_free_null_or: "v = JNull \<or> float_free v \<Longrightarrow> float_free v"
  by auto

lemma gp_describe_free:
  assumes "gp_describe d = Inr ()" "common_free d"
  shows "float_free d"
proof -
  have real: "real_value (fld d k)" for k using assms(2) real_value_fld by (auto simp: common_free_def)
  note all = assms(1) [unfolded gp_describe_def check_parts]
  have d: "is_dict d" "same_keys d (GP_COMMON @ [''revision'', ''context_revision'', ''write_ready'', ''write_blocker'',
      ''admission'', ''export'', ''export_error'', ''limits'', ''locator_kinds''])" using all by blast+
  have "float_free (fld d ''admission'')"
  proof (cases "fld d ''write_ready'' = JBool True")
    case True
    with all have "is_dict (fld d ''admission'')" "same_keys (fld d ''admission'') [''operation_id'', ''ttl_ms'']"
      "\<exists>s. fld (fld d ''admission'') ''operation_id'' = JStr s" "\<exists>i. fld (fld d ''admission'') ''ttl_ms'' = JInt i"
      by (auto simp: check_parts)
    then show ?thesis by (intro float_free_shape [OF _ _ real]) auto
  next
    case False
    with all show ?thesis by (auto simp: check_parts)
  qed
  moreover have "float_free (fld d ''export'') \<and> float_free (fld d ''export_error'')"
  proof (cases "fld d ''export'' = JNull")
    case True
    with all show ?thesis by (auto simp: check_parts simp del: in_lits_simps dest: float_free_lits)
  next
    case False
    with all have e: "fld d ''export_error'' = JNull" "is_dict (fld d ''export'')"
      "same_keys (fld d ''export'') [''snapshot_id'', ''document_sha256'', ''size_bytes'', ''entries'', ''expires_at'']"
      "\<exists>s. fld (fld d ''export'') ''snapshot_id'' = JStr s" "\<exists>s. fld (fld d ''export'') ''document_sha256'' = JStr s"
      "\<exists>i. fld (fld d ''export'') ''size_bytes'' = JInt i" "\<exists>i. fld (fld d ''export'') ''entries'' = JInt i"
      "\<exists>t. gp_time (fld (fld d ''export'') ''expires_at'') = Inr t"
      by (auto simp: check_parts)
    then show ?thesis by (auto intro!: float_free_shape [OF _ _ real] dest: float_free_time)
  qed
  moreover have "float_free (fld d ''limits'')" "float_free (fld d ''locator_kinds'')"
    using all float_free_limits [OF _ real] float_free_kinds by blast+
  moreover have "float_free (fld d ''write_ready'')" "float_free (fld d ''write_blocker'')"
    using all float_free_flag by blast+
  moreover have "float_free (fld d ''revision'')" "float_free (fld d ''context_revision'')"
    using all by auto
  ultimately show ?thesis by (intro float_free_fields [OF assms(2) d]) auto
qed

lemma gp_export_free:
  assumes "gp_export_data ps d = Inr e" "common_free d" "is_str (fld ps ''snapshot_id'')"
  shows "float_free d"
proof -
  note all = assms(1) [unfolded gp_export_data_def check_parts]
  have d: "is_dict d" "same_keys d (GP_COMMON @ [''snapshot_id'', ''revision'', ''document_sha256'', ''size_bytes'', ''offset'',
          ''chunk_sha256'', ''data_base64'', ''next_offset'', ''eof''])" using all by blast+
  have "float_free (fld d ''snapshot_id'')" using all float_free_eq_str assms(3) by blast
  moreover have "float_free (fld d ''chunk_sha256'')" "float_free (fld d ''data_base64'')" "float_free (fld d ''eof'')"
    "float_free (fld d ''revision'')" "float_free (fld d ''document_sha256'')" "float_free (fld d ''size_bytes'')"
    "float_free (fld d ''offset'')" "float_free (fld d ''next_offset'')"
    using all by (auto simp: is_bool_iff)
  ultimately show ?thesis by (intro float_free_fields [OF assms(2) d]) auto
qed

lemma gp_begin_free:
  assumes "gp_begin_data ps d = Inr ()" "common_free d" "is_str (fld ps ''expected_context_revision'')"
    and "\<forall>k \<in> set [''operation_id'', ''expected_revision'', ''document_sha256'', ''size_bytes'', ''chunk_count'', ''required_kinds''].
      (\<exists>s. fld ps k = JStr s) \<or> (\<exists>i. fld ps k = JInt i) \<or> (\<exists>ks. fld ps k = JArr (map JStr ks))"
  shows "float_free d"
proof -
  note all = assms(1) [unfolded gp_begin_data_def check_parts]
  have d: "is_dict d" "same_keys d (GP_COMMON @ [''operation_id'', ''transaction_id'', ''expected_revision'', ''context_revision'',
        ''document_sha256'', ''size_bytes'', ''chunk_count'', ''next_seq'', ''received_bytes'', ''idle_expires_at'',
        ''absolute_expires_at'', ''required_kinds''])" using all by blast+
  have "\<forall>k \<in> set [''operation_id'', ''expected_revision'', ''document_sha256'', ''size_bytes'', ''chunk_count'', ''required_kinds''].
      float_free (fld d k)"
    using all assms(4) float_free_same by blast
  moreover have "float_free (fld d ''context_revision'')" using all float_free_eq_str assms(3) by blast
  moreover have "float_free (fld d ''transaction_id'')" "float_free (fld d ''next_seq'')" "float_free (fld d ''received_bytes'')"
    using all by auto
  moreover have "float_free (fld d ''idle_expires_at'')" "float_free (fld d ''absolute_expires_at'')"
    using all float_free_time by blast+
  ultimately show ?thesis by (intro float_free_fields [OF assms(2) d]) auto
qed

lemma gp_append_free:
  assumes "gp_append_data ps d = Inr e" "common_free d"
    and "\<forall>k \<in> set [''transaction_id'', ''seq'', ''offset'', ''chunk_sha256'']. (\<exists>s. fld ps k = JStr s) \<or> (\<exists>i. fld ps k = JInt i)"
  shows "float_free d"
proof -
  note all = assms(1) [unfolded gp_append_data_def check_parts]
  have d: "is_dict d" "same_keys d (GP_COMMON @ [''operation_id'', ''transaction_id'', ''seq'', ''offset'', ''chunk_sha256'', ''next_seq'',
          ''received_bytes'', ''duplicate''])" using all by blast+
  have "\<forall>k \<in> set [''transaction_id'', ''seq'', ''offset'', ''chunk_sha256'']. float_free (fld d k)"
    using all assms(3) float_free_same by blast
  moreover have "float_free (fld d ''operation_id'')" "float_free (fld d ''next_seq'')" "float_free (fld d ''received_bytes'')"
    "float_free (fld d ''duplicate'')"
    using all by (auto simp: is_bool_iff)
  ultimately show ?thesis by (intro float_free_fields [OF assms(2) d]) auto
qed

lemma gp_commit_free:
  assumes "gp_commit_data ps d = Inr e" "common_free d" "is_str (fld ps ''operation_id'')" "is_str (fld ps ''transaction_id'')"
  shows "float_free d"
proof -
  have real: "real_value (fld d k)" for k using assms(2) real_value_fld by (auto simp: common_free_def)
  note all = assms(1) [unfolded gp_commit_data_def check_parts]
  have d: "is_dict d" "same_keys d (GP_COMMON @ [''operation_id'', ''transaction_id'', ''receipt''])" using all by blast+
  have "float_free (fld d ''receipt'')" "float_free (fld d ''operation_id'')" "float_free (fld d ''transaction_id'')"
    using all gp_receipt_free [OF _ real] float_free_eq_str assms(3,4) by blast+
  then show ?thesis by (intro float_free_fields [OF assms(2) d]) auto
qed

lemma preview_row_free:
  assumes "preview_row data st x = Inr st'" "real_value (snd x)"
  shows "float_free (snd x)"
proof -
  obtain cs ci index row where x: "x = (index, row)" "st = (cs, ci)" by (cases x, cases st) auto
  have whole: "real_value row" using assms(2) x by simp
  then have row: "real_value (fld row k)" for k using real_value_fld by auto
  show ?thesis
  proof (cases "has row ''metadata_conflict''")
    case True
    with assms(1) have r: "is_dict row" "same_keys row [''entry_index'', ''state'', ''metadata_conflict'']"
      "\<exists>i. fld row ''entry_index'' = JInt i" "is_str (fld row ''state'')"
      "is_dict (fld row ''metadata_conflict'')" "same_keys (fld row ''metadata_conflict'') [''reason'', ''incoming_entry_index'']"
      "is_lit (fld (fld row ''metadata_conflict'') ''reason'') ''title_mismatch''"
      "\<exists>i. fld (fld row ''metadata_conflict'') ''incoming_entry_index'' = JInt i"
      by (auto simp: preview_row_def x check_parts Let_def)
    then have "float_free (fld row ''metadata_conflict'')"
      by (intro float_free_shape [OF _ _ row]) (auto simp: is_lit_def)
    with r have "float_free row" by (intro float_free_shape [OF r(1,2) whole]) (auto simp: float_free_str)
    with x show ?thesis by simp
  next
    case False
    with assms(1) have r: "is_dict row" "same_keys row [''entry_index'', ''state'']"
      "\<exists>i. fld row ''entry_index'' = JInt i" "is_str (fld row ''state'')"
      by (auto simp: preview_row_def x check_parts Let_def)
    then have "float_free row" by (intro float_free_shape [OF r(1,2) whole]) (auto simp: float_free_str)
    with x show ?thesis by simp
  qed
qed

lemma gp_preview_page_free:
  assumes "gp_preview_page params data = Inr ()" "real_value (fld data ''rows'')"
  shows "float_free (fld data ''rows'')" "float_free (fld data ''page_offset'')" "float_free (fld data ''next_offset'')"
proof -
  let ?rows = "list_of (fld data ''rows'')"
  note all = assms(1) [unfolded gp_preview_page_def Let_def bindR_ok gp_integer_ok gp_require_ok on_ok]
  then show "float_free (fld data ''page_offset'')" by auto
  from all have l: "is_list (fld data ''rows'')" by blast
  from all obtain st' where f: "foldR (preview_row data) (no_counts, [])
      (enumerate (nat (int_of (fld data ''page_offset''))) ?rows) = Inr st'" by blast
  have "float_free row" if "row \<in> set ?rows" for row
  proof -
    from that obtain i where "(i, row) \<in> set (enumerate (nat (int_of (fld data ''page_offset''))) ?rows)"
      by (metis in_set_conv_nth in_set_enumerate_eq nth_enumerate_eq length_enumerate nth_mem)
    from foldR_member [OF f this] obtain a b where "preview_row data a (i, row) = Inr b" by blast
    moreover have "real_value row" using l that assms(2) by (auto simp: is_list_iff)
    ultimately show ?thesis using preview_row_free by fastforce
  qed
  then show "float_free (fld data ''rows'')" using l by (auto simp: is_list_iff)
  from all obtain n where "fld data ''next_offset'' = JNull \<or> fld data ''next_offset'' = JInt n"
    by (simp add: on_ok gp_require_ok gp_integer_ok bindR_ok split: if_splits prod.splits) metis+
  then show "float_free (fld data ''next_offset'')" by auto
qed

lemma gp_preview_free:
  assumes "gp_preview ps d = Inr ()" "common_free d" "is_str (fld ps ''transaction_id'')"
  shows "float_free d"
proof -
  have real: "real_value (fld d k)" for k using assms(2) real_value_fld by (auto simp: common_free_def)
  note all = assms(1) [unfolded gp_preview_def check_parts]
  have d: "is_dict d" "same_keys d (GP_COMMON @ PREVIEW_FIELDS)" using all by blast+
  have page: "gp_preview_page ps d = Inr ()" using all by blast
  have "float_free (fld d ''transaction_id'')" using all float_free_eq_str assms(3) by blast
  moreover have "\<forall>k \<in> set [''expected_revision'', ''context_revision'', ''input_document_sha256'', ''result_document_sha256'',
      ''plan_digest'']. \<exists>s. fld d k = JStr s" using all by blast
  moreover have "float_free (fld d ''required_kinds'')" "float_free (fld d ''counts'')"
    using all float_free_kinds float_free_counts by blast+
  moreover have "float_free (fld d ''legacy_effects'')" "float_free (fld d ''resolution_counts'')"
    using all by (blast intro: float_free_items)+
  moreover have "float_free (fld d ''ready'')" "float_free (fld d ''blocker'')"
    using all float_free_flag by blast+
  moreover have "\<exists>s. fld d ''operation_id'' = JStr s" using all by blast
  ultimately show ?thesis
    using gp_preview_page_free [OF page real] by (intro float_free_fields [OF assms(2) d]) (auto simp: PREVIEW_FIELDS_def)
qed

lemma gp_plainly_ok: "gp_plainly m = Inr e \<longleftrightarrow> m = Inr () \<and> e = no_evidence"
  by (auto simp: gp_plainly_def bindR_ok)

lemma gp_status_free:
  assumes "gp_status_data ps d = Inr e" "common_free d" "is_str (fld ps ''operation_id'')"
  shows "float_free d"
proof -
  have real: "real_value (fld d k)" for k using assms(2) real_value_fld by (auto simp: common_free_def)
  note all = assms(1) [unfolded gp_status_data_def check_parts Let_def]
  have d: "is_dict d" "same_keys d (GP_COMMON @ [''operation_id'', ''operation_runtime'', ''transaction_id'', ''state'', ''outcome'',
      ''receipt''])" using all by blast+
  have "float_free (fld d ''operation_id'')" "float_free (fld d ''state'')"
    using all float_free_eq_str [OF _ assms(3)] float_free_str by blast+
  moreover have "float_free (fld d ''operation_runtime'') \<and> float_free (fld d ''transaction_id'') \<and> float_free (fld d ''outcome'')
      \<and> float_free (fld d ''receipt'')"
    using all gp_receipt_free [OF _ real]
    by (auto simp: check_parts gp_plainly_ok is_lit_def split: if_splits)
  ultimately show ?thesis by (intro float_free_fields [OF assms(2) d]) auto
qed

lemma gp_abort_free:
  assumes "gp_abort_data ps d = Inr ()" "common_free d" "is_str (fld ps ''operation_id'')" "is_str (fld ps ''transaction_id'')"
  shows "float_free d"
proof -
  note all = assms(1) [unfolded gp_abort_data_def check_parts]
  have d: "is_dict d" "same_keys d (GP_COMMON @ [''operation_id'', ''transaction_id'', ''state'', ''outcome''])" using all by blast+
  have "float_free (fld d ''operation_id'')" "float_free (fld d ''transaction_id'')"
    using all float_free_eq_str assms(3,4) by blast+
  moreover have "float_free (fld d ''state'')" "float_free (fld d ''outcome'')" using all by (auto simp: is_lit_def)
  ultimately show ?thesis by (intro float_free_fields [OF assms(2) d]) auto
qed

lemma gp_error_free: "gp_error_data d st = Inr () \<Longrightarrow> common_free d \<Longrightarrow> float_free d"
  unfolding gp_error_data_def check_parts by (elim conjE, rule float_free_fields) (auto simp: float_free_str)

lemma gp_data_plain:
  assumes "gp_data ps d st = Inr e" "gp_check_request ps = Inr ()" "is_dict d" "real_value d"
  shows "plain d"
proof (rule request_op [OF assms(2)])
  fix s
  assume s: "fld ps ''op'' = JStr (u s)" "s \<in> set GP_OPS" "gp_request_details (JStr (u s)) ps = Inr ()"
    "\<exists>r. fld ps ''runtime'' = JStr r"
  note all = assms(1) [unfolded gp_data_def bindR_ok onget_ok on_ok gp_integer_ok gp_require_ok]
  have "\<exists>i. fld d ''version'' = JInt i" "py_eq (fld d ''runtime'') (fld ps ''runtime'')" "py_eq (fld d ''op'') (fld ps ''op'')"
    "is_lit (fld d ''subject'') ''global''"
    using all by blast+
  then have common: "common_free d"
    using s assms(4) float_free_eq_str by (auto simp: common_free_def GP_COMMON_def is_lit_def)
  have body: "if has d ''error'' then gp_plainly (gp_error_data d st) = Inr e else gp_op_data ps d = Inr e"
    using all by (auto simp: bindR_ok split: if_splits)
  have "float_free d"
  proof (cases "has d ''error''")
    case True
    with body have "gp_error_data d st = Inr ()" by (simp add: gp_plainly_ok)
    then show ?thesis using common by (rule gp_error_free)
  next
    case False
    with body have op: "gp_op_data ps d = Inr e" by simp
    note go = op [unfolded gp_op_data_def on_ok s(1) is_lit_JStr]
    have tx: "\<exists>t. fld ps k = JStr t" if "k \<in> set text_fields" "k \<in> set (gp_request_fields (JStr (u s)))" for k
      using request_text [OF assms(2) that(1)] that(2) s(1) by simp
    have "s = ''describe'' \<or> s = ''export'' \<or> s = ''begin'' \<or> s = ''append'' \<or> s = ''preview'' \<or> s = ''commit''
        \<or> s = ''status'' \<or> s = ''abort''" using s(2) by (simp only: GP_OPS_def list.set insert_iff empty_iff simp_thms)
    then show ?thesis
    proof (elim disjE)
      assume 1: "s = ''describe''"
      with go have "gp_describe d = Inr ()" by (simp add: gp_plainly_ok)
      then show ?thesis using common by (rule gp_describe_free)
    next
      assume 2: "s = ''export''"
      have "\<exists>t. fld ps ''snapshot_id'' = JStr t" using 2 by (intro tx) (simp_all add: text_fields_def gp_request_fields_def)
      moreover from go 2 have "gp_export_data ps d = Inr e" by simp
      ultimately show ?thesis using common by (intro gp_export_free [of ps d e]) auto
    next
      assume 3: "s = ''begin''"
      have strs: "\<exists>t. fld ps k = JStr t" if "k \<in> set [''operation_id'', ''expected_revision'', ''document_sha256'', ''expected_context_revision'']" for k
        using that 3 by (intro tx) (auto simp: text_fields_def gp_request_fields_def)
      have ints: "\<exists>i. fld ps ''size_bytes'' = JInt i" "\<exists>i. fld ps ''chunk_count'' = JInt i"
        "gp_kinds (fld ps ''required_kinds'') = Inr ()"
        using s(3) [unfolded 3 gp_request_details_def] by (simp_all add: check_parts) blast+
      then have kinds: "\<exists>ks. fld ps ''required_kinds'' = JArr (map JStr ks)" by (auto simp: gp_kinds_ok)
      from go 3 have started: "gp_begin_data ps d = Inr ()" by (simp add: gp_plainly_ok)
      show ?thesis
      proof (rule gp_begin_free [OF started common])
        show "is_str (fld ps ''expected_context_revision'')" using strs [of "''expected_context_revision''"] by auto
        show "\<forall>k \<in> set [''operation_id'', ''expected_revision'', ''document_sha256'', ''size_bytes'', ''chunk_count'', ''required_kinds''].
          (\<exists>s. fld ps k = JStr s) \<or> (\<exists>i. fld ps k = JInt i) \<or> (\<exists>ks. fld ps k = JArr (map JStr ks))"
          using strs [of "''operation_id''"] strs [of "''expected_revision''"] strs [of "''document_sha256''"] ints(1,2) kinds
          by simp
      qed
    next
      assume 4: "s = ''append''"
      have "\<exists>t. fld ps ''transaction_id'' = JStr t" using 4 by (intro tx) (simp_all add: text_fields_def gp_request_fields_def)
      moreover have "(\<exists>i. fld ps ''seq'' = JInt i) \<and> (\<exists>i. fld ps ''offset'' = JInt i) \<and> (\<exists>t. fld ps ''chunk_sha256'' = JStr t)"
        using s(3) 4 by (auto simp: gp_request_details_def check_parts)
      moreover from go 4 have "gp_append_data ps d = Inr e" by simp
      ultimately show ?thesis using common by (intro gp_append_free [of ps d e]) simp_all
    next
      assume 5: "s = ''preview''"
      have "\<exists>t. fld ps ''transaction_id'' = JStr t" using 5 by (intro tx) (simp_all add: text_fields_def gp_request_fields_def)
      moreover from go 5 have "gp_preview ps d = Inr ()" by (simp add: gp_plainly_ok)
      ultimately show ?thesis using common by (intro gp_preview_free [of ps]) auto
    next
      assume 6: "s = ''commit''"
      have "is_str (fld ps k)" if "k \<in> set [''operation_id'', ''transaction_id'']" for k
        unfolding is_str_iff using that 6 by (intro tx) (auto simp: text_fields_def gp_request_fields_def)
      moreover from go 6 have "gp_commit_data ps d = Inr e" by (simp add: gp_plainly_ok)
      ultimately show ?thesis using common by (intro gp_commit_free [of ps d e]) auto
    next
      assume 7: "s = ''status''"
      have "\<exists>t. fld ps ''operation_id'' = JStr t" using 7 by (intro tx) (simp_all add: text_fields_def gp_request_fields_def)
      moreover from go 7 have "gp_status_data ps d = Inr e" by (simp add: gp_plainly_ok)
      ultimately show ?thesis using common by (intro gp_status_free [of ps d e]) auto
    next
      assume 8: "s = ''abort''"
      have "is_str (fld ps k)" if "k \<in> set [''operation_id'', ''transaction_id'']" for k
        unfolding is_str_iff using that 8 by (intro tx) (auto simp: text_fields_def gp_request_fields_def)
      moreover from go 8 have "gp_abort_data ps d = Inr ()" by (simp add: gp_plainly_ok)
      ultimately show ?thesis using common by (intro gp_abort_free [of ps d]) auto
    qed
  qed
  with assms(4) show ?thesis by (rule real_float_free_plain)
qed

section \<open>Accepted results\<close>

text \<open>What a call of \<open>validate_result\<close> that returned has established.\<close>

lemma gp_core_ok:
  assumes "gp_core params data rid rsp status lim ctx binder = Inr r"
  shows "\<exists>ps d raw e. gp_plain_request params = Inr ps \<and> gp_object data lim = Inr (d, raw) \<and>
    gp_data ps d (gr_status r) = Inr e \<and> JStr (gr_status r) = status \<and>
    (gr_status r = u ''ok'' \<longrightarrow> binder ps d (ge_receipt e) = Inr ()) \<and>
    gr_request_of r = Inr ps \<and> gr_data_of r = Inr d \<and> gp_check_request ps = Inr () \<and> is_dict d \<and> real_value d \<and>
    gr_verified r = (ge_receipt e \<noteq> None \<and> ctx) \<and> gr_chunk r = ge_chunk e \<and> gr_request_id r = rid \<and> py_eq rsp rid"
proof -
  from assms obtain ps d raw e rb db
    where ps: "gp_plain_request params = Inr ps" and d: "gp_object data lim = Inr (d, raw)"
      and st: "is_str status" and id: "py_eq rsp rid"
      and e: "gp_data ps d (str_of status) = Inr e"
      and b: "(if is_lit status ''ok'' then binder ps d (ge_receipt e) else Inr ()) = Inr ()"
      and enc: "gp_encoded ps = Inr rb" "gp_encoded d = Inr db"
      and r: "r = \<lparr>gr_request = rb, gr_data = db, gr_status = str_of status, gr_request_id = rid,
            gr_verified = (ge_receipt e \<noteq> None \<and> ctx), gr_chunk = ge_chunk e\<rparr>"
    unfolding gp_core_def
    by (auto simp: bindR_ok gp_require_ok simp del: in_lits_simps is_lit_JStr split: prod.splits)
  note req = gp_plain_request_ok [OF ps] and obj = gp_object_ok [OF d]
  have "plain d" by (rule gp_data_plain [OF e req(4) obj(1,2)])
  then have "loads_bytes db = Inr d" by (rule gp_encoded_loads [OF _ enc(2)])
  moreover have "loads_bytes rb = Inr ps" by (rule gp_encoded_loads [OF req(2) enc(1)])
  ultimately show ?thesis
    using ps d e b st id req obj by (auto simp: r gr_request_of_def gr_data_of_def is_str_iff split: if_splits)
qed

end
