(* ===== verification/GlobalSamples.thy ===== *)
theory GlobalSamples
  imports GlobalProtocolLaws FavEnvelopes
begin

text \<open>
  A transfer of the global favorites, packet by packet, on which the properties of the protocol are
  instantiated: a description, the begin request and its answer, a ready preview and a committed status.
\<close>

abbreviation global_uuid :: "string \<Rightarrow> json" where
  "global_uuid s \<equiv> lit (s @ ''1111111-1111-4111-8111-111111111111'')"

definition global_digest :: "string \<Rightarrow> json" where
  "global_digest s = JStr (concat (replicate 64 (u s)))"

definition global_answer :: "string \<Rightarrow> (pystr \<times> json) list \<Rightarrow> json" where
  "global_answer op kv = JObj
    ([(u ''version'', JInt 1), (u ''runtime'', lit ''rt''), (u ''op'', lit op), (u ''subject'', lit ''global'')] @ kv)"

definition global_limits :: json where
  "global_limits = JObj (map (\<lambda>(k, n). (u k, JInt n)) LIMITS)"

definition global_described :: json where
  "global_described = global_answer ''describe''
    [(u ''revision'', global_digest ''1''), (u ''context_revision'', global_digest ''2''),
     (u ''write_ready'', JBool True), (u ''write_blocker'', JNull),
     (u ''admission'', JObj [(u ''operation_id'', global_uuid ''a''), (u ''ttl_ms'', JInt 10000)]),
     (u ''export'', JObj [(u ''snapshot_id'', global_uuid ''c''),
        (u ''document_sha256'', lit ''a6a20076da005b27c9afc3a5d5b2457798c0ac817d1abc38b2fee4398ac3f133''),
        (u ''size_bytes'', JInt 26), (u ''entries'', JInt 0), (u ''expires_at'', lit ''2026-01-01T00:00:00Z'')]),
     (u ''export_error'', JNull), (u ''limits'', global_limits), (u ''locator_kinds'', JArr [lit ''channel''])]"

definition global_describe :: json where
  "global_describe = JObj [(u ''op'', lit ''describe''), (u ''runtime'', lit ''rt'')]"

definition global_begin :: json where
  "global_begin = JObj
    [(u ''op'', lit ''begin''), (u ''runtime'', lit ''rt''), (u ''operation_id'', global_uuid ''a''),
     (u ''mode'', lit ''merge''), (u ''expected_revision'', global_digest ''1''),
     (u ''expected_context_revision'', global_digest ''2''), (u ''document_sha256'', global_digest ''d''),
     (u ''size_bytes'', JInt 20), (u ''chunk_count'', JInt 1), (u ''budget_ms'', JInt 5000),
     (u ''required_kinds'', JArr [lit ''channel''])]"

definition global_accepted :: json where
  "global_accepted = global_answer ''begin''
    [(u ''operation_id'', global_uuid ''a''), (u ''transaction_id'', global_uuid ''b''),
     (u ''expected_revision'', global_digest ''1''), (u ''context_revision'', global_digest ''2''),
     (u ''document_sha256'', global_digest ''d''), (u ''size_bytes'', JInt 20), (u ''chunk_count'', JInt 1),
     (u ''next_seq'', JInt 0), (u ''received_bytes'', JInt 0), (u ''idle_expires_at'', lit ''2026-01-01T00:00:00Z''),
     (u ''absolute_expires_at'', lit ''2026-01-01T00:05:00Z''), (u ''required_kinds'', JArr [lit ''channel''])]"

definition global_look :: json where
  "global_look = JObj [(u ''op'', lit ''preview''), (u ''runtime'', lit ''rt''), (u ''transaction_id'', global_uuid ''b''),
     (u ''page_offset'', JInt 0), (u ''max_entries'', JInt 64)]"

definition global_counts :: json where
  "global_counts = JObj [(u ''before'', JInt 1), (u ''after'', JInt 2), (u ''added'', JInt 1), (u ''removed'', JInt 0),
     (u ''retained'', JInt 1), (u ''updated'', JInt 0), (u ''moved'', JInt 0), (u ''duplicates_skipped'', JInt 0)]"

definition global_row :: "int \<Rightarrow> string \<Rightarrow> json" where
  "global_row i s = JObj [(u ''entry_index'', JInt i), (u ''state'', lit s)]"

definition global_preview :: json where
  "global_preview = global_answer ''preview''
    [(u ''operation_id'', global_uuid ''a''), (u ''transaction_id'', global_uuid ''b''),
     (u ''expected_revision'', global_digest ''1''), (u ''context_revision'', global_digest ''2''),
     (u ''input_document_sha256'', global_digest ''d''), (u ''result_document_sha256'', global_digest ''e''),
     (u ''plan_digest'', global_digest ''f''), (u ''counts'', global_counts),
     (u ''resolution_counts'', JObj [(u ''resolved'', JInt 1), (u ''missing'', JInt 1), (u ''ambiguous'', JInt 0),
        (u ''unsupported'', JInt 0)]),
     (u ''legacy_effects'', JObj [(u ''linked_removed'', JInt 0), (u ''unmapped_retained'', JInt 0)]),
     (u ''ready'', JBool True), (u ''blocker'', JNull), (u ''page_offset'', JInt 0),
     (u ''rows'', JArr [global_row 0 ''resolved'', global_row 1 ''missing'']), (u ''next_offset'', JNull),
     (u ''required_kinds'', JArr [lit ''channel''])]"

definition global_status :: json where
  "global_status = JObj [(u ''op'', lit ''status''), (u ''runtime'', lit ''rt''), (u ''operation_id'', global_uuid ''a'')]"

definition global_receipt :: json where
  "global_receipt = JObj
    [(u ''version'', JInt 1), (u ''subject'', lit ''global''), (u ''operation_id'', global_uuid ''a''),
     (u ''operation_runtime'', lit ''rt''), (u ''transaction_id'', global_uuid ''b''),
     (u ''input_document_sha256'', global_digest ''d''), (u ''result_document_sha256'', global_digest ''e''),
     (u ''expected_revision'', global_digest ''1''), (u ''new_revision'', global_digest ''3''),
     (u ''context_revision'', global_digest ''2''), (u ''plan_digest'', global_digest ''f''), (u ''counts'', global_counts),
     (u ''changed'', JBool True), (u ''outcome'', lit ''verified''), (u ''persistence'', lit ''persistent''),
     (u ''required_kinds'', JArr [lit ''channel''])]"

definition global_committed :: json where
  "global_committed = global_answer ''status''
    [(u ''operation_id'', global_uuid ''a''), (u ''operation_runtime'', lit ''rt''), (u ''transaction_id'', global_uuid ''b''),
     (u ''state'', lit ''committed''), (u ''outcome'', lit ''verified''), (u ''receipt'', global_receipt)]"

lemma global_requests_ok:
  "gp_check_request global_describe = Inr ()" "gp_check_request global_begin = Inr ()"
  "gp_check_request global_look = Inr ()" "gp_check_request global_status = Inr ()"
  by code_simp+

lemma global_answers_ok:
  "gp_data global_describe global_described (u ''ok'') = Inr no_evidence"
  "gp_data global_begin global_accepted (u ''ok'') = Inr no_evidence"
  "gp_data global_look global_preview (u ''ok'') = Inr no_evidence"
  "gp_data global_status global_committed (u ''ok'') = Inr \<lparr>ge_receipt = Some global_receipt, ge_chunk = None\<rparr>"
  by code_simp+

section \<open>From a value to its bytes and back\<close>

definition wire_of :: "json \<Rightarrow> bytes" where
  "wire_of v = (case gp_encoded v of Inl _ \<Rightarrow> [] | Inr b \<Rightarrow> b)"

definition wire_value :: "json \<Rightarrow> bool" where
  "wire_value v \<longleftrightarrow> is_dict v \<and> plain v \<and> enc_text v \<and> jsize v \<le> GP_ENVELOPE_BYTES \<and> jdepth v \<le> 16 \<and>
     gp_walk GP_ENVELOPE_BYTES [(v, 0)] 0 = Inr () \<and> gp_walk GP_METADATA_BYTES [(v, 0)] 0 = Inr ()"

lemma wire_value_bytes:
  assumes "wire_value v"
  shows "gp_encoded v = Inr (wire_of v)" "utf8_encode (ctext v) = Inr (wire_of v)" "plen (wire_of v) = jsize v" "0 < jsize v"
proof -
  have d: "dumpable v" using assms plain_dumpable by (simp add: wire_value_def enc_text_def)
  obtain b where b: "utf8_encode (ctext v) = Inr b"
    using assms utf8_encode_iff [of "ctext v"] by (auto simp: wire_value_def enc_text_def)
  then have e: "gp_encoded v = Inr b"
    using d by (simp add: gp_encoded_def dumps_compact_def dumps_def)
  then show "gp_encoded v = Inr (wire_of v)" "utf8_encode (ctext v) = Inr (wire_of v)" using b by (simp_all add: wire_of_def)
  show "plen (wire_of v) = jsize v"
    using e utf8_encode_size [OF b] by (simp add: wire_of_def jsize_def)
  have "0 < plen (ctext v)" using assms by (auto simp: wire_value_def enc_text_def is_dict_iff plen_def)
  then show "0 < jsize v" using utf8_size_length [of "ctext v"] unfolding jsize_def by linarith
qed

lemma wire_value_object:
  assumes "wire_value v" "w = Raw (wire_of v) \<or> w = Parsed v" "lim = GP_ENVELOPE_BYTES \<or> lim = GP_METADATA_BYTES"
  shows "gp_object w lim = Inr (v, wire_of v)"
proof -
  note facts = wire_value_bytes [OF assms(1)]
  have "loads_bytes (wire_of v) = Inr v"
    using assms(1) gp_encoded_loads facts(1) by (simp add: wire_value_def enc_text_def)
  moreover have "depth_scan gp_invalid 16 (wire_of v) = Inr ()"
    using assms(1) facts(2) by (intro depth_scan_ctext) (auto simp: wire_value_def enc_text_def)
  moreover have "gp_wire_bytes w lim = Inr (wire_of v)"
    using assms facts(1) by (auto simp: gp_wire_bytes_def wire_value_def enc_text_def ok_iff)
  moreover have "plen (wire_of v) \<le> lim" using assms(1,3) facts(3) by (auto simp: wire_value_def enc_text_def)
  ultimately show ?thesis
    using assms(1) facts by (cases "wire_of v = []") (simp_all add: gp_object_def ok_iff loads_bytes_def wire_value_def enc_text_def)
qed

lemma wire_request:
  assumes "wire_value v" "gp_check_request v = Inr ()" "no_html (ctext v)" "jsize v \<le> 8000"
  shows "gp_plain_request (Parsed v) = Inr v"
proof -
  have "action_name GP_ACTION" by code_simp
  from action_envelopes [OF this, of v] assms have "case request_envelopes GP_ACTION v None of
     Inl _ \<Rightarrow> False | Inr env \<Rightarrow> plen (client env) \<le> MAX_RPC_BYTES \<and> plen (queued_upper_bound env) \<le> MAX_RPC_BYTES"
    by (simp add: wire_value_def enc_text_def)
  then show ?thesis
    using wire_value_object [OF assms(1), of "Parsed v" GP_ENVELOPE_BYTES] assms(2)
    by (auto simp: gp_plain_request_def gp_envelope_bytes_def split: sum.splits)
qed

text \<open>The result of one accepted exchange.\<close>

definition exchange :: "json \<Rightarrow> json \<Rightarrow> bool \<Rightarrow> bytes option \<Rightarrow> gp_result" where
  "exchange ps d ok c = \<lparr>gr_request = wire_of ps, gr_data = wire_of d, gr_status = u ''ok'',
     gr_request_id = JStr (replicate 32 97), gr_verified = ok, gr_chunk = c\<rparr>"

definition passes :: "json \<Rightarrow> json \<Rightarrow> gp_evidence \<Rightarrow> bool" where
  "passes ps d e \<longleftrightarrow> wire_value ps \<and> wire_value d \<and> gp_check_request ps = Inr () \<and> no_html (ctext ps) \<and> jsize ps \<le> 8000 \<and>
     gp_data ps d (u ''ok'') = Inr e"

lemma exchange_reads:
  assumes "passes ps d e"
  shows "gr_request_of (exchange ps d ok c) = Inr ps" "gr_data_of (exchange ps d ok c) = Inr d"
  using assms wire_value_bytes gp_encoded_loads
  by (auto simp: passes_def wire_value_def enc_text_def gr_request_of_def gr_data_of_def exchange_def)

lemma exchange_core:
  assumes "passes ps d e" "w = Parsed d \<or> w = Raw (wire_of d)" "binder ps d (ge_receipt e) = Inr ()"
  shows "gp_core (Parsed ps) w (JStr (replicate 32 97)) (JStr (replicate 32 97)) (lit ''ok'') GP_METADATA_BYTES ctx binder
    = Inr (exchange ps d (ge_receipt e \<noteq> None \<and> ctx) (ge_chunk e))"
proof -
  have "request_id_pat (replicate 32 97)" by code_simp
  moreover have "gp_object w GP_METADATA_BYTES = Inr (d, wire_of d)"
    using assms(1,2) by (intro wire_value_object) (auto simp: passes_def)
  moreover have "gp_plain_request (Parsed ps) = Inr ps" using assms(1) by (intro wire_request) (auto simp: passes_def)
  ultimately show ?thesis
    using assms(1,3) wire_value_bytes [of ps] wire_value_bytes [of d]
    by (simp add: gp_core_def passes_def exchange_def gp_integer_ok gp_pattern_ok gp_require_ok bindR_ok lit_def)
qed

definition saved_exchange :: "json \<Rightarrow> json \<Rightarrow> json" where
  "saved_exchange ps d = JObj [(u ''request'', ps), (u ''request_id'', JStr (replicate 32 97)), (u ''data'', d)]"

lemma exchange_restored:
  assumes "passes ps d e"
  shows "gp_restore_saved (saved_exchange ps d) = Inr (exchange ps d False (ge_chunk e))"
proof -
  have "gp_shape (saved_exchange ps d) [''request'', ''request_id'', ''data''] = Inr ()"
    by (simp add: saved_exchange_def gp_shape_ok same_keys_def keys_of_def u_def)
  then show ?thesis
    using exchange_core [OF assms, of "Parsed d" no_binder False]
    by (simp add: gp_restore_saved_def saved_exchange_def on_ok)
qed

lemma exchange_checked:
  assumes "passes ps d e" "case op of None \<Rightarrow> True | Some s \<Rightarrow> on ps ''op'' (\<lambda>x. gp_match (is_lit x s)) = Inr ()"
  shows "gp_checked (exchange ps d ok c) op = Inr (exchange ps d False (ge_chunk e))"
proof -
  have "gp_saved (exchange ps d ok c) = Inr (saved_exchange ps d)"
    using exchange_reads [OF assms(1)] by (simp add: gp_saved_def saved_exchange_def) (simp add: exchange_def)
  moreover have "gr_status (exchange ps d ok c) = u ''ok''" by (simp add: exchange_def)
  ultimately show ?thesis
    using exchange_restored [OF assms(1)] exchange_reads [OF assms(1)] assms(2)
    by (auto simp: gp_checked_def gp_match_def split: option.splits)
qed

lemma global_wire_values:
  "wire_value global_describe" "wire_value global_described" "wire_value global_begin" "wire_value global_accepted"
  "wire_value global_look" "wire_value global_preview" "wire_value global_status" "wire_value global_committed"
  by code_simp+

lemma global_request_sizes:
  "no_html (ctext global_describe) \<and> jsize global_describe \<le> 8000" "no_html (ctext global_begin) \<and> jsize global_begin \<le> 8000"
  "no_html (ctext global_look) \<and> jsize global_look \<le> 8000" "no_html (ctext global_status) \<and> jsize global_status \<le> 8000"
  by code_simp+

lemma global_passes:
  "passes global_describe global_described no_evidence"
  "passes global_begin global_accepted no_evidence"
  "passes global_look global_preview no_evidence"
  "passes global_status global_committed \<lparr>ge_receipt = Some global_receipt, ge_chunk = None\<rparr>"
  by (simp_all add: passes_def global_wire_values global_request_sizes global_requests_ok global_answers_ok)

section \<open>The retained context\<close>

definition global_record :: json where
  "global_record = JObj [(u ''version'', JInt 1), (u ''begin'', saved_exchange global_begin global_accepted),
     (u ''preview'', saved_exchange global_look global_preview)]"

definition global_context :: gp_context where
  "global_context = wire_of global_record"

lemma global_context_parts:
  "gp_context_parts global_context =
     Inr (exchange global_begin global_accepted False None, Some (exchange global_look global_preview False None))"
proof -
  have "wire_value global_record" by code_simp
  then have "gp_object (Raw global_context) GP_METADATA_BYTES = Inr (global_record, wire_of global_record)"
    unfolding global_context_def by (intro wire_value_object) auto
  moreover have "gp_shape global_record [''version'', ''begin'', ''preview''] = Inr ()"
    "on global_record ''version'' (\<lambda>x. gp_integer x 1 1) = Inr ()"
    by code_simp+
  moreover have "on global_begin ''op'' (\<lambda>op. gp_match (is_lit op ''begin'')) = Inr ()"
    "on global_look ''op'' (\<lambda>op. gp_match (is_lit op ''preview'')) = Inr ()"
    "on global_look ''page_offset'' (\<lambda>x. gp_match (py_eq x (JInt 0))) = Inr ()"
    "gp_bind_begin global_begin global_accepted global_look global_preview = Inr ()"
    by code_simp+
  moreover have "on global_record ''begin'' F = F (saved_exchange global_begin global_accepted)"
    "on global_record ''preview'' G = G (saved_exchange global_look global_preview)" for F :: "json \<Rightarrow> gp_result result"
      and G :: "json \<Rightarrow> (gp_result \<times> gp_result option) result"
    by (simp_all add: global_record_def on_has)
  moreover have "saved_exchange global_look global_preview \<noteq> JNull" by (simp add: saved_exchange_def)
  ultimately show ?thesis
    using exchange_restored [OF global_passes(2)] exchange_restored [OF global_passes(3)]
      exchange_reads [OF global_passes(2)] exchange_reads [OF global_passes(3)]
    by (simp add: gp_context_parts_def)
qed

lemma global_binds: "gp_bind_context global_context global_status global_committed (Some global_receipt) = Inr ()"
  unfolding gp_bind_context_def global_context_parts bindR_Inr prod.case exchange_reads [OF global_passes(2)]
    exchange_reads [OF global_passes(3)] option.case
  by code_simp

end
