(* ===== verification/GlobalProtocolProps.thy ===== *)
theory GlobalProtocolProps
  imports GlobalSamples GlobalDocumentProps
begin

text \<open>
  The properties of \<open>src/cli/global_favorites_protocol.py\<close> about one result: what it re-reads to, what a
  verified receipt is bound to, what a begin request was granted.
\<close>

section \<open>Results\<close>

lemma gp_validate_result_ok:
  assumes "gp_validate_result params data rid rsp status ctx lim describe previous = Inr r"
  shows "\<exists>ps d raw e. gp_plain_request params = Inr ps \<and> gp_object data lim = Inr (d, raw) \<and>
    gp_data ps d (gr_status r) = Inr e \<and> JStr (gr_status r) = status \<and>
    (gr_status r = u ''ok'' \<longrightarrow> gp_binder ctx describe previous ps d (ge_receipt e) = Inr ()) \<and>
    gr_request_of r = Inr ps \<and> gr_data_of r = Inr d \<and> gp_check_request ps = Inr () \<and> is_dict d \<and> real_value d \<and>
    gr_verified r = (ge_receipt e \<noteq> None \<and> ctx \<noteq> None) \<and> gr_chunk r = ge_chunk e \<and> gr_request_id r = rid \<and> py_eq rsp rid"
  using gp_core_ok [OF assms [unfolded gp_validate_result_def]] .

text \<open>
  An accepted result reads back: the request and data bytes it retains parse to exactly the
  values that were validated, the request passes the request checks and the data passes the checks
  of its operation again, the status is one of the three and the response's id is the request's.
\<close>

theorem global_result_reads_back:
  assumes "gp_validate_result params data rid rsp status ctx lim describe previous = Inr r"
  shows "\<exists>ps d raw e. gp_plain_request params = Inr ps \<and> gp_object data lim = Inr (d, raw) \<and>
    gr_request_of r = Inr ps \<and> gr_data_of r = Inr d \<and> gp_check_request ps = Inr () \<and>
    gp_data ps d (gr_status r) = Inr e \<and> gr_chunk r = ge_chunk e \<and>
    JStr (gr_status r) = status \<and> gr_request_id r = rid \<and> py_eq rsp rid"
  using gp_validate_result_ok [OF assms] by blast

lemma global_status_result:
  "gp_validate_result (Parsed global_status) (Parsed global_committed) (JStr (replicate 32 97)) (JStr (replicate 32 97)) (lit ''ok'')
     (Some global_context) GP_METADATA_BYTES None None = Inr (exchange global_status global_committed True None)"
  using exchange_core [OF global_passes(4), of "Parsed global_committed" "gp_binder (Some global_context) None None" True] global_binds
  by (simp add: gp_validate_result_def gp_binder_def seqR_Cons_ok)

theorem global_result_reads_back_witness:
  "\<exists>r ps d. gp_validate_result (Parsed global_status) (Parsed global_committed) (JStr (replicate 32 97)) (JStr (replicate 32 97)) (lit ''ok'')
     (Some global_context) GP_METADATA_BYTES None None = Inr r \<and> gr_request_of r = Inr ps \<and> gr_data_of r = Inr d \<and>
     gp_check_request ps = Inr ()"
  using global_result_reads_back [OF global_status_result] global_status_result by blast

section \<open>Verified receipts\<close>

lemma gp_data_ok:
  assumes "gp_data ps d st = Inr e" "ge_receipt e \<noteq> None \<or> ge_chunk e \<noteq> None"
  shows "gp_op_data ps d = Inr e" "st = u ''ok''"
  using assms by (auto simp: gp_data_def bindR_ok gp_plainly_ok gp_require_ok split: if_splits)

lemma gp_data_op:
  assumes "gp_data ps d st = Inr e" "st = u ''ok''"
  shows "gp_op_data ps d = Inr e"
proof -
  have "\<not> has d ''error''"
  proof
    assume "has d ''error''"
    with assms have "gp_error_data d (u ''ok'') = Inr ()" by (auto simp: gp_data_def bindR_ok gp_plainly_ok)
    then show False by (auto simp: gp_error_data_def check_parts)
  qed
  with assms show ?thesis by (auto simp: gp_data_def bindR_ok)
qed

lemma gp_receipt_op:
  assumes "gp_data ps d st = Inr e" "ge_receipt e = Some rec"
  shows "in_lits (fld ps ''op'') [''commit'', ''status'']" "rec = fld d ''receipt''" "gp_receipt rec = Inr ()" "st = u ''ok''"
proof -
  from gp_data_ok [OF assms(1)] assms(2) have op: "gp_op_data ps d = Inr e" and st: "st = u ''ok''" by auto
  have "is_lit (fld ps ''op'') ''commit'' \<and> gp_commit_data ps d = Inr e \<or> is_lit (fld ps ''op'') ''status'' \<and> gp_status_data ps d = Inr e"
    using op assms(2)
    by (auto simp: gp_op_data_def on_ok gp_plainly_ok gp_export_data_def gp_append_data_def bindR_ok split: if_splits)
  moreover have "rec = fld d ''receipt'' \<and> gp_receipt rec = Inr ()" if "gp_commit_data ps d = Inr e"
    using that assms(2) by (auto simp: gp_commit_data_def check_parts)
  moreover have "rec = fld d ''receipt'' \<and> gp_receipt rec = Inr ()" if "gp_status_data ps d = Inr e"
    using that assms(2) by (auto simp: gp_status_data_def check_parts gp_plainly_ok Let_def split: if_splits)
  ultimately show "in_lits (fld ps ''op'') [''commit'', ''status'']" "rec = fld d ''receipt''" "gp_receipt rec = Inr ()"
    by (auto simp: in_lits_def)
  show "st = u ''ok''" by (rule st)
qed

lemma gp_bind_context_receipt:
  assumes "gp_bind_context c ps d (Some rec) = Inr ()"
  shows "\<exists>begin preview bq ba pd. gp_context_parts c = Inr (begin, Some preview) \<and> gr_request_of begin = Inr bq \<and>
    gr_data_of begin = Inr ba \<and> gr_data_of preview = Inr pd \<and> fld pd ''ready'' = JBool True \<and>
    list_all (\<lambda>(k, v). py_eq (fld rec k) v) (receipt_expectations bq ba pd)"
proof -
  from assms obtain started preview' bq ba pd where parts: "gp_context_parts c = Inr (started, preview')"
    "gr_request_of started = Inr bq" "gr_data_of started = Inr ba"
    "(case preview' of None \<Rightarrow> Inr JNull | Some p \<Rightarrow> gr_data_of p) = Inr pd"
    by (auto simp: gp_bind_context_def bindR_ok)
  with assms have "preview' \<noteq> None \<and> fld pd ''ready'' = JBool True \<and>
    list_all (\<lambda>(k, v). py_eq (fld rec k) v) (receipt_expectations bq ba pd)"
    by (simp add: gp_bind_context_def Let_def seqR_Cons_ok seqR_Nil_ok gp_match_ok)
  with parts show ?thesis by (auto split: option.splits)
qed

text \<open>
  C5: A result is marked verified only for a commit or status answer whose receipt is the retained
  context's: the receipt names the operation, runtime, input document, expected revision, context
  revision and required kinds of the retained begin, the transaction the player accepted it as, and
  the plan digest, result document and counts of the retained preview, which was ready.
\<close>

theorem global_receipt_bound:
  assumes "gp_validate_result params data rid rsp status (Some c) lim describe previous = Inr r" and "gr_verified r"
  shows "\<exists>ps d rec begin preview bq ba pd. gr_request_of r = Inr ps \<and> gr_data_of r = Inr d \<and>
    in_lits (fld ps ''op'') [''commit'', ''status''] \<and> rec = fld d ''receipt'' \<and> gp_receipt rec = Inr () \<and>
    gp_context_parts c = Inr (begin, Some preview) \<and> gr_request_of begin = Inr bq \<and> gr_data_of begin = Inr ba \<and>
    gr_data_of preview = Inr pd \<and> fld pd ''ready'' = JBool True \<and>
    fld bq ''operation_id'' = fld rec ''operation_id'' \<and> fld bq ''runtime'' = fld rec ''operation_runtime'' \<and>
    fld ba ''transaction_id'' = fld rec ''transaction_id'' \<and> fld bq ''document_sha256'' = fld rec ''input_document_sha256'' \<and>
    fld bq ''expected_revision'' = fld rec ''expected_revision'' \<and>
    fld bq ''expected_context_revision'' = fld rec ''context_revision'' \<and> fld pd ''plan_digest'' = fld rec ''plan_digest'' \<and>
    fld pd ''result_document_sha256'' = fld rec ''result_document_sha256'' \<and>
    py_eq (fld rec ''required_kinds'') (fld bq ''required_kinds'') \<and> py_eq (fld rec ''counts'') (fld pd ''counts'')"
proof -
  from gp_validate_result_ok [OF assms(1)] assms(2) obtain ps d e rec
    where e: "gp_data ps d (gr_status r) = Inr e" "ge_receipt e = Some rec"
      and b: "gr_status r = u ''ok'' \<Longrightarrow> gp_binder (Some c) describe previous ps d (ge_receipt e) = Inr ()"
      and r: "gr_request_of r = Inr ps" "gr_data_of r = Inr d" by auto
  note facts = gp_receipt_op [OF e]
  from b [OF facts(4)] e(2) have "gp_bind_context c ps d (Some rec) = Inr ()"
    by (simp add: gp_binder_def seqR_Cons_ok)
  from gp_bind_context_receipt [OF this] obtain started preview bq ba pd
    where parts: "gp_context_parts c = Inr (started, Some preview)" "gr_request_of started = Inr bq" "gr_data_of started = Inr ba"
        "gr_data_of preview = Inr pd" "fld pd ''ready'' = JBool True"
      and eqs: "list_all (\<lambda>(k, v). py_eq (fld rec k) v) (receipt_expectations bq ba pd)" by blast
  have strs: "\<exists>s. fld rec k = JStr s" if "k \<in> set [''operation_id'', ''transaction_id'', ''input_document_sha256'',
      ''result_document_sha256'', ''expected_revision'', ''context_revision'', ''plan_digest'', ''operation_runtime'']" for k
    using facts(3) [unfolded gp_receipt_def check_parts] that by auto
  have same: "w = fld rec k" if "(k, w) \<in> set (receipt_expectations bq ba pd)"
    "k \<in> set [''operation_id'', ''transaction_id'', ''input_document_sha256'',
      ''result_document_sha256'', ''expected_revision'', ''context_revision'', ''plan_digest'', ''operation_runtime'']" for k w
    using strs [OF that(2)] eqs that(1) by (auto simp: list_all_iff)
  have "py_eq (fld rec ''required_kinds'') (fld bq ''required_kinds'')" "py_eq (fld rec ''counts'') (fld pd ''counts'')"
    using eqs by (auto simp: receipt_expectations_def)
  moreover have "fld bq ''operation_id'' = fld rec ''operation_id''" "fld bq ''runtime'' = fld rec ''operation_runtime''"
    "fld ba ''transaction_id'' = fld rec ''transaction_id''" "fld bq ''document_sha256'' = fld rec ''input_document_sha256''"
    "fld bq ''expected_revision'' = fld rec ''expected_revision''" "fld bq ''expected_context_revision'' = fld rec ''context_revision''"
    "fld pd ''plan_digest'' = fld rec ''plan_digest''" "fld pd ''result_document_sha256'' = fld rec ''result_document_sha256''"
    by (rule same; simp add: receipt_expectations_def)+
  ultimately show ?thesis using r facts(1-3) parts by blast
qed

theorem global_receipt_bound_witness:
  "\<exists>r rec. gp_validate_result (Parsed global_status) (Parsed global_committed) (JStr (replicate 32 97)) (JStr (replicate 32 97)) (lit ''ok'')
     (Some global_context) GP_METADATA_BYTES None None = Inr r \<and> gr_verified r \<and> gp_receipt rec = Inr () \<and>
     fld global_begin ''document_sha256'' = fld rec ''input_document_sha256''"
proof -
  have v: "gr_verified (exchange global_status global_committed True None)" by (simp add: exchange_def)
  from global_receipt_bound [OF global_status_result v] global_status_result v global_context_parts
    exchange_reads [OF global_passes(2)]
  show ?thesis by auto
qed

section \<open>What begin was granted\<close>

lemma gp_bind_describe_ok:
  assumes "gp_bind_describe d params data = Inr ()"
  obtains described baseline req where "gp_checked d (Some ''describe'') = Inr described" "gr_data_of described = Inr baseline"
    "gr_request_of described = Inr req" "py_eq (fld params ''runtime'') (fld req ''runtime'')"
  using assms by (auto simp: gp_bind_describe_def bindR_ok gp_agree_ok)

lemma gp_checked_ok:
  assumes "gp_checked r op = Inr c"
  obtains ps d e where "gr_request_of c = Inr ps" "gr_data_of c = Inr d" "gp_check_request ps = Inr ()" "is_dict d"
    "gp_data ps d (u ''ok'') = Inr e" "gr_chunk c = ge_chunk e" "gr_status c = u ''ok''" "plain ps"
    "op = None \<or> is_lit (fld ps ''op'') (the op)"
proof -
  from assms obtain v where "gp_restore_saved v = Inr c"
    by (auto simp: gp_checked_def bindR_ok)
  then obtain req data i where "gp_core (Parsed req) (Parsed data) i i (lit ''ok'') GP_METADATA_BYTES False no_binder = Inr c"
    by (auto simp: gp_restore_saved_def bindR_ok on_ok)
  from gp_core_ok [OF this] obtain ps d e where f: "gr_request_of c = Inr ps" "gr_data_of c = Inr d" "gp_check_request ps = Inr ()"
    "is_dict d" "gp_data ps d (gr_status c) = Inr e" "gr_chunk c = ge_chunk e" "JStr (gr_status c) = lit ''ok''"
    "gp_plain_request (Parsed req) = Inr ps"
    by blast
  then have st: "gr_status c = u ''ok''" by (simp add: lit_def)
  have "op = None \<or> is_lit (fld ps ''op'') (the op)"
    using assms f(1) by (auto simp: gp_checked_def bindR_ok gp_match_ok on_ok split: option.splits)
  with f st gp_plain_request_ok(2) [OF f(8)] show ?thesis by (intro that) auto
qed

lemma gp_plain_request_same:
  assumes "gp_plain_request (Parsed v) = Inr ps" "plain v"
  shows "ps = v"
proof -
  from assms(1) obtain raw where o': "gp_object (Parsed v) GP_ENVELOPE_BYTES = Inr (ps, raw)"
    by (auto simp: gp_plain_request_def bindR_ok)
  then have "gp_encoded v = Inr raw" by (auto simp: gp_object_def gp_wire_bytes_def ok_iff)
  from gp_encoded_loads [OF assms(2) this] gp_object_ok(3) [OF o'] show ?thesis by simp
qed



text \<open>
  A timestamp may pass the pattern and still lie before the first or after the last instant of UTC; then
  \<open>_time\<close> raises OverflowError, which is no \<open>ProtocolError\<close> and which no handler of the module catches.
\<close>

lemma gp_time_overflows:
  "gp_time (lit ''0001-01-01T00:00:00+00:01'') = Inl OverflowError"
  "gp_time (lit ''9999-12-31T23:59:59-00:01'') = Inl OverflowError"
  by code_simp+

end
