(* ===== verification/GlobalExportProps.thy ===== *)
theory GlobalExportProps
  imports GlobalProtocolProps
begin

text \<open>
  The property of \<open>assemble_export\<close> in \<open>src/cli/global_favorites_protocol.py\<close>: what a complete export
  establishes, and a concrete export of two pages.
\<close>

section \<open>Exports\<close>

text \<open>The data of page \<open>i\<close> carries the chunk \<open>c\<close> at the offset the chunks before it end at.\<close>

definition page_carries :: "gp_result \<Rightarrow> int \<Rightarrow> bytes \<Rightarrow> bool" where
  "page_carries p at_offset c \<longleftrightarrow> (\<exists>page d. gp_checked p (Some ''export'') = Inr page \<and> gr_data_of page = Inr d \<and>
     fld d ''offset'' = JInt at_offset \<and> fld d ''data_base64'' = JStr (b64encode c) \<and>
     fld d ''chunk_sha256'' = JStr (sha256_hex c) \<and> c \<noteq> [] \<and> fld d ''next_offset'' = JInt (at_offset + plen c))"

lemma py_eq_JInt: "py_eq (JInt i) (JInt j) \<longleftrightarrow> i = j"
  by simp

lemma export_page_ok:
  assumes "export_page described (parts, JInt at_offset, previous) p = Inr (parts', n, last_page)"
  shows "\<exists>c. parts' = parts @ [c] \<and> n = JInt (at_offset + plen c) \<and> last_page \<noteq> None \<and> page_carries p at_offset c"
proof -
  from assms obtain page req checked c data
    where page: "gp_checked p (Some ''export'') = Inr page" and req: "gr_request_of page = Inr req"
      and off: "py_eq (fld req ''offset'') (JInt at_offset)"
      and chk: "gp_validate_result (Parsed req) (Raw (gr_data page)) (gr_request_id page) (gr_request_id page) (lit ''ok'')
              None GP_METADATA_BYTES (Some described) previous = Inr checked"
      and c: "gr_chunk checked = Some c" and data: "gr_data_of checked = Inr data"
      and out: "parts' = parts @ [c]" "n = fld data ''next_offset''" "last_page = Some checked"
    by (auto simp: export_page_def bindR_ok on_ok check_ok split: option.splits)
  from gp_validate_result_ok [OF chk] data c obtain ps raw e
    where ps: "gp_plain_request (Parsed req) = Inr ps" and obj: "gp_object (Raw (gr_data page)) GP_METADATA_BYTES = Inr (data, raw)"
      and e: "gp_data ps data (gr_status checked) = Inr e" "ge_chunk e = Some c" by auto
  have raw: "raw = gr_data page" using obj by (auto simp: gp_object_def gp_wire_bytes_def ok_iff)
  with gp_object_ok(3) [OF obj] have same: "gr_data_of page = Inr data" by (simp add: gr_data_of_def)
  obtain d0 e0 where p: "gp_check_request req = Inr ()" "gp_data req d0 (u ''ok'') = Inr e0"
    "gr_data_of page = Inr d0" "fld req ''op'' = JStr (u ''export'')" "plain req"
    by (rule gp_checked_ok [OF page]) (use req in \<open>auto simp: is_lit_def\<close>)
  from gp_plain_request_same [OF ps p(5)] have ps: "ps = req" .
  have d0: "d0 = data" using p(3) same by simp
  have "gp_op_data req data = Inr e" "gr_status checked = u ''ok''"
    using gp_data_ok [OF e(1)] e(2) ps by auto
  then have op: "gp_export_data req data = Inr e" using p(4) by (auto simp: gp_op_data_def on_ok)
  note all = op [unfolded gp_export_data_def check_parts]
  obtain o' where o': "fld req ''offset'' = JInt o'"
    using request_op [OF p(1)] p(4) by (auto simp: gp_request_details_def check_parts)
  have oat: "o' = at_offset" using off o' by simp
  have "page_carries p at_offset c" unfolding page_carries_def
    using page same all e(2) o' oat by (intro exI [of _ page] exI [of _ data]) auto
  moreover have "n = JInt (at_offset + plen c)" using all e(2) o' oat out by auto
  ultimately show ?thesis using out by blast
qed

lemma export_pages_ok:
  assumes "foldR (export_page described) (parts, JInt at_offset, previous) pages = Inr (parts', n, last_page)"
  shows "\<exists>cs. parts' = parts @ cs \<and> n = JInt (at_offset + plen (concat cs)) \<and> length cs = length pages \<and>
    (\<forall>i < length pages. page_carries (pages ! i) (at_offset + plen (concat (take i cs))) (cs ! i))"
  using assms
proof (induction pages arbitrary: parts at_offset previous)
  case Nil
  then show ?case by (auto simp: ok_iff plen_def)
next
  case (Cons p pages)
  from Cons.prems obtain parts1 n1 previous1
    where one: "export_page described (parts, JInt at_offset, previous) p = Inr (parts1, n1, previous1)"
      and rest: "foldR (export_page described) (parts1, n1, previous1) pages = Inr (parts', n, last_page)"
    by (auto simp: ok_iff)
  from export_page_ok [OF one] obtain c where c: "parts1 = parts @ [c]" "n1 = JInt (at_offset + plen c)" "page_carries p at_offset c"
    by blast
  from Cons.IH [OF rest [unfolded c(2)]] obtain cs where cs: "parts' = parts1 @ cs" "n = JInt (at_offset + plen c + plen (concat cs))"
    "length cs = length pages"
    "\<forall>i < length pages. page_carries (pages ! i) (at_offset + plen c + plen (concat (take i cs))) (cs ! i)" by blast
  have "page_carries ((p # pages) ! i) (at_offset + plen (concat (take i (c # cs)))) ((c # cs) ! i)"
    if "i < length (p # pages)" for i
    using that c(3) cs(4) by (cases i) (auto simp: plen_def algebra_simps)
  then show ?case using c cs by (intro exI [of _ "c # cs"]) (auto simp: plen_def)
qed

lemma checked_describe:
  assumes "gp_checked r (Some ''describe'') = Inr c" "gr_data_of c = Inr d" "has d ''export''"
  shows "gp_describe d = Inr ()"
proof (rule gp_checked_ok [OF assms(1)])
  fix ps d' e
  assume p: "gr_data_of c = Inr d'" "gp_data ps d' (u ''ok'') = Inr e" "Some ''describe'' = None \<or> is_lit (fld ps ''op'') (the (Some ''describe''))"
  have "gp_op_data ps d' = Inr e" by (rule gp_data_op [OF p(2) refl])
  with p(3) show ?thesis using p(1) assms(2) by (auto simp: gp_op_data_def on_ok gp_plainly_ok is_lit_def)
qed

text \<open>
  C17: An assembled export is the described document, whole: its bytes are the chunks of the pages in
  order, each page starting where the one before it ended; their length and SHA-256 are the
  described ones; they are the canonical bytes of a valid document with the described number of
  entries, of locator kinds the description advertises.
\<close>

theorem export_exact:
  assumes "assemble_export describe pages = Inr E"
  shows "\<exists>described data chunks doc kinds. gp_checked describe (Some ''describe'') = Inr described \<and> gr_data_of described = Inr data \<and>
    raw_export E = concat chunks \<and> length chunks = length pages \<and>
    (\<forall>i < length pages. page_carries (pages ! i) (plen (concat (take i chunks))) (chunks ! i)) \<and>
    fld (fld data ''export'') ''size_bytes'' = JInt (plen (raw_export E)) \<and>
    fld (fld data ''export'') ''document_sha256'' = JStr (sha256_hex (raw_export E)) \<and>
    load_document (raw_export E) = Inr doc \<and> g_canonical doc = Inr (raw_export E) \<and>
    fld (fld data ''export'') ''entries'' = JInt (plen (g_entries doc)) \<and>
    required_kinds doc = Inr kinds \<and> set kinds \<subseteq> kind_set (fld data ''locator_kinds'')"
proof -
  from assms obtain described data parts n previous
    where d: "gp_checked describe (Some ''describe'') = Inr described" "gr_data_of described = Inr data" "has data ''export''"
      and some: "fld data ''export'' \<noteq> JNull"
      and fold: "foldR (export_page described) ([], JInt 0, None) pages = Inr (parts, n, previous)"
      and size: "py_eq n (fld (fld data ''export'') ''size_bytes'')"
      and sha: "JStr (sha256_hex (concat parts)) = fld (fld data ''export'') ''document_sha256''"
      and rest: "bindR (rethrow is_GlobalDocumentError gp_incomplete
          (bindR (load_document (concat parts)) (\<lambda>d. bindR (g_canonical d) (\<lambda>b. Inr (d, b))))) (\<lambda>(document', canonical).
        bindR (check gp_incomplete (concat parts = canonical \<and> plen (g_entries document') = int_of (fld (fld data ''export'') ''entries''))) (\<lambda>_.
        bindR (required_kinds document') (\<lambda>kinds.
        bindR (check gp_incomplete (set kinds \<subseteq> kind_set (fld data ''locator_kinds''))) (\<lambda>_.
          Inr \<lparr>raw_export = concat parts, export_revision = fld data ''revision'',
               export_sha256 = fld (fld data ''export'') ''document_sha256''\<rparr>)))) = Inr E"
    by (auto simp: assemble_export_def bindR_ok on_ok check_ok Let_def)
  from rest obtain doc kinds where doc: "load_document (concat parts) = Inr doc" "g_canonical doc = Inr (concat parts)"
    "plen (g_entries doc) = int_of (fld (fld data ''export'') ''entries'')" "required_kinds doc = Inr kinds"
    "set kinds \<subseteq> kind_set (fld data ''locator_kinds'')" "raw_export E = concat parts"
    by (auto simp: bindR_ok rethrow_ok check_ok)
  from export_pages_ok [OF fold] obtain chunks where c: "parts = chunks" "n = JInt (plen (concat chunks))" "length chunks = length pages"
    "\<forall>i < length pages. page_carries (pages ! i) (plen (concat (take i chunks))) (chunks ! i)" by auto
  from checked_describe [OF d] some have "\<exists>s. fld (fld data ''export'') ''size_bytes'' = JInt s"
    "\<exists>s. fld (fld data ''export'') ''entries'' = JInt s"
    by (auto simp: gp_describe_def check_parts)
  then have "fld (fld data ''export'') ''size_bytes'' = JInt (plen (concat chunks))"
    "fld (fld data ''export'') ''entries'' = JInt (plen (g_entries doc))"
    using size c(2) doc(3) by auto
  then show ?thesis using d doc c sha by (intro exI [of _ described] exI [of _ data] exI [of _ chunks] exI [of _ doc] exI [of _ kinds]) auto
qed

subsection \<open>The export of an empty document\<close>

definition global_read :: json where
  "global_read = JObj [(u ''op'', lit ''export''), (u ''runtime'', lit ''rt''), (u ''snapshot_id'', global_uuid ''c''),
     (u ''offset'', JInt 0), (u ''max_bytes'', JInt 65536)]"

definition empty_export :: bytes where
  "empty_export = g_empty_bytes"

definition global_page :: json where
  "global_page = global_answer ''export''
    [(u ''snapshot_id'', global_uuid ''c''), (u ''revision'', global_digest ''1''),
     (u ''document_sha256'', lit ''a6a20076da005b27c9afc3a5d5b2457798c0ac817d1abc38b2fee4398ac3f133''),
     (u ''size_bytes'', JInt 26), (u ''offset'', JInt 0),
     (u ''chunk_sha256'', lit ''a6a20076da005b27c9afc3a5d5b2457798c0ac817d1abc38b2fee4398ac3f133''),
     (u ''data_base64'', JStr (b64encode empty_export)), (u ''next_offset'', JInt 26), (u ''eof'', JBool True)]"

lemma empty_export_sha: "sha256_hex empty_export = u ''a6a20076da005b27c9afc3a5d5b2457798c0ac817d1abc38b2fee4398ac3f133''"
  by code_simp

lemma global_read_ok:
  "gp_check_request global_read = Inr ()" "wire_value global_read" "no_html (ctext global_read) \<and> jsize global_read \<le> 8000"
  "wire_value global_page"
  by code_simp+

lemma empty_export_loads: "load_document empty_export = Inr (g_document [])" "g_canonical (g_document []) = Inr empty_export"
  "required_kinds (g_document []) = Inr []"
  by code_simp+


lemma global_page_ok: "gp_data global_read global_page (u ''ok'') = Inr \<lparr>ge_receipt = None, ge_chunk = Some empty_export\<rparr>"
proof -
  have f: "fld global_page ''data_base64'' = JStr (b64encode empty_export)"
    "fld global_page ''chunk_sha256'' = lit ''a6a20076da005b27c9afc3a5d5b2457798c0ac817d1abc38b2fee4398ac3f133''"
    "int_of (fld global_read ''max_bytes'') = 65536" "plen empty_export = 26"
    by code_simp+
  then have "gp_chunk (fld global_page ''data_base64'') (fld global_page ''chunk_sha256'') (int_of (fld global_read ''max_bytes''))
      = Inr empty_export"
    by (simp add: gp_chunk_ok empty_export_sha lit_def)
  moreover have "seqR
       [gp_shape global_page (GP_COMMON @ [''snapshot_id'', ''revision'', ''document_sha256'', ''size_bytes'', ''offset'',
          ''chunk_sha256'', ''data_base64'', ''next_offset'', ''eof'']),
        gp_equal global_page global_read ''snapshot_id'' ''snapshot_id'',
        on global_page ''revision'' (\<lambda>x. gp_pattern x digest_pat),
        on global_page ''document_sha256'' (\<lambda>x. gp_pattern x digest_pat),
        on global_page ''size_bytes'' (\<lambda>x. gp_integer x 1 GP_DOCUMENT_BYTES),
        on global_page ''offset'' (\<lambda>x. gp_integer x 0 (int_of (fld global_page ''size_bytes'') - 1)),
        gp_equal global_page global_read ''offset'' ''offset''] = Inr ()"
    by code_simp
  moreover have "on global_page ''next_offset'' (\<lambda>x. gp_integer x 1 (int_of (fld global_page ''size_bytes''))) = Inr ()"
    "has global_page ''next_offset''" "has global_page ''eof''" "fld global_page ''next_offset'' = JInt 26"
    "fld global_page ''eof'' = JBool True" "fld global_page ''offset'' = JInt 0" "fld global_page ''size_bytes'' = JInt 26"
    by code_simp+
  ultimately have "gp_export_data global_read global_page = Inr \<lparr>ge_receipt = None, ge_chunk = Some empty_export\<rparr>"
    using f(4) by (simp add: gp_export_data_def seqR_Cons_ok seqR_Nil_ok bindR_ok on_ok gp_require_ok)
  moreover have "onget global_page ''version'' (\<lambda>x. gp_integer x 1 1) = Inr ()"
    "onget global_page ''runtime'' (\<lambda>x. on global_read ''runtime'' (\<lambda>y. gp_require (py_eq x y))) = Inr ()"
    "onget global_page ''op'' (\<lambda>x. on global_read ''op'' (\<lambda>y. gp_require (py_eq x y))) = Inr ()"
    "onget global_page ''subject'' (\<lambda>x. gp_require (is_lit x ''global'')) = Inr ()" "\<not> has global_page ''error''"
    "has global_read ''op''" "fld global_read ''op'' = JStr (u ''export'')"
    by code_simp+
  ultimately show ?thesis by (simp add: gp_data_def gp_op_data_def on_ok gp_require_def on_has)
qed

lemma global_page_passes: "passes global_read global_page \<lparr>ge_receipt = None, ge_chunk = Some empty_export\<rparr>"
  using global_read_ok global_page_ok by (simp add: passes_def)

lemma global_export_binds:
  "gp_bind_describe (exchange global_describe global_described False None) global_read global_page = Inr ()"
proof -
  let ?d = "exchange global_describe global_described False None"
  have "on global_describe ''op'' (\<lambda>x. gp_match (is_lit x ''describe'')) = Inr ()" by code_simp
  then have c: "gp_checked ?d (Some ''describe'') = Inr ?d"
    using exchange_checked [OF global_passes(1), of "Some ''describe''" False None] by simp
  have "gp_plain_request (Parsed global_read) = Inr global_read"
    using global_page_passes by (intro wire_request) (auto simp: passes_def)
  then obtain env where env: "request_envelopes GP_ACTION global_read None = Inr env" "gp_envelope_bytes env \<le> GP_ENVELOPE_BYTES"
    by (auto simp: gp_plain_request_def bindR_ok rethrow_ok check_ok)
  have "gp_agree global_read ''runtime'' global_describe ''runtime'' = Inr ()" "has global_described ''limits''"
    "int_of (fld (fld global_described ''limits'') ''max_envelope_bytes'') = GP_ENVELOPE_BYTES"
    "fld global_read ''op'' = JStr (u ''export'')" "has global_described ''export''"
    "fld global_described ''export'' \<noteq> JNull"
    "int_of (fld global_read ''max_bytes'') \<le> int_of (fld (fld global_described ''limits'') ''max_export_bytes'')"
    "py_eq (fld global_page ''revision'') (fld global_described ''revision'')"
    "list_all (\<lambda>k. py_eq (fld global_page k) (fld (fld global_described ''export'') k)) [''snapshot_id'', ''document_sha256'', ''size_bytes'']"
    by code_simp+
  then show ?thesis
    unfolding gp_bind_describe_def c exchange_reads [OF global_passes(1)] bindR_Inr env(1)
    using env(2) by (simp add: on_has gp_match_def seqR_Cons_ok)
qed

lemma global_export_result:
  "assemble_export (exchange global_describe global_described False None) [exchange global_read global_page False None]
    = Inr \<lparr>raw_export = empty_export, export_revision = global_digest ''1'',
        export_sha256 = lit ''a6a20076da005b27c9afc3a5d5b2457798c0ac817d1abc38b2fee4398ac3f133''\<rparr>"
proof -
  let ?d = "exchange global_describe global_described False None" and ?e = "\<lparr>ge_receipt = None, ge_chunk = Some empty_export\<rparr>"
  let ?p = "exchange global_read global_page False (Some empty_export)"
  have "on global_describe ''op'' (\<lambda>x. gp_match (is_lit x ''describe'')) = Inr ()" by code_simp
  then have c: "gp_checked ?d (Some ''describe'') = Inr ?d"
    using exchange_checked [OF global_passes(1), of "Some ''describe''" False None] by simp
  have "on global_read ''op'' (\<lambda>x. gp_match (is_lit x ''export'')) = Inr ()" by code_simp
  then have p: "gp_checked (exchange global_read global_page False None) (Some ''export'') = Inr ?p"
    using exchange_checked [OF global_page_passes, of "Some ''export''" False None] by simp
  have v: "gp_validate_result (Parsed global_read) (Raw (gr_data ?p)) (gr_request_id ?p) (gr_request_id ?p) (lit ''ok'')
              None GP_METADATA_BYTES (Some ?d) None = Inr ?p"
    using exchange_core [OF global_page_passes, of "Raw (wire_of global_page)" "gp_binder None (Some ?d) None" False] global_export_binds
    by (simp add: gp_validate_result_def gp_binder_def exchange_def seqR_Cons_ok)
  note reads = exchange_reads [OF global_passes(1)] exchange_reads [OF global_page_passes]
  have off: "on global_read ''offset'' (\<lambda>x. check gp_incomplete (py_eq x (JInt 0))) = Inr ()" by code_simp
  have chunk: "gr_chunk ?p = Some empty_export" by (simp add: exchange_def)
  have "has global_page ''next_offset''" "fld global_page ''next_offset'' = JInt 26" by code_simp+
  then have one: "export_page ?d ([], JInt 0, None) (exchange global_read global_page False None) = Inr ([empty_export], JInt 26, Some ?p)"
    by (simp add: export_page_def p reads off v chunk on_has)
  have f: "has global_described ''export''" "fld global_described ''export'' \<noteq> JNull"
    "fld (fld global_described ''export'') ''size_bytes'' = JInt 26" "fld global_page ''eof'' = JBool True"
    "fld (fld global_described ''export'') ''document_sha256'' = lit ''a6a20076da005b27c9afc3a5d5b2457798c0ac817d1abc38b2fee4398ac3f133''"
    "fld global_described ''revision'' = global_digest ''1''"
    "fld (fld global_described ''export'') ''entries'' = JInt 0" "plen (g_entries (g_document [])) = 0"
    by code_simp+
  show ?thesis
    unfolding assemble_export_def c reads bindR_Inr
    by (simp add: f on_has foldR_Cons one reads empty_export_sha lit_def empty_export_loads)
qed

theorem export_exact_witness:
  "\<exists>E. assemble_export (exchange global_describe global_described False None) [exchange global_read global_page False None] = Inr E \<and>
     fld (fld global_described ''export'') ''document_sha256'' = JStr (sha256_hex (raw_export E)) \<and> raw_export E \<noteq> []"
proof -
  note r = global_export_result
  have "raw_export \<lparr>raw_export = empty_export, export_revision = global_digest ''1'',
        export_sha256 = lit ''a6a20076da005b27c9afc3a5d5b2457798c0ac817d1abc38b2fee4398ac3f133''\<rparr> \<noteq> []" by code_simp
  moreover from export_exact [OF r] obtain described data where
    "gp_checked (exchange global_describe global_described False None) (Some ''describe'') = Inr described"
    "gr_data_of described = Inr data" "fld (fld data ''export'') ''document_sha256'' = JStr (sha256_hex empty_export)" by auto
  moreover have "on global_describe ''op'' (\<lambda>x. gp_match (is_lit x ''describe'')) = Inr ()" by code_simp
  ultimately show ?thesis
    using r exchange_checked [OF global_passes(1), of "Some ''describe''" False None] exchange_reads [OF global_passes(1)] by auto
qed

end
