(* ===== verification/GlobalPreviewProps.thy ===== *)
theory GlobalPreviewProps
  imports GlobalProtocolProps
begin

text \<open>
  The properties of \<open>validate_preview_pages\<close> and \<open>validate_metadata_conflicts\<close>: what a complete preview
  establishes about its rows, and what its conflicts say about the two documents.
\<close>

section \<open>Complete previews\<close>

definition row_state :: "json \<Rightarrow> pystr" where
  "row_state r = str_of (fld r ''state'')"

definition state_counts :: "json list \<Rightarrow> (pystr \<times> int) list" where
  "state_counts rows = map (\<lambda>s. (u s, plen (filter (\<lambda>r. row_state r = u s) rows))) RESOLUTION"

definition conflict_indices :: "json list \<Rightarrow> int list" where
  "conflict_indices rows =
     map (\<lambda>r. int_of (fld (fld r ''metadata_conflict'') ''incoming_entry_index'')) (filter (\<lambda>r. has r ''metadata_conflict'') rows)"

lemma state_counts_Nil: "state_counts [] = no_counts"
  by (simp add: state_counts_def no_counts_def plen_def)

lemma state_counts_snoc: "bump (row_state r) (state_counts rows) = state_counts (rows @ [r])"
  by (auto simp: bump_def state_counts_def plen_def)

lemma conflict_indices_simps:
  "conflict_indices [] = []" "conflict_indices (rows @ rs) = conflict_indices rows @ conflict_indices rs"
  by (simp_all add: conflict_indices_def)

lemma collect_row_ok:
  assumes "collect_row (state_counts rows, rows, rev (conflict_indices rows)) r = Inr st" "distinct (conflict_indices rows)"
  shows "st = (state_counts (rows @ [r]), rows @ [r], rev (conflict_indices (rows @ [r]))) \<and> distinct (conflict_indices (rows @ [r]))"
  using assms state_counts_snoc [of r rows]
  by (auto simp: collect_row_def Let_def bindR_ok gp_match_ok row_state_def conflict_indices_def split: if_splits)

lemma collect_rows_ok:
  assumes "foldR collect_row (state_counts rows, rows, rev (conflict_indices rows)) rs = Inr st" "distinct (conflict_indices rows)"
  shows "st = (state_counts (rows @ rs), rows @ rs, rev (conflict_indices (rows @ rs))) \<and> distinct (conflict_indices (rows @ rs))"
  using assms
proof (induction rs arbitrary: rows)
  case (Cons r rs)
  from Cons.prems(1) obtain st1 where one: "collect_row (state_counts rows, rows, rev (conflict_indices rows)) r = Inr st1"
    and rest: "foldR collect_row st1 rs = Inr st" by (auto simp: ok_iff)
  from collect_row_ok [OF one Cons.prems(2)] rest Cons.IH [of "rows @ [r]"] show ?case by auto
qed (auto simp: ok_iff)

lemma preview_rows_indexed:
  assumes "foldR (preview_row data) st (enumerate n rows) = Inr st'" "i < length rows"
  shows "fld (rows ! i) ''entry_index'' = JInt (int (n + i)) \<and> is_str (fld (rows ! i) ''state'')"
proof -
  have "(n + i, rows ! i) \<in> set (enumerate n rows)" using assms(2) by (simp add: in_set_enumerate_eq)
  from foldR_member [OF assms(1) this] obtain s s' where "preview_row data s (n + i, rows ! i) = Inr s'" by blast
  then show ?thesis by (auto simp: preview_row_def check_parts split: prod.splits)
qed

text \<open>The rows of one page: the next ones, in order.\<close>

lemma preview_page_ok:
  assumes "preview_page c (at_offset, previous, state_counts rows, rows, rev (conflict_indices rows)) p = Inr st"
    and "0 \<le> at_offset" "distinct (conflict_indices rows)"
  shows "\<exists>rs prev. st = (at_offset + plen rs, prev, state_counts (rows @ rs), rows @ rs, rev (conflict_indices (rows @ rs))) \<and>
    prev \<noteq> None \<and> distinct (conflict_indices (rows @ rs)) \<and> (\<forall>i < length rs. fld (rs ! i) ''entry_index'' = JInt (at_offset + int i))"
proof -
  from assms(1) obtain page req checked data st1
    where page: "gp_checked p (Some ''preview'') = Inr page" and req: "gr_request_of page = Inr req"
      and off: "py_eq (fld req ''page_offset'') (JInt at_offset)"
      and chk: "gp_validate_result (Parsed req) (Raw (gr_data page)) (gr_request_id page) (gr_request_id page) (lit ''ok'')
              (Some c) GP_METADATA_BYTES None previous = Inr checked"
      and data: "gr_data_of checked = Inr data"
      and fold: "foldR collect_row (state_counts rows, rows, rev (conflict_indices rows)) (list_of (fld data ''rows'')) = Inr st1"
      and st: "st = (at_offset + plen (list_of (fld data ''rows'')), Some checked, st1)"
    by (auto simp: preview_page_def bindR_ok on_ok gp_match_ok split: prod.splits)
  let ?rs = "list_of (fld data ''rows'')"
  obtain d0 e0 where p: "gp_check_request req = Inr ()" "fld req ''op'' = JStr (u ''preview'')" "plain req"
    by (rule gp_checked_ok [OF page]) (use req in \<open>auto simp: is_lit_def\<close>)
  from gp_validate_result_ok [OF chk] data obtain ps e
    where ps: "gp_plain_request (Parsed req) = Inr ps" and e: "gp_data ps data (gr_status checked) = Inr e"
      and ok: "JStr (gr_status checked) = lit ''ok''" by auto
  from gp_plain_request_same [OF ps p(3)] have ps: "ps = req" .
  have "gp_op_data req data = Inr e"
  proof (rule gp_data_op [OF e [unfolded ps]])
    show "gr_status checked = u ''ok''" using ok by (simp add: lit_def)
  qed
  then have prev: "gp_preview req data = Inr ()" using p(2) by (auto simp: gp_op_data_def on_ok gp_plainly_ok)
  then have "gp_preview_page req data = Inr ()" by (auto simp: gp_preview_def check_parts)
  then obtain o' st2 where o': "fld data ''page_offset'' = JInt o'" "py_eq (JInt o') (fld req ''page_offset'')"
      and rows: "foldR (preview_row data) (no_counts, []) (enumerate (nat o') ?rs) = Inr st2"
    by (auto simp: gp_preview_page_def Let_def bindR_ok gp_integer_ok gp_require_ok)
  obtain r where "fld req ''page_offset'' = JInt r"
    using request_op [OF p(1)] p(2) by (auto simp: gp_request_details_def check_parts)
  with off o'(2) have oat: "o' = at_offset" by simp
  have "fld (?rs ! i) ''entry_index'' = JInt (at_offset + int i)" if "i < length ?rs" for i
    using preview_rows_indexed [OF rows that] oat assms(2) by simp
  moreover from collect_rows_ok [OF fold assms(3)] have "st1 = (state_counts (rows @ ?rs), rows @ ?rs, rev (conflict_indices (rows @ ?rs)))"
    "distinct (conflict_indices (rows @ ?rs))" by auto
  ultimately show ?thesis using st by auto
qed

lemma preview_pages_ok:
  assumes "foldR (preview_page c) (plen rows, previous, state_counts rows, rows, rev (conflict_indices rows)) pages = Inr st"
    and "distinct (conflict_indices rows)" "\<forall>i < length rows. fld (rows ! i) ''entry_index'' = JInt (int i)"
  shows "\<exists>all prev. st = (plen all, prev, state_counts all, all, rev (conflict_indices all)) \<and> distinct (conflict_indices all) \<and>
    (\<forall>i < length all. fld (all ! i) ''entry_index'' = JInt (int i))"
  using assms
proof (induction pages arbitrary: rows previous)
  case Nil
  then show ?case by (auto simp: ok_iff)
next
  case (Cons p pages)
  from Cons.prems(1) obtain st1 where one: "preview_page c (plen rows, previous, state_counts rows, rows, rev (conflict_indices rows)) p = Inr st1"
    and rest: "foldR (preview_page c) st1 pages = Inr st" by (auto simp: ok_iff)
  from preview_page_ok [OF one _ Cons.prems(2)] obtain rs prev
    where rs: "st1 = (plen (rows @ rs), prev, state_counts (rows @ rs), rows @ rs, rev (conflict_indices (rows @ rs)))"
      "distinct (conflict_indices (rows @ rs))" "\<forall>i < length rs. fld (rs ! i) ''entry_index'' = JInt (plen rows + int i)"
    by (auto simp: plen_def)
  have "\<forall>i < length (rows @ rs). fld ((rows @ rs) ! i) ''entry_index'' = JInt (int i)"
    using Cons.prems(3) rs(3) by (auto simp: nth_append plen_def)
  from Cons.IH [OF rest [unfolded rs(1)] rs(2) this] show ?case .
qed

text \<open>
  C26: A complete preview lists every entry of the resulting document once and in order: row \<open>i\<close> is about
  entry \<open>i\<close>, there are as many rows as the retained preview counts entries after the plan, as many in
  each state as it counts for that state, no incoming entry is in conflict twice, and there is a
  conflict exactly when the preview is blocked by one.
\<close>

theorem preview_complete:
  assumes "validate_preview_pages c pages = Inr rows"
  shows "\<exists>started first data. gp_context_parts c = Inr (started, Some first) \<and> gr_data_of first = Inr data \<and>
    plen rows = int_of (fld (fld data ''counts'') ''after'') \<and>
    (\<forall>i < length rows. fld (rows ! i) ''entry_index'' = JInt (int i)) \<and>
    py_eq (JObj (map (\<lambda>(k, n). (k, JInt n)) (state_counts rows))) (fld data ''resolution_counts'') \<and>
    distinct (conflict_indices rows) \<and>
    ((\<exists>row \<in> set rows. has row ''metadata_conflict'') \<longleftrightarrow> is_lit (fld data ''blocker'') ''metadata_conflict'')"
proof -
  from assms obtain started first data off prev totals indices
    where parts: "gp_context_parts c = Inr (started, Some first)" "gr_data_of first = Inr data"
      and fold: "foldR (preview_page c) (0, None, no_counts, [], []) pages = Inr (off, prev, totals, rows, indices)"
      and fin: "off = int_of (fld (fld data ''counts'') ''after'')"
        "py_eq (JObj (map (\<lambda>(k, n). (k, JInt n)) totals)) (fld data ''resolution_counts'')"
        "(indices \<noteq> []) = is_lit (fld data ''blocker'') ''metadata_conflict''"
    by (auto simp: validate_preview_pages_def bindR_ok gp_match_ok Let_def simp del: py_eq.simps split: option.splits) blast+
  from preview_pages_ok [of c "[]" None pages] fold
  have "off = plen rows" "totals = state_counts rows" "indices = rev (conflict_indices rows)" "distinct (conflict_indices rows)"
    "\<forall>i < length rows. fld (rows ! i) ''entry_index'' = JInt (int i)"
    by (auto simp: state_counts_Nil conflict_indices_simps)
  moreover from this(3) have "(indices \<noteq> []) = (\<exists>row \<in> set rows. has row ''metadata_conflict'')"
    by (auto simp: conflict_indices_def filter_empty_conv)
  ultimately show ?thesis using parts fin by (auto simp del: py_eq.simps)
qed

lemma global_preview_binds: "gp_bind_context global_context global_look global_preview None = Inr ()"
  unfolding gp_bind_context_def global_context_parts bindR_Inr prod.case exchange_reads [OF global_passes(2)]
    exchange_reads [OF global_passes(3)] option.case
  by code_simp

lemma global_preview_pages:
  "validate_preview_pages global_context [exchange global_look global_preview False None]
    = Inr [global_row 0 ''resolved'', global_row 1 ''missing'']"
proof -
  let ?p = "exchange global_look global_preview False None"
  have "on global_look ''op'' (\<lambda>x. gp_match (is_lit x ''preview'')) = Inr ()" by code_simp
  then have p: "gp_checked ?p (Some ''preview'') = Inr ?p"
    using exchange_checked [OF global_passes(3), of "Some ''preview''" False None] by simp
  have v: "gp_validate_result (Parsed global_look) (Raw (gr_data ?p)) (gr_request_id ?p) (gr_request_id ?p) (lit ''ok'')
              (Some global_context) GP_METADATA_BYTES None None = Inr ?p"
    using exchange_core [OF global_passes(3), of "Raw (wire_of global_preview)" "gp_binder (Some global_context) None None" True]
      global_preview_binds
    by (simp add: gp_validate_result_def gp_binder_def exchange_def seqR_Cons_ok)
  note reads = exchange_reads [OF global_passes(3)]
  have f: "on global_look ''page_offset'' (\<lambda>x. gp_match (py_eq x (JInt 0))) = Inr ()" "has global_preview ''rows''"
    "list_of (fld global_preview ''rows'') = [global_row 0 ''resolved'', global_row 1 ''missing'']"
    "foldR collect_row (no_counts, [], []) [global_row 0 ''resolved'', global_row 1 ''missing''] =
       Inr (map (\<lambda>(k, n). (u k, n)) [(''resolved'', 1), (''missing'', 1), (''ambiguous'', 0), (''unsupported'', 0)],
         [global_row 0 ''resolved'', global_row 1 ''missing''], [])"
    "int_of (fld (fld global_preview ''counts'') ''after'') = 2" "fld global_preview ''next_offset'' = JNull"
    "py_eq (JObj (map (\<lambda>(k, n). (k, JInt n)) (map (\<lambda>(k, n). (u k, n))
       [(''resolved'', 1), (''missing'', 1), (''ambiguous'', 0), (''unsupported'', 0)]))) (fld global_preview ''resolution_counts'')"
    "is_lit (fld global_preview ''blocker'') ''metadata_conflict'' = False"
    by code_simp+
  from f(1-4) have one: "preview_page global_context (0, None, no_counts, [], []) ?p =
     Inr (2, Some ?p, map (\<lambda>(k, n). (u k, n)) [(''resolved'', 1), (''missing'', 1), (''ambiguous'', 0), (''unsupported'', 0)],
       [global_row 0 ''resolved'', global_row 1 ''missing''], [])"
    unfolding preview_page_def prod.case p bindR_Inr reads v by (simp add: on_has plen_def)
  show ?thesis
    unfolding validate_preview_pages_def global_context_parts bindR_Inr prod.case option.case reads Let_def
    by (simp add: f(5-8) foldR_Cons one reads gp_match_def plen_def del: py_eq.simps list.map map_map)
qed

theorem preview_complete_witness:
  "\<exists>rows. validate_preview_pages global_context [exchange global_look global_preview False None] = Inr rows \<and> plen rows = 2 \<and>
     \<not> (\<exists>row \<in> set rows. has row ''metadata_conflict'')"
proof -
  have "int_of (fld (fld global_preview ''counts'') ''after'') = 2" "\<not> is_lit (fld global_preview ''blocker'') ''metadata_conflict''"
    by code_simp+
  with preview_complete [OF global_preview_pages] global_preview_pages global_context_parts exchange_reads [OF global_passes(3)]
  show ?thesis by fastforce
qed

section \<open>Metadata conflicts\<close>

lemma py_index_ok: "py_index xs (JInt i) = Inr x \<Longrightarrow> 0 \<le> i \<Longrightarrow> i < plen xs \<and> x = xs ! nat i"
  by (auto simp: py_index_def Let_def split: if_splits)

text \<open>
  When the conflicts of a preview pass against the two documents, each names an entry of the
  resulting document and an entry of the incoming one that have the same identity, the same origin
  and locator, and different titles.
\<close>

theorem conflicts_are_title_clashes:
  assumes "validate_metadata_conflicts rows incoming result_document = Inr ()"
    and "row \<in> set rows" "has row ''metadata_conflict''" "fld row ''entry_index'' = JInt i" "0 \<le> i"
    and "fld (fld row ''metadata_conflict'') ''incoming_entry_index'' = JInt j" "0 \<le> j"
  shows "\<exists>new old key. g_validate incoming = Inr new \<and> g_validate result_document = Inr old \<and>
    i < plen (g_entries old) \<and> j < plen (g_entries new) \<and>
    g_identity (g_entries old ! nat i) = Inr key \<and> g_identity (g_entries new ! nat j) = Inr key \<and>
    \<not> same_title (g_entries old ! nat i) (g_entries new ! nat j)"
proof -
  from assms(1,2) obtain new old where v: "g_validate incoming = Inr new" "g_validate result_document = Inr old"
    and row: "conflict_row (g_entries new) (g_entries old) row = Inr ()"
    by (auto simp: validate_metadata_conflicts_def rethrow_ok bindR_ok forR_ok)
  from row assms(3,4,6) obtain a b ka kb where ab: "py_index (g_entries old) (JInt i) = Inr a" "py_index (g_entries new) (JInt j) = Inr b"
    "g_identity a = Inr ka" "g_identity b = Inr kb" "ka = kb" "\<not> same_title a b"
    by (auto simp: conflict_row_def bindR_ok on_ok gp_match_ok)
  with py_index_ok [OF ab(1) assms(5)] py_index_ok [OF ab(2) assms(7)] v show ?thesis by auto
qed

theorem conflicts_are_title_clashes_witness:
  "\<exists>e1 e2 row. validate_metadata_conflicts [row] (g_document [e1]) (g_document [e2]) = Inr () \<and>
     fld (fld row ''metadata_conflict'') ''incoming_entry_index'' = JInt 0 \<and> \<not> same_title e2 e1"
proof -
  let ?e = "\<lambda>t. JObj [(u ''locator'', JObj [(u ''channelId'', lit ''c1''), (u ''kind'', lit ''channel'')]),
     (u ''origin'', JObj [(u ''profile'', lit ''home''), (u ''provider'', lit ''iptv''), (u ''sourceAlias'', lit ''main''),
        (u ''subprofile'', JNull)]), (u ''title'', lit t)]"
  let ?row = "JObj [(u ''entry_index'', JInt 0), (u ''state'', lit ''resolved''),
     (u ''metadata_conflict'', JObj [(u ''reason'', lit ''title_mismatch''), (u ''incoming_entry_index'', JInt 0)])]"
  have ok: "validate_metadata_conflicts [?row] (g_document [?e ''one'']) (g_document [?e ''two'']) = Inr ()"
    "g_validate (g_document [?e ''one'']) = Inr (g_document [?e ''one''])"
    "g_validate (g_document [?e ''two'']) = Inr (g_document [?e ''two''])"
    "g_entries (g_document [?e ''one'']) = [?e ''one'']" "g_entries (g_document [?e ''two'']) = [?e ''two'']"
    by code_simp+
  have f: "has ?row ''metadata_conflict''" "fld ?row ''entry_index'' = JInt 0"
    "fld (fld ?row ''metadata_conflict'') ''incoming_entry_index'' = JInt 0"
    by code_simp+
  from conflicts_are_title_clashes [OF ok(1), of ?row 0 0] f ok(2-5) have "\<not> same_title (?e ''two'') (?e ''one'')" by auto
  with ok(1) f(3) show ?thesis by blast
qed

end
