(* ===== verification/GlobalItems.thy ===== *)
theory GlobalItems
  imports GlobalProtocolResult RemoteTransport
begin

text \<open>
  \<open>src/cli/global_favorites_items.py\<close>: the list/current/play protocol and its peer. The protocol's own
  checks come first, then \<open>ItemsPeer\<close> as operations on the state of its transport, the listing it has
  issued last and whether an item of that listing has been played.
\<close>

section \<open>Constants\<close>

abbreviation GI_METADATA_BYTES :: int where "GI_METADATA_BYTES \<equiv> 65536"
abbreviation GI_RESPONSE_BYTES :: int where "GI_RESPONSE_BYTES \<equiv> 2097152"
abbreviation GI_ENVELOPE_BYTES :: int where "GI_ENVELOPE_BYTES \<equiv> 16384"
abbreviation GI_MAX_ENTRIES :: int where "GI_MAX_ENTRIES \<equiv> 1000"
abbreviation MAX_PAGE_ENTRIES :: int where "MAX_PAGE_ENTRIES \<equiv> 100"

definition GI_ACTION :: pystr where
  "GI_ACTION = u ''favorites_global_items''"

definition GI_OPS :: "string list" where
  "GI_OPS = [''list'', ''current'', ''play'']"

definition GI_COMMON :: "string list" where
  "GI_COMMON = [''version'', ''runtime'', ''op'', ''subject'']"

definition REVISIONS :: "string list" where
  "REVISIONS = [''revision'', ''context_revision'']"

definition UNAVAILABLE :: "string list" where
  "UNAVAILABLE = [''no_portable_current_item'', ''standby'', ''unsupported_provider'']"

definition GI_ERRORS :: "string list" where
  "GI_ERRORS = [''invalid_request'', ''envelope_too_large'', ''unsupported'', ''runtime_changed'', ''expired'',
     ''cancelled'', ''policy_denied'', ''busy'', ''storage_unavailable'', ''unsupported_persistence'',
     ''limits_exceeded'', ''invalid_cursor'', ''revision_conflict'', ''context_changed'', ''favorite_not_found'',
     ''source_unavailable'', ''ambiguous_source'', ''item_unavailable'', ''ambiguous_item'', ''unsupported_item'',
     ''playback_failed'']"

definition cursor_pat :: "pystr \<Rightarrow> bool" where
  "cursor_pat = rep_pat (\<lambda>c. is_alnum c \<or> one_of ''_-'' c) 1 512"

section \<open>Requests\<close>

definition gi_cursor :: "json \<Rightarrow> unit result" where
  "gi_cursor v = (if v = JNull then Inr () else gp_pattern v cursor_pat)"

definition gi_portable :: "json list \<Rightarrow> json result" where
  "gi_portable entries =
     rethrow is_GlobalDocumentError gp_invalid
       (g_validate (JObj [(u ''version'', JInt 1), (u ''entries'', JArr entries)]))"

definition gi_request_fields :: "json \<Rightarrow> json \<Rightarrow> unit result" where
  "gi_request_fields op v =
     (if is_lit op ''list'' then seqR
        [gp_shape v [''runtime'', ''op'', ''subject'', ''cursor'', ''max_entries''],
         on v ''cursor'' gi_cursor,
         on v ''max_entries'' (\<lambda>x. gp_integer x 1 MAX_PAGE_ENTRIES)]
      else if is_lit op ''current'' then gp_shape v [''runtime'', ''op'', ''subject'']
      else seqR
        [gp_shape v [''runtime'', ''op'', ''subject'', ''id'', ''expected_revision'', ''expected_context_revision''],
         on v ''id'' (\<lambda>x. gp_pattern x uuid4_pat),
         forR (\<lambda>k. on v k (\<lambda>x. gp_pattern x digest_pat)) [''expected_revision'', ''expected_context_revision'']])"

definition gi_check_request :: "json \<Rightarrow> unit result" where
  "gi_check_request v = seqR
     [onget v ''runtime'' (\<lambda>x. gp_pattern x runtime_pat),
      onget v ''subject'' (\<lambda>s. onget v ''op'' (\<lambda>op. gp_require (is_lit s ''global'' \<and> is_str op \<and> in_lits op GI_OPS))),
      on v ''op'' (\<lambda>op. gi_request_fields op v)]"

definition gi_validate_request :: "wire \<Rightarrow> json result" where
  "gi_validate_request w =
     bindR (gp_object w GI_ENVELOPE_BYTES) (\<lambda>(v, _).
     bindR (gi_check_request v) (\<lambda>_.
     bindR (rethrow is_TransferError gp_invalid (request_envelopes GI_ACTION v None)) (\<lambda>env.
     bindR (check gp_oversized (gp_envelope_bytes env \<le> GI_ENVELOPE_BYTES)) (\<lambda>_. Inr v))))"

section \<open>Answers\<close>

text \<open>The loop over the rows of a page: their ids and their entries.\<close>

definition gi_row :: "pystr list \<times> json list \<Rightarrow> json \<Rightarrow> (pystr list \<times> json list) result" where
  "gi_row s row = (case s of (ids, entries) \<Rightarrow>
     bindR (gp_shape row [''id'', ''entry'']) (\<lambda>_.
     on row ''id'' (\<lambda>i.
     bindR (gp_pattern i uuid4_pat) (\<lambda>_.
     bindR (gp_require (str_of i \<notin> set ids)) (\<lambda>_.
     on row ''entry'' (\<lambda>e. Inr (str_of i # ids, entries @ [e])))))))"

definition gi_page_end :: "json \<Rightarrow> json \<Rightarrow> int \<Rightarrow> unit result" where
  "gi_page_end params d n =
     (let begins = int_of (fld d ''page_offset''); total = int_of (fld d ''total''); cursor = fld params ''cursor'' in seqR
       [gp_require (begins + n \<le> total),
        gp_require (if cursor = JNull then begins = 0 else 0 < begins),
        (if n = 0 then gp_require (cursor = JNull \<and> begins = 0 \<and> total = 0) else Inr ()),
        on d ''next_cursor'' gi_cursor,
        (if begins + n < total
         then gp_require (n \<noteq> 0 \<and> fld d ''next_cursor'' \<noteq> JNull \<and> \<not> py_eq (fld d ''next_cursor'') cursor)
         else gp_require (fld d ''next_cursor'' = JNull))])"

definition gi_page :: "json \<Rightarrow> json \<Rightarrow> unit result" where
  "gi_page params d =
     bindR (seqR
       [gp_shape d (GI_COMMON @ REVISIONS @ [''cursor'', ''page_offset'', ''total'', ''entries'', ''next_cursor'',
          ''unresolved_legacy_count'']),
        on d ''cursor'' (\<lambda>a. on params ''cursor'' (\<lambda>b. gp_match (py_eq a b))),
        on d ''page_offset'' (\<lambda>x. gp_integer x 0 GI_MAX_ENTRIES),
        on d ''total'' (\<lambda>x. gp_integer x 0 GI_MAX_ENTRIES),
        on d ''unresolved_legacy_count'' (\<lambda>x. gp_integer x 0 100),
        on d ''entries'' (\<lambda>rows. on params ''max_entries'' (\<lambda>m.
          gp_require (is_list rows \<and> plen (list_of rows) \<le> int_of m)))]) (\<lambda>_.
     bindR (foldR gi_row ([], []) (list_of (fld d ''entries''))) (\<lambda>(ids, entries).
     bindR (gi_portable entries) (\<lambda>_.
       gi_page_end params d (plen (list_of (fld d ''entries''))))))"

definition gi_current :: "json \<Rightarrow> unit result" where
  "gi_current d = seqR
     [gp_shape d (GI_COMMON @ REVISIONS @ [''entry'', ''unavailable_reason'']),
      on d ''entry'' (\<lambda>e. on d ''unavailable_reason'' (\<lambda>why.
        if e = JNull then gp_require (is_str why \<and> in_lits why UNAVAILABLE)
        else seqR [gp_require (why = JNull), bindR (gi_portable [e]) (\<lambda>_. Inr ())]))]"

definition gi_play :: "json \<Rightarrow> json \<Rightarrow> unit result" where
  "gi_play params d = seqR
     [gp_shape d (GI_COMMON @ REVISIONS @ [''id'', ''dispatched'']),
      on d ''dispatched'' (\<lambda>b. on d ''id'' (\<lambda>i. on d ''revision'' (\<lambda>r. on d ''context_revision'' (\<lambda>c.
      on params ''id'' (\<lambda>pi. on params ''expected_revision'' (\<lambda>pr. on params ''expected_context_revision'' (\<lambda>pc.
        gp_match (b = JBool True \<and> py_eq i pi \<and> py_eq r pr \<and> py_eq c pc))))))))]"

definition gi_error :: "pystr \<Rightarrow> json \<Rightarrow> unit result" where
  "gi_error status d = seqR
     [gp_shape d (GI_COMMON @ [''error'']),
      on d ''error'' (\<lambda>e. gp_require ((status = u ''rejected'' \<or> status = u ''unsupported'') \<and> is_str e \<and> in_lits e GI_ERRORS))]"

definition gi_data :: "json \<Rightarrow> pystr \<Rightarrow> json \<Rightarrow> unit result" where
  "gi_data params status d =
     bindR (seqR
       [onget d ''version'' (\<lambda>x. gp_integer x 1 1),
        onget d ''runtime'' (\<lambda>a. on params ''runtime'' (\<lambda>b. onget d ''op'' (\<lambda>c. on params ''op'' (\<lambda>e. onget d ''subject'' (\<lambda>s.
          gp_match (py_eq a b \<and> py_eq c e \<and> is_lit s ''global''))))))]) (\<lambda>_.
     if has d ''error'' then gi_error status d
     else seqR
       [gp_require (status = u ''ok''),
        forR (\<lambda>k. onget d k (\<lambda>x. gp_pattern x digest_pat)) REVISIONS,
        on params ''op'' (\<lambda>op.
          if is_lit op ''list'' then gi_page params d
          else if is_lit op ''current'' then gi_current d
          else gi_play params d)])"

definition gi_validate_result ::
  "wire \<Rightarrow> wire \<Rightarrow> json \<Rightarrow> json \<Rightarrow> json \<Rightarrow> gp_context option \<Rightarrow> int \<Rightarrow> gp_result result" where
  "gi_validate_result params data request_id response_id status ctx max_metadata =
     bindR (gp_require (ctx = None)) (\<lambda>_.
     bindR (gp_integer (JInt max_metadata) 1 GI_METADATA_BYTES) (\<lambda>_.
     bindR (gi_validate_request params) (\<lambda>ps.
     bindR (gp_pattern request_id request_id_pat) (\<lambda>_.
     bindR (gp_require (py_eq response_id request_id \<and> is_str status
              \<and> in_lits status [''ok'', ''rejected'', ''unsupported''])) (\<lambda>_.
     bindR (gp_object data max_metadata) (\<lambda>(d, raw).
     bindR (gi_data ps (str_of status) d) (\<lambda>_.
     bindR (gp_encoded ps) (\<lambda>req.
       Inr \<lparr>gr_request = req, gr_data = raw, gr_status = str_of status, gr_request_id = request_id,
         gr_verified = False, gr_chunk = None\<rparr>))))))))"

definition gi_validate_response ::
  "unicode_tables \<Rightarrow> wire \<Rightarrow> wire \<Rightarrow> json \<Rightarrow> gp_context option \<Rightarrow> int \<Rightarrow> gp_result result" where
  "gi_validate_response tables params response request_id ctx max_metadata =
     bindR (gp_object response GI_RESPONSE_BYTES) (\<lambda>(r, raw).
     bindR (gp_shape r [''id'', ''status'', ''data'']) (\<lambda>_.
     bindR (utf8_decode raw) (\<lambda>text.
     bindR (data_token tables (length text) (drop 1 (dropWhile (\<lambda>c. c \<noteq> 123) text))) (\<lambda>token.
     bindR (utf8_encode token) (\<lambda>data.
     on r ''id'' (\<lambda>i. on r ''status'' (\<lambda>status.
       gi_validate_result params (Raw data) request_id i status ctx max_metadata)))))))"

text \<open>The protocol module as its transport sees it.\<close>

definition items_protocol :: "unicode_tables \<Rightarrow> (gp_result, gp_context) protocol" where
  "items_protocol tables = \<lparr>pt_action = GI_ACTION, pt_request = (\<lambda>v. gi_validate_request (Parsed v)),
     pt_response = (\<lambda>ps b rid ctx m. gi_validate_response tables (Parsed ps) (Raw b) rid ctx m),
     pt_status = gr_status, pt_error = is_GlobalProtocolError\<rparr>"

section \<open>The peer\<close>

text \<open>A listing is an object: \<open>ls_serial\<close> tells two of them apart that hold the same evidence.\<close>

record listing =
  ls_target :: "pystr \<times> pystr \<times> pystr"
  ls_data :: bytes
  ls_serial :: nat

definition listing_data :: "listing \<Rightarrow> json result" where
  "listing_data l = loads_bytes (ls_data l)"

definition row_entries :: "json list \<Rightarrow> json list" where
  "row_entries rows = map (\<lambda>row. fld row ''entry'') rows"

definition listing_document :: "listing \<Rightarrow> json result" where
  "listing_document l = bindR (listing_data l) (\<lambda>d. gi_portable (row_entries (list_of (fld d ''entries''))))"

text \<open>\<open>it_busy\<close> is the operation lock; \<open>it_serial\<close> numbers the listings.\<close>

record items_state =
  it_wire :: wire_state
  it_listing :: "listing option"
  it_played :: bool
  it_busy :: bool
  it_serial :: nat

definition open_items :: "json \<Rightarrow> json \<Rightarrow> json \<Rightarrow> json \<Rightarrow> wire_state \<Rightarrow> (peer \<times> items_state) result" where
  "open_items device runtime timeout deadline s =
     (case open_transport device runtime (JInt GI_ENVELOPE_BYTES) (JInt GI_RESPONSE_BYTES) timeout (JInt GI_METADATA_BYTES)
             deadline (Some GI_OPS) s of
        (Inl e, _) \<Rightarrow> Inl e
      | (Inr pr, s') \<Rightarrow> Inr (pr, \<lparr>it_wire = s', it_listing = None, it_played = False, it_busy = False, it_serial = 0\<rparr>))"

definition on_wire :: "(wire_state, 'a) io \<Rightarrow> (items_state, 'a) io" where
  "on_wire m st = (case m (it_wire st) of (r, w) \<Rightarrow> (r, st\<lparr>it_wire := w\<rparr>))"

definition operation :: "(items_state, 'a) io \<Rightarrow> (items_state, 'a) io" where
  "operation m st =
     (if it_busy st then (Inl (remote ''already_started''), st)
      else finallyS m (\<lambda>t. t\<lparr>it_busy := False\<rparr>) (st\<lparr>it_busy := True\<rparr>))"

definition items_rpc :: "unicode_tables \<Rightarrow> peer \<Rightarrow> json \<Rightarrow> (items_state, gp_result) io" where
  "items_rpc tables pr params st = on_wire (rpc (items_protocol tables) pr params None (ws_deadline (it_wire st))) st"

text \<open>What the loop of \<open>list\<close> has collected.\<close>

record collected =
  co_cursor :: json
  co_first :: "json option"
  co_rows :: "json list"
  co_cursors :: "json list"
  co_ids :: "json list"
  co_identities :: "pystr list"
  co_size :: int

definition take_row :: "collected \<Rightarrow> json \<Rightarrow> collected result" where
  "take_row c row =
     on row ''entry'' (\<lambda>e.
     bindR (g_identity e) (\<lambda>identity.
     on row ''id'' (\<lambda>i.
     bindR (check (remote ''invalid_response'') (i \<notin> set (co_ids c) \<and> identity \<notin> set (co_identities c))) (\<lambda>_.
     bindR (g_canonical (JObj [(u ''version'', JInt 1), (u ''entries'', JArr [e])])) (\<lambda>b.
     let size' = co_size c + (plen b - plen g_empty_bytes + (if co_rows c = [] then 0 else 1)) in
     bindR (check (remote ''invalid_response'') (size' \<le> G_MAX_BYTES)) (\<lambda>_.
       Inr (c\<lparr>co_ids := i # co_ids c, co_identities := identity # co_identities c, co_rows := co_rows c @ [row],
         co_size := size'\<rparr>)))))))"

definition same_listing :: "json \<Rightarrow> json \<Rightarrow> bool result" where
  "same_listing d f = foldR (\<lambda>same k. if same then on d k (\<lambda>a. on f k (\<lambda>b. Inr (py_eq a b))) else Inr False) True
     (REVISIONS @ [''total'', ''unresolved_legacy_count''])"

text \<open>One page: what is collected with it, and the cursor of the next one.\<close>

definition take_page :: "collected \<Rightarrow> json \<Rightarrow> collected result" where
  "take_page c d =
     bindR (case co_first c of None \<Rightarrow> Inr True | Some f \<Rightarrow> same_listing d f) (\<lambda>same.
     bindR (check (remote ''invalid_response'') same) (\<lambda>_.
     on d ''page_offset'' (\<lambda>begins.
     bindR (check (remote ''invalid_response'') (py_eq begins (JInt (plen (co_rows c))))) (\<lambda>_.
     on d ''entries'' (\<lambda>rows.
     bindR (foldR take_row (c\<lparr>co_first := Some (case co_first c of None \<Rightarrow> d | Some f \<Rightarrow> f)\<rparr>) (list_of rows)) (\<lambda>c'.
     on d ''next_cursor'' (\<lambda>n. Inr (c'\<lparr>co_cursor := n\<rparr>))))))))"

definition complete_listing :: "peer \<Rightarrow> json \<Rightarrow> json list \<Rightarrow> json" where
  "complete_listing pr f rows = JObj
     [(u ''status'', lit ''complete''), (u ''runtime'', JStr (pr_runtime pr)), (u ''subject'', lit ''global''),
      (u ''revision'', fld f ''revision''), (u ''context_revision'', fld f ''context_revision''),
      (u ''total'', fld f ''total''), (u ''unresolved_legacy_count'', fld f ''unresolved_legacy_count''),
      (u ''entries'', JArr rows)]"

definition list_request :: "peer \<Rightarrow> json \<Rightarrow> json \<Rightarrow> json" where
  "list_request pr cursor max_entries = JObj
     [(u ''op'', lit ''list''), (u ''runtime'', JStr (pr_runtime pr)), (u ''subject'', lit ''global''),
      (u ''cursor'', cursor), (u ''max_entries'', max_entries)]"

definition issue :: "peer \<Rightarrow> bytes \<Rightarrow> (items_state, listing) io" where
  "issue pr b st =
     (let l = \<lparr>ls_target = pr_target pr, ls_data = b, ls_serial = it_serial st\<rparr>
      in (Inr l, st\<lparr>it_listing := Some l, it_serial := Suc (it_serial st)\<rparr>))"

text \<open>The loop, with the rounds it has left.\<close>

fun list_pages :: "unicode_tables \<Rightarrow> peer \<Rightarrow> json \<Rightarrow> nat \<Rightarrow> collected \<Rightarrow> (items_state, listing) io" where
  "list_pages tables pr max_entries 0 c = raiseS (remote ''invalid_response'')"
| "list_pages tables pr max_entries (Suc n) c =
     bindS (items_rpc tables pr (list_request pr (co_cursor c) max_entries)) (\<lambda>res.
     bindS (liftS (gr_data_of res)) (\<lambda>d.
     bindS (liftS (take_page c d)) (\<lambda>c'.
       if co_cursor c' = JNull then
         (case co_first c' of None \<Rightarrow> raiseS TypeError | Some f \<Rightarrow>
            bindS (liftS (on f ''total'' (\<lambda>t. check (remote ''invalid_response'') (py_eq (JInt (plen (co_rows c'))) t)))) (\<lambda>_.
            bindS (liftS (gp_encoded (complete_listing pr f (co_rows c')))) (issue pr)))
       else if co_cursor c' \<in> set (co_cursors c') then raiseS (remote ''invalid_response'')
       else list_pages tables pr max_entries n (c'\<lparr>co_cursors := co_cursor c' # co_cursors c'\<rparr>))))"

definition nothing_collected :: collected where
  "nothing_collected = \<lparr>co_cursor = JNull, co_first = None, co_rows = [], co_cursors = [], co_ids = [],
     co_identities = [], co_size = plen g_empty_bytes\<rparr>"

definition items_list :: "unicode_tables \<Rightarrow> peer \<Rightarrow> json \<Rightarrow> (items_state, listing) io" where
  "items_list tables pr max_entries = operation
     (bindS (modS (\<lambda>st. st\<lparr>it_listing := None, it_played := False\<rparr>)) (\<lambda>_.
        list_pages tables pr max_entries (nat GI_MAX_ENTRIES) nothing_collected))"

definition items_current :: "unicode_tables \<Rightarrow> peer \<Rightarrow> (items_state, gp_result) io" where
  "items_current tables pr = operation
     (items_rpc tables pr (JObj [(u ''op'', lit ''current''), (u ''runtime'', JStr (pr_runtime pr)), (u ''subject'', lit ''global'')]))"

definition play_request :: "peer \<Rightarrow> json \<Rightarrow> json \<Rightarrow> json" where
  "play_request pr item_id d = JObj
     [(u ''op'', lit ''play''), (u ''runtime'', JStr (pr_runtime pr)), (u ''subject'', lit ''global''), (u ''id'', item_id),
      (u ''expected_revision'', fld d ''revision''), (u ''expected_context_revision'', fld d ''context_revision'')]"

definition own_listing :: "peer \<Rightarrow> listing option \<Rightarrow> items_state \<Rightarrow> bool" where
  "own_listing pr l st \<longleftrightarrow> (case l of None \<Rightarrow> False | Some l \<Rightarrow>
     map_option ls_serial (it_listing st) = Some (ls_serial l) \<and> ls_target l = pr_target pr)"

text \<open>\<open>play\<close>; an argument that is not a listing is \<open>None\<close>.\<close>

definition items_play :: "unicode_tables \<Rightarrow> peer \<Rightarrow> json \<Rightarrow> listing option \<Rightarrow> (items_state, gp_result) io" where
  "items_play tables pr item_id l = operation
     (bindS (getS (own_listing pr l)) (\<lambda>own.
      bindS (checkS (remote ''invalid_snapshot'') own) (\<lambda>_.
      bindS (getS it_played) (\<lambda>played.
      bindS (checkS (remote ''already_started'') (\<not> played)) (\<lambda>_.
      bindS (liftS (listing_data (the l))) (\<lambda>d.
      bindS (checkS (remote ''invalid_snapshot'')
        (is_str item_id \<and> list_ex (\<lambda>row. py_eq (fld row ''id'') item_id) (list_of (fld d ''entries'')))) (\<lambda>_.
      bindS (liftS (request_params (items_protocol tables) pr (play_request pr item_id d))) (\<lambda>params.
      bindS (modS (\<lambda>st. st\<lparr>it_played := True\<rparr>)) (\<lambda>_.
        items_rpc tables pr params)))))))))"

end
