(* ===== verification/RemotePacing.thy ===== *)
theory RemotePacing
  imports RemoteTransport
begin

text \<open>
  What the calls of a transport have in common, whatever the clock reads, whatever the controller answers
  and however the calls end: their spacing, their number in a minute, and the single POST of a request.
\<close>

section \<open>Clock readings move time forward only\<close>

definition clock_step :: "wire_state \<Rightarrow> wire_state \<Rightarrow> bool" where
  "clock_step s s' \<longleftrightarrow> (\<exists>cl l. s' = s\<lparr>ws_clock := cl, ws_last := l\<rparr> \<and>
     (\<forall>a. ws_last s = Some a \<longrightarrow> (\<exists>b. l = Some b \<and> a \<le> b)))"

lemma clock_step_refl: "clock_step s s"
  unfolding clock_step_def by (intro exI [of _ "ws_clock s"] exI [of _ "ws_last s"]) simp

lemma clock_step_trans: "clock_step s s' \<Longrightarrow> clock_step s' s'' \<Longrightarrow> clock_step s s''"
  unfolding clock_step_def by (elim exE conjE) (force intro: order.trans)

lemma now_clock_step: "now s = (r, s') \<Longrightarrow> clock_step s s'"
proof (cases "ws_clock s")
  case Nil
  then show "now s = (r, s') \<Longrightarrow> ?thesis" using clock_step_refl by (auto simp: now_def)
next
  case (Cons x xs)
  then show "now s = (r, s') \<Longrightarrow> ?thesis"
    unfolding clock_step_def
    by (intro exI [of _ xs] exI [of _ "ws_last s'"])
      (auto simp: now_def Let_def not_less split: option.splits if_splits)
qed

lemma wait_until_clock_step: "clock_step s (snd (wait_until target deadline s))"
proof (induction target deadline s rule: wait_until.induct)
  case (1 target deadline s)
  obtain r1 s1 where n1: "now s = (r1, s1)" by fastforce
  obtain r2 s2 where n2: "now s1 = (r2, s2)" by fastforce
  have s1: "clock_step s s1" by (rule now_clock_step [OF n1])
  have s2: "clock_step s s2" by (rule clock_step_trans [OF s1 now_clock_step [OF n2]])
  show ?case
    using 1 n1 n2 s1 s2 clock_step_refl [of s]
    by (subst wait_until.simps) (auto split: sum.splits intro: clock_step_trans [OF s2])
qed

lemma wait_until_reaches:
  "wait_until target deadline s = (Inr (), s') \<Longrightarrow> \<exists>t. ws_last s' = Some t \<and> target \<le> t \<and> t < deadline"
proof (induction target deadline s rule: wait_until.induct)
  case (1 target deadline s)
  obtain r1 s1 where n1: "now s = (r1, s1)" by fastforce
  obtain r2 s2 where n2: "now s1 = (r2, s2)" by fastforce
  show ?case
    using 1 n1 n2
    by (subst (asm) (2) wait_until.simps) (auto simp: now_run split: sum.splits if_splits)
qed

section \<open>The invariant\<close>

text \<open>Times newest first: each is at least \<open>d\<close> after the one before it.\<close>

fun spaced :: "rat \<Rightarrow> rat list \<Rightarrow> bool" where
  "spaced d (a # b # r) = (b + d \<le> a \<and> spaced d (b # r))"
| "spaced d _ = True"

text \<open>No minute that ends with a call holds more than \<open>n\<close> of them.\<close>

fun windowed :: "nat \<Rightarrow> rat list \<Rightarrow> bool" where
  "windowed n [] = True"
| "windowed n (a # r) = (length (filter (\<lambda>x. a - 60 < x) (a # r)) \<le> n \<and> windowed n r)"

definition call_times :: "wire_state \<Rightarrow> rat list" where
  "call_times s = map ce_time (ws_calls s)"

definition post_times :: "wire_state \<Rightarrow> rat list" where
  "post_times s = map ce_time (filter ce_post (ws_calls s))"

definition latest :: "rat list \<Rightarrow> rat option" where
  "latest ts = (case ts of [] \<Rightarrow> None | t # _ \<Rightarrow> Some t)"

definition reached :: "rat \<Rightarrow> wire_state \<Rightarrow> bool" where
  "reached t s \<longleftrightarrow> (\<exists>l. ws_last s = Some l \<and> t \<le> l)"

text \<open>The queue of recent times holds every call of the last minute, oldest first.\<close>

definition paced :: "wire_state \<Rightarrow> bool" where
  "paced s \<longleftrightarrow> spaced HTTP_INTERVAL (call_times s) \<and> spaced POST_INTERVAL (post_times s) \<and> windowed 120 (call_times s) \<and>
     ws_last_http s = latest (call_times s) \<and> ws_last_post s = latest (post_times s) \<and>
     (\<forall>t \<in> set (call_times s). reached t s) \<and>
     (\<exists>old. call_times s = rev (ws_times s) @ old \<and> (\<forall>t \<in> set old. reached (t + 60) s)) \<and>
     length (filter (\<lambda>x. \<not> reached (x + 60) s) (ws_times s)) \<le> 120"

lemma reached_step: "clock_step s s' \<Longrightarrow> reached t s \<Longrightarrow> reached t s'"
  by (auto simp: clock_step_def reached_def intro: order.trans)

lemma filter_length_mono: "(\<And>x. P x \<Longrightarrow> Q x) \<Longrightarrow> length (filter P xs) \<le> length (filter Q xs)"
  by (induction xs) auto

lemma filter_dropWhile_length: "length (filter P (dropWhile Q xs)) \<le> length (filter P xs)"
  by (induction xs) auto

lemma now_last: "now s = (Inr t, s') \<Longrightarrow> ws_last s' = Some t"
  by (auto simp: now_run)

lemma paced_clock_step:
  assumes "clock_step s s'" "paced s"
  shows "paced s'"
proof -
  from assms(1) obtain cl l where s': "s' = s\<lparr>ws_clock := cl, ws_last := l\<rparr>" by (auto simp: clock_step_def)
  have "length (filter (\<lambda>x. \<not> reached (x + 60) s') (ws_times s)) \<le> length (filter (\<lambda>x. \<not> reached (x + 60) s) (ws_times s))"
    using reached_step [OF assms(1)] by (intro filter_length_mono) blast
  then show ?thesis
    using assms(2) reached_step [OF assms(1)] s'
    by (fastforce simp: paced_def call_times_def post_times_def)
qed

lemma paced_now: "keeps paced now"
  by (auto simp: keeps_def intro: paced_clock_step now_clock_step [OF prod.collapse [symmetric]])

lemma paced_wait_until: "keeps paced (wait_until target deadline)"
  by (auto simp: keeps_def intro: paced_clock_step wait_until_clock_step)

text \<open>A slot leaves the time at which the next call may start behind the clock.\<close>

definition slot_ready :: "bool \<Rightarrow> wire_state \<Rightarrow> bool" where
  "slot_ready post s \<longleftrightarrow> paced s \<and> (\<exists>l. ws_last s = Some l) \<and>
     (\<forall>t. ws_last_http s = Some t \<longrightarrow> reached (t + HTTP_INTERVAL) s) \<and>
     (post \<longrightarrow> (\<forall>t. ws_last_post s = Some t \<longrightarrow> reached (t + POST_INTERVAL) s)) \<and>
     length (filter (\<lambda>x. \<not> reached (x + 60) s) (ws_times s)) < 120"

lemma slot_ready_step:
  assumes "clock_step s s'" "slot_ready post s"
  shows "slot_ready post s'"
proof -
  from assms(1) obtain cl l where s': "s' = s\<lparr>ws_clock := cl, ws_last := l\<rparr>"
    and mono: "\<forall>a. ws_last s = Some a \<longrightarrow> (\<exists>b. l = Some b \<and> a \<le> b)" by (auto simp: clock_step_def)
  have "length (filter (\<lambda>x. \<not> reached (x + 60) s') (ws_times s)) \<le> length (filter (\<lambda>x. \<not> reached (x + 60) s) (ws_times s))"
    using reached_step [OF assms(1)] by (intro filter_length_mono) blast
  then show ?thesis
    using assms(2) reached_step [OF assms(1)] paced_clock_step [OF assms(1)] s' mono
    by (fastforce simp: slot_ready_def)
qed

section \<open>Every call keeps it\<close>

definition pruned :: "rat \<Rightarrow> wire_state \<Rightarrow> bool" where
  "pruned t s \<longleftrightarrow> paced s \<and> ws_last s = Some t \<and> (ws_times s \<noteq> [] \<longrightarrow> t - 60 < hd (ws_times s))"

lemma paced_prune:
  assumes "paced s" "ws_last s = Some t"
  shows "pruned t (s\<lparr>ws_times := dropWhile (\<lambda>x. x \<le> t - 60) (ws_times s)\<rparr>)"
proof -
  let ?P = "\<lambda>x. x \<le> t - 60" let ?s = "s\<lparr>ws_times := dropWhile ?P (ws_times s)\<rparr>"
  obtain old where old: "call_times s = rev (ws_times s) @ old" "\<forall>x \<in> set old. reached (x + 60) s"
    using assms(1) by (auto simp: paced_def)
  have split: "ws_times s = takeWhile ?P (ws_times s) @ dropWhile ?P (ws_times s)" by simp
  have "call_times s = rev (dropWhile ?P (ws_times s)) @ (rev (takeWhile ?P (ws_times s)) @ old)"
    unfolding old(1) by (subst (1) split) (simp del: takeWhile_dropWhile_id)
  moreover have "\<forall>x \<in> set (rev (takeWhile ?P (ws_times s)) @ old). reached (x + 60) s"
    using old(2) assms(2) by (auto simp: reached_def dest!: set_takeWhileD)
  ultimately have "\<exists>old. call_times ?s = rev (ws_times ?s) @ old \<and> (\<forall>t \<in> set old. reached (t + 60) ?s)"
    by (auto simp: call_times_def reached_def intro!: exI [of _ "rev (takeWhile ?P (ws_times s)) @ old"])
  moreover have "length (filter (\<lambda>x. \<not> reached (x + 60) s) (dropWhile ?P (ws_times s)))
      \<le> length (filter (\<lambda>x. \<not> reached (x + 60) s) (ws_times s))"
    by (rule filter_dropWhile_length)
  moreover have "dropWhile ?P (ws_times s) \<noteq> [] \<Longrightarrow> t - 60 < hd (dropWhile ?P (ws_times s))"
    using hd_dropWhile [of ?P "ws_times s"] by (simp add: not_le)
  ultimately show ?thesis
    using assms by (auto simp: pruned_def paced_def call_times_def post_times_def reached_def)
qed

lemma waited_ready:
  assumes "pruned t s" "wait_until (slot_start post t not_before s) deadline s = (Inr (), s')"
  shows "slot_ready post s'"
proof -
  let ?start = "slot_start post t not_before s"
  have step: "clock_step s s'" using wait_until_clock_step [of s ?start deadline] assms(2) by simp
  obtain l where l: "ws_last s' = Some l" "?start \<le> l" using wait_until_reaches [OF assms(2)] by blast
  have s: "paced s" "ws_last s = Some t" "ws_times s \<noteq> [] \<Longrightarrow> t - 60 < hd (ws_times s)" using assms(1) by (auto simp: pruned_def)
  have same: "ws_last_http s' = ws_last_http s" "ws_last_post s' = ws_last_post s" "ws_times s' = ws_times s"
    using step by (auto simp: clock_step_def)
  have "length (filter (\<lambda>x. \<not> reached (x + 60) s') (ws_times s)) < 120"
  proof (cases "120 \<le> length (ws_times s)")
    case True
    then obtain x xs where x: "ws_times s = x # xs" by (cases "ws_times s") auto
    have "\<not> reached (x + 60) s" using s(2,3) x by (auto simp: reached_def)
    then have "length (filter (\<lambda>x. \<not> reached (x + 60) s) xs) < 120" using s(1) x by (simp add: paced_def)
    moreover have "length (filter (\<lambda>x. \<not> reached (x + 60) s') xs) \<le> length (filter (\<lambda>x. \<not> reached (x + 60) s) xs)"
      using reached_step [OF step] by (intro filter_length_mono) blast
    moreover have "reached (x + 60) s'" using True x l by (auto simp: slot_start_def Let_def reached_def)
    ultimately show ?thesis using x by simp
  next
    case False
    then show ?thesis using length_filter_le [of "\<lambda>x. \<not> reached (x + 60) s'" "ws_times s"] by linarith
  qed
  moreover have "ws_last_http s = Some a \<Longrightarrow> reached (a + HTTP_INTERVAL) s'" for a
    using l by (auto simp: slot_start_def Let_def reached_def split: if_splits option.splits)
  moreover have "post \<Longrightarrow> ws_last_post s = Some a \<Longrightarrow> reached (a + POST_INTERVAL) s'" for a
    using l by (auto simp: slot_start_def Let_def reached_def split: if_splits option.splits)
  ultimately show ?thesis
    using paced_clock_step [OF step s(1)] l same by (auto simp: slot_ready_def)
qed

lemma slot_triple: "triple paced (slot post deadline not_before) (\<lambda>_. slot_ready post) (\<lambda>_. paced)"
  unfolding slot_def
proof (rule triple_bindS)
  show "triple paced now (\<lambda>t s. paced s \<and> ws_last s = Some t) (\<lambda>_. paced)"
    by (intro tripleI conjI) (blast dest: keepsD [OF paced_now] now_last)+
next
  fix t
  show "triple (\<lambda>s. paced s \<and> ws_last s = Some t)
     (bindS (modS (\<lambda>s. s\<lparr>ws_times := dropWhile (\<lambda>x. x \<le> t - 60) (ws_times s)\<rparr>)) (\<lambda>_.
      bindS (getS (slot_start post t not_before)) (\<lambda>start. wait_until start deadline))) (\<lambda>_. slot_ready post) (\<lambda>_. paced)"
  proof (rule triple_bindS)
    show "triple (\<lambda>s. paced s \<and> ws_last s = Some t) (modS (\<lambda>s. s\<lparr>ws_times := dropWhile (\<lambda>x. x \<le> t - 60) (ws_times s)\<rparr>))
       (\<lambda>_. pruned t) (\<lambda>_. paced)"
      by (auto simp: triple_simple intro: paced_prune)
    show "triple (pruned t) (bindS (getS (slot_start post t not_before)) (\<lambda>start. wait_until start deadline))
       (\<lambda>_. slot_ready post) (\<lambda>_. paced)"
      using keepsD [OF paced_wait_until] waited_ready
      by (intro tripleI) (fastforce simp: bindS_def getS_def pruned_def)+
  qed
qed

text \<open>The call and its bookkeeping, at a time the slot allows.\<close>

definition recorded :: "call_entry \<Rightarrow> (wire_state, answer) io" where
  "recorded entry = bindS (modS (started_call (ce_post entry) (ce_time entry))) (\<lambda>_. http_call entry)"

lemma recorded_paced:
  assumes "slot_ready (ce_post c) s" "ws_last s = Some (ce_time c)" "recorded c s = (r, s')"
  shows "paced s'"
proof -
  let ?t = "ce_time c"
  have s: "paced s" "\<forall>t. ws_last_http s = Some t \<longrightarrow> reached (t + HTTP_INTERVAL) s"
    "ce_post c \<Longrightarrow> \<forall>t. ws_last_post s = Some t \<longrightarrow> reached (t + POST_INTERVAL) s"
    "length (filter (\<lambda>x. \<not> reached (x + 60) s) (ws_times s)) < 120"
    using assms(1) by (auto simp: slot_ready_def)
  have reach: "reached x s \<longleftrightarrow> x \<le> ?t" for x using assms(2) by (auto simp: reached_def)
  obtain old where old: "call_times s = rev (ws_times s) @ old" "\<forall>x \<in> set old. reached (x + 60) s"
    using s(1) by (auto simp: paced_def)
  have fields: "ws_calls s' = c # ws_calls s" "ws_last s' = Some ?t" "ws_last_http s' = Some ?t"
    "ws_last_post s' = (if ce_post c then Some ?t else ws_last_post s)" "ws_times s' = ws_times s @ [?t]"
    using assms(2,3)
    by (auto simp: recorded_def bindS_def modS_def started_call_def http_call_def Let_def split: list.splits prod.splits)
  have reach': "reached x s' \<longleftrightarrow> x \<le> ?t" for x using fields by (auto simp: reached_def)
  have calls: "call_times s' = ?t # call_times s" "post_times s' = (if ce_post c then [?t] else []) @ post_times s"
    using fields by (auto simp: call_times_def post_times_def)
  have http: "spaced HTTP_INTERVAL (?t # call_times s)"
    using s(1,2) reach by (cases "call_times s") (auto simp: paced_def latest_def)
  moreover have post: "spaced POST_INTERVAL (post_times s')"
    using s(1,3) reach calls(2) by (cases "post_times s") (auto simp: paced_def latest_def)
  moreover have "windowed 120 (?t # call_times s)"
  proof -
    have "filter (\<lambda>x. ?t - 60 < x) old = []" using old(2) reach by (auto simp: filter_empty_conv not_less)
    then have "length (filter (\<lambda>x. ?t - 60 < x) (call_times s)) = length (filter (\<lambda>x. \<not> reached (x + 60) s) (ws_times s))"
      unfolding old(1) reach by (simp add: rev_filter [symmetric] not_le diff_less_eq)
    then show ?thesis using s(1,4) by (simp add: paced_def)
  qed
  moreover have "length (filter (\<lambda>x. \<not> reached (x + 60) s') (ws_times s')) \<le> 120"
    using s(4) fields(5) reach reach' by simp
  moreover have "\<forall>t \<in> set (call_times s'). reached t s'"
    using s(1) calls(1) reach reach' by (auto simp: paced_def)
  moreover have "call_times s' = rev (ws_times s') @ old" "\<forall>x \<in> set old. reached (x + 60) s'"
    using old reach reach' calls(1) fields(5) by auto
  moreover have "ws_last_post s' = latest (post_times s')" "ws_last_http s' = latest (call_times s')"
    using s(1) fields calls by (auto simp: paced_def latest_def)
  ultimately show ?thesis unfolding paced_def calls(1) by blast
qed

lemma api_recorded:
  "api pr path posted deadline not_before =
     bindS (same_server pr) (\<lambda>_. bindS (slot (posted \<noteq> None) deadline not_before) (\<lambda>_.
     bindS now (\<lambda>started.
     bindS (recorded \<lparr>ce_post = (posted \<noteq> None), ce_path = path, ce_payload = posted, ce_time = started,
              ce_timeout = min 10 (deadline - started)\<rparr>) (\<lambda>a.
       case a of
         Failed code category \<Rightarrow> raiseS
           (case code of Some c \<Rightarrow> if 100 \<le> c \<and> c \<le> 599 then remote_error ''http_error'' None None (Some c)
               else remote (if category then ''transport'' else ''invalid_response'')
            | None \<Rightarrow> remote (if category then ''transport'' else ''invalid_response''))
       | Odd_reply \<Rightarrow> bindS now (\<lambda>t. raiseS (remote (if deadline \<le> t then ''deadline'' else ''invalid_response'')))
       | Replied status b \<Rightarrow> bindS now (\<lambda>t.
           if deadline \<le> t then raiseS (remote ''deadline'') else returnS (status, b))))))"
  unfolding api_def recorded_def by (auto simp: bindS_def modS_def fun_eq_iff split: prod.splits sum.splits)

lemma api_paced: "keeps paced (api pr path posted deadline not_before)"
proof (rule keeps_triple)
  let ?E = "\<lambda>_. paced"
  have tail: "triple paced (case a of
         Failed code category \<Rightarrow> raiseS
           (case code of Some c \<Rightarrow> if 100 \<le> c \<and> c \<le> 599 then remote_error ''http_error'' None None (Some c)
               else remote (if category then ''transport'' else ''invalid_response'')
            | None \<Rightarrow> remote (if category then ''transport'' else ''invalid_response''))
       | Odd_reply \<Rightarrow> bindS now (\<lambda>t. raiseS (remote (if deadline \<le> t then ''deadline'' else ''invalid_response'')))
       | Replied status b \<Rightarrow> bindS now (\<lambda>t.
           if deadline \<le> t then raiseS (remote ''deadline'') else returnS (status, b))) (\<lambda>_. paced) ?E" for a
    by (cases a) (auto intro!: triple_keeps keeps_intro paced_now)
  show "triple paced (api pr path posted deadline not_before) (\<lambda>_. paced) ?E"
    unfolding api_recorded
  proof (intro triple_bindS)
    show "triple paced (same_server pr) (\<lambda>_. paced) ?E" by (intro triple_keeps keeps_intro)
    show "triple paced (slot (posted \<noteq> None) deadline not_before) (\<lambda>_. slot_ready (posted \<noteq> None)) ?E" by (rule slot_triple)
    show "triple (slot_ready (posted \<noteq> None)) now (\<lambda>t s. slot_ready (posted \<noteq> None) s \<and> ws_last s = Some t) ?E"
    proof (rule tripleI)
      fix s t s' assume "slot_ready (posted \<noteq> None) s" "now s = (Inr t, s')"
      then show "slot_ready (posted \<noteq> None) s' \<and> ws_last s' = Some t"
        using slot_ready_step [OF now_clock_step] now_last by blast
    next
      fix s e s' assume "slot_ready (posted \<noteq> None) s" "now s = (Inl e, s')"
      then show "paced s'" using keepsD [OF paced_now] by (auto simp: slot_ready_def)
    qed
    show "triple (\<lambda>s. slot_ready (posted \<noteq> None) s \<and> ws_last s = Some t)
       (recorded \<lparr>ce_post = (posted \<noteq> None), ce_path = path, ce_payload = posted, ce_time = t,
          ce_timeout = min 10 (deadline - t)\<rparr>) (\<lambda>_. paced) ?E" for t
      by (intro tripleI; rule recorded_paced) auto
  qed (rule tail)
qed

end
