(* ===== verification/RemoteRuns.thy ===== *)
theory RemoteRuns
  imports RemotePacing
begin

text \<open>
  What goes through a whole request, from what goes through one call: the interfaces \<open>reading_kept\<close> and
  \<open>traffic_kept\<close> say what a clock reading, a GET and a POST must keep, and their lemmas carry it through the
  polling loop and through \<open>_rpc\<close>. Then the conversations of a transport: every state a transport reaches by
  requests, with the environment changing between them as it likes.
\<close>

section \<open>From calls to requests\<close>

locale reading_kept =
  fixes I :: "wire_state \<Rightarrow> bool" and pr :: peer
  assumes kept_now: "keeps I now"
    and kept_get: "keeps I (api pr path None deadline not_before)"
begin

lemma kept_poll: "I s \<Longrightarrow> I (snd (poll pt pr ps rid ctx deadline not_before delay failed s))"
proof (induction pt pr\<equiv>pr ps rid ctx deadline not_before delay failed s rule: poll.induct)
  case (1 pt ps rid ctx deadline not_before delay failed s)
  let ?get = "api pr (pr_query pr @ u ''&id='' @ rid) None deadline not_before"
  have now_I: "now s' = (r, s'') \<Longrightarrow> I s' \<Longrightarrow> I s''" for s' r s'' using keepsD [OF kept_now] .
  have get_I: "?get s' = (r, s'') \<Longrightarrow> I s' \<Longrightarrow> I s''" for s' r s'' using keepsD [OF kept_get] .
  have again: "I (snd (poll pt pr ps rid ctx deadline (t' + min 8 (max 2 (delay * 2))) (min 8 (max 2 (delay * 2))) (Some code) s3))"
    if "now s = (Inr t, s1)" "\<not> deadline \<le> t" "?get s1 = (Inl e, s2)" "retry_code e = Some code" "now s2 = (Inr t', s3)" "I s3"
    for t s1 e s2 code t' s3
    using that 1(1) by (metis)
  have pending: "I (snd (poll pt pr ps rid ctx deadline (t' + POLL_INTERVAL) POLL_INTERVAL None s3))"
    if "now s = (Inr t, s1)" "\<not> deadline \<le> t" "?get s1 = (Inr (202, Octets b), s2)" "\<not> pr_response_limit pr < plen b"
      "pending_ok pr b = Inr ()" "now s2 = (Inr t', s3)" "I s3"
    for t s1 b s2 t' s3
    using that 1(2) by (metis (full_types))
  show ?case
    using 1(3) now_I get_I again pending
    by (subst poll.simps) (auto simp: Let_def split: prod.splits sum.splits option.splits body.splits if_splits)
qed

end

locale traffic_kept = reading_kept I pr for I :: "wire_state \<Rightarrow> bool" and pr :: peer +
  assumes kept_post: "keeps I (api pr path (Some sent) deadline not_before)"
    and kept_note: "I s \<Longrightarrow> I (emit_receipt action rid status s)"
begin

lemma kept_enqueue: "keeps I (enqueue pt pr ps deadline)"
  unfolding enqueue_def
  by (auto intro!: keeps_intro kept_post split: prod.splits body.splits)

lemma kept_receive: "keeps I (receive pt pr ps rid ctx deadline)"
proof -
  have "poll pt pr ps rid ctx deadline 0 POLL_INTERVAL None s = (r, s') \<Longrightarrow> I s \<Longrightarrow> I s'" for r s s'
    using kept_poll [of s pt ps rid ctx deadline 0 POLL_INTERVAL None] by simp
  then show ?thesis
    by (auto simp: keeps_def receive_def Let_def intro!: kept_note split: prod.splits sum.splits)
qed

lemma kept_rpc: "keeps I (rpc pt pr params ctx deadline)"
proof -
  have enq: "enqueue pt pr ps deadline s = (r, s') \<Longrightarrow> I s \<Longrightarrow> I s'" for ps r s s' using keepsD [OF kept_enqueue] .
  have rec: "I s \<Longrightarrow> I (snd (receive pt pr ps rid ctx deadline s))" for ps rid s
    using kept_receive [of pt ps rid ctx deadline] by (auto simp: keeps_def)
  have "keeps I (\<lambda>s. case enqueue pt pr ps deadline s of
         (Inl e, s') \<Rightarrow> (Inl (with_request None ''enqueue'' e), emit_receipt (pt_action pt) None (u ''unknown'') s')
       | (Inr rid, s') \<Rightarrow> receive pt pr ps rid ctx deadline s')" for ps
    unfolding keeps_def by (auto split: prod.splits sum.splits intro!: kept_note rec dest: enq)
  then show ?thesis unfolding rpc_def by (intro keeps_bindS keeps_const)
qed

end

section \<open>The calls a request makes\<close>

lemma now_calls: "now s = (r, s') \<Longrightarrow> ws_calls s' = ws_calls s"
  using now_clock_step by (fastforce simp: clock_step_def)

lemma now_notes: "now s = (r, s') \<Longrightarrow> ws_notes s' = ws_notes s"
  using now_clock_step by (fastforce simp: clock_step_def)

definition untouched :: "call_entry list \<Rightarrow> receipt_note list \<Rightarrow> wire_state \<Rightarrow> bool" where
  "untouched cs ns s \<longleftrightarrow> ws_calls s = cs \<and> ws_notes s = ns"

lemma untouched_step: "clock_step s s' \<Longrightarrow> untouched cs ns s \<Longrightarrow> untouched cs ns s'"
  by (auto simp: clock_step_def untouched_def)

lemma untouched_now: "keeps (untouched cs ns) now"
  by (auto simp: keeps_def intro: untouched_step now_clock_step [OF prod.collapse [symmetric]])

lemma untouched_slot: "keeps (untouched cs ns) (slot post deadline not_before)"
proof -
  have "keeps (untouched cs ns) (wait_until target deadline)" for target
    by (auto simp: keeps_def intro: untouched_step wait_until_clock_step)
  then show ?thesis
    unfolding slot_def by (intro keeps_bindS keeps_const untouched_now keeps_modS) (auto simp: untouched_def)
qed

text \<open>An HTTP call adds at most its own entry; a call that returns has added it.\<close>

lemma api_entry:
  assumes "api pr path posted deadline not_before s = (r, s')"
  shows "ws_notes s' = ws_notes s"
    and "ws_calls s' = ws_calls s \<and> \<not> is_ok r \<or>
      (\<exists>c. ws_calls s' = c # ws_calls s \<and> ce_post c = (posted \<noteq> None) \<and> ce_path c = path \<and> ce_payload c = posted)"
proof -
  let ?U = "untouched (ws_calls s) (ws_notes s)"
  define added where "added s' \<longleftrightarrow> ws_notes s' = ws_notes s \<and> (\<exists>c. ws_calls s' = c # ws_calls s \<and>
      ce_post c = (posted \<noteq> None) \<and> ce_path c = path \<and> ce_payload c = posted)" for s' :: wire_state
  let ?E = "\<lambda>_ s'. ?U s' \<or> added s'"
  have now_added: "keeps added now"
    by (auto simp: keeps_def added_def now_calls [OF prod.collapse [symmetric]] now_notes [OF prod.collapse [symmetric]])
  have weaken: "triple ?U m (\<lambda>_. ?U) ?E" if "keeps ?U m" for m :: "(wire_state, 'x) io"
    by (rule triple_post [OF triple_keeps [OF that]]) simp_all
  have strengthen: "triple added m (\<lambda>_. added) ?E" if "keeps added m" for m :: "(wire_state, 'x) io"
    by (rule triple_post [OF triple_keeps [OF that]]) simp_all
  have tail: "triple added (case a of
         Failed code category \<Rightarrow> raiseS
           (case code of Some c \<Rightarrow> if 100 \<le> c \<and> c \<le> 599 then remote_error ''http_error'' None None (Some c)
               else remote (if category then ''transport'' else ''invalid_response'')
            | None \<Rightarrow> remote (if category then ''transport'' else ''invalid_response''))
       | Odd_reply \<Rightarrow> bindS now (\<lambda>t. raiseS (remote (if deadline \<le> t then ''deadline'' else ''invalid_response'')))
       | Replied status b \<Rightarrow> bindS now (\<lambda>t.
           if deadline \<le> t then raiseS (remote ''deadline'') else returnS (status, b))) (\<lambda>_. added) ?E" for a
    by (cases a) (auto intro!: strengthen keeps_intro now_added)
  have "triple ?U (api pr path posted deadline not_before) (\<lambda>_. added) ?E"
    unfolding api_recorded
  proof (intro triple_bindS)
    show "triple ?U (same_server pr) (\<lambda>_. ?U) ?E" by (intro weaken keeps_same_server)
    show "triple ?U (slot (posted \<noteq> None) deadline not_before) (\<lambda>_. ?U) ?E" by (intro weaken untouched_slot)
    show "triple ?U now (\<lambda>_. ?U) ?E" by (intro weaken untouched_now)
    show "triple ?U (recorded \<lparr>ce_post = (posted \<noteq> None), ce_path = path, ce_payload = posted, ce_time = t,
          ce_timeout = min 10 (deadline - t)\<rparr>) (\<lambda>_. added) ?E" for t
      by (intro tripleI) (auto simp: recorded_def bindS_def modS_def started_call_def http_call_def untouched_def Let_def
        added_def split: list.splits)
  qed (rule tail)
  then have "(\<forall>x. r = Inr x \<longrightarrow> added s') \<and> (\<forall>e. r = Inl e \<longrightarrow> ?E e s')"
    using assms by (auto simp: triple_def untouched_def)
  then show "ws_notes s' = ws_notes s"
    and "ws_calls s' = ws_calls s \<and> \<not> is_ok r \<or>
      (\<exists>c. ws_calls s' = c # ws_calls s \<and> ce_post c = (posted \<noteq> None) \<and> ce_path c = path \<and> ce_payload c = posted)"
    by (cases r; auto simp: untouched_def added_def is_ok_def)+
qed

text \<open>The POSTs made so far, newest first.\<close>

definition posts :: "wire_state \<Rightarrow> call_entry list" where
  "posts s = filter ce_post (ws_calls s)"

definition post_of :: "('r, 'c) protocol \<Rightarrow> peer \<Rightarrow> json \<Rightarrow> call_entry \<Rightarrow> bool" where
  "post_of pt pr ps c \<longleftrightarrow> ce_path c = pr_query pr \<and>
     ce_payload c = Some (JObj [(u ''action'', JStr (pt_action pt)), (u ''params'', ps)])"

lemma posts_note [simp]: "posts (emit_receipt action rid status s) = posts s"
  by (simp add: posts_def emit_receipt_def)

lemma posts_get: "api pr path None deadline not_before s = (r, s') \<Longrightarrow> posts s' = posts s"
  by (drule api_entry(2)) (auto simp: posts_def)

interpretation same_posts: reading_kept "\<lambda>s. posts s = old" pr for old pr
  by unfold_locales
    (auto simp: keeps_def posts_def [symmetric] now_calls [OF prod.collapse [symmetric]] posts_get [OF prod.collapse [symmetric]],
     simp add: posts_def now_calls [OF prod.collapse [symmetric]])

interpretation pacing: traffic_kept paced pr for pr
  by unfold_locales
    (auto simp: paced_now api_paced, auto simp: paced_def emit_receipt_def call_times_def post_times_def reached_def)

interpretation same_notes: reading_kept "\<lambda>s. ws_notes s = old" pr for old pr
  by unfold_locales
    (auto simp: keeps_def now_notes [OF prod.collapse [symmetric]] api_entry(1) [OF prod.collapse [symmetric]])

definition note_of :: "('r, 'c) protocol \<Rightarrow> 'r result \<Rightarrow> receipt_note \<Rightarrow> bool" where
  "note_of pt r n \<longleftrightarrow> (rn_action n = pt_action pt \<or> rn_action n = u ''unknown'') \<and>
     (is_ok r \<longleftrightarrow> rn_status n = u ''ok'')"

lemma emitted:
  assumes "st = u ''ok'' \<longleftrightarrow> is_ok r"
  shows "\<exists>n. ws_notes (emit_receipt (pt_action pt) rid st s) = n # ws_notes s \<and> note_of pt r n"
proof -
  have "u ''unknown'' \<noteq> u ''ok''" "in_lits (JStr (u ''ok'')) [''ok'', ''rejected'', ''unsupported'']"
    by code_simp+
  then show ?thesis using assms by (auto simp: emit_receipt_def note_of_def)
qed

lemma enqueue_posts:
  assumes "enqueue pt pr ps deadline s = (r, s')"
  shows "ws_notes s' = ws_notes s \<and>
    (posts s' = posts s \<and> \<not> is_ok r \<or> (\<exists>c. posts s' = c # posts s \<and> post_of pt pr ps c))"
proof -
  let ?sent = "JObj [(u ''action'', JStr (pt_action pt)), (u ''params'', ps)]"
  obtain ra sa where a: "api pr (pr_query pr) (Some ?sent) deadline 0 s = (ra, sa)" by fastforce
  have "s' = sa" "is_ok r \<Longrightarrow> is_ok ra"
    using assms a unfolding enqueue_def
    by (auto simp: bindS_def is_ok_def run_simps split: prod.splits sum.splits if_splits body.splits)
  then show ?thesis
    using api_entry [OF a] by (auto simp: posts_def post_of_def)
qed

lemma receive_posts:
  assumes "receive pt pr ps rid ctx deadline s = (r, s')"
  shows "posts s' = posts s \<and> (\<exists>n. ws_notes s' = n # ws_notes s \<and> note_of pt r n)"
proof -
  obtain rp sp where p: "poll pt pr ps rid ctx deadline 0 POLL_INTERVAL None s = (rp, sp)" by fastforce
  have kept: "posts sp = posts s" "ws_notes sp = ws_notes s"
    using same_posts.kept_poll [of s "posts s" pt pr ps rid ctx deadline 0 POLL_INTERVAL None]
      same_notes.kept_poll [of s "ws_notes s" pt pr ps rid ctx deadline 0 POLL_INTERVAL None] p by simp_all
  have "\<exists>st. s' = emit_receipt (pt_action pt) (Some rid) st sp \<and> (st = u ''ok'' \<longleftrightarrow> is_ok r)"
  proof (cases rp)
    case (Inl e)
    moreover have "u ''unknown'' \<noteq> u ''ok''" by code_simp
    ultimately show ?thesis using assms p by (auto simp: receive_def is_ok_def)
  next
    case (Inr x)
    then show ?thesis using assms p by (auto simp: receive_def Let_def is_ok_def split: if_splits)
  qed
  then obtain st where s': "s' = emit_receipt (pt_action pt) (Some rid) st sp" "st = u ''ok'' \<longleftrightarrow> is_ok r" by blast
  obtain n where "ws_notes s' = n # ws_notes sp" "note_of pt r n"
    using emitted [OF s'(2), of pt "Some rid" sp] s'(1) by blast
  then show ?thesis using kept s'(1) by simp
qed

lemma rpc_split:
  "rpc pt pr params ctx deadline s = (case request_params pt pr params of Inl e \<Rightarrow> (Inl e, s)
     | Inr ps \<Rightarrow> (case enqueue pt pr ps deadline s of
         (Inl e, s') \<Rightarrow> (Inl (with_request None ''enqueue'' e), emit_receipt (pt_action pt) None (u ''unknown'') s')
       | (Inr rid, s') \<Rightarrow> receive pt pr ps rid ctx deadline s'))"
  by (simp add: rpc_def bindS_def liftS_def split: sum.splits)

text \<open>A request that passes its own checks is POSTed at most once, and noted once; it is POSTed if it returns.\<close>

lemma rpc_once:
  assumes "rpc pt pr params ctx deadline s = (r, s')" "request_params pt pr params = Inr ps"
  shows "(posts s' = posts s \<and> \<not> is_ok r \<or> (\<exists>c. posts s' = c # posts s \<and> post_of pt pr ps c)) \<and>
    (\<exists>n. ws_notes s' = n # ws_notes s \<and> note_of pt r n)"
proof -
  obtain re se where e: "enqueue pt pr ps deadline s = (re, se)" by fastforce
  note posted = enqueue_posts [OF e]
  show ?thesis
  proof (cases re)
    case (Inl ex)
    have "u ''unknown'' \<noteq> u ''ok''" by code_simp
    moreover have "r = Inl (with_request None ''enqueue'' ex)" "s' = emit_receipt (pt_action pt) None (u ''unknown'') se"
      using assms e Inl by (auto simp: rpc_split)
    ultimately show ?thesis
      using posted emitted [of "u ''unknown''" r pt None se] by (auto simp: is_ok_def)
  next
    case (Inr rid)
    then have "receive pt pr ps rid ctx deadline se = (r, s')" using assms e by (simp add: rpc_split)
    from receive_posts [OF this] posted Inr show ?thesis by (auto simp: is_ok_def)
  qed
qed

lemma rpc_refused:
  assumes "request_params pt pr params = Inl e"
  shows "rpc pt pr params ctx deadline s = (Inl e, s)"
  using assms by (simp add: rpc_split)

section \<open>Progress\<close>

interpretation clock_used: reading_kept "bounded_clock n" pr for n pr
  by unfold_locales (rule now_bounded api_bounded)+

lemma poll_shorter:
  assumes "poll pt pr ps rid ctx deadline not_before delay failed s = (Inr x, s')"
  shows "length (ws_clock s') < length (ws_clock s)"
proof -
  obtain t s1 where n: "now s = (Inr t, s1)"
    using assms by (subst (asm) poll.simps) (auto split: prod.splits sum.splits)
  let ?n = "length (ws_clock s1)"
  have now_n: "now a = (r, b) \<Longrightarrow> bounded_clock ?n a \<Longrightarrow> bounded_clock ?n b" for a r b
    using keepsD [OF now_bounded] .
  have poll_n: "bounded_clock ?n a \<Longrightarrow> poll pt pr ps rid ctx deadline nb dl f a = (r, b) \<Longrightarrow> bounded_clock ?n b" for nb dl f a r b
    using clock_used.kept_poll [of a ?n pt pr ps rid ctx deadline nb dl f] by simp
  have "bounded_clock ?n s'"
    using assms n
    by (subst (asm) poll.simps)
      (auto simp: Let_def split: if_splits prod.splits sum.splits option.splits body.splits
        dest!: api_length intro: poll_n now_n order_trans)
  then show ?thesis using now_shorter [OF n] by simp
qed

text \<open>A request that returns has used up readings of the clock.\<close>

lemma rpc_shorter:
  assumes "rpc pt pr params ctx deadline s = (Inr x, s')"
  shows "length (ws_clock s') < length (ws_clock s)"
proof -
  obtain ps rid s1 where e: "enqueue pt pr ps deadline s = (Inr rid, s1)" "receive pt pr ps rid ctx deadline s1 = (Inr x, s')"
    using assms by (auto simp: rpc_split split: sum.splits prod.splits)
  have "length (ws_clock s1) \<le> length (ws_clock s)"
    using e(1) by (auto simp: enqueue_def run_iff split: if_splits body.splits dest: api_length)
  moreover have "length (ws_clock s') < length (ws_clock s1)"
    using e(2) by (auto simp: receive_def Let_def emit_receipt_def split: prod.splits sum.splits if_splits dest: poll_shorter)
  ultimately show ?thesis by simp
qed

section \<open>Conversations\<close>

text \<open>From an opened transport, by requests; between them the environment may change the scripts and the server.\<close>

inductive conversation :: "('r, 'c) protocol \<Rightarrow> peer \<Rightarrow> wire_state \<Rightarrow> bool" for pt pr where
  opened: "open_transport device runtime envelope_limit response_limit timeout metadata deadline allowed s = (Inr pr, s')
    \<Longrightarrow> ws_calls s = [] \<Longrightarrow> conversation pt pr s'"
| asked: "conversation pt pr s \<Longrightarrow> rpc pt pr params ctx until s = (r, s') \<Longrightarrow> conversation pt pr s'"
| environment: "conversation pt pr s \<Longrightarrow> conversation pt pr (s\<lparr>ws_clock := clock, ws_answers := answers, ws_server := server\<rparr>)"

lemma open_paced:
  assumes "open_transport device runtime envelope_limit response_limit timeout metadata deadline allowed s = (Inr pr, s')"
    "ws_calls s = []"
  shows "paced s'"
proof -
  have "ws_calls s' = []" "ws_last_http s' = None" "ws_last_post s' = None" "ws_times s' = []"
    using assms by (auto simp: open_transport_def Let_def run_iff dest!: now_calls)
  then show ?thesis by (simp add: paced_def call_times_def post_times_def latest_def)
qed

lemma conversation_paced: "conversation pt pr s \<Longrightarrow> paced s"
proof (induction rule: conversation.induct)
  case (opened device runtime envelope_limit response_limit timeout metadata deadline allowed s s')
  then show ?case by (rule open_paced)
next
  case (asked s params ctx until r s')
  then show ?case by (metis keepsD pacing.kept_rpc)
next
  case (environment s clock answers server)
  then show ?case by (auto simp: paced_def call_times_def post_times_def reached_def)
qed

end
