(* ===== verification/RemoteDeadline.thy ===== *)
theory RemoteDeadline
  imports RemoteRuns TransferErrors
begin

text \<open>
  A request comes to an end. The environment of a run is finite, so the question is whether a run can need
  more of it than there is: it cannot once three readings of the clock are at the deadline or later, however
  many readings and answers come before, because each round of the loops reads the clock.
\<close>

definition late :: "rat \<Rightarrow> reading \<Rightarrow> bool" where
  "late d r \<longleftrightarrow> (case num_value (rd_value r) of None \<Rightarrow> False | Some t \<Rightarrow> d \<le> t)"

definition late_readings :: "rat \<Rightarrow> wire_state \<Rightarrow> nat" where
  "late_readings d s = length (filter (late d) (ws_clock s))"

definition passed :: "rat \<Rightarrow> wire_state \<Rightarrow> bool" where
  "passed d s \<longleftrightarrow> (case ws_last s of None \<Rightarrow> False | Some l \<Rightarrow> d \<le> l)"

text \<open>Enough environment: \<open>k\<close> late readings once the clock has passed the deadline, three before.\<close>

definition supplied :: "rat \<Rightarrow> nat \<Rightarrow> wire_state \<Rightarrow> bool" where
  "supplied d k s \<longleftrightarrow> length (ws_clock s) \<le> length (ws_answers s) \<and>
     (if passed d s then k else 3) \<le> late_readings d s"

definition in_time :: "rat \<Rightarrow> wire_state \<Rightarrow> bool" where
  "in_time d s \<longleftrightarrow> (\<exists>t. ws_last s = Some t \<and> t < d)"

lemma supplied_mono: "supplied d k s \<Longrightarrow> j \<le> k \<Longrightarrow> supplied d j s"
  by (auto simp: supplied_def split: if_splits)

lemma supplied_in_time: "supplied d k s \<Longrightarrow> in_time d s \<Longrightarrow> supplied d j s"
  by (auto simp: supplied_def in_time_def passed_def)

abbreviation gives_up :: "exn \<Rightarrow> bool" where
  "gives_up e \<equiv> e \<noteq> ScriptEnd \<and> retry_code e = None"

lemma gives_up_codes [simp]:
  "gives_up (remote ''clock_invalid'')" "gives_up (remote ''deadline'')" "gives_up (remote ''invalid_configuration'')"
  "gives_up (remote ''invalid_response'')" "gives_up KeyboardInterrupt" "gives_up UnicodeError"
  by code_simp+

lemma now_supplied:
  assumes "supplied d (Suc k) s" "k \<le> 2"
  shows "(\<forall>t s'. now s = (Inr t, s') \<longrightarrow> supplied d k s' \<and> length (ws_clock s') < length (ws_answers s') \<and>
      (t < d \<longleftrightarrow> in_time d s')) \<and> (\<forall>e s'. now s = (Inl e, s') \<longrightarrow> gives_up e)"
proof (cases "ws_clock s")
  case Nil
  then show ?thesis using assms by (auto simp: supplied_def late_readings_def split: if_splits)
next
  case (Cons r rs)
  show ?thesis
  proof (cases "num_value (rd_value r)")
    case None
    then show ?thesis using Cons by (auto simp: now_def)
  next
    case (Some t)
    show ?thesis
    proof (cases "t < 0 \<or> (case ws_last s of None \<Rightarrow> False | Some l \<Rightarrow> t < l)")
      case True
      then show ?thesis using Cons Some by (simp add: now_def)
    next
      case False
      then have "now s = (Inr t, s\<lparr>ws_clock := rs, ws_last := Some t\<rparr>)" using Cons Some by (simp add: now_def)
      moreover have "supplied d k (s\<lparr>ws_clock := rs, ws_last := Some t\<rparr>)"
        using assms Cons Some False
        by (auto simp: supplied_def late_readings_def passed_def late_def split: if_splits option.splits)
      moreover have "length rs < length (ws_answers s)" using assms Cons by (simp add: supplied_def)
      ultimately show ?thesis by (simp add: in_time_def)
    qed
  qed
qed

lemma now_triple:
  "k \<le> 2 \<Longrightarrow> triple (supplied d (Suc k)) now
     (\<lambda>t s. supplied d k s \<and> length (ws_clock s) < length (ws_answers s) \<and> (t < d \<longleftrightarrow> in_time d s)) (\<lambda>e _. gives_up e)"
  using now_supplied [of d k] by (intro tripleI) blast+

lemma wait_supplied:
  assumes "supplied d 1 s" "wait_until target d s = (r, s')"
  shows "(\<forall>x. r = Inr x \<longrightarrow> supplied d 3 s' \<and> in_time d s') \<and> (\<forall>e. r = Inl e \<longrightarrow> gives_up e)"
  using assms
proof (induction target d s arbitrary: r s' rule: wait_until.induct)
  case (1 target d s)
  obtain r1 s1 where n1: "now s = (r1, s1)" by fastforce
  obtain r2 s2 where n2: "now s1 = (r2, s2)" by fastforce
  have start: "supplied d (Suc 0) s" using 1 by simp
  note first = now_supplied [OF start]
  show ?case
  proof (cases "cancelled s \<or> (\<forall>t. r1 = Inr t \<longrightarrow> d \<le> t \<or> d \<le> target \<or> target \<le> t \<or> cancelled s1)")
    case True
    then show ?thesis
      using 1(3) n1 first
      by (subst (asm) wait_until.simps) (auto split: sum.splits if_splits intro: supplied_in_time)
  next
    case False
    then obtain t where t: "r1 = Inr t" "\<not> d \<le> t" "\<not> (d \<le> t \<or> d \<le> target)" "\<not> target \<le> t" "\<not> cancelled s" "\<not> cancelled s1"
      by auto
    have "supplied d (Suc 2) s1" using first n1 t by (auto intro: supplied_in_time)
    note second = now_supplied [OF this]
    show ?thesis
    proof (cases r2)
      case (Inl e)
      then show ?thesis using 1(3) n1 n2 t second by (subst (asm) wait_until.simps) auto
    next
      case (Inr t2)
      have "supplied d 1 s2" using second n2 Inr by (auto intro: supplied_mono)
      note IH = 1(1) [OF t(5) n1 [symmetric] t(1,3,4,6) n2 [symmetric] Inr _ this]
      show ?thesis
        using 1(3) n1 n2 t Inr IH by (subst (asm) (1) wait_until.simps) (auto split: if_splits)
    qed
  qed
qed

lemma slot_supplied:
  "triple (supplied d 2) (slot post d not_before) (\<lambda>_ s. supplied d 3 s \<and> in_time d s) (\<lambda>e _. gives_up e)"
  unfolding slot_def
proof (intro triple_bindS)
  show "triple (supplied d 2) now (\<lambda>_. supplied d 1) (\<lambda>e _. gives_up e)"
    using now_supplied [of d 1] by (intro tripleI) (auto simp: numeral_2_eq_2)
  show "triple (supplied d 1) (modS (\<lambda>s. s\<lparr>ws_times := dropWhile (\<lambda>x. x \<le> t - 60) (ws_times s)\<rparr>))
      (\<lambda>_. supplied d 1) (\<lambda>e _. gives_up e)" for t
    by (auto simp: triple_simple supplied_def late_readings_def passed_def)
  show "triple (supplied d 1) (getS (slot_start post t not_before)) (\<lambda>_. supplied d 1) (\<lambda>e _. gives_up e)" for t
    by (auto simp: triple_def getS_def)
  show "triple (supplied d 1) (wait_until start d) (\<lambda>_ s. supplied d 3 s \<and> in_time d s) (\<lambda>e _. gives_up e)" for start
    using wait_supplied by (intro tripleI) blast+
qed

text \<open>A call that fails in a way the loop retries leaves readings for the next round.\<close>

lemma api_supplied:
  "triple (supplied d 2) (api pr path posted d not_before) (\<lambda>_ s. supplied d 3 s \<and> in_time d s)
     (\<lambda>e s. e \<noteq> ScriptEnd \<and> (retry_code e \<noteq> None \<longrightarrow> supplied d 2 s))"
  (is "triple _ _ ?Q ?E")
proof -
  let ?fresh = "\<lambda>s. supplied d 2 s \<and> length (ws_clock s) < length (ws_answers s)"
  have weaken: "triple P m R ?E" if "triple P m R (\<lambda>e _. gives_up e)" for P and m :: "(wire_state, 'x) io" and R
    by (rule triple_post [OF that]) auto
  have now_pre: "triple (supplied d 2) now (\<lambda>t s. supplied d 1 s \<and> (t < d \<longleftrightarrow> in_time d s)) (\<lambda>e _. gives_up e)"
    using now_supplied [of d 1] by (intro tripleI) (auto simp: numeral_2_eq_2)
  have tail: "triple (supplied d 2) (case a of
         Failed code category \<Rightarrow> raiseS
           (case code of Some c \<Rightarrow> if 100 \<le> c \<and> c \<le> 599 then remote_error ''http_error'' None None (Some c)
               else remote (if category then ''transport'' else ''invalid_response'')
            | None \<Rightarrow> remote (if category then ''transport'' else ''invalid_response''))
       | Odd_reply \<Rightarrow> bindS now (\<lambda>t. raiseS (remote (if d \<le> t then ''deadline'' else ''invalid_response'')))
       | Replied status b \<Rightarrow> bindS now (\<lambda>t.
           if d \<le> t then raiseS (remote ''deadline'') else returnS (status, b))) ?Q ?E" for a
  proof (cases a)
    case (Replied status b)
    have "triple (supplied d 2) (bindS now (\<lambda>t. if d \<le> t then raiseS (remote ''deadline'') else returnS (status, b))) ?Q ?E"
      by (rule triple_bindS [OF weaken [OF now_pre]]) (auto simp: triple_simple not_le intro: supplied_in_time)
    then show ?thesis using Replied by simp
  next
    case Odd_reply
    have "triple (supplied d 2) (bindS now (\<lambda>t. raiseS (remote (if d \<le> t then ''deadline'' else ''invalid_response'')))) ?Q ?E"
      by (rule triple_bindS [OF weaken [OF now_pre]]) (auto simp: triple_simple)
    then show ?thesis using Odd_reply by simp
  next
    case (Failed code category)
    then show ?thesis by (auto simp: triple_simple remote_error_def split: option.splits)
  qed
  show ?thesis
    unfolding api_recorded
  proof (intro triple_bindS)
    have utf8: "utf8_encode t = Inl e \<Longrightarrow> e = UnicodeError" for t e
      using utf8_encode_raises raises_onlyD by blast
    show "triple (supplied d 2) (same_server pr) (\<lambda>_. supplied d 2) ?E"
      unfolding same_server_def
      by (intro weaken tripleI)
        (auto simp: bindS_def run_simps check_def split: prod.splits sum.splits if_splits dest: utf8)
    show "triple (supplied d 2) (slot (posted \<noteq> None) d not_before) (\<lambda>_ s. supplied d 3 s \<and> in_time d s) ?E"
      by (intro weaken slot_supplied)
    show "triple (\<lambda>s. supplied d 3 s \<and> in_time d s) now (\<lambda>_. ?fresh) ?E"
      by (intro weaken triple_pre [OF triple_post [OF now_triple [of 2 d]]]) (simp_all add: numeral_3_eq_3)
    show "triple ?fresh (recorded \<lparr>ce_post = (posted \<noteq> None), ce_path = path, ce_payload = posted, ce_time = t,
          ce_timeout = min 10 (d - t)\<rparr>) (\<lambda>_. supplied d 2) ?E" for t
      by (intro tripleI) (auto simp: recorded_def bindS_def modS_def started_call_def http_call_def supplied_def
          late_readings_def passed_def Let_def split: list.splits)
  qed (rule tail)
qed

lemma pending_raises: "pending_ok pr b = Inl e \<Longrightarrow> e \<noteq> ScriptEnd"
proof -
  have "raises_only (\<lambda>e. e = remote ''invalid_response'') (pending_ok pr b)"
    unfolding pending_ok_def
    by (intro raises raises_only_mono [OF validate_document_bytes_raises]) auto
  then show "pending_ok pr b = Inl e \<Longrightarrow> ?thesis" by (auto dest: raises_onlyD simp: remote_error_def)
qed

lemma poll_supplied:
  assumes "\<And>ps b rid ctx m. raises_only (\<lambda>e. e \<noteq> ScriptEnd) (pt_response pt ps b rid ctx m)"
    and "supplied d 1 s" "poll pt pr ps rid ctx d not_before delay failed s = (r, s')"
  shows "r \<noteq> Inl ScriptEnd \<and> (is_ok r \<longrightarrow> in_time d s')"
  using assms
proof (induction pt pr ps rid ctx d not_before delay failed s arbitrary: r s' rule: poll.induct)
  case (1 pt pr ps rid ctx d not_before delay failed s)
  let ?get = "api pr (pr_query pr @ u ''&id='' @ rid) None d not_before"
  let ?claim = "\<lambda>r s'. r \<noteq> Inl ScriptEnd \<and> (is_ok r \<longrightarrow> in_time d s')"
  have start: "supplied d (Suc 0) s" using 1 by simp
  have round: "supplied d 2 s1" if "now s = (Inr t, s1)" "\<not> d \<le> t" for t s1
    using now_supplied [OF start] that by (auto intro: supplied_in_time)
  have now1: "e \<noteq> ScriptEnd" if "now s = (Inl e, s1)" for e s1
    using now_supplied [OF start] that by auto
  have now2: "e \<noteq> ScriptEnd" if "now s2 = (Inl e, s3)" "supplied d 2 s2" for e s2 s3
    using now_supplied [of d 1 s2] that by (auto simp: numeral_2_eq_2)
  have now2': "supplied d 1 s3" if "now s2 = (Inr t, s3)" "supplied d 2 s2" for t s2 s3
    using now_supplied [of d 1 s2] that by (auto simp: numeral_2_eq_2)
  have get: "supplied d 3 s2" "in_time d s2" if "?get s1 = (Inr x, s2)" "supplied d 2 s1" for s1 x s2
    using triple_returns [OF api_supplied that(2,1)] by auto
  have lost: "e \<noteq> ScriptEnd \<and> (retry_code e \<noteq> None \<longrightarrow> supplied d 2 s2)" if "?get s1 = (Inl e, s2)" "supplied d 2 s1" for s1 e s2
    using triple_raises [OF api_supplied that(2,1)] .
  have again: "?claim r s'"
    if "now s = (Inr t, s1)" "\<not> d \<le> t" "?get s1 = (Inl e, s2)" "retry_code e = Some code" "now s2 = (Inr t', s3)"
      "poll pt pr ps rid ctx d (t' + min 8 (max 2 (delay * 2))) (min 8 (max 2 (delay * 2))) (Some code) s3 = (r, s')"
    for t s1 e s2 code t' s3 r s'
  proof -
    have "supplied d 1 s3" using now2' [OF that(5)] lost [OF that(3) round [OF that(1,2)]] that(4) by simp
    then show ?thesis
      using 1(1) [OF that(1) [symmetric] refl that(2) that(3) [symmetric] refl that(4) that(5) [symmetric] refl refl 1(3) _ that(6)]
      by simp
  qed
  have pending: "?claim r s'"
    if "now s = (Inr t, s1)" "\<not> d \<le> t" "?get s1 = (Inr (202, Octets b), s2)" "\<not> pr_response_limit pr < plen b"
      "pending_ok pr b = Inr ()" "now s2 = (Inr t', s3)"
      "poll pt pr ps rid ctx d (t' + POLL_INTERVAL) POLL_INTERVAL None s3 = (r, s')"
    for t s1 b s2 t' s3 r s'
  proof -
    have "supplied d 1 s3"
      using now2' [OF that(6)] get [OF that(3) round [OF that(1,2)]] supplied_mono [of d 3 s2 2] by simp
    then show ?thesis
      using 1(2) [OF that(1) [symmetric] refl that(2) that(3) [symmetric] refl refl refl that(4) refl that(5) that(6) [symmetric] refl 1(3) _ that(7)]
      by simp
  qed
  have answer: "rethrow P (remote ''invalid_response'') (pt_response pt ps b i ctx m) \<noteq> Inl ScriptEnd" for P b i m
    using 1(3) [of ps b i ctx m] by (auto simp: rethrow_def raises_only_def remote_error_def split: sum.splits)
  have codes: "ScriptEnd \<noteq> remote_error c i p h" for c i p h by (simp add: remote_error_def)
  show ?case
  proof (cases "now s")
    case now: (Pair r1 s1)
    show ?thesis
    proof (cases r1)
      case (Inl e)
      then show ?thesis using 1(5) now now1 by (subst (asm) poll.simps) (auto simp: is_ok_def)
    next
      case (Inr t)
      note now' = now [unfolded Inr]
      show ?thesis
      proof (cases "d \<le> t")
        case True
        then show ?thesis using 1(5) now' codes [symmetric] by (subst (asm) poll.simps) (auto simp: is_ok_def)
      next
        case False
        note fine = round [OF now' False]
        show ?thesis
        proof (cases "?get s1")
          case got: (Pair r2 s2)
          show ?thesis
          proof (cases r2)
            case (Inl e)
            note lost' = lost [OF got [unfolded Inl] fine]
            show ?thesis
            proof (cases "retry_code e")
              case None
              then show ?thesis
                using 1(5) now' False got Inl lost' by (subst (asm) poll.simps) (auto simp: is_ok_def)
            next
              case (Some code)
              have "supplied d 2 s2" using lost' Some by simp
              note failing = now2 [OF _ this]
              show ?thesis
                using 1(5) now' False got Inl Some failing again [OF now' False got [unfolded Inl] Some]
                by (subst (asm) poll.simps) (auto simp: is_ok_def Let_def split: prod.splits sum.splits)
            qed
          next
            case (Inr x)
            note got' = get [OF got [unfolded Inr] fine]
            have "supplied d 2 s2" using got'(1) supplied_mono [of d 3 s2 2] by simp
            note failing = now2 [OF _ this]
            obtain status b where x: "x = (status, b)" by fastforce
            show ?thesis
            proof (cases "\<exists>raw. b = Octets raw \<and> \<not> pr_response_limit pr < plen raw \<and> status = 202 \<and> pending_ok pr raw = Inr ()")
              case True
              then show ?thesis
                using 1(5) now' False got Inr x failing pending [OF now' False]
                by (subst (asm) poll.simps) (auto simp: is_ok_def split: prod.splits sum.splits)
            next
              case False
              then show ?thesis
                using 1(5) now' \<open>\<not> d \<le> t\<close> got Inr x got'(2) pending_raises answer codes [symmetric]
                by (subst (asm) poll.simps) (auto simp: is_ok_def split: sum.splits body.splits if_splits)
            qed
          qed
        qed
      qed
    qed
  qed
qed

text \<open>So a request comes to an end, and one that returns a result does so before its deadline.\<close>

lemma params_raises:
  assumes "\<And>p. raises_only (\<lambda>e. e \<noteq> ScriptEnd) (pt_request pt p)"
  shows "raises_only (\<lambda>e. e \<noteq> ScriptEnd) (request_params pt pr p)"
  unfolding request_params_def on_def
  by (intro raises raises_only_mono [OF assms] raises_only_mono [OF request_envelopes_raises])
    (auto simp: remote_error_def itemR_def check_def split: option.splits json.splits intro!: raises)

lemma receive_ends:
  assumes "\<And>ps b rid ctx m. raises_only (\<lambda>e. e \<noteq> ScriptEnd) (pt_response pt ps b rid ctx m)"
    and "supplied d 1 s" "receive pt pr ps rid ctx d s = (r, s')"
  shows "r \<noteq> Inl ScriptEnd \<and> (is_ok r \<longrightarrow> in_time d s')"
proof -
  obtain rp sp where p: "poll pt pr ps rid ctx d 0 POLL_INTERVAL None s = (rp, sp)" by fastforce
  note ends = poll_supplied [OF assms(1,2) p]
  have note_time: "in_time d (emit_receipt action i st sp) = in_time d sp" for action i st
    by (simp add: in_time_def emit_receipt_def)
  have "with_request i phase e \<noteq> ScriptEnd" if "e \<noteq> ScriptEnd" for i phase e
    using that by (auto simp: with_request_def remote_error_def split: exn.splits)
  then show ?thesis
    using assms(3) p ends note_time
    by (auto simp: receive_def Let_def is_ok_def remote_error_def split: sum.splits if_splits)
qed

lemma rpc_ends:
  assumes "\<And>p. raises_only (\<lambda>e. e \<noteq> ScriptEnd) (pt_request pt p)"
    and "\<And>ps b rid ctx m. raises_only (\<lambda>e. e \<noteq> ScriptEnd) (pt_response pt ps b rid ctx m)"
    and "supplied d 2 s" "rpc pt pr params ctx d s = (r, s')"
  shows "r \<noteq> Inl ScriptEnd \<and> (is_ok r \<longrightarrow> in_time d s')"
proof (cases "request_params pt pr params")
  case (Inl e)
  then show ?thesis
    using assms(4) raises_onlyD [OF params_raises [OF assms(1)] Inl] by (auto simp: rpc_split is_ok_def)
next
  case (Inr ps)
  obtain re se where e: "enqueue pt pr ps d s = (re, se)" by fastforce
  have "triple (supplied d 2) (enqueue pt pr ps d) (\<lambda>_. supplied d 3) (\<lambda>e _. e \<noteq> ScriptEnd)"
    unfolding enqueue_def
    by (rule triple_bindS [where R = "\<lambda>_ s. supplied d 3 s \<and> in_time d s"], rule triple_post [OF api_supplied])
      (auto simp: triple_simple remote_error_def split: body.splits)
  then have en: "(\<forall>rid. re = Inr rid \<longrightarrow> supplied d 3 se) \<and> (\<forall>x. re = Inl x \<longrightarrow> x \<noteq> ScriptEnd)"
    using e assms(3) by (auto simp: triple_def)
  show ?thesis
  proof (cases re)
    case (Inl x)
    have "with_request None ''enqueue'' x \<noteq> ScriptEnd"
      using en Inl by (auto simp: with_request_def remote_error_def split: exn.splits)
    then show ?thesis using assms(4) Inr e Inl by (auto simp: rpc_split is_ok_def)
  next
    case (Inr rid)
    then have "receive pt pr ps rid ctx d se = (r, s')"
      using assms(4) \<open>request_params pt pr params = Inr ps\<close> e by (simp add: rpc_split)
    then show ?thesis using receive_ends [OF assms(2)] en Inr supplied_mono [of d 3 se 1] by simp
  qed
qed

end
