(* ===== verification/RemoteSamples.thy ===== *)
theory RemoteSamples
  imports GlobalItems GlobalSamples FavProtocolSamples RemoteDeadline
begin

text \<open>
  A concrete conversation: a transport to a controller, and one \<open>current\<close> request that the player answers
  after a pending reply. The digest of the server's name is never evaluated, only compared with itself.
\<close>

definition ticks :: "int list \<Rightarrow> reading list" where
  "ticks ts = map (\<lambda>t. \<lparr>rd_value = JInt t, rd_cancelled = False\<rparr>) ts"

definition sample_request_id :: pystr where
  "sample_request_id = replicate 32 97"

definition sample_ack :: answer where
  "sample_ack = Replied 202 (Json (JObj [(u ''id'', JStr sample_request_id), (u ''status'', lit ''queued'')]))"

definition pending_body :: json where
  "pending_body = JObj [(u ''status'', lit ''pending'')]"

definition current_request :: json where
  "current_request = JObj [(u ''op'', lit ''current''), (u ''runtime'', lit ''rt''), (u ''subject'', lit ''global'')]"

definition current_answer :: json where
  "current_answer = global_answer ''current''
     [(u ''revision'', global_digest ''1''), (u ''context_revision'', global_digest ''2''), (u ''entry'', JNull),
      (u ''unavailable_reason'', lit ''standby'')]"

definition response_body :: "json \<Rightarrow> json" where
  "response_body d = JObj [(u ''id'', JStr sample_request_id), (u ''status'', lit ''ok''), (u ''data'', d)]"

definition sample_answers :: "json \<Rightarrow> answer list" where
  "sample_answers d = [sample_ack, Replied 202 (Octets (wire_of pending_body)),
     Replied 200 (Octets (wire_of (response_body d)))] @ replicate 20 Odd_reply"

definition sample_wire :: "json \<Rightarrow> wire_state" where
  "sample_wire d = \<lparr>ws_clock = ticks [1, 2, 3, 4, 5, 6, 7, 8, 9, 10, 11, 12, 13, 14, 15, 16, 50, 51, 52],
     ws_answers = sample_answers d, ws_server = lit ''https://ctl'', ws_last = None, ws_last_post = None,
     ws_last_http = None, ws_times = [], ws_deadline = 0, ws_calls = [], ws_notes = []\<rparr>"

definition sample_peer :: peer where
  "sample_peer = \<lparr>pr_device = u ''tv'', pr_runtime = u ''rt'', pr_envelope_limit = 16384, pr_response_limit = 2097152,
     pr_metadata = 65536, pr_allowed = Some GI_OPS,
     pr_target = (sha256_hex (ascii ''https://ctl''), u ''tv'', u ''rt''), pr_query = device_query (u ''tv'')\<rparr>"

definition sample_opened :: "json \<Rightarrow> wire_state" where
  "sample_opened d = (sample_wire d)\<lparr>ws_clock := tl (ws_clock (sample_wire d)), ws_last := Some 1, ws_deadline := 46\<rparr>"

lemma sample_open:
  "open_transport (lit ''tv'') (lit ''rt'') (JInt 16384) (JInt 2097152) (JInt 45) (JInt 65536) JNull (Some GI_OPS) (sample_wire d)
     = (Inr sample_peer, sample_opened d)"
proof -
  have pats: "device_pat (u ''tv'')" "runtime_pat (u ''rt'')" "plen (u ''https://ctl'') \<le> 2048" "u ''https://ctl'' \<noteq> []"
    "utf8_encode (u ''https://ctl'') = Inr (ascii ''https://ctl'')"
    by code_simp+
  show ?thesis
    by (simp add: open_transport_def bindS_def run_simps lit_def finite_number_def pats sample_wire_def ticks_def now_def
        sample_peer_def sample_opened_def check_def)
qed

lemma sample_params: "request_params (items_protocol ascii_tables) sample_peer current_request = Inr current_request"
proof -
  have "gi_validate_request (Parsed current_request) = Inr current_request" by code_simp
  moreover have "\<exists>env. request_envelopes GI_ACTION current_request None = Inr env \<and>
      max (plen (client env)) (plen (queued_upper_bound env)) \<le> 16384"
  proof -
    have "case request_envelopes GI_ACTION current_request None of Inl _ \<Rightarrow> False | Inr env \<Rightarrow>
        plen (client env) \<le> 16384 \<and> plen (queued_upper_bound env) \<le> 16384"
      by code_simp
    then show ?thesis by (auto split: sum.splits)
  qed
  moreover have "on current_request ''op'' (\<lambda>op. check (remote ''invalid_configuration'') (in_lits op GI_OPS)) = Inr ()"
    by code_simp
  ultimately show ?thesis
    by (auto simp: request_params_def items_protocol_def sample_peer_def)
qed

text \<open>The same for any of the peer's requests of a modest size.\<close>

lemma small_params:
  assumes "gi_validate_request (Parsed v) = Inr v" "is_dict v" "plain v" "enc_text v" "no_html (ctext v)" "jsize v \<le> 8000"
    "on v ''op'' (\<lambda>op. check (remote ''invalid_configuration'') (in_lits op GI_OPS)) = Inr ()"
  shows "request_params (items_protocol ascii_tables) sample_peer v = Inr v"
proof -
  have "action_name GI_ACTION" by code_simp
  from action_envelopes [OF this assms(2,3) assms(4) [unfolded enc_text_def] assms(5,6)] obtain env where "request_envelopes GI_ACTION v None = Inr env"
      "plen (client env) \<le> 16384" "plen (queued_upper_bound env) \<le> 16384"
    by (auto split: sum.splits)
  then show ?thesis using assms by (auto simp: request_params_def items_protocol_def sample_peer_def)
qed

lemma sample_pending: "pending_ok sample_peer (wire_of pending_body) = Inr ()"
  by code_simp

definition sample_result :: gp_result where
  "sample_result = \<lparr>gr_request = wire_of current_request, gr_data = wire_of current_answer, gr_status = u ''ok'',
     gr_request_id = JStr sample_request_id, gr_verified = False, gr_chunk = None\<rparr>"

text \<open>A response whose members are canonical text is read member by member.\<close>

lemma raw_object_mono: "gp_object (Raw b) m = Inr x \<Longrightarrow> m \<le> cap \<Longrightarrow> gp_object (Raw b) cap = Inr x"
  by (auto simp: gp_object_def gp_wire_bytes_def bindR_ok rethrow_ok check_ok)

definition response_token :: "json \<Rightarrow> pystr result" where
  "response_token d = (let text = ctext (response_body d)
     in data_token ascii_tables (length text) (drop 1 (dropWhile (\<lambda>c. c \<noteq> 123) text)))"

lemma canonical_response:
  assumes "wire_value (response_body d)" "wire_value d" "response_token d = Inr (ctext d)"
    and "gi_validate_request (Parsed ps) = Inr ps" "wire_value ps" "gi_data ps (u ''ok'') d = Inr ()"
  shows "gi_validate_response ascii_tables (Parsed ps) (Raw (wire_of (response_body d))) (JStr sample_request_id) None 65536
     = Inr \<lparr>gr_request = wire_of ps, gr_data = wire_of d, gr_status = u ''ok'', gr_request_id = JStr sample_request_id,
         gr_verified = False, gr_chunk = None\<rparr>"
proof -
  have raw: "gp_object (Raw (wire_of v)) cap = Inr (v, wire_of v)" if "wire_value v" "GP_ENVELOPE_BYTES \<le> cap" for v cap
    by (rule raw_object_mono [OF wire_value_object that(2)]) (use that in auto)
  have shape: "gp_shape (response_body d) [''id'', ''status'', ''data''] = Inr ()"
    "on (response_body d) ''id'' F = F (JStr sample_request_id)" "on (response_body d) ''status'' F = F (lit ''ok'')" for F :: "json \<Rightarrow> gp_result result"
    by (auto simp: gp_shape_ok response_body_def same_keys_list on_has)
  have id: "gp_pattern (JStr sample_request_id) request_id_pat = Inr ()"
    "gp_require (py_eq (JStr sample_request_id) (JStr sample_request_id) \<and> is_str (lit ''ok'') \<and>
       in_lits (lit ''ok'') [''ok'', ''rejected'', ''unsupported'']) = Inr ()"
    by code_simp+
  have "utf8_decode (wire_of (response_body d)) = Inr (ctext (response_body d))"
    using wire_value_bytes(2) [OF assms(1)] by (rule utf8_roundtrip)
  moreover have "utf8_encode (ctext d) = Inr (wire_of d)" "gp_encoded ps = Inr (wire_of ps)"
    using wire_value_bytes assms(2,5) by blast+
  moreover have "gp_require True = Inr ()" "gp_integer (JInt 65536) 1 GI_METADATA_BYTES = Inr ()"
    by (simp_all add: gp_require_ok gp_integer_ok)
  ultimately show ?thesis
    using assms(3,4,6) id
    by (simp add: gi_validate_response_def gi_validate_result_def raw assms shape response_token_def Let_def
        lit_def del: py_eq.simps in_lits_simps)
qed

lemma sample_response:
  "gi_validate_response ascii_tables (Parsed current_request) (Raw (wire_of (response_body current_answer)))
     (JStr sample_request_id) None 65536 = Inr sample_result"
  by code_simp

section \<open>The request, call by call\<close>

lemma sample_ack_ok: "valid_queue_ack 202 (Json (JObj [(u ''id'', JStr sample_request_id), (u ''status'', lit ''queued'')]))"
  "str_of (fld (JObj [(u ''id'', JStr sample_request_id), (u ''status'', lit ''queued'')]) ''id'') = sample_request_id"
  by code_simp+

lemma sample_server: "same_server sample_peer s = (if ws_server s = lit ''https://ctl'' then (Inr (), s) else same_server sample_peer s)"
proof -
  have "utf8_encode (u ''https://ctl'') = Inr (ascii ''https://ctl'')" by code_simp
  then show ?thesis by (simp add: same_server_def sample_peer_def bindS_def run_simps lit_def)
qed

lemmas run_transport = bindS_def run_simps check_def now_def Let_def ticks_def sample_opened_def sample_wire_def
  slot_def slot_start_def cancelled_def started_call_def http_call_def


lemma api_sample:
  assumes "ws_server s = lit ''https://ctl''" 
  shows "api sample_peer path posted d nb s = bindS (slot (posted \<noteq> None) d nb) (\<lambda>_.
     bindS now (\<lambda>started.
     bindS (recorded \<lparr>ce_post = (posted \<noteq> None), ce_path = path, ce_payload = posted, ce_time = started,
              ce_timeout = min 10 (d - started)\<rparr>) (\<lambda>a.
       case a of
         Failed code category \<Rightarrow> raiseS
           (case code of Some c \<Rightarrow> if 100 \<le> c \<and> c \<le> 599 then remote_error ''http_error'' None None (Some c)
               else remote (if category then ''transport'' else ''invalid_response'')
            | None \<Rightarrow> remote (if category then ''transport'' else ''invalid_response''))
       | Odd_reply \<Rightarrow> bindS now (\<lambda>t. raiseS (remote (if d \<le> t then ''deadline'' else ''invalid_response'')))
       | Replied status b \<Rightarrow> bindS now (\<lambda>t.
           if d \<le> t then raiseS (remote ''deadline'') else returnS (status, b))))) s"
  using sample_server [of s] assms by (simp add: api_recorded)

lemma first_call:
  "api sample_peer (pr_query sample_peer) (Some v) 46 0 (sample_opened d) =
   (Inr (202, Json (JObj [(u ''id'', JStr sample_request_id), (u ''status'', lit ''queued'')])),
    (sample_opened d)\<lparr>ws_clock := drop 4 (ws_clock (sample_opened d)), ws_answers := tl (ws_answers (sample_opened d)),
      ws_last := Some 5, ws_last_http := Some 4, ws_last_post := Some 4, ws_times := [4],
      ws_calls := [\<lparr>ce_post = True, ce_path = pr_query sample_peer, ce_payload = Some v, ce_time = 4, ce_timeout = 10\<rparr>]\<rparr>)"
  by (simp add: api_sample run_transport recorded_def wait_until.simps sample_answers_def sample_ack_def)

lemma pending_size: "\<not> 2097152 < plen (wire_of pending_body)"
  by code_simp

lemma sample_exchange:
  assumes "request_params (items_protocol ascii_tables) sample_peer params = Inr ps"
    and "gi_validate_response ascii_tables (Parsed ps) (Raw (wire_of (response_body d))) (JStr sample_request_id) None 65536 = Inr res"
    and "gr_status res = u ''ok''" "\<not> 2097152 < plen (wire_of (response_body d))"
  shows "\<exists>s'. rpc (items_protocol ascii_tables) sample_peer params None 46 (sample_opened d) = (Inr res, s') \<and>
     map ce_time (ws_calls s') = [15, 9, 4] \<and> ws_last s' = Some 16"
proof -
  let ?pt = "items_protocol ascii_tables"
  have peer: "pr_response_limit sample_peer = 2097152" "pr_metadata sample_peer = 65536" by (simp_all add: sample_peer_def)
  have first: "enqueue ?pt sample_peer ps 46 (sample_opened d) = (Inr sample_request_id,
      snd (api sample_peer (pr_query sample_peer) (Some (JObj [(u ''action'', JStr (pt_action ?pt)),
        (u ''params'', ps)])) 46 0 (sample_opened d)))"
    by (simp only: enqueue_def bindS_def first_call prod.case sum.case sample_ack_ok if_True returnS_def body.case snd_conv)
  have pt: "pt_response ?pt = (\<lambda>ps b rid ctx m. gi_validate_response ascii_tables (Parsed ps) (Raw b) rid ctx m)"
    "pt_status ?pt = gr_status"
    by (simp_all add: items_protocol_def)
  show ?thesis
    apply (simp add: rpc_split assms(1) first first_call receive_def)
    apply (simp add: sample_opened_def sample_wire_def ticks_def sample_answers_def)
    apply (subst poll.simps)
    apply (simp add: api_sample run_transport recorded_def wait_until.simps peer pending_size sample_pending)
    apply (subst poll.simps)
    apply (simp add: api_sample run_transport recorded_def wait_until.simps peer assms(4) pending_size sample_pending)
    apply (simp add: assms(2,3) pt emit_receipt_def)
    done
qed

lemma current_size: "\<not> 2097152 < plen (wire_of (response_body current_answer))"
  by code_simp

definition sample_final :: wire_state where
  "sample_final = snd (rpc (items_protocol ascii_tables) sample_peer current_request None 46 (sample_opened current_answer))"

lemma sample_conversation: "conversation (items_protocol ascii_tables) sample_peer sample_final"
  unfolding sample_final_def
  by (rule conversation.asked [OF conversation.opened [OF sample_open] prod.collapse [symmetric]]) (simp add: sample_wire_def)

lemma sample_rpc:
  "\<exists>s'. rpc (items_protocol ascii_tables) sample_peer current_request None 46 (sample_opened current_answer) = (Inr sample_result, s') \<and>
     map ce_time (ws_calls s') = [15, 9, 4] \<and> ws_last s' = Some 16"
  by (rule sample_exchange [OF sample_params sample_response _ current_size]) (simp add: sample_result_def)

end
