(* ===== verification/RemoteProps.thy ===== *)
theory RemoteProps
  imports RemoteSamples FavProtocolClosed
begin

text \<open>
  What the transport of \<open>src/cli/favorites_remote.py\<close> promises: its calls are paced, a request is POSTed once
  and noted once, and it ends by its deadline, whatever the controller answers and the clock reads.
\<close>

text \<open>
  C6: In every state a transport can reach, its HTTP calls are at least half a second apart, its POSTs at
  least one and a half seconds, and no minute that ends with a call holds more than 120 of them.
\<close>

theorem transport_paced:
  assumes "conversation pt pr s"
  shows "spaced HTTP_INTERVAL (call_times s) \<and> spaced POST_INTERVAL (post_times s) \<and> windowed 120 (call_times s)"
  using conversation_paced [OF assms] by (simp add: paced_def)

theorem transport_paced_witness:
  "spaced HTTP_INTERVAL (call_times sample_final) \<and> call_times sample_final = [15, 9, 4]"
  using transport_paced [OF sample_conversation] sample_rpc
  by (auto simp: sample_final_def call_times_def)

text \<open>
  C9: A request that fails its own checks makes no call; any other is POSTed at most once, to the queue of
  its device and with exactly its validated parameters, it is POSTed if it returns a result, and it leaves
  exactly one receipt note, which says \<open>ok\<close> just if the request returned.
\<close>

theorem request_posted_once:
  assumes "rpc pt pr params ctx deadline s = (r, s')"
  shows "case request_params pt pr params of
     Inl e \<Rightarrow> r = Inl e \<and> s' = s
   | Inr ps \<Rightarrow> (posts s' = posts s \<and> \<not> is_ok r \<or> (\<exists>c. posts s' = c # posts s \<and> post_of pt pr ps c)) \<and>
       (\<exists>n. ws_notes s' = n # ws_notes s \<and> note_of pt r n)"
  using rpc_once [OF assms] rpc_refused [of pt pr params _ ctx deadline s] assms by (cases "request_params pt pr params") auto

theorem request_posted_once_witness:
  "\<exists>c. posts sample_final = [c] \<and> post_of (items_protocol ascii_tables) sample_peer current_request c"
  using request_posted_once [of "items_protocol ascii_tables" sample_peer current_request None 46 "sample_opened current_answer", OF prod.collapse [symmetric]]
    sample_rpc sample_params
  by (auto simp: sample_final_def posts_def sample_opened_def sample_wire_def is_ok_def)

text \<open>
  C23: A request ends: with three readings of the clock at its deadline or later, and an answer for every
  reading, it never waits for more, whatever comes before; and one that returns a result has it before its
  deadline.
\<close>

theorem request_ends:
  assumes "\<And>p. raises_only (\<lambda>e. e \<noteq> ScriptEnd) (pt_request pt p)"
    and "\<And>ps b rid ctx m. raises_only (\<lambda>e. e \<noteq> ScriptEnd) (pt_response pt ps b rid ctx m)"
    and "3 \<le> late_readings d s" and "length (ws_clock s) \<le> length (ws_answers s)"
    and "rpc pt pr params ctx d s = (r, s')"
  shows "r \<noteq> Inl ScriptEnd \<and> (is_ok r \<longrightarrow> in_time d s')"
  by (rule rpc_ends [OF assms(1,2) _ assms(5)]) (use assms(3,4) in \<open>auto simp: supplied_def\<close>)

theorem request_ends_witness:
  "fst (rpc (favorites_protocol ascii_tables None) (sample_peer\<lparr>pr_allowed := None\<rparr>) sample_status None 46 (sample_opened current_answer))
     \<noteq> Inl ScriptEnd"
proof -
  have "3 \<le> late_readings 46 (sample_opened current_answer)" "length (ws_clock (sample_opened current_answer)) \<le> length (ws_answers (sample_opened current_answer))"
    by (simp_all add: late_readings_def late_def sample_opened_def sample_wire_def ticks_def sample_answers_def)
  from request_ends [OF favorites_protocol_closed this prod.collapse [symmetric]] show ?thesis by blast
qed

end
