(* ===== verification/GlobalItemsLaws.thy ===== *)
theory GlobalItemsLaws
  imports GlobalItems RemoteRuns GlobalProtocolLaws
begin

text \<open>
  What an answer of the items protocol has established, what the loop of \<open>list\<close> has collected after each
  page, and that what it collected can be written and read back.
\<close>

section \<open>The answer behind a result\<close>

lemma poll_answer:
  "poll pt pr ps rid ctx deadline not_before delay failed s = (Inr res, s') \<Longrightarrow>
     \<exists>b. pt_response pt ps b (JStr rid) ctx (pr_metadata pr) = Inr res"
proof (induction pt pr ps rid ctx deadline not_before delay failed s rule: poll.induct)
  case (1 pt pr ps rid ctx deadline not_before delay failed s)
  show ?case
    using 1(3) 1(1,2)
    by (subst (asm) poll.simps)
      (auto simp: Let_def rethrow_ok split: prod.splits sum.splits option.splits body.splits if_splits)
qed

lemma rpc_answer:
  assumes "rpc pt pr params ctx deadline s = (Inr res, s')"
  shows "\<exists>ps b rid. request_params pt pr params = Inr ps \<and>
    pt_response pt ps b (JStr rid) ctx (pr_metadata pr) = Inr res \<and> pt_status pt res = u ''ok''"
proof -
  obtain ps where ps: "request_params pt pr params = Inr ps"
    using assms by (auto simp: rpc_split split: sum.splits)
  obtain rid se where "receive pt pr ps rid ctx deadline se = (Inr res, s')"
    using assms ps by (auto simp: rpc_split split: sum.splits prod.splits)
  then obtain sp where "poll pt pr ps rid ctx deadline 0 POLL_INTERVAL None se = (Inr res, sp)" "pt_status pt res = u ''ok''"
    by (auto simp: receive_def Let_def split: sum.splits prod.splits if_splits)
  with ps poll_answer [OF this(1)] show ?thesis by blast
qed

section \<open>Entries and rows\<close>

lemma origin_free: "g_origin v = Inr w \<Longrightarrow> real_value v \<Longrightarrow> float_free v"
  by (rule float_free_shape [of v "[''provider'', ''profile'', ''subprofile'', ''sourceAlias'']"])
    (auto simp: g_origin_def ok_iff)

lemma lit_free: "is_lit x s \<Longrightarrow> float_free x"
  by (auto simp: is_lit_def)

lemma locator_kinds_free:
  "plex_locator v = Inr w \<Longrightarrow> real_value v \<Longrightarrow> float_free v"
  "local_locator v = Inr w \<Longrightarrow> real_value v \<Longrightarrow> float_free v"
  "vportal_locator v = Inr w \<Longrightarrow> real_value v \<Longrightarrow> float_free v"
  "channel_locator v = Inr w \<Longrightarrow> real_value v \<Longrightarrow> float_free v"
  "named_locator v = Inr w \<Longrightarrow> is_lit (fld v ''kind'') k \<Longrightarrow> real_value v \<Longrightarrow> float_free v"
  by (rule float_free_shape [of v "[''kind'', ''serverId'', ''ratingKey'']"]
      float_free_shape [of v "[''kind'', ''rootAlias'', ''relativePath'']"]
      float_free_shape [of v "[''kind'', ''idField'', ''id'']"] float_free_shape [of v "[''kind'', ''channelId'']"]
      float_free_shape [of v "[''kind'', ''name'', ''group'']"],
    auto simp: plex_locator_def local_locator_def vportal_locator_def named_locator_def channel_locator_def ok_iff is_str_iff
      dest: lit_free; fail)+

lemma locator_free: "g_locator p v = Inr w \<Longrightarrow> real_value v \<Longrightarrow> float_free v"
  by (auto simp: g_locator_def split: if_splits intro: locator_kinds_free)

lemma entry_free: "g_entry v = Inr w \<Longrightarrow> real_value v \<Longrightarrow> float_free v"
  by (rule float_free_shape [of v "[''title'', ''origin'', ''locator'']"])
    (auto simp: g_entry_ok intro: origin_free locator_free real_value_fld)

definition good_row :: "json \<Rightarrow> bool" where
  "good_row row \<longleftrightarrow> is_dict row \<and> same_keys row [''id'', ''entry''] \<and> real_value row \<and> (\<exists>i. fld row ''id'' = JStr i)"

lemma good_row_free: "good_row row \<Longrightarrow> g_entry (fld row ''entry'') = Inr w \<Longrightarrow> float_free row"
  by (rule float_free_shape [of row "[''id'', ''entry'']"]) (auto simp: good_row_def intro: entry_free real_value_fld)

text \<open>What the loop has collected: valid entries of distinct identities, and their size.\<close>

definition page_head :: "json \<Rightarrow> bool" where
  "page_head f \<longleftrightarrow> (\<forall>k \<in> set REVISIONS. \<exists>s. fld f k = JStr s) \<and>
     (\<exists>n. fld f ''total'' = JInt n \<and> 0 \<le> n \<and> n \<le> GI_MAX_ENTRIES) \<and> (\<exists>n. fld f ''unresolved_legacy_count'' = JInt n) \<and>
     has f ''total'' \<and> real_value f"

definition gathered :: "collected \<Rightarrow> json list \<Rightarrow> bool" where
  "gathered c ws \<longleftrightarrow> (\<forall>row \<in> set (co_rows c). good_row row) \<and>
     list_all2 (\<lambda>row w. g_entry (fld row ''entry'') = Inr w) (co_rows c) ws \<and>
     co_identities c = rev (map ident ws) \<and> distinct (map ident ws) \<and>
     co_ids c = rev (map (\<lambda>row. fld row ''id'') (co_rows c)) \<and> distinct (co_ids c) \<and>
     co_size c = jsize (g_document ws) \<and> co_size c \<le> G_MAX_BYTES"

lemma one_entry_bytes:
  assumes "g_canonical (JObj [(u ''version'', JInt 1), (u ''entries'', JArr [e])]) = Inr b" "real_value e" "g_entry e = Inr w"
  shows "plen b = 26 + jsize w"
proof -
  let ?d = "JObj [(u ''version'', JInt 1), (u ''entries'', JArr [e])]"
  have real: "real_value ?d" using assms(2) by (auto simp: code_points_def u_def)
  from assms(1) obtain d where d: "g_validate ?d = Inr d" "g_json_bytes d = Inr b" by (auto simp: g_canonical_def ok_iff)
  then have "d = g_document [w]"
    using assms(3) unfolding g_validate_ok [OF real]
    by (auto simp: g_entries_def list_all2_Cons1)
  obtain ws where "normal_document d ws" using g_validate_normal [OF d(1) real] by blast
  then have "plen b = jsize d" using normal_document_bytes d(2) by (metis sum.inject(2))
  then show ?thesis using \<open>d = g_document [w]\<close> jsize_g_document [of "[w]"] by (simp add: commas_def)
qed

lemma jsize_g_document_snoc:
  "jsize (g_document (ws @ [w])) = jsize (g_document ws) + jsize w + (if ws = [] then 0 else 1)"
  by (simp add: jsize_g_document commas_def)

lemma take_row_gathers:
  assumes "take_row c row = Inr c'" "gathered c ws" "good_row row"
  shows "\<exists>w. gathered c' (ws @ [w]) \<and> co_rows c' = co_rows c @ [row] \<and> co_first c' = co_first c \<and>
    co_cursors c' = co_cursors c \<and> co_cursor c' = co_cursor c"
proof -
  let ?e = "fld row ''entry''"
  from assms(1) obtain identity b where
    id: "g_identity ?e = Inr identity" and fresh: "fld row ''id'' \<notin> set (co_ids c)" "identity \<notin> set (co_identities c)"
    and b: "g_canonical (JObj [(u ''version'', JInt 1), (u ''entries'', JArr [?e])]) = Inr b"
    and room: "co_size c + (plen b - plen g_empty_bytes + (if co_rows c = [] then 0 else 1)) \<le> G_MAX_BYTES"
    and c': "c' = c\<lparr>co_ids := fld row ''id'' # co_ids c, co_identities := identity # co_identities c,
        co_rows := co_rows c @ [row], co_size := co_size c + (plen b - plen g_empty_bytes + (if co_rows c = [] then 0 else 1))\<rparr>"
    by (auto simp: take_row_def ok_iff Let_def)
  from id obtain w where w: "g_entry ?e = Inr w" "entry_identity w = Inr identity" by (auto simp: g_identity_def ok_iff)
  have real: "real_value ?e" using assms(3) real_value_fld by (auto simp: good_row_def)
  have "identity = ident w" using entry_identity_normal [OF w(1) writable_entry [OF w(1) real]] w(2) by simp
  moreover have "plen b = 26 + jsize w" by (rule one_entry_bytes [OF b real w(1)])
  moreover have "plen g_empty_bytes = 26" by code_simp
  moreover have "co_rows c = [] \<longleftrightarrow> ws = []" using assms(2) by (auto simp: gathered_def)
  ultimately have "gathered c' (ws @ [w])"
    using assms(2,3) w(1) fresh room unfolding c' gathered_def
    by (auto simp: jsize_g_document_snoc intro: list_all2_appendI)
  then show ?thesis using c' by auto
qed

lemma take_rows_gather:
  "foldR take_row c rows = Inr c' \<Longrightarrow> gathered c ws \<Longrightarrow> \<forall>row \<in> set rows. good_row row \<Longrightarrow>
     \<exists>ws'. gathered c' ws' \<and> co_rows c' = co_rows c @ rows \<and> co_first c' = co_first c \<and> co_cursors c' = co_cursors c"
proof (induction rows arbitrary: c ws)
  case Nil
  then show ?case by auto
next
  case (Cons row rows)
  from Cons.prems(1) obtain c1 where c1: "take_row c row = Inr c1" "foldR take_row c1 rows = Inr c'"
    by (auto simp: foldR_Cons_ok)
  from take_row_gathers [OF c1(1) Cons.prems(2)] Cons.prems(3) obtain w where
    w: "gathered c1 (ws @ [w])" "co_rows c1 = co_rows c @ [row]" "co_first c1 = co_first c" "co_cursors c1 = co_cursors c"
    by auto
  from Cons.IH [OF c1(2) w(1)] Cons.prems(3) w show ?case by auto
qed

section \<open>Pages\<close>

lemma gi_rows_ok:
  "foldR gi_row (ids, es) rows = Inr (ids', es') \<Longrightarrow> \<forall>row \<in> set rows. real_value row \<Longrightarrow>
     (\<forall>row \<in> set rows. good_row row) \<and> es' = es @ map (\<lambda>row. fld row ''entry'') rows"
proof (induction rows arbitrary: ids es)
  case Nil
  then show ?case by (auto simp: ok_iff)
next
  case (Cons row rows)
  from Cons.prems(1) obtain ids1 es1 where
    row: "gi_row (ids, es) row = Inr (ids1, es1)" "foldR gi_row (ids1, es1) rows = Inr (ids', es')"
    by (auto simp: foldR_Cons_ok)
  from row(1) have "is_dict row" "same_keys row [''id'', ''entry'']" "\<exists>i. fld row ''id'' = JStr i" "es1 = es @ [fld row ''entry'']"
    by (auto simp: gi_row_def ok_iff)
  with Cons.IH [OF row(2)] Cons.prems(2) show ?case by (auto simp: good_row_def)
qed

lemma gi_page_rows:
  assumes "gi_page params d = Inr ()" "real_value d"
  shows "\<forall>row \<in> set (list_of (fld d ''entries'')). good_row row"
    and "\<exists>n. fld d ''total'' = JInt n \<and> 0 \<le> n \<and> n \<le> GI_MAX_ENTRIES" "\<exists>n. fld d ''unresolved_legacy_count'' = JInt n"
    and "has d ''total''"
proof -
  have real: "\<forall>row \<in> set (list_of (fld d ''entries'')). real_value row"
    using real_value_fld [OF assms(2), of "''entries''"] by (cases "fld d ''entries''") auto
  from assms(1) obtain ids es where "foldR gi_row ([], []) (list_of (fld d ''entries'')) = Inr (ids, es)"
    by (auto simp: gi_page_def bindR_ok)
  from gi_rows_ok [OF this real] show "\<forall>row \<in> set (list_of (fld d ''entries'')). good_row row" by blast
  show "\<exists>n. fld d ''total'' = JInt n \<and> 0 \<le> n \<and> n \<le> GI_MAX_ENTRIES" "\<exists>n. fld d ''unresolved_legacy_count'' = JInt n"
    "has d ''total''"
    using assms(1) by (auto simp: gi_page_def bindR_ok seqR_Cons_ok on_ok gp_integer_ok)
qed

lemma shape_has: "same_keys d ks \<Longrightarrow> has d k \<Longrightarrow> u k \<in> u ` set ks"
  by (auto simp: same_keys_keys has_def keys_of_def)

lemma gi_data_page:
  assumes "gi_data params (u ''ok'') d = Inr ()" "has d ''page_offset''" "real_value d"
  shows "page_head d \<and> (\<forall>row \<in> set (list_of (fld d ''entries'')). good_row row)"
proof -
  have not_error: "\<not> has d ''error''"
  proof
    assume "has d ''error''"
    then have "gi_error (u ''ok'') d = Inr ()" using assms(1) by (auto simp: gi_data_def bindR_ok)
    moreover have "u ''ok'' \<noteq> u ''rejected''" "u ''ok'' \<noteq> u ''unsupported''" by code_simp+
    ultimately show False by (auto simp: gi_error_def seqR_Cons_ok on_ok gp_require_ok)
  qed
  have shapes: "\<not> same_keys d (GI_COMMON @ REVISIONS @ [''entry'', ''unavailable_reason''])"
    "\<not> same_keys d (GI_COMMON @ REVISIONS @ [''id'', ''dispatched''])"
    using assms(2) shape_has [of d _ "''page_offset''"] by (force simp: GI_COMMON_def REVISIONS_def u_def)+
  have revs: "\<forall>k \<in> set REVISIONS. \<exists>s. fld d k = JStr s"
    using assms(1) not_error by (auto simp: gi_data_def bindR_ok seqR_Cons_ok forR_ok onget_ok gp_pattern_ok)
  have "gi_page params d = Inr ()"
    using assms(1) not_error shapes
    by (auto simp: gi_data_def bindR_ok seqR_Cons_ok on_ok gi_current_def gi_play_def gp_shape_ok split: if_splits)
  from gi_page_rows [OF this assms(3)] revs assms(3) show ?thesis by (auto simp: page_head_def)
qed

lemma list_answer:
  assumes "items_rpc tables pr params st = (Inr res, st')"
  shows "\<exists>d. gr_data_of res = Inr d \<and>
    (has d ''page_offset'' \<longrightarrow> page_head d \<and> (\<forall>row \<in> set (list_of (fld d ''entries'')). good_row row))"
proof -
  from assms obtain w where "rpc (items_protocol tables) pr params None (ws_deadline (it_wire st)) (it_wire st) = (Inr res, w)"
    by (auto simp: items_rpc_def on_wire_def split: prod.splits)
  from rpc_answer [OF this] obtain ps b rid where
    resp: "gi_validate_response tables (Parsed ps) (Raw b) (JStr rid) None (pr_metadata pr) = Inr res"
    and ok: "gr_status res = u ''ok''"
    by (auto simp: items_protocol_def)
  from resp obtain data i status where
    "gi_validate_result (Parsed ps) (Raw data) (JStr rid) i status None (pr_metadata pr) = Inr res"
    by (auto simp: gi_validate_response_def bindR_ok on_ok split: prod.splits)
  then obtain ps' d raw where d: "gp_object (Raw data) (pr_metadata pr) = Inr (d, raw)"
    "gi_data ps' (str_of status) d = Inr ()" "gr_data res = raw" "gr_status res = str_of status"
    by (auto simp: gi_validate_result_def bindR_ok split: prod.splits)
  from gp_object_ok [OF d(1)] have "gr_data_of res = Inr d" "real_value d" by (auto simp: gr_data_of_def d(3))
  moreover have "gi_data ps' (u ''ok'') d = Inr ()" using d(2,4) ok by simp
  ultimately show ?thesis using gi_data_page by blast
qed

lemma take_page_gathers:
  assumes "take_page c d = Inr c'" "gathered c ws"
    "has d ''page_offset'' \<longrightarrow> page_head d \<and> (\<forall>row \<in> set (list_of (fld d ''entries'')). good_row row)"
    "case co_first c of None \<Rightarrow> True | Some f \<Rightarrow> page_head f"
  shows "\<exists>ws' f. gathered c' ws' \<and> co_first c' = Some f \<and> page_head f"
proof -
  from assms(1) obtain c1 where fold: "foldR take_row (c\<lparr>co_first := Some (case co_first c of None \<Rightarrow> d | Some f \<Rightarrow> f)\<rparr>)
      (list_of (fld d ''entries'')) = Inr c1" and c': "c' = c1\<lparr>co_cursor := fld d ''next_cursor''\<rparr>"
    and page: "has d ''page_offset''"
    by (auto simp: take_page_def bindR_ok on_ok)
  have start: "gathered (c\<lparr>co_first := Some (case co_first c of None \<Rightarrow> d | Some f \<Rightarrow> f)\<rparr>) ws"
    using assms(2) by (auto simp: gathered_def)
  from take_rows_gather [OF fold start] assms(3) page obtain ws' where
    "gathered c1 ws'" "co_first c1 = Some (case co_first c of None \<Rightarrow> d | Some f \<Rightarrow> f)" by auto
  then show ?thesis using c' assms(3,4) page by (auto simp: gathered_def split: option.splits)
qed

section \<open>The listing\<close>

lemma items_rpc_run:
  "items_rpc tables pr params st = (r, st') \<Longrightarrow> \<exists>w. st' = st\<lparr>it_wire := w\<rparr> \<and>
     rpc (items_protocol tables) pr params None (ws_deadline (it_wire st)) (it_wire st) = (r, w)"
  by (auto simp: items_rpc_def on_wire_def split: prod.splits)

lemma list_pages_returns:
  "list_pages tables pr m n c st = (Inr l, st') \<Longrightarrow> gathered c ws \<Longrightarrow>
     (case co_first c of None \<Rightarrow> True | Some f \<Rightarrow> page_head f) \<Longrightarrow>
     \<exists>c' ws' f. gathered c' ws' \<and> page_head f \<and> fld f ''total'' = JInt (plen (co_rows c')) \<and>
       gp_encoded (complete_listing pr f (co_rows c')) = Inr (ls_data l) \<and> ls_target l = pr_target pr \<and>
       it_listing st' = Some l \<and> it_played st' = it_played st"
proof (induction n arbitrary: c ws st)
  case 0
  then show ?case by (simp add: raiseS_def)
next
  case (Suc n)
  from Suc.prems(1) obtain res st1 d c1 where rpc: "items_rpc tables pr (list_request pr (co_cursor c) m) st = (Inr res, st1)"
    and d: "gr_data_of res = Inr d" and c1: "take_page c d = Inr c1"
    and rest: "(if co_cursor c1 = JNull then
         (case co_first c1 of None \<Rightarrow> raiseS TypeError | Some f \<Rightarrow>
            bindS (liftS (on f ''total'' (\<lambda>t. check (remote ''invalid_response'') (py_eq (JInt (plen (co_rows c1))) t)))) (\<lambda>_.
            bindS (liftS (gp_encoded (complete_listing pr f (co_rows c1)))) (issue pr)))
       else if co_cursor c1 \<in> set (co_cursors c1) then raiseS (remote ''invalid_response'')
       else list_pages tables pr m n (c1\<lparr>co_cursors := co_cursor c1 # co_cursors c1\<rparr>)) st1 = (Inr l, st')"
    by (auto simp: bindS_run liftS_run)
  have played: "it_played st1 = it_played st" using items_rpc_run [OF rpc] by auto
  from list_answer [OF rpc] d have "has d ''page_offset'' \<longrightarrow> page_head d \<and> (\<forall>row \<in> set (list_of (fld d ''entries'')). good_row row)"
    by auto
  from take_page_gathers [OF c1 Suc.prems(2) this Suc.prems(3)] obtain ws' f where
    f: "gathered c1 ws'" "co_first c1 = Some f" "page_head f" by blast
  show ?case
  proof (cases "co_cursor c1 = JNull")
    case True
    obtain t where t: "fld f ''total'' = JInt t" using f(3) by (auto simp: page_head_def)
    from rest True f(2) t obtain b where "t = plen (co_rows c1)" "gp_encoded (complete_listing pr f (co_rows c1)) = Inr b"
      "issue pr b st1 = (Inr l, st')"
      by (auto simp: bindS_run liftS_run on_ok check_ok)
    then show ?thesis
      using f t played by (intro exI [of _ c1] exI [of _ ws'] exI [of _ f]) (auto simp: issue_def Let_def)
  next
    case False
    with rest have "list_pages tables pr m n (c1\<lparr>co_cursors := co_cursor c1 # co_cursors c1\<rparr>) st1 = (Inr l, st')"
      by (auto simp: raiseS_def split: if_splits)
    from Suc.IH [OF this] f played show ?thesis by (auto simp: gathered_def)
  qed
qed

lemma nothing_gathered: "gathered nothing_collected []"
  by (simp add: gathered_def nothing_collected_def jsize_g_document commas_def) code_simp

text \<open>What is written of a complete list is read back, and its document validates.\<close>

lemma complete_reads_back:
  assumes "gathered c ws" "page_head f" "runtime_pat (pr_runtime pr)"
    "gp_encoded (complete_listing pr f (co_rows c)) = Inr b"
  shows "loads_bytes b = Inr (complete_listing pr f (co_rows c))"
proof -
  have rows: "plain row" if row: "row \<in> set (co_rows c)" for row
  proof -
    have "list_all2 (\<lambda>row w. g_entry (fld row ''entry'') = Inr w) (co_rows c) ws" using assms(1) by (simp add: gathered_def)
    moreover obtain n where "n < length (co_rows c)" "row = co_rows c ! n" using row by (auto simp: in_set_conv_nth)
    ultimately obtain w where "g_entry (fld row ''entry'') = Inr w" using list_all2_nthD by blast
    then show ?thesis
      using assms(1) row good_row_free real_float_free_plain by (auto simp: gathered_def good_row_def)
  qed
  have field: "plain (fld f k)" if "float_free (fld f k)" for k
    using that assms(2) real_value_fld real_float_free_plain by (auto simp: page_head_def)
  have "float_free (fld f ''revision'')" "float_free (fld f ''context_revision'')" "float_free (fld f ''total'')"
    "float_free (fld f ''unresolved_legacy_count'')"
    using assms(2) by (auto simp: page_head_def REVISIONS_def)
  note fields = this [THEN field]
  have "plain (JStr (pr_runtime pr))"
    using assms(3) by (auto simp: runtime_pat_def rep_pat_def list_all_iff is_digit_def is_lower_def one_of_def u_def)
  then have "plain (complete_listing pr f (co_rows c))"
    using rows fields by (simp add: complete_listing_def lit_def u_def)
  then show ?thesis by (rule gp_encoded_loads [OF _ assms(4)])
qed

lemma listing_validates:
  assumes "gathered c ws" "plen (co_rows c) \<le> GI_MAX_ENTRIES"
  shows "gi_portable (row_entries (co_rows c)) = Inr (g_document ws)"
proof -
  let ?v = "JObj [(u ''version'', JInt 1), (u ''entries'', JArr (row_entries (co_rows c)))]"
  have "real_value (fld row ''entry'')" if "row \<in> set (co_rows c)" for row
    using assms(1) that real_value_fld by (auto simp: gathered_def good_row_def)
  then have real: "real_value ?v" by (auto simp: row_entries_def code_points_def u_def)
  have "list_all2 (\<lambda>v w. g_entry v = Inr w) (row_entries (co_rows c)) ws"
    using assms(1) by (simp add: gathered_def row_entries_def list_all2_map1)
  then have "g_validate ?v = Inr (g_document ws)"
    using assms unfolding g_validate_ok [OF real]
    by (auto simp: same_keys_list version_one_def g_entries_def gathered_def row_entries_def plen_def)
  then show ?thesis by (simp add: gi_portable_def)
qed

end
