(* ===== verification/GlobalItemsProps.thy ===== *)
theory GlobalItemsProps
  imports GlobalItemsLaws RemoteSamples
begin

text \<open>The properties of the peer of \<open>src/cli/global_favorites_items.py\<close>.\<close>

section \<open>A sample listing\<close>

definition sample_item :: json where
  "sample_item = JObj [(u ''id'', global_uuid ''1''), (u ''entry'', JObj
     [(u ''title'', lit ''News''), (u ''origin'', JObj [(u ''provider'', lit ''m3u''), (u ''profile'', lit ''home''),
        (u ''subprofile'', JNull), (u ''sourceAlias'', lit ''main'')]),
      (u ''locator'', JObj [(u ''kind'', lit ''channel''), (u ''channelId'', lit ''n1'')])])]"

definition sample_page :: json where
  "sample_page = global_answer ''list''
     [(u ''revision'', global_digest ''1''), (u ''context_revision'', global_digest ''2''), (u ''cursor'', JNull),
      (u ''page_offset'', JInt 0), (u ''total'', JInt 1), (u ''entries'', JArr [sample_item]), (u ''next_cursor'', JNull),
      (u ''unresolved_legacy_count'', JInt 0)]"

definition fresh_items :: "json \<Rightarrow> items_state" where
  "fresh_items d = \<lparr>it_wire = sample_opened d, it_listing = None, it_played = False, it_busy = False, it_serial = 0\<rparr>"

lemma sample_open_items:
  "open_items (lit ''tv'') (lit ''rt'') (JInt 45) JNull (sample_wire d) = Inr (sample_peer, fresh_items d)"
  by (simp add: open_items_def sample_open fresh_items_def)

definition sample_list_request :: json where
  "sample_list_request = list_request sample_peer JNull (JInt 100)"

lemma sample_list_params:
  "request_params (items_protocol ascii_tables) sample_peer sample_list_request = Inr sample_list_request"
proof -
  have req: "sample_list_request = JObj [(u ''op'', lit ''list''), (u ''runtime'', lit ''rt''), (u ''subject'', lit ''global''),
      (u ''cursor'', JNull), (u ''max_entries'', JInt 100)]"
    by (simp add: sample_list_request_def list_request_def sample_peer_def lit_def)
  show ?thesis by (rule small_params; unfold req; code_simp)
qed

definition sample_list_result :: gp_result where
  "sample_list_result = \<lparr>gr_request = wire_of sample_list_request, gr_data = wire_of sample_page, gr_status = u ''ok'',
     gr_request_id = JStr sample_request_id, gr_verified = False, gr_chunk = None\<rparr>"

section \<open>A complete list\<close>

lemma opened_runtime:
  assumes "open_items device runtime timeout deadline s = Inr (pr, st)"
  shows "runtime_pat (pr_runtime pr)"
proof -
  from assms obtain s' where "open_transport device runtime (JInt GI_ENVELOPE_BYTES) (JInt GI_RESPONSE_BYTES) timeout
      (JInt GI_METADATA_BYTES) deadline (Some GI_OPS) s = (Inr pr, s')"
    by (auto simp: open_items_def split: prod.splits sum.splits)
  then show ?thesis by (auto simp: open_transport_def Let_def run_iff)
qed

lemma operation_run: "operation m st = (Inr x, st') \<Longrightarrow> \<exists>t. m (st\<lparr>it_busy := True\<rparr>) = (Inr x, t) \<and> st' = t\<lparr>it_busy := False\<rparr>"
  by (auto simp: operation_def finallyS_def split: if_splits prod.splits)

text \<open>
  C11: A listing that an opened peer returns is complete and consistent: its evidence reads back, it holds as
  many rows as its total says, no id occurs twice, no two entries have one identity, and its document
  validates to one entry for each row; it is then the peer's current listing, and nothing of it is played.
\<close>

theorem listing_complete:
  assumes "open_items device runtime timeout deadline s0 = Inr (pr, st0)"
    and "items_list tables pr max_entries st = (Inr l, st')"
  shows "\<exists>d rows ws. listing_data l = Inr d \<and> list_of (fld d ''entries'') = rows \<and>
    fld d ''total'' = JInt (plen rows) \<and> distinct (map (\<lambda>row. fld row ''id'') rows) \<and>
    listing_document l = Inr (g_document ws) \<and> distinct (map ident ws) \<and>
    list_all2 (\<lambda>row w. g_entry (fld row ''entry'') = Inr w) rows ws \<and>
    it_listing st' = Some l \<and> \<not> it_played st' \<and> \<not> it_busy st'"
proof -
  from operation_run [OF assms(2) [unfolded items_list_def]] obtain t u where
    run: "list_pages tables pr max_entries (nat GI_MAX_ENTRIES) nothing_collected u = (Inr l, t)"
    and st': "st' = t\<lparr>it_busy := False\<rparr>" "\<not> it_played u"
    by (auto simp: bindS_run modS_run)
  obtain c ws f where c: "gathered c ws" "page_head f" "fld f ''total'' = JInt (plen (co_rows c))"
    "gp_encoded (complete_listing pr f (co_rows c)) = Inr (ls_data l)" "it_listing t = Some l"
    "it_played t = it_played u"
    using list_pages_returns [OF run nothing_gathered] by (auto simp: nothing_collected_def)
  let ?d = "complete_listing pr f (co_rows c)"
  have data: "listing_data l = Inr ?d"
    using complete_reads_back [OF c(1,2) opened_runtime [OF assms(1)] c(4)] by (simp add: listing_data_def)
  have fields: "fld ?d ''entries'' = JArr (co_rows c)" "fld ?d ''total'' = fld f ''total''"
    by (simp_all add: complete_listing_def fld_def u_def)
  have "plen (co_rows c) \<le> GI_MAX_ENTRIES" using c(2,3) by (auto simp: page_head_def)
  from listing_validates [OF c(1) this] data fields have "listing_document l = Inr (g_document ws)"
    by (simp add: listing_document_def)
  moreover have "distinct (map (\<lambda>row. fld row ''id'') (co_rows c))"
    using c(1) by (auto simp: gathered_def)
  ultimately show ?thesis
    using data fields c st' by (auto simp: gathered_def)
qed

lemma sample_listing:
  "\<exists>l st'. items_list ascii_tables sample_peer (JInt 100) (fresh_items sample_page) = (Inr l, st')"
proof -
  let ?st = "(fresh_items sample_page)\<lparr>it_busy := True\<rparr>"
  have req: "sample_list_request = JObj [(u ''op'', lit ''list''), (u ''runtime'', lit ''rt''), (u ''subject'', lit ''global''),
      (u ''cursor'', JNull), (u ''max_entries'', JInt 100)]"
    by (simp add: sample_list_request_def list_request_def sample_peer_def lit_def)
  have resp: "gi_validate_response ascii_tables (Parsed sample_list_request) (Raw (wire_of (response_body sample_page)))
      (JStr sample_request_id) None 65536 = Inr sample_list_result"
    unfolding sample_list_result_def
    by (rule canonical_response; (unfold req)?; code_simp)
  have size: "\<not> 2097152 < plen (wire_of (response_body sample_page))" by code_simp
  obtain w where rpc: "rpc (items_protocol ascii_tables) sample_peer sample_list_request None 46 (sample_opened sample_page)
      = (Inr sample_list_result, w)"
    using sample_exchange [OF sample_list_params resp _ size] by (auto simp: sample_list_result_def)
  have data: "gr_data_of sample_list_result = Inr sample_page"
    by (simp add: gr_data_of_def sample_list_result_def) code_simp
  have page: "case take_page nothing_collected sample_page of Inl _ \<Rightarrow> False | Inr c \<Rightarrow> co_cursor c = JNull \<and>
      co_first c = Some sample_page \<and> co_rows c = [sample_item]"
    by code_simp
  then obtain c where c: "take_page nothing_collected sample_page = Inr c" "co_cursor c = JNull" "co_first c = Some sample_page"
      "co_rows c = [sample_item]"
    by (auto split: sum.splits)
  have total: "on sample_page ''total'' (\<lambda>t. check (remote ''invalid_response'') (py_eq (JInt 1) t)) = Inr ()"
    by code_simp
  have runtime: "pr_runtime sample_peer = u ''rt''" by (simp add: sample_peer_def)
  have "case gp_encoded (complete_listing sample_peer sample_page [sample_item]) of Inl _ \<Rightarrow> False | Inr _ \<Rightarrow> True"
    unfolding complete_listing_def runtime by code_simp
  then obtain b where b: "gp_encoded (complete_listing sample_peer sample_page [sample_item]) = Inr b"
    by (auto split: sum.splits)
  have deadline: "ws_deadline (sample_opened sample_page) = 46" by (simp add: sample_opened_def)
  have cursor: "co_cursor nothing_collected = JNull" by (simp add: nothing_collected_def)
  have call: "items_rpc ascii_tables sample_peer (list_request sample_peer (co_cursor nothing_collected) (JInt 100))
      (?st\<lparr>it_listing := None, it_played := False\<rparr>) = (Inr sample_list_result, ?st\<lparr>it_listing := None, it_played := False, it_wire := w\<rparr>)"
    using rpc by (simp add: items_rpc_def on_wire_def sample_list_request_def [symmetric] cursor fresh_items_def deadline)
  have "\<exists>l t. list_pages ascii_tables sample_peer (JInt 100) (Suc n) nothing_collected
      (?st\<lparr>it_listing := None, it_played := False\<rparr>) = (Inr l, t)" for n
    using c total b data by (simp add: bindS_def call liftS_def issue_def Let_def plen_def)
  from this [of 999] obtain l t where "list_pages ascii_tables sample_peer (JInt 100) (nat GI_MAX_ENTRIES) nothing_collected
      (?st\<lparr>it_listing := None, it_played := False\<rparr>) = (Inr l, t)" by auto
  then show ?thesis
    by (simp add: items_list_def operation_def finallyS_def bindS_def modS_def fresh_items_def)
qed

theorem listing_complete_witness:
  "\<exists>l st' d rows. items_list ascii_tables sample_peer (JInt 100) (fresh_items sample_page) = (Inr l, st') \<and>
     listing_data l = Inr d \<and> list_of (fld d ''entries'') = rows \<and> fld d ''total'' = JInt (plen rows)"
  using sample_listing listing_complete [OF sample_open_items] by blast

section \<open>One dispatch for a listing\<close>

definition play_pinned :: "peer \<Rightarrow> json \<Rightarrow> listing \<Rightarrow> json \<Rightarrow> bool" where
  "play_pinned pr item_id l params \<longleftrightarrow> (\<exists>d. listing_data l = Inr d \<and>
     (\<exists>row \<in> set (list_of (fld d ''entries'')). py_eq (fld row ''id'') item_id) \<and>
     params = play_request pr item_id d)"

text \<open>
  C7: A listing is good for one dispatch. \<open>play\<close> either changes nothing that matters and raises, or it found
  the listing to be the peer's own, the item in it and no dispatch before, marks it played, and then POSTs
  at most one request, whose parameters are those of \<open>play\<close> with the revisions of that listing; if it
  returns, it did POST it.
\<close>

theorem play_at_most_once:
  assumes "items_play tables pr item_id l st = (r, st')"
  shows "(it_wire st' = it_wire st \<and> it_played st' = it_played st \<and> it_listing st' = it_listing st \<and> \<not> is_ok r) \<or>
    (\<exists>own asked params. l = Some own \<and> own_listing pr l st \<and> \<not> it_played st \<and> it_played st' \<and>
       it_listing st' = it_listing st \<and> play_pinned pr item_id own asked \<and>
       request_params (items_protocol tables) pr asked = Inr params \<and>
       (posts (it_wire st') = posts (it_wire st) \<and> \<not> is_ok r \<or>
        (\<exists>ps c. request_params (items_protocol tables) pr params = Inr ps \<and>
           posts (it_wire st') = c # posts (it_wire st) \<and> post_of (items_protocol tables) pr ps c)))"
    (is "?refused \<or> ?sent")
proof (cases "it_busy st")
  case True
  then show ?thesis using assms by (auto simp: items_play_def operation_def is_ok_def)
next
  case False
  let ?b = "st\<lparr>it_busy := True\<rparr>"
  have own_b: "own_listing pr l ?b = own_listing pr l st" by (simp add: own_listing_def split: option.splits)
  show ?thesis
  proof (cases "\<exists>own d params. own_listing pr l st \<and> l = Some own \<and> \<not> it_played st \<and> listing_data own = Inr d \<and> is_str item_id \<and>
      list_ex (\<lambda>row. py_eq (fld row ''id'') item_id) (list_of (fld d ''entries'')) \<and>
      request_params (items_protocol tables) pr (play_request pr item_id d) = Inr params")
    case True
    then obtain own d params where
      go: "own_listing pr l st" "l = Some own" "\<not> it_played st" "listing_data own = Inr d" "is_str item_id"
        "list_ex (\<lambda>row. py_eq (fld row ''id'') item_id) (list_of (fld d ''entries''))"
        "request_params (items_protocol tables) pr (play_request pr item_id d) = Inr params" by blast
    obtain t where t: "items_rpc tables pr params (?b\<lparr>it_played := True\<rparr>) = (r, t)" "st' = t\<lparr>it_busy := False\<rparr>"
      using assms False go own_b
      by (auto simp: items_play_def operation_def finallyS_def bindS_def run_simps split: prod.splits)
    from items_rpc_run [OF t(1)] obtain w where w: "t = ?b\<lparr>it_played := True, it_wire := w\<rparr>"
      "rpc (items_protocol tables) pr params None (ws_deadline (it_wire st)) (it_wire st) = (r, w)" by auto
    have "posts w = posts (it_wire st) \<and> \<not> is_ok r \<or> (\<exists>ps c. request_params (items_protocol tables) pr params = Inr ps \<and>
        posts w = c # posts (it_wire st) \<and> post_of (items_protocol tables) pr ps c)"
    proof (cases "request_params (items_protocol tables) pr params")
      case (Inl e)
      then show ?thesis using w(2) rpc_refused [OF Inl] by (auto simp: is_ok_def)
    next
      case (Inr ps)
      then show ?thesis using rpc_once [OF w(2) Inr] by auto
    qed
    moreover have "play_pinned pr item_id own (play_request pr item_id d)"
      using go by (auto simp: play_pinned_def list_ex_iff)
    ultimately have ?sent using go t(2) w(1) by auto
    then show ?thesis ..
  next
    case no: False
    have ?refused
      using assms False no own_b
      by (auto simp: items_play_def operation_def finallyS_def bindS_def run_simps check_def is_ok_def own_listing_def
          split: prod.splits sum.splits if_splits option.splits)
    then show ?thesis ..
  qed
qed

definition sample_complete :: json where
  "sample_complete = JObj
     [(u ''status'', lit ''complete''), (u ''runtime'', lit ''rt''), (u ''subject'', lit ''global''),
      (u ''revision'', global_digest ''1''), (u ''context_revision'', global_digest ''2''), (u ''total'', JInt 1),
      (u ''unresolved_legacy_count'', JInt 0), (u ''entries'', JArr [sample_item])]"

definition sample_own :: listing where
  "sample_own = \<lparr>ls_target = pr_target sample_peer, ls_data = wire_of sample_complete, ls_serial = 0\<rparr>"

definition listed_items :: "json \<Rightarrow> items_state" where
  "listed_items d = (fresh_items d)\<lparr>it_listing := Some sample_own, it_serial := 1\<rparr>"

definition sample_play_request :: json where
  "sample_play_request = play_request sample_peer (global_uuid ''1'') sample_complete"

definition sample_play_answer :: json where
  "sample_play_answer = global_answer ''play''
     [(u ''revision'', global_digest ''1''), (u ''context_revision'', global_digest ''2''), (u ''id'', global_uuid ''1''),
      (u ''dispatched'', JBool True)]"

lemma sample_play:
  "\<exists>res st'. items_play ascii_tables sample_peer (global_uuid ''1'') (Some sample_own) (listed_items sample_play_answer) = (Inr res, st')"
proof -
  have runtime: "pr_runtime sample_peer = u ''rt''" by (simp add: sample_peer_def)
  have params: "request_params (items_protocol ascii_tables) sample_peer sample_play_request = Inr sample_play_request"
    unfolding sample_play_request_def play_request_def runtime by (rule small_params; code_simp)
  have request: "sample_play_request = JObj [(u ''op'', lit ''play''), (u ''runtime'', lit ''rt''), (u ''subject'', lit ''global''),
      (u ''id'', global_uuid ''1''), (u ''expected_revision'', global_digest ''1''), (u ''expected_context_revision'', global_digest ''2'')]"
    by (simp add: sample_play_request_def play_request_def runtime lit_def sample_complete_def fld_def u_def)
  note resp = canonical_response [of sample_play_answer sample_play_request]
  have checks: "wire_value (response_body sample_play_answer)" "wire_value sample_play_answer"
    "response_token sample_play_answer = Inr (ctext sample_play_answer)"
    by code_simp+
  have sent: "gi_validate_request (Parsed sample_play_request) = Inr sample_play_request" "wire_value sample_play_request"
    "gi_data sample_play_request (u ''ok'') sample_play_answer = Inr ()"
    unfolding request by code_simp+
  have size: "\<not> 2097152 < plen (wire_of (response_body sample_play_answer))" by code_simp
  obtain res w where rpc: "rpc (items_protocol ascii_tables) sample_peer sample_play_request None 46 (sample_opened sample_play_answer) = (Inr res, w)"
    using sample_exchange [OF params resp [OF checks sent] _ size] by auto
  have data: "listing_data sample_own = Inr sample_complete"
    by (simp add: listing_data_def sample_own_def) code_simp
  have row: "list_ex (\<lambda>row. py_eq (fld row ''id'') (global_uuid ''1'')) (list_of (fld sample_complete ''entries''))" "is_str (global_uuid ''1'')"
    by code_simp+
  have "ws_deadline (sample_opened sample_play_answer) = 46" by (simp add: sample_opened_def)
  then show ?thesis
    using params rpc data row
    by (simp add: items_play_def operation_def finallyS_def bindS_def run_simps check_def own_listing_def listed_items_def
        fresh_items_def sample_own_def sample_play_request_def items_rpc_def on_wire_def del: py_eq.simps)
qed

theorem play_at_most_once_witness:
  "\<exists>res st c. items_play ascii_tables sample_peer (global_uuid ''1'') (Some sample_own) (listed_items sample_play_answer) = (Inr res, st) \<and>
     it_played st \<and> posts (it_wire st) = [c]"
proof -
  obtain res st where run: "items_play ascii_tables sample_peer (global_uuid ''1'') (Some sample_own) (listed_items sample_play_answer)
      = (Inr res, st)"
    using sample_play by blast
  have "posts (it_wire (listed_items sample_play_answer)) = []"
    by (simp add: listed_items_def fresh_items_def sample_opened_def sample_wire_def posts_def)
  then show ?thesis using play_at_most_once [OF run] run by (auto simp: is_ok_def)
qed

end
