(* ===== verification/RemoteFavorites.thy ===== *)
theory RemoteFavorites
  imports FavProtocolClosed
begin

text \<open>
  \<open>RemoteFavorites\<close> and its neighbours in \<open>src/cli/favorites_remote.py\<close>: recovery records, observation of an
  operation, and the staging, preview and replacement of a scope. The environment also answers the host's
  callbacks: \<open>fs_uuids\<close> are the ids its factory gives (None: it raised), \<open>fs_saves\<close> what each wait for the
  storage thread gives. \<open>fs_log\<close> keeps, newest first, the requests handed to \<open>_rpc\<close> and the records the
  storage confirmed.
\<close>

section \<open>Limits and results\<close>

abbreviation RECONCILE_RESERVE :: rat where "RECONCILE_RESERVE \<equiv> 10"
abbreviation MAX_RECOVERY_BYTES :: int where "MAX_RECOVERY_BYTES \<equiv> 131072"

definition PLACEHOLDER_TRANSACTION :: json where
  "PLACEHOLDER_TRANSACTION = lit ''00000000-0000-4000-8000-000000000000''"

definition RECOVERY_FIELDS :: "string list" where
  "RECOVERY_FIELDS = [''version'', ''operation_id'', ''runtime'', ''begin_request'', ''begin_response'',
     ''begin_request_id'', ''preview_request'', ''preview_response'', ''preview_request_id'', ''commit_request'']"

record limits =
  lm_document :: json
  lm_chunk :: json
  lm_chunks :: json
  lm_envelope :: json
  lm_snapshot :: json
  lm_stages :: json
  lm_idle :: json
  lm_absolute :: json

definition limits_ok :: "limits \<Rightarrow> bool" where
  "limits_ok l \<longleftrightarrow> list_all (\<lambda>(v, m). is_int v \<and> 1 \<le> int_of v \<and> int_of v \<le> m)
     (zip [lm_document l, lm_chunk l, lm_chunks l, lm_envelope l, lm_snapshot l, lm_stages l, lm_idle l, lm_absolute l]
       [1048576, 8192, 256, 16384, 2097152, 1, 120, 600]) \<and> int_of (lm_idle l) \<le> int_of (lm_absolute l)"

record snapshot =
  sn_target :: "pystr \<times> pystr \<times> pystr"
  sn_result :: validated_result

record known_catalog =
  ca_target :: "pystr \<times> pystr \<times> pystr"
  ca_result :: validated_result

record 'r outcome =
  oc_operation :: json
  oc_outcome :: string
  oc_verified :: bool
  oc_reason :: string
  oc_request :: "pystr option"
  oc_cleanup :: string
  oc_result :: "'r option"

text \<open>\<open>Outcome(operation, outcome, verified, reason, request_id)\<close> with the other fields at their defaults.\<close>

definition observed :: "json \<Rightarrow> string \<Rightarrow> bool \<Rightarrow> string \<Rightarrow> pystr option \<Rightarrow> 'r outcome" where
  "observed op out ok why rid = \<lparr>oc_operation = op, oc_outcome = out, oc_verified = ok, oc_reason = why,
     oc_request = rid, oc_cleanup = ''not_needed'', oc_result = None\<rparr>"

record preview_outcome =
  po_operation :: json
  po_reason :: string
  po_request :: "pystr option"
  po_cleanup :: string
  po_result :: "validated_result option"

text \<open>The two summaries: \<open>operation_id\<close> is left out when there is none.\<close>

definition summary_base :: "json \<Rightarrow> (pystr \<times> json) list \<Rightarrow> json" where
  "summary_base op rest = JObj ((if op = JNull then [] else [(u ''operation_id'', op)]) @ rest)"

definition opt_str :: "pystr option \<Rightarrow> json" where
  "opt_str r = (case r of None \<Rightarrow> JNull | Some s \<Rightarrow> JStr s)"

definition outcome_summary :: "'r outcome \<Rightarrow> json" where
  "outcome_summary k = summary_base (oc_operation k)
     [(u ''outcome'', lit (oc_outcome k)), (u ''verified'', JBool (oc_verified k)), (u ''reason'', lit (oc_reason k)),
      (u ''request_id'', opt_str (oc_request k)), (u ''cleanup'', lit (oc_cleanup k))]"

definition preview_ready :: "preview_outcome \<Rightarrow> json result" where
  "preview_ready p = (case po_result p of None \<Rightarrow> Inr JNull | Some r \<Rightarrow> bindR (data_of r) (\<lambda>d. on d ''ready'' Inr))"

definition preview_summary :: "preview_outcome \<Rightarrow> json result" where
  "preview_summary p = bindR (preview_ready p) (\<lambda>ready. Inr (summary_base (po_operation p)
     [(u ''outcome'', lit ''not_applied''), (u ''ready'', ready), (u ''reason'', lit (po_reason p)),
      (u ''request_id'', opt_str (po_request p)), (u ''cleanup'', lit (po_cleanup p))]))"

section \<open>Recovery records\<close>

definition r_json :: "json \<Rightarrow> bytes result" where
  "r_json v = bindR (dumps_compact v) utf8_encode"

definition commit_request :: "json \<Rightarrow> json \<Rightarrow> json \<Rightarrow> json \<Rightarrow> json \<Rightarrow> json" where
  "commit_request runtime transaction operation revision plan = JObj
     [(u ''op'', lit ''commit''), (u ''runtime'', runtime), (u ''transaction_id'', transaction),
      (u ''operation_id'', operation), (u ''expected_revision'', revision), (u ''plan_digest'', plan)]"

definition restore_error :: "exn \<Rightarrow> bool" where
  "restore_error e \<longleftrightarrow> e = KeyError \<or> e = TypeError \<or> is_ValueError e"

text \<open>\<open>validate_result\<close> of a retained request and answer, both with one id.\<close>

definition revalidated :: "unicode_tables \<Rightarrow> json \<Rightarrow> json \<Rightarrow> json \<Rightarrow> scope_validator \<Rightarrow> int \<Rightarrow> validated_result result" where
  "revalidated tables request answer rid sv m =
     validate_result tables (Parsed request) (Parsed answer) rid rid (lit ''ok'') None sv m"

definition restored_parts :: "unicode_tables \<Rightarrow> json \<Rightarrow> (validated_result \<times> validated_result) result" where
  "restored_parts tables saved =
     on saved ''begin_request'' (\<lambda>bq. on saved ''begin_response'' (\<lambda>bs. on saved ''begin_request_id'' (\<lambda>bi.
     bindR (revalidated tables bq bs bi None MAX_METADATA_BYTES) (\<lambda>begun.
     on saved ''preview_request'' (\<lambda>pq. on saved ''preview_response'' (\<lambda>ps. on saved ''preview_request_id'' (\<lambda>pi.
     bindR (revalidated tables pq ps pi None MAX_METADATA_BYTES) (\<lambda>preview. Inr (begun, preview)))))))))"

definition expected_commit :: "validated_result \<Rightarrow> validated_result \<Rightarrow> json result" where
  "expected_commit begun preview =
     bindR (request_of begun) (\<lambda>bq. bindR (data_of begun) (\<lambda>bd. bindR (data_of preview) (\<lambda>pd.
     on bq ''runtime'' (\<lambda>runtime. on bd ''transaction_id'' (\<lambda>tx. on bq ''operation_id'' (\<lambda>op.
     on bq ''expected_revision'' (\<lambda>rev. on pd ''plan_digest'' (\<lambda>plan. Inr (commit_request runtime tx op rev plan)))))))))"

definition restore :: "unicode_tables \<Rightarrow> json \<Rightarrow> (json \<times> receipt_context) result" where
  "restore tables record = rethrow restore_error (remote ''invalid_context'')
     (bindR (check (remote ''invalid_context'') (is_dict record \<and> same_keys record RECOVERY_FIELDS)) (\<lambda>_.
      bindR (on record ''version'' (\<lambda>v. check (remote ''invalid_context'') (v = JInt 1))) (\<lambda>_.
      bindR (r_json record) (\<lambda>raw.
      bindR (check (remote ''invalid_context'') (plen raw \<le> MAX_RECOVERY_BYTES)) (\<lambda>_.
      bindR (loads_bytes raw) (\<lambda>saved.
      bindR (restored_parts tables saved) (\<lambda>(begun, preview).
      bindR (retain_context tables begun preview) (\<lambda>ctx.
      bindR (expected_commit begun preview) (\<lambda>expected.
      bindR (on saved ''commit_request'' (\<lambda>c. on saved ''runtime'' (\<lambda>r. on saved ''operation_id'' (\<lambda>o'.
        check (remote ''invalid_context'') (py_eq c expected \<and> py_eq r (fld expected ''runtime'')
          \<and> py_eq o' (fld expected ''operation_id'')))))) (\<lambda>_.
      bindR (validate_request tables (Parsed expected) None) (\<lambda>_. Inr (saved, ctx))))))))))))"

definition validate_recovery_record :: "unicode_tables \<Rightarrow> json \<Rightarrow> json result" where
  "validate_recovery_record tables record = bindR (restore tables record) (\<lambda>(saved, _). Inr saved)"

definition restore_context :: "unicode_tables \<Rightarrow> json \<Rightarrow> receipt_context result" where
  "restore_context tables record = bindR (restore tables record) (\<lambda>(_, ctx). Inr ctx)"

definition retained_record :: "unicode_tables \<Rightarrow> validated_result \<Rightarrow> validated_result \<Rightarrow> json \<Rightarrow> json result" where
  "retained_record tables begun preview commit =
     bindR (request_of begun) (\<lambda>bq. bindR (data_of begun) (\<lambda>bd.
     bindR (request_of preview) (\<lambda>pq. bindR (data_of preview) (\<lambda>pd.
     on bq ''operation_id'' (\<lambda>op. on bq ''runtime'' (\<lambda>runtime.
       validate_recovery_record tables (JObj
         [(u ''version'', JInt 1), (u ''operation_id'', op), (u ''runtime'', runtime), (u ''begin_request'', bq),
          (u ''begin_response'', bd), (u ''begin_request_id'', vr_request_id begun), (u ''preview_request'', pq),
          (u ''preview_response'', pd), (u ''preview_request_id'', vr_request_id preview), (u ''commit_request'', commit)])))))))"

section \<open>The adapter and its state\<close>

record favs =
  rf_peer :: peer
  rf_limits :: limits
  rf_ttl :: int
  rf_budget :: int
  rf_tables :: unicode_tables
  rf_validator :: scope_validator

text \<open>A wait for the storage thread: nothing yet, what its callback gave (null when it raised), or the wall
  clock of an acknowledgement ran out first.\<close>

datatype save_answer = Waiting | Gave json | Wall_over

datatype event = Asked json | Kept json

text \<open>\<open>fs_operation\<close> and \<open>fs_transaction\<close> are the local variables of \<open>_stage\<close>, null where they are None.\<close>

record favs_state =
  fs_wire :: wire_state
  fs_started :: bool
  fs_operation :: json
  fs_transaction :: json
  fs_log :: "event list"
  fs_uuids :: "pystr option list"
  fs_saves :: "save_answer list"

abbreviation rf_runtime :: "favs \<Rightarrow> json" where
  "rf_runtime cfg \<equiv> JStr (pr_runtime (rf_peer cfg))"

abbreviation fs_deadline :: "'a favs_state_scheme \<Rightarrow> rat" where
  "fs_deadline st \<equiv> ws_deadline (fs_wire st)"

definition rf_protocol :: "favs \<Rightarrow> (validated_result, receipt_context) protocol" where
  "rf_protocol cfg = favorites_protocol (rf_tables cfg) (rf_validator cfg)"

definition favs_clock :: "('a favs_state_scheme, rat) io" where
  "favs_clock st = (case now (fs_wire st) of (r, w) \<Rightarrow> (r, st\<lparr>fs_wire := w\<rparr>))"

definition favs_rpc :: "favs \<Rightarrow> json \<Rightarrow> receipt_context option \<Rightarrow> rat \<Rightarrow> (favs_state, validated_result) io" where
  "favs_rpc cfg params ctx deadline st =
     (case rpc (rf_protocol cfg) (rf_peer cfg) params ctx deadline (fs_wire st) of
        (r, w) \<Rightarrow> (r, st\<lparr>fs_wire := w, fs_log := Asked params # fs_log st\<rparr>))"

definition favs_params :: "favs \<Rightarrow> json \<Rightarrow> json result" where
  "favs_params cfg params = request_params (rf_protocol cfg) (rf_peer cfg) params"

definition request_of_op :: "favs \<Rightarrow> string \<Rightarrow> (pystr \<times> json) list \<Rightarrow> json" where
  "request_of_op cfg op kv = JObj ([(u ''op'', lit op), (u ''runtime'', rf_runtime cfg)] @ kv)"

definition rid_of :: "validated_result \<Rightarrow> pystr option" where
  "rid_of r = Some (str_of (vr_request_id r))"

definition open_favorites :: "json \<Rightarrow> json \<Rightarrow> limits option \<Rightarrow> json \<Rightarrow> json \<Rightarrow> json \<Rightarrow> json \<Rightarrow> json \<Rightarrow> json \<Rightarrow>
    unicode_tables \<Rightarrow> (json \<Rightarrow> json result) \<Rightarrow> (wire_state, favs) io" where
  "open_favorites device runtime lims retention timeout metadata deadline ttl budget tables sv =
     bindS (checkS (remote ''invalid_configuration'')
       (lims \<noteq> None \<and> is_int retention \<and> 1 \<le> int_of retention \<and> int_of retention \<le> 86400
        \<and> is_int ttl \<and> 1 \<le> int_of ttl \<and> int_of ttl \<le> 10000
        \<and> is_int budget \<and> 1 \<le> int_of budget \<and> int_of budget \<le> 300000)) (\<lambda>_.
     let l = the lims in
     bindS (checkS (remote ''invalid_configuration'') (limits_ok l)) (\<lambda>_.
     bindS (open_transport device runtime (lm_envelope l) (lm_snapshot l) timeout metadata deadline None) (\<lambda>pr.
       returnS \<lparr>rf_peer = pr, rf_limits = l, rf_ttl = int_of ttl, rf_budget = int_of budget, rf_tables = tables,
         rf_validator = Some sv\<rparr>)))"

fun is_RemoteError :: "exn \<Rightarrow> bool" where
  "is_RemoteError (RemoteError _ _ _ _) = True"
| "is_RemoteError _ = False"

text \<open>\<open>bool(v)\<close>.\<close>

fun truthy :: "json \<Rightarrow> bool" where
  "truthy (JBool b) = b"
| "truthy (JInt i) = (i \<noteq> 0)"
| "truthy (JFloat f) = (case f of FFin _ m _ \<Rightarrow> m \<noteq> 0 | _ \<Rightarrow> True)"
| "truthy (JStr s) = (s \<noteq> [])"
| "truthy (JArr xs) = (xs \<noteq> [])"
| "truthy (JObj kv) = (kv \<noteq> [])"
| "truthy JNull = False"

section \<open>Reads\<close>

text \<open>\<open>except RemoteError\<close>: the handler runs for a \<open>RemoteError\<close> only.\<close>

definition on_remote :: "('s, 'a) io \<Rightarrow> (string \<Rightarrow> pystr option \<Rightarrow> ('s, 'a) io) \<Rightarrow> ('s, 'a) io" where
  "on_remote m h = catchS m (\<lambda>e. case e of RemoteError code rid _ _ \<Rightarrow> h code rid | _ \<Rightarrow> raiseS e)"

definition read_snapshot :: "favs \<Rightarrow> json \<Rightarrow> (favs_state, snapshot) io" where
  "read_snapshot cfg scope = bindS (getS fs_deadline) (\<lambda>deadline.
     bindS (favs_rpc cfg (request_of_op cfg ''snapshot'' [(u ''scope'', scope)]) None deadline) (\<lambda>response.
     bindS (liftS (bindR (data_of response) (\<lambda>d. on d ''size_bytes'' Inr))) (\<lambda>n.
     bindS (checkS (remote_error ''invalid_response'' (rid_of response) (Some ''receipt'') None)
       (int_of n \<le> int_of (lm_document (rf_limits cfg)))) (\<lambda>_.
       returnS \<lparr>sn_target = pr_target (rf_peer cfg), sn_result = response\<rparr>))))"

definition read_catalog :: "favs \<Rightarrow> (favs_state, known_catalog) io" where
  "read_catalog cfg = bindS (getS fs_deadline) (\<lambda>deadline.
     bindS (favs_rpc cfg (request_of_op cfg ''bindingcatalog'' []) None deadline) (\<lambda>result.
       returnS \<lparr>ca_target = pr_target (rf_peer cfg), ca_result = result\<rparr>))"

text \<open>The catalog evidence checked again for a pairing change: its data.\<close>

definition checked_catalog :: "favs \<Rightarrow> known_catalog option \<Rightarrow> json result" where
  "checked_catalog cfg cat =
     bindR (check (remote ''invalid_configuration'')
       (case cat of None \<Rightarrow> False | Some c \<Rightarrow> ca_target c = pr_target (rf_peer cfg))) (\<lambda>_.
     rethrow is_ProtocolError (remote ''invalid_response'')
       (bindR (request_of (ca_result (the cat))) (\<lambda>q. bindR (data_of (ca_result (the cat))) (\<lambda>d.
        bindR (revalidated (rf_tables cfg) q d (vr_request_id (ca_result (the cat))) None (pr_metadata (rf_peer cfg))) (\<lambda>checked.
        bindR (request_of checked) (\<lambda>req.
        bindR (check (remote ''invalid_configuration'') (py_eq req (request_of_op cfg ''bindingcatalog'' []))) (\<lambda>_.
          data_of checked)))))))"

definition provision :: "favs \<Rightarrow> known_catalog option \<Rightarrow> json \<Rightarrow> json \<Rightarrow> json option \<Rightarrow> json option
    \<Rightarrow> (favs_state, validated_result) io" where
  "provision cfg cat mode target scope prior =
     bindS (liftS (checked_catalog cfg cat)) (\<lambda>d.
     bindS (checkS (remote ''invalid_configuration'')
       (length (filter (\<lambda>row. py_eq (fld row ''target_id'') target) (list_of (fld d ''targets''))) = 1)) (\<lambda>_.
     bindS (getS fs_deadline) (\<lambda>deadline.
       rethrowS is_ProtocolError (remote ''invalid_response'')
         (favs_rpc cfg (request_of_op cfg ''provision''
           ([(u ''mode'', mode), (u ''target_id'', target), (u ''codecVersion'', JInt 1),
             (u ''expected_binding_revision'', fld d ''binding_revision'')]
            @ (case scope of None \<Rightarrow> [] | Some s \<Rightarrow> [(u ''scope'', s)])
            @ (case prior of None \<Rightarrow> [] | Some s \<Rightarrow> [(u ''prior_scope'', s)]))) None (deadline - 4)))))"

definition confirm_binding :: "favs \<Rightarrow> known_catalog option \<Rightarrow> json \<Rightarrow> json \<Rightarrow> (favs_state, validated_result) io" where
  "confirm_binding cfg cat scope target =
     bindS (liftS (checked_catalog cfg cat)) (\<lambda>d.
     let matching = filter (\<lambda>row. py_eq (fld row ''scope'') scope \<and> py_eq (fld row ''target_id'') target)
           (list_of (fld d ''bindings''))
     in bindS (checkS (remote ''invalid_configuration'') (length matching = 1)) (\<lambda>_.
        bindS (getS fs_deadline) (\<lambda>deadline.
          rethrowS is_ProtocolError (remote ''invalid_response'')
            (favs_rpc cfg (request_of_op cfg ''bind''
              [(u ''scope'', scope), (u ''target_id'', target), (u ''codecVersion'', fld (hd matching) ''codecVersion''),
               (u ''expected_binding_revision'', fld d ''binding_revision'')]) None deadline))))"

section \<open>Outcomes\<close>

definition outcome_word :: "json \<Rightarrow> string" where
  "outcome_word d = (let v = fld d ''outcome'' in
     if is_lit v ''not_applied'' then ''not_applied'' else if is_lit v ''partial'' then ''partial'' else ''unknown'')"

definition outcome_of :: "validated_result \<Rightarrow> json \<Rightarrow> validated_result outcome result" where
  "outcome_of r op = bindR (data_of r) (\<lambda>d.
     if vr_verified r
     then Inr ((observed op ''verified'' True ''verified_receipt'' (rid_of r))\<lparr>oc_result := Some r\<rparr>)
     else let w = outcome_word d
          in Inr ((observed op w False (''observed_'' @ w) (rid_of r))\<lparr>oc_result := Some r\<rparr>))"

definition status_request :: "favs \<Rightarrow> json \<Rightarrow> json" where
  "status_request cfg op = request_of_op cfg ''status'' [(u ''operation_id'', op)]"

text \<open>\<open>_observe_unverified\<close>: the identities of an answer that has no authority, and what never agrees.\<close>

definition unverified_ok :: "json \<Rightarrow> json \<Rightarrow> bool \<Rightarrow> bool result" where
  "unverified_ok saved d same_runtime =
     on saved ''begin_request'' (\<lambda>bq. on saved ''begin_response'' (\<lambda>bs. on saved ''preview_response'' (\<lambda>pv.
     on saved ''operation_id'' (\<lambda>op. Inr
       (\<not> (\<not> same_runtime \<and> \<not> is_lit (fld d ''state'') ''committed'')
        \<and> (has d ''scope'' \<longrightarrow> py_eq (fld d ''scope'') (fld bq ''scope''))
        \<and> (has d ''transaction_id'' \<longrightarrow> py_eq (fld d ''transaction_id'') (fld bs ''transaction_id''))
        \<and> set (store_ids (fld d ''per_store'')) \<subseteq> set (store_ids (fld pv ''stores''))
        \<and> (fld d ''receipt'' \<noteq> JNull \<longrightarrow>
             (let r = fld d ''receipt'' in
               py_eq (fld r ''operation_id'') op \<and> py_eq (fld r ''scope'') (fld bq ''scope'')
               \<and> py_eq (fld r ''document_sha256'') (fld bq ''document_sha256'')
               \<and> py_eq (fld r ''plan_digest'') (fld pv ''plan_digest'') \<and> py_eq (fld r ''counts'') (fld pv ''counts'')
               \<and> set (store_ids (fld d ''per_store'')) = set (store_ids (fld pv ''stores'')))))))))"

definition observe_unverified :: "favs \<Rightarrow> json \<Rightarrow> (favs_state, validated_result outcome) io" where
  "observe_unverified cfg record =
     bindS (liftS (restore (rf_tables cfg) record)) (\<lambda>(saved, ctx).
     bindS (liftS (on saved ''operation_id'' (\<lambda>op. on saved ''runtime'' (\<lambda>rt. Inr (op, rt))))) (\<lambda>(op, rt).
     let same = py_eq rt (rf_runtime cfg) in
     on_remote
       (bindS (getS fs_deadline) (\<lambda>deadline.
        bindS (favs_rpc cfg (status_request cfg op) (if same then Some ctx else None) deadline) (\<lambda>response.
        bindS (liftS (data_of response)) (\<lambda>d.
        bindS (liftS (unverified_ok saved d same)) (\<lambda>ok.
        bindS (checkS (remote_error ''invalid_response'' (rid_of response) None None) ok) (\<lambda>_.
          returnS (observed op ''unknown'' False ''incomplete_evidence'' (rid_of response))))))))
       (\<lambda>code rid. returnS (observed op ''unknown'' False code rid))))"

text \<open>\<open>StatusReader\<close>: a transport that may only ask for a status.\<close>

definition open_status_reader :: "json \<Rightarrow> json \<Rightarrow> json \<Rightarrow> json \<Rightarrow> json \<Rightarrow> json \<Rightarrow> json \<Rightarrow> unicode_tables \<Rightarrow> (wire_state, favs) io" where
  "open_status_reader device runtime envelope_limit response_limit timeout metadata deadline tables =
     bindS (open_transport device runtime envelope_limit response_limit timeout metadata deadline (Some [''status''])) (\<lambda>pr.
       returnS \<lparr>rf_peer = pr, rf_limits = \<lparr>lm_document = JNull, lm_chunk = JNull, lm_chunks = JNull, lm_envelope = JNull,
         lm_snapshot = JNull, lm_stages = JNull, lm_idle = JNull, lm_absolute = JNull\<rparr>, rf_ttl = 0, rf_budget = 0,
         rf_tables = tables, rf_validator = None\<rparr>)"

text \<open>\<open>RecoveryPeer\<close>: its reads of the recovery ledger.\<close>

definition open_recovery_peer :: "json \<Rightarrow> json \<Rightarrow> json \<Rightarrow> json \<Rightarrow> unicode_tables \<Rightarrow> (wire_state, favs) io" where
  "open_recovery_peer device runtime timeout deadline tables =
     bindS (open_transport device runtime (JInt 16384) (JInt MAX_METADATA_BYTES) timeout (JInt MAX_METADATA_BYTES) deadline
       (Some [''recovery''])) (\<lambda>pr.
       returnS \<lparr>rf_peer = pr, rf_limits = \<lparr>lm_document = JNull, lm_chunk = JNull, lm_chunks = JNull, lm_envelope = JNull,
         lm_snapshot = JNull, lm_stages = JNull, lm_idle = JNull, lm_absolute = JNull\<rparr>, rf_ttl = 0, rf_budget = 0,
         rf_tables = tables, rf_validator = None\<rparr>)"

definition recovery_list :: "favs \<Rightarrow> (favs_state, validated_result) io" where
  "recovery_list cfg = bindS (getS fs_deadline) (\<lambda>deadline.
     favs_rpc cfg (JObj [(u ''op'', lit ''recovery''), (u ''mode'', lit ''list''), (u ''runtime'', rf_runtime cfg)]) None deadline)"

definition recovery_inspect :: "favs \<Rightarrow> json \<Rightarrow> (favs_state, validated_result) io" where
  "recovery_inspect cfg op = bindS (getS fs_deadline) (\<lambda>deadline.
     favs_rpc cfg (JObj [(u ''op'', lit ''recovery''), (u ''mode'', lit ''inspect''), (u ''runtime'', rf_runtime cfg),
       (u ''operation_id'', op)]) None deadline)"

section \<open>Staging\<close>

definition checked_snapshot :: "favs \<Rightarrow> snapshot option \<Rightarrow> json result" where
  "checked_snapshot cfg sn =
     bindR (check (remote ''invalid_snapshot'')
       (case sn of None \<Rightarrow> False | Some s \<Rightarrow> sn_target s = pr_target (rf_peer cfg))) (\<lambda>_.
     rethrow (\<lambda>e. is_ProtocolError e \<or> is_ValueError e) (remote ''invalid_snapshot'')
       (bindR (request_of (sn_result (the sn))) (\<lambda>q. bindR (data_of (sn_result (the sn))) (\<lambda>d.
        bindR (revalidated (rf_tables cfg) q d (vr_request_id (sn_result (the sn))) (rf_validator cfg) MAX_METADATA_BYTES) (\<lambda>response.
        bindR (request_of response) (\<lambda>req.
        bindR (on req ''op'' (\<lambda>op. on req ''runtime'' (\<lambda>rt.
          check (remote ''invalid_snapshot'') (is_lit op ''snapshot'' \<and> py_eq rt (rf_runtime cfg))))) (\<lambda>_.
          data_of response)))))))"

definition append_request :: "favs \<Rightarrow> chunk \<Rightarrow> json \<Rightarrow> json" where
  "append_request cfg c tx = request_of_op cfg ''append''
     [(u ''transaction_id'', tx), (u ''seq'', JInt (seq c)), (u ''offset'', JInt (offset c)),
      (u ''chunk_sha256'', JStr (sha256 (payload c))), (u ''data_base64'', JStr (data_base64 (payload c)))]"

definition preflight_error :: "exn \<Rightarrow> exn" where
  "preflight_error e = (case e of
     TransferError code \<Rightarrow> remote (if code = ''deadline_insufficient'' then code else ''invalid_document'')
   | RemoteError _ _ _ _ \<Rightarrow> e
   | KeyboardInterrupt \<Rightarrow> e
   | ScriptEnd \<Rightarrow> e
   | _ \<Rightarrow> remote ''invalid_document'')"

definition next_uuid :: "(favs_state, pystr) io" where
  "next_uuid st = (case fs_uuids st of [] \<Rightarrow> (Inl ScriptEnd, st)
     | v # rest \<Rightarrow> (case v of None \<Rightarrow> Inl ValueError | Some s \<Rightarrow> Inr s, st\<lparr>fs_uuids := rest\<rparr>))"

text \<open>The requests of a staging that are checked before any is sent: \<open>begin\<close>, and the others by shape only.\<close>

definition begin_request :: "favs \<Rightarrow> json \<Rightarrow> json \<Rightarrow> transfer_plan \<Rightarrow> json" where
  "begin_request cfg base op packed = request_of_op cfg ''begin''
     [(u ''operation_id'', op), (u ''scope'', fld base ''scope''), (u ''expected_revision'', fld base ''revision''),
      (u ''binding_revision'', fld base ''binding_revision''), (u ''document_sha256'', JStr (plan_sha256 packed)),
      (u ''size_bytes'', JInt (plan_size packed)), (u ''chunk_count'', JInt (plen (chunks packed))),
      (u ''persistence'', lit ''persistent'')]"

definition planned_requests :: "favs \<Rightarrow> bool \<Rightarrow> json \<Rightarrow> json \<Rightarrow> json list" where
  "planned_requests cfg commit_planned base op =
     map (\<lambda>k. request_of_op cfg k [(u ''transaction_id'', PLACEHOLDER_TRANSACTION)]) [''preview'', ''abort'']
     @ (if commit_planned
        then [commit_request (rf_runtime cfg) PLACEHOLDER_TRANSACTION op (fld base ''revision'') (JStr (replicate 64 48)),
              status_request cfg op]
        else [])"

definition transfer_budget :: "favs \<Rightarrow> transfer_plan \<Rightarrow> bool \<Rightarrow> budget result" where
  "transfer_budget cfg packed commit_planned =
     (let n = plen (chunks packed); controls = (if commit_planned then 6 else 4); total = JInt ((n + controls) * 3)
      in estimate_budget (JInt n) (JInt controls) total total (JFloat (FFin False 10 0)) (JFloat (FFin False 3 (- 1))) 240 120)"

definition budget_fits :: "favs \<Rightarrow> budget \<Rightarrow> bool" where
  "budget_fits cfg b \<longleftrightarrow> bg_minimum b \<le> of_int (int_of (lm_absolute (rf_limits cfg)))
     \<and> POST_INTERVAL + HTTP_INTERVAL \<le> of_int (int_of (lm_idle (rf_limits cfg)))
     \<and> bg_minimum b * 1000 \<le> of_int (rf_budget cfg)
     \<and> (POST_INTERVAL + HTTP_INTERVAL) * 1000 < of_int (rf_ttl cfg)"

definition preflight :: "favs \<Rightarrow> snapshot option \<Rightarrow> bytes \<Rightarrow> bool \<Rightarrow> (favs_state, json \<times> transfer_plan) io" where
  "preflight cfg sn raw commit_planned =
     bindS (liftS (checked_snapshot cfg sn)) (\<lambda>base.
     catchS
       (bindS (liftS (validate_document_bytes raw (int_of (lm_document (rf_limits cfg))))) (\<lambda>doc.
        bindS (liftS (case rf_validator cfg of None \<Rightarrow> Inl TypeError | Some sv \<Rightarrow> sv doc)) (\<lambda>checked.
        bindS (checkS (remote ''invalid_document'')
          (is_dict doc \<and> py_eq checked doc \<and> py_eq (fld doc ''scope'') (fld base ''scope''))) (\<lambda>_.
        bindS next_uuid (\<lambda>op.
        bindS (checkS (remote ''invalid_configuration'') (uuid4_pat op)) (\<lambda>_.
        bindS (liftS (pack_document raw (\<lambda>c. request_envelopes (u ''favorites_transfer'') (append_request cfg c PLACEHOLDER_TRANSACTION) None)
          (int_of (lm_chunk (rf_limits cfg))) (int_of (lm_envelope (rf_limits cfg))) (int_of (lm_document (rf_limits cfg)))
          (int_of (lm_chunks (rf_limits cfg))))) (\<lambda>packed.
        bindS (liftS (favs_params cfg (begin_request cfg base (JStr op) packed))) (\<lambda>begun.
        bindS (liftS (forR (\<lambda>q. bindR (favs_params cfg q) (\<lambda>_. Inr ())) (planned_requests cfg commit_planned base (JStr op)))) (\<lambda>_.
        bindS (liftS (transfer_budget cfg packed commit_planned)) (\<lambda>b.
        bindS favs_clock (\<lambda>t.
        bindS (getS fs_deadline) (\<lambda>deadline.
        bindS (liftS (bindR (check invalid_budget (0 \<le> deadline)) (\<lambda>_. budget_left b deadline t))) (\<lambda>_.
        bindS (checkS (remote ''deadline_insufficient'') (budget_fits cfg b)) (\<lambda>_.
          returnS (begun, packed)))))))))))))))
       (\<lambda>e. raiseS (preflight_error e)))"

definition cutoff :: "favs_state \<Rightarrow> int \<Rightarrow> rat" where
  "cutoff st commands = fs_deadline st - RECONCILE_RESERVE - of_int (commands - 1) * POST_INTERVAL"

definition abort :: "favs \<Rightarrow> json \<Rightarrow> json \<Rightarrow> (favs_state, string) io" where
  "abort cfg tx op =
     (if tx = JNull then returnS ''unconfirmed'' else
      on_remote
        (bindS (getS fs_deadline) (\<lambda>deadline.
         bindS (favs_rpc cfg (request_of_op cfg ''abort'' [(u ''transaction_id'', tx)]) None deadline) (\<lambda>result.
         bindS (liftS (bindR (data_of result) (\<lambda>d. on d ''operation_id'' Inr))) (\<lambda>v.
           returnS (if py_eq v op then ''aborted'' else ''unconfirmed'')))))
        (\<lambda>_ _. returnS ''unconfirmed''))"

text \<open>\<open>_save\<close>: the loop over the waits of its queue.\<close>

fun await_saved :: "json \<Rightarrow> rat \<Rightarrow> save_answer list \<Rightarrow> ('a favs_state_scheme, bool) io" where
  "await_saved record deadline [] st = bindS favs_clock (\<lambda>t.
     if deadline \<le> t then raiseS (remote ''context_not_saved'') else raiseS ScriptEnd) st"
| "await_saved record deadline (a # rest) st = (case favs_clock st of
     (Inl e, s1) \<Rightarrow> (Inl e, s1)
   | (Inr t, s1) \<Rightarrow>
       if deadline \<le> t then (Inl (remote ''context_not_saved''), s1)
       else (case a of
         Gave v \<Rightarrow> (if v = JBool True then (Inr True, s1\<lparr>fs_saves := rest, fs_log := Kept record # fs_log s1\<rparr>)
                    else (Inr False, s1\<lparr>fs_saves := rest\<rparr>))
       | _ \<Rightarrow> await_saved record deadline rest (s1\<lparr>fs_saves := rest\<rparr>)))"

definition save :: "json \<Rightarrow> rat \<Rightarrow> ('a favs_state_scheme, unit) io" where
  "save record deadline =
     bindS favs_clock (\<lambda>t.
     bindS (checkS (remote ''context_not_saved'') (\<not> deadline \<le> t)) (\<lambda>_.
     bindS (getS fs_saves) (\<lambda>waits.
     bindS (await_saved record deadline waits) (\<lambda>saved.
       if \<not> saved then raiseS (remote ''context_not_saved'')
       else bindS favs_clock (\<lambda>t'. checkS (remote ''context_not_saved'') (t' < deadline))))))"

text \<open>\<open>int(x)\<close>: towards zero.\<close>

definition truncated :: "rat \<Rightarrow> int" where
  "truncated r = (if 0 \<le> r then floor r else - floor (- r))"

definition set_deadline :: "rat \<Rightarrow> favs_state \<Rightarrow> favs_state" where
  "set_deadline t st = st\<lparr>fs_wire := (fs_wire st)\<lparr>ws_deadline := t\<rparr>\<rparr>"

text \<open>The requests of \<open>_stage\<close> are sent by these steps; their deadlines leave time for the commands after them.\<close>

definition prepare_request :: "favs \<Rightarrow> json \<Rightarrow> int \<Rightarrow> json result" where
  "prepare_request cfg begun budget_ms =
     on begun ''scope'' (\<lambda>scope. on begun ''expected_revision'' (\<lambda>rev. on begun ''binding_revision'' (\<lambda>brev.
     on begun ''document_sha256'' (\<lambda>sha. on begun ''size_bytes'' (\<lambda>n.
       Inr (request_of_op cfg ''prepare'' [(u ''scope'', scope), (u ''expected_revision'', rev),
         (u ''binding_revision'', brev), (u ''document_sha256'', sha), (u ''size_bytes'', n),
         (u ''budget_ms'', JInt budget_ms)]))))))"

definition field_of :: "validated_result \<Rightarrow> string \<Rightarrow> json result" where
  "field_of r k = bindR (data_of r) (\<lambda>d. on d k Inr)"

abbreviation odd_receipt :: "validated_result \<Rightarrow> exn" where
  "odd_receipt r \<equiv> remote_error ''invalid_response'' (rid_of r) (Some ''receipt'') None"

definition stage_prepare :: "favs \<Rightarrow> json \<Rightarrow> int \<Rightarrow> (favs_state, rat \<times> int \<times> json) io" where
  "stage_prepare cfg begun commands =
     bindS favs_clock (\<lambda>t.
     bindS (getS fs_deadline) (\<lambda>deadline.
     let budget_ms = min (rf_budget cfg) (truncated ((deadline - t) * 1000)) in
     bindS (modS (set_deadline (min deadline (t + of_int budget_ms / 1000)))) (\<lambda>_.
     bindS (liftS (prepare_request cfg begun budget_ms)) (\<lambda>q.
     bindS (getS (\<lambda>st. cutoff st commands)) (\<lambda>until.
     bindS (favs_rpc cfg q None until) (\<lambda>prepared.
     bindS (liftS (field_of prepared ''admission_ttl_ms'')) (\<lambda>ttl.
     bindS (checkS (odd_receipt prepared) (int_of ttl \<le> rf_ttl cfg)) (\<lambda>_.
     bindS (liftS (field_of prepared ''operation_id'')) (\<lambda>op.
     bindS (modS (\<lambda>st. st\<lparr>fs_operation := op\<rparr>)) (\<lambda>_.
       returnS (t, int_of ttl, put begun ''operation_id'' op)))))))))))"

definition stage_begin :: "favs \<Rightarrow> json \<Rightarrow> rat \<Rightarrow> int \<Rightarrow> int \<Rightarrow> (favs_state, validated_result \<times> json) io" where
  "stage_begin cfg begun t ttl commands =
     bindS (getS (\<lambda>st. min (cutoff st commands) (t + of_int ttl / 1000))) (\<lambda>until.
     bindS (favs_rpc cfg begun None until) (\<lambda>r.
     bindS (liftS (field_of r ''transaction_id'')) (\<lambda>tx.
     bindS (modS (\<lambda>st. st\<lparr>fs_transaction := tx\<rparr>)) (\<lambda>_.
     bindS (liftS (field_of r ''next_seq'')) (\<lambda>n.
     bindS (liftS (if py_eq n (JInt 0) then field_of r ''received_bytes'' else Inr (JInt 1))) (\<lambda>got.
     bindS (checkS (odd_receipt r) (py_eq got (JInt 0))) (\<lambda>_.
       returnS (r, tx))))))))"

definition stage_append :: "favs \<Rightarrow> json \<Rightarrow> int \<Rightarrow> int \<times> chunk \<Rightarrow> (favs_state, unit) io" where
  "stage_append cfg tx commands = (\<lambda>(i, c).
     bindS (getS (\<lambda>st. cutoff st (commands - i))) (\<lambda>until.
     bindS (favs_rpc cfg (append_request cfg c tx) None until) (\<lambda>_. returnS ())))"

definition stage_preview :: "favs \<Rightarrow> json \<Rightarrow> json \<Rightarrow> int \<Rightarrow> (favs_state, validated_result) io" where
  "stage_preview cfg begun tx commands =
     bindS (getS (\<lambda>st. cutoff st commands)) (\<lambda>until.
     bindS (favs_rpc cfg (request_of_op cfg ''preview'' [(u ''transaction_id'', tx)]) None until) (\<lambda>r.
     bindS (liftS (on begun ''expected_revision'' (\<lambda>rev. on begun ''binding_revision'' (\<lambda>brev.
        bindR (field_of r ''base_revision'') (\<lambda>x. bindR (field_of r ''binding_revision'') (\<lambda>y.
          check (odd_receipt r) (py_eq x rev \<and> py_eq y brev))))))) (\<lambda>_.
       returnS r)))"

definition staged_plan :: "favs \<Rightarrow> json \<Rightarrow> transfer_plan \<Rightarrow> int \<Rightarrow> (favs_state, validated_result \<times> validated_result) io" where
  "staged_plan cfg begun packed rest =
     (let n = plen (chunks packed) in
      bindS (stage_prepare cfg begun (n + 3 + rest)) (\<lambda>(t, ttl, begun').
      bindS (stage_begin cfg begun' t ttl (n + 2 + rest)) (\<lambda>(r, tx).
      bindS (forS (stage_append cfg tx (n + 1 + rest)) (map (\<lambda>(i, p). (int i, chunk_of p)) (enumerate 0 (chunks packed)))) (\<lambda>_.
      bindS (stage_preview cfg begun' tx (1 + rest)) (\<lambda>preview.
        returnS (r, preview))))))"

text \<open>An \<open>Outcome\<close> of \<open>not_applied\<close> after an attempt to abort the transaction.\<close>

definition given_up :: "favs \<Rightarrow> json \<Rightarrow> json \<Rightarrow> string \<Rightarrow> pystr option \<Rightarrow> (favs_state, validated_result outcome) io" where
  "given_up cfg tx op why rid =
     bindS (abort cfg tx op) (\<lambda>cleanup. returnS ((observed op ''not_applied'' False why rid)\<lparr>oc_cleanup := cleanup\<rparr>))"

definition stage :: "favs \<Rightarrow> snapshot option \<Rightarrow> bytes \<Rightarrow> bool
    \<Rightarrow> (favs_state, validated_result outcome + validated_result \<times> validated_result) io" where
  "stage cfg sn raw commit_planned =
     bindS (getS fs_started) (\<lambda>started.
     bindS (checkS (remote ''already_started'') (\<not> started)) (\<lambda>_.
     bindS (preflight cfg sn raw commit_planned) (\<lambda>(begun, packed).
     bindS (modS (\<lambda>st. st\<lparr>fs_operation := JNull, fs_transaction := JNull, fs_started := True\<rparr>)) (\<lambda>_.
       on_remote
         (bindS (staged_plan cfg begun packed (if commit_planned then 1 else 0)) (\<lambda>s. returnS (Inr s)))
         (\<lambda>code rid. bindS (getS fs_operation) (\<lambda>op. bindS (getS fs_transaction) (\<lambda>tx.
            bindS (given_up cfg tx op code rid) (\<lambda>o'. returnS (Inl o')))))))))"

section \<open>Preview, replacement and reconciliation\<close>

definition preview_scope :: "favs \<Rightarrow> snapshot option \<Rightarrow> bytes \<Rightarrow> (favs_state, preview_outcome) io" where
  "preview_scope cfg sn raw =
     bindS (stage cfg sn raw False) (\<lambda>staged. case staged of
       Inl o' \<Rightarrow> returnS \<lparr>po_operation = oc_operation o', po_reason = oc_reason o', po_request = oc_request o',
         po_cleanup = oc_cleanup o', po_result = None\<rparr>
     | Inr (begun, preview) \<Rightarrow>
         bindS (liftS (bindR (request_of begun) (\<lambda>q. on q ''operation_id'' Inr))) (\<lambda>op.
         bindS (liftS (field_of begun ''transaction_id'')) (\<lambda>tx.
         bindS (abort cfg tx op) (\<lambda>cleanup.
         bindS (liftS (field_of preview ''ready'')) (\<lambda>ready.
           returnS \<lparr>po_operation = op, po_reason = (if truthy ready then ''ready'' else ''blocked''),
             po_request = rid_of preview, po_cleanup = cleanup, po_result = Some preview\<rparr>)))))"

text \<open>The context of a status request: after a restart, from a fresh snapshot of the scope; None when it fails.\<close>

definition fresh_context :: "favs \<Rightarrow> json \<Rightarrow> receipt_context \<Rightarrow> (favs_state, receipt_context option) io" where
  "fresh_context cfg saved ctx =
     catchS
       (bindS (liftS (on saved ''begin_request'' (\<lambda>q. on q ''scope'' Inr))) (\<lambda>scope.
        bindS (read_snapshot cfg scope) (\<lambda>sn.
        bindS (liftS (checked_snapshot cfg (Some sn))) (\<lambda>_.
        bindS (liftS (status_context (rf_tables cfg) ctx (sn_result sn))) (\<lambda>c. returnS (Some c))))))
       (\<lambda>e. if is_RemoteError e \<or> is_ProtocolError e then returnS None else raiseS e)"

definition reconcile_saved :: "favs \<Rightarrow> json \<Rightarrow> receipt_context \<Rightarrow> json \<Rightarrow> (favs_state, validated_result outcome) io" where
  "reconcile_saved cfg saved ctx op =
     bindS (liftS (on saved ''runtime'' Inr)) (\<lambda>rt.
     bindS (if py_eq rt (rf_runtime cfg) then returnS (Some ctx) else fresh_context cfg saved ctx) (\<lambda>got.
       case got of
         None \<Rightarrow> observe_unverified cfg saved
       | Some c \<Rightarrow>
           bindS (getS fs_deadline) (\<lambda>deadline.
           bindS (favs_rpc cfg (status_request cfg op) (Some c) deadline) (\<lambda>r.
             liftS (outcome_of r op)))))"

definition reconcile :: "favs \<Rightarrow> json \<Rightarrow> (favs_state, validated_result outcome) io" where
  "reconcile cfg record =
     bindS (liftS (restore (rf_tables cfg) record)) (\<lambda>(saved, ctx).
     bindS (liftS (on saved ''operation_id'' Inr)) (\<lambda>op.
       catchS (reconcile_saved cfg saved ctx op) (\<lambda>e. case e of
         RemoteError code rid _ _ \<Rightarrow> returnS (observed op ''unknown'' False code rid)
       | ProtocolError _ \<Rightarrow> returnS (observed op ''unknown'' False ''invalid_context'' None)
       | _ \<Rightarrow> raiseS e)))"

text \<open>The two parts of \<open>replace\<close>: what makes a commit possible, with the record of it saved, then the commit.\<close>

definition retain :: "favs \<Rightarrow> validated_result \<Rightarrow> validated_result \<Rightarrow> json \<Rightarrow> json
    \<Rightarrow> (favs_state, json \<times> json \<times> receipt_context) io" where
  "retain cfg begun preview op tx =
     bindS (liftS (field_of preview ''ready'')) (\<lambda>ready.
     bindS (checkS (remote_error ''not_ready'' (rid_of preview) (Some ''receipt'') None) (ready = JBool True)) (\<lambda>_.
     bindS (liftS (retain_context (rf_tables cfg) begun preview)) (\<lambda>ctx.
     bindS (liftS (bindR (request_of begun) (\<lambda>q. on q ''expected_revision'' (\<lambda>rev.
        bindR (field_of preview ''plan_digest'') (\<lambda>plan. Inr (commit_request (rf_runtime cfg) tx op rev plan)))))) (\<lambda>commit.
     bindS (liftS (retained_record (rf_tables cfg) begun preview commit)) (\<lambda>record.
     bindS (getS (\<lambda>st. cutoff st 1)) (\<lambda>until.
     bindS (save record until) (\<lambda>_.
       returnS (commit, record, ctx))))))))"

definition commit_once :: "favs \<Rightarrow> json \<Rightarrow> json \<Rightarrow> receipt_context \<Rightarrow> json \<Rightarrow> (favs_state, validated_result outcome) io" where
  "commit_once cfg commit record ctx op =
     on_remote
       (bindS (getS (\<lambda>st. cutoff st 1)) (\<lambda>until.
        bindS (favs_rpc cfg commit (Some ctx) until) (\<lambda>r.
        bindS (liftS (data_of r)) (\<lambda>d.
          if is_lit (fld d ''outcome'') ''unknown'' then reconcile cfg record else liftS (outcome_of r op)))))
       (\<lambda>_ _. reconcile cfg record)"

definition replace :: "favs \<Rightarrow> snapshot option \<Rightarrow> bytes \<Rightarrow> (favs_state, validated_result outcome) io" where
  "replace cfg sn raw =
     bindS (stage cfg sn raw True) (\<lambda>staged. case staged of
       Inl o' \<Rightarrow> returnS o'
     | Inr (begun, preview) \<Rightarrow>
         bindS (liftS (bindR (request_of begun) (\<lambda>q. on q ''operation_id'' Inr))) (\<lambda>op.
         bindS (liftS (field_of begun ''transaction_id'')) (\<lambda>tx.
         bindS (catchS (bindS (retain cfg begun preview op tx) (\<lambda>k. returnS (Inr k))) (\<lambda>e. case e of
             ProtocolError _ \<Rightarrow> bindS (given_up cfg tx op ''invalid_response'' None) (\<lambda>o'. returnS (Inl o'))
           | RemoteError code rid _ _ \<Rightarrow> bindS (given_up cfg tx op code rid) (\<lambda>o'. returnS (Inl o'))
           | _ \<Rightarrow> raiseS e)) (\<lambda>kept.
           case kept of Inl o' \<Rightarrow> returnS o' | Inr (commit, record, ctx) \<Rightarrow> commit_once cfg commit record ctx op))))"

section \<open>Acknowledging a record of the recovery ledger\<close>

record acknowledgement =
  ak_base :: json
  ak_status :: string
  ak_reason :: "string option"
  ak_evidence :: "json option"
  ak_request :: "json option"

fun await_intent :: "json \<Rightarrow> rat \<Rightarrow> save_answer list \<Rightarrow> (favs_state, json option) io" where
  "await_intent request until [] st = bindS favs_clock (\<lambda>t. if t < until then raiseS ScriptEnd else returnS None) st"
| "await_intent request until (a # rest) st = (case favs_clock st of
     (Inl e, s1) \<Rightarrow> (Inl e, s1)
   | (Inr t, s1) \<Rightarrow>
       if until \<le> t then (Inr None, s1)
       else if a = Wall_over then (Inr None, s1\<lparr>fs_saves := rest\<rparr>)
       else (case favs_clock s1 of
         (Inl e, s2) \<Rightarrow> (Inl e, s2)
       | (Inr _, s2) \<Rightarrow> (case a of
           Gave v \<Rightarrow> (Inr (Some v), s2\<lparr>fs_saves := rest, fs_log := (if is_bool v then [Kept request] else []) @ fs_log s2\<rparr>)
         | _ \<Rightarrow> await_intent request until rest (s2\<lparr>fs_saves := rest\<rparr>))))"

text \<open>The record of an answer, if it is the inspected one with this acknowledgement.\<close>

definition acknowledged :: "favs \<Rightarrow> json \<Rightarrow> json \<Rightarrow> rat \<Rightarrow> (favs_state, validated_result \<times> json \<times> bool) io" where
  "acknowledged cfg q expected until =
     bindS (favs_rpc cfg q None until) (\<lambda>r. bindS (liftS (data_of r)) (\<lambda>d.
     bindS (liftS (on d ''record'' Inr)) (\<lambda>rec. returnS (r, d, py_eq rec expected))))"

definition ack_base :: "json \<Rightarrow> json \<Rightarrow> json result" where
  "ack_base request record = on record ''original_outcome'' (\<lambda>out. Inr (JObj
     [(u ''operation_id'', fld request ''operation_id''), (u ''acknowledgement_id'', fld request ''acknowledgement_id''),
      (u ''plan_sha256'', fld request ''plan_sha256''), (u ''original_outcome'', out), (u ''replay_allowed'', JBool False)]))"

definition ack_report :: "json \<Rightarrow> string \<Rightarrow> string option \<Rightarrow> acknowledgement" where
  "ack_report base status why = \<lparr>ak_base = base, ak_status = status, ak_reason = why, ak_evidence = None, ak_request = None\<rparr>"

definition ack_evidence :: "json \<Rightarrow> string \<Rightarrow> validated_result \<Rightarrow> json \<Rightarrow> acknowledgement" where
  "ack_evidence base status r d =
     \<lparr>ak_base = base, ak_status = status, ak_reason = None, ak_evidence = Some d, ak_request = Some (vr_request_id r)\<rparr>"

text \<open>The acknowledgement is asked once; after an uncertain one, a single read decides what is reported.\<close>

definition ack_once :: "favs \<Rightarrow> json \<Rightarrow> json \<Rightarrow> json \<Rightarrow> rat \<Rightarrow> (favs_state, acknowledgement) io" where
  "ack_once cfg request expected base until =
     bindS (on_remote
        (bindS (acknowledged cfg request expected until) (\<lambda>(r, d, ok).
         bindS (checkS (remote ''invalid_response'') ok) (\<lambda>_.
           returnS (Some (ack_evidence base ''acknowledgement_confirmed'' r d)))))
        (\<lambda>_ _. returnS None)) (\<lambda>first.
     case first of Some k \<Rightarrow> returnS k | None \<Rightarrow>
     bindS (on_remote
        (bindS (recovery_inspect cfg (fld request ''operation_id'')) (\<lambda>r. bindS (liftS (data_of r)) (\<lambda>d.
         bindS (liftS (on d ''record'' Inr)) (\<lambda>rec.
           returnS (if py_eq rec expected then Some (ack_evidence base ''acknowledgement_observed'' r d) else None)))))
        (\<lambda>_ _. returnS None)) (\<lambda>second.
     case second of Some k \<Rightarrow> returnS k
     | None \<Rightarrow> returnS (ack_report base ''unknown'' (Some ''acknowledgement_unconfirmed''))))"

definition acknowledge :: "favs \<Rightarrow> validated_result \<Rightarrow> json \<Rightarrow> (favs_state, acknowledgement) io" where
  "acknowledge cfg inspection confirmation =
     bindS (liftS (recovery_ack_request (rf_tables cfg) inspection)) (\<lambda>request.
     bindS (liftS (on request ''runtime'' (\<lambda>rt. on request ''plan_sha256'' (\<lambda>plan.
        check (remote ''invalid_context'') (py_eq rt (rf_runtime cfg) \<and> py_eq confirmation plan))))) (\<lambda>_.
     bindS (liftS (field_of inspection ''record'')) (\<lambda>record.
     bindS (liftS (ack_base request record)) (\<lambda>base.
     bindS (getS (\<lambda>st. fs_deadline st - RECONCILE_RESERVE)) (\<lambda>until.
     bindS favs_clock (\<lambda>t.
       if until - t \<le> POST_INTERVAL + HTTP_INTERVAL
       then returnS (ack_report base ''blocked'' (Some ''deadline_insufficient''))
       else
         bindS favs_clock (\<lambda>_.
         bindS (getS fs_saves) (\<lambda>waits.
         bindS (await_intent request until waits) (\<lambda>authorized.
           case authorized of
             Some (JBool _) \<Rightarrow> ack_once cfg request (put record ''acknowledgement'' (recovery_audit request)) base until
           | _ \<Rightarrow> returnS (ack_report base ''blocked'' (Some ''context_not_saved'')))))))))))"

end
