(* ===== verification/RemoteFavoritesLaws.thy ===== *)
theory RemoteFavoritesLaws
  imports RemoteFavorites RemoteRuns
begin

text \<open>
  What the operations of \<open>RemoteFavorites\<close> keep. The locale states what an invariant of the adapter's state
  needs of the clock, of a request that is not a commit and of the fields the operations assign; its lemmas
  carry it through every operation up to the commit. It is interpreted on the log, which then holds no
  commit, and on the pacing of the HTTP calls.
\<close>

section \<open>Requests that are not commits\<close>

definition is_commit :: "json \<Rightarrow> bool" where
  "is_commit q \<longleftrightarrow> is_lit (fld q ''op'') ''commit''"

definition calm :: "event \<Rightarrow> bool" where
  "calm e = (case e of Asked q \<Rightarrow> \<not> is_commit q | Kept _ \<Rightarrow> False)"

lemma request_of_op_commit: "is_commit (request_of_op cfg k kv) \<longleftrightarrow> u k = u ''commit''"
  by (simp add: is_commit_def request_of_op_def lit_def)

lemma other_ops:
  "u ''snapshot'' \<noteq> u ''commit''" "u ''status'' \<noteq> u ''commit''" "u ''abort'' \<noteq> u ''commit''" "u ''preview'' \<noteq> u ''commit''"
  "u ''append'' \<noteq> u ''commit''" "u ''prepare'' \<noteq> u ''commit''"
  by (simp_all add: u_def)

lemma on_remote_keeps [keeps_intro]:
  "keeps I m \<Longrightarrow> (\<And>code rid. keeps I (h code rid)) \<Longrightarrow> keeps I (on_remote m h)"
  unfolding on_remote_def by (auto intro!: keeps_intro split: exn.split)

lemma on_remote_run [run_iff]:
  "on_remote m h s = (Inr y, t) \<longleftrightarrow> m s = (Inr y, t) \<or>
     (\<exists>code rid phase http s'. m s = (Inl (RemoteError code rid phase http), s') \<and> h code rid s' = (Inr y, t))"
proof (cases "m s")
  case (Pair r s')
  show ?thesis
  proof (cases r)
    case (Inl e)
    then show ?thesis using Pair by (cases e) (simp_all add: on_remote_def catchS_def raiseS_def)
  qed (simp add: on_remote_def catchS_def Pair)
qed

lemma on_remote_state: "on_remote m (\<lambda>_ _. returnS x) s = (r, s1) \<Longrightarrow> \<exists>r'. m s = (r', s1)"
  by (auto simp: on_remote_def catchS_def run_simps split: prod.splits sum.splits exn.splits)

text \<open>What every run that returns gives, wherever it starts.\<close>

definition gives :: "('a \<Rightarrow> bool) \<Rightarrow> ('s, 'a) io \<Rightarrow> bool" where
  "gives Q m \<longleftrightarrow> (\<forall>s x s'. m s = (Inr x, s') \<longrightarrow> Q x)"

lemma givesD: "gives Q m \<Longrightarrow> m s = (Inr x, s') \<Longrightarrow> Q x"
  by (auto simp: gives_def)

named_theorems gives_intro \<open>what a construct gives\<close>

lemma gives_rules [gives_intro]:
  "Q x \<Longrightarrow> gives Q (returnS x)" "gives Q (raiseS e)" "(\<And>x. r = Inr x \<Longrightarrow> Q x) \<Longrightarrow> gives Q (liftS r)"
  "(\<And>x. gives Q (f x)) \<Longrightarrow> gives Q (bindS m f)"
  "gives Q n \<Longrightarrow> (\<And>e. gives Q (h e)) \<Longrightarrow> gives Q (catchS n h)"
  by (auto simp: gives_def run_iff catchS_def split: prod.splits sum.splits)

lemma keeps_bind_value:
  assumes "keeps I m" "\<And>x s s'. m s = (Inr x, s') \<Longrightarrow> keeps I (f x)"
  shows "keeps I (bindS m f)"
  using assms(1) assms(2) [THEN keepsD [where m = "f x" for x, OF _ surjective_pairing]]
  by (auto simp: keeps_def bindS_def split: prod.splits sum.splits)

text \<open>The \<open>begin\<close> request that a preflight gives passed its checks, and so is no commit.\<close>

lemma favs_params_checked: "favs_params cfg q = Inr ps \<Longrightarrow> check_request (rf_tables cfg) ps = Inr ()"
  by (auto simp: favs_params_def request_params_def rf_protocol_def favorites_protocol_def bindR_ok rethrow_ok
      dest: validate_request_check split: option.splits)

lemma commit_has_no_document:
  assumes "check_request tables ps = Inr ()" "is_commit ps"
  shows "\<not> has ps ''document_sha256''"
proof -
  have op: "fld ps ''op'' = JStr (u ''commit'')"
    using assms(2) by (auto simp: is_commit_def is_lit_def)
  have "request_fields ps (JStr (u ''commit'')) = Inr [''op'', ''runtime'', ''transaction_id'', ''operation_id'', ''expected_revision'', ''plan_digest'']"
    by (simp add: request_fields_def Let_def u_def)
  then have "p_shape ps [''op'', ''runtime'', ''transaction_id'', ''operation_id'', ''expected_revision'', ''plan_digest''] = Inr ()"
    using assms(1) op by (auto simp: check_request_def ok_iff)
  then show ?thesis by (auto simp: ok_iff same_keys_def has_def u_def list_all_iff)
qed

lemma reraise_run: "catchS m (\<lambda>e. raiseS (f e)) s = (Inr y, t) \<longleftrightarrow> m s = (Inr y, t)"
  by (auto simp: catchS_def raiseS_def split: prod.splits sum.splits)

lemma preflight_begin: "preflight cfg sn raw planned s = (Inr (begun, packed), s') \<Longrightarrow> \<exists>q. favs_params cfg q = Inr begun"
  by (auto simp: preflight_def run_iff reraise_run)

lemma prepare_begin:
  "stage_prepare cfg begun n s = (Inr (t, ttl, begun'), s') \<Longrightarrow> has begun ''document_sha256'' \<and> (\<exists>op. begun' = put begun ''operation_id'' op)"
  by (auto simp: stage_prepare_def prepare_request_def run_iff Let_def ok_iff)

lemma begin_is_no_commit:
  assumes "favs_params cfg q = Inr begun" "stage_prepare cfg begun n s = (Inr (t, ttl, begun'), s')"
  shows "\<not> is_commit begun'"
proof -
  have "\<not> is_commit begun"
    using commit_has_no_document [OF favs_params_checked [OF assms(1)]] prepare_begin [OF assms(2)] by blast
  then show ?thesis using prepare_begin [OF assms(2)] by (auto simp: is_commit_def fld_put)
qed

section \<open>What the operations keep\<close>

locale adapter_kept =
  fixes I :: "favs_state \<Rightarrow> bool" and cfg :: favs
  assumes kept_clock: "keeps I favs_clock"
    and kept_ask: "\<not> is_commit q \<Longrightarrow> keeps I (favs_rpc cfg q ctx deadline)"
    and kept_locals: "I st \<Longrightarrow> I (st\<lparr>fs_operation := op\<rparr>)" "I st \<Longrightarrow> I (st\<lparr>fs_transaction := tx\<rparr>)"
      "I st \<Longrightarrow> I (st\<lparr>fs_started := b\<rparr>)" "I st \<Longrightarrow> I (st\<lparr>fs_uuids := us\<rparr>)" "I st \<Longrightarrow> I (set_deadline d st)"
begin

lemma kept_request: "u k \<noteq> u ''commit'' \<Longrightarrow> keeps I (favs_rpc cfg (request_of_op cfg k kv) ctx deadline)"
  by (rule kept_ask) (simp add: request_of_op_commit)

lemma kept_snapshot: "keeps I (read_snapshot cfg scope)"
  unfolding read_snapshot_def by (intro keeps_intro kept_request other_ops)

lemma kept_abort: "keeps I (abort cfg tx op)"
  unfolding abort_def by (intro keeps_intro kept_request other_ops)

lemma kept_given_up: "keeps I (given_up cfg tx op why rid)"
  unfolding given_up_def by (intro keeps_intro kept_abort)

lemma kept_uuid: "keeps I next_uuid"
  by (auto simp: keeps_def next_uuid_def kept_locals split: list.split)

lemma kept_preflight: "keeps I (preflight cfg sn raw planned)"
  unfolding preflight_def by (intro keeps_intro kept_uuid kept_clock)

lemma kept_prepare: "keeps I (stage_prepare cfg begun n)"
proof -
  have asked: "keeps I (favs_rpc cfg q None until)" if "prepare_request cfg begun b = Inr q" for q b until
    using that by (auto simp: prepare_request_def ok_iff intro!: kept_request other_ops)
  show ?thesis
    unfolding stage_prepare_def Let_def
    by (intro keeps_intro kept_clock keeps_modS keeps_bind_value [where m = "liftS r" for r])
      (auto simp: run_iff kept_locals intro!: keeps_intro asked keeps_modS)
qed

lemma kept_begin: "\<not> is_commit begun \<Longrightarrow> keeps I (stage_begin cfg begun t ttl n)"
  unfolding stage_begin_def by (intro keeps_intro kept_ask keeps_modS kept_locals)

lemma kept_append: "keeps I (stage_append cfg tx n p)"
  unfolding stage_append_def append_request_def
  by (auto intro!: keeps_intro kept_request other_ops split: prod.split)

lemma kept_stage_preview: "keeps I (stage_preview cfg begun tx n)"
  unfolding stage_preview_def by (intro keeps_intro kept_request other_ops)

lemma kept_plan: "favs_params cfg q = Inr begun \<Longrightarrow> keeps I (staged_plan cfg begun packed rest)"
  unfolding staged_plan_def Let_def
  by (intro keeps_bind_value [where m = "stage_prepare c b n" for c b n] kept_prepare)
    (auto intro!: keeps_intro kept_begin kept_append kept_stage_preview dest: begin_is_no_commit split: prod.split)

lemma kept_stage: "keeps I (stage cfg sn raw planned)"
  unfolding stage_def
  by (intro keeps_bind_value [where m = "preflight c s r p" for c s r p] keeps_intro kept_preflight)
    (auto dest!: preflight_begin intro!: keeps_intro keeps_modS kept_plan kept_given_up kept_locals split: prod.split)

lemma kept_observe: "keeps I (observe_unverified cfg record)"
  unfolding observe_unverified_def status_request_def Let_def
  by (auto intro!: keeps_intro kept_request other_ops split: prod.split)

lemma kept_reconcile: "keeps I (reconcile cfg record)"
  unfolding reconcile_def reconcile_saved_def fresh_context_def status_request_def
  by (auto intro!: keeps_intro kept_request kept_snapshot kept_observe other_ops split: prod.split option.split exn.split)

lemma kept_preview: "keeps I (preview_scope cfg sn raw)"
  unfolding preview_scope_def
  by (auto intro!: keeps_intro kept_stage kept_abort split: sum.split prod.split)

end

end
