(* ===== verification/RemoteFavoritesProps.thy ===== *)
theory RemoteFavoritesProps
  imports RemoteFavoritesLaws
begin

text \<open>
  What \<open>RemoteFavorites\<close> promises of its requests: a commit is asked at most once, only after the storage
  has confirmed the record of it, and never taken back afterwards; a preview asks none.
\<close>

definition no_commit :: "event \<Rightarrow> bool" where
  "no_commit e = (case e of Asked q \<Rightarrow> \<not> is_commit q | Kept _ \<Rightarrow> True)"

text \<open>What was logged since the log was \<open>old\<close> are events of \<open>P\<close>.\<close>

definition logged :: "(event \<Rightarrow> bool) \<Rightarrow> event list \<Rightarrow> 'a favs_state_scheme \<Rightarrow> bool" where
  "logged P old st \<longleftrightarrow> (\<exists>new. fs_log st = new @ old \<and> list_all P new)"

lemma logged_refl [simp]: "logged P (fs_log st) st"
  by (simp add: logged_def)

lemma logged_mono: "logged P old st \<Longrightarrow> (\<And>e. P e \<Longrightarrow> Q e) \<Longrightarrow> logged Q old st"
  by (auto simp: logged_def list_all_iff)

lemma logged_add: "logged P old st \<Longrightarrow> fs_log st' = e # fs_log st \<Longrightarrow> P e \<Longrightarrow> logged P old st'"
  by (auto simp: logged_def intro: exI [of _ "e # new" for new])

lemma logged_trans: "logged P old st \<Longrightarrow> logged P (fs_log st) st' \<Longrightarrow> logged P old st'"
  by (auto simp: logged_def)

lemma calm_no_commit: "calm e \<Longrightarrow> no_commit e"
  by (cases e) (auto simp: calm_def no_commit_def)

lemma clock_log: "favs_clock st = (r, st') \<Longrightarrow> fs_log st' = fs_log st \<and> fs_saves st' = fs_saves st"
  by (auto simp: favs_clock_def split: prod.splits)

lemma rpc_log: "favs_rpc cfg q ctx d st = (r, st') \<Longrightarrow> fs_log st' = Asked q # fs_log st"
  by (auto simp: favs_rpc_def split: prod.splits)

interpretation calm_log: adapter_kept "logged calm old" cfg for old cfg
proof unfold_locales
  show "keeps (logged calm old) favs_clock"
    by (simp add: keeps_def logged_def clock_log [OF prod.collapse [symmetric]])
  show "\<not> is_commit q \<Longrightarrow> keeps (logged calm old) (favs_rpc cfg q ctx deadline)" for q ctx deadline
    using rpc_log [OF prod.collapse [symmetric]] by (auto simp: keeps_def calm_def intro: logged_add)
qed (simp_all add: logged_def set_deadline_def)

interpretation paced_calls: adapter_kept "\<lambda>st. paced (fs_wire st)" cfg for cfg
proof unfold_locales
  show "keeps (\<lambda>st. paced (fs_wire st)) favs_clock"
    using paced_now by (auto simp: keeps_def favs_clock_def split: prod.split dest: keepsD)
  show "keeps (\<lambda>st. paced (fs_wire st)) (favs_rpc cfg q ctx deadline)" for q ctx deadline
    using keepsD [OF pacing.kept_rpc] by (auto simp: keeps_def favs_rpc_def split: prod.split)
qed (simp_all add: set_deadline_def paced_def call_times_def post_times_def reached_def)

section \<open>The commit\<close>

lemma await_saved_log:
  "await_saved doc deadline waits st = (r, st') \<Longrightarrow>
     fs_log st' = (if r = Inr True then [Kept doc] else []) @ fs_log st"
proof (induction doc deadline waits st arbitrary: r st' rule: await_saved.induct)
  case (1 doc deadline st)
  then show ?case by (auto simp: bindS_def run_simps split: prod.splits sum.splits if_splits dest: clock_log)
next
  case (2 doc deadline a rest st)
  obtain rt s1 where c: "favs_clock st = (rt, s1)" by fastforce
  show ?case
  proof (cases rt)
    case (Inr t)
    have "await_saved doc deadline rest (s1\<lparr>fs_saves := rest\<rparr>) = (r, st') \<Longrightarrow>
        fs_log st' = (if r = Inr True then [Kept doc] else []) @ fs_log st"
      if "\<not> deadline \<le> t" "a = Waiting \<or> a = Wall_over"
      using that 2(1,2) [OF c [symmetric] Inr that(1)] clock_log [OF c] by auto
    then show ?thesis
      using 2(3) c Inr clock_log [OF c] by (auto split: if_splits save_answer.splits)
  qed (use 2(3) c clock_log [OF c] in auto)
qed

lemma save_log:
  assumes "save doc deadline st = (r, st')"
  shows "fs_log st' = Kept doc # fs_log st \<or> fs_log st' = fs_log st \<and> \<not> is_ok r"
  using assms
  by (auto simp: save_def bindS_def run_simps check_def is_ok_def split: prod.splits sum.splits if_splits
      dest!: clock_log await_saved_log)

text \<open>An outcome without a validated answer says \<open>unknown\<close>.\<close>

definition settled :: "'r outcome \<Rightarrow> bool" where
  "settled k \<longleftrightarrow> oc_outcome k = ''unknown'' \<or> (\<exists>v. oc_result k = Some v)"

lemma settled_unknown [simp]: "settled (observed op ''unknown'' ok why rid)"
  by (simp add: settled_def observed_def)

lemma retain_run:
  assumes "retain cfg begun preview op tx st = (Inr (commit, doc, ctx), st')"
  shows "fs_log st' = Kept doc # fs_log st" "retained_record (rf_tables cfg) begun preview commit = Inr doc"
    "is_commit commit"
proof -
  show "retained_record (rf_tables cfg) begun preview commit = Inr doc" "is_commit commit"
    using assms by (auto simp: retain_def run_iff ok_iff is_commit_def commit_request_def lit_def)
  show "fs_log st' = Kept doc # fs_log st"
    using assms by (auto simp: retain_def run_iff is_ok_def dest!: save_log)
qed

lemma retain_fails:
  assumes "retain cfg begun preview op tx st = (Inl e, st')"
  shows "logged no_commit (fs_log st) st'"
proof -
  have "fs_log st' = fs_log st \<or> (\<exists>doc. fs_log st' = Kept doc # fs_log st)"
    using assms by (auto simp: retain_def bindS_def run_simps split: prod.splits sum.splits dest!: save_log)
  then show ?thesis by (auto simp: logged_def no_commit_def)
qed

lemma outcome_settled: "outcome_of r op = Inr k \<Longrightarrow> settled k"
  by (auto simp: outcome_of_def settled_def ok_iff Let_def split: if_splits)

lemma observe_settled: "gives settled (observe_unverified cfg saved)"
  unfolding observe_unverified_def on_remote_def Let_def
  by (auto intro!: gives_intro split: exn.split prod.split)

lemma reconcile_settled: "gives settled (reconcile cfg saved)"
  unfolding reconcile_def reconcile_saved_def
  by (auto intro!: gives_intro observe_settled split: exn.split prod.split option.split dest: outcome_settled)

lemma commit_once_settled: "gives settled (commit_once cfg commit doc ctx op)"
  unfolding commit_once_def on_remote_def
  by (auto intro!: gives_intro reconcile_settled split: exn.split dest: outcome_settled)

lemma commit_once_log:
  assumes "commit_once cfg commit doc ctx op st = (r, st')"
  shows "logged calm (Asked commit # fs_log st) st'"
proof -
  let ?I = "logged calm (Asked commit # fs_log st)"
  obtain ra sa where a: "favs_rpc cfg commit (Some ctx) (cutoff st 1) st = (ra, sa)" by fastforce
  have sent: "?I sa" using rpc_log [OF a] by (metis logged_refl)
  have rest: "keeps ?I (reconcile cfg doc)" "keeps ?I (liftS (outcome_of x op))" for x
    by (rule calm_log.kept_reconcile keeps_const)+
  have "keeps ?I (on_remote (\<lambda>s. case (ra, sa) of (Inl e, s') \<Rightarrow> (Inl e, s')
      | (Inr x, s') \<Rightarrow> bindS (liftS (data_of x)) (\<lambda>d. if is_lit (fld d ''outcome'') ''unknown'' then reconcile cfg doc
          else liftS (outcome_of x op)) s') (\<lambda>_ _. reconcile cfg doc))"
    using sent by (intro on_remote_keeps rest)
      (auto simp: keeps_def split: sum.split intro!: keepsD [OF _ prod.collapse [symmetric]] keeps_intro rest)
  from keepsD [OF this, of sa r st'] show ?thesis
    using assms a sent by (simp add: commit_once_def on_remote_def catchS_def bindS_def [of "getS f" for f] bindS_def [of "favs_rpc a b c d" for a b c d] run_simps)
qed

section \<open>Replacing and previewing\<close>

text \<open>One commit, asked right after the storage confirmed a record that \<open>P\<close> relates to it; no other.\<close>

definition commit_after :: "(json \<Rightarrow> json \<Rightarrow> bool) \<Rightarrow> event list \<Rightarrow> bool" where
  "commit_after P new \<longleftrightarrow> (\<exists>later commit doc earlier. new = later @ Asked commit # Kept doc # earlier \<and>
     is_commit commit \<and> P commit doc \<and> list_all no_commit (later @ earlier))"

text \<open>The record of a replacement is made from the two staged results and that very commit.\<close>

definition committed_once :: "unicode_tables \<Rightarrow> event list \<Rightarrow> bool" where
  "committed_once tables = commit_after (\<lambda>commit doc. \<exists>begun preview. retained_record tables begun preview commit = Inr doc)"

lemma logged_calm: "logged calm old st \<Longrightarrow> logged no_commit old st"
  by (erule logged_mono) (rule calm_no_commit)

lemma stage_log: "stage cfg sn raw planned st = (r, st') \<Longrightarrow> logged calm (fs_log st) st'"
  using keepsD [OF calm_log.kept_stage] by simp

lemma given_up_log: "given_up cfg tx op why rid st = (r, st') \<Longrightarrow> logged calm (fs_log st) st'"
  using keepsD [OF calm_log.kept_given_up] by simp

lemma logged_to_commit:
  assumes "logged no_commit old s1" "fs_log s2 = Kept doc # fs_log s1" "logged calm (Asked commit # fs_log s2) s3"
    "is_commit commit" "P commit doc"
  shows "\<exists>new. fs_log s3 = new @ old \<and> commit_after P new"
proof -
  obtain earlier where "fs_log s1 = earlier @ old" "list_all no_commit earlier"
    using assms(1) by (auto simp: logged_def)
  moreover obtain later where "fs_log s3 = later @ Asked commit # fs_log s2" "list_all no_commit later"
    using logged_calm [OF assms(3)] by (auto simp: logged_def)
  ultimately show ?thesis
    using assms(2,4,5) unfolding commit_after_def
    by (intro exI [of _ "later @ Asked commit # Kept doc # earlier"]) force
qed

text \<open>The two ways a replacement runs: it ends before the commit, or the record is kept and the commit asked.\<close>

lemma replace_cases:
  assumes "replace cfg sn raw st = (r, st')"
  obtains (quiet) "logged no_commit (fs_log st) st'"
  | (sent) s1 s2 commit doc ctx op tx begun preview where "logged no_commit (fs_log st) s1"
      "retain cfg begun preview op tx s1 = (Inr (commit, doc, ctx), s2)" "commit_once cfg commit doc ctx op s2 = (r, st')"
proof -
  obtain rs s1 where s: "stage cfg sn raw True st = (rs, s1)" by fastforce
  note staged = logged_calm [OF stage_log [OF s]]
  show thesis
  proof (cases "\<exists>begun preview op tx. rs = Inr (Inr (begun, preview)) \<and>
      bindR (request_of begun) (\<lambda>q. on q ''operation_id'' Inr) = Inr op \<and> field_of begun ''transaction_id'' = Inr tx")
    case False
    then show ?thesis
      using assms s staged quiet
      by (auto simp: replace_def bindS_def run_simps split: prod.splits sum.splits)
  next
    case True
    then obtain begun preview op tx where b: "rs = Inr (Inr (begun, preview))"
      "bindR (request_of begun) (\<lambda>q. on q ''operation_id'' Inr) = Inr op" "field_of begun ''transaction_id'' = Inr tx" by blast
    obtain rk s2 where k: "retain cfg begun preview op tx s1 = (rk, s2)" by fastforce
    show ?thesis
    proof (cases rk)
      case (Inr x)
      then show ?thesis
        using assms s b k staged by (cases x) (auto simp: replace_def bindS_def run_simps catchS_def intro: sent)
    next
      case (Inl e)
      note failed = logged_trans [OF staged retain_fails [OF k [unfolded Inl]]]
      have "st' = s2 \<or> (\<exists>why rid ro. given_up cfg tx op why rid s2 = (ro, st'))"
        using assms s b k Inl
        by (auto simp: replace_def bindS_def run_simps catchS_def split: exn.splits prod.splits sum.splits)
      then show ?thesis
        using failed by (metis given_up_log logged_calm logged_trans quiet)
    qed
  qed
qed

text \<open>
  C1: A replacement asks for a commit at most once. It asks only right after the storage has confirmed the
  recovery record of that very commit, made from the two staged results; and once it has asked, an outcome it
  returns either rests on a validated answer of the player or says \<open>unknown\<close>, never \<open>not_applied\<close> on its own.
\<close>

theorem replace_commits_once:
  "case replace cfg sn raw st of (r, st') \<Rightarrow> \<exists>new. fs_log st' = new @ fs_log st \<and>
     (list_all no_commit new \<or>
      committed_once (rf_tables cfg) new \<and>
        (case r of Inl _ \<Rightarrow> True | Inr k \<Rightarrow> oc_outcome k = ''unknown'' \<or> (\<exists>v. oc_result k = Some v)))"
proof -
  obtain r st' where e: "replace cfg sn raw st = (r, st')" by fastforce
  from e show ?thesis
  proof (cases rule: replace_cases)
    case quiet
    then show ?thesis using e by (auto simp: logged_def)
  next
    case (sent s1 s2 commit doc ctx op tx begun preview)
    note kept = retain_run [OF sent(2)]
    have "\<exists>new. fs_log st' = new @ fs_log st \<and> committed_once (rf_tables cfg) new"
      unfolding committed_once_def
      by (rule logged_to_commit [OF sent(1) kept(1) commit_once_log [OF sent(3)] kept(3)]) (use kept(2) in blast)
    moreover have "case r of Inl _ \<Rightarrow> True | Inr k \<Rightarrow> settled k"
      using commit_once_settled [of cfg commit doc ctx op] sent(3) by (auto simp: gives_def split: sum.split)
    ultimately show ?thesis using e by (auto simp: settled_def split: sum.splits)
  qed
qed

text \<open>Whoever says \<open>aborted\<close> has just asked for the abort.\<close>

definition just_aborted :: "event list \<Rightarrow> favs_state \<Rightarrow> bool" where
  "just_aborted old st \<longleftrightarrow> (\<exists>q new. fs_log st = Asked q # new @ old \<and> is_lit (fld q ''op'') ''abort'')"

lemma abort_asked:
  assumes "abort cfg tx op s = (Inr ''aborted'', s')" "logged P old s"
  shows "just_aborted old s'"
proof -
  have "\<exists>q. fs_log s' = Asked q # fs_log s \<and> is_lit (fld q ''op'') ''abort''"
    using assms(1)
    by (auto simp: abort_def run_iff request_of_op_def lit_def split: if_splits dest!: rpc_log)
  then show ?thesis using assms(2) by (auto simp: just_aborted_def logged_def)
qed

lemma given_up_aborted:
  "given_up cfg tx op why rid s = (Inr k, s') \<Longrightarrow> oc_cleanup k = ''aborted'' \<Longrightarrow> logged P old s \<Longrightarrow> just_aborted old s'"
  by (auto simp: given_up_def run_iff intro: abort_asked)

lemma stage_aborted:
  assumes "stage cfg sn raw planned st = (Inr (Inl k), st')" "oc_cleanup k = ''aborted''"
  shows "just_aborted (fs_log st) st'"
proof -
  obtain begun packed s1 rs s2 code rid op tx where
    p: "preflight cfg sn raw planned st = (Inr (begun, packed), s1)"
    and s: "staged_plan cfg begun packed (if planned then 1 else 0)
        (s1\<lparr>fs_operation := JNull, fs_transaction := JNull, fs_started := True\<rparr>) = (rs, s2)"
    and g: "given_up cfg tx op code rid s2 = (Inr k, st')"
    using assms(1) by (auto simp: stage_def run_iff bindS_raises run_simps)
  obtain q where q: "favs_params cfg q = Inr begun" using preflight_begin [OF p] ..
  have "logged calm (fs_log st) s1" using keepsD [OF calm_log.kept_preflight p] by simp
  then have "logged calm (fs_log st) s2"
    using keepsD [OF calm_log.kept_plan [OF q] s] by (simp add: logged_def)
  then show ?thesis using given_up_aborted [OF g assms(2)] by blast
qed

definition cleanup_word :: "string \<Rightarrow> bool" where
  "cleanup_word c \<longleftrightarrow> c = ''aborted'' \<or> c = ''unconfirmed''"

lemma cleanup_words [simp]: "cleanup_word ''aborted''" "cleanup_word ''unconfirmed''"
  by (simp_all add: cleanup_word_def)

lemma abort_words: "gives cleanup_word (abort cfg tx op)"
  unfolding abort_def on_remote_def
  by (auto intro!: gives_intro split: exn.split)

lemma given_up_words: "gives (\<lambda>k. cleanup_word (oc_cleanup k)) (given_up cfg tx op why rid)"
  by (auto simp: given_up_def gives_def run_iff dest: givesD [OF abort_words])

lemma stage_words:
  "gives (\<lambda>x. case x of Inl k \<Rightarrow> cleanup_word (oc_cleanup k) | Inr _ \<Rightarrow> True) (stage cfg sn raw planned)"
  using given_up_words by (fastforce simp: stage_def gives_def run_iff split: sum.split)

lemma preview_words:
  assumes "preview_scope cfg sn raw st = (Inr p, st')"
  shows "cleanup_word (po_cleanup p)"
proof -
  obtain x s1 where s: "stage cfg sn raw False st = (Inr x, s1)"
    using assms by (auto simp: preview_scope_def run_iff)
  have x: "case x of Inl k \<Rightarrow> cleanup_word (oc_cleanup k) | Inr _ \<Rightarrow> True"
    using stage_words [of cfg sn raw False] s unfolding gives_def by blast
  show ?thesis
  proof (cases x)
    case (Inl k)
    then show ?thesis using assms s x by (auto simp: preview_scope_def returnS_def)
  next
    case (Inr y)
    then show ?thesis
      using assms s by (cases y) (auto simp: preview_scope_def run_iff dest: givesD [OF abort_words])
  qed
qed

lemma preview_aborted:
  assumes "preview_scope cfg sn raw st = (Inr p, st')" "po_cleanup p = ''aborted''"
  shows "just_aborted (fs_log st) st'"
proof -
  obtain x s1 where s: "stage cfg sn raw False st = (Inr x, s1)"
    using assms(1) by (auto simp: preview_scope_def run_iff)
  show ?thesis
  proof (cases x)
    case (Inl k)
    then show ?thesis using assms s stage_aborted [of cfg sn raw False st k s1] by (auto simp: preview_scope_def returnS_def)
  next
    case (Inr y)
    then show ?thesis
      using assms s stage_log [OF s] by (cases y) (auto simp: preview_scope_def run_iff intro: abort_asked)
  qed
qed

text \<open>
  C19: A preview asks for no commit and saves nothing: all it does is ask requests that are no commits. One
  that returns says that its cleanup is unconfirmed, or that the transaction is aborted; then the abort was
  the last request it asked.
\<close>

theorem preview_never_commits:
  "case preview_scope cfg sn raw st of (r, st') \<Rightarrow> \<exists>new. fs_log st' = new @ fs_log st \<and>
     list_all (\<lambda>e. case e of Asked q \<Rightarrow> \<not> is_lit (fld q ''op'') ''commit'' | Kept _ \<Rightarrow> False) new \<and>
     (case r of Inl _ \<Rightarrow> True | Inr p \<Rightarrow> po_cleanup p = ''unconfirmed'' \<or> po_cleanup p = ''aborted'' \<and>
        (case new of Asked q # _ \<Rightarrow> is_lit (fld q ''op'') ''abort'' | _ \<Rightarrow> False))"
proof -
  obtain r st' where e: "preview_scope cfg sn raw st = (r, st')" by fastforce
  obtain new where n: "fs_log st' = new @ fs_log st" "list_all calm new"
    using keepsD [OF calm_log.kept_preview e, of "fs_log st"] by (auto simp: logged_def)
  have "case new of Asked q # _ \<Rightarrow> is_lit (fld q ''op'') ''abort'' | _ \<Rightarrow> False"
    if "r = Inr p" "po_cleanup p = ''aborted''" for p
    using preview_aborted [OF e [unfolded that(1)] that(2)] n(1) by (auto simp: just_aborted_def)
  then show ?thesis
    using e n [unfolded calm_def [abs_def] is_commit_def [abs_def]] preview_words [of cfg sn raw st _ st', unfolded cleanup_word_def]
    by (auto split: sum.split intro!: exI [of _ new])
qed

end
