(* ===== verification/RemoteGlobal.thy ===== *)
theory RemoteGlobal
  imports RemoteFavorites RemoteRuns GlobalProtocolResult
begin

text \<open>
  \<open>src/cli/global_favorites_remote.py\<close>: the export of the global favorites, and the staging, preview and
  application of an import. The peer's state extends the one of \<open>RemoteFavorites\<close>, whose \<open>_save\<close> the
  code shares. A description negotiates the limits of the transport, so the peer is part of the state; two
  descriptions of the same content are told apart by a serial number, as the code tells objects apart.
\<close>

section \<open>Recovery records\<close>

definition gr_record_errors :: "exn \<Rightarrow> bool" where
  "gr_record_errors e \<longleftrightarrow> e = KeyError \<or> e = TypeError \<or> is_ValueError e"

definition global_record :: "json \<Rightarrow> json result" where
  "global_record v = rethrow gr_record_errors (remote ''invalid_context'')
     (bindR (check ValueError (is_dict v \<and> same_keys v [''version'', ''operation_id'', ''context''])) (\<lambda>_.
      bindR (check ValueError (fld v ''version'' = JInt 1)) (\<lambda>_.
      bindR (gp_restore_context (Parsed (fld v ''context''))) (\<lambda>c.
      bindR (gp_export_context c) (\<lambda>checked.
      on checked ''preview'' (\<lambda>p.
      bindR (check ValueError (p \<noteq> JNull)) (\<lambda>_.
      bindR (on p ''data'' (\<lambda>d. on d ''ready'' (\<lambda>r. check ValueError (truthy r)))) (\<lambda>_.
      bindR (on checked ''begin'' (\<lambda>b. on b ''request'' (\<lambda>q. on q ''operation_id'' (\<lambda>op.
        check ValueError (py_eq op (fld v ''operation_id'')))))) (\<lambda>_.
      bindR (check ValueError (py_eq checked (fld v ''context''))) (\<lambda>_. Inr v))))))))))"

definition global_restore :: "json \<Rightarrow> gp_context result" where
  "global_restore v = bindR (global_record v) (\<lambda>r. gp_restore_context (Parsed (fld r ''context'')))"

section \<open>The adapter\<close>

record global_snapshot =
  gn_target :: "pystr \<times> pystr \<times> pystr"
  gn_serial :: nat
  gn_description :: gp_result
  gn_raw :: bytes

record global_preview =
  gv_operation :: json
  gv_ready :: json
  gv_cleanup :: string
  gv_data :: json

record global_state = favs_state +
  gs_peer :: peer
  gs_description :: "nat option"
  gs_serial :: nat

text \<open>\<open>ga_saves\<close>: \<open>save_context\<close> is callable.\<close>

record global_adapter =
  ga_tables :: unicode_tables
  ga_saves :: bool

definition global_protocol :: "unicode_tables \<Rightarrow> (gp_result, gp_context) protocol" where
  "global_protocol tables = \<lparr>pt_action = GP_ACTION, pt_request = (\<lambda>v. gp_validate_request (Parsed v) None),
     pt_response = (\<lambda>ps b rid ctx m. gp_validate_response tables (Parsed ps) (Raw b) rid ctx m None None),
     pt_status = gr_status, pt_error = is_GlobalProtocolError\<rparr>"

definition open_global :: "json \<Rightarrow> json \<Rightarrow> json \<Rightarrow> json \<Rightarrow> (wire_state, peer) io" where
  "open_global device runtime timeout deadline =
     open_transport device runtime (JInt 16384) (JInt GP_RESPONSE_BYTES) timeout (JInt GP_METADATA_BYTES) deadline
       (Some [''describe'', ''export'', ''begin'', ''append'', ''preview'', ''commit'', ''status'', ''abort''])"

text \<open>\<open>StatusReader\<close>: the same transport, restricted afterwards.\<close>

definition open_global_reader :: "json \<Rightarrow> json \<Rightarrow> json \<Rightarrow> json \<Rightarrow> (wire_state, peer) io" where
  "open_global_reader device runtime timeout deadline =
     bindS (open_global device runtime timeout deadline) (\<lambda>pr. returnS (pr\<lparr>pr_allowed := Some [''status'']\<rparr>))"

definition global_rpc :: "global_adapter \<Rightarrow> json \<Rightarrow> gp_context option \<Rightarrow> rat \<Rightarrow> (global_state, gp_result) io" where
  "global_rpc cfg params ctx deadline st =
     (case rpc (global_protocol (ga_tables cfg)) (gs_peer st) params ctx deadline (fs_wire st) of
        (r, w) \<Rightarrow> (r, st\<lparr>fs_wire := w, fs_log := Asked params # fs_log st\<rparr>))"

definition global_request :: "global_state \<Rightarrow> string \<Rightarrow> (pystr \<times> json) list \<Rightarrow> json" where
  "global_request st op kv = JObj ([(u ''op'', lit op), (u ''runtime'', JStr (pr_runtime (gs_peer st)))] @ kv)"

definition global_ask ::
  "global_adapter \<Rightarrow> string \<Rightarrow> (pystr \<times> json) list \<Rightarrow> gp_context option \<Rightarrow> rat \<Rightarrow> (global_state, gp_result) io" where
  "global_ask cfg op kv ctx deadline st = global_rpc cfg (global_request st op kv) ctx deadline st"

definition global_clock :: "(global_state, rat) io" where
  "global_clock = favs_clock"

lemma global_ask_shorter:
  "global_ask cfg op kv ctx deadline st = (Inr x, st') \<Longrightarrow> length (ws_clock (fs_wire st')) < length (ws_clock (fs_wire st))"
  by (auto simp: global_ask_def global_rpc_def dest: rpc_shorter split: prod.splits)

definition gr_field :: "gp_result \<Rightarrow> string \<Rightarrow> json result" where
  "gr_field r k = bindR (gr_data_of r) (\<lambda>d. on d k Inr)"

definition gr_rid :: "gp_result \<Rightarrow> pystr option" where
  "gr_rid r = Some (str_of (gr_request_id r))"

text \<open>The code's \<open>_protocol\<close> errors are those of the global protocol here.\<close>

definition global_failure :: "exn \<Rightarrow> (string \<times> pystr option) option" where
  "global_failure e = (case e of RemoteError code rid _ _ \<Rightarrow> Some (code, rid)
     | GlobalProtocolError _ \<Rightarrow> Some (''invalid_response'', None) | _ \<Rightarrow> None)"

section \<open>Describing and exporting\<close>

definition negotiate :: "int \<Rightarrow> int \<Rightarrow> global_state \<Rightarrow> global_state" where
  "negotiate envelope metadata st =
     st\<lparr>gs_peer := (gs_peer st)\<lparr>pr_envelope_limit := envelope, pr_metadata := metadata\<rparr>\<rparr>"

text \<open>The description and its serial number.\<close>

definition describe :: "global_adapter \<Rightarrow> rat option \<Rightarrow> (global_state, nat \<times> gp_result) io" where
  "describe cfg until =
     bindS (getS (\<lambda>st. case until of None \<Rightarrow> fs_deadline st | Some d \<Rightarrow> min (fs_deadline st) d)) (\<lambda>deadline.
     bindS (global_ask cfg ''describe'' [] None deadline) (\<lambda>r.
     bindS (getS gs_serial) (\<lambda>n.
     bindS (modS (\<lambda>st. st\<lparr>gs_description := Some n, gs_serial := Suc n\<rparr>)) (\<lambda>_.
     bindS (liftS (bindR (gr_field r ''limits'') (\<lambda>l. on l ''max_envelope_bytes'' (\<lambda>e. on l ''max_metadata_bytes'' (\<lambda>m. Inr (int_of e, int_of m)))))) (\<lambda>(e, m).
     bindS (modS (negotiate e m)) (\<lambda>_. returnS (n, r)))))))"

text \<open>One page against the description, and the next offset.\<close>

definition page_agrees :: "json \<Rightarrow> json \<Rightarrow> gp_result \<Rightarrow> int result" where
  "page_agrees described descriptor r = bindR (gr_data_of r) (\<lambda>d.
     bindR (check (remote ''invalid_response'')
       (py_eq (fld d ''revision'') (fld described ''revision'')
        \<and> py_eq (fld d ''document_sha256'') (fld descriptor ''document_sha256'')
        \<and> py_eq (fld d ''size_bytes'') (fld descriptor ''size_bytes''))) (\<lambda>_.
     on d ''next_offset'' (\<lambda>n. Inr (int_of n))))"

definition export_request :: "json \<Rightarrow> json \<Rightarrow> int \<Rightarrow> (pystr \<times> json) list" where
  "export_request descriptor lims at_offset =
     [(u ''snapshot_id'', fld descriptor ''snapshot_id''), (u ''offset'', JInt at_offset),
      (u ''max_bytes'', fld lims ''max_export_bytes'')]"

function export_pages :: "global_adapter \<Rightarrow> json \<Rightarrow> json \<Rightarrow> int \<Rightarrow> gp_result list \<Rightarrow> global_state
    \<Rightarrow> gp_result list result \<times> global_state" where
  "export_pages cfg described descriptor at_offset pages st =
     (if at_offset < int_of (fld descriptor ''size_bytes'') then
        (case global_ask cfg ''export'' (export_request descriptor (fld described ''limits'') at_offset) None (fs_deadline st) st of
           (Inl e, s1) \<Rightarrow> (Inl e, s1)
         | (Inr r, s1) \<Rightarrow> (case page_agrees described descriptor r of Inl e \<Rightarrow> (Inl e, s1)
             | Inr n \<Rightarrow> export_pages cfg described descriptor n (pages @ [r]) s1))
      else (Inr pages, st))"
  by pat_completeness auto
termination
  by (relation "measure (\<lambda>(_, _, _, _, _, st). length (ws_clock (fs_wire st)))") (auto dest!: global_ask_shorter [OF sym])

declare export_pages.simps [simp del]

definition exported_bytes :: "gp_result \<Rightarrow> json \<Rightarrow> gp_result list \<Rightarrow> bytes result" where
  "exported_bytes description descriptor pages =
     rethrow gr_record_errors (remote ''invalid_response'')
       (bindR (assemble_export description pages) (\<lambda>x.
        bindR (bindR (loads_bytes (raw_export x)) g_canonical) (\<lambda>raw.
        bindR (check ValueError (plen raw = int_of (fld descriptor ''size_bytes'')
          \<and> py_eq (JStr (sha256_hex raw)) (fld descriptor ''document_sha256''))) (\<lambda>_. Inr raw))))"

definition export :: "global_adapter \<Rightarrow> (global_state, global_snapshot) io" where
  "export cfg =
     bindS (describe cfg None) (\<lambda>(n, description).
     bindS (liftS (gr_data_of description)) (\<lambda>d.
     bindS (liftS (on d ''export'' (\<lambda>x. bindR (check (remote ''not_ready'') (x \<noteq> JNull)) (\<lambda>_. Inr x)))) (\<lambda>descriptor.
     bindS (export_pages cfg d descriptor 0 []) (\<lambda>pages.
     bindS (liftS (exported_bytes description descriptor pages)) (\<lambda>raw.
     bindS (getS gs_peer) (\<lambda>pr.
       returnS \<lparr>gn_target = pr_target pr, gn_serial = n, gn_description = description, gn_raw = raw\<rparr>))))))"

section \<open>Staging an import\<close>

text \<open>\<open>Snapshot.document\<close>.\<close>

definition snapshot_document :: "global_snapshot \<Rightarrow> json result" where
  "snapshot_document sn = load_document (gn_raw sn)"

definition import_fits :: "json \<Rightarrow> json \<Rightarrow> bytes \<Rightarrow> merge_plan \<Rightarrow> bool result" where
  "import_fits info incoming raw pl =
     (let lims = fld info ''limits''; top = int_of (fld lims ''max_document_bytes''); rows = int_of (fld lims ''max_entries'') in
      if \<not> can_commit pl \<or> top < plen raw then Inr False else
      bindR (g_canonical (merged pl)) (\<lambda>res.
      if top < plen res \<or> rows < plen (g_entries incoming) \<or> rows < plen (g_entries (merged pl)) then Inr False else
      bindR (supports incoming (fld info ''locator_kinds'')) (\<lambda>a.
      if \<not> a then Inr False else supports (merged pl) (fld info ''locator_kinds''))))"

definition global_append :: "peer \<Rightarrow> chunk \<Rightarrow> json \<Rightarrow> json" where
  "global_append pr c tx = JObj
     [(u ''op'', lit ''append''), (u ''runtime'', JStr (pr_runtime pr)), (u ''transaction_id'', tx), (u ''seq'', JInt (seq c)),
      (u ''offset'', JInt (offset c)), (u ''chunk_sha256'', JStr (sha256 (payload c))),
      (u ''data_base64'', JStr (data_base64 (payload c)))]"

definition import_chunks :: "peer \<Rightarrow> json \<Rightarrow> bytes \<Rightarrow> transfer_plan result" where
  "import_chunks pr lims raw =
     pack_document raw (\<lambda>c. request_envelopes GP_ACTION (global_append pr c PLACEHOLDER_TRANSACTION) None)
       (int_of (fld lims ''max_append_bytes'')) (int_of (fld lims ''max_envelope_bytes''))
       (int_of (fld lims ''max_document_bytes'')) (int_of (fld lims ''max_chunks''))"

text \<open>The budget counts every preview page, the begin, the terminal operation and a description to come.\<close>

definition import_budget :: "json \<Rightarrow> int \<Rightarrow> int \<Rightarrow> bool \<Rightarrow> bool \<Rightarrow> budget result" where
  "import_budget lims n rows commit refresh =
     (let pages = max 1 (- ((- rows) div int_of (fld lims ''max_preview_rows'')));
          controls = 1 + (if refresh then 1 else 0) + pages + (if commit then 2 else 1);
          total = JInt ((n + controls) * 3)
      in estimate_budget (JInt n) (JInt controls) total total (JFloat (FFin False 10 0)) (JFloat (FFin False 2 0)) 240 120)"

definition import_error :: "exn \<Rightarrow> exn" where
  "import_error e = (case e of
     TransferError code \<Rightarrow> remote (if code = ''deadline_insufficient'' \<or> code = ''invalid_budget'' then ''deadline_insufficient'' else ''invalid_document'')
   | RemoteError _ _ _ _ \<Rightarrow> e
   | _ \<Rightarrow> if e = TypeError \<or> e = OverflowError \<or> is_ValueError e then remote ''invalid_document'' else e)"

definition import_begin :: "peer \<Rightarrow> json \<Rightarrow> pystr \<Rightarrow> bytes \<Rightarrow> transfer_plan \<Rightarrow> int \<Rightarrow> pystr list \<Rightarrow> json" where
  "import_begin pr info mode raw packed budget_ms kinds = JObj
     [(u ''op'', lit ''begin''), (u ''runtime'', JStr (pr_runtime pr)),
      (u ''operation_id'', fld (fld info ''admission'') ''operation_id''), (u ''mode'', JStr mode),
      (u ''expected_revision'', fld info ''revision''), (u ''expected_context_revision'', fld info ''context_revision''),
      (u ''document_sha256'', JStr (plan_sha256 packed)), (u ''size_bytes'', JInt (plen raw)),
      (u ''chunk_count'', JInt (plen (chunks packed))), (u ''budget_ms'', JInt budget_ms),
      (u ''required_kinds'', JArr (map JStr kinds))]"

definition import_preflight :: "global_adapter \<Rightarrow> global_snapshot option \<Rightarrow> json \<Rightarrow> pystr \<Rightarrow> bool \<Rightarrow> bool
    \<Rightarrow> (global_state, json \<times> transfer_plan \<times> merge_plan) io" where
  "import_preflight cfg sn incoming mode commit refresh =
     bindS (getS fs_started) (\<lambda>started.
     bindS (checkS (remote ''already_started'') (\<not> started)) (\<lambda>_.
     bindS (getS (\<lambda>st. case sn of None \<Rightarrow> False
       | Some s \<Rightarrow> gn_target s = pr_target (gs_peer st) \<and> gs_description st = Some (gn_serial s))) (\<lambda>own.
     bindS (checkS (remote ''invalid_snapshot'') own) (\<lambda>_.
     bindS (liftS (gr_data_of (gn_description (the sn)))) (\<lambda>info.
     bindS (checkS (remote ''not_ready'') (truthy (fld info ''write_ready'') \<and> (commit \<longrightarrow> ga_saves cfg))) (\<lambda>_.
     let lims = fld info ''limits'' in
     catchS
       (bindS (liftS (g_validate incoming)) (\<lambda>doc.
        bindS (liftS (g_canonical doc)) (\<lambda>raw.
        bindS (liftS (bindR (snapshot_document (the sn)) (\<lambda>now. g_plan now [doc] mode))) (\<lambda>pl.
        bindS (liftS (import_fits info doc raw pl)) (\<lambda>fits.
        bindS (checkS (remote ''invalid_document'') fits) (\<lambda>_.
        bindS (getS gs_peer) (\<lambda>pr.
        bindS (liftS (import_chunks pr lims raw)) (\<lambda>packed.
        bindS (liftS (import_budget lims (plen (chunks packed)) (plen (g_entries (merged pl))) commit refresh)) (\<lambda>b.
        bindS (getS fs_deadline) (\<lambda>deadline.
        bindS global_clock (\<lambda>t.
        bindS (liftS (bindR (check invalid_budget (0 \<le> deadline)) (\<lambda>_. budget_left b deadline t))) (\<lambda>_.
        bindS (checkS (remote ''deadline_insufficient'')
          (bg_minimum b \<le> of_int (int_of (fld lims ''absolute_ttl_seconds'')) \<and> 2 \<le> int_of (fld lims ''idle_ttl_seconds''))) (\<lambda>_.
        bindS global_clock (\<lambda>t'.
        bindS (liftS (required_kinds doc)) (\<lambda>kinds.
        bindS (liftS (request_params (global_protocol (ga_tables cfg)) pr (import_begin pr info mode raw packed
          (truncated (min (deadline - t') (of_int (int_of (fld lims ''absolute_ttl_seconds''))) * 1000)) kinds))) (\<lambda>begun.
        bindS (liftS (gp_begin_negotiation (Parsed begun) (Some (gn_description (the sn))))) (\<lambda>_.
          returnS (begun, packed, pl))))))))))))))))))
       (\<lambda>e. raiseS (import_error e))))))))"

definition global_abort :: "global_adapter \<Rightarrow> json \<Rightarrow> json \<Rightarrow> (global_state, string) io" where
  "global_abort cfg op tx =
     (if tx = JNull then returnS ''unconfirmed'' else
      on_remote
        (bindS (getS fs_deadline) (\<lambda>deadline.
         bindS (global_ask cfg ''abort'' [(u ''operation_id'', op), (u ''transaction_id'', tx)] None deadline) (\<lambda>_.
           returnS ''aborted'')))
        (\<lambda>_ _. returnS ''unconfirmed''))"

text \<open>The description asked again right before the import, against the one of the snapshot.\<close>

definition same_export :: "json \<Rightarrow> json \<Rightarrow> bool result" where
  "same_export previous current =
     (if \<not> (py_eq (fld current ''revision'') (fld previous ''revision'')
         \<and> py_eq (fld current ''context_revision'') (fld previous ''context_revision''))
         \<or> fld current ''export'' = JNull then Inr False
      else let now = fld current ''export''; old = fld previous ''export'' in
        bindR (check TypeError (old \<noteq> JNull)) (\<lambda>_.
          Inr (list_all (\<lambda>k. py_eq (fld now k) (fld old k)) [''document_sha256'', ''size_bytes'', ''entries''])))"

definition refreshed :: "global_adapter \<Rightarrow> global_snapshot \<Rightarrow> rat \<Rightarrow> (global_state, global_snapshot \<times> json) io" where
  "refreshed cfg sn until =
     bindS (describe cfg (Some until)) (\<lambda>(n, fresh).
     bindS (liftS (gr_data_of (gn_description sn))) (\<lambda>previous.
     bindS (liftS (gr_data_of fresh)) (\<lambda>current.
     bindS (liftS (bindR (same_export previous current) (check (remote ''invalid_snapshot'')))) (\<lambda>_.
     bindS (getS gs_peer) (\<lambda>pr.
       returnS (\<lparr>gn_target = pr_target pr, gn_serial = n, gn_description = fresh, gn_raw = gn_raw sn\<rparr>, current))))))"

definition append_all :: "global_adapter \<Rightarrow> json \<Rightarrow> json \<Rightarrow> rat \<Rightarrow> packed_chunk list \<Rightarrow> (global_state, unit) io" where
  "append_all cfg op tx until = forS (\<lambda>p.
     bindS (getS gs_peer) (\<lambda>pr.
     bindS (global_rpc cfg (global_append pr (chunk_of p) tx) None until) (\<lambda>r.
     bindS (liftS (gr_data_of r)) (\<lambda>d.
       checkS (remote ''invalid_response'') (py_eq (fld d ''operation_id'') op \<and> \<not> truthy (fld d ''duplicate''))))))"

text \<open>The counts and the digest that every preview page must show.\<close>

definition expected_counts :: "merge_summary \<Rightarrow> json" where
  "expected_counts s = JObj (map (\<lambda>(k, n). (u k, JInt (int n)))
     [(''before'', n_before s), (''after'', n_after s), (''added'', n_added s), (''removed'', n_removed s),
      (''retained'', n_retained s), (''moved'', n_moved s), (''updated'', n_title_changes s),
      (''duplicates_skipped'', n_skipped s)])"

definition expected_result :: "merge_plan \<Rightarrow> (json \<times> json) result" where
  "expected_result pl = bindR (g_canonical (merged pl)) (\<lambda>raw.
     Inr (expected_counts (summary pl), JStr (sha256_hex raw)))"

text \<open>One page: the context (retained from the first page), and the next offset if there is one.\<close>

definition preview_step :: "json \<times> json \<Rightarrow> gp_result \<Rightarrow> gp_context option \<Rightarrow> gp_result list \<Rightarrow> gp_result
    \<Rightarrow> (gp_context option \<times> json) result" where
  "preview_step expected begun ctx previews p =
     bindR (if previews = [] then bindR (gp_retain_context begun (Some p)) (\<lambda>c. Inr (Some c)) else Inr ctx) (\<lambda>ctx'.
     bindR (gr_data_of p) (\<lambda>d.
     bindR (check (remote ''invalid_response'')
       (py_eq (fld d ''counts'') (fst expected) \<and> py_eq (fld d ''result_document_sha256'') (snd expected))) (\<lambda>_.
     on d ''next_offset'' (\<lambda>n. Inr (ctx', n)))))"

function preview_pages :: "global_adapter \<Rightarrow> json \<times> json \<Rightarrow> gp_result \<Rightarrow> json \<Rightarrow> json \<Rightarrow> rat \<Rightarrow> json \<Rightarrow> gp_context option
    \<Rightarrow> gp_result list \<Rightarrow> global_state \<Rightarrow> (gp_context option \<times> gp_result list) result \<times> global_state" where
  "preview_pages cfg expected begun tx rows until at_offset ctx previews st =
     (case global_ask cfg ''preview'' [(u ''transaction_id'', tx), (u ''page_offset'', at_offset), (u ''max_entries'', rows)] ctx until st of
        (Inl e, s1) \<Rightarrow> (Inl e, s1)
      | (Inr p, s1) \<Rightarrow> (case preview_step expected begun ctx previews p of
          Inl e \<Rightarrow> (Inl e, s1)
        | Inr (ctx', n) \<Rightarrow>
            if n = JNull then (Inr (ctx', previews @ [p]), s1)
            else preview_pages cfg expected begun tx rows until n ctx' (previews @ [p]) s1))"
  by pat_completeness auto
termination
  by (relation "measure (\<lambda>(_, _, _, _, _, _, _, _, _, st). length (ws_clock (fs_wire st)))") (auto dest!: global_ask_shorter [OF sym])

declare preview_pages.simps [simp del]

definition conflicts_agree :: "gp_context option \<Rightarrow> gp_result list \<Rightarrow> json \<Rightarrow> merge_plan \<Rightarrow> gp_context result" where
  "conflicts_agree ctx previews incoming pl = (case ctx of None \<Rightarrow> Inl gp_mismatch | Some c \<Rightarrow>
     bindR (validate_preview_pages c previews) (\<lambda>rows.
     bindR (validate_metadata_conflicts rows incoming (merged pl)) (\<lambda>_. Inr c)))"

text \<open>What follows the second preflight: begin, the chunks, and every page of the preview.\<close>

definition import_transfer :: "global_adapter \<Rightarrow> json \<Rightarrow> transfer_plan \<Rightarrow> merge_plan \<Rightarrow> json \<Rightarrow> json \<Rightarrow> rat \<Rightarrow> rat
    \<Rightarrow> (global_state, gp_result \<times> gp_result \<times> gp_context) io" where
  "import_transfer cfg q packed pl incoming current refreshed_at until =
     bindS (modS (\<lambda>st. st\<lparr>fs_started := True\<rparr>)) (\<lambda>_.
     bindS (liftS (on q ''operation_id'' Inr)) (\<lambda>op.
     bindS (modS (\<lambda>st. st\<lparr>fs_operation := op\<rparr>)) (\<lambda>_.
     bindS (global_rpc cfg q None (min until (refreshed_at + of_int (int_of (fld (fld current ''admission'') ''ttl_ms'')) / 1000))) (\<lambda>begun.
     bindS (liftS (gr_field begun ''transaction_id'')) (\<lambda>tx.
     bindS (modS (\<lambda>st. st\<lparr>fs_transaction := tx\<rparr>)) (\<lambda>_.
     bindS (append_all cfg op tx until (chunks packed)) (\<lambda>_.
     bindS (liftS (expected_result pl)) (\<lambda>expected.
     bindS (preview_pages cfg expected begun tx (fld (fld current ''limits'') ''max_preview_rows'') until (JInt 0) None []) (\<lambda>(ctx, previews).
     bindS (liftS (conflicts_agree ctx previews incoming pl)) (\<lambda>c.
       returnS (begun, hd previews, c)))))))))))"

definition import_plan :: "global_adapter \<Rightarrow> global_snapshot \<Rightarrow> json \<Rightarrow> pystr \<Rightarrow> bool \<Rightarrow> rat
    \<Rightarrow> (global_state, gp_result \<times> gp_result \<times> gp_context) io" where
  "import_plan cfg sn incoming mode commit until =
     bindS global_clock (\<lambda>refreshed_at.
     bindS (refreshed cfg sn until) (\<lambda>(fresh, current).
     bindS (import_preflight cfg (Some fresh) incoming mode commit False) (\<lambda>(q, packed, pl).
       import_transfer cfg q packed pl incoming current refreshed_at until)))"

definition import_given_up :: "global_adapter \<Rightarrow> json \<Rightarrow> json \<Rightarrow> string \<Rightarrow> pystr option \<Rightarrow> (global_state, gp_result outcome) io" where
  "import_given_up cfg op tx why rid =
     bindS (global_abort cfg op tx) (\<lambda>cleanup. returnS ((observed op ''not_applied'' False why rid)\<lparr>oc_cleanup := cleanup\<rparr>))"

definition import_stage :: "global_adapter \<Rightarrow> global_snapshot option \<Rightarrow> json \<Rightarrow> pystr \<Rightarrow> bool
    \<Rightarrow> (global_state, gp_result outcome + gp_result \<times> gp_result \<times> gp_context) io" where
  "import_stage cfg sn incoming mode commit =
     bindS (import_preflight cfg sn incoming mode commit True) (\<lambda>_.
     bindS (modS (\<lambda>st. st\<lparr>fs_operation := JNull, fs_transaction := JNull\<rparr>)) (\<lambda>_.
     bindS (getS (\<lambda>st. fs_deadline st - RECONCILE_RESERVE - (if commit then POST_INTERVAL else 0))) (\<lambda>until.
       catchS
         (bindS (import_plan cfg (the sn) incoming mode commit until) (\<lambda>k. returnS (Inr k)))
         (\<lambda>e. case global_failure e of None \<Rightarrow> raiseS e
            | Some (why, rid) \<Rightarrow> bindS (getS fs_operation) (\<lambda>op. bindS (getS fs_transaction) (\<lambda>tx.
                bindS (import_given_up cfg op tx why rid) (\<lambda>k. returnS (Inl k))))))))"

section \<open>Previewing, applying and reconciling\<close>

definition begun_ids :: "gp_result \<Rightarrow> (json \<times> json) result" where
  "begun_ids begun = bindR (bindR (gr_request_of begun) (\<lambda>q. on q ''operation_id'' Inr)) (\<lambda>op.
     bindR (gr_field begun ''transaction_id'') (\<lambda>tx. Inr (op, tx)))"

definition import_preview :: "global_adapter \<Rightarrow> global_snapshot option \<Rightarrow> json \<Rightarrow> pystr
    \<Rightarrow> (global_state, gp_result outcome + global_preview) io" where
  "import_preview cfg sn incoming mode =
     bindS (import_stage cfg sn incoming mode False) (\<lambda>staged. case staged of
       Inl k \<Rightarrow> returnS (Inl k)
     | Inr (begun, preview, _) \<Rightarrow>
         bindS (liftS (begun_ids begun)) (\<lambda>(op, tx).
         bindS (liftS (gr_data_of preview)) (\<lambda>d.
         bindS (liftS (on d ''ready'' Inr)) (\<lambda>ready.
         bindS (global_abort cfg op tx) (\<lambda>cleanup.
           returnS (Inr \<lparr>gv_operation = op, gv_ready = ready, gv_cleanup = cleanup, gv_data = d\<rparr>))))))"

text \<open>The words of an outcome, as text of the closed set of the protocol.\<close>

definition global_outcome :: "json \<Rightarrow> gp_result \<Rightarrow> gp_result outcome result" where
  "global_outcome op r =
     (if gr_verified r
      then Inr ((observed op ''verified'' True ''verified_receipt'' (gr_rid r))\<lparr>oc_result := Some r\<rparr>)
      else bindR (gr_field r ''outcome'') (\<lambda>w. let word = map char_of (str_of w) in
        Inr ((observed op word False (''observed_'' @ word) (gr_rid r))\<lparr>oc_result := Some r\<rparr>)))"

definition global_reconcile :: "global_adapter \<Rightarrow> json \<Rightarrow> (global_state, gp_result outcome) io" where
  "global_reconcile cfg record =
     bindS (liftS (global_record record)) (\<lambda>rec.
     bindS (liftS (on rec ''operation_id'' Inr)) (\<lambda>op.
       catchS
         (bindS (getS fs_deadline) (\<lambda>deadline.
          bindS (liftS (global_restore rec)) (\<lambda>ctx.
          bindS (global_ask cfg ''status'' [(u ''operation_id'', op)] (Some ctx) deadline) (\<lambda>r.
            liftS (global_outcome op r)))))
         (\<lambda>e. case e of
            RemoteError code rid _ _ \<Rightarrow> returnS (observed op ''unknown'' False code rid)
          | GlobalProtocolError _ \<Rightarrow> returnS (observed op ''unknown'' False ''invalid_context'' None)
          | _ \<Rightarrow> raiseS e)))"

text \<open>The two parts of \<open>apply\<close>: the saved evidence, then the one commit.\<close>

definition import_record :: "json \<Rightarrow> gp_context \<Rightarrow> json result" where
  "import_record op ctx = bindR (gp_export_context ctx) (\<lambda>c.
     global_record (JObj [(u ''version'', JInt 1), (u ''operation_id'', op), (u ''context'', c)]))"

definition import_retain :: "gp_result \<Rightarrow> gp_context \<Rightarrow> json \<Rightarrow> (global_state, json) io" where
  "import_retain preview ctx op =
     bindS (liftS (gr_field preview ''ready'')) (\<lambda>ready.
     bindS (checkS (remote ''not_ready'') (truthy ready)) (\<lambda>_.
     bindS (liftS (import_record op ctx)) (\<lambda>record.
     bindS (getS (\<lambda>st. fs_deadline st - RECONCILE_RESERVE)) (\<lambda>until.
     bindS (save record until) (\<lambda>_. returnS record)))))"

definition import_commit :: "global_adapter \<Rightarrow> json \<Rightarrow> json \<Rightarrow> gp_result \<Rightarrow> gp_context \<Rightarrow> json \<Rightarrow> (global_state, gp_result outcome) io" where
  "import_commit cfg op tx preview ctx record =
     bindS (on_remote
        (bindS (liftS (gr_field preview ''plan_digest'')) (\<lambda>plan.
         bindS (getS (\<lambda>st. fs_deadline st - RECONCILE_RESERVE)) (\<lambda>until.
         bindS (global_ask cfg ''commit'' [(u ''transaction_id'', tx), (u ''operation_id'', op), (u ''plan_digest'', plan)] (Some ctx) until) (\<lambda>r.
           returnS (if gr_verified r then Some r else None)))))
        (\<lambda>_ _. returnS None)) (\<lambda>done'. case done' of
          Some r \<Rightarrow> returnS ((observed op ''verified'' True ''verified_receipt'' (gr_rid r))\<lparr>oc_result := Some r\<rparr>)
        | None \<Rightarrow> global_reconcile cfg record)"

definition import_apply :: "global_adapter \<Rightarrow> global_snapshot option \<Rightarrow> json \<Rightarrow> pystr \<Rightarrow> (global_state, gp_result outcome) io" where
  "import_apply cfg sn incoming mode =
     bindS (import_stage cfg sn incoming mode True) (\<lambda>staged. case staged of
       Inl k \<Rightarrow> returnS k
     | Inr (begun, preview, ctx) \<Rightarrow>
         bindS (liftS (begun_ids begun)) (\<lambda>(op, tx).
         bindS (on_remote (bindS (import_retain preview ctx op) (\<lambda>k. returnS (Inr k)))
             (\<lambda>code rid. bindS (import_given_up cfg op tx code None) (\<lambda>k. returnS (Inl k)))) (\<lambda>kept.
           case kept of Inl k \<Rightarrow> returnS k | Inr record \<Rightarrow> import_commit cfg op tx preview ctx record)))"

end
