(* ===== verification/RemoteGlobalLaws.thy ===== *)
theory RemoteGlobalLaws
  imports RemoteGlobal RemoteFavoritesProps GlobalProtocolLaws
begin

text \<open>
  What the operations of \<open>RemoteGlobalFavorites\<close> keep, up to the commit: a locale over an invariant of the
  peer's state, interpreted on the log, which then holds no commit, on the pacing of the HTTP calls, and on
  the target, which no negotiation changes.
\<close>

section \<open>Requests that are not commits\<close>

lemma global_request_commit: "is_commit (global_request st k kv) \<longleftrightarrow> u k = u ''commit''"
  by (simp add: is_commit_def global_request_def lit_def)

lemma global_append_commit: "\<not> is_commit (global_append pr c tx)"
  by (simp add: is_commit_def global_append_def lit_def u_def)

lemma global_other_ops:
  "u ''describe'' \<noteq> u ''commit''" "u ''export'' \<noteq> u ''commit''" "u ''abort'' \<noteq> u ''commit''"
  "u ''preview'' \<noteq> u ''commit''" "u ''status'' \<noteq> u ''commit''"
  by (simp_all add: u_def)

text \<open>Negotiating a validated request again gives the same request, which is a begin.\<close>

lemma negotiated_begin:
  assumes "gp_validate_request (Parsed x) None = Inr q" "gp_begin_negotiation (Parsed q) d = Inr v"
  shows "v = q \<and> is_lit (fld q ''op'') ''begin''"
proof -
  have q: "\<exists>b. gp_encoded q = Inr b \<and> loads_bytes b = Inr q"
    using assms(1) by (intro gp_plain_request_ok) (simp add: gp_validate_request_def ok_iff)
  have v: "gp_plain_request (Parsed q) = Inr v \<and> is_lit (fld v ''op'') ''begin''"
    using assms(2) by (auto simp: gp_begin_negotiation_def gp_validate_request_def gp_match_def ok_iff split: option.splits)
  then obtain raw where "gp_object (Parsed q) GP_ENVELOPE_BYTES = Inr (v, raw)"
    by (auto simp: gp_plain_request_def ok_iff)
  from gp_object_ok(3) [OF this] this have "loads_bytes raw = Inr v" "gp_encoded q = Inr raw"
    by (simp, auto simp: gp_object_def gp_wire_bytes_def ok_iff)
  with q v show ?thesis by auto
qed

lemma import_begin_checked:
  assumes "import_preflight cfg sn incoming mode commit refresh s = (Inr (q, packed, pl), s')"
  shows "\<not> is_commit q"
proof -
  obtain pr x d v where "request_params (global_protocol (ga_tables cfg)) pr x = Inr q" "gp_begin_negotiation (Parsed q) d = Inr v"
    using assms by (auto simp: import_preflight_def Let_def run_iff reraise_run)
  then have "is_lit (fld q ''op'') ''begin''"
    using negotiated_begin [of x q d v] by (auto simp: request_params_def global_protocol_def ok_iff split: option.splits)
  then show ?thesis by (auto simp: is_commit_def is_lit_def u_def)
qed

section \<open>What the operations keep\<close>

locale import_kept =
  fixes I :: "global_state \<Rightarrow> bool" and cfg :: global_adapter
  assumes kept_clock: "keeps I global_clock"
    and kept_rpc: "\<not> is_commit q \<Longrightarrow> keeps I (global_rpc cfg q ctx deadline)"
    and kept_locals: "I st \<Longrightarrow> I (st\<lparr>fs_operation := op\<rparr>)" "I st \<Longrightarrow> I (st\<lparr>fs_transaction := tx\<rparr>)"
      "I st \<Longrightarrow> I (st\<lparr>fs_started := b\<rparr>)" "I st \<Longrightarrow> I (st\<lparr>gs_description := d, gs_serial := n\<rparr>)"
      "I st \<Longrightarrow> I (negotiate e m st)"
begin

lemma kept_ask: "u k \<noteq> u ''commit'' \<Longrightarrow> keeps I (global_ask cfg k kv ctx deadline)"
  using kept_rpc by (simp add: keeps_def global_ask_def global_request_commit)

lemma kept_describe: "keeps I (describe cfg until)"
  unfolding describe_def
  by (auto intro!: keeps_intro kept_ask global_other_ops keeps_modS kept_locals split: prod.split)

lemma kept_pages: "I st \<Longrightarrow> I (snd (export_pages cfg described descriptor at_offset pages st))"
proof (induction cfg\<equiv>cfg described descriptor at_offset pages st rule: export_pages.induct)
  case (1 described descriptor at_offset pages st)
  obtain r s1 where a: "global_ask cfg ''export'' (export_request descriptor (fld described ''limits'') at_offset) None (fs_deadline st) st = (r, s1)"
    by fastforce
  have "I s1" using keepsD [OF kept_ask [OF global_other_ops(2)] a] 1(2) by simp
  then show ?case
    using 1 a by (subst export_pages.simps) (auto split: sum.split)
qed

lemma kept_export: "keeps I (export cfg)"
  unfolding export_def
  by (auto intro!: keeps_intro kept_describe split: prod.split) (simp add: keeps_def kept_pages)

lemma kept_import_preflight: "keeps I (import_preflight cfg sn incoming mode commit refresh)"
  unfolding import_preflight_def Let_def by (intro keeps_intro kept_clock)

lemma kept_global_abort: "keeps I (global_abort cfg op tx)"
  unfolding global_abort_def by (intro keeps_intro kept_ask global_other_ops)

lemma kept_import_given_up: "keeps I (import_given_up cfg op tx why rid)"
  unfolding import_given_up_def by (intro keeps_intro kept_global_abort)

lemma kept_refreshed: "keeps I (refreshed cfg sn until)"
  unfolding refreshed_def by (auto intro!: keeps_intro kept_describe split: prod.split)

lemma kept_append_all: "keeps I (append_all cfg op tx until ps)"
  unfolding append_all_def by (intro keeps_intro kept_rpc global_append_commit)

lemma kept_previews: "I st \<Longrightarrow> I (snd (preview_pages cfg expected begun tx rows until at_offset ctx previews st))"
proof (induction cfg\<equiv>cfg expected begun tx rows until at_offset ctx previews st rule: preview_pages.induct)
  case (1 expected begun tx rows until at_offset ctx previews st)
  obtain r s1 where a: "global_ask cfg ''preview'' [(u ''transaction_id'', tx), (u ''page_offset'', at_offset), (u ''max_entries'', rows)] ctx until st = (r, s1)"
    by fastforce
  have "I s1" using keepsD [OF kept_ask [OF global_other_ops(4)] a] 1(2) by simp
  then show ?case
    using 1 a by (subst preview_pages.simps) (auto split: sum.split prod.split)
qed

lemma kept_import_transfer: "\<not> is_commit q \<Longrightarrow> keeps I (import_transfer cfg q packed pl incoming current t until)"
proof -
  have pages: "keeps I (preview_pages cfg expected begun tx rows until' at_offset ctx previews)"
    for expected begun tx rows until' at_offset ctx previews
    by (simp add: keeps_def kept_previews)
  show "\<not> is_commit q \<Longrightarrow> keeps I (import_transfer cfg q packed pl incoming current t until)"
    unfolding import_transfer_def
    by (auto intro!: keeps_intro keeps_modS kept_locals kept_rpc kept_append_all pages split: prod.split)
qed

lemma kept_import_plan: "keeps I (import_plan cfg sn incoming mode commit until)"
proof -
  have "keeps I (bindS (import_preflight cfg fresh incoming mode commit False) (\<lambda>(q, packed, pl).
      import_transfer cfg q packed pl incoming current t until))" for fresh current t
    by (rule keeps_bind_value [OF kept_import_preflight])
      (auto dest!: import_begin_checked intro!: kept_import_transfer split: prod.split)
  note sent = this
  show ?thesis
    unfolding import_plan_def
    by (intro keeps_bindS kept_clock kept_refreshed) (simp add: sent split: prod.split)
qed

lemma kept_import_stage: "keeps I (import_stage cfg sn incoming mode commit)"
  unfolding import_stage_def
  by (auto intro!: keeps_intro kept_import_preflight kept_import_plan kept_import_given_up keeps_modS kept_locals
      split: option.split)

lemma kept_import_preview: "keeps I (import_preview cfg sn incoming mode)"
  unfolding import_preview_def
  by (auto intro!: keeps_intro kept_import_stage kept_global_abort split: sum.split prod.split)

lemma kept_global_reconcile: "keeps I (global_reconcile cfg record)"
  unfolding global_reconcile_def
  by (auto intro!: keeps_intro kept_ask global_other_ops split: exn.split)

end

end
