(* ===== verification/RemoteGlobalProps.thy ===== *)
theory RemoteGlobalProps
  imports RemoteGlobalLaws
begin

text \<open>
  What \<open>RemoteGlobalFavorites\<close> promises of an import: one commit at most, after the storage has confirmed the
  record of it; paced calls; the target it was opened for.
\<close>

lemma global_clock_log: "global_clock st = (r, st') \<Longrightarrow> fs_log st' = fs_log st"
  by (auto simp: global_clock_def dest: clock_log)

lemma global_rpc_log: "global_rpc cfg q ctx d st = (r, st') \<Longrightarrow> fs_log st' = Asked q # fs_log st"
  by (auto simp: global_rpc_def split: prod.splits)

interpretation import_log: import_kept "logged calm old" cfg for old cfg
proof unfold_locales
  show "keeps (logged calm old) global_clock"
    by (simp add: keeps_def logged_def global_clock_log [OF prod.collapse [symmetric]])
  show "\<not> is_commit q \<Longrightarrow> keeps (logged calm old) (global_rpc cfg q ctx deadline)" for q ctx deadline
    using global_rpc_log [OF prod.collapse [symmetric]] by (auto simp: keeps_def calm_def intro: logged_add)
qed (simp_all add: logged_def negotiate_def)

interpretation import_pacing: import_kept "\<lambda>st. paced (fs_wire st)" cfg for cfg
proof unfold_locales
  show "keeps (\<lambda>st. paced (fs_wire st)) global_clock"
    using paced_now by (auto simp: keeps_def global_clock_def favs_clock_def split: prod.split dest: keepsD)
  show "keeps (\<lambda>st. paced (fs_wire st)) (global_rpc cfg q ctx deadline)" for q ctx deadline
    using keepsD [OF pacing.kept_rpc] by (auto simp: keeps_def global_rpc_def split: prod.split)
qed (simp_all add: negotiate_def)

interpretation import_target: import_kept "\<lambda>st. pr_target (gs_peer st) = t \<and> pr_allowed (gs_peer st) = ops" cfg for t ops cfg
  by unfold_locales (auto simp: keeps_def global_clock_def favs_clock_def global_rpc_def negotiate_def split: prod.split)

section \<open>The commit of an import\<close>

lemma global_outcome_settled: "global_outcome op r = Inr k \<Longrightarrow> settled k"
  by (auto simp: global_outcome_def settled_def ok_iff Let_def split: if_splits)

lemma global_reconcile_settled: "gives settled (global_reconcile cfg doc)"
  unfolding global_reconcile_def
  by (auto intro!: gives_intro split: exn.split dest: global_outcome_settled)

lemma import_commit_settled: "gives settled (import_commit cfg op tx preview ctx doc)"
  unfolding import_commit_def
  by (auto intro!: gives_rules(4) gives_intro global_reconcile_settled simp: settled_def split: option.split)

lemma import_retain_run:
  assumes "import_retain preview ctx op st = (Inr doc, st')"
  shows "fs_log st' = Kept doc # fs_log st" "import_record op ctx = Inr doc"
proof -
  show "import_record op ctx = Inr doc" using assms by (auto simp: import_retain_def run_iff)
  show "fs_log st' = Kept doc # fs_log st"
    using assms by (auto simp: import_retain_def run_iff is_ok_def dest!: save_log)
qed

lemma import_retain_fails:
  assumes "import_retain preview ctx op st = (Inl e, st')"
  shows "logged no_commit (fs_log st) st'"
proof -
  have "fs_log st' = fs_log st \<or> (\<exists>doc. fs_log st' = Kept doc # fs_log st)"
    using assms by (auto simp: import_retain_def bindS_def run_simps split: prod.splits sum.splits dest!: save_log)
  then show ?thesis by (auto simp: logged_def no_commit_def)
qed

text \<open>Either no commit is asked, or the one made of the operation, the transaction and the previewed plan.\<close>

lemma import_commit_log:
  assumes "import_commit cfg op tx preview ctx doc st = (r, st')"
  shows "logged calm (fs_log st) st' \<or>
    (\<exists>q. is_commit q \<and> fld q ''operation_id'' = op \<and> logged calm (Asked q # fs_log st) st')"
proof -
  let ?ask = "bindS (liftS (gr_field preview ''plan_digest'')) (\<lambda>plan.
     bindS (getS (\<lambda>st. fs_deadline st - RECONCILE_RESERVE)) (\<lambda>until.
     bindS (global_ask cfg ''commit'' [(u ''transaction_id'', tx), (u ''operation_id'', op), (u ''plan_digest'', plan)] (Some ctx) until) (\<lambda>r.
       returnS (if gr_verified r then Some r else None))))"
  let ?again = "\<lambda>done'. case done' of
      Some r \<Rightarrow> returnS ((observed op ''verified'' True ''verified_receipt'' (gr_rid r))\<lparr>oc_result := Some r\<rparr>)
    | None \<Rightarrow> global_reconcile cfg doc"
  obtain r1 s1 where o': "on_remote ?ask (\<lambda>_ _. returnS None) st = (r1, s1)" by fastforce
  obtain r2 where m: "?ask st = (r2, s1)" using on_remote_state [OF o'] by blast
  have after: "logged calm old st'" if "logged calm old s1" for old
  proof (cases r1)
    case (Inl e)
    then show ?thesis using assms o' that by (simp add: import_commit_def)
  next
    case (Inr x)
    have kept: "keeps (logged calm old) (?again x)"
      by (auto intro!: keeps_intro import_log.kept_global_reconcile split: option.split)
    have "?again x s1 = (r, st')" using assms o' Inr by (simp add: import_commit_def)
    from keepsD [OF kept this that] show ?thesis .
  qed
  show ?thesis
  proof (cases "gr_field preview ''plan_digest''")
    case (Inl e)
    then have "s1 = st" using m by (simp add: run_simps bindS_def)
    then show ?thesis using after by simp
  next
    case (Inr plan)
    let ?q = "global_request st ''commit'' [(u ''transaction_id'', tx), (u ''operation_id'', op), (u ''plan_digest'', plan)]"
    have "fs_log s1 = Asked ?q # fs_log st"
      using m Inr by (auto simp: run_simps bindS_def global_ask_def split: prod.splits sum.splits dest!: global_rpc_log)
    then have "logged calm (Asked ?q # fs_log st) s1" by (metis logged_refl)
    moreover have "is_commit ?q" by (simp add: global_request_commit)
    moreover have "fld ?q ''operation_id'' = op" by (simp add: global_request_def u_def)
    ultimately show ?thesis using after by blast
  qed
qed

text \<open>The ways an application runs: without a commit, or with the record kept before it.\<close>

lemma apply_cases:
  assumes "import_apply cfg sn incoming mode st = (r, st')"
  obtains (quiet) "logged no_commit (fs_log st) st'"
  | (sent) s1 s2 op tx preview ctx doc where "logged no_commit (fs_log st) s1"
      "import_retain preview ctx op s1 = (Inr doc, s2)" "import_commit cfg op tx preview ctx doc s2 = (r, st')"
proof -
  obtain rs s1 where s: "import_stage cfg sn incoming mode True st = (rs, s1)" by fastforce
  have staged: "logged no_commit (fs_log st) s1"
    using keepsD [OF import_log.kept_import_stage s] by (auto intro: logged_calm)
  show thesis
  proof (cases "\<exists>begun preview ctx op tx. rs = Inr (Inr (begun, preview, ctx)) \<and> begun_ids begun = Inr (op, tx)")
    case False
    then show ?thesis
      using assms s staged quiet
      by (auto simp: import_apply_def bindS_def run_simps split: prod.splits sum.splits)
  next
    case True
    then obtain begun preview ctx op tx where b: "rs = Inr (Inr (begun, preview, ctx))" "begun_ids begun = Inr (op, tx)" by blast
    obtain rk s2 where k: "import_retain preview ctx op s1 = (rk, s2)" by fastforce
    show ?thesis
    proof (cases rk)
      case (Inr doc)
      then show ?thesis
        using assms s b k staged
        by (auto simp: import_apply_def bindS_def run_simps on_remote_def catchS_def intro: sent)
    next
      case (Inl e)
      note failed = logged_trans [OF staged import_retain_fails [OF k [unfolded Inl]]]
      have "st' = s2 \<or> (\<exists>code ro. import_given_up cfg op tx code None s2 = (ro, st'))"
        using assms s b k Inl
        by (auto simp: import_apply_def bindS_def run_simps on_remote_def catchS_def split: exn.splits prod.splits sum.splits)
      moreover have "logged no_commit (fs_log s2) st'" if "import_given_up cfg op tx code None s2 = (ro, st')" for code ro
        using keepsD [OF import_log.kept_import_given_up that] by (auto intro: logged_calm)
      ultimately show ?thesis using failed by (metis logged_trans quiet)
    qed
  qed
qed

text \<open>The record of an import holds the context of the operation that the commit names.\<close>

definition imported_once :: "event list \<Rightarrow> bool" where
  "imported_once = commit_after (\<lambda>commit doc. \<exists>ctx. import_record (fld commit ''operation_id'') ctx = Inr doc)"

text \<open>
  C2: Applying an import asks for a commit at most once. It asks only right after the storage has confirmed
  the recovery record of the operation that the commit names; and once it has asked, an outcome it returns
  either rests on a validated answer of the player or says \<open>unknown\<close>.
\<close>

theorem import_commits_once:
  "case import_apply cfg sn incoming mode st of (r, st') \<Rightarrow> \<exists>new. fs_log st' = new @ fs_log st \<and>
     (list_all no_commit new \<or>
      imported_once new \<and>
        (case r of Inl _ \<Rightarrow> True | Inr k \<Rightarrow> oc_outcome k = ''unknown'' \<or> (\<exists>v. oc_result k = Some v)))"
proof -
  obtain r st' where e: "import_apply cfg sn incoming mode st = (r, st')" by fastforce
  from e show ?thesis
  proof (cases rule: apply_cases)
    case quiet
    then show ?thesis using e by (auto simp: logged_def)
  next
    case (sent s1 s2 op tx preview ctx doc)
    note kept = import_retain_run [OF sent(2)]
    have r: "case r of Inl _ \<Rightarrow> True | Inr k \<Rightarrow> settled k"
      using givesD [OF import_commit_settled, of cfg op tx preview ctx doc s2] sent(3) by (auto split: sum.split)
    consider (none) "logged calm (fs_log s2) st'"
      | (one) q where "is_commit q" "fld q ''operation_id'' = op" "logged calm (Asked q # fs_log s2) st'"
      using import_commit_log [OF sent(3)] by blast
    then show ?thesis
    proof cases
      case none
      have "logged no_commit (fs_log s1) s2" using kept(1) by (auto simp: logged_def no_commit_def)
      then have "logged no_commit (fs_log st) st'"
        using sent(1) logged_calm [OF none] logged_trans by blast
      then show ?thesis using e by (auto simp: logged_def)
    next
      case one
      have "\<exists>new. fs_log st' = new @ fs_log st \<and> imported_once new"
        unfolding imported_once_def
        by (rule logged_to_commit [OF sent(1) kept(1) one(3,1)]) (use kept(2) one(2) in blast)
      then show ?thesis using e r by (auto simp: settled_def split: sum.splits)
    qed
  qed
qed

end
