(* ===== verification/GlobalRecovery.thy ===== *)
theory GlobalRecovery
  imports RemoteFavorites GlobalProtocolResult
begin

text \<open>
  \<open>src/cli/global_favorites_recovery.py\<close>: the recovery ledger of the global favorites. First the protocol,
  inspecting the ledger and acknowledging one uncertain operation of it; then \<open>RecoveryPeer\<close> as operations
  on the state of its transport, the plans it has attempted and its acknowledgement lock. The answers of the
  storage thread and the log of what is asked and kept are those of \<open>RemoteFavorites\<close>.
\<close>

section \<open>Constants\<close>

abbreviation MAX_RECORDS :: int where "MAX_RECORDS \<equiv> 32"
abbreviation PAGE_SIZE :: int where "PAGE_SIZE \<equiv> 16"

definition RV_ACTION :: pystr where
  "RV_ACTION = u ''favorites_global_recovery''"

definition RV_OPS :: "string list" where
  "RV_OPS = [''inspect'', ''acknowledge'']"

definition RV_REASON :: string where
  "RV_REASON = ''accept-unknown-no-replay''"

definition RV_ERRORS :: "string list" where
  "RV_ERRORS = [''invalid_request'', ''envelope_too_large'', ''runtime_changed'', ''expired'', ''busy'',
     ''unsupported_persistence'', ''revision_conflict'', ''context_changed'', ''policy_denied'',
     ''storage_unavailable'', ''limits_exceeded'', ''outcome_unknown'']"

definition RV_COMMON :: "string list" where
  "RV_COMMON = [''version'', ''runtime'', ''op'', ''subject'']"

definition RV_REVISIONS :: "string list" where
  "RV_REVISIONS = [''ledger_revision'', ''store_revision'', ''context_revision'', ''backend_proof'']"

definition INSPECT_META :: "string list" where
  "INSPECT_META = ''ledger_format'' # RV_REVISIONS"

definition RECORD_FIELDS :: "string list" where
  "RECORD_FIELDS = [''operation_id'', ''operation_runtime'', ''subject'', ''original_state'', ''original_outcome'',
     ''original_entry_sha256'', ''acknowledgement'']"

definition AUDIT_FIELDS :: "string list" where
  "AUDIT_FIELDS = [''acknowledgement_id'', ''runtime'', ''ledger_revision_before'', ''store_revision'',
     ''context_revision'', ''backend_proof'', ''reason'']"

definition ACK_FIELDS :: "string list" where
  "ACK_FIELDS = [''runtime'', ''op'', ''subject'', ''operation_id'', ''operation_runtime'', ''original_entry_sha256'',
     ''expected_ledger_revision'', ''expected_store_revision'', ''expected_context_revision'', ''backend_proof'',
     ''reason'', ''acknowledgement_id'', ''after_ledger_sha256'', ''plan_sha256'', ''accept_unknown'']"

section \<open>Digests\<close>

definition rv_digest :: "json list \<Rightarrow> pystr result" where
  "rv_digest vs = bindR (gp_encoded (JArr vs)) (\<lambda>b. Inr (sha256_hex b))"

text \<open>\<open>_ack_digest\<close>: the digest and the values it commits to.\<close>

definition ack_digest ::
  "json \<Rightarrow> json \<Rightarrow> json \<Rightarrow> json \<Rightarrow> json \<Rightarrow> json \<Rightarrow> json \<Rightarrow> json \<Rightarrow> (pystr \<times> json list) result" where
  "ack_digest runtime operation original_runtime entry ledger store ctx backend =
     bindR (seqR
       [gp_pattern runtime runtime_pat, gp_pattern original_runtime runtime_pat, gp_pattern operation uuid4_pat,
        forR (\<lambda>v. gp_pattern v digest_pat) [entry, ledger, store, ctx, backend],
        gp_require (ledger \<noteq> JStr EMPTY_LEDGER_SHA256)]) (\<lambda>_.
     let vs = [runtime, lit ''global'', operation, original_runtime, entry, ledger, store, ctx, backend, lit RV_REASON]
     in bindR (rv_digest (lit ''ottplay-favorites-global-recovery-ack-v1'' # vs)) (\<lambda>ack. Inr (ack, vs)))"

definition ledger_digests ::
  "json \<Rightarrow> json \<Rightarrow> json \<Rightarrow> json \<Rightarrow> json \<Rightarrow> json \<Rightarrow> json \<Rightarrow> json \<Rightarrow> json \<Rightarrow> (pystr \<times> pystr) result" where
  "ledger_digests runtime operation original_runtime entry ledger store ctx backend after' =
     bindR (ack_digest runtime operation original_runtime entry ledger store ctx backend) (\<lambda>(ack, vs).
     bindR (seqR [gp_pattern after' digest_pat, gp_require (after' \<noteq> JStr EMPTY_LEDGER_SHA256 \<and> after' \<noteq> ledger)]) (\<lambda>_.
     bindR (rv_digest (lit ''ottplay-favorites-global-recovery-plan-v1'' # vs @ [JStr ack, after'])) (\<lambda>p.
       Inr (ack, p))))"

definition request_digests :: "json \<Rightarrow> (pystr \<times> pystr) result" where
  "request_digests v =
     ledger_digests (fld v ''runtime'') (fld v ''operation_id'') (fld v ''operation_runtime'') (fld v ''original_entry_sha256'')
       (fld v ''expected_ledger_revision'') (fld v ''expected_store_revision'') (fld v ''expected_context_revision'')
       (fld v ''backend_proof'') (fld v ''after_ledger_sha256'')"

section \<open>Requests\<close>

definition rv_revisions :: "json \<Rightarrow> unit result" where
  "rv_revisions v = seqR
     [forR (\<lambda>k. on v k (\<lambda>x. gp_pattern x digest_pat)) [''ledger_revision'', ''store_revision'', ''context_revision''],
      on v ''backend_proof'' (\<lambda>x. if x = JNull then Inr () else gp_pattern x digest_pat)]"

definition rv_cursor :: "json \<Rightarrow> unit result" where
  "rv_cursor v = seqR
     [gp_shape v (''after_operation_id'' # RV_REVISIONS),
      on v ''after_operation_id'' (\<lambda>x. gp_pattern x uuid4_pat),
      rv_revisions v,
      on v ''ledger_revision'' (\<lambda>x. gp_require (x \<noteq> JStr EMPTY_LEDGER_SHA256))]"

definition rv_request_fields :: "json \<Rightarrow> json \<Rightarrow> unit result" where
  "rv_request_fields op v =
     (if is_lit op ''inspect'' then
        (if has v ''operation_id'' then seqR
           [gp_shape v [''runtime'', ''op'', ''subject'', ''operation_id''],
            on v ''operation_id'' (\<lambda>x. gp_pattern x uuid4_pat)]
         else seqR
           [gp_shape v [''runtime'', ''op'', ''subject'', ''cursor''],
            on v ''cursor'' (\<lambda>c. if c = JNull then Inr () else rv_cursor c)])
      else seqR
        [gp_shape v ACK_FIELDS,
         on v ''reason'' (\<lambda>r. on v ''accept_unknown'' (\<lambda>a. gp_require (is_lit r RV_REASON \<and> a = JBool True))),
         bindR (request_digests v) (\<lambda>(ack, plan). on v ''acknowledgement_id'' (\<lambda>a. on v ''plan_sha256'' (\<lambda>p.
           gp_require (a = JStr ack \<and> p = JStr plan))))])"

definition rv_check_request :: "json \<Rightarrow> unit result" where
  "rv_check_request v = seqR
     [onget v ''runtime'' (\<lambda>x. gp_pattern x runtime_pat),
      onget v ''subject'' (\<lambda>s. onget v ''op'' (\<lambda>op. gp_require (is_lit s ''global'' \<and> is_str op \<and> in_lits op RV_OPS))),
      on v ''op'' (\<lambda>op. rv_request_fields op v)]"

definition rv_validate_request :: "wire \<Rightarrow> json result" where
  "rv_validate_request w =
     bindR (gp_object w GP_ENVELOPE_BYTES) (\<lambda>(v, _).
     bindR (rv_check_request v) (\<lambda>_.
     bindR (rethrow is_TransferError gp_invalid (request_envelopes RV_ACTION v None)) (\<lambda>env.
     bindR (check gp_oversized (gp_envelope_bytes env \<le> GP_ENVELOPE_BYTES)) (\<lambda>_. Inr v))))"

section \<open>Answers\<close>

definition rv_audit_ok :: "json \<Rightarrow> json \<Rightarrow> unit result" where
  "rv_audit_ok v audit = seqR
     [gp_shape audit AUDIT_FIELDS,
      on audit ''reason'' (\<lambda>r. gp_require (is_lit r RV_REASON)),
      bindR (ack_digest (fld audit ''runtime'') (fld v ''operation_id'') (fld v ''operation_runtime'')
        (fld v ''original_entry_sha256'') (fld audit ''ledger_revision_before'') (fld audit ''store_revision'')
        (fld audit ''context_revision'') (fld audit ''backend_proof'')) (\<lambda>(ack, _).
        on audit ''acknowledgement_id'' (\<lambda>a. gp_require (a = JStr ack)))]"

definition rv_record :: "json \<Rightarrow> unit result" where
  "rv_record v = seqR
     [gp_shape v RECORD_FIELDS,
      on v ''operation_id'' (\<lambda>x. gp_pattern x uuid4_pat),
      on v ''operation_runtime'' (\<lambda>x. gp_pattern x runtime_pat),
      on v ''original_entry_sha256'' (\<lambda>x. gp_pattern x digest_pat),
      on v ''subject'' (\<lambda>s. on v ''original_state'' (\<lambda>t.
        gp_require (is_lit s ''global'' \<and> is_str t \<and> in_lits t [''pending'', ''unknown'', ''partial'']))),
      on v ''original_outcome'' (\<lambda>out. on v ''original_state'' (\<lambda>t.
        gp_require (is_lit out (if is_lit t ''partial'' then ''partial'' else ''unknown'')))),
      on v ''acknowledgement'' (\<lambda>audit. if audit = JNull then Inr () else rv_audit_ok v audit)]"

definition rv_audit :: "json \<Rightarrow> json" where
  "rv_audit v = JObj
     [(u ''acknowledgement_id'', fld v ''acknowledgement_id''), (u ''runtime'', fld v ''runtime''),
      (u ''ledger_revision_before'', fld v ''expected_ledger_revision''), (u ''store_revision'', fld v ''expected_store_revision''),
      (u ''context_revision'', fld v ''expected_context_revision''), (u ''backend_proof'', fld v ''backend_proof''),
      (u ''reason'', lit RV_REASON)]"

definition rv_recovery_audit :: "wire \<Rightarrow> json result" where
  "rv_recovery_audit request =
     bindR (rv_validate_request request) (\<lambda>v.
     bindR (on v ''op'' (\<lambda>op. gp_require (is_lit op ''acknowledge''))) (\<lambda>_. Inr (rv_audit v)))"

definition record_ids :: "json list \<Rightarrow> pystr list" where
  "record_ids rows = map (\<lambda>row. str_of (fld row ''operation_id'')) rows"

definition next_cursor :: "json \<Rightarrow> pystr \<Rightarrow> json" where
  "next_cursor d i = JObj ((u ''after_operation_id'', JStr i) # map (\<lambda>k. (u k, fld d k)) RV_REVISIONS)"

text \<open>The page against the cursor of its request: whether more remains after it.\<close>

definition rv_page_place :: "json \<Rightarrow> json \<Rightarrow> pystr list \<Rightarrow> bool result" where
  "rv_page_place cursor d ids =
     (let total = int_of (fld d ''total'') in
      if cursor = JNull then
        bindR (gp_require (plen ids = min PAGE_SIZE total)) (\<lambda>_. Inr (PAGE_SIZE < total))
      else
        bindR (gp_match (list_all (\<lambda>k. py_eq (fld d k) (fld cursor k)) RV_REVISIONS)) (\<lambda>_.
        bindR (gp_require (PAGE_SIZE < total \<and> total \<le> MAX_RECORDS \<and> plen ids = total - PAGE_SIZE
                 \<and> str_of (fld cursor ''after_operation_id'') < hd ids)) (\<lambda>_. Inr False)))"

definition rv_page_end :: "json \<Rightarrow> pystr list \<Rightarrow> bool \<Rightarrow> unit result" where
  "rv_page_end d ids remains = seqR
     [on d ''next_cursor'' (\<lambda>c. if remains
        then seqR [rv_cursor c, gp_require (py_eq c (next_cursor d (last ids)))]
        else gp_require (c = JNull)),
      if int_of (fld d ''total'') \<noteq> 0
      then on d ''ledger_revision'' (\<lambda>x. gp_require (x \<noteq> JStr EMPTY_LEDGER_SHA256)) else Inr ()]"

definition rv_page :: "json \<Rightarrow> json \<Rightarrow> unit result" where
  "rv_page params d =
     bindR (seqR
       [gp_shape d (RV_COMMON @ INSPECT_META @ [''total'', ''records'', ''next_cursor'']),
        on d ''total'' (\<lambda>x. gp_integer x 0 MAX_RECORDS),
        on d ''records'' (\<lambda>rows. gp_require (is_list rows \<and> plen (list_of rows) \<le> PAGE_SIZE)),
        on d ''records'' (\<lambda>rows. forR rv_record (list_of rows))]) (\<lambda>_.
     let ids = record_ids (list_of (fld d ''records'')) in
     bindR (gp_require (ids = sorted_set ids)) (\<lambda>_.
     on params ''cursor'' (\<lambda>cursor.
     bindR (rv_page_place cursor d ids) (\<lambda>remains. rv_page_end d ids remains))))"

definition rv_inspection :: "json \<Rightarrow> json \<Rightarrow> unit result" where
  "rv_inspection params d = seqR
     [gp_shape d (RV_COMMON @ INSPECT_META @ [''operation_id'', ''record'', ''acknowledge_allowed'', ''acknowledgement_id'',
        ''after_ledger_sha256'', ''plan_sha256'']),
      on d ''operation_id'' (\<lambda>i. on params ''operation_id'' (\<lambda>j. on d ''acknowledge_allowed'' (\<lambda>a.
        gp_require (py_eq i j \<and> is_bool a)))),
      on d ''record'' (\<lambda>row. if row = JNull then Inr () else seqR
        [rv_record row,
         gp_require (py_eq (fld row ''operation_id'') (fld params ''operation_id'')
           \<and> fld d ''ledger_revision'' \<noteq> JStr EMPTY_LEDGER_SHA256)]),
      if fld d ''acknowledge_allowed'' = JBool True then seqR
        [gp_require (fld d ''record'' \<noteq> JNull \<and> fld (fld d ''record'') ''acknowledgement'' = JNull),
         bindR (ledger_digests (fld d ''runtime'') (fld d ''operation_id'') (fld (fld d ''record'') ''operation_runtime'')
             (fld (fld d ''record'') ''original_entry_sha256'') (fld d ''ledger_revision'') (fld d ''store_revision'')
             (fld d ''context_revision'') (fld d ''backend_proof'') (fld d ''after_ledger_sha256'')) (\<lambda>(ack, plan).
           gp_require (fld d ''acknowledgement_id'' = JStr ack \<and> fld d ''plan_sha256'' = JStr plan))]
      else gp_require (list_all (\<lambda>k. fld d k = JNull) [''acknowledgement_id'', ''after_ledger_sha256'', ''plan_sha256''])]"

definition rv_acknowledged :: "json \<Rightarrow> json \<Rightarrow> unit result" where
  "rv_acknowledged params d = seqR
     [gp_shape d (RV_COMMON @ [''operation_id'', ''operation_runtime'', ''acknowledgement_id'', ''plan_sha256'',
        ''acknowledged'', ''persistence'', ''ledger_revision'', ''store_revision'', ''context_revision'', ''record'']),
      on d ''acknowledged'' (\<lambda>a. on d ''persistence'' (\<lambda>p. gp_require (a = JBool True \<and> is_lit p ''persistent''))),
      forR (\<lambda>k. gp_agree d k params k) [''operation_id'', ''operation_runtime'', ''acknowledgement_id'', ''plan_sha256''],
      gp_match (py_eq (fld d ''ledger_revision'') (fld params ''after_ledger_sha256'')
        \<and> py_eq (fld d ''store_revision'') (fld params ''expected_store_revision'')
        \<and> py_eq (fld d ''context_revision'') (fld params ''expected_context_revision'')),
      on d ''record'' rv_record,
      on d ''record'' (\<lambda>row. gp_match
        (list_all (\<lambda>k. py_eq (fld row k) (fld params k)) [''operation_id'', ''operation_runtime'', ''original_entry_sha256'']
         \<and> py_eq (fld row ''acknowledgement'') (rv_audit params)))]"

definition rv_error :: "pystr \<Rightarrow> json \<Rightarrow> unit result" where
  "rv_error status d = seqR
     [gp_shape d (RV_COMMON @ [''error'']),
      on d ''error'' (\<lambda>e. gp_require ((status = u ''rejected'' \<or> status = u ''unsupported'') \<and> is_str e \<and> in_lits e RV_ERRORS))]"

text \<open>The data of an answer, over what the retained inspection asks of one that is no error.\<close>

definition rv_data :: "json \<Rightarrow> pystr \<Rightarrow> json \<Rightarrow> (json \<Rightarrow> unit result) \<Rightarrow> unit result" where
  "rv_data params status d bound =
     bindR (seqR
       [onget d ''version'' (\<lambda>x. gp_integer x 1 1),
        onget d ''runtime'' (\<lambda>a. on params ''runtime'' (\<lambda>b. onget d ''op'' (\<lambda>c. on params ''op'' (\<lambda>e. onget d ''subject'' (\<lambda>s.
          gp_require (py_eq a b \<and> py_eq c e \<and> is_lit s ''global''))))))]) (\<lambda>_.
     if has d ''error'' then rv_error status d
     else seqR
       [gp_require (status = u ''ok''),
        on params ''op'' (\<lambda>op.
          if is_lit op ''inspect'' then seqR
            [onget d ''ledger_format'' (\<lambda>x. gp_integer x 1 1),
             gp_require (list_all (has d) RV_REVISIONS),
             rv_revisions d,
             if has params ''cursor'' then rv_page params d else rv_inspection params d]
          else rv_acknowledged params d),
        bound d])"

definition rv_core ::
  "wire \<Rightarrow> wire \<Rightarrow> json \<Rightarrow> json \<Rightarrow> json \<Rightarrow> int \<Rightarrow> (json \<Rightarrow> json \<Rightarrow> unit result) \<Rightarrow> gp_result result" where
  "rv_core params data request_id response_id status max_metadata bound =
     bindR (gp_integer (JInt max_metadata) 1 GP_METADATA_BYTES) (\<lambda>_.
     bindR (rv_validate_request params) (\<lambda>ps.
     bindR (gp_pattern request_id request_id_pat) (\<lambda>_.
     bindR (gp_require (py_eq response_id request_id \<and> is_str status
              \<and> in_lits status [''ok'', ''rejected'', ''unsupported''])) (\<lambda>_.
     bindR (gp_object data max_metadata) (\<lambda>(d, raw).
     bindR (rv_data ps (str_of status) d (bound ps)) (\<lambda>_.
     bindR (gp_encoded ps) (\<lambda>req.
       Inr \<lparr>gr_request = req, gr_data = raw, gr_status = str_of status, gr_request_id = request_id,
         gr_verified = False, gr_chunk = None\<rparr>)))))))"

section \<open>Inspections\<close>

text \<open>What is inspected is a result of the module or the data of one. Its validation has no context, so the
  recursion of the code is two layers here.\<close>

datatype inspection = Answer gp_result | Data json

definition inspect_params :: "json \<Rightarrow> json \<Rightarrow> json" where
  "inspect_params runtime i = JObj
     [(u ''op'', lit ''inspect''), (u ''runtime'', runtime), (u ''subject'', lit ''global''), (u ''operation_id'', i)]"

definition zero_id :: json where
  "zero_id = JStr (replicate 32 48)"

definition checked_inspection :: "inspection \<Rightarrow> json result" where
  "checked_inspection v =
     bindR (case v of Answer r \<Rightarrow> bindR (gp_require (gr_status r = u ''ok'')) (\<lambda>_. gr_data_of r) | Data d \<Rightarrow> Inr d) (\<lambda>value.
     bindR (gp_object (Parsed value) GP_METADATA_BYTES) (\<lambda>(d, _).
     onget d ''runtime'' (\<lambda>runtime. onget d ''operation_id'' (\<lambda>i.
     bindR (rv_core (Parsed (inspect_params runtime i)) (Parsed d) zero_id zero_id (lit ''ok'') GP_METADATA_BYTES (\<lambda>_ _. Inr ()))
       gr_data_of))))"

definition ack_of :: "json \<Rightarrow> json" where
  "ack_of d = (let row = fld d ''record'' in JObj
     [(u ''runtime'', fld d ''runtime''), (u ''op'', lit ''acknowledge''), (u ''subject'', lit ''global''),
      (u ''operation_id'', fld d ''operation_id''), (u ''operation_runtime'', fld row ''operation_runtime''),
      (u ''original_entry_sha256'', fld row ''original_entry_sha256''),
      (u ''expected_ledger_revision'', fld d ''ledger_revision''), (u ''expected_store_revision'', fld d ''store_revision''),
      (u ''expected_context_revision'', fld d ''context_revision''), (u ''backend_proof'', fld d ''backend_proof''),
      (u ''reason'', lit RV_REASON), (u ''acknowledgement_id'', fld d ''acknowledgement_id''),
      (u ''after_ledger_sha256'', fld d ''after_ledger_sha256''), (u ''plan_sha256'', fld d ''plan_sha256''),
      (u ''accept_unknown'', JBool True)])"

definition rv_ack_request :: "inspection \<Rightarrow> json result" where
  "rv_ack_request v =
     bindR (checked_inspection v) (\<lambda>d.
     bindR (on d ''acknowledge_allowed'' (\<lambda>a. gp_match (a = JBool True))) (\<lambda>_.
       rv_validate_request (Parsed (ack_of d))))"

text \<open>\<open>{**row, "acknowledgement": _audit(request)}\<close>.\<close>

definition audited :: "json \<Rightarrow> json \<Rightarrow> json" where
  "audited row request = put row ''acknowledgement'' (rv_audit request)"

definition bound_to :: "json option \<Rightarrow> json \<Rightarrow> json \<Rightarrow> unit result" where
  "bound_to ctx params d = (case ctx of None \<Rightarrow> Inr () | Some c \<Rightarrow>
     bindR (checked_inspection (Data c)) (\<lambda>original.
     bindR (rv_ack_request (Data original)) (\<lambda>q.
     bindR (gp_match (py_eq params q)) (\<lambda>_.
     on d ''record'' (\<lambda>row. on original ''record'' (\<lambda>old. gp_match (py_eq row (audited old params))))))))"

definition rv_validate_result ::
  "wire \<Rightarrow> wire \<Rightarrow> json \<Rightarrow> json \<Rightarrow> json \<Rightarrow> json option \<Rightarrow> int \<Rightarrow> gp_result result" where
  "rv_validate_result params data request_id response_id status ctx max_metadata =
     rv_core params data request_id response_id status max_metadata (bound_to ctx)"

definition rv_validate_response ::
  "unicode_tables \<Rightarrow> wire \<Rightarrow> wire \<Rightarrow> json \<Rightarrow> json option \<Rightarrow> int \<Rightarrow> gp_result result" where
  "rv_validate_response tables params response request_id ctx max_metadata =
     bindR (gp_object response GP_RESPONSE_BYTES) (\<lambda>(r, raw).
     bindR (gp_shape r [''id'', ''status'', ''data'']) (\<lambda>_.
     bindR (utf8_decode raw) (\<lambda>text.
     bindR (data_token tables (length text) (drop 1 (dropWhile (\<lambda>c. c \<noteq> 123) text))) (\<lambda>token.
     bindR (utf8_encode token) (\<lambda>data.
     on r ''id'' (\<lambda>i. on r ''status'' (\<lambda>status.
       rv_validate_result params (Raw data) request_id i status ctx max_metadata)))))))"

definition recovery_protocol :: "unicode_tables \<Rightarrow> (gp_result, json) protocol" where
  "recovery_protocol tables = \<lparr>pt_action = RV_ACTION, pt_request = (\<lambda>v. rv_validate_request (Parsed v)),
     pt_response = (\<lambda>ps b rid ctx m. rv_validate_response tables (Parsed ps) (Raw b) rid ctx m),
     pt_status = gr_status, pt_error = is_GlobalProtocolError\<rparr>"

section \<open>The peer\<close>

text \<open>\<open>lg_attempted\<close> are the plans an acknowledgement was asked for, \<open>lg_busy\<close> is the acknowledgement lock.\<close>

record ledger_state =
  lg_wire :: wire_state
  lg_attempted :: "json list"
  lg_busy :: bool
  lg_log :: "event list"
  lg_saves :: "save_answer list"

definition open_ledger :: "json \<Rightarrow> json \<Rightarrow> json \<Rightarrow> json \<Rightarrow> save_answer list \<Rightarrow> wire_state \<Rightarrow> (peer \<times> ledger_state) result" where
  "open_ledger device runtime timeout deadline saves s =
     (case open_transport device runtime (JInt GP_ENVELOPE_BYTES) (JInt GP_RESPONSE_BYTES) timeout (JInt GP_METADATA_BYTES)
             deadline (Some RV_OPS) s of
        (Inl e, _) \<Rightarrow> Inl e
      | (Inr pr, s') \<Rightarrow> Inr (pr, \<lparr>lg_wire = s', lg_attempted = [], lg_busy = False, lg_log = [], lg_saves = saves\<rparr>))"

definition ledger_clock :: "(ledger_state, rat) io" where
  "ledger_clock st = (case now (lg_wire st) of (r, w) \<Rightarrow> (r, st\<lparr>lg_wire := w\<rparr>))"

definition ledger_rpc :: "unicode_tables \<Rightarrow> peer \<Rightarrow> json \<Rightarrow> json option \<Rightarrow> rat \<Rightarrow> (ledger_state, gp_result) io" where
  "ledger_rpc tables pr params ctx deadline st =
     (case rpc (recovery_protocol tables) pr params ctx deadline (lg_wire st) of
        (r, w) \<Rightarrow> (r, st\<lparr>lg_wire := w, lg_log := Asked params # lg_log st\<rparr>))"

definition page_request :: "peer \<Rightarrow> json \<Rightarrow> json" where
  "page_request pr cursor = JObj
     [(u ''op'', lit ''inspect''), (u ''runtime'', JStr (pr_runtime pr)), (u ''subject'', lit ''global''), (u ''cursor'', cursor)]"

definition same_ledger :: "json \<Rightarrow> json \<Rightarrow> bool result" where
  "same_ledger d f = foldR (\<lambda>same k. if same then on d k (\<lambda>a. on f k (\<lambda>b. Inr (py_eq a b))) else Inr False) True
     (RV_REVISIONS @ [''total'', ''ledger_format''])"

definition complete_ledger :: "peer \<Rightarrow> json \<Rightarrow> json list \<Rightarrow> json" where
  "complete_ledger pr f rows = JObj
     ([(u ''status'', lit ''complete''), (u ''runtime'', JStr (pr_runtime pr)), (u ''subject'', lit ''global'')]
      @ map (\<lambda>k. (u k, fld f k)) (INSPECT_META @ [''total'']) @ [(u ''records'', JArr rows)])"

text \<open>The loop, with the rounds it has left.\<close>

fun ledger_pages :: "unicode_tables \<Rightarrow> peer \<Rightarrow> nat \<Rightarrow> json \<Rightarrow> json option \<Rightarrow> json list \<Rightarrow> (ledger_state, json) io" where
  "ledger_pages tables pr 0 cursor first rows = raiseS (remote ''invalid_response'')"
| "ledger_pages tables pr (Suc n) cursor first rows =
     bindS (getS (\<lambda>st. ws_deadline (lg_wire st))) (\<lambda>deadline.
     bindS (ledger_rpc tables pr (page_request pr cursor) None deadline) (\<lambda>r.
     bindS (liftS (gr_data_of r)) (\<lambda>d.
     bindS (liftS (case first of None \<Rightarrow> Inr True | Some f \<Rightarrow> same_ledger d f)) (\<lambda>same.
     bindS (checkS (remote ''invalid_response'') same) (\<lambda>_.
     bindS (liftS (on d ''records'' (\<lambda>x. Inr (rows @ list_of x)))) (\<lambda>rows'.
     bindS (liftS (on d ''next_cursor'' Inr)) (\<lambda>cursor'.
     let f = (case first of None \<Rightarrow> d | Some f \<Rightarrow> f) in
     if cursor' = JNull then
       bindS (liftS (on f ''total'' (\<lambda>t. check (remote ''invalid_response'')
         (py_eq (JInt (plen rows')) t \<and> record_ids rows' = sorted_set (record_ids rows'))))) (\<lambda>_.
         returnS (complete_ledger pr f rows'))
     else ledger_pages tables pr n cursor' (Some f) rows')))))))"

definition ledger_list :: "unicode_tables \<Rightarrow> peer \<Rightarrow> (ledger_state, json) io" where
  "ledger_list tables pr = ledger_pages tables pr 2 JNull None []"

definition ledger_inspect :: "unicode_tables \<Rightarrow> peer \<Rightarrow> json \<Rightarrow> (ledger_state, json) io" where
  "ledger_inspect tables pr i =
     bindS (getS (\<lambda>st. ws_deadline (lg_wire st))) (\<lambda>deadline.
     bindS (ledger_rpc tables pr (inspect_params (JStr (pr_runtime pr)) i) None deadline) (\<lambda>r. liftS (gr_data_of r)))"

section \<open>Acknowledging\<close>

text \<open>\<open>_save\<close> after it has started its thread: whether the storage answered with a bool before the cutoff.\<close>

fun ledger_wait :: "json \<Rightarrow> rat \<Rightarrow> save_answer list \<Rightarrow> (ledger_state, bool) io" where
  "ledger_wait request until [] st = bindS ledger_clock (\<lambda>t. if t < until then raiseS ScriptEnd else returnS False) st"
| "ledger_wait request until (a # rest) st = (case ledger_clock st of
     (Inl e, s1) \<Rightarrow> (Inl e, s1)
   | (Inr t, s1) \<Rightarrow>
       if until \<le> t then (Inr False, s1)
       else if a = Wall_over then (Inr False, s1\<lparr>lg_saves := rest\<rparr>)
       else (case ledger_clock s1 of
         (Inl e, s2) \<Rightarrow> (Inl e, s2)
       | (Inr _, s2) \<Rightarrow> (case a of
           Gave v \<Rightarrow> (Inr (is_bool v), s2\<lparr>lg_saves := rest, lg_log := (if is_bool v then [Kept request] else []) @ lg_log s2\<rparr>)
         | _ \<Rightarrow> ledger_wait request until rest (s2\<lparr>lg_saves := rest\<rparr>))))"

definition ledger_save :: "json \<Rightarrow> rat \<Rightarrow> (ledger_state, bool) io" where
  "ledger_save request until =
     bindS ledger_clock (\<lambda>_. bindS (getS lg_saves) (\<lambda>waits. ledger_wait request until waits))"

text \<open>The acknowledgement is asked once; after an uncertain one, a single read decides what is reported.\<close>

definition ledger_observe :: "unicode_tables \<Rightarrow> peer \<Rightarrow> json \<Rightarrow> json \<Rightarrow> json \<Rightarrow> (ledger_state, acknowledgement option) io" where
  "ledger_observe tables pr original request base = on_remote
     (bindS (ledger_inspect tables pr (fld request ''operation_id'')) (\<lambda>d.
      bindS (liftS (on d ''record'' (\<lambda>row. on original ''record'' (\<lambda>old. Inr (py_eq row (audited old request)))))) (\<lambda>same.
        returnS (if same
          then Some \<lparr>ak_base = base, ak_status = ''acknowledgement_observed'', ak_reason = None,
            ak_evidence = Some d, ak_request = None\<rparr>
          else None))))
     (\<lambda>_ _. returnS None)"

definition ledger_ask :: "unicode_tables \<Rightarrow> peer \<Rightarrow> json \<Rightarrow> json \<Rightarrow> json \<Rightarrow> rat \<Rightarrow> (ledger_state, acknowledgement) io" where
  "ledger_ask tables pr original request base until =
     bindS (on_remote
        (bindS (ledger_rpc tables pr request (Some original) until) (\<lambda>r. bindS (liftS (gr_data_of r)) (\<lambda>d.
           returnS (Some \<lparr>ak_base = base, ak_status = ''acknowledgement_confirmed'', ak_reason = None,
             ak_evidence = Some d, ak_request = Some (gr_request_id r)\<rparr>))))
        (\<lambda>_ _. returnS None)) (\<lambda>first. case first of
       Some k \<Rightarrow> returnS k
     | None \<Rightarrow> bindS (ledger_observe tables pr original request base) (\<lambda>second. case second of
         Some k \<Rightarrow> returnS k
       | None \<Rightarrow> returnS (ack_report base ''unknown'' (Some ''acknowledgement_unconfirmed''))))"

text \<open>Whether the acknowledgement and its reading fit before the cutoff.\<close>

definition ledger_time :: "rat \<Rightarrow> (ledger_state, bool) io" where
  "ledger_time until = bindS ledger_clock (\<lambda>t. returnS (POST_INTERVAL + HTTP_INTERVAL < until - t))"

definition ledger_locked :: "unicode_tables \<Rightarrow> peer \<Rightarrow> json \<Rightarrow> json \<Rightarrow> json \<Rightarrow> (ledger_state, acknowledgement) io" where
  "ledger_locked tables pr original request base =
     bindS (getS lg_attempted) (\<lambda>tried.
     if fld request ''plan_sha256'' \<in> set tried then returnS (ack_report base ''blocked'' (Some ''already_started'')) else
     bindS (getS (\<lambda>st. ws_deadline (lg_wire st) - RECONCILE_RESERVE)) (\<lambda>until.
     bindS (ledger_time until) (\<lambda>enough.
     if \<not> enough then returnS (ack_report base ''blocked'' (Some ''deadline_insufficient'')) else
     bindS (ledger_save request until) (\<lambda>saved.
     if \<not> saved then returnS (ack_report base ''blocked'' (Some ''context_not_saved'')) else
     bindS (ledger_time until) (\<lambda>enough'.
     if \<not> enough' then returnS (ack_report base ''blocked'' (Some ''deadline_insufficient'')) else
     bindS (modS (\<lambda>st. st\<lparr>lg_attempted := fld request ''plan_sha256'' # lg_attempted st\<rparr>)) (\<lambda>_.
       ledger_ask tables pr original request base until))))))"

definition ledger_acknowledge :: "unicode_tables \<Rightarrow> peer \<Rightarrow> inspection \<Rightarrow> json \<Rightarrow> (ledger_state, acknowledgement) io" where
  "ledger_acknowledge tables pr v confirmation =
     bindS (rethrowS is_GlobalProtocolError (remote ''invalid_context'')
       (liftS (bindR (checked_inspection v) (\<lambda>original. bindR (rv_ack_request (Data original)) (\<lambda>q. Inr (original, q)))))) (\<lambda>(original, request).
     bindS (checkS (remote ''invalid_context'')
       (py_eq (fld request ''runtime'') (JStr (pr_runtime pr)) \<and> is_str confirmation
        \<and> py_eq confirmation (fld request ''plan_sha256''))) (\<lambda>_.
     bindS (liftS (on original ''record'' (\<lambda>row. ack_base request row))) (\<lambda>base st.
       if lg_busy st then (Inl (remote ''already_started''), st)
       else finallyS (ledger_locked tables pr original request base) (\<lambda>t. t\<lparr>lg_busy := False\<rparr>) (st\<lparr>lg_busy := True\<rparr>))))"

end
