(* ===== verification/GlobalRecoveryLaws.thy ===== *)
theory GlobalRecoveryLaws
  imports GlobalRecovery RemoteFavoritesLaws GlobalProtocolLaws
begin

text \<open>
  What the operations of the recovery peer keep: a locale over an invariant of its state, extended by what
  an acknowledgement needs; it is interpreted on the pacing of the HTTP calls and on the invariant that ties
  the log to the plans attempted.
\<close>

section \<open>Requests of the peer\<close>

definition is_ack :: "json \<Rightarrow> bool" where
  "is_ack q \<longleftrightarrow> is_lit (fld q ''op'') ''acknowledge''"

lemma reads_are_no_acks [simp]: "\<not> is_ack (page_request pr cursor)" "\<not> is_ack (inspect_params runtime i)"
  by (simp_all add: is_ack_def page_request_def inspect_params_def is_lit_def lit_def fld_def u_def)

lemma ack_of_is_ack: "is_ack (ack_of d)"
  by (simp add: is_ack_def ack_of_def is_lit_def lit_def fld_def u_def Let_def)

section \<open>What reads and acknowledgements keep\<close>

locale ledger_kept =
  fixes I :: "ledger_state \<Rightarrow> bool" and tables :: unicode_tables and pr :: peer
  assumes kept_clock: "keeps I ledger_clock"
    and kept_read: "\<not> is_ack q \<Longrightarrow> keeps I (ledger_rpc tables pr q ctx deadline)"
begin

lemma kept_pages: "keeps I (ledger_pages tables pr n cursor first rows)"
proof (induction n arbitrary: cursor first rows)
  case 0
  then show ?case by (simp add: keeps_intro)
next
  case (Suc n)
  then show ?case by (auto simp: Let_def intro!: keeps_intro kept_read)
qed

lemma kept_list: "keeps I (ledger_list tables pr)"
  unfolding ledger_list_def by (rule kept_pages)

lemma kept_inspect: "keeps I (ledger_inspect tables pr i)"
  unfolding ledger_inspect_def by (intro keeps_intro kept_read reads_are_no_acks)

lemma kept_observe: "keeps I (ledger_observe tables pr original request base)"
  unfolding ledger_observe_def by (intro keeps_intro kept_inspect)

lemma kept_time: "keeps I (ledger_time until)"
  unfolding ledger_time_def by (intro keeps_intro kept_clock)

end

locale ledger_kept_all = ledger_kept I tables pr for I :: "ledger_state \<Rightarrow> bool" and tables :: unicode_tables and pr :: peer +
  assumes kept_ask: "keeps I (ledger_rpc tables pr q ctx deadline)"
    and kept_log: "I st \<Longrightarrow> I (st\<lparr>lg_saves := ws, lg_log := es\<rparr>)"
    and kept_fields: "I st \<Longrightarrow> I (st\<lparr>lg_saves := ws\<rparr>)" "I st \<Longrightarrow> I (st\<lparr>lg_attempted := ps\<rparr>)" "I st \<Longrightarrow> I (st\<lparr>lg_busy := b\<rparr>)"
begin

lemma kept_wait: "I st \<Longrightarrow> I (snd (ledger_wait request until waits st))"
proof (induction request until waits st rule: ledger_wait.induct)
  case (1 request until st)
  have "keeps I (bindS ledger_clock (\<lambda>t. if t < until then raiseS ScriptEnd else returnS False))"
    by (intro keeps_intro kept_clock)
  then show ?case using 1 by (simp add: keeps_def)
next
  case (2 request until a rest st)
  obtain r1 s1 where c: "ledger_clock st = (r1, s1)" by fastforce
  obtain r2 s2 where c2: "ledger_clock s1 = (r2, s2)" by fastforce
  have s: "I s1" "I s2" using keepsD [OF kept_clock] c c2 2(3) by blast+
  show ?case
  proof (cases "\<exists>t t2. r1 = Inr t \<and> \<not> until \<le> t \<and> a = Waiting \<and> r2 = Inr t2")
    case True
    then obtain t t2 where go: "r1 = Inr t" "\<not> until \<le> t" "a = Waiting" "r2 = Inr t2" by blast
    have "I (snd (ledger_wait request until rest (s2\<lparr>lg_saves := rest\<rparr>)))"
      using 2(1) [OF c [symmetric] go(1,2) _ c2 [symmetric] go(4)] go(3) kept_fields(1) [OF s(2)] by simp
    then show ?thesis using c c2 go by simp
  next
    case False
    then show ?thesis
      using c c2 s by (auto split: sum.splits save_answer.splits intro: kept_log kept_fields)
  qed
qed

lemma kept_save: "keeps I (ledger_save request until)"
  unfolding ledger_save_def
  by (intro keeps_intro kept_clock) (simp add: keeps_def kept_wait)

lemma kept_acknowledge: "keeps I (ledger_acknowledge tables pr v confirmation)"
proof -
  have ask: "keeps I (ledger_ask tables pr original request base until)" for original request base until
    unfolding ledger_ask_def by (auto intro!: keeps_intro kept_ask kept_observe split: option.split)
  have "keeps I (ledger_locked tables pr original request base)" for original request base
    unfolding ledger_locked_def
    by (intro keeps_intro kept_time kept_save keeps_modS kept_fields ask)
  then have "keeps I (\<lambda>st. if lg_busy st then (Inl (remote ''already_started''), st)
       else finallyS (ledger_locked tables pr original request base) (\<lambda>t. t\<lparr>lg_busy := False\<rparr>) (st\<lparr>lg_busy := True\<rparr>))"
    for original request base
    by (auto simp: keeps_def finallyS_def kept_fields split: prod.split) (metis kept_fields(3) snd_conv)
  then show ?thesis
    unfolding ledger_acknowledge_def by (auto intro!: keeps_intro split: prod.split)
qed

end

lemma ledger_rpc_paced: "keeps (\<lambda>st. paced (lg_wire st)) (ledger_rpc tables pr q ctx deadline)"
  using keepsD [OF pacing.kept_rpc] by (auto simp: keeps_def ledger_rpc_def split: prod.split)

interpretation ledger_pacing: ledger_kept_all "\<lambda>st. paced (lg_wire st)" tables pr for tables pr
proof unfold_locales
  show "keeps (\<lambda>st. paced (lg_wire st)) ledger_clock"
    using paced_now by (auto simp: keeps_def ledger_clock_def split: prod.split dest: keepsD)
qed (simp_all add: ledger_rpc_paced)

section \<open>What the log says\<close>

lemma ledger_clock_log: "ledger_clock st = (r, st') \<Longrightarrow> lg_log st' = lg_log st \<and> lg_attempted st' = lg_attempted st"
  by (auto simp: ledger_clock_def split: prod.splits)

lemma ledger_rpc_log:
  "ledger_rpc tables pr q ctx d st = (r, st') \<Longrightarrow> lg_log st' = Asked q # lg_log st \<and> lg_attempted st' = lg_attempted st"
  by (auto simp: ledger_rpc_def split: prod.splits)

lemma ledger_time_log: "ledger_time until st = (r, st') \<Longrightarrow> lg_log st' = lg_log st \<and> lg_attempted st' = lg_attempted st"
  by (auto simp: ledger_time_def bindS_def returnS_def split: prod.splits sum.splits dest: ledger_clock_log)

lemma ledger_wait_log:
  "ledger_wait request until waits st = (r, st') \<Longrightarrow>
     lg_log st' = (if r = Inr True then [Kept request] else []) @ lg_log st \<and> lg_attempted st' = lg_attempted st"
proof (induction request until waits st arbitrary: r st' rule: ledger_wait.induct)
  case (1 request until st)
  then show ?case by (auto simp: bindS_def run_simps split: prod.splits sum.splits if_splits dest: ledger_clock_log)
next
  case (2 request until a rest st)
  obtain r1 s1 where c: "ledger_clock st = (r1, s1)" by fastforce
  obtain r2 s2 where c2: "ledger_clock s1 = (r2, s2)" by fastforce
  show ?case
  proof (cases "\<exists>t t2. r1 = Inr t \<and> \<not> until \<le> t \<and> a = Waiting \<and> r2 = Inr t2")
    case True
    then obtain t t2 where go: "r1 = Inr t" "\<not> until \<le> t" "a = Waiting" "r2 = Inr t2" by blast
    have "ledger_wait request until rest (s2\<lparr>lg_saves := rest\<rparr>) = (r, st')" using 2(3) c c2 go by simp
    from 2(1) [OF c [symmetric] go(1,2) _ c2 [symmetric] go(4) _ this] show ?thesis
      using go(3) ledger_clock_log [OF c] ledger_clock_log [OF c2] by simp
  next
    case False
    then show ?thesis
      using 2(3) c c2 ledger_clock_log [OF c] ledger_clock_log [OF c2]
      by (auto split: if_splits sum.splits save_answer.splits)
  qed
qed

lemma ledger_save_log:
  "ledger_save request until st = (r, st') \<Longrightarrow>
     lg_log st' = (if r = Inr True then [Kept request] else []) @ lg_log st \<and> lg_attempted st' = lg_attempted st"
  by (auto simp: ledger_save_def bindS_def run_simps split: prod.splits sum.splits
      dest!: ledger_clock_log ledger_wait_log)

section \<open>One acknowledgement for a plan\<close>

fun plans_asked :: "event list \<Rightarrow> json set" where
  "plans_asked [] = {}"
| "plans_asked (Asked q # es) = (if is_ack q then {fld q ''plan_sha256''} else {}) \<union> plans_asked es"
| "plans_asked (Kept q # es) = plans_asked es"

text \<open>Every acknowledgement was asked right after the storage kept it, and none of its plan before it.\<close>

fun acks_once :: "event list \<Rightarrow> bool" where
  "acks_once [] = True"
| "acks_once (Asked q # es) = (acks_once es \<and>
     (is_ack q \<longrightarrow> (\<exists>earlier. es = Kept q # earlier) \<and> fld q ''plan_sha256'' \<notin> plans_asked es))"
| "acks_once (Kept q # es) = acks_once es"

definition ledger_sound :: "ledger_state \<Rightarrow> bool" where
  "ledger_sound st \<longleftrightarrow> acks_once (lg_log st) \<and> plans_asked (lg_log st) \<subseteq> set (lg_attempted st)"

interpretation ledger_log: ledger_kept ledger_sound tables pr for tables pr
proof unfold_locales
  show "keeps ledger_sound ledger_clock"
    by (simp add: keeps_def ledger_sound_def ledger_clock_log [OF prod.collapse [symmetric]])
  show "\<not> is_ack q \<Longrightarrow> keeps ledger_sound (ledger_rpc tables pr q ctx deadline)" for q ctx deadline
    by (simp add: keeps_def ledger_sound_def ledger_rpc_log [OF prod.collapse [symmetric]])
qed

text \<open>The state in which an acknowledgement may be asked.\<close>

definition may_ask :: "json \<Rightarrow> ledger_state \<Rightarrow> bool" where
  "may_ask q st \<longleftrightarrow> ledger_sound st \<and> (\<exists>earlier. lg_log st = Kept q # earlier) \<and>
     fld q ''plan_sha256'' \<in> set (lg_attempted st) - plans_asked (lg_log st)"

lemma ask_sound: "may_ask q st \<Longrightarrow> ledger_rpc tables pr q ctx deadline st = (r, st') \<Longrightarrow> ledger_sound st'"
  by (auto simp: may_ask_def ledger_sound_def split: if_splits dest!: ledger_rpc_log)

lemma ledger_ask_sound:
  assumes "may_ask request st" "ledger_ask tables pr original request base until st = (r, st')"
  shows "ledger_sound st'"
proof -
  let ?ask = "bindS (ledger_rpc tables pr request (Some original) until) (\<lambda>r. bindS (liftS (gr_data_of r)) (\<lambda>d.
     returnS (Some \<lparr>ak_base = base, ak_status = ''acknowledgement_confirmed'', ak_reason = None,
       ak_evidence = Some d, ak_request = Some (gr_request_id r)\<rparr>)))"
  obtain r1 s1 where first: "on_remote ?ask (\<lambda>_ _. returnS None) st = (r1, s1)" by fastforce
  obtain r2 where "?ask st = (r2, s1)" using on_remote_state [OF first] by blast
  then have "\<exists>r3. ledger_rpc tables pr request (Some original) until st = (r3, s1)"
    by (auto simp: bindS_def run_simps split: prod.splits sum.splits)
  then have s1: "ledger_sound s1" using ask_sound [OF assms(1)] by blast
  have rest: "keeps ledger_sound (case first of Some k \<Rightarrow> returnS k | None \<Rightarrow>
      bindS (ledger_observe tables pr original request base) (\<lambda>second. case second of Some k \<Rightarrow> returnS k | None \<Rightarrow> returnS x))" for first x
    by (auto intro!: keeps_intro ledger_log.kept_observe split: option.split)
  show ?thesis
  proof (cases r1)
    case (Inl e)
    then show ?thesis using assms(2) first s1 by (simp add: ledger_ask_def)
  next
    case (Inr x)
    then show ?thesis using assms(2) first keepsD [OF rest _ s1] by (simp add: ledger_ask_def)
  qed
qed

lemma ledger_locked_runs:
  assumes "ledger_locked tables pr original request base st = (r, st')"
  obtains (stopped) "lg_log st' = lg_log st \<or> lg_log st' = Kept request # lg_log st" "lg_attempted st' = lg_attempted st"
      "case r of Inl _ \<Rightarrow> True | Inr k \<Rightarrow> ak_status k = ''blocked''"
  | (asked) s until where "fld request ''plan_sha256'' \<notin> set (lg_attempted st)" "lg_log s = Kept request # lg_log st"
      "lg_attempted s = fld request ''plan_sha256'' # lg_attempted st" "ledger_ask tables pr original request base until s = (r, st')"
proof -
  let ?until = "ws_deadline (lg_wire st) - RECONCILE_RESERVE"
  obtain r1 s1 where t1: "ledger_time ?until st = (r1, s1)" by fastforce
  obtain r2 s2 where sv: "ledger_save request ?until s1 = (r2, s2)" by fastforce
  obtain r3 s3 where t2: "ledger_time ?until s2 = (r3, s3)" by fastforce
  note logs = ledger_time_log [OF t1] ledger_save_log [OF sv] ledger_time_log [OF t2]
  show thesis
  proof (cases "fld request ''plan_sha256'' \<notin> set (lg_attempted st) \<and> r1 = Inr True \<and> r2 = Inr True \<and> r3 = Inr True")
    case True
    then show ?thesis
      using assms t1 sv t2 logs
      by (intro asked [of "s3\<lparr>lg_attempted := fld request ''plan_sha256'' # lg_attempted s3\<rparr>" ?until])
        (auto simp: ledger_locked_def bindS_def getS_def modS_def)
  next
    case False
    then show ?thesis
      using assms t1 sv t2 logs
      by (intro stopped) (auto simp: ledger_locked_def bindS_def getS_def returnS_def ack_report_def split: sum.splits if_splits)
  qed
qed

lemma ledger_locked_sound:
  assumes "ledger_locked tables pr original request base st = (r, st')" "ledger_sound st"
  shows "ledger_sound st'"
  using assms(1)
proof (cases rule: ledger_locked_runs)
  case stopped
  then show ?thesis using assms(2) by (auto simp: ledger_sound_def)
next
  case (asked s until)
  then have "may_ask request s" using assms(2) by (auto simp: may_ask_def ledger_sound_def)
  then show ?thesis using ledger_ask_sound asked(4) by blast
qed

lemma ledger_acknowledge_sound: "keeps ledger_sound (ledger_acknowledge tables pr v confirmation)"
proof -
  have "keeps ledger_sound (\<lambda>st. if lg_busy st then (Inl (remote ''already_started''), st)
       else finallyS (ledger_locked tables pr original request base) (\<lambda>t. t\<lparr>lg_busy := False\<rparr>) (st\<lparr>lg_busy := True\<rparr>))"
    for original request base
    using ledger_locked_sound [of tables pr original request base "st\<lparr>lg_busy := True\<rparr>" for st]
    by (auto simp: keeps_def finallyS_def ledger_sound_def split: prod.split)
  then show ?thesis
    unfolding ledger_acknowledge_def by (auto intro!: keeps_intro split: prod.split)
qed

end
