(* ===== verification/GlobalRecoveryAnswers.thy ===== *)
theory GlobalRecoveryAnswers
  imports GlobalRecoveryLaws GlobalItemsLaws
begin

text \<open>
  What the recovery protocol accepts is free of floats, so validating it again, as the retained inspection of
  an acknowledgement is, gives the same value; and what an answer that reached the peer has established.
\<close>

section \<open>Accepted values are float-free\<close>

lemma ack_digest_texts:
  "ack_digest runtime oper original_runtime entry ledger store ctx backend = Inr x \<Longrightarrow>
     \<forall>v \<in> {runtime, oper, original_runtime, entry, ledger, store, ctx, backend}. is_str v"
  by (auto simp: ack_digest_def Let_def bindR_ok seqR_Cons_ok forR_ok gp_pattern_ok)

lemma ledger_digests_texts:
  "ledger_digests runtime oper original_runtime entry ledger store ctx backend after' = Inr x \<Longrightarrow>
     \<forall>v \<in> {runtime, oper, original_runtime, entry, ledger, store, ctx, backend, after'}. is_str v"
  by (auto simp: ledger_digests_def bindR_ok seqR_Cons_ok gp_pattern_ok dest!: ack_digest_texts)

lemma rv_revisions_free: "rv_revisions v = Inr () \<Longrightarrow> \<forall>k \<in> set RV_REVISIONS. has v k \<and> float_free (fld v k)"
  by (auto simp: rv_revisions_def RV_REVISIONS_def check_parts split: if_splits)

lemma rv_cursor_free: "rv_cursor c = Inr () \<Longrightarrow> real_value c \<Longrightarrow> float_free c"
  by (rule float_free_shape [of c "''after_operation_id'' # RV_REVISIONS"])
    (auto simp: rv_cursor_def check_parts dest: rv_revisions_free)

definition ACK_TEXTS :: "string list" where
  "ACK_TEXTS = [''runtime'', ''operation_id'', ''operation_runtime'', ''original_entry_sha256'', ''expected_ledger_revision'',
     ''expected_store_revision'', ''expected_context_revision'', ''backend_proof'', ''after_ledger_sha256'', ''reason'',
     ''acknowledgement_id'', ''plan_sha256'']"

lemma ack_fields: "set ACK_FIELDS = {''op'', ''subject'', ''accept_unknown''} \<union> set ACK_TEXTS"
  by (auto simp: ACK_FIELDS_def ACK_TEXTS_def)

lemma ack_fields_texts:
  assumes "rv_request_fields op v = Inr ()" "op = JStr s" "s \<noteq> u ''inspect''"
  shows "is_dict v \<and> same_keys v ACK_FIELDS \<and> is_lit (fld v ''reason'') RV_REASON \<and> fld v ''accept_unknown'' = JBool True \<and>
    (\<forall>k \<in> set ACK_TEXTS. is_str (fld v k))"
proof -
  have parts: "is_dict v" "same_keys v ACK_FIELDS" "is_lit (fld v ''reason'') RV_REASON" "fld v ''accept_unknown'' = JBool True"
    using assms by (auto simp: rv_request_fields_def is_lit_def check_parts)
  obtain a p where d: "request_digests v = Inr (a, p)" "fld v ''acknowledgement_id'' = JStr a" "fld v ''plan_sha256'' = JStr p"
    using assms by (auto simp: rv_request_fields_def is_lit_def check_parts split: prod.splits)
  have reason: "is_str (fld v ''reason'')" using parts(3) by (auto simp: is_lit_def)
  have "\<forall>k \<in> set ACK_TEXTS. is_str (fld v k)"
    using ledger_digests_texts [OF d(1) [unfolded request_digests_def]] d(2,3) reason by (simp add: ACK_TEXTS_def)
  then show ?thesis using parts by blast
qed

lemma rv_request_free:
  assumes "rv_check_request v = Inr ()" "is_dict v" "real_value v"
  shows "float_free v"
proof -
  from assms(1) have parts: "\<exists>s. fld v ''runtime'' = JStr s" "is_lit (fld v ''subject'') ''global''"
    "in_lits (fld v ''op'') RV_OPS" "rv_request_fields (fld v ''op'') v = Inr ()"
    by (auto simp: rv_check_request_def check_parts)
  then obtain s where op: "fld v ''op'' = JStr s" by (auto simp: in_lits_def is_lit_def list_ex_iff)
  show ?thesis
  proof (cases "s = u ''inspect''")
    case True
    have rest: "fld v ''cursor'' = JNull \<or> float_free (fld v ''cursor'')" if "\<not> has v ''operation_id''"
      using parts(4) op True that rv_cursor_free [of "fld v ''cursor''"] real_value_fld [OF assms(3)]
      by (auto simp: rv_request_fields_def is_lit_def check_parts split: if_splits)
    have free: "float_free v" if "same_keys v [''runtime'', ''op'', ''subject'', k]" "float_free (fld v k)" for k
      using parts(1,2) op that by (intro float_free_shape [OF assms(2) that(1) assms(3)]) (auto simp: is_lit_def)
    show ?thesis
    proof (cases "has v ''operation_id''")
      case yes: True
      then show ?thesis
        using parts(4) op True by (intro free [of "''operation_id''"]) (auto simp: rv_request_fields_def is_lit_def check_parts)
    next
      case no: False
      then show ?thesis
        using parts(4) op True rest by (intro free [of "''cursor''"]) (auto simp: rv_request_fields_def is_lit_def check_parts)
    qed
  next
    case False
    have "float_free (fld v k)" if "k \<in> set ACK_FIELDS" for k
      using ack_fields_texts [OF parts(4) op False] parts op that by (auto simp: ack_fields is_lit_def intro: float_free_str)
    then show ?thesis
      using ack_fields_texts [OF parts(4) op False] by (intro float_free_shape [OF assms(2) _ assms(3), of ACK_FIELDS]) auto
  qed
qed

lemma rv_audit_free: "rv_audit_ok v audit = Inr () \<Longrightarrow> real_value audit \<Longrightarrow> float_free audit"
  by (rule float_free_shape [of audit AUDIT_FIELDS])
    (auto simp: rv_audit_ok_def AUDIT_FIELDS_def check_parts is_lit_def split: prod.splits
      dest!: ack_digest_texts intro: float_free_str)

lemma rv_record_free:
  assumes "rv_record v = Inr ()" "real_value v"
  shows "float_free v"
proof -
  from assms(1) have v: "is_dict v" "same_keys v RECORD_FIELDS" and fields:
    "\<forall>k \<in> {''operation_id'', ''operation_runtime'', ''original_entry_sha256''}. \<exists>s. fld v k = JStr s"
    "is_lit (fld v ''subject'') ''global''" "is_str (fld v ''original_state'')"
    "\<exists>s. is_lit (fld v ''original_outcome'') s"
    "(if fld v ''acknowledgement'' = JNull then Inr () else rv_audit_ok v (fld v ''acknowledgement'')) = Inr ()"
    unfolding rv_record_def check_parts by blast+
  have "float_free (fld v ''acknowledgement'')"
    using fields(5) rv_audit_free real_value_fld [OF assms(2)] by (cases "fld v ''acknowledgement'' = JNull") auto
  then show ?thesis
    using fields by (intro float_free_shape [OF v assms(2)]) (auto simp: RECORD_FIELDS_def is_lit_def is_str_iff)
qed

definition rv_common :: "json \<Rightarrow> bool" where
  "rv_common d \<longleftrightarrow> real_value d \<and> (\<forall>k \<in> set RV_COMMON. float_free (fld d k))"

lemma rv_fields_free:
  assumes "rv_common d" "is_dict d" "same_keys d (RV_COMMON @ ks)" "\<forall>k \<in> set ks. float_free (fld d k)"
  shows "float_free d"
  using assms by (intro float_free_shape [OF assms(2,3)]) (auto simp: rv_common_def)

lemma meta_free:
  "rv_revisions d = Inr () \<Longrightarrow> fld d ''ledger_format'' = JInt i \<Longrightarrow> \<forall>k \<in> set INSPECT_META. float_free (fld d k)"
  by (auto simp: INSPECT_META_def dest: rv_revisions_free)

lemma rv_page_free:
  assumes "rv_page params d = Inr ()" "rv_common d" "\<forall>k \<in> set INSPECT_META. float_free (fld d k)"
  shows "float_free d"
proof -
  have real: "real_value (fld d k)" for k using assms(2) real_value_fld by (simp add: rv_common_def)
  have "\<forall>row \<in> set (list_of (fld d ''records'')). rv_record row = Inr ()" and shape: "is_dict d" "is_list (fld d ''records'')"
    "same_keys d (RV_COMMON @ INSPECT_META @ [''total'', ''records'', ''next_cursor''])" "\<exists>i. fld d ''total'' = JInt i"
    using assms(1) by (auto simp: rv_page_def check_parts)
  then have "float_free (fld d ''records'')"
    using real [of "''records''"] rv_record_free by (auto simp: is_list_iff)
  moreover have "fld d ''next_cursor'' = JNull \<or> float_free (fld d ''next_cursor'')"
    using assms(1) rv_cursor_free real [of "''next_cursor''"]
    by (auto simp: rv_page_def rv_page_end_def check_parts Let_def split: if_splits)
  ultimately show ?thesis
    using assms(2,3) shape by (intro rv_fields_free [of d "INSPECT_META @ [''total'', ''records'', ''next_cursor'']"]) auto
qed

lemma rv_inspection_free:
  assumes "rv_inspection params d = Inr ()" "rv_common d" "\<forall>k \<in> set INSPECT_META. float_free (fld d k)"
    "is_str (fld params ''operation_id'')"
  shows "float_free d"
proof -
  have real: "real_value (fld d k)" for k using assms(2) real_value_fld by (simp add: rv_common_def)
  have shape: "is_dict d" "same_keys d (RV_COMMON @ INSPECT_META @ [''operation_id'', ''record'', ''acknowledge_allowed'',
      ''acknowledgement_id'', ''after_ledger_sha256'', ''plan_sha256''])"
    and fields: "float_free (fld d ''operation_id'')" "float_free (fld d ''acknowledge_allowed'')"
    using assms(1,4) by (auto simp: rv_inspection_def check_parts is_bool_iff intro: float_free_eq_str)
  have record': "float_free (fld d ''record'')"
    using assms(1) rv_record_free real [of "''record''"] by (auto simp: rv_inspection_def check_parts split: if_splits)
  have "float_free (fld d k)" if "k \<in> {''acknowledgement_id'', ''after_ledger_sha256'', ''plan_sha256''}" for k
    using assms(1) that
    by (auto simp: rv_inspection_def check_parts split: if_splits prod.splits dest!: ledger_digests_texts intro: float_free_str)
  then show ?thesis
    using assms(2,3) shape fields record' by (intro rv_fields_free [OF assms(2) shape]) auto
qed

lemma rv_acknowledged_free:
  assumes "rv_acknowledged params d = Inr ()" "rv_common d"
    "\<forall>k \<in> set ACK_TEXTS. is_str (fld params k)"
  shows "float_free d"
proof -
  have real: "real_value (fld d k)" for k using assms(2) real_value_fld by (simp add: rv_common_def)
  have texts: "is_str (fld params k)" if "k \<in> {''operation_id'', ''operation_runtime'', ''acknowledgement_id'', ''plan_sha256'',
      ''after_ledger_sha256'', ''expected_store_revision'', ''expected_context_revision''}" for k
    using assms(3) that by (auto simp: ACK_TEXTS_def)
  from assms(1) have shape: "is_dict d" "same_keys d (RV_COMMON @ [''operation_id'', ''operation_runtime'', ''acknowledgement_id'',
        ''plan_sha256'', ''acknowledged'', ''persistence'', ''ledger_revision'', ''store_revision'', ''context_revision'', ''record''])"
    and agree: "\<forall>k \<in> set [''operation_id'', ''operation_runtime'', ''acknowledgement_id'', ''plan_sha256''].
        py_eq (fld d k) (fld params k)"
    and revs: "py_eq (fld d ''ledger_revision'') (fld params ''after_ledger_sha256'')"
      "py_eq (fld d ''store_revision'') (fld params ''expected_store_revision'')"
      "py_eq (fld d ''context_revision'') (fld params ''expected_context_revision'')"
    and lits: "fld d ''acknowledged'' = JBool True" "is_lit (fld d ''persistence'') ''persistent''"
    and record': "rv_record (fld d ''record'') = Inr ()"
    unfolding rv_acknowledged_def check_parts gp_agree_ok gp_match_ok by blast+
  have "float_free (fld d k)" if "k \<in> {''operation_id'', ''operation_runtime'', ''acknowledgement_id'', ''plan_sha256''}" for k
    using agree that texts [of k] float_free_eq_str by auto
  moreover have "float_free (fld d ''ledger_revision'')" "float_free (fld d ''store_revision'')" "float_free (fld d ''context_revision'')"
    using revs texts float_free_eq_str by auto
  moreover have "float_free (fld d ''acknowledged'')" "float_free (fld d ''persistence'')" using lits by (auto simp: is_lit_def)
  moreover have "float_free (fld d ''record'')" using rv_record_free [OF record' real] .
  ultimately show ?thesis by (intro rv_fields_free [OF assms(2) shape]) auto
qed

lemma rv_data_free:
  assumes "rv_data ps (u ''ok'') d bound = Inr ()" "rv_check_request ps = Inr ()" "real_value d"
  shows "float_free d"
proof -
  obtain s where op: "fld ps ''op'' = JStr s" and fields: "rv_request_fields (JStr s) ps = Inr ()" "\<exists>r. fld ps ''runtime'' = JStr r"
    using assms(2) by (auto simp: rv_check_request_def check_parts is_str_iff)
  have err: "\<not> has d ''error''"
    using assms(1) by (auto simp: rv_data_def rv_error_def check_parts u_def)
  have common: "rv_common d"
    using assms(1,3) op fields(2) by (auto simp: rv_common_def RV_COMMON_def rv_data_def check_parts is_lit_def py_eq_JStr)
  show ?thesis
  proof (cases "s = u ''inspect''")
    case True
    then have revs: "rv_revisions d = Inr ()" "fld d ''ledger_format'' = JInt 1"
      and data: "if has ps ''cursor'' then rv_page ps d = Inr () else rv_inspection ps d = Inr ()"
      using assms(1) err op by (auto simp: rv_data_def check_parts is_lit_def split: if_splits)
    note meta = meta_free [OF revs]
    show ?thesis
    proof (cases "has ps ''cursor''")
      case True
      then show ?thesis using data rv_page_free common meta by auto
    next
      case False
      then have "is_str (fld ps ''operation_id'')"
        using fields(1) \<open>s = u ''inspect''\<close> same_keys_has [of ps "[''runtime'', ''op'', ''subject'', ''cursor'']" "''cursor''"]
        by (auto simp: rv_request_fields_def is_lit_def check_parts split: if_splits)
      then show ?thesis using False data rv_inspection_free common meta by auto
    qed
  next
    case False
    then have "rv_acknowledged ps d = Inr ()" using assms(1) err op by (auto simp: rv_data_def check_parts is_lit_def)
    then show ?thesis using rv_acknowledged_free common ack_fields_texts [OF fields(1) refl False] by blast
  qed
qed

section \<open>Validating again changes nothing\<close>

lemma parsed_again: "gp_object (Parsed v) m = Inr (v', raw) \<Longrightarrow> real_value v \<Longrightarrow> float_free v \<Longrightarrow> v' = v"
proof -
  assume o': "gp_object (Parsed v) m = Inr (v', raw)" and v: "real_value v" "float_free v"
  have "gp_encoded v = Inr raw" using o' by (auto simp: gp_object_def gp_wire_bytes_def ok_iff)
  from gp_encoded_loads [OF real_float_free_plain [OF v] this] gp_object_ok(3) [OF o'] show "v' = v" by simp
qed

lemma rv_request_ok:
  assumes "rv_validate_request w = Inr v"
  shows "is_dict v" "real_value v" "float_free v" "rv_check_request v = Inr ()"
proof -
  obtain raw where o': "gp_object w GP_ENVELOPE_BYTES = Inr (v, raw)" and c: "rv_check_request v = Inr ()"
    using assms by (auto simp: rv_validate_request_def check_parts)
  show "is_dict v" "real_value v" "rv_check_request v = Inr ()" using gp_object_ok [OF o'] c by blast+
  then show "float_free v" using rv_request_free by blast
qed

lemma rv_request_again: "rv_validate_request w = Inr v \<Longrightarrow> rv_validate_request (Parsed v) = Inr v' \<Longrightarrow> v' = v"
  using rv_request_ok [of w v] by (auto simp: rv_validate_request_def [of "Parsed v"] check_parts dest: parsed_again)

lemma rv_core_ok:
  assumes "rv_core params data rid rsp status m bound = Inr r" "gr_status r = u ''ok''"
  shows "\<exists>ps d. rv_validate_request params = Inr ps \<and> gr_data_of r = Inr d \<and> real_value d \<and> float_free d \<and>
    rv_data ps (u ''ok'') d (bound ps) = Inr () \<and> (\<exists>raw. gp_object data m = Inr (d, raw))"
proof -
  obtain ps d raw where p: "rv_validate_request params = Inr ps" "gp_object data m = Inr (d, raw)" "gr_data r = raw"
    "rv_data ps (u ''ok'') d (bound ps) = Inr ()"
    using assms by (auto simp: rv_core_def check_parts split: prod.splits)
  moreover have "real_value d" "gr_data_of r = Inr d" using gp_object_ok [OF p(2)] p(3) by (auto simp: gr_data_of_def)
  ultimately show ?thesis using rv_data_free [OF p(4) rv_request_ok(4) [OF p(1)]] by blast
qed

lemma checked_inspection_ok:
  assumes "checked_inspection v = Inr d"
  shows "real_value d" "float_free d" "\<exists>ps. rv_data ps (u ''ok'') d (\<lambda>_. Inr ()) = Inr ()"
proof -
  obtain params data r where r: "rv_core params data zero_id zero_id (lit ''ok'') GP_METADATA_BYTES (\<lambda>_ _. Inr ()) = Inr r"
    and d: "gr_data_of r = Inr d"
    using assms by (auto simp: checked_inspection_def check_parts split: prod.splits)
  have "gr_status r = u ''ok''" using r by (auto simp: rv_core_def check_parts lit_def split: prod.splits)
  from rv_core_ok [OF r this] d show "real_value d" "float_free d" "\<exists>ps. rv_data ps (u ''ok'') d (\<lambda>_. Inr ()) = Inr ()" by auto
qed

lemma checked_again: "checked_inspection v = Inr d \<Longrightarrow> checked_inspection (Data d) = Inr d' \<Longrightarrow> d' = d"
proof -
  assume v: "checked_inspection v = Inr d" and d: "checked_inspection (Data d) = Inr d'"
  note free = checked_inspection_ok [OF v]
  obtain d1 raw params r where o': "gp_object (Parsed d) GP_METADATA_BYTES = Inr (d1, raw)"
    and r: "rv_core params (Parsed d1) zero_id zero_id (lit ''ok'') GP_METADATA_BYTES (\<lambda>_ _. Inr ()) = Inr r" "gr_data_of r = Inr d'"
    using d by (auto simp: checked_inspection_def check_parts split: prod.splits)
  have "d1 = d" using parsed_again [OF o' free(1,2)] .
  have "gr_status r = u ''ok''" using r by (auto simp: rv_core_def check_parts lit_def split: prod.splits)
  from rv_core_ok [OF r(1) this] r(2) obtain raw' where "gp_object (Parsed d1) GP_METADATA_BYTES = Inr (d', raw')" by auto
  then show "d' = d" using \<open>d1 = d\<close> o' by simp
qed

text \<open>The request of an acknowledgement is the one made of the inspection, whatever the checks re-read.\<close>

lemma float_free_fld: "float_free v \<Longrightarrow> float_free (fld v k)"
  by (cases v) (auto simp: fld_def split: option.splits dest!: map_of_SomeD)

lemma ack_of_free: "real_value d \<Longrightarrow> float_free d \<Longrightarrow> real_value (ack_of d) \<and> float_free (ack_of d)"
  by (simp add: ack_of_def Let_def real_value_fld float_free_fld lit_def code_points_def u_def RV_REASON_def)

lemma ack_request_made:
  assumes "checked_inspection v = Inr original" "rv_ack_request (Data original) = Inr q"
  shows "q = ack_of original" "rv_validate_request (Parsed q) = Inr ps \<Longrightarrow> ps = q"
proof -
  obtain d where d: "checked_inspection (Data original) = Inr d" "rv_validate_request (Parsed (ack_of d)) = Inr q"
    using assms(2) by (auto simp: rv_ack_request_def check_parts)
  have "d = original" using checked_again [OF assms(1) d(1)] .
  with d(2) have q: "rv_validate_request (Parsed (ack_of original)) = Inr q" by simp
  then show "q = ack_of original"
    using ack_of_free [OF checked_inspection_ok(1,2) [OF assms(1)]]
    by (auto simp: rv_validate_request_def check_parts dest: parsed_again)
  show "rv_validate_request (Parsed q) = Inr ps \<Longrightarrow> ps = q" using rv_request_again [OF q] .
qed

section \<open>What an answer has established\<close>

lemma ledger_answer:
  assumes "ledger_rpc tables pr params ctx deadline st = (Inr res, st')"
  shows "\<exists>ps d. gr_data_of res = Inr d \<and> rv_data ps (u ''ok'') d (bound_to ctx ps) = Inr () \<and>
    rv_validate_request (Parsed params) = Inr ps"
proof -
  from assms obtain w where "rpc (recovery_protocol tables) pr params ctx deadline (lg_wire st) = (Inr res, w)"
    by (auto simp: ledger_rpc_def split: prod.splits)
  from rpc_answer [OF this] obtain ps b rid where
    ps: "request_params (recovery_protocol tables) pr params = Inr ps"
    and resp: "rv_validate_response tables (Parsed ps) (Raw b) (JStr rid) ctx (pr_metadata pr) = Inr res"
    and ok: "gr_status res = u ''ok''"
    by (auto simp: recovery_protocol_def)
  have req: "rv_validate_request (Parsed params) = Inr ps"
    using ps by (auto simp: request_params_def recovery_protocol_def check_parts split: option.splits)
  obtain data i status where "rv_core (Parsed ps) (Raw data) (JStr rid) i status (pr_metadata pr) (bound_to ctx) = Inr res"
    using resp by (auto simp: rv_validate_response_def rv_validate_result_def check_parts split: prod.splits)
  from rv_core_ok [OF this ok] obtain ps' d where "rv_validate_request (Parsed ps) = Inr ps'" "gr_data_of res = Inr d"
    "rv_data ps' (u ''ok'') d (bound_to ctx ps') = Inr ()" by blast
  with rv_request_again [OF req] req show ?thesis by blast
qed

end
