(* ===== verification/GlobalRecoveryProps.thy ===== *)
theory GlobalRecoveryProps
  imports GlobalRecoveryAnswers
begin

text \<open>
  The properties of the recovery peer of \<open>src/cli/global_favorites_recovery.py\<close>: a plan is acknowledged once,
  a listing of the ledger is complete, and what an acknowledgement reports rests on its evidence.
\<close>

section \<open>Sessions\<close>

datatype ledger_command = Listing | Inspecting json | Acknowledging inspection json

fun ledger_does :: "unicode_tables \<Rightarrow> peer \<Rightarrow> ledger_command \<Rightarrow> ledger_state \<Rightarrow> ledger_state" where
  "ledger_does tables pr Listing st = snd (ledger_list tables pr st)"
| "ledger_does tables pr (Inspecting i) st = snd (ledger_inspect tables pr i st)"
| "ledger_does tables pr (Acknowledging v confirmation) st = snd (ledger_acknowledge tables pr v confirmation st)"

definition ledger_session :: "unicode_tables \<Rightarrow> peer \<Rightarrow> wire_state \<Rightarrow> save_answer list \<Rightarrow> ledger_command list \<Rightarrow> ledger_state" where
  "ledger_session tables pr w saves cmds = fold (ledger_does tables pr) cmds
     \<lparr>lg_wire = w, lg_attempted = [], lg_busy = False, lg_log = [], lg_saves = saves\<rparr>"

lemma ledger_does_sound: "ledger_sound st \<Longrightarrow> ledger_sound (ledger_does tables pr cmd st)"
  using ledger_log.kept_list ledger_log.kept_inspect ledger_acknowledge_sound
  by (cases cmd) (auto simp: keeps_def)

text \<open>
  C8: Whatever a session with the recovery ledger does, in any order and however often, each acknowledgement
  it asks follows directly on the storage having kept that very request, and no two acknowledgements it asks
  are for one plan.
\<close>

theorem acknowledged_at_most_once:
  "acks_once (lg_log (ledger_session tables pr w saves cmds))"
proof -
  have "ledger_sound st \<Longrightarrow> ledger_sound (fold (ledger_does tables pr) cmds st)" for st
    by (induction cmds arbitrary: st) (auto simp: ledger_does_sound)
  then show ?thesis by (simp add: ledger_session_def ledger_sound_def)
qed

section \<open>Listings\<close>

lemma rv_data_page:
  assumes "rv_data params (u ''ok'') d bound = Inr ()" "has d ''records''"
  shows "rv_page params d = Inr ()" "rv_revisions d = Inr ()"
proof -
  have no: "\<not> same_keys d ks" if "''records'' \<notin> set ks" for ks
    using assms(2) that same_keys_mem by blast
  have "rv_error (u ''ok'') d \<noteq> Inr ()" "rv_acknowledged params d \<noteq> Inr ()" "rv_inspection params d \<noteq> Inr ()"
    unfolding rv_error_def rv_acknowledged_def rv_inspection_def
    by (simp_all add: seqR_Cons_ok gp_shape_ok no RV_COMMON_def INSPECT_META_def RV_REVISIONS_def)
  then show "rv_page params d = Inr ()" "rv_revisions d = Inr ()"
    using assms(1) by (auto simp: rv_data_def bindR_ok seqR_Cons_ok on_ok split: if_splits)
qed

definition ledger_head :: "json \<Rightarrow> bool" where
  "ledger_head f \<longleftrightarrow> rv_revisions f = Inr () \<and> (\<exists>n. fld f ''total'' = JInt n \<and> n \<le> MAX_RECORDS)"

lemma rv_page_head:
  assumes "rv_page params d = Inr ()"
  shows "\<exists>n. fld d ''total'' = JInt n \<and> n \<le> MAX_RECORDS" "\<forall>row \<in> set (list_of (fld d ''records'')). rv_record row = Inr ()"
  using assms by (auto simp: rv_page_def check_parts)

lemma record_ids_sorted: "xs = sorted_set xs \<Longrightarrow> sorted_wrt (<) xs"
  by (metis sorted_set_def distinct_sort distinct_remdups sorted_sort strict_sorted_iff)

lemma ledger_pages_run:
  "ledger_pages tables pr n cursor first rows st = (Inr rep, st') \<Longrightarrow> \<forall>row \<in> set rows. rv_record row = Inr () \<Longrightarrow>
     (case first of None \<Rightarrow> True | Some f \<Rightarrow> ledger_head f) \<Longrightarrow>
     \<exists>f rows'. rep = complete_ledger pr f rows' \<and> ledger_head f \<and> fld f ''total'' = JInt (plen rows') \<and>
       sorted_wrt (<) (record_ids rows') \<and> (\<forall>row \<in> set rows'. rv_record row = Inr ())"
proof (induction n arbitrary: cursor first rows st)
  case 0
  then show ?case by (simp add: raiseS_def)
next
  case (Suc n)
  let ?f = "\<lambda>d. case first of None \<Rightarrow> d | Some f \<Rightarrow> f"
  obtain res s1 d where rpc: "ledger_rpc tables pr (page_request pr cursor) None (ws_deadline (lg_wire st)) st = (Inr res, s1)"
    and d: "gr_data_of res = Inr d" "has d ''records''"
    and rest: "(if fld d ''next_cursor'' = JNull then
       bindS (liftS (on (?f d) ''total'' (\<lambda>t. check (remote ''invalid_response'')
         (py_eq (JInt (plen (rows @ list_of (fld d ''records'')))) t \<and>
          record_ids (rows @ list_of (fld d ''records'')) = sorted_set (record_ids (rows @ list_of (fld d ''records''))))))) (\<lambda>_.
         returnS (complete_ledger pr (?f d) (rows @ list_of (fld d ''records''))))
     else ledger_pages tables pr n (fld d ''next_cursor'') (Some (?f d)) (rows @ list_of (fld d ''records''))) s1 = (Inr rep, st')"
    using Suc.prems(1) by (auto simp: run_iff ok_iff Let_def)
  obtain ps where page: "rv_page ps d = Inr ()" "rv_revisions d = Inr ()"
    using ledger_answer [OF rpc] d rv_data_page by force
  have head: "ledger_head (?f d)" using Suc.prems(3) rv_page_head(1) [OF page(1)] page(2) by (auto simp: ledger_head_def split: option.splits)
  have rows: "\<forall>row \<in> set (rows @ list_of (fld d ''records'')). rv_record row = Inr ()"
    using Suc.prems(2) rv_page_head(2) [OF page(1)] by auto
  show ?case
  proof (cases "fld d ''next_cursor'' = JNull")
    case True
    obtain t where "fld (?f d) ''total'' = JInt t" using head by (auto simp: ledger_head_def)
    then show ?thesis
      using rest True head rows
      by (intro exI [of _ "?f d"] exI [of _ "rows @ list_of (fld d ''records'')"]) (auto simp: run_iff ok_iff intro: record_ids_sorted)
  next
    case False
    then show ?thesis using rest Suc.IH [of "fld d ''next_cursor''" "Some (?f d)"] head rows by auto
  qed
qed

lemma ledger_pages_log:
  "ledger_pages tables pr n cursor first rows st = (r, st') \<Longrightarrow>
     \<exists>asked. lg_log st' = map Asked asked @ lg_log st \<and> length asked \<le> n \<and> list_all (\<lambda>q. \<exists>c. q = page_request pr c) asked"
proof (induction n arbitrary: cursor first rows st)
  case 0
  then show ?case by (auto simp: raiseS_def)
next
  case (Suc n)
  obtain r1 s1 where rpc: "ledger_rpc tables pr (page_request pr cursor) None (ws_deadline (lg_wire st)) st = (r1, s1)" by fastforce
  have log: "lg_log s1 = Asked (page_request pr cursor) # lg_log st" using ledger_rpc_log [OF rpc] by simp
  have "st' = s1 \<or> (\<exists>c f rows'. ledger_pages tables pr n c f rows' s1 = (r, st'))"
    using Suc.prems rpc
    by (auto simp: bindS_def run_simps Let_def split: sum.splits if_splits)
  then show ?case
  proof (elim disjE exE)
    assume "st' = s1"
    then show ?thesis using log by (intro exI [of _ "[page_request pr cursor]"]) auto
  next
    fix c f rows' assume "ledger_pages tables pr n c f rows' s1 = (r, st')"
    from Suc.IH [OF this] obtain asked where "lg_log st' = map Asked asked @ lg_log s1" "length asked \<le> n"
      "list_all (\<lambda>q. \<exists>c. q = page_request pr c) asked" by blast
    then show ?thesis using log by (intro exI [of _ "asked @ [page_request pr cursor]"]) auto
  qed
qed

lemma complete_ledger_keeps:
  "k \<in> set (INSPECT_META @ [''total'']) \<Longrightarrow> fld (complete_ledger pr f rows) k = fld f k \<and> has (complete_ledger pr f rows) k"
  by (auto simp: complete_ledger_def INSPECT_META_def RV_REVISIONS_def fld_def u_def has_def keys_of_def)

lemma complete_ledger_fields:
  "fld (complete_ledger pr f rows) ''records'' = JArr rows" "fld (complete_ledger pr f rows) ''total'' = fld f ''total''"
  "rv_revisions f = Inr () \<Longrightarrow> rv_revisions (complete_ledger pr f rows) = Inr ()"
proof -
  show "fld (complete_ledger pr f rows) ''records'' = JArr rows"
    by (simp add: complete_ledger_def INSPECT_META_def RV_REVISIONS_def fld_def u_def)
  show "fld (complete_ledger pr f rows) ''total'' = fld f ''total''" by (simp add: complete_ledger_keeps)
  have keeps: "\<forall>k \<in> set RV_REVISIONS. fld (complete_ledger pr f rows) k = fld f k \<and> has (complete_ledger pr f rows) k"
    by (simp add: complete_ledger_keeps INSPECT_META_def)
  show "rv_revisions f = Inr () \<Longrightarrow> rv_revisions (complete_ledger pr f rows) = Inr ()"
    using keeps by (simp add: rv_revisions_def on_has RV_REVISIONS_def on_ok seqR_Cons_ok forR_ok split: if_splits)
qed

text \<open>
  C12: A listing of the recovery ledger asks at most two pages and nothing else. If it returns, its report is
  complete: it holds as many records as its total says, at most 32, every one a valid record, in strictly
  ascending order of their operation ids, under valid revisions.
\<close>

theorem ledger_listing_complete:
  "case ledger_list tables pr st of (r, st') \<Rightarrow>
     (\<exists>asked. lg_log st' = map Asked asked @ lg_log st \<and> length asked \<le> 2 \<and> list_all (\<lambda>q. \<exists>c. q = page_request pr c) asked) \<and>
     (case r of Inl _ \<Rightarrow> True | Inr rep \<Rightarrow> \<exists>rows. fld rep ''records'' = JArr rows \<and> fld rep ''total'' = JInt (plen rows) \<and>
        plen rows \<le> MAX_RECORDS \<and> sorted_wrt (<) (record_ids rows) \<and> list_all (\<lambda>row. rv_record row = Inr ()) rows \<and>
        rv_revisions rep = Inr ())"
proof -
  obtain r st' where run: "ledger_pages tables pr 2 JNull None [] st = (r, st')" by fastforce
  show ?thesis
    using run ledger_pages_log [OF run] ledger_pages_run [of tables pr 2 JNull None "[]" st _ st']
    by (auto simp: ledger_list_def list_all_iff complete_ledger_fields ledger_head_def split: sum.split)
qed

section \<open>Acknowledgements\<close>

text \<open>What a report says, on the evidence it gives.\<close>

definition report_rests :: "json \<Rightarrow> json \<Rightarrow> acknowledgement \<Rightarrow> bool" where
  "report_rests original request k \<longleftrightarrow>
     ak_status k = ''unknown'' \<and> ak_evidence k = None \<or>
     (\<exists>d. ak_evidence k = Some d \<and> py_eq (fld d ''record'') (audited (fld original ''record'') request) \<and>
       (ak_status k = ''acknowledgement_observed'' \<or>
        ak_status k = ''acknowledgement_confirmed'' \<and> rv_acknowledged request d = Inr ()))"

lemma confirmed_rests:
  assumes "checked_inspection v = Inr original" "rv_ack_request (Data original) = Inr request"
    "ledger_rpc tables pr request (Some original) until st = (Inr res, st')" "gr_data_of res = Inr d"
  shows "rv_acknowledged request d = Inr ()" "py_eq (fld d ''record'') (audited (fld original ''record'') request)"
proof -
  obtain ps where ps: "rv_validate_request (Parsed request) = Inr ps" "rv_data ps (u ''ok'') d (bound_to (Some original) ps) = Inr ()"
    using ledger_answer [OF assms(3)] assms(4) by auto
  have same: "ps = request" using ack_request_made(2) [OF assms(1,2) ps(1)] .
  have "is_ack request" using ack_request_made(1) [OF assms(1,2)] ack_of_is_ack by simp
  then have op: "\<not> is_lit (fld request ''op'') ''inspect''" by (auto simp: is_ack_def is_lit_def u_def)
  have err: "\<not> has d ''error''"
    using ps(2) by (auto simp: rv_data_def rv_error_def check_parts u_def)
  then show "rv_acknowledged request d = Inr ()"
    using ps(2) op unfolding same by (auto simp: rv_data_def check_parts)
  have "bound_to (Some original) request d = Inr ()"
    using ps(2) err unfolding same by (auto simp: rv_data_def check_parts)
  then obtain o2 where "checked_inspection (Data original) = Inr o2" "py_eq (fld d ''record'') (audited (fld o2 ''record'') request)"
    by (auto simp: bound_to_def check_parts gp_match_ok)
  then show "py_eq (fld d ''record'') (audited (fld original ''record'') request)"
    using checked_again [OF assms(1)] by blast
qed

lemma ledger_ask_rests:
  assumes "checked_inspection v = Inr original" "rv_ack_request (Data original) = Inr request"
  shows "gives (report_rests original request) (ledger_ask tables pr original request base until)"
  unfolding gives_def
proof (intro allI impI)
  fix st k st'
  assume "ledger_ask tables pr original request base until st = (Inr k, st')"
  then show "report_rests original request k"
    using confirmed_rests [OF assms]
    by (auto simp: ledger_ask_def ledger_observe_def run_iff ok_iff report_rests_def ack_report_def split: option.splits if_splits)
qed

text \<open>
  C10: What a call of \<open>acknowledge\<close> reports. Its request is the one made of the inspection, for this runtime and
  the plan the user confirmed. A blocked report means that no request was asked. Any other says \<open>unknown\<close>
  without evidence, or gives as evidence an answer whose record is the inspected record with the audit of
  this request; a confirmation is moreover an accepted answer to this very acknowledgement.
\<close>

theorem acknowledgement_rests_on_evidence:
  "case ledger_acknowledge tables pr v confirmation st of (Inl e, st') \<Rightarrow> True | (Inr k, st') \<Rightarrow>
     \<exists>original request. checked_inspection v = Inr original \<and> request = ack_of original \<and>
       fld request ''runtime'' = JStr (pr_runtime pr) \<and> confirmation = fld request ''plan_sha256'' \<and>
       (ak_status k = ''blocked'' \<and> (lg_log st' = lg_log st \<or> lg_log st' = Kept request # lg_log st) \<or>
        report_rests original request k)"
proof -
  obtain r st' where run: "ledger_acknowledge tables pr v confirmation st = (r, st')" by fastforce
  show ?thesis
  proof (cases r)
    case (Inr k)
    obtain original request base t where
      c: "checked_inspection v = Inr original" "rv_ack_request (Data original) = Inr request"
      and own: "fld request ''runtime'' = JStr (pr_runtime pr)" "confirmation = fld request ''plan_sha256''"
      and locked: "ledger_locked tables pr original request base (st\<lparr>lg_busy := True\<rparr>) = (Inr k, t)" "st' = t\<lparr>lg_busy := False\<rparr>"
      using run Inr
      by (auto simp: ledger_acknowledge_def run_iff check_parts finallyS_def is_str_iff py_eq_JStr
          split: if_splits prod.splits)
    from locked(1) have "ak_status k = ''blocked'' \<and> (lg_log st' = lg_log st \<or> lg_log st' = Kept request # lg_log st) \<or>
        report_rests original request k"
    proof (cases rule: ledger_locked_runs)
      case stopped
      then show ?thesis using locked(2) by auto
    next
      case (asked s until)
      then show ?thesis using givesD [OF ledger_ask_rests [OF c]] by blast
    qed
    then show ?thesis using run Inr c own ack_request_made(1) [OF c] by auto
  qed (simp add: run)
qed

end
