(* ===== verification/GlobalRecoveryErrors.thy ===== *)
theory GlobalRecoveryErrors
  imports GlobalRecoveryAnswers FavProtocolClosed
begin

text \<open>
  The only exceptions of the recovery protocol are its own: whatever the wire holds, no lookup, no conversion
  and no decoder error leaves the validation of a request or of a result.
\<close>

section \<open>The primitives of the global protocol\<close>

abbreviation global_protocol_only :: "'a result \<Rightarrow> bool" where
  "global_protocol_only \<equiv> raises_only is_GlobalProtocolError"

lemma global_protocol_primitives [raises]:
  "global_protocol_only (gp_require c)" "global_protocol_only (gp_match c)" "global_protocol_only (gp_shape v ks)"
  "global_protocol_only (gp_integer v lo hi)" "global_protocol_only (gp_pattern v P)" "global_protocol_only (check gp_oversized c)"
  by (simp_all add: gp_require_def gp_match_def gp_shape_def gp_integer_def gp_pattern_def raises)

lemma gp_encoded_raises: "raises_only (\<lambda>e. e = ValueError \<or> e = UnicodeError) (gp_encoded v)"
  unfolding gp_encoded_def
  by (intro raises raises_only_mono [OF dumps_compact_raises] raises_only_mono [OF utf8_encode_raises]) auto

lemma gp_walk_closed: "global_protocol_only (gp_walk n pending nodes)"
proof (induction n pending nodes rule: gp_walk.induct)
  case (2 n v depth pending nodes)
  then show ?case by (subst gp_walk.simps) (intro raises; simp add: ok_iff)
qed simp

lemma depth_scan_closed: "global_protocol_only (depth_scan (GlobalProtocolError c) n raw)"
  unfolding depth_scan_def by (intro raises_only_bindR raises) (auto simp: depth_step_def depth_char_def split: prod.splits)

lemma gp_object_closed [raises]: "global_protocol_only (gp_object w n)"
proof -
  let ?P = "\<lambda>e. is_GlobalProtocolError e \<or> e = ValueError \<or> e = UnicodeError"
  have enc: "raises_only ?P (gp_encoded v)" for v by (rule raises_only_mono [OF gp_encoded_raises]) auto
  moreover have own: "raises_only ?P m" if "global_protocol_only m" for m :: "'a result"
    using that by (rule raises_only_mono) auto
  moreover have "raises_only ?P (utf8_decode raw)" "raises_only ?P (loads t)" for raw t
    by (auto intro: raises_only_mono [OF utf8_decode_raises] raises_only_mono [OF loads_raises])
  moreover have "raises_only ?P (gp_wire_bytes w n)"
    unfolding gp_wire_bytes_def using enc own [OF gp_walk_closed] own [OF global_protocol_primitives(1)]
    by (auto split: wire.split intro!: raises_only_bindR)
  ultimately show ?thesis
    unfolding gp_object_def
    by (intro raises_only_rethrow raises_only_mono [OF raises_only_bindR [where P = ?P]] raises_only_bindR)
      (auto simp: json_errors_def intro!: raises_only_bindR own [OF depth_scan_closed] own [OF global_protocol_primitives(1)]
        raises_only_check)
qed

section \<open>Digests and requests\<close>

lemma rv_digest_ascii: "\<forall>v \<in> set vs. ascii_json v \<Longrightarrow> \<exists>b. rv_digest vs = Inr (sha256_hex b)"
  using p_encoded_ascii [of "JArr vs"] by (auto simp: rv_digest_def p_encoded_def gp_encoded_def)

lemma ack_values_ascii:
  "ack_digest runtime oper original_runtime entry ledger store ctx backend = Inr (a, vs) \<Longrightarrow>
     (\<forall>v \<in> set vs. ascii_json v) \<and> ascii_chars a"
  by (auto simp: ack_digest_def Let_def check_parts lit_def RV_REASON_def u_def rv_digest_def sha256_ascii
      digest_ascii uuid4_ascii runtime_ascii)

lemma ack_digest_closed [raises]: "global_protocol_only (ack_digest runtime oper original_runtime entry ledger store ctx backend)"
proof -
  have "\<exists>b. rv_digest (lit ''ottplay-favorites-global-recovery-ack-v1'' # [runtime, lit ''global'', oper, original_runtime, entry,
      ledger, store, ctx, backend, lit RV_REASON]) = Inr (sha256_hex b)"
    if "gp_pattern runtime runtime_pat = Inr ()" "gp_pattern original_runtime runtime_pat = Inr ()" "gp_pattern oper uuid4_pat = Inr ()"
      "forR (\<lambda>v. gp_pattern v digest_pat) [entry, ledger, store, ctx, backend] = Inr ()"
    using that by (intro rv_digest_ascii) (auto simp: check_parts lit_def RV_REASON_def u_def digest_ascii uuid4_ascii runtime_ascii)
  then show ?thesis
    unfolding ack_digest_def Let_def by (intro raises) (auto simp: seqR_Cons_ok seqR_Nil_ok)
qed

lemma ledger_digests_closed [raises]:
  "global_protocol_only (ledger_digests runtime oper original_runtime entry ledger store ctx backend after')"
proof -
  have "\<exists>b. rv_digest (lit ''ottplay-favorites-global-recovery-plan-v1'' # vs @ [JStr a, after']) = Inr (sha256_hex b)"
    if "ack_digest runtime oper original_runtime entry ledger store ctx backend = Inr (a, vs)" "gp_pattern after' digest_pat = Inr ()" for a vs
    using ack_values_ascii [OF that(1)] that(2)
    by (intro rv_digest_ascii) (auto simp: check_parts lit_def u_def digest_ascii)
  then show ?thesis
    unfolding ledger_digests_def by (auto simp: seqR_Cons_ok seqR_Nil_ok intro!: raises)
qed

lemma rv_revisions_closed [raises]: "\<forall>k \<in> set RV_REVISIONS. has v k \<Longrightarrow> global_protocol_only (rv_revisions v)"
  unfolding rv_revisions_def by (intro raises) (auto simp: RV_REVISIONS_def)

lemma rv_cursor_closed [raises]: "global_protocol_only (rv_cursor v)"
  unfolding rv_cursor_def
  by (intro raises) (auto simp: gp_shape_ok RV_REVISIONS_def intro: same_keys_has)

lemma request_digests_closed [raises]: "global_protocol_only (request_digests v)"
  unfolding request_digests_def by (rule ledger_digests_closed)

lemma rv_request_fields_closed [raises]: "global_protocol_only (rv_request_fields op v)"
  unfolding rv_request_fields_def
  by (intro raises; (auto simp: gp_shape_ok ACK_FIELDS_def split: prod.splits intro!: raises intro: same_keys_has)?)

lemma fld_has: "fld v k \<noteq> JNull \<Longrightarrow> has v k"
  by (auto simp: has_def fld_def keys_of_def split: option.splits dest!: map_of_SomeD)
    (metis fst_conv image_eqI)

lemma rv_check_request_closed [raises]: "is_dict v \<Longrightarrow> global_protocol_only (rv_check_request v)"
  unfolding rv_check_request_def by (intro raises) (auto simp: check_parts intro: fld_has)

lemma rv_validate_request_closed [raises]: "global_protocol_only (rv_validate_request w)"
proof -
  have env: "global_protocol_only (rethrow is_TransferError gp_invalid (request_envelopes RV_ACTION v None))" for v
    by (intro raises raises_only_mono [OF request_envelopes_raises]) auto
  show ?thesis
    unfolding rv_validate_request_def
    by (intro raises_only_bindR gp_object_closed) (auto dest: gp_object_ok intro!: raises_only_bindR env rv_check_request_closed global_protocol_primitives(6))
qed

section \<open>Answers\<close>

lemma rv_audit_closed [raises]: "global_protocol_only (rv_audit_ok v audit)"
  unfolding rv_audit_ok_def
  by (intro raises; (auto simp: gp_shape_ok AUDIT_FIELDS_def split: prod.splits intro!: raises intro: same_keys_has)?)

lemma rv_record_closed [raises]: "global_protocol_only (rv_record v)"
  unfolding rv_record_def
  by (intro raises; auto simp: gp_shape_ok RECORD_FIELDS_def intro: same_keys_has)

lemma rv_page_closed: "has params ''cursor'' \<Longrightarrow> global_protocol_only (rv_page params d)"
proof -
  have place: "global_protocol_only (rv_page_place cursor d ids)" for cursor ids
    unfolding rv_page_place_def Let_def by (intro raises)
  have page_end: "global_protocol_only (rv_page_end d ids remains)" if "has d ''next_cursor''" "has d ''ledger_revision''" for ids remains
    unfolding rv_page_end_def using that by (intro raises)
  show "has params ''cursor'' \<Longrightarrow> global_protocol_only (rv_page params d)"
    unfolding rv_page_def Let_def
    by (intro raises raises_only_bindR place page_end)
      (auto simp: check_parts INSPECT_META_def RV_REVISIONS_def intro: same_keys_has)
qed

lemma rv_inspection_closed: "has params ''operation_id'' \<Longrightarrow> global_protocol_only (rv_inspection params d)"
  unfolding rv_inspection_def
  by (intro raises; (auto simp: gp_shape_ok split: prod.splits intro!: raises intro: same_keys_has)?)

lemma rv_acknowledged_closed: "set ACK_FIELDS \<subseteq> {k. has params k} \<Longrightarrow> global_protocol_only (rv_acknowledged params d)"
proof -
  have agree: "has v k \<Longrightarrow> has w l \<Longrightarrow> global_protocol_only (gp_agree v k w l)" for v k w l
    unfolding gp_agree_def by (intro raises)
  show "set ACK_FIELDS \<subseteq> {k. has params k} \<Longrightarrow> global_protocol_only (rv_acknowledged params d)"
    unfolding rv_acknowledged_def
    by (intro raises agree) (auto simp: gp_shape_ok ACK_FIELDS_def intro: same_keys_has)
qed

lemma rv_error_closed: "global_protocol_only (rv_error status d)"
  unfolding rv_error_def by (intro raises) (auto simp: gp_shape_ok intro: same_keys_has)

lemma recovery_request_has:
  assumes "rv_check_request ps = Inr ()"
  shows "has ps ''op''" "has ps ''runtime''"
    "is_lit (fld ps ''op'') ''inspect'' \<Longrightarrow> has ps ''cursor'' \<or> has ps ''operation_id''"
    "\<not> is_lit (fld ps ''op'') ''inspect'' \<Longrightarrow> set ACK_FIELDS \<subseteq> {k. has ps k}"
proof -
  have f: "has ps ''op''" "rv_request_fields (fld ps ''op'') ps = Inr ()" using assms by (auto simp: rv_check_request_def check_parts)
  then show "has ps ''op''" by simp
  show "is_lit (fld ps ''op'') ''inspect'' \<Longrightarrow> has ps ''cursor'' \<or> has ps ''operation_id''"
    using f(2) by (auto simp: rv_request_fields_def check_parts split: if_splits)
  show "\<not> is_lit (fld ps ''op'') ''inspect'' \<Longrightarrow> set ACK_FIELDS \<subseteq> {k. has ps k}"
    using f(2) by (auto simp: rv_request_fields_def check_parts intro: same_keys_has)
  show "has ps ''runtime''"
    using f(2) by (auto simp: rv_request_fields_def check_parts ACK_FIELDS_def split: if_splits intro: same_keys_has)
qed

lemma rv_data_closed:
  assumes "rv_check_request ps = Inr ()" "is_dict d"
    "has d ''record'' \<or> is_lit (fld ps ''op'') ''inspect'' \<Longrightarrow> global_protocol_only (bound d)"
  shows "global_protocol_only (rv_data ps status d bound)"
proof -
  note ps = recovery_request_has [OF assms(1)]
  have bound: "global_protocol_only (bound d)"
    if "on ps ''op'' (\<lambda>op. if is_lit op ''inspect'' then X else rv_acknowledged ps d) = Inr ()" for X
    using that assms(3) by (auto simp: check_parts rv_acknowledged_def split: if_splits)
  show ?thesis
    unfolding rv_data_def
    by (intro raises rv_error_closed rv_page_closed rv_inspection_closed rv_acknowledged_closed; (rule bound, assumption)?)
      (use ps assms(2) in \<open>auto simp: check_parts list_all_iff\<close>)
qed

lemma rv_core_closed:
  assumes "\<And>ps d. rv_validate_request params = Inr ps \<Longrightarrow> is_dict d \<Longrightarrow> has d ''record'' \<or> is_lit (fld ps ''op'') ''inspect'' \<Longrightarrow>
      global_protocol_only (bound ps d)"
  shows "global_protocol_only (rv_core params data rid rsp status m bound)"
  unfolding rv_core_def
  using assms rv_request_ok(4) gp_object_ok(1)
  by (auto intro!: raises_only_bindR raises rv_data_closed split: prod.splits)
    (auto simp: rv_validate_request_def check_parts dest: gp_object_ok(6))

lemma checked_inspection_closed [raises]: "global_protocol_only (checked_inspection (Data d))"
proof -
  have "global_protocol_only (gr_data_of r)" if "rv_core params data rid rsp (lit ''ok'') m (\<lambda>_ _. Inr ()) = Inr r" for params data rid rsp m r
  proof -
    have "gr_status r = u ''ok''" using that by (auto simp: rv_core_def check_parts lit_def split: prod.splits)
    from rv_core_ok [OF that this] show ?thesis by auto
  qed
  then show ?thesis
    unfolding checked_inspection_def
    by (auto intro!: raises_only_bindR raises rv_core_closed split: prod.splits dest: gp_object_ok(1))
qed

text \<open>
  What was checked once is an inspection of one operation when it is checked again: its operation id is a text,
  so the request that is rebuilt for it names that operation.
\<close>

lemma inspected_fields:
  assumes "checked_inspection v = Inr c" "checked_inspection (Data c) = Inr d"
  shows "d = c" "has c ''acknowledge_allowed''" "has c ''record''"
proof -
  show same: "d = c" using checked_again [OF assms] .
  note free = checked_inspection_ok [OF assms(1)]
  let ?q = "inspect_params (fld c ''runtime'') (fld c ''operation_id'')"
  obtain c1 raw r where c1: "gp_object (Parsed c) GP_METADATA_BYTES = Inr (c1, raw)"
    and r: "rv_core (Parsed (inspect_params (fld c1 ''runtime'') (fld c1 ''operation_id''))) (Parsed c1) zero_id zero_id (lit ''ok'')
       GP_METADATA_BYTES (\<lambda>_ _. Inr ()) = Inr r" and d: "gr_data_of r = Inr d"
    using assms(2) by (auto simp: checked_inspection_def check_parts split: prod.splits)
  have c: "c1 = c" using parsed_again [OF c1 free(1,2)] .
  have "gr_status r = u ''ok''" using r by (auto simp: rv_core_def check_parts lit_def split: prod.splits)
  from rv_core_ok [OF r this] d obtain ps where ps: "rv_validate_request (Parsed ?q) = Inr ps" "rv_data ps (u ''ok'') d (\<lambda>_. Inr ()) = Inr ()"
    unfolding c by auto
  have "real_value ?q \<and> float_free ?q"
    using free(1,2) by (simp add: inspect_params_def lit_def code_points_def u_def real_value_fld float_free_fld)
  then have q: "ps = ?q" using ps(1) by (auto simp: rv_validate_request_def check_parts dest: parsed_again)
  have "has ?q ''operation_id''" "is_lit (fld ?q ''op'') ''inspect''"
    by (simp_all add: inspect_params_def has_def keys_of_def fld_def is_lit_def lit_def u_def)
  moreover have "\<not> has ?q ''cursor''" by (simp add: inspect_params_def has_def keys_of_def u_def)
  moreover have "\<not> has d ''error''" using ps(2) by (auto simp: rv_data_def rv_error_def check_parts u_def)
  ultimately have "rv_inspection ?q d = Inr ()"
    using ps(2) unfolding q by (auto simp: rv_data_def check_parts)
  then show "has c ''acknowledge_allowed''" "has c ''record''"
    unfolding same by (auto simp: rv_inspection_def check_parts)
qed

lemma rv_ack_request_closed: "checked_inspection v = Inr c \<Longrightarrow> global_protocol_only (rv_ack_request (Data c))"
  unfolding rv_ack_request_def
  by (intro raises) (auto dest: inspected_fields)

lemma py_eq_text:
  assumes "py_eq v w" "has v k" "is_dict v" "fld w k = JStr s"
  shows "fld v k = JStr s"
proof -
  obtain kv kw where v: "v = JObj kv" "w = JObj kw" using assms(1,3) by (cases v; cases w) auto
  obtain x where x: "map_of kv (u k) = Some x" using assms(2) v by (cases "map_of kv (u k)") (auto simp: has_def keys_of_def map_of_eq_None_iff)
  then obtain y where "map_of kw (u k) = Some y" "py_eq x y"
    using assms(1) v bspec [OF _ map_of_SomeD [OF x], of "\<lambda>p. case map_of kw (fst p) of None \<Rightarrow> False | Some y \<Rightarrow> py_eq (snd p) y"]
    by (auto split: option.splits)
  then show ?thesis using assms(4) v x by (simp add: fld_def py_eq_JStr)
qed

lemma bound_closed:
  assumes "checked_inspection v = Inr c" "rv_check_request ps = Inr ()" "is_dict ps"
    "has d ''record'' \<or> is_lit (fld ps ''op'') ''inspect''"
  shows "global_protocol_only (bound_to (Some c) ps d)"
proof -
  have no: "\<not> is_lit (fld ps ''op'') ''inspect''" if "rv_ack_request (Data c) = Inr q" "py_eq ps q" for q
  proof -
    have "fld q ''op'' = JStr (u ''acknowledge'')"
      using ack_of_is_ack ack_request_made(1) [OF assms(1) that(1)] by (auto simp: is_ack_def is_lit_def)
    then have "fld ps ''op'' = JStr (u ''acknowledge'')"
      using py_eq_text [OF that(2) recovery_request_has(1) [OF assms(2)] assms(3)] by blast
    then show ?thesis by (simp add: is_lit_def u_def)
  qed
  show ?thesis
    unfolding bound_to_def option.case
    using assms(4) inspected_fields [OF assms(1)] rv_ack_request_closed [OF assms(1)] no
    by (intro raises raises_only_bindR) (auto simp: gp_match_ok)
qed

text \<open>
  C22: The recovery protocol raises nothing but its own error: not for a request, not for the audit of one, not for a
  result without a context, and, when the inspection that serves as the context has passed its own check, not
  for the acknowledgement made of it nor for a result bound to it.
\<close>

theorem recovery_errors_closed:
  "global_protocol_only (rv_validate_request w) \<and> global_protocol_only (rv_recovery_audit w) \<and>
   global_protocol_only (rv_validate_result w data rid rsp status None m) \<and>
   (case checked_inspection v of Inl _ \<Rightarrow> True | Inr c \<Rightarrow>
      global_protocol_only (rv_ack_request (Data c)) \<and>
      global_protocol_only (rv_validate_result w data rid rsp status (Some c) m))"
proof (intro conjI)
  show "global_protocol_only (rv_validate_request w)" by (rule raises)
  show "global_protocol_only (rv_recovery_audit w)"
    unfolding rv_recovery_audit_def by (intro raises) (auto dest: rv_request_ok(4) recovery_request_has(1))
  show "global_protocol_only (rv_validate_result w data rid rsp status None m)"
    unfolding rv_validate_result_def by (rule rv_core_closed) (simp add: bound_to_def)
  show "case checked_inspection v of Inl _ \<Rightarrow> True | Inr c \<Rightarrow> global_protocol_only (rv_ack_request (Data c)) \<and>
      global_protocol_only (rv_validate_result w data rid rsp status (Some c) m)"
    using rv_request_ok(1,4)
    by (auto simp: rv_validate_result_def split: sum.split intro!: rv_core_closed bound_closed rv_ack_request_closed)
qed

end
