(* ===== verification/PlayerGroups.thy ===== *)
theory PlayerGroups
  imports PyJson
begin

text \<open>
  \<open>src/cli/player_groups.py\<close>: named groups of players in the configuration, the expansion of a selector into
  devices, and the commands that manage the groups; with \<open>Client.device\<close> and the reserved words of
  \<open>src/cli/ott.py\<close>. The Unicode data behind \<open>casefold\<close>, \<open>strip\<close> and \<open>isprintable\<close> are a parameter. A command
  reads the configuration file at most twice; what the two reads give is an argument, and what the command
  writes is part of its result. What it prints is the data of the result, without the layout.
\<close>

section \<open>Text\<close>

record text_tables =
  folded :: "pystr \<Rightarrow> pystr"
  spaces :: "int \<Rightarrow> bool"
  printable :: "int \<Rightarrow> bool"

definition same_name :: "text_tables \<Rightarrow> pystr \<Rightarrow> pystr \<Rightarrow> bool" where
  "same_name t a b \<longleftrightarrow> folded t a = folded t b"

definition strip :: "text_tables \<Rightarrow> pystr \<Rightarrow> pystr" where
  "strip t s = rev (dropWhile (spaces t) (rev (dropWhile (spaces t) s)))"

text \<open>\<open>s.split(",")\<close>.\<close>

fun split_commas :: "pystr \<Rightarrow> pystr list" where
  "split_commas [] = [[]]"
| "split_commas (c # s) =
     (if c = 44 then [] # split_commas s
      else case split_commas s of [] \<Rightarrow> [[c]] | w # ws \<Rightarrow> (c # w) # ws)"

definition TOP_LEVEL_COMMANDS :: "string list" where
  "TOP_LEVEL_COMMANDS = [''add'', ''alias'', ''approve'', ''devices'', ''diagnostics'', ''discover'', ''handoff'', ''group'',
     ''groups'', ''ha'', ''help'', ''pair'', ''pending'', ''presets'', ''registry'', ''remove'', ''report'', ''resolve'',
     ''server'', ''unalias'']"

definition name_char :: "int \<Rightarrow> bool" where
  "name_char c \<longleftrightarrow> is_alnum c \<or> 0x430 \<le> c \<and> c \<le> 0x44F \<or> 0x410 \<le> c \<and> c \<le> 0x42F \<or> c = 0x451 \<or> c = 0x401 \<or> one_of ''_-'' c"

definition GROUP_NAME :: "pystr \<Rightarrow> bool" where
  "GROUP_NAME = rep_pat name_char 1 32"

definition reserved :: "text_tables \<Rightarrow> pystr \<Rightarrow> bool" where
  "reserved t n \<longleftrightarrow> folded t n \<in> u ` set TOP_LEVEL_COMMANDS"

section \<open>Groups and members\<close>

text \<open>\<open>v.get(k, other)\<close>.\<close>

definition get_or :: "json \<Rightarrow> string \<Rightarrow> json \<Rightarrow> json result" where
  "get_or v k other = (if is_dict v then Inr (if has v k then fld v k else other) else Inl AttributeError)"

definition refuse :: "bool \<Rightarrow> unit result" where
  "refuse wrong = check ClientError (\<not> wrong)"

definition group_map :: "text_tables \<Rightarrow> json \<Rightarrow> json result" where
  "group_map t config =
     bindR (refuse (\<not> is_dict config)) (\<lambda>_.
     bindR (get_or config ''groups'' (JObj [])) (\<lambda>groups.
     bindR (refuse (\<not> is_dict groups \<or> 128 < plen (items_of groups)
       \<or> list_ex (\<lambda>n. \<not> GROUP_NAME n \<or> reserved t n) (keys_of groups)
       \<or> \<not> distinct (map (folded t) (keys_of groups)))) (\<lambda>_. Inr groups)))"

definition group_name :: "text_tables \<Rightarrow> json \<Rightarrow> pystr \<Rightarrow> pystr option result" where
  "group_name t config name =
     bindR (group_map t config) (\<lambda>groups. Inr (find (\<lambda>k. same_name t k name) (keys_of groups)))"

definition member_ok :: "text_tables \<Rightarrow> json \<Rightarrow> bool" where
  "member_ok t v \<longleftrightarrow> is_str v \<and> str_of v \<noteq> [] \<and> str_of v = strip t (str_of v) \<and> plen (str_of v) \<le> 512
     \<and> 44 \<notin> set (str_of v) \<and> list_all (printable t) (str_of v)"

definition members :: "text_tables \<Rightarrow> json \<Rightarrow> pystr list result" where
  "members t v =
     bindR (refuse (\<not> is_list v \<or> plen (list_of v) < 1 \<or> 64 < plen (list_of v) \<or> \<not> list_all (member_ok t) (list_of v))) (\<lambda>_.
       Inr (map str_of (list_of v)))"

definition check_alias :: "text_tables \<Rightarrow> json \<Rightarrow> pystr \<Rightarrow> unit result" where
  "check_alias t config name = bindR (group_name t config name) (\<lambda>k. refuse (k \<noteq> None))"

text \<open>\<open>groups[key]\<close>.\<close>

definition at_key :: "json \<Rightarrow> pystr \<Rightarrow> json result" where
  "at_key v k = (case map_of (items_of v) k of None \<Rightarrow> Inl KeyError | Some x \<Rightarrow> Inr x)"

section \<open>Expanding a selector\<close>

text \<open>\<open>Client.device\<close>; its callers have checked the two tables.\<close>

definition device :: "text_tables \<Rightarrow> json \<Rightarrow> json \<Rightarrow> pystr \<Rightarrow> json result" where
  "device t aliases devices name =
     (let matches = map snd (filter (\<lambda>(k, _). same_name t k name) (items_of aliases));
          ids = filter (\<lambda>i. same_name t (str_of i) name) (map (\<lambda>row. fld row ''id'') (list_of devices))
      in if length matches = 1 then Inr (hd matches)
         else if length ids = 1 then Inr (hd ids)
         else Inl ClientError)"

definition is_identity :: "text_tables \<Rightarrow> json \<Rightarrow> json list \<Rightarrow> pystr \<Rightarrow> bool" where
  "is_identity t aliases extra name \<longleftrightarrow>
     list_ex (\<lambda>v. is_str v \<and> same_name t (str_of v) name) (map JStr (keys_of aliases) @ map snd (items_of aliases) @ extra)"

text \<open>One name of the list: a group stands for its members.\<close>

definition expand_name :: "text_tables \<Rightarrow> json \<Rightarrow> (pystr \<Rightarrow> bool) \<Rightarrow> json \<Rightarrow> pystr list \<Rightarrow> pystr \<Rightarrow> pystr list result" where
  "expand_name t config identity groups expanded name =
     bindR (group_name t config name) (\<lambda>key.
     bindR (case key of
         None \<Rightarrow> Inr (expanded @ [name])
       | Some k \<Rightarrow>
           bindR (refuse (identity name)) (\<lambda>_.
           bindR (bindR (at_key groups k) (members t)) (\<lambda>vs.
           bindR (forR (\<lambda>item. bindR (group_name t config item) (\<lambda>k'. refuse (k' \<noteq> None))) vs) (\<lambda>_.
             Inr (expanded @ vs))))) (\<lambda>expanded'.
     bindR (refuse (64 < plen expanded')) (\<lambda>_. Inr expanded')))"

definition dispatch_name :: "text_tables \<Rightarrow> json \<Rightarrow> json \<Rightarrow> (pystr \<times> pystr) list \<Rightarrow> pystr \<Rightarrow> (pystr \<times> pystr) list result" where
  "dispatch_name t aliases devices done name =
     bindR (device t aliases devices name) (\<lambda>d.
     bindR (refuse (\<not> is_str d \<or> str_of d = [])) (\<lambda>_.
       Inr (if str_of d \<in> snd ` set done then done else done @ [(name, str_of d)])))"

definition known_players :: "json \<Rightarrow> json \<Rightarrow> (json \<times> json) result" where
  "known_players config credentials =
     bindR (get_or config ''players'' (JObj [])) (\<lambda>aliases.
     bindR (get_or credentials ''devices'' (JArr [])) (\<lambda>devices.
     bindR (refuse (\<not> is_dict aliases \<or> \<not> is_list devices
       \<or> list_ex (\<lambda>row. \<not> is_dict row \<or> \<not> is_str (fld row ''id'')) (list_of devices))) (\<lambda>_. Inr (aliases, devices))))"

definition device_ids :: "json \<Rightarrow> json list" where
  "device_ids devices = map (\<lambda>row. fld row ''id'') (list_of devices)"

definition expansion :: "text_tables \<Rightarrow> json \<Rightarrow> json \<Rightarrow> json \<Rightarrow> pystr \<Rightarrow> pystr list result" where
  "expansion t config aliases devices selector =
     (let names = map (strip t) (split_commas selector) in
     bindR (refuse (list_ex (\<lambda>n. n = []) names)) (\<lambda>_.
     bindR (refuse (64 < plen names)) (\<lambda>_.
     bindR (group_map t config) (\<lambda>groups.
       foldR (expand_name t config (is_identity t aliases (device_ids devices)) groups) [] names))))"

definition targets :: "text_tables \<Rightarrow> json \<Rightarrow> json \<Rightarrow> pystr \<Rightarrow> (pystr \<times> pystr) list option result" where
  "targets t config credentials selector =
     bindR (group_name t config selector) (\<lambda>group.
     if 44 \<notin> set selector \<and> group = None then Inr None
     else
       bindR (known_players config credentials) (\<lambda>(aliases, devices).
       if is_identity t aliases (device_ids devices) selector
       then bindR (refuse (group \<noteq> None)) (\<lambda>_. Inr None)
       else
         bindR (expansion t config aliases devices selector) (\<lambda>expanded.
         bindR (foldR (dispatch_name t aliases devices) [] expanded) (\<lambda>rs. Inr (Some rs)))))"

section \<open>Saving members\<close>

text \<open>The alias under which a member is saved, and its device.\<close>

definition saved_label :: "text_tables \<Rightarrow> json \<Rightarrow> pystr \<Rightarrow> (pystr \<times> pystr) result" where
  "saved_label t aliases name =
     (let keys = filter (\<lambda>k. same_name t k name) (keys_of aliases);
          ids = remdups (filter (\<lambda>v. same_name t v name) (map (\<lambda>(_, v). str_of v) (items_of aliases)))
      in if length keys = 1 then bindR (at_key aliases (hd keys)) (\<lambda>d. Inr (hd keys, str_of d))
         else if keys = [] \<and> length ids = 1 then
           (case find (\<lambda>(_, v). str_of v = hd ids) (items_of aliases) of
              None \<Rightarrow> Inl ClientError | Some (k, _) \<Rightarrow> Inr (k, hd ids))
         else Inl ClientError)"

definition save_member :: "text_tables \<Rightarrow> json \<Rightarrow> json \<Rightarrow> (pystr \<times> pystr) list \<Rightarrow> pystr \<Rightarrow> (pystr \<times> pystr) list result" where
  "save_member t config aliases saved name =
     bindR (group_name t config name) (\<lambda>k.
     bindR (refuse (k \<noteq> None)) (\<lambda>_.
     bindR (saved_label t aliases name) (\<lambda>(label, d).
     bindR (members t (JArr [JStr label])) (\<lambda>_.
       Inr (if d \<in> snd ` set saved then saved else saved @ [(label, d)])))))"

definition saved_members :: "text_tables \<Rightarrow> json \<Rightarrow> pystr list \<Rightarrow> pystr list result" where
  "saved_members t config words =
     bindR (members t (JArr (map JStr (concat (map (\<lambda>w. map (strip t) (split_commas w)) words))))) (\<lambda>names.
     bindR (get_or config ''players'' (JObj [])) (\<lambda>aliases.
     bindR (refuse (\<not> is_dict aliases \<or> list_ex (\<lambda>(_, v). \<not> is_str v \<or> str_of v = []) (items_of aliases))) (\<lambda>_.
     bindR (foldR (save_member t config aliases) [] names) (\<lambda>saved. Inr (map fst saved)))))"

section \<open>Management\<close>

datatype group_report = Help | Report json

definition usage_error :: "pystr \<Rightarrow> pystr list \<Rightarrow> bool" where
  "usage_error op tail \<longleftrightarrow>
     op = u ''list'' \<and> 1 < length tail
     \<or> op \<in> {u ''show'', u ''remove''} \<and> length tail \<noteq> 2
     \<or> op \<in> {u ''add'', u ''set''} \<and> length tail < 3
     \<or> op \<notin> u ` set [''list'', ''show'', ''add'', ''set'', ''remove'']"

definition listed_groups :: "text_tables \<Rightarrow> json \<Rightarrow> json result" where
  "listed_groups t groups =
     bindR (foldR (\<lambda>done (k, v). bindR (members t v) (\<lambda>vs. Inr (done @ [(k, JArr (map JStr vs))]))) [] (items_of groups)) (\<lambda>rows.
       Inr (JObj [(u ''groups'', JObj rows)]))"

text \<open>The groups after \<open>add\<close> or \<open>set\<close>, and the key that was saved.\<close>

definition group_saved :: "text_tables \<Rightarrow> json \<Rightarrow> json \<Rightarrow> bool \<Rightarrow> pystr \<Rightarrow> pystr option \<Rightarrow> pystr list \<Rightarrow> (pystr \<times> json) result" where
  "group_saved t config groups adding name key words =
     bindR (refuse (\<not> GROUP_NAME name \<or> reserved t name)) (\<lambda>_.
     bindR (get_or config ''players'' (JObj [])) (\<lambda>aliases.
     bindR (refuse (\<not> is_dict aliases)) (\<lambda>_.
     bindR (refuse (is_identity t aliases [] name)) (\<lambda>_.
     bindR (refuse (adding \<and> key \<noteq> None)) (\<lambda>_.
     let k = (case key of None \<Rightarrow> name | Some k \<Rightarrow> k) in
     bindR (saved_members t config words) (\<lambda>vs.
     let groups' = JObj (assoc_set k (JArr (map JStr vs)) (items_of groups)) in
     bindR (group_map t (JObj [(u ''groups'', groups')])) (\<lambda>_. Inr (k, groups'))))))))"

definition written :: "json result \<Rightarrow> json \<Rightarrow> json \<Rightarrow> json \<Rightarrow> (group_report \<times> json option) result" where
  "written again config groups data =
     bindR again (\<lambda>now'.
     bindR (refuse (\<not> py_eq now' config)) (\<lambda>_. Inr (Report data, Some (put config ''groups'' groups))))"

definition reported_group :: "pystr \<Rightarrow> json \<Rightarrow> json" where
  "reported_group k players = JObj [(u ''group'', JStr k), (u ''players'', players)]"

definition group_change ::
  "text_tables \<Rightarrow> json result \<Rightarrow> json \<Rightarrow> json \<Rightarrow> pystr \<Rightarrow> pystr \<Rightarrow> pystr list \<Rightarrow> (group_report \<times> json option) result" where
  "group_change t again config groups op name words =
     bindR (group_name t config name) (\<lambda>key.
     bindR (refuse (op \<in> {u ''show'', u ''remove''} \<and> key = None)) (\<lambda>_.
     if op \<in> {u ''add'', u ''set''} then
       bindR (group_saved t config groups (op = u ''add'') name key words) (\<lambda>(k, groups').
       bindR (at_key groups' k) (\<lambda>players. written again config groups' (reported_group k players)))
     else
       bindR (at_key groups (the key)) (\<lambda>players.
       if op = u ''remove'' then
         written again config (JObj (filter (\<lambda>(k, _). k \<noteq> the key) (items_of groups))) (JObj [(u ''removed'', JStr (the key))])
       else bindR (members t players) (\<lambda>_. Inr (Report (reported_group (the key) players), None)))))"

text \<open>\<open>management\<close>: \<open>first\<close> and \<open>again\<close> are what the two reads of the configuration file give.\<close>

definition management :: "text_tables \<Rightarrow> json result \<Rightarrow> json result \<Rightarrow> pystr list \<Rightarrow> (group_report \<times> json option) result" where
  "management t first again words =
     (let given = tl words;
          tail = (if given \<noteq> [] \<and> last given \<in> {u ''-j'', u ''--json''} then butlast given else given);
          op = (case tail of [] \<Rightarrow> u ''list'' | w # _ \<Rightarrow> folded t w)
      in if given \<in> {[u ''--help''], [u ''-h''], [u ''help'']} then Inr (Help, None)
      else
        bindR (refuse (usage_error op tail)) (\<lambda>_.
        bindR first (\<lambda>config.
        bindR (refuse (\<not> is_dict config)) (\<lambda>_.
        bindR (group_map t config) (\<lambda>groups.
          if op = u ''list'' then bindR (listed_groups t groups) (\<lambda>data. Inr (Report data, None))
          else group_change t again config groups op (tail ! 1) (drop 2 tail))))))"

end
