(* ===== verification/PlayerGroupsProps.thy ===== *)
theory PlayerGroupsProps
  imports PlayerGroups
begin

text \<open>
  The properties of \<open>src/cli/player_groups.py\<close>: a selector reaches each device once, a command changes one
  group and nothing else, and a saved group can be dispatched to.
\<close>

section \<open>Checks\<close>

lemma refuse_ok [ok_iff]: "refuse wrong = Inr x \<longleftrightarrow> \<not> wrong"
  by (simp add: refuse_def check_ok)

lemma refuse_False [simp]: "refuse False = Inr ()"
  by (simp add: refuse_def check_def)

lemma get_or_ok [ok_iff]: "get_or v k other = Inr x \<longleftrightarrow> is_dict v \<and> x = (if has v k then fld v k else other)"
  by (auto simp: get_or_def)

lemma at_key_ok [ok_iff]: "at_key v k = Inr x \<longleftrightarrow> map_of (items_of v) k = Some x"
  by (simp add: at_key_def split: option.split)

lemma members_ok [ok_iff]:
  "members t v = Inr vs \<longleftrightarrow> v = JArr (map JStr vs) \<and> 1 \<le> length vs \<and> length vs \<le> 64 \<and> list_all (\<lambda>s. member_ok t (JStr s)) vs"
proof
  assume "members t v = Inr vs"
  then obtain xs where v: "v = JArr xs" "list_all (member_ok t) xs" "vs = map str_of xs" "1 \<le> length xs" "length xs \<le> 64"
    by (cases v) (auto simp: members_def bindR_ok refuse_ok plen_def not_less Suc_le_eq)
  have "map JStr vs = xs"
    unfolding v(3) map_map by (rule map_idI) (use v(2) in \<open>auto simp: list_all_iff member_ok_def is_str_iff\<close>)
  with v show "v = JArr (map JStr vs) \<and> 1 \<le> length vs \<and> length vs \<le> 64 \<and> list_all (\<lambda>s. member_ok t (JStr s)) vs"
    by (auto simp: list_all_iff member_ok_def is_str_iff)
next
  assume a: "v = JArr (map JStr vs) \<and> 1 \<le> length vs \<and> length vs \<le> 64 \<and> list_all (\<lambda>s. member_ok t (JStr s)) vs"
  then have "list_all (member_ok t) (map JStr vs)" by (simp add: list.pred_map comp_def)
  moreover have "map str_of (map JStr vs) = vs" by (simp add: comp_def)
  ultimately show "members t v = Inr vs"
    using a by (auto simp: members_def bindR_ok refuse_ok plen_def Suc_le_eq simp del: map_map)
qed

text \<open>What \<open>group_map\<close> asks of the groups it returns.\<close>

definition good_groups :: "text_tables \<Rightarrow> json \<Rightarrow> bool" where
  "good_groups t groups \<longleftrightarrow> is_dict groups \<and> length (items_of groups) \<le> 128 \<and>
     list_all (\<lambda>n. GROUP_NAME n \<and> \<not> reserved t n) (keys_of groups) \<and> distinct (map (folded t) (keys_of groups))"

lemma group_map_ok [ok_iff]:
  "group_map t config = Inr groups \<longleftrightarrow>
     is_dict config \<and> groups = (if has config ''groups'' then fld config ''groups'' else JObj []) \<and> good_groups t groups"
  by (auto simp: group_map_def ok_iff good_groups_def plen_def list_all_iff list_ex_iff)

lemma group_name_ok [ok_iff]:
  "group_name t config name = Inr k \<longleftrightarrow>
     (\<exists>groups. group_map t config = Inr groups \<and> k = find (\<lambda>k. same_name t k name) (keys_of groups))"
  by (simp add: group_name_def bindR_ok eq_commute [of k])

section \<open>Targets\<close>

text \<open>The first row of each device.\<close>

fun first_of_each :: "(pystr \<times> pystr) list \<Rightarrow> (pystr \<times> pystr) list" where
  "first_of_each [] = []"
| "first_of_each ((n, d) # rows) = (n, d) # filter (\<lambda>(_, e). e \<noteq> d) (first_of_each rows)"

lemma first_of_each_set: "snd ` set (first_of_each rows) = snd ` set rows"
proof (induction rows rule: first_of_each.induct)
  case (2 n d rows)
  have "snd ` set (filter (\<lambda>(_, e). e \<noteq> d) xs) = snd ` set xs - {d}" for xs :: "(pystr \<times> pystr) list"
    by (induction xs) auto
  with 2 show ?case by auto
qed simp

lemma first_of_each_distinct: "distinct (map snd (first_of_each rows))"
proof (induction rows rule: first_of_each.induct)
  case (2 n d rows)
  have "distinct (map snd (filter (\<lambda>(_, e). e \<noteq> d) (first_of_each rows)))"
    using 2 by (simp add: distinct_map inj_on_def)
  then show ?case by auto
qed simp

lemma dispatch_fold:
  "foldR (dispatch_name t aliases devices) sofar names = Inr rs \<longleftrightarrow>
     (\<exists>ds. list_all2 (\<lambda>n d. device t aliases devices n = Inr (JStr d) \<and> d \<noteq> []) names ds \<and>
       rs = sofar @ filter (\<lambda>(_, d). d \<notin> snd ` set sofar) (first_of_each (zip names ds)))"
proof (induction names arbitrary: sofar)
  case Nil
  then show ?case by (auto simp: ok_iff)
next
  case (Cons n names)
  have step: "dispatch_name t aliases devices sofar n = Inr later \<longleftrightarrow>
      (\<exists>d. device t aliases devices n = Inr (JStr d) \<and> d \<noteq> [] \<and>
        later = (if d \<in> snd ` set sofar then sofar else sofar @ [(n, d)]))" for later
  proof (cases "device t aliases devices n")
    case (Inr v)
    then show ?thesis by (cases v) (auto simp: dispatch_name_def bindR_ok refuse_ok)
  qed (simp add: dispatch_name_def)
  have rest: "sofar @ filter (\<lambda>(_, d). d \<notin> snd ` set sofar) (first_of_each ((n, d) # rows)) =
      (let later = if d \<in> snd ` set sofar then sofar else sofar @ [(n, d)]
       in later @ filter (\<lambda>(_, d). d \<notin> snd ` set later) (first_of_each rows))" for d rows
    by (auto intro!: filter_cong)
  show ?case (is "?l \<longleftrightarrow> ?r")
  proof
    assume ?l
    then obtain later where "dispatch_name t aliases devices sofar n = Inr later"
      and f: "foldR (dispatch_name t aliases devices) later names = Inr rs" by (auto simp: foldR_Cons_ok)
    then obtain d where d: "device t aliases devices n = Inr (JStr d)" "d \<noteq> []"
      and later: "later = (if d \<in> snd ` set sofar then sofar else sofar @ [(n, d)])" using step by blast
    from f obtain ds where "list_all2 (\<lambda>n d. device t aliases devices n = Inr (JStr d) \<and> d \<noteq> []) names ds"
      and "rs = later @ filter (\<lambda>(_, d). d \<notin> snd ` set later) (first_of_each (zip names ds))"
      unfolding Cons.IH by blast
    with d have "list_all2 (\<lambda>n d. device t aliases devices n = Inr (JStr d) \<and> d \<noteq> []) (n # names) (d # ds)"
      and "rs = sofar @ filter (\<lambda>(_, d). d \<notin> snd ` set sofar) (first_of_each (zip (n # names) (d # ds)))"
      unfolding zip_Cons_Cons rest by (simp_all add: later Let_def)
    then show ?r by blast
  next
    assume ?r
    then obtain d ds where d: "device t aliases devices n = Inr (JStr d)" "d \<noteq> []"
      and ds: "list_all2 (\<lambda>n d. device t aliases devices n = Inr (JStr d) \<and> d \<noteq> []) names ds"
      and rs: "rs = sofar @ filter (\<lambda>(_, d). d \<notin> snd ` set sofar) (first_of_each (zip (n # names) (d # ds)))"
      unfolding list_all2_Cons1 by blast
    let ?later = "if d \<in> snd ` set sofar then sofar else sofar @ [(n, d)]"
    have "dispatch_name t aliases devices sofar n = Inr ?later" using d step by blast
    moreover have "foldR (dispatch_name t aliases devices) ?later names = Inr rs"
      unfolding Cons.IH using ds rs unfolding zip_Cons_Cons rest Let_def by blast
    ultimately show ?l unfolding foldR_Cons_ok by blast
  qed
qed

lemma expand_name_ok:
  assumes "expand_name t config identity groups expanded name = Inr expanded'"
    and "length expanded \<le> 64 \<and> list_all (\<lambda>n. group_name t config n = Inr None) expanded"
  shows "length expanded' \<le> 64 \<and> list_all (\<lambda>n. group_name t config n = Inr None) expanded'"
proof -
  obtain key where key: "group_name t config name = Inr key" and len: "length expanded' \<le> 64"
    and more': "case key of None \<Rightarrow> expanded' = expanded @ [name]
      | Some k \<Rightarrow> (\<exists>vs. expanded' = expanded @ vs \<and>
          (\<forall>item \<in> set vs. bindR (group_name t config item) (\<lambda>k'. refuse (k' \<noteq> None)) = Inr ()))"
    using assms(1) by (auto simp: expand_name_def bindR_ok refuse_ok forR_ok plen_def split: option.splits)
  have "list_all (\<lambda>n. group_name t config n = Inr None) vs"
    if "\<forall>item \<in> set vs. bindR (group_name t config item) (\<lambda>k'. refuse (k' \<noteq> None)) = Inr ()" for vs
    using that by (auto simp: list_all_iff bindR_ok refuse_ok)
  with assms(2) key len more' show ?thesis by (auto split: option.splits)
qed

lemma expansion_ok:
  assumes "expansion t config aliases devices selector = Inr names"
  shows "length names \<le> 64" and "list_all (\<lambda>n. group_name t config n = Inr None) names"
proof -
  obtain groups where
    "foldR (expand_name t config (is_identity t aliases (device_ids devices)) groups) [] (map (strip t) (split_commas selector)) = Inr names"
    using assms by (auto simp: expansion_def Let_def bindR_ok)
  then have "length names \<le> 64 \<and> list_all (\<lambda>n. group_name t config n = Inr None) names"
    by (rule foldR_invariant) (simp, simp add: expand_name_ok)
  then show "length names \<le> 64" and "list_all (\<lambda>n. group_name t config n = Inr None) names" by blast+
qed

section \<open>What can be raised\<close>

lemma raises_refuse [raises]: "P ClientError \<Longrightarrow> raises_only P (refuse wrong)"
  by (simp add: refuse_def raises_only_check)

lemma raises_get_or [raises]: "P AttributeError \<Longrightarrow> raises_only P (get_or v k other)"
  by (simp add: get_or_def)

lemma raises_group_map [raises]: "P ClientError \<Longrightarrow> raises_only P (group_map t config)"
  by (auto simp: group_map_def bindR_ok refuse_ok get_or_def intro!: raises)

lemma raises_group_name [raises]: "P ClientError \<Longrightarrow> raises_only P (group_name t config name)"
  by (simp add: group_name_def raises)

lemma raises_members [raises]: "P ClientError \<Longrightarrow> raises_only P (members t v)"
  by (simp add: members_def raises)

lemma raises_at_key: "k \<in> set (keys_of v) \<Longrightarrow> raises_only P (at_key v k)"
  by (auto simp: at_key_def keys_of_def map_of_eq_None_iff split: option.split)

lemma raises_device [raises]: "P ClientError \<Longrightarrow> raises_only P (device t aliases devices name)"
  by (simp add: device_def Let_def)

lemma group_name_key: "group_name t config name = Inr (Some k) \<Longrightarrow> group_map t config = Inr groups \<Longrightarrow> k \<in> set (keys_of groups)"
  by (auto simp: group_name_ok find_Some_iff2)

lemma raises_expand_name:
  "P ClientError \<Longrightarrow> group_map t config = Inr groups \<Longrightarrow>
    raises_only P (expand_name t config identity groups expanded name)"
  unfolding expand_name_def
  by (auto intro!: raises raises_at_key split: option.split dest: group_name_key)

lemma raises_targets: "raises_only (\<lambda>e. e \<in> {ClientError, AttributeError}) (targets t config credentials selector)"
  unfolding targets_def known_players_def expansion_def dispatch_name_def Let_def
  by (auto intro!: raises raises_expand_name simp: case_prod_beta)

section \<open>Dispatch\<close>

text \<open>
  C13: A selector that stands for several players is resolved whole before anything is sent, and each device
  is addressed once. \<open>targets\<close> fails with a client error (or an attribute error on credentials that are no
  object); or it says the selector is one literal name; or it gives rows that are exactly the first row of
  each device among the expanded names: at most 64 names, none of them a group, each resolved by
  \<open>Client.device\<close> to a nonempty identifier, no device twice and none lost.
\<close>

theorem targets_each_device_once:
  "case targets t config credentials selector of
     Inl e \<Rightarrow> e \<in> {ClientError, AttributeError}
   | Inr None \<Rightarrow>
       group_name t config selector = Inr None \<and>
       (if 44 \<in> set selector
        then case known_players config credentials of
            Inl e \<Rightarrow> False
          | Inr (aliases, devices) \<Rightarrow> is_identity t aliases (device_ids devices) selector
        else True)
   | Inr (Some rs) \<Rightarrow>
       (\<exists>aliases devices names ds. known_players config credentials = Inr (aliases, devices)
         \<and> expansion t config aliases devices selector = Inr names
         \<and> length names \<le> 64 \<and> list_all (\<lambda>n. group_name t config n = Inr None) names
         \<and> list_all2 (\<lambda>n d. device t aliases devices n = Inr (JStr d) \<and> d \<noteq> []) names ds
         \<and> rs = first_of_each (zip names ds) \<and> distinct (map snd rs) \<and> snd ` set rs = set ds)"
proof (cases "targets t config credentials selector")
  case (Inl e)
  then show ?thesis using raises_onlyD [OF raises_targets Inl] by simp
next
  case (Inr r)
  show ?thesis
  proof (cases r)
    case None
    with Inr show ?thesis
      by (auto simp: targets_def bindR_ok refuse_ok split: if_splits sum.split prod.splits)
  next
    case (Some rs)
    with Inr obtain aliases devices names where 1: "known_players config credentials = Inr (aliases, devices)"
      and 2: "expansion t config aliases devices selector = Inr names"
      and 3: "foldR (dispatch_name t aliases devices) [] names = Inr rs"
      by (auto simp: targets_def bindR_ok refuse_ok split: if_splits)
    from 3 obtain ds where ds: "list_all2 (\<lambda>n d. device t aliases devices n = Inr (JStr d) \<and> d \<noteq> []) names ds"
      and rs: "rs = first_of_each (zip names ds)" by (auto simp: dispatch_fold)
    have "snd ` set (zip names ds) = set ds"
      using list_all2_lengthD [OF ds] by (metis list.set_map map_snd_zip)
    then have "snd ` set rs = set ds" by (simp add: rs first_of_each_set)
    moreover have "distinct (map snd rs)" by (simp add: rs first_of_each_distinct)
    ultimately show ?thesis using Inr Some 1 2 ds rs expansion_ok [OF 2] by auto
  qed
qed

section \<open>Saved groups\<close>

text \<open>The saved rows: labels with their devices, no device twice.\<close>

definition saved_rows :: "json \<Rightarrow> (pystr \<times> pystr) list \<Rightarrow> bool" where
  "saved_rows aliases rows \<longleftrightarrow> distinct (map snd rows) \<and> list_all (\<lambda>(l, d). d \<noteq> [] \<and> (l, JStr d) \<in> set (items_of aliases)) rows"

lemma saved_label_ok:
  assumes "saved_label t aliases name = Inr (l, d)" and "list_all (\<lambda>(_, v). is_str v \<and> str_of v \<noteq> []) (items_of aliases)"
  shows "d \<noteq> [] \<and> (l, JStr d) \<in> set (items_of aliases)"
proof -
  have "\<exists>v. (l, v) \<in> set (items_of aliases) \<and> str_of v = d"
    using assms(1)
    by (auto simp: saved_label_def Let_def bindR_ok at_key_ok find_Some_iff split: if_splits option.splits
        dest!: map_of_SomeD intro: nth_mem) (metis nth_mem)+
  then show ?thesis using assms(2) by (auto simp: list_all_iff is_str_iff)
qed

lemma save_member_ok:
  assumes "save_member t config aliases saved name = Inr saved'" and "saved_rows aliases saved"
    and "list_all (\<lambda>(_, v). is_str v \<and> str_of v \<noteq> []) (items_of aliases)"
  shows "saved_rows aliases saved'"
proof -
  obtain l d where ld: "saved_label t aliases name = Inr (l, d)"
    and "saved' = (if d \<in> snd ` set saved then saved else saved @ [(l, d)])"
    using assms(1) by (auto simp: save_member_def bindR_ok refuse_ok)
  with saved_label_ok [OF ld assms(3)] assms(2) show ?thesis by (auto simp: saved_rows_def)
qed

lemma save_member_row:
  assumes "save_member t config aliases saved name = Inr saved'"
    and "list_all (\<lambda>(l, _). member_ok t (JStr l)) saved"
  shows "list_all (\<lambda>(l, _). member_ok t (JStr l)) saved'" and "saved' \<noteq> []" and "length saved' \<le> Suc (length saved)"
  using assms by (auto simp: save_member_def bindR_ok refuse_ok members_ok split: if_splits)

lemma save_fold:
  assumes "foldR (save_member t config aliases) saved names = Inr rows"
    and "list_all (\<lambda>(l, _). member_ok t (JStr l)) saved" and "saved \<noteq> [] \<or> names \<noteq> []"
  shows "list_all (\<lambda>(l, _). member_ok t (JStr l)) rows \<and> rows \<noteq> [] \<and> length rows \<le> length saved + length names"
  using assms
proof (induction names arbitrary: saved)
  case (Cons n names)
  then obtain later where "save_member t config aliases saved n = Inr later"
    and f: "foldR (save_member t config aliases) later names = Inr rows" by (auto simp: foldR_Cons_ok)
  note row = save_member_row [OF this(1) Cons.prems(2)]
  show ?case using Cons.IH [OF f row(1)] row(2,3) by simp
qed simp

abbreviation player_map :: "json \<Rightarrow> json" where
  "player_map config \<equiv> (if has config ''players'' then fld config ''players'' else JObj [])"

lemma saved_members_ok:
  assumes "saved_members t config words = Inr vs"
  obtains rows where "saved_rows (player_map config) rows" "vs = map fst rows" "members t (JArr (map JStr vs)) = Inr vs"
proof -
  obtain names rows where s: "list_all (\<lambda>(_, v). is_str v \<and> str_of v \<noteq> []) (items_of (player_map config))"
    and f: "foldR (save_member t config (player_map config)) [] names = Inr rows" and vs: "vs = map fst rows"
    and n: "1 \<le> length names" "length names \<le> 64"
    using assms
    by (auto simp: saved_members_def bindR_ok refuse_ok get_or_ok members_ok list_ex_iff list_all_iff case_prod_beta)
  from f have "saved_rows (player_map config) rows"
    by (rule foldR_invariant) (simp add: saved_rows_def, rule save_member_ok [OF _ _ s], auto)
  moreover have "list_all (\<lambda>(l, _). member_ok t (JStr l)) rows \<and> rows \<noteq> [] \<and> length rows \<le> 64"
    using save_fold [OF f] n by (cases names) auto
  then have "members t (JArr (map JStr vs)) = Inr vs"
    by (auto simp: vs members_ok list_all_iff Suc_le_eq case_prod_beta)
  ultimately show ?thesis using vs that by blast
qed

lemma group_saved_ok:
  assumes "group_saved t config groups adding name key words = Inr (k, groups')"
  obtains rows where "k = (case key of None \<Rightarrow> name | Some k \<Rightarrow> k)"
    "groups' = JObj (assoc_set k (JArr (map JStr (map fst rows))) (items_of groups))" "good_groups t groups'"
    "saved_rows (player_map config) rows" "members t (JArr (map JStr (map fst rows))) = Inr (map fst rows)"
    "\<not> is_identity t (player_map config) [] name" "GROUP_NAME name"
proof -
  obtain vs groups'' where k: "k = (case key of None \<Rightarrow> name | Some k \<Rightarrow> k)"
    and vs: "saved_members t config words = Inr vs" "groups' = JObj (assoc_set k (JArr (map JStr vs)) (items_of groups))"
    and g: "group_map t (JObj [(u ''groups'', groups')]) = Inr groups''"
    and name: "GROUP_NAME name" "\<not> is_identity t (player_map config) [] name"
    using assms by (auto simp: group_saved_def Let_def bindR_ok refuse_ok get_or_ok split: prod.splits)
  obtain rows where "saved_rows (player_map config) rows" "vs = map fst rows" "members t (JArr (map JStr vs)) = Inr vs"
    by (rule saved_members_ok [OF vs(1)])
  moreover have "good_groups t groups'" using g by (auto simp: group_map_ok)
  ultimately show ?thesis using k vs name that by blast
qed

lemma removed_good:
  assumes "good_groups t groups"
  shows "good_groups t (JObj (filter (\<lambda>(k, _). k \<noteq> key) (items_of groups)))"
proof -
  have "map (folded t) (keys_of (JObj (filter (\<lambda>(k, _). k \<noteq> key) (items_of groups)))) =
      map (folded t) (filter (\<lambda>k. k \<noteq> key) (keys_of groups))"
    by (simp add: keys_of_def filter_map comp_def case_prod_unfold)
  moreover have "length (filter (\<lambda>(k, _). k \<noteq> key) (items_of groups)) \<le> length (items_of groups)" by simp
  ultimately show ?thesis
    using assms by (auto simp: good_groups_def list_all_iff distinct_map_filter keys_of_def simp del: length_filter_le)
qed

lemma map_of_removed: "map_of (filter (\<lambda>(k, _). k \<noteq> key) kv) = (map_of kv)(key := None)"
  by (induction kv) auto

section \<open>Management\<close>

text \<open>What a command that writes has done.\<close>

definition one_group_changed ::
  "text_tables \<Rightarrow> json \<Rightarrow> json \<Rightarrow> group_report \<Rightarrow> json \<Rightarrow> json \<Rightarrow> pystr \<Rightarrow> (pystr \<times> pystr) list option \<Rightarrow> bool" where
  "one_group_changed t config config' report groups groups' key rows \<longleftrightarrow>
     group_map t config = Inr groups \<and> group_map t config' = Inr groups' \<and> config' = put config ''groups'' groups'
     \<and> map_of (items_of groups') = (map_of (items_of groups))(key := map_option (\<lambda>rs. JArr (map JStr (map fst rs))) rows)
     \<and> (case rows of
          None \<Rightarrow> report = Report (JObj [(u ''removed'', JStr key)])
        | Some rs \<Rightarrow> report = Report (reported_group key (JArr (map JStr (map fst rs)))) \<and> saved_rows (player_map config) rs
            \<and> members t (JArr (map JStr (map fst rs))) = Inr (map fst rs))"

lemma written_ok:
  "written again config groups data = Inr (report, saved) \<longleftrightarrow>
     (\<exists>now'. again = Inr now' \<and> py_eq now' config) \<and> report = Report data \<and> saved = Some (put config ''groups'' groups)"
  by (auto simp: written_def bindR_ok refuse_ok)

lemma fst_in_assoc_set: "k \<in> fst ` set (assoc_set k x kv)"
  by (induction kv) force+

lemma group_map_put: "is_dict config \<Longrightarrow> good_groups t g \<Longrightarrow> group_map t (put config ''groups'' g) = Inr g"
  using fst_in_assoc_set [of "u ''groups''"] by (simp add: group_map_ok fld_put has_def keys_of_def put_def) (simp add: fld_def map_of_assoc_set)

lemma group_change_ok:
  assumes "group_change t again config groups op name words = Inr (report, Some config')"
    and "group_map t config = Inr groups"
  obtains now' groups' key rows where "again = Inr now'" "py_eq now' config"
    "one_group_changed t config config' report groups groups' key rows"
proof -
  have d: "is_dict config" and gg: "good_groups t groups" using assms(2) by (auto simp: group_map_ok)
  obtain key where key: "group_name t config name = Inr key" using assms(1) by (auto simp: group_change_def bindR_ok)
  show ?thesis
  proof (cases "op \<in> {u ''add'', u ''set''}")
    case True
    then obtain k groups' players where "group_saved t config groups (op = u ''add'') name key words = Inr (k, groups')"
      and at': "at_key groups' k = Inr players"
      and w: "written again config groups' (reported_group k players) = Inr (report, Some config')"
      using assms(1) key by (auto simp: group_change_def bindR_ok refuse_ok)
    from this(1) obtain rows where g: "groups' = JObj (assoc_set k (JArr (map JStr (map fst rows))) (items_of groups))"
      "good_groups t groups'" "saved_rows (player_map config) rows"
      "members t (JArr (map JStr (map fst rows))) = Inr (map fst rows)"
      by (rule group_saved_ok)
    from at' have "players = JArr (map JStr (map fst rows))" by (auto simp: at_key_ok g(1) map_of_assoc_set)
    with w g have "one_group_changed t config config' report groups groups' k (Some rows)"
      using assms(2) group_map_put [OF d g(2)]
      by (auto simp: one_group_changed_def written_ok map_of_assoc_set)
    with w that show ?thesis by (auto simp: written_ok)
  next
    case False
    then obtain k where "key = Some k" and
      w: "written again config (JObj (filter (\<lambda>(k', _). k' \<noteq> k) (items_of groups))) (JObj [(u ''removed'', JStr k)]) =
        Inr (report, Some config')"
      using assms(1) key by (auto simp: group_change_def bindR_ok refuse_ok split: if_splits)
    let ?g = "JObj (filter (\<lambda>(k', _). k' \<noteq> k) (items_of groups))"
    have "one_group_changed t config config' report groups ?g k None"
      using w assms(2) group_map_put [OF d removed_good [OF gg]]
      by (auto simp: one_group_changed_def written_ok map_of_removed)
    with w that show ?thesis by (auto simp: written_ok)
  qed
qed

lemma management_writes:
  assumes "management t first again words = Inr (report, Some config')"
  obtains config now' groups groups' key rows where "first = Inr config" "again = Inr now'" "py_eq now' config"
    "one_group_changed t config config' report groups groups' key rows"
proof -
  define given where "given = tl words"
  define tail where "tail = (if given \<noteq> [] \<and> last given \<in> {u ''-j'', u ''--json''} then butlast given else given)"
  define op where "op = (case tail of [] \<Rightarrow> u ''list'' | w # _ \<Rightarrow> folded t w)"
  have eq: "management t first again words =
      (if given \<in> {[u ''--help''], [u ''-h''], [u ''help'']} then Inr (Help, None)
       else bindR (refuse (usage_error op tail)) (\<lambda>_. bindR first (\<lambda>config.
         bindR (refuse (\<not> is_dict config)) (\<lambda>_. bindR (group_map t config) (\<lambda>groups.
         if op = u ''list'' then bindR (listed_groups t groups) (\<lambda>data. Inr (Report data, None))
         else group_change t again config groups op (tail ! 1) (drop 2 tail))))))"
    unfolding management_def Let_def given_def [symmetric] tail_def [symmetric] op_def [symmetric] by (rule refl)
  with assms obtain config groups where first: "first = Inr config" and g: "group_map t config = Inr groups"
    and c: "group_change t again config groups op (tail ! 1) (drop 2 tail) = Inr (report, Some config')"
    by (simp only: bindR_ok split: if_split_asm) auto
  obtain now' groups' key rows where "again = Inr now'" "py_eq now' config"
    "one_group_changed t config config' report groups groups' key rows"
    by (rule group_change_ok [OF c g])
  with first that show ?thesis by blast
qed

lemma fst_assoc_set: "fst ` set (assoc_set k x kv) = insert k (fst ` set kv)"
proof (induction kv)
  case (Cons a kv)
  then show ?case by (cases a) auto
qed simp

lemma player_map_put: "player_map (put config ''groups'' g) = player_map config"
proof -
  have "u ''players'' \<noteq> u ''groups''" by simp
  then have "has (put config ''groups'' g) ''players'' = has config ''players''"
    by (simp add: has_def keys_of_def put_def fst_assoc_set)
  then show ?thesis by (simp add: fld_put)
qed

lemma known_players_put: "known_players (put config ''groups'' g) credentials = known_players config credentials" if "is_dict config"
  using player_map_put [of config g] that by (simp add: known_players_def get_or_def split del: if_split)

lemma one_match:
  "distinct (map (folded t) (map fst kv)) \<Longrightarrow> (l, v) \<in> set kv \<Longrightarrow> filter (\<lambda>(k, _). same_name t k l) kv = [(l, v)]"
proof (induction kv)
  case (Cons a kv)
  obtain k w where a: "a = (k, w)" by (cases a)
  show ?case
  proof (cases "a = (l, v)")
    case True
    with Cons.prems have "folded t l \<notin> folded t ` fst ` set kv" by (simp add: image_image)
    then have "filter (\<lambda>(k, _). same_name t k l) kv = []"
      by (auto simp: filter_empty_conv same_name_def image_iff)
    with True show ?thesis by (simp add: same_name_def)
  next
    case False
    with Cons.prems(2) have "(l, v) \<in> set kv" by simp
    moreover from this have "folded t l \<in> folded t ` fst ` set kv" by force
    with Cons.prems(1) have "\<not> same_name t k l" unfolding same_name_def a by (metis distinct.simps(2) fst_conv list.simps(9) list.set_map)
    ultimately show ?thesis using Cons.IH Cons.prems(1) by (simp add: a comp_def image_image)
  qed
qed simp

lemma first_of_each_id: "distinct (map snd rows) \<Longrightarrow> first_of_each rows = rows"
proof (induction rows rule: first_of_each.induct)
  case (2 n d rows)
  then have "filter (\<lambda>(_, e). e \<noteq> d) rows = rows" by (auto simp: filter_id_conv image_iff)
  with 2 show ?case by simp
qed simp

lemma group_name_self:
  assumes "group_map t config = Inr groups" and "k \<in> set (keys_of groups)"
  shows "group_name t config k = Inr (Some k)"
proof -
  have inj: "inj_on (folded t) (set (keys_of groups))"
    using assms(1) by (auto simp: group_map_ok good_groups_def distinct_map)
  obtain k' where "find (\<lambda>j. same_name t j k) (keys_of groups) = Some k'"
    using assms(2) by (cases "find (\<lambda>j. same_name t j k) (keys_of groups)") (auto simp: find_None_iff same_name_def)
  moreover from this have "k' \<in> set (keys_of groups)" "folded t k' = folded t k"
    by (auto simp: find_Some_iff same_name_def)
  ultimately show ?thesis using assms inj by (simp add: group_name_def inj_on_eq_iff)
qed

lemma split_commas_none: "44 \<notin> set s \<Longrightarrow> split_commas s = [s]"
  by (induction s) auto

lemma group_name_chars: "GROUP_NAME k \<Longrightarrow> list_all name_char k \<and> k \<noteq> []"
  by (auto simp: GROUP_NAME_def rep_pat_def)

lemma strip_none: "list_all (\<lambda>c. \<not> spaces t c) s \<Longrightarrow> strip t s = s"
proof -
  assume a: "list_all (\<lambda>c. \<not> spaces t c) s"
  then have "dropWhile (spaces t) s = s" "dropWhile (spaces t) (rev s) = rev s"
    by (auto simp: dropWhile_eq_self_iff list_all_iff hd_rev)
  then show ?thesis by (simp add: strip_def)
qed

lemma saved_group_targets:
  assumes changed: "one_group_changed t config config' report groups groups' key (Some rows)"
    and known: "known_players config credentials = Inr (aliases, devices)"
    and fold: "distinct (map (folded t) (keys_of aliases))"
    and apart: "list_all (\<lambda>l. group_name t config' l = Inr None) (keys_of aliases)"
    and ident: "\<not> is_identity t aliases (device_ids devices) key"
    and spaces: "\<forall>c. name_char c \<longrightarrow> \<not> spaces t c"
  shows "saved_rows aliases rows" and "targets t config' credentials key = Inr (Some rows)"
proof -
  let ?vs = "map fst rows"
  have ch: "group_map t config = Inr groups" "group_map t config' = Inr groups'" "config' = put config ''groups'' groups'"
    "saved_rows (player_map config) rows" "members t (JArr (map JStr ?vs)) = Inr ?vs"
    "map_of (items_of groups') key = Some (JArr (map JStr ?vs))"
    using changed by (auto simp: one_group_changed_def comp_def)
  have d: "is_dict config" and gg: "good_groups t groups'" using ch(1,2) unfolding group_map_ok by blast+
  have al: "aliases = player_map config" using known unfolding known_players_def bindR_ok get_or_ok by blast
  show rows: "saved_rows aliases rows" using ch(4) al by simp
  note at' = ch(6)
  then have key: "key \<in> set (keys_of groups')" by (force simp: keys_of_def dest: map_of_SomeD)
  then have self: "group_name t config' key = Inr (Some key)" using ch(2) by (rule group_name_self [rotated])
  have name: "list_all name_char key" "key \<noteq> []"
    using gg key group_name_chars by (auto simp: good_groups_def list_all_iff)
  have "\<not> name_char 44" by code_simp
  then have comma: "44 \<notin> set key" using name(1) by (auto simp: list_all_iff)
  have strip: "strip t key = key" using name(1) spaces by (intro strip_none) (auto simp: list_all_iff)
  have row: "l \<in> set (keys_of aliases)" "device t aliases devices l = Inr (JStr e)" "e \<noteq> []" if "(l, e) \<in> set rows" for l e
  proof -
    have m: "(l, JStr e) \<in> set (items_of aliases)" and "e \<noteq> []" using rows that by (auto simp: saved_rows_def list_all_iff)
    then show "l \<in> set (keys_of aliases)" "e \<noteq> []" by (force simp: keys_of_def)+
    have "filter (\<lambda>(k, _). same_name t k l) (items_of aliases) = [(l, JStr e)]"
      using fold m by (intro one_match) (simp_all add: keys_of_def)
    then show "device t aliases devices l = Inr (JStr e)" by (simp add: device_def)
  qed
  have "\<forall>item \<in> set ?vs. bindR (group_name t config' item) (\<lambda>k'. refuse (k' \<noteq> None)) = Inr ()"
    using apart row(1) by (fastforce simp: list_all_iff)
  then have plain: "forR (\<lambda>item. bindR (group_name t config' item) (\<lambda>k'. refuse (k' \<noteq> None))) ?vs = Inr ()"
    by (simp only: forR_ok)
  have len: "length ?vs \<le> 64" and mem: "members t (JArr (map JStr ?vs)) = Inr ?vs" using ch(5) by (auto simp: members_ok)
  have "expand_name t config' (is_identity t aliases (device_ids devices)) groups' [] key = Inr ?vs"
    using self ident at' mem plain len by (simp add: expand_name_def at_key_def plen_def del: not_None_eq)
  then have e: "expansion t config' aliases devices key = Inr ?vs"
    using comma strip name(2) ch(2) by (simp add: expansion_def split_commas_none plen_def loop_simps)
  have "list_all2 (\<lambda>n d. device t aliases devices n = Inr (JStr d) \<and> d \<noteq> []) ?vs (map snd rows)"
    using row(2,3) by (auto simp: list_all2_conv_all_nth dest!: nth_mem) (metis prod.collapse)+
  moreover have "rows = [] @ filter (\<lambda>(_, d). d \<notin> snd ` set []) (first_of_each (zip ?vs (map snd rows)))"
    using rows by (simp add: zip_map_fst_snd first_of_each_id saved_rows_def)
  ultimately have "foldR (dispatch_name t aliases devices) [] ?vs = Inr rows" unfolding dispatch_fold by blast
  moreover have "known_players config' credentials = Inr (aliases, devices)" unfolding ch(3) known_players_put [OF d] by (rule known)
  ultimately show "targets t config' credentials key = Inr (Some rows)" using self ident e by (simp add: targets_def)
qed

lemma raises_saved_members: "is_dict config \<Longrightarrow> P ClientError \<Longrightarrow> raises_only P (saved_members t config words)"
  unfolding saved_members_def save_member_def saved_label_def Let_def
  by (auto intro!: raises raises_at_key simp: get_or_def case_prod_beta filter_eq_Cons_iff length_Suc_conv split: option.split)

lemma raises_group_saved:
  assumes "is_dict config" and "group_map t config = Inr groups"
  shows "raises_only (\<lambda>e. e = ClientError) (group_saved t config groups adding name key words)"
  using assms unfolding group_saved_def Let_def
  by (auto intro!: raises raises_saved_members simp: get_or_def)

lemma raises_group_change:
  assumes "group_map t config = Inr groups" and op: "op \<in> {u ''show'', u ''remove'', u ''add'', u ''set''}"
  shows "raises_only (\<lambda>e. e = ClientError \<or> again = Inl e) (group_change t again config groups op name words)"
proof -
  let ?P = "\<lambda>e. e = ClientError \<or> again = Inl e"
  have d: "is_dict config" using assms(1) by (auto simp: group_map_ok)
  have a: "raises_only ?P again" by (cases again) auto
  have w: "raises_only ?P (written again config g data)" for g data
    unfolding written_def by (intro raises_only_bindR a raises_refuse raises_only_Inr) simp
  have s: "raises_only ?P (group_saved t config groups adding name key words)" for adding key
    by (rule raises_only_mono [OF raises_group_saved [OF d assms(1)]]) auto
  have k: "k \<in> set (keys_of g)" if "group_saved t config groups adding name key words = Inr (k, g)" for adding key k g
    by (rule group_saved_ok [OF that]) (simp add: keys_of_def fst_assoc_set)
  have n: "the key \<in> set (keys_of groups)" if "group_name t config name = Inr key" "key \<noteq> None" for key
    using that group_name_key [OF _ assms(1)] by auto
  show ?thesis
    unfolding group_change_def
  proof (rule raises_only_bindR)
    fix key
    assume key: "group_name t config name = Inr key"
    show "raises_only ?P (bindR (refuse (op \<in> {u ''show'', u ''remove''} \<and> key = None)) (\<lambda>_.
       if op \<in> {u ''add'', u ''set''} then
         bindR (group_saved t config groups (op = u ''add'') name key words) (\<lambda>(k, groups').
         bindR (at_key groups' k) (\<lambda>players. written again config groups' (reported_group k players)))
       else
         bindR (at_key groups (the key)) (\<lambda>players.
         if op = u ''remove'' then
           written again config (JObj (filter (\<lambda>(k, _). k \<noteq> the key) (items_of groups))) (JObj [(u ''removed'', JStr (the key))])
         else bindR (members t players) (\<lambda>_. Inr (Report (reported_group (the key) players), None)))))"
      using op n [OF key] k w s
      by (auto intro!: raises_only_bindR raises_only_if raises_at_key raises_members raises_refuse
          simp: refuse_ok simp del: refuse_False)
  qed (simp add: raises)
qed

lemma raises_management:
  "raises_only (\<lambda>e. e = ClientError \<or> first = Inl e \<or> again = Inl e) (management t first again words)"
proof -
  let ?P = "\<lambda>e. e = ClientError \<or> first = Inl e \<or> again = Inl e"
  have first: "raises_only ?P first" by (cases first) auto
  have list: "raises_only ?P (listed_groups t groups)" for groups
    unfolding listed_groups_def by (auto intro!: raises_only_bindR raises_foldR raises_members)
  have change: "raises_only ?P (group_change t again config groups op name ws)"
    if "group_map t config = Inr groups" "\<not> usage_error op tail" "op \<noteq> u ''list''" for config groups op tail name ws
    by (rule raises_only_mono [OF raises_group_change [OF that(1)]])
      (use that(2,3) in \<open>auto simp: usage_error_def\<close>)
  show ?thesis
    unfolding management_def Let_def
    by (intro raises_only_if raises_only_bindR raises_only_Inr raises_refuse raises_group_map first list change)
      (auto simp: refuse_ok)
qed

text \<open>
  C14: A management command changes one group and nothing else. It fails with a client error, or with what
  reading the configuration raised. When it writes, the configuration on disk was still the one it had
  read; both the old groups and the new are valid; the new configuration is the old one with its groups
  replaced; the groups differ in one key, which is removed, or set to between one and 64 valid labels that
  are saved aliases of pairwise distinct devices; and the report names that key and those labels.
\<close>

theorem management_changes_one_group:
  "case management t first again words of
     Inl e \<Rightarrow> e = ClientError \<or> first = Inl e \<or> again = Inl e
   | Inr (report, None) \<Rightarrow> True
   | Inr (report, Some config') \<Rightarrow>
       (\<exists>config now' groups groups' key rows. first = Inr config \<and> again = Inr now' \<and> py_eq now' config
         \<and> one_group_changed t config config' report groups groups' key rows)"
proof (cases "management t first again words")
  case (Inl e)
  then show ?thesis using raises_onlyD [OF raises_management Inl] by simp
next
  case (Inr r)
  obtain report saved where r: "r = (report, saved)" by (cases r)
  show ?thesis
  proof (cases saved)
    case (Some config')
    have "management t first again words = Inr (report, Some config')" using Inr r Some by simp
    then obtain config now' groups groups' key rows where "first = Inr config" "again = Inr now'" "py_eq now' config"
      "one_group_changed t config config' report groups groups' key rows" by (rule management_writes)
    then have "\<exists>config now' groups groups' key rows. first = Inr config \<and> again = Inr now' \<and> py_eq now' config
      \<and> one_group_changed t config config' report groups groups' key rows" by (intro exI conjI)
    then show ?thesis by (simp only: Inr r Some sum.case prod.case option.case)
  qed (simp add: Inr r)
qed

lemma reported_group_inj: "reported_group k v = reported_group k' v' \<longleftrightarrow> k = k' \<and> v = v'"
  by (simp add: reported_group_def)

lemma reported_rows:
  assumes "one_group_changed t config config' (Report (reported_group key (JArr (map JStr labels)))) groups groups' key' rows"
  obtains rs where "rows = Some rs" "key' = key" "map fst rs = labels"
proof (cases rows)
  case None
  then show ?thesis using assms by (simp add: one_group_changed_def reported_group_def)
next
  case (Some rs)
  then have "key = key'" "map JStr labels = map JStr (map fst rs)"
    using assms by (simp_all add: one_group_changed_def reported_group_inj del: map_map)
  moreover have "inj JStr" by (simp add: inj_def)
  ultimately show ?thesis using Some that inj_map_eq_map by metis
qed

text \<open>
  C25: A saved group can be dispatched to. After a command saved \<open>labels\<close> under \<open>key\<close>, a client with the
  written configuration resolves the selector \<open>key\<close> to exactly those labels, in their order, with the
  devices of their aliases: provided that no two aliases are equal up to case, that no alias is the name of
  a group, that the key is no identity of a player, and that the characters of names are not spaces.
\<close>

theorem saved_group_resolves:
  assumes "management t (Inr config) again words = Inr (Report (reported_group key (JArr (map JStr labels))), Some config')"
    and "known_players config credentials = Inr (aliases, devices)"
    and "distinct (map (folded t) (keys_of aliases))"
    and "list_all (\<lambda>l. group_name t config' l = Inr None) (keys_of aliases)"
    and "\<not> is_identity t aliases (device_ids devices) key"
    and "\<forall>c. name_char c \<longrightarrow> \<not> spaces t c"
  shows "\<exists>rows. map fst rows = labels \<and> saved_rows aliases rows \<and> targets t config' credentials key = Inr (Some rows)"
proof -
  obtain c now' groups groups' key' rows where c: "Inr config = (Inr c :: json result)"
    and "one_group_changed t c config' (Report (reported_group key (JArr (map JStr labels)))) groups groups' key' rows"
    by (rule management_writes [OF assms(1)])
  from this(2) have
    changed: "one_group_changed t config config' (Report (reported_group key (JArr (map JStr labels)))) groups groups' key' rows"
    using c by simp
  obtain rs where "rows = Some rs" "key' = key" "map fst rs = labels" by (rule reported_rows [OF changed])
  with saved_group_targets [OF changed [unfolded this(1,2)] assms(2-6)] show ?thesis by blast
qed

text \<open>Two aliases, saved as one group: the hypotheses hold and the group resolves.\<close>

definition sample_tables :: text_tables where
  "sample_tables = \<lparr>folded = id, spaces = (\<lambda>c. c = 32), printable = (\<lambda>_. True)\<rparr>"

definition sample_config :: json where
  "sample_config = JObj [(u ''players'', JObj [(u ''t1'', JStr (u ''d1'')), (u ''t2'', JStr (u ''d2''))])]"

theorem saved_group_resolves_witness:
  "\<exists>rows. map fst rows = [u ''t1'', u ''t2''] \<and> saved_rows (fld sample_config ''players'') rows \<and>
     targets sample_tables (put sample_config ''groups'' (JObj [(u ''tt'', JArr [JStr (u ''t1''), JStr (u ''t2'')])]))
       (JObj []) (u ''tt'') = Inr (Some rows)"
proof (rule saved_group_resolves)
  show "management sample_tables (Inr sample_config) (Inr sample_config) (map u [''group'', ''set'', ''tt'', ''t1,t2'']) =
      Inr (Report (reported_group (u ''tt'') (JArr (map JStr [u ''t1'', u ''t2'']))),
        Some (put sample_config ''groups'' (JObj [(u ''tt'', JArr [JStr (u ''t1''), JStr (u ''t2'')])])))"
    by code_simp
  show "known_players sample_config (JObj []) = Inr (fld sample_config ''players'', JArr [])" by code_simp
  show "distinct (map (folded sample_tables) (keys_of (fld sample_config ''players'')))" by code_simp
  show "list_all (\<lambda>l. group_name sample_tables
      (put sample_config ''groups'' (JObj [(u ''tt'', JArr [JStr (u ''t1''), JStr (u ''t2'')])])) l = Inr None)
      (keys_of (fld sample_config ''players''))" by code_simp
  show "\<not> is_identity sample_tables (fld sample_config ''players'') (device_ids (JArr [])) (u ''tt'')" by code_simp
  have "\<not> name_char 32" by code_simp
  then show "\<forall>c. name_char c \<longrightarrow> \<not> spaces sample_tables c" by (auto simp: sample_tables_def)
qed

end
