(* ===== verification/TorrentDocument.thy ===== *)
theory TorrentDocument
  imports GlobalDocument
begin

text \<open>
  \<open>src/cli/torrent_document.py\<close>: catalogs of torrent entries. A catalog names its entries, each with a source
  and the playable files of it; the module validates catalogs into a normal form, bounds their canonical
  bytes, merges two of one catalog and pairs a catalog with a document of favorites. What \<open>urlsplit\<close> asks of
  a host in brackets or outside ASCII rests on the address and Unicode tables of the library; both are a
  parameter. \<open>str.lower\<close> is modelled as far as it gives ASCII letters, which is all that is compared.
\<close>

section \<open>Primitive checks\<close>

abbreviation TD_MAX_BYTES :: int where "TD_MAX_BYTES \<equiv> 8388608"
abbreviation MAX_BUNDLE_BYTES :: int where "MAX_BUNDLE_BYTES \<equiv> 9438208"
abbreviation MAX_SAFE :: int where "MAX_SAFE \<equiv> 9007199254740991"

abbreviation td_invalid :: exn where "td_invalid \<equiv> TorrentError ''invalid_document''"
abbreviation td_too_large :: exn where "td_too_large \<equiv> TorrentError ''document_too_large''"

definition torrent_id_pat :: "pystr \<Rightarrow> bool" where
  "torrent_id_pat = rep_pat (\<lambda>c. is_alnum c \<or> one_of ''_-'' c) 1 64"

definition PLAYABLE :: "string list" where
  "PLAYABLE = [''mp4'', ''m4v'', ''mkv'', ''webm'', ''mov'', ''avi'', ''ts'', ''m2ts'', ''mpg'', ''mpeg'', ''ogv'']"

definition TRIM :: "int list" where
  "TRIM = [9, 10, 11, 12, 13, 32, 160, 5760, 8192, 8193, 8194, 8195, 8196, 8197, 8198, 8199, 8200,
     8201, 8202, 8232, 8233, 8239, 8287, 12288, 65279]"

definition td_require :: "bool \<Rightarrow> unit result" where
  "td_require c = check td_invalid c"

definition td_shape :: "json \<Rightarrow> string list \<Rightarrow> unit result" where
  "td_shape v ks = shape td_invalid v ks"

definition td_integer :: "json \<Rightarrow> int \<Rightarrow> int \<Rightarrow> json result" where
  "td_integer v low high = bindR (integer td_invalid v low high) (\<lambda>_. Inr v)"

text \<open>\<open>unicodedata.category(c) == "Cc"\<close>, and \<open>c.isspace()\<close>.\<close>

definition category_Cc :: "int \<Rightarrow> bool" where
  "category_Cc c \<longleftrightarrow> c < 32 \<or> 127 \<le> c \<and> c < 160"

definition is_space :: "int \<Rightarrow> bool" where
  "is_space c \<longleftrightarrow> 9 \<le> c \<and> c \<le> 13 \<or> 28 \<le> c \<and> c \<le> 32 \<or> 8192 \<le> c \<and> c \<le> 8202
     \<or> c \<in> {133, 160, 5760, 8232, 8233, 8239, 8287, 12288}"

definition lower_char :: "int \<Rightarrow> int" where
  "lower_char c = (if is_upper c then c + 32 else if c = 0x212A then 107 else c)"

definition td_text :: "json \<Rightarrow> int \<Rightarrow> int \<Rightarrow> bool \<Rightarrow> json result" where
  "td_text v units byte_limit trimmed =
     bindR (td_require (is_str v \<and> 0 < plen (str_of v) \<and> plen (str_of v) \<le> units)) (\<lambda>_.
     bindR (rethrow (\<lambda>e. e = UnicodeError) td_invalid
       (bindR (utf8_encode (str_of v)) (\<lambda>b.
        if plen b \<le> byte_limit then bindR (utf16_units (str_of v)) (\<lambda>n. td_require (n \<le> units)) else td_require False))) (\<lambda>_.
     bindR (td_require (\<not> list_ex category_Cc (str_of v))) (\<lambda>_.
     bindR (td_require (\<not> trimmed \<or> strip_chars TRIM (str_of v) = str_of v)) (\<lambda>_. Inr v))))"

definition td_label :: "json \<Rightarrow> json result" where
  "td_label v = td_text v 256 1024 True"

definition td_identifier :: "json \<Rightarrow> json result" where
  "td_identifier v = bindR (pattern td_invalid v torrent_id_pat) (\<lambda>_. Inr v)"

section \<open>Sources\<close>

record url_checks =
  bracketed :: "pystr \<Rightarrow> bool"
  compatible :: "pystr \<Rightarrow> bool"

text \<open>What \<open>s.partition(c)\<close> gives before and after \<open>c\<close>.\<close>

definition before :: "int \<Rightarrow> pystr \<Rightarrow> pystr" where
  "before c s = takeWhile (\<lambda>x. x \<noteq> c) s"

definition behind :: "int \<Rightarrow> pystr \<Rightarrow> pystr" where
  "behind c s = drop 1 (dropWhile (\<lambda>x. x \<noteq> c) s)"

definition local_source :: "pystr \<Rightarrow> bool" where
  "local_source s \<longleftrightarrow> starts_with (u ''ottplay-local-torrent:'') s
     \<and> (let r = drop 22 s in head_pat is_lower (\<lambda>c. is_lower c \<or> is_digit c \<or> c = 45) 63 (before 47 r)
          \<and> rep_pat is_hex 32 32 (behind 47 r))"

definition host_of :: "pystr \<Rightarrow> pystr" where
  "host_of netloc = (if 91 \<in> set netloc then before 93 (behind 91 netloc) else before 58 netloc)"

definition port_of :: "pystr \<Rightarrow> pystr" where
  "port_of netloc = behind 58 (if 91 \<in> set netloc then behind 93 (behind 91 netloc) else netloc)"

text \<open>The URL of an http source: \<open>urlsplit\<close> of a text without spaces and control characters.\<close>

definition torrent_url :: "url_checks \<Rightarrow> pystr \<Rightarrow> bool" where
  "torrent_url x s \<longleftrightarrow>
     (let rest = behind 58 s;
          netloc = takeWhile (\<lambda>c. \<not> one_of ''/?#'' c) (drop 2 rest);
          path = takeWhile (\<lambda>c. \<not> one_of ''?#'' c) (dropWhile (\<lambda>c. \<not> one_of ''/?#'' c) (drop 2 rest));
          port = port_of netloc
      in 58 \<in> set s \<and> map lower_char (before 58 s) \<in> {u ''http'', u ''https''} \<and> starts_with (u ''//'') rest
       \<and> ((91 \<in> set netloc) = (93 \<in> set netloc)) \<and> (if 91 \<in> set netloc then bracketed x netloc else True)
       \<and> (list_all (\<lambda>c. c < 128) netloc \<or> compatible x netloc)
       \<and> host_of netloc \<noteq> [] \<and> 64 \<notin> set netloc \<and> starts_with (rev (u ''.torrent'')) (rev (map lower_char path))
       \<and> (port = [] \<or> list_all is_digit port \<and> dec_val port \<le> 65535))"

definition td_source :: "url_checks \<Rightarrow> json \<Rightarrow> json result" where
  "td_source x v =
     bindR (td_text v 8192 8192 False) (\<lambda>_.
     bindR (td_require (\<not> list_ex is_space (str_of v))) (\<lambda>_.
     if local_source (str_of v) then Inr v
     else if starts_with (u ''magnet:?'') (map lower_char (str_of v)) then Inr v
     else bindR (td_require (torrent_url x (str_of v))) (\<lambda>_. Inr v)))"

section \<open>Files\<close>

definition playable :: "pystr \<Rightarrow> bool" where
  "playable s \<longleftrightarrow> map lower_char (rev (before 46 (rev s))) \<in> u ` set PLAYABLE \<and> 46 \<in> set s"

definition file_row :: "json \<Rightarrow> json \<Rightarrow> json \<Rightarrow> json" where
  "file_row i n l = JObj [(u ''index'', i), (u ''name'', n), (u ''length'', l)]"

definition add_file :: "int list \<times> json list \<Rightarrow> json \<Rightarrow> (int list \<times> json list) result" where
  "add_file s row = (case s of (found, rows) \<Rightarrow>
     bindR (td_shape row [''index'', ''name'', ''length'']) (\<lambda>_.
     bindR (on row ''index'' (\<lambda>i. td_integer i 0 999999999)) (\<lambda>i.
     bindR (td_require (int_of i \<notin> set found)) (\<lambda>_.
     bindR (on row ''name'' (\<lambda>n. td_text n 4096 16384 False)) (\<lambda>n.
     bindR (td_require (playable (str_of n))) (\<lambda>_.
     bindR (on row ''length'' (\<lambda>l. td_integer l 0 MAX_SAFE)) (\<lambda>l.
       Inr (int_of i # found, rows @ [file_row i n l]))))))))"

definition td_files :: "json \<Rightarrow> json result" where
  "td_files v =
     bindR (td_require (is_list v \<and> plen (list_of v) \<le> 4096)) (\<lambda>_.
     bindR (foldR add_file ([], []) (list_of v)) (\<lambda>(_, rows). Inr (JArr rows)))"

section \<open>Catalogs\<close>

definition td_canonical :: "json \<Rightarrow> bytes result" where
  "td_canonical v = rethrow json_errors td_invalid (bindR (dumps_sorted v) utf8_encode)"

definition entry_row :: "json \<Rightarrow> json \<Rightarrow> json \<Rightarrow> json \<Rightarrow> json \<Rightarrow> json" where
  "entry_row i t c s fs =
     JObj [(u ''id'', i), (u ''title'', t), (u ''category'', c), (u ''source'', s), (u ''files'', fs)]"

definition add_torrent :: "url_checks \<Rightarrow> pystr list \<times> int \<times> json list \<Rightarrow> json \<Rightarrow> (pystr list \<times> int \<times> json list) result" where
  "add_torrent x s row = (case s of (found, n, rows) \<Rightarrow>
     bindR (td_shape row [''id'', ''title'', ''category'', ''source'', ''files'']) (\<lambda>_.
     bindR (on row ''id'' td_identifier) (\<lambda>i.
     bindR (td_require (str_of i \<notin> set found)) (\<lambda>_.
     bindR (on row ''files'' td_files) (\<lambda>fs.
     let n' = n + plen (list_of fs) in
     bindR (td_require (n' \<le> 10000)) (\<lambda>_.
     bindR (on row ''title'' td_label) (\<lambda>t.
     bindR (on row ''category'' td_label) (\<lambda>c.
     bindR (on row ''source'' (td_source x)) (\<lambda>so.
       Inr (str_of i # found, n', rows @ [entry_row i t c so fs]))))))))))"

definition catalog_of :: "json \<Rightarrow> json \<Rightarrow> json list \<Rightarrow> json" where
  "catalog_of i n rows = JObj [(u ''schema'', JInt 1), (u ''id'', i), (u ''name'', n), (u ''entries'', JArr rows)]"

definition sized :: "json \<Rightarrow> json result" where
  "sized v = bindR (td_canonical v) (\<lambda>b. bindR (check td_too_large (plen b \<le> TD_MAX_BYTES)) (\<lambda>_. Inr v))"

definition td_catalog :: "url_checks \<Rightarrow> bool \<Rightarrow> json \<Rightarrow> json result" where
  "td_catalog x allow_null v =
     (if v = JNull then bindR (td_require allow_null) (\<lambda>_. Inr JNull)
      else
        bindR (td_shape v [''schema'', ''id'', ''name'', ''entries'']) (\<lambda>_.
        bindR (on v ''schema'' (\<lambda>n. td_integer n 1 1)) (\<lambda>_.
        bindR (on v ''entries'' (\<lambda>es. td_require (is_list es \<and> plen (list_of es) \<le> 256))) (\<lambda>_.
        bindR (on v ''entries'' (\<lambda>es. foldR (add_torrent x) ([], 0, []) (list_of es))) (\<lambda>(_, _, rows).
        bindR (on v ''id'' td_identifier) (\<lambda>i.
        bindR (on v ''name'' td_label) (\<lambda>n. sized (catalog_of i n rows))))))))"

definition td_metadata :: "url_checks \<Rightarrow> json \<Rightarrow> json result" where
  "td_metadata x v =
     bindR (td_shape v [''schema'', ''source'', ''files'']) (\<lambda>_.
     bindR (on v ''schema'' (\<lambda>n. td_integer n 1 1)) (\<lambda>_.
     bindR (on v ''source'' (td_source x)) (\<lambda>so.
     bindR (on v ''files'' td_files) (\<lambda>fs.
       sized (JObj [(u ''schema'', JInt 1), (u ''source'', so), (u ''files'', fs)])))))"

text \<open>The scan of \<open>decode\<close> also refuses a bracket that closes nothing.\<close>

definition td_depth_step :: "scan_state \<Rightarrow> byte \<Rightarrow> scan_state result" where
  "td_depth_step s b =
     bindR (depth_step td_invalid 8 s b) (\<lambda>t. bindR (td_require (0 \<le> fst t)) (\<lambda>_. Inr t))"

definition td_decode :: "bytes \<Rightarrow> int \<Rightarrow> json result" where
  "td_decode raw maximum =
     bindR (check td_too_large (0 < plen raw \<and> plen raw \<le> maximum)) (\<lambda>_.
     bindR (foldR td_depth_step (0, False, False) raw) (\<lambda>_.
       rethrow is_ValueError td_invalid (loads_bytes raw)))"

section \<open>Merging and bundles\<close>

definition td_entries :: "json \<Rightarrow> json list" where
  "td_entries v = list_of (fld v ''entries'')"

definition row_id :: "json \<Rightarrow> pystr" where
  "row_id row = str_of (fld row ''id'')"

text \<open>One incoming row against the rows of the old catalog.\<close>

definition merge_torrent :: "json list \<Rightarrow> json list \<Rightarrow> json \<Rightarrow> json list result" where
  "merge_torrent old rows row =
     (case find (\<lambda>e. row_id e = row_id row) (rev old) of
        Some e \<Rightarrow> bindR (check (TorrentError ''entry_conflict'') (py_eq e row)) (\<lambda>_. Inr rows)
      | None \<Rightarrow> Inr (rows @ [row]))"

definition td_merge :: "url_checks \<Rightarrow> json \<Rightarrow> json \<Rightarrow> pystr \<Rightarrow> json result" where
  "td_merge x existing incoming mode =
     bindR (td_catalog x True existing) (\<lambda>old.
     bindR (td_catalog x False incoming) (\<lambda>new.
     bindR (td_require (mode \<in> {u ''merge'', u ''replace''})) (\<lambda>_.
     if mode = u ''replace'' \<or> old = JNull then Inr new
     else
       bindR (on old ''id'' (\<lambda>a. on new ''id'' (\<lambda>b. check (TorrentError ''catalog_mismatch'') (py_eq a b)))) (\<lambda>_.
       bindR (foldR (merge_torrent (td_entries old)) (td_entries old) (td_entries new)) (\<lambda>rows.
         td_catalog x False (put old ''entries'' (JArr rows)))))))"

definition torrent_locator_pat :: "pystr \<Rightarrow> pystr \<Rightarrow> bool" where
  "torrent_locator_pat i s \<longleftrightarrow>
     (case split_on 58 s of
        [kind, a, b, n] \<Rightarrow> kind = u ''torrent'' \<and> torrent_id_pat a \<and> torrent_id_pat b \<and> a = i
          \<and> (n = u ''0'' \<or> head_pat (\<lambda>c. is_digit c \<and> c \<noteq> 48) is_digit 8 n)
      | _ \<Rightarrow> False)"

text \<open>The codec of the favorites is an argument of the code, and of the model.\<close>

definition bundle_entry :: "pystr \<Rightarrow> json \<Rightarrow> unit result" where
  "bundle_entry i entry =
     (let locator = fld entry ''locator''; channel = (if has locator ''channelId'' then fld locator ''channelId'' else JStr []) in
      if \<not> is_str channel then Inl TypeError
      else td_require (is_lit (fld (fld entry ''origin'') ''provider'') ''torrent'' \<and> is_lit (fld locator ''kind'') ''channel''
        \<and> torrent_locator_pat i (str_of channel)))"

definition td_bundle :: "url_checks \<Rightarrow> (json \<Rightarrow> json result) \<Rightarrow> json \<Rightarrow> json result" where
  "td_bundle x favorites_codec v =
     bindR (td_shape v [''version'', ''kind'', ''catalog'', ''favorites'']) (\<lambda>_.
     bindR (on v ''version'' (\<lambda>n. td_integer n 1 1)) (\<lambda>_.
     bindR (on v ''kind'' (\<lambda>k. td_require (is_lit k ''ottplay-torrent-bundle''))) (\<lambda>_.
     bindR (on v ''catalog'' (td_catalog x False)) (\<lambda>selected.
     bindR (on v ''favorites'' favorites_codec) (\<lambda>favorite.
     bindR (forR (bundle_entry (str_of (fld selected ''id''))) (list_of (fld favorite ''entries''))) (\<lambda>_.
       Inr (JObj [(u ''version'', JInt 1), (u ''kind'', lit ''ottplay-torrent-bundle''), (u ''catalog'', selected),
         (u ''favorites'', favorite)])))))))"

text \<open>\<open>safe_display\<close>; \<open>hidden\<close> tells the characters whose category starts with C.\<close>

definition safe_display :: "(int \<Rightarrow> bool) \<Rightarrow> pystr \<Rightarrow> pystr" where
  "safe_display hidden v =
     (let shown = filter (\<lambda>c. \<not> hidden c) v;
          clean = rev (dropWhile is_space (rev (dropWhile is_space shown)));
          low = map lower_char clean
      in if contains_sub (u ''://'') clean \<or> starts_with (u ''magnet:'') low \<or> starts_with (u ''ottplay-'') low
           \<or> list_ex (\<lambda>p. starts_with p clean) [[47], [92], [126, 47], [126, 92]]
           \<or> (case clean of c # d # e # _ \<Rightarrow> (is_lower c \<or> is_upper c) \<and> d = 58 \<and> (e = 47 \<or> e = 92) | _ \<Rightarrow> False)
         then u ''[private label]'' else clean)"

end
