(* ===== verification/TorrentDocumentProps.thy ===== *)
theory TorrentDocumentProps
  imports TorrentDocument TransferErrors
begin

text \<open>
  The properties of \<open>src/cli/torrent_document.py\<close>: a catalog that is accepted is in normal form and within its
  bounds, and a merge keeps every entry of both catalogs.
\<close>

section \<open>Loops that normalize rows\<close>

text \<open>
  A step of a loop over rows appends one row to its output. The row is \<^emph>\<open>settled\<close> when the step appends it
  as it is, whatever came before it.
\<close>

definition settled :: "('s \<Rightarrow> json \<Rightarrow> 's result) \<Rightarrow> ('s \<Rightarrow> json list) \<Rightarrow> json \<Rightarrow> bool" where
  "settled step out w \<longleftrightarrow> (\<forall>s s'. step s w = Inr s' \<longrightarrow> out s' = out s @ [w])"

lemma fold_settles:
  assumes "\<And>s v s'. step s v = Inr s' \<Longrightarrow> \<exists>w. out s' = out s @ [w] \<and> step s w = Inr s' \<and> settled step out w"
    and "foldR step s vs = Inr s'"
  shows "\<exists>ws. out s' = out s @ ws \<and> length ws = length vs \<and> foldR step s ws = Inr s' \<and> list_all (settled step out) ws"
  using assms(2)
proof (induction vs arbitrary: s)
  case (Cons v vs)
  then obtain t where t: "step s v = Inr t" "foldR step t vs = Inr s'" by (auto simp: foldR_Cons_ok)
  from assms(1) [OF t(1)] obtain w where "out t = out s @ [w]" "step s w = Inr t" "settled step out w" by blast
  moreover from Cons.IH [OF t(2)] obtain ws where "out s' = out t @ ws" "length ws = length vs"
    "foldR step t ws = Inr s'" "list_all (settled step out) ws" by blast
  ultimately show ?case by (intro exI [of _ "w # ws"]) (simp add: foldR_Cons_ok)
qed (simp add: foldR_Nil_ok)

lemma fold_settled:
  "foldR step s ws = Inr s' \<Longrightarrow> list_all (settled step out) ws \<Longrightarrow> out s' = out s @ ws"
proof (induction ws arbitrary: s)
  case (Cons w ws)
  then obtain t where t: "step s w = Inr t" "foldR step t ws = Inr s'" by (auto simp: foldR_Cons_ok)
  have "out t = out s @ [w]" using Cons.prems(2) t(1) by (simp add: settled_def)
  with Cons.IH [OF t(2)] Cons.prems(2) show ?case by simp
qed (simp add: foldR_Nil_ok)

section \<open>Checks\<close>

lemma td_require_ok [ok_iff]: "td_require c = Inr y \<longleftrightarrow> c"
  by (simp add: td_require_def ok_iff)

lemma td_shape_ok [ok_iff]: "td_shape v ks = Inr y \<longleftrightarrow> is_dict v \<and> same_keys v ks"
  by (simp add: td_shape_def ok_iff)

lemma td_integer_ok [ok_iff]: "td_integer v low high = Inr w \<longleftrightarrow> w = v \<and> (\<exists>i. v = JInt i \<and> low \<le> i \<and> i \<le> high)"
  by (auto simp: td_integer_def ok_iff)

text \<open>The texts that pass: they are returned as they are.\<close>

definition text_fits :: "json \<Rightarrow> int \<Rightarrow> int \<Rightarrow> bool \<Rightarrow> bool" where
  "text_fits v units byte_limit trimmed \<longleftrightarrow> td_text v units byte_limit trimmed = Inr v"

lemma td_text_ok [ok_iff]: "td_text v m n b = Inr w \<longleftrightarrow> w = v \<and> text_fits v m n b"
  by (auto simp: text_fits_def td_text_def ok_iff)

lemma td_label_ok [ok_iff]: "td_label v = Inr w \<longleftrightarrow> w = v \<and> text_fits v 256 1024 True"
  by (simp add: td_label_def td_text_ok)

lemma td_identifier_ok [ok_iff]: "td_identifier v = Inr w \<longleftrightarrow> w = v \<and> (\<exists>s. v = JStr s \<and> torrent_id_pat s)"
  by (auto simp: td_identifier_def ok_iff)

definition source_fits :: "url_checks \<Rightarrow> json \<Rightarrow> bool" where
  "source_fits x v \<longleftrightarrow> td_source x v = Inr v"

lemma td_source_ok [ok_iff]: "td_source x v = Inr w \<longleftrightarrow> w = v \<and> source_fits x v"
  by (auto simp: source_fits_def td_source_def ok_iff)

section \<open>Rows\<close>

lemma file_row_fields [simp]:
  "fld (file_row i n l) ''index'' = i" "fld (file_row i n l) ''name'' = n" "fld (file_row i n l) ''length'' = l"
  "is_dict (file_row i n l)" "same_keys (file_row i n l) [''index'', ''name'', ''length'']"
  "has (file_row i n l) ''index''" "has (file_row i n l) ''name''" "has (file_row i n l) ''length''"
  by (simp_all add: file_row_def fld_def same_keys_def has_def keys_of_def u_def)

lemma entry_row_fields [simp]:
  "fld (entry_row i t c s fs) ''id'' = i" "fld (entry_row i t c s fs) ''title'' = t" "fld (entry_row i t c s fs) ''category'' = c"
  "fld (entry_row i t c s fs) ''source'' = s" "fld (entry_row i t c s fs) ''files'' = fs" "is_dict (entry_row i t c s fs)"
  "same_keys (entry_row i t c s fs) [''id'', ''title'', ''category'', ''source'', ''files'']"
  "has (entry_row i t c s fs) ''id''" "has (entry_row i t c s fs) ''title''" "has (entry_row i t c s fs) ''category''"
  "has (entry_row i t c s fs) ''source''" "has (entry_row i t c s fs) ''files''"
  by (simp_all add: entry_row_def fld_def same_keys_def has_def keys_of_def u_def)

lemma catalog_fields [simp]:
  "fld (catalog_of i n rows) ''schema'' = JInt 1" "fld (catalog_of i n rows) ''id'' = i" "fld (catalog_of i n rows) ''name'' = n"
  "fld (catalog_of i n rows) ''entries'' = JArr rows" "is_dict (catalog_of i n rows)"
  "same_keys (catalog_of i n rows) [''schema'', ''id'', ''name'', ''entries'']"
  "has (catalog_of i n rows) ''schema''" "has (catalog_of i n rows) ''id''" "has (catalog_of i n rows) ''name''"
  "has (catalog_of i n rows) ''entries''" "catalog_of i n rows \<noteq> JNull" "td_entries (catalog_of i n rows) = rows"
  by (simp_all add: catalog_of_def fld_def same_keys_def has_def keys_of_def u_def td_entries_def)

lemma add_file_row:
  assumes "add_file s row = Inr s'"
  obtains i n l where "s' = (int_of i # fst s, snd s @ [file_row i n l])" "add_file s (file_row i n l) = Inr s'"
    "int_of i \<notin> set (fst s)"
proof -
  obtain found rows where s: "s = (found, rows)" by (cases s)
  from assms obtain i n l where "s' = (int_of i # found, rows @ [file_row i n l])" "int_of i \<notin> set found"
      "td_integer i 0 999999999 = Inr i" "text_fits n 4096 16384 False" "playable (str_of n)" "td_integer l 0 MAX_SAFE = Inr l"
    by (auto simp: add_file_def s ok_iff)
  with that [of i n l] show ?thesis by (auto simp: s add_file_def on_has ok_iff)
qed

lemma add_file_settles:
  assumes "add_file s row = Inr s'"
  shows "\<exists>w. snd s' = snd s @ [w] \<and> add_file s w = Inr s' \<and> settled add_file snd w"
proof -
  obtain i n l where w: "s' = (int_of i # fst s, snd s @ [file_row i n l])" "add_file s (file_row i n l) = Inr s'"
    by (rule add_file_row [OF assms])
  have "snd t' = snd t @ [file_row i n l]" if "add_file t (file_row i n l) = Inr t'" for t t'
    using that by (cases t) (auto simp: add_file_def ok_iff on_has)
  with w show ?thesis by (intro exI [of _ "file_row i n l"]) (auto simp: settled_def)
qed

lemma td_files_settled:
  assumes "td_files v = Inr fs"
  shows "td_files fs = Inr fs" and "is_list fs"
proof -
  from assms obtain s where l: "is_list v" "plen (list_of v) \<le> 4096" and f: "foldR add_file ([], []) (list_of v) = Inr s"
    and fs: "fs = JArr (snd s)" by (auto simp: td_files_def ok_iff)
  from fold_settles [of add_file snd, OF add_file_settles f] obtain ws where
    ws: "snd s = ws" "length ws = length (list_of v)" "foldR add_file ([], []) ws = Inr s" by auto
  with l show "td_files fs = Inr fs" "is_list fs" by (auto simp: td_files_def fs ok_iff plen_def split: prod.split)
qed

abbreviation torrent_rows :: "pystr list \<times> int \<times> json list \<Rightarrow> json list" where
  "torrent_rows s \<equiv> snd (snd s)"

lemma add_torrent_row:
  assumes "add_torrent x s row = Inr s'"
  obtains i t c so fs where "is_str i"
    "s' = (str_of i # fst s, fst (snd s) + plen (list_of fs), torrent_rows s @ [entry_row i t c so fs])"
    "add_torrent x s (entry_row i t c so fs) = Inr s'" "str_of i \<notin> set (fst s)" "fst (snd s) + plen (list_of fs) \<le> 10000"
    "td_files fs = Inr fs"
proof -
  obtain found n rows where s: "s = (found, n, rows)" by (cases s)
  let ?i = "fld row ''id''" and ?t = "fld row ''title''" and ?c = "fld row ''category''" and ?so = "fld row ''source''"
  from assms obtain fs where v: "td_files (fld row ''files'') = Inr fs"
    and row: "s' = (str_of ?i # found, n + plen (list_of fs), rows @ [entry_row ?i ?t ?c ?so fs])"
      "td_identifier ?i = Inr ?i" "str_of ?i \<notin> set found" "n + plen (list_of fs) \<le> 10000" "text_fits ?t 256 1024 True"
      "text_fits ?c 256 1024 True" "source_fits x ?so"
    by (auto simp: add_torrent_def s ok_iff Let_def)
  from td_files_settled(1) [OF v] have fs: "td_files fs = Inr fs" .
  with row have "add_torrent x s (entry_row ?i ?t ?c ?so fs) = Inr s'"
    by (auto simp: s add_torrent_def on_has bindR_ok td_shape_ok td_require_ok td_label_ok td_source_ok Let_def)
  moreover have "is_str ?i" using row(2) by (auto simp: ok_iff)
  ultimately show ?thesis using that [of ?i fs ?t ?c ?so] row(1,3,4) fs by (simp add: s)
qed

lemma add_torrent_settled:
  assumes "td_files fs = Inr fs"
  shows "settled (add_torrent x) torrent_rows (entry_row i t c so fs)"
  using assms by (auto simp: settled_def add_torrent_def on_has ok_iff Let_def)

lemma add_torrent_settles:
  assumes "add_torrent x s row = Inr s'"
  shows "\<exists>w. torrent_rows s' = torrent_rows s @ [w] \<and> add_torrent x s w = Inr s' \<and> settled (add_torrent x) torrent_rows w"
proof -
  obtain i t c so fs where "s' = (str_of i # fst s, fst (snd s) + plen (list_of fs), torrent_rows s @ [entry_row i t c so fs])"
    "add_torrent x s (entry_row i t c so fs) = Inr s'" "td_files fs = Inr fs"
    by (rule add_torrent_row [OF assms])
  then show ?thesis by (intro exI [of _ "entry_row i t c so fs"]) (simp add: add_torrent_settled)
qed

text \<open>What the loop has counted.\<close>

definition file_count :: "json \<Rightarrow> int" where
  "file_count row = plen (list_of (fld row ''files''))"

definition counted :: "pystr list \<times> int \<times> json list \<Rightarrow> bool" where
  "counted s \<longleftrightarrow> (case s of (found, n, rows) \<Rightarrow>
     found = rev (map row_id rows) \<and> distinct found \<and> n = sum_list (map file_count rows) \<and> n \<le> 10000)"

lemma add_torrent_counted: "counted s \<Longrightarrow> add_torrent x s row = Inr s' \<Longrightarrow> counted s'"
  by (erule add_torrent_row) (cases s, auto simp: counted_def row_id_def file_count_def)

section \<open>Catalogs\<close>

definition catalog_form :: "url_checks \<Rightarrow> json \<Rightarrow> json list \<Rightarrow> bool" where
  "catalog_form x r rows \<longleftrightarrow>
     (\<exists>i n s b. r = catalog_of i n rows \<and> td_identifier i = Inr i \<and> td_label n = Inr n \<and> plen rows \<le> 256
       \<and> foldR (add_torrent x) ([], 0, []) rows = Inr s \<and> torrent_rows s = rows \<and> counted s
       \<and> list_all (settled (add_torrent x) torrent_rows) rows \<and> td_canonical r = Inr b \<and> plen b \<le> TD_MAX_BYTES)"

lemma td_catalog_form:
  assumes "td_catalog x allow v = Inr r" "v \<noteq> JNull"
  shows "\<exists>rows. catalog_form x r rows"
proof -
  let ?i = "fld v ''id''" and ?n = "fld v ''name''"
  from assms obtain s where es: "is_list (fld v ''entries'')" "plen (list_of (fld v ''entries'')) \<le> 256"
    and f: "foldR (add_torrent x) ([], 0, []) (list_of (fld v ''entries'')) = Inr s"
    and in': "td_identifier ?i = Inr ?i" "td_label ?n = Inr ?n" and r: "sized (catalog_of ?i ?n (torrent_rows s)) = Inr r"
    by (auto simp: td_catalog_def bindR_ok td_shape_ok td_require_ok on_ok td_identifier_ok td_label_ok split: if_splits)
  from fold_settles [of "add_torrent x" torrent_rows, OF add_torrent_settles f] obtain ws where
    ws: "torrent_rows s = ws" "length ws = length (list_of (fld v ''entries''))" "foldR (add_torrent x) ([], 0, []) ws = Inr s"
      "list_all (settled (add_torrent x) torrent_rows) ws" by auto
  have "counted s" using f by (rule foldR_invariant) (simp add: counted_def, simp add: add_torrent_counted)
  moreover obtain b where "td_canonical (catalog_of ?i ?n ws) = Inr b" "plen b \<le> TD_MAX_BYTES" "r = catalog_of ?i ?n ws"
    using r ws(1) by (auto simp: sized_def ok_iff)
  ultimately have "catalog_form x r ws"
    unfolding catalog_form_def using ws es(2) in'
    by (intro exI [of _ ?i] exI [of _ ?n] exI [of _ s] exI [of _ b]) (simp add: plen_def)
  then show ?thesis by blast
qed

lemma catalog_form_valid: "catalog_form x r rows \<Longrightarrow> td_catalog x allow r = Inr r"
  by (auto simp: catalog_form_def td_catalog_def sized_def on_has bindR_ok td_shape_ok td_require_ok check_ok td_integer_ok
      split: prod.split)

lemma catalog_form_null: "catalog_form x r rows \<Longrightarrow> r \<noteq> JNull \<and> td_entries r = rows"
  by (auto simp: catalog_form_def)

section \<open>What can be raised\<close>

fun is_TorrentError :: "exn \<Rightarrow> bool" where
  "is_TorrentError (TorrentError _) = True"
| "is_TorrentError _ = False"

abbreviation torrent_only :: "'a result \<Rightarrow> bool" where
  "torrent_only \<equiv> raises_only is_TorrentError"

lemma td_primitives [raises]:
  "torrent_only (td_require c)" "torrent_only (td_shape v ks)" "torrent_only (td_integer v low high)" "torrent_only (td_identifier v)"
  by (auto simp: td_require_def td_shape_def td_integer_def td_identifier_def shape_def integer_def pattern_def intro!: raises)

lemma torrent_on: "has v k \<Longrightarrow> torrent_only (f (fld v k)) \<Longrightarrow> torrent_only (on v k f)"
  by (simp add: on_has)

lemma td_text_closed [raises]: "torrent_only (td_text v m n b)"
proof -
  have "raises_only (\<lambda>e. e = UnicodeError \<or> is_TorrentError e) (utf8_encode s)"
    "raises_only (\<lambda>e. e = UnicodeError \<or> is_TorrentError e) (utf16_units s)"
    "raises_only (\<lambda>e. e = UnicodeError \<or> is_TorrentError e) (td_require c)" for s c
    by (rule raises_only_mono [OF utf8_encode_raises] raises_only_mono [OF td_primitives(1)], simp)
      (auto simp: utf16_units_def intro: raises_only_mono [OF td_primitives(1)])
  then show ?thesis
    unfolding td_text_def by (intro raises raises_only_rethrow raises_only_bindR raises_only_if) auto
qed

lemma td_label_closed [raises]: "torrent_only (td_label v)"
  unfolding td_label_def by (rule raises)

lemma td_source_closed [raises]: "torrent_only (td_source x v)"
  unfolding td_source_def by (intro raises)

lemma add_file_closed: "torrent_only (add_file s row)"
  unfolding add_file_def
  by (auto simp: td_shape_ok same_keys_def intro!: raises torrent_on split: prod.split)

lemma td_files_closed [raises]: "torrent_only (td_files v)"
  unfolding td_files_def by (auto intro!: raises raises_foldR add_file_closed split: prod.split)

lemma add_torrent_closed: "torrent_only (add_torrent x s row)"
  unfolding add_torrent_def Let_def
  by (auto simp: td_shape_ok same_keys_def intro!: raises torrent_on split: prod.split)

lemma sized_closed [raises]: "torrent_only (sized v)"
proof -
  have "raises_only (\<lambda>e. json_errors e \<or> is_TorrentError e) (dumps_sorted v)"
    unfolding dumps_sorted_def by (rule raises_only_mono [OF dumps_compact_raises]) (simp add: json_errors_def)
  moreover have "raises_only (\<lambda>e. json_errors e \<or> is_TorrentError e) (utf8_encode b)" for b
    by (rule raises_only_mono [OF utf8_encode_raises]) (simp add: json_errors_def)
  ultimately have "raises_only (\<lambda>e. json_errors e \<or> is_TorrentError e) (bindR (dumps_sorted v) utf8_encode)"
    by (rule raises_only_bindR)
  then have "torrent_only (td_canonical v)" unfolding td_canonical_def by (intro raises_only_rethrow) simp_all
  then show ?thesis unfolding sized_def by (intro raises_only_bindR raises_only_check raises_only_Inr) simp_all
qed

lemma td_catalog_closed [raises]: "torrent_only (td_catalog x allow v)"
  unfolding td_catalog_def
  by (auto simp: td_shape_ok same_keys_def intro!: raises torrent_on raises_foldR add_torrent_closed split: prod.split)

text \<open>
  C29: A catalog that is accepted is in normal form: validating it again gives the same catalog. It has at
  most 256 entries with pairwise distinct ids and at most 10000 files together, and its canonical bytes are at
  most eight MiB. Whatever is not accepted is refused with the module's own error.
\<close>

theorem catalog_normal_form:
  "case td_catalog x allow v of
     Inl e \<Rightarrow> is_TorrentError e
   | Inr r \<Rightarrow> td_catalog x allow r = Inr r \<and>
       (if v = JNull then r = JNull
        else plen (td_entries r) \<le> 256 \<and> distinct (map row_id (td_entries r))
          \<and> sum_list (map file_count (td_entries r)) \<le> 10000
          \<and> (\<exists>b. td_canonical r = Inr b \<and> plen b \<le> TD_MAX_BYTES))"
proof (cases "td_catalog x allow v")
  case (Inl e)
  then show ?thesis using raises_onlyD [OF td_catalog_closed] by simp
next
  case (Inr r)
  show ?thesis
  proof (cases "v = JNull")
    case True
    with Inr have "r = JNull" by (auto simp: td_catalog_def ok_iff)
    with Inr True show ?thesis by (simp add: Inr)
  next
    case False
    from td_catalog_form [OF Inr False] obtain rows where c: "catalog_form x r rows" by blast
    show ?thesis
      using Inr False catalog_form_valid [OF c] catalog_form_null [OF c] c
      by (auto simp: catalog_form_def counted_def split: prod.splits)
  qed
qed

section \<open>Merging\<close>

definition agrees :: "json \<Rightarrow> json \<Rightarrow> bool" where
  "agrees row e \<longleftrightarrow> (if row_id e = row_id row then py_eq e row else True)"

lemma find_distinct:
  "distinct (map f xs) \<Longrightarrow> e \<in> set xs \<Longrightarrow> find (\<lambda>y. f y = f e) xs = Some e"
  by (induction xs) (auto simp: image_iff)

lemma merge_torrent_row:
  assumes "distinct (map row_id old)"
  shows "merge_torrent old rows row = Inr rows' \<longleftrightarrow>
    list_all (agrees row) old \<and> rows' = rows @ (if row_id row \<in> row_id ` set old then [] else [row])"
proof (cases "row_id row \<in> row_id ` set old")
  case True
  then obtain e where e: "e \<in> set old" "row_id e = row_id row" by auto
  have "find (\<lambda>y. row_id y = row_id e) (rev old) = Some e"
    using assms e(1) by (intro find_distinct) (simp_all add: rev_map [symmetric])
  then have f: "find (\<lambda>y. row_id y = row_id row) (rev old) = Some e" using e(2) by simp
  have only: "e' = e" if "e' \<in> set old" "row_id e' = row_id row" for e'
  proof (rule inj_onD)
    show "inj_on row_id (set old)" using assms by (simp add: distinct_map)
    show "row_id e' = row_id e" using that(2) e(2) by (rule trans [OF _ sym])
  qed (use that(1) e(1) in simp_all)
  have "list_all (agrees row) old \<longleftrightarrow> py_eq e row"
  proof
    assume "list_all (agrees row) old"
    then have "agrees row e" using e(1) by (simp add: list_all_iff)
    then show "py_eq e row" using e(2) by (simp add: agrees_def)
  next
    assume "py_eq e row"
    then show "list_all (agrees row) old" using only by (fastforce simp: list_all_iff agrees_def)
  qed
  with f True show ?thesis by (auto simp: merge_torrent_def ok_iff)
next
  case False
  then have "find (\<lambda>y. row_id y = row_id row) (rev old) = None" by (auto simp: find_None_iff image_iff)
  moreover have "list_all (agrees row) old" using False by (auto simp: list_all_iff agrees_def image_iff)
  ultimately show ?thesis using False by (auto simp: merge_torrent_def)
qed

lemma merge_torrent_rows:
  assumes "distinct (map row_id old)"
  shows "foldR (merge_torrent old) rows new = Inr rows' \<longleftrightarrow>
    list_all (\<lambda>row. list_all (agrees row) old) new \<and> rows' = rows @ filter (\<lambda>row. row_id row \<notin> row_id ` set old) new"
  by (induction new arbitrary: rows)
    (auto simp: foldR_Nil_ok foldR_Cons_ok merge_torrent_row [OF assms])

lemma put_entries: "put (catalog_of i n rows) ''entries'' (JArr rows') = catalog_of i n rows'"
  by (simp add: put_def catalog_of_def u_def)

lemma catalog_of_settled:
  assumes "td_catalog x allow (catalog_of i n rows) = Inr r" "list_all (settled (add_torrent x) torrent_rows) rows"
  shows "r = catalog_of i n rows"
proof -
  from assms(1) obtain s where "foldR (add_torrent x) ([], 0, []) rows = Inr s" "r = catalog_of i n (torrent_rows s)"
    by (auto simp: td_catalog_def sized_def on_has bindR_ok td_shape_ok td_require_ok check_ok td_identifier_ok td_label_ok)
  with fold_settled [OF this(1) assms(2)] show ?thesis by simp
qed

lemma td_merge_closed: "torrent_only (td_merge x existing incoming mode)"
proof -
  have rest: "torrent_only (bindR (td_require (mode \<in> {u ''merge'', u ''replace''})) (\<lambda>_. if mode = u ''replace'' \<or> old = JNull then Inr new
     else
       bindR (on old ''id'' (\<lambda>a. on new ''id'' (\<lambda>b. check (TorrentError ''catalog_mismatch'') (py_eq a b)))) (\<lambda>_.
       bindR (foldR (merge_torrent (td_entries old)) (td_entries old) (td_entries new)) (\<lambda>rows.
         td_catalog x False (put old ''entries'' (JArr rows))))))"
    if o: "td_catalog x True existing = Inr old" and n: "td_catalog x False incoming = Inr new" for old new
  proof -
    have "incoming \<noteq> JNull" using n by (auto simp: td_catalog_def ok_iff)
    then have "has new ''id''" using td_catalog_form [OF n] by (auto simp: catalog_form_def)
    moreover have "old = JNull \<or> has old ''id''"
      using td_catalog_form [OF o] o by (auto simp: catalog_form_def td_catalog_def ok_iff split: if_splits)
    ultimately show ?thesis
      by (auto simp: merge_torrent_def intro!: raises_only_bindR raises torrent_on raises_foldR split: option.split)
  qed
  show ?thesis
    unfolding td_merge_def
    by (rule raises_only_bindR [OF td_catalog_closed], rule raises_only_bindR [OF td_catalog_closed], rule rest)
qed

text \<open>
  C15: A merge keeps every entry of both catalogs. It fails with the module's own error, or its result is a
  catalog in normal form: the incoming one, for a replacement or when there was none; else the old one, of the
  same id and name, with all its entries in their order, followed by the incoming entries whose ids are new,
  in theirs; and every incoming entry with an old id is equal to the old one.
\<close>

theorem merge_keeps_entries:
  "case td_merge x existing incoming mode of
     Inl e \<Rightarrow> is_TorrentError e
   | Inr r \<Rightarrow> \<exists>old new. td_catalog x True existing = Inr old \<and> td_catalog x False incoming = Inr new
       \<and> td_catalog x False r = Inr r \<and>
       (if mode = u ''replace'' \<or> old = JNull then r = new
        else fld r ''id'' = fld old ''id'' \<and> fld r ''name'' = fld old ''name'' \<and> fld new ''id'' = fld old ''id''
          \<and> td_entries r = td_entries old @ filter (\<lambda>row. row_id row \<notin> row_id ` set (td_entries old)) (td_entries new)
          \<and> list_all (\<lambda>row. list_all (agrees row) (td_entries old)) (td_entries new))"
proof (cases "td_merge x existing incoming mode")
  case (Inl e)
  then show ?thesis using raises_onlyD [OF td_merge_closed] by simp
next
  case (Inr r)
  then obtain old new where old: "td_catalog x True existing = Inr old" and new: "td_catalog x False incoming = Inr new"
    and r: "if mode = u ''replace'' \<or> old = JNull then r = new
      else py_eq (fld old ''id'') (fld new ''id'') \<and> (\<exists>rows. foldR (merge_torrent (td_entries old)) (td_entries old) (td_entries new) = Inr rows
        \<and> td_catalog x False (put old ''entries'' (JArr rows)) = Inr r)"
    by (auto simp: td_merge_def ok_iff split: if_splits)
  have "incoming \<noteq> JNull" using new by (auto simp: td_catalog_def ok_iff)
  then obtain news where fn: "catalog_form x new news" using td_catalog_form [OF new] by blast
  show ?thesis
  proof (cases "mode = u ''replace'' \<or> old = JNull")
    case True
    then show ?thesis using Inr old new r catalog_form_valid [OF fn] by auto
  next
    case False
    then have "existing \<noteq> JNull" using old by (auto simp: td_catalog_def ok_iff)
    then obtain olds where fo: "catalog_form x old olds" using td_catalog_form [OF old] by blast
    then obtain i n where o: "old = catalog_of i n olds" "td_identifier i = Inr i"
      and d: "distinct (map row_id olds)" "list_all (settled (add_torrent x) torrent_rows) olds"
      by (auto simp: catalog_form_def counted_def split: prod.splits)
    from fn obtain j m where w: "new = catalog_of j m news" "td_identifier j = Inr j"
      and ns: "list_all (settled (add_torrent x) torrent_rows) news"
      by (auto simp: catalog_form_def)
    let ?rows = "olds @ filter (\<lambda>row. row_id row \<notin> row_id ` set olds) news"
    have m: "list_all (\<lambda>row. list_all (agrees row) olds) news" "td_catalog x False (catalog_of i n ?rows) = Inr r" "py_eq i j"
      using r False merge_torrent_rows [OF d(1), of olds news] by (auto simp: o(1) w(1) put_entries)
    have "list_all (settled (add_torrent x) torrent_rows) ?rows" using d(2) ns by (auto simp: list_all_iff)
    from catalog_of_settled [OF m(2) this] have "r = catalog_of i n ?rows" .
    moreover have "j = i" using m(3) o(2) w(2) by (auto simp: td_identifier_ok py_eq_JStr)
    ultimately show ?thesis using Inr old new False m(1,2) by (simp add: o(1) w(1))
  qed
qed

end
