(* ===== verification/Spec2Isabelle.thy ===== *)
theory Spec2Isabelle
  imports
    FavTransferProps FavDocumentProps FavProtocolProps FavRecoveryProps
    GlobalDocumentProps GlobalProtocolProps GlobalExportProps GlobalPreviewProps
    RemoteProps GlobalItemsProps RemoteFavoritesProps RemoteGlobalProps
    GlobalRecoveryProps GlobalRecoveryErrors PlayerGroupsProps TorrentDocumentProps
begin

text \<open>
  A verification development for the favorites, player-group and torrent-document subsystems of the command-line
  client of the control server, the Python modules under \<open>src/cli/\<close>. They move a user's favorites to and from a player
  through a controller that queues requests; what they promise is that nothing is lost or written twice when
  a player, the controller or the network misbehaves.

  \<^bold>\<open>The program.\<close> A \<^emph>\<open>document\<close> of favorites is a JSON value in a canonical form: one document for each scope
  (\<open>favorites_document.py\<close>) or one list across all providers (\<open>global_favorites_document.py\<close>). Bytes travel in
  bounded, digested chunks (\<open>favorites_transfer.py\<close>). A \<^emph>\<open>protocol\<close> module validates each request before it is
  sent and each answer against its request and against a retained context, and makes the digests that bind
  them (\<open>favorites_protocol.py\<close>, \<open>global_favorites_protocol.py\<close>, \<open>global_favorites_items.py\<close>,
  \<open>global_favorites_recovery.py\<close>). A \<^emph>\<open>peer\<close> is a protocol over \<open>_RequestTransport\<close> of
  \<open>favorites_remote.py\<close>, which POSTs a request once and polls for its result under one deadline with paced calls.
  The \<^emph>\<open>adapters\<close> \<open>RemoteFavorites\<close> (\<open>favorites_remote.py\<close>) and \<open>RemoteGlobalFavorites\<close>
  (\<open>global_favorites_remote.py\<close>) stage a transfer, show a preview, save a recovery record, commit once and
  reconcile. \<open>player_groups.py\<close> resolves which players a command goes to. \<open>torrent_document.py\<close> validates and
  merges the catalogs that torrent favorites refer to.

  \<^bold>\<open>The ground.\<close> \<open>Prelude\<close>: exceptions, results (\<open>exn + 'a\<close>), checks and loops that raise, the rules collected
  in \<open>ok_iff\<close> (when code returns) and \<open>raises\<close> (which exceptions it lets through). \<open>PyText\<close>, \<open>PyFloat\<close>,
  \<open>PyJson\<close>, \<open>PyTime\<close>: strings as code points with UTF-8 and its surrogates, binary64 floats, \<open>json.loads\<close> and
  \<open>json.dumps\<close>, RFC 3339 timestamps. \<open>Digest\<close>: SHA-256 and base64 on words and bytes. \<open>JsonReal\<close>,
  \<open>JsonRoundtrip\<close>, \<open>JsonSize\<close>, \<open>JsonDepth\<close>: parsing inverts serialising, the size of a serialised value and the
  depth scan. \<open>Effects\<close>: code with a state, where an exception keeps the effects made before it.

  \<^bold>\<open>The components.\<close> In each, the definitions follow the functions of the source, under the source's names with
  the prefix of their module; a helper of a few lines of one function stands before it.
  \<^item> \<open>FavTransfer\<close>, \<open>TransferBudget\<close> (\<open>favorites_transfer.py\<close>); \<open>FavEnvelopes\<close> and \<open>TransferErrors\<close> hold lemmas.
    \<open>FavTransferProps\<close>: packing is lossless, succeeds whenever it may, and envelopes read back; an accepted
    budget covers every command.
  \<^item> \<open>FavDocument\<close> (\<open>favorites_document.py\<close>), with \<open>FavDocumentLaws\<close>, \<open>FavPlanLaws\<close>, \<open>FavClearLaws\<close>.
    \<open>FavDocumentProps\<close>: the size traversal is exact, validation is a canonical form, a merge keeps what was
    saved, plans select the first document of a scope, importing again changes nothing, clearing empties.
  \<^item> \<open>FavProtocol\<close>, \<open>FavProtocolResult\<close> (\<open>favorites_protocol.py\<close>), with \<open>FavProtocolLaws\<close>, \<open>FavProtocolErrors\<close>,
    \<open>FavProtocolClosed\<close>, \<open>FavProtocolSamples\<close>. \<open>FavProtocolProps\<close>, \<open>FavRecoveryProps\<close>: a verified result carries
    the receipt of the retained context, a restarted context has less authority, only the module's own error
    is raised, snapshots and recovery digests are exact, a binding catalog is a forest.
  \<^item> \<open>GlobalDocument\<close> (\<open>global_favorites_document.py\<close>), with \<open>GlobalDocumentLaws\<close>, \<open>GlobalMergeLaws\<close>.
    \<open>GlobalDocumentProps\<close>: validation agrees with a declarative specification, canonical bytes read back, and
    the merge loop refines the union in which the first row of an identity wins.
  \<^item> \<open>GlobalProtocol\<close>, \<open>GlobalProtocolResult\<close> (\<open>global_favorites_protocol.py\<close>), with \<open>GlobalProtocolLaws\<close>,
    \<open>GlobalSamples\<close>. \<open>GlobalProtocolProps\<close>, \<open>GlobalExportProps\<close>, \<open>GlobalPreviewProps\<close>: receipts are bound, a begin
    spends its grant, an export is the described document, a preview lists every entry once.
  \<^item> \<open>RemoteTransport\<close> (\<open>_RequestTransport\<close>), with \<open>RemotePacing\<close>, \<open>RemoteRuns\<close>, \<open>RemoteDeadline\<close>, \<open>RemoteSamples\<close>.
    Its state \<open>wire_state\<close> holds the deadline, the times of past calls and the log of calls and receipt notes.
    \<open>RemoteProps\<close>: calls are paced in every reachable state, a request is POSTed once, a request ends.
  \<^item> \<open>RemoteFavorites\<close> (\<open>RemoteFavorites\<close>, \<open>StatusReader\<close>, \<open>RecoveryPeer\<close>), with \<open>RemoteFavoritesLaws\<close>.
    \<open>favs_state\<close> adds the local variables of a staging, the identifiers to come and a log of what is asked and
    what the storage has confirmed. \<open>RemoteFavoritesProps\<close>: one commit at most, right after its recovery record
    was kept; a preview never commits.
  \<^item> \<open>RemoteGlobal\<close> (\<open>RemoteGlobalFavorites\<close> and its \<open>StatusReader\<close>), with \<open>RemoteGlobalLaws\<close>.
    \<open>RemoteGlobalProps\<close>: the same for an import.
  \<^item> \<open>GlobalItems\<close> (\<open>global_favorites_items.py\<close>), with \<open>GlobalItemsLaws\<close>. \<open>GlobalItemsProps\<close>: a listing is complete,
    and it is good for one dispatch.
  \<^item> \<open>GlobalRecovery\<close> (\<open>global_favorites_recovery.py\<close>), with \<open>GlobalRecoveryLaws\<close>, \<open>GlobalRecoveryAnswers\<close>.
    \<open>ledger_state\<close> holds the plans attempted and the acknowledgement lock. \<open>GlobalRecoveryProps\<close>: no plan is
    acknowledged twice in a session, a listing of the ledger is complete, a report rests on its evidence.
    \<open>GlobalRecoveryErrors\<close>: only the protocol's own error is raised.
  \<^item> \<open>PlayerGroups\<close> (\<open>player_groups.py\<close>, with \<open>Client.device\<close> and the reserved words of \<open>ott.py\<close>).
    \<open>PlayerGroupsProps\<close>: a selector reaches each device once, a command changes one group, and a saved group
    can be dispatched to.
  \<^item> \<open>TorrentDocument\<close> (\<open>torrent_document.py\<close>). \<open>TorrentDocumentProps\<close>: an accepted catalog is in normal form
    and within its bounds, and a merge keeps every entry of both catalogs.

  \<^bold>\<open>The environment.\<close> What the code asks of the outside is a script in the state: the readings of the monotonic
  clock (each with whether the group of commands is cancelled by then), the answers of the controller to HTTP
  calls, the identifiers of the id factory and the answers of the storage thread. The theorems hold for every
  script. A script that is used up raises \<open>ScriptEnd\<close>, which no handler of the code catches; \<open>request_ends\<close> shows
  how much script a request can need. Times and the seconds of the budget are exact rationals, so the rounding
  of float arithmetic is not part of the model; where the code asks whether a number is a finite float, the
  model does too.

  \<^bold>\<open>Bounds and fuel.\<close> The parser \<open>scan_val\<close> has fuel \<open>2 * length + 1\<close>, which \<open>loads_no_fuel\<close> proves enough.
  \<open>data_token\<close> has the length of the response as its fuel; \<open>data_token_ends\<close> proves that enough for any text that
  is shorter, and \<open>validate_response_raises\<close> that no response runs out of it. The loops that the source bounds (the 32 rows of a ledger in two pages, the pages of a listing) are
  recursive on the rounds left. The others (\<open>walk\<close>, \<open>poll\<close>, \<open>wait_until\<close>, \<open>export_pages\<close>, \<open>preview_pages\<close>) are
  total functions with a measure: the nodes still to visit, the script, or the offset still to reach.

  \<^bold>\<open>Interfaces.\<close> A locale states what an invariant has to satisfy to be kept by every operation of a component;
  the component's lemmas are proved in it, and the properties come from its interpretations on the model.
  \<^item> \<open>reading_kept\<close>, extended by \<open>traffic_kept\<close> (\<open>RemoteRuns\<close>): from one clock reading and one call to a whole
    request. Interpreted as \<open>same_posts\<close>, \<open>same_notes\<close>, \<open>pacing\<close> and \<open>clock_used\<close>.
  \<^item> \<open>adapter_kept\<close> (\<open>RemoteFavoritesLaws\<close>): what does not commit keeps the invariant. Interpreted as \<open>calm_log\<close>
    and \<open>paced_calls\<close>.
  \<^item> \<open>import_kept\<close> (\<open>RemoteGlobalLaws\<close>): the same for an import. Interpreted as \<open>import_log\<close>, \<open>import_pacing\<close> and
    \<open>import_target\<close>.
  \<^item> \<open>ledger_kept\<close>, extended by \<open>ledger_kept_all\<close> (\<open>GlobalRecoveryLaws\<close>): listing and inspecting, then
    acknowledging. Interpreted as \<open>ledger_log\<close> and \<open>ledger_pacing\<close>.

  \<^bold>\<open>Parameters.\<close> The Unicode data behind \<open>isprintable\<close>, \<open>isspace\<close>, \<open>casefold\<close> and \<open>strip\<close> (\<open>unicode_tables\<close>,
  \<open>text_tables\<close>), what \<open>urlsplit\<close> asks of a host in brackets or outside ASCII (\<open>url_checks\<close>), the codec of channel locators and the validator of a scope's document, which are arguments in
  the code as well.

  \<^bold>\<open>A finding.\<close> \<open>_time\<close> of \<open>global_favorites_protocol.py\<close> converts a timestamp to UTC under a handler for
  \<open>ValueError\<close> only. A timestamp of the year 1 or 9999 whose conversion leaves the years of \<open>datetime\<close> raises
  \<open>OverflowError\<close>, which leaves the module (\<open>gp_time_overflows\<close>).

  \<^bold>\<open>Not modelled.\<close> \<open>ContextStore\<close> of \<open>global_favorites_remote.py\<close> and the private stores
  (\<open>favorites_operations.py\<close>, \<open>global_favorites_operations.py\<close>, \<open>preset_favorites.py\<close>,
  \<open>preset_global_favorites.py\<close>, \<open>preset_session.py\<close>): what they promise rests on rename, fsync, link counts and
  locks of the operating system. The storage thread appears by its answers, the threads of a peer by its
  locks. The rest of \<open>ott.py\<close> and the command modules (\<open>favorites_commands.py\<close>, \<open>global_favorites_commands.py\<close>,
  \<open>global_favorites_items_commands.py\<close>): argument parsing, HTTP and WebSocket input and output, text. Player
  settings, tracks, playback, power and updates; fleet dispatch and the device registry; searches over guide and
  playlist data; the torrent commands and indexer; diagnostics, performance capture and the workbench: each is mostly input
  and output around one request, or a heuristic over fetched data. The release, build and Android scripts are no
  part of the running program; the controller is written in Go and appears by its answers. Of the modelled
  modules, the messages of errors and the layout of printed text are left out.
\<close>

end
